(* ===== verification/Velox_Prelude.thy ===== *)
theory Velox_Prelude
  imports Complex_Main "HOL-Library.AList" "HOL-Library.Word" "HOL-Library.Numeral_Type"
begin

text \<open>
  Shared vocabulary of the development: the fragment of Python that the server's code uses.

  \<^item> Text. A Python \<open>str\<close> is a \<open>string\<close>; its characters are the code points below 256.
    \<open>str_strip\<close>, \<open>str_lower\<close> and \<open>str_casefold\<close> are exact on that range, the micro sign
    excepted (its case folding leaves the range; the model keeps it).
  \<^item> Values of type \<open>Any\<close> are \<open>pyval\<close>, dictionaries are association lists whose updates keep
    the insertion order (\<open>AList.update\<close>, \<open>AList.delete\<close>), as Python's are.
  \<^item> Exceptions are values of \<open>exc\<close>, one constructor per exception class of the source. A pure
    fallible function returns \<open>exc + 'a\<close>; an operation on shared objects is a \<open>prog\<close>, which
    returns the result together with the state, so that mutations made before a \<open>raise\<close> stay.
  \<^item> \<open>datetime.now(UTC)\<close> and \<open>uuid4()\<close> are inputs: an operation takes a clock (the reading of each of its
    read sites) and the identifiers it draws.
\<close>

section \<open>Text\<close>

definition chr_code :: "char \<Rightarrow> nat" where
  "chr_code c = of_char c"

definition is_space :: "char \<Rightarrow> bool" where
  "is_space c = (let n = chr_code c in
     (9 \<le> n \<and> n \<le> 13) \<or> (28 \<le> n \<and> n \<le> 32) \<or> n = 133 \<or> n = 160)"

definition str_lstrip :: "string \<Rightarrow> string" where
  "str_lstrip s = dropWhile is_space s"

definition str_rstrip :: "string \<Rightarrow> string" where
  "str_rstrip s = rev (dropWhile is_space (rev s))"

definition str_strip :: "string \<Rightarrow> string" where
  "str_strip s = str_rstrip (str_lstrip s)"

definition chr_lower :: "char \<Rightarrow> char" where
  "chr_lower c = (let n = chr_code c in
     if (65 \<le> n \<and> n \<le> 90) \<or> (192 \<le> n \<and> n \<le> 222 \<and> n \<noteq> 215) then char_of (n + 32) else c)"

definition str_lower :: "string \<Rightarrow> string" where
  "str_lower s = map chr_lower s"

definition chr_casefold :: "char \<Rightarrow> string" where
  "chr_casefold c = (if chr_code c = 223 then ''ss'' else [chr_lower c])"

definition str_casefold :: "string \<Rightarrow> string" where
  "str_casefold s = concat (map chr_casefold s)"

text \<open>\<open>not value.strip()\<close>: the text is empty or all white space.\<close>

definition str_blank :: "string \<Rightarrow> bool" where
  "str_blank s = (str_strip s = '''')"

text \<open>\<open>needle in haystack\<close> on text, and \<open>startswith\<close>.\<close>

fun str_startswith :: "string \<Rightarrow> string \<Rightarrow> bool" where
  "str_startswith s [] = True"
| "str_startswith [] (p # ps) = False"
| "str_startswith (c # s) (p # ps) = (c = p \<and> str_startswith s ps)"

fun str_contains :: "string \<Rightarrow> string \<Rightarrow> bool" where
  "str_contains needle [] = (needle = [])"
| "str_contains needle (c # s) = (str_startswith (c # s) needle \<or> str_contains needle s)"

lemma str_startswith_append: "str_startswith s p \<longleftrightarrow> (\<exists>t. s = p @ t)"
  by (induction s p rule: str_startswith.induct) auto

lemma str_contains_iff: "str_contains n s \<longleftrightarrow> (\<exists>a b. s = a @ n @ b)"
proof (induction n s rule: str_contains.induct)
  case (1 n)
  then show ?case by auto
next
  case (2 n c s)
  have "(\<exists>a b. c # s = a @ n @ b) \<longleftrightarrow> (\<exists>b. c # s = n @ b) \<or> (\<exists>a b. s = a @ n @ b)"
    by (metis append_Cons append_Nil list.exhaust list.sel(3))
  then show ?case using 2 by (simp add: str_startswith_append)
qed

lemma dropWhile_idem [simp]: "dropWhile P (dropWhile P xs) = dropWhile P xs"
  by (induction xs) auto

lemma dropWhile_snoc: "\<not> P y \<Longrightarrow> dropWhile P (zs @ [y]) = dropWhile P zs @ [y]"
  by (induction zs) auto

lemma dropWhile_rev_dropWhile:
  "dropWhile P (rev (dropWhile P (rev (dropWhile P xs)))) = rev (dropWhile P (rev (dropWhile P xs)))"
proof (cases "dropWhile P xs")
  case Nil
  then show ?thesis unfolding Nil by simp
next
  case (Cons y ys)
  then have ny: "\<not> P y" by (metis hd_dropWhile list.sel(1) list.simps(3))
  with Cons show ?thesis by (simp add: dropWhile_snoc)
qed

lemma str_strip_idem [simp]: "str_strip (str_strip s) = str_strip s"
  by (simp add: str_strip_def str_lstrip_def str_rstrip_def dropWhile_rev_dropWhile)

lemma str_strip_Nil [simp]: "str_strip '''' = ''''"
  by (simp add: str_strip_def str_lstrip_def str_rstrip_def)

lemma str_blank_iff: "str_blank s \<longleftrightarrow> (\<forall>c\<in>set s. is_space c)"
  by (auto simp: str_blank_def str_strip_def str_lstrip_def str_rstrip_def dropWhile_eq_Nil_conv)
     (metis dropWhile_eq_Nil_conv rev_is_Nil_conv set_dropWhileD set_rev dropWhile_idem)+

lemma str_blank_strip [simp]: "str_blank (str_strip s) = str_blank s"
  by (simp add: str_blank_def)

lemma str_strip_eq_Nil [simp]: "str_strip s = [] \<longleftrightarrow> str_blank s"
  by (simp add: str_blank_def)

lemma str_blank_Nil [simp]: "str_blank ''''"
  by (simp add: str_blank_def)

section \<open>Values of type Any\<close>

datatype pyval =
    PNone
  | PBool bool
  | PInt int
  | PFloat rat
  | PStr string
  | PList "pyval list"
  | PTuple "pyval list"
  | PDict "(string \<times> pyval) list"

type_synonym pydict = "(string \<times> pyval) list"

abbreviation dict_get :: "('k \<times> 'v) list \<Rightarrow> 'k \<Rightarrow> 'v option" where
  "dict_get d k \<equiv> map_of d k"

abbreviation dict_set :: "'k \<Rightarrow> 'v \<Rightarrow> ('k \<times> 'v) list \<Rightarrow> ('k \<times> 'v) list" where
  "dict_set \<equiv> AList.update"

abbreviation dict_pop :: "'k \<Rightarrow> ('k \<times> 'v) list \<Rightarrow> ('k \<times> 'v) list" where
  "dict_pop \<equiv> AList.delete"

definition dict_has :: "('k \<times> 'v) list \<Rightarrow> 'k \<Rightarrow> bool" where
  "dict_has d k = (dict_get d k \<noteq> None)"

text \<open>\<open>{**a, **b}\<close>: the entries of \<open>b\<close> written over those of \<open>a\<close>, in order.\<close>

definition dict_merge :: "('k \<times> 'v) list \<Rightarrow> ('k \<times> 'v) list \<Rightarrow> ('k \<times> 'v) list" where
  "dict_merge a b = fold (\<lambda>(k, v). dict_set k v) b a"

text \<open>\<open>d.get(k)\<close> and \<open>d.get(k, default)\<close> on a dictionary of values of type Any.\<close>

definition pd_get :: "pydict \<Rightarrow> string \<Rightarrow> pyval" where
  "pd_get d k = (case dict_get d k of None \<Rightarrow> PNone | Some v \<Rightarrow> v)"

definition pd_get_or :: "pydict \<Rightarrow> string \<Rightarrow> pyval \<Rightarrow> pyval" where
  "pd_get_or d k v0 = (case dict_get d k of None \<Rightarrow> v0 | Some v \<Rightarrow> v)"

fun truthy :: "pyval \<Rightarrow> bool" where
  "truthy PNone = False"
| "truthy (PBool b) = b"
| "truthy (PInt i) = (i \<noteq> 0)"
| "truthy (PFloat r) = (r \<noteq> 0)"
| "truthy (PStr s) = (s \<noteq> '''')"
| "truthy (PList xs) = (xs \<noteq> [])"
| "truthy (PTuple xs) = (xs \<noteq> [])"
| "truthy (PDict d) = (d \<noteq> [])"

definition opt_str :: "string option \<Rightarrow> pyval" where
  "opt_str x = (case x of None \<Rightarrow> PNone | Some s \<Rightarrow> PStr s)"

lemma fold_update_map_of:
  "map_of (fold (\<lambda>(k, v). AList.update k v) b a) k
     = (case map_of (rev b) k of None \<Rightarrow> map_of a k | Some v \<Rightarrow> Some v)"
proof (induction b arbitrary: a)
  case Nil
  then show ?case by simp
next
  case (Cons p b)
  obtain k' v where [simp]: "p = (k', v)" by (cases p)
  show ?case
    using Cons by (auto simp: update_conv' map_add_def split: option.splits)
qed

lemma dict_merge_get:
  "dict_get (dict_merge a b) k
     = (case map_of (rev b) k of None \<Rightarrow> dict_get a k | Some v \<Rightarrow> Some v)"
  by (simp add: dict_merge_def fold_update_map_of)

lemma dict_merge_Nil [simp]: "dict_merge a [] = a"
  by (simp add: dict_merge_def)

lemma dict_set_get [simp]: "dict_get (dict_set k v d) k' = (if k' = k then Some v else dict_get d k')"
  by (simp add: update_conv')

lemma dict_pop_get [simp]: "dict_get (dict_pop k d) k' = (if k' = k then None else dict_get d k')"
  by (simp add: delete_conv')

lemma dict_merge_distinct: "distinct (map fst a) \<Longrightarrow> distinct (map fst (dict_merge a b))"
proof (induction b arbitrary: a)
  case (Cons p b)
  then show ?case by (cases p) (simp add: dict_merge_def distinct_update)
qed simp

lemma map_of_rev_distinct: "distinct (map fst d) \<Longrightarrow> map_of (rev d) = map_of d"
  by (rule map_of_eqI) (auto simp: rev_map [symmetric] map_of_eq_Some_iff)

section \<open>Exceptions\<close>

datatype exc =
    ValueError string
  | TypeError string
  | KeyError string
  | RuntimeError string
  | OtherException string string \<comment> \<open>class name and message of an exception raised by foreign code\<close>
  | PendingActionNotFoundError string
  | TaskDelegationRequestError string
  | DuplicateEventError string
  | EventNotFoundError string
  | EventLifecycleConflictError string
  | EventProcessingError string
  | NormalizationError string
  | SemanticRoutingError string
  | SemanticInputError string
  | SemanticResolverError string
  | SemanticRequestError string
  | CredentialAlreadyExistsError string
  | SoftwareEngineeringRunStateError string
  | SoftwareEngineeringRecoveryError string
  | SoftwareEngineeringRecoveryNotFoundError string
  | SoftwareEngineeringRunControlNotFoundError string
  | SoftwareEngineeringRunControlStateError string
  | SoftwareEngineeringDispositionNotFoundError string
  | SoftwareEngineeringDispositionStateError string
  | SoftwareEngineeringDispositionRouteError string
  | SoftwareEngineeringContinuationNotFoundError string
  | SoftwareEngineeringContinuationStateError string
  | SoftwareEngineeringContinuationRouteError string
  | SoftwareEngineeringPromotionNotFoundError string
  | SoftwareEngineeringPromotionStateError string
  | SoftwareEngineeringPromotionExternalError string
  | WorkProductIdentityError string
  | WorkspaceUnavailableError string
  | PullRequestPublicationError string
  | HTTPException int string
  | CredentialStoreBackendError
  | CalendarEventListRequestError string string \<comment> \<open>message and field\<close>
  | CalendarAgendaWorkflowError string "string option" "string option" \<comment> \<open>message, field and category\<close>
  | OperatorError string
  | AcceptanceError string
  | HttpxError string \<comment> \<open>class name of an exception of the HTTP client\<close>

type_synonym 'a result = "exc + 'a"

text \<open>\<open>str(error)\<close> of the exceptions whose text the code reads.\<close>

fun exc_message :: "exc \<Rightarrow> string" where
  "exc_message (ValueError m) = m"
| "exc_message (TypeError m) = m"
| "exc_message (KeyError m) = m"
| "exc_message (RuntimeError m) = m"
| "exc_message (OtherException c m) = m"
| "exc_message (PendingActionNotFoundError m) = m"
| "exc_message (TaskDelegationRequestError m) = m"
| "exc_message (DuplicateEventError m) = m"
| "exc_message (EventNotFoundError m) = m"
| "exc_message (EventLifecycleConflictError m) = m"
| "exc_message (EventProcessingError m) = m"
| "exc_message (NormalizationError m) = m"
| "exc_message (SemanticRoutingError m) = m"
| "exc_message (SemanticInputError m) = m"
| "exc_message (SemanticResolverError m) = m"
| "exc_message (SemanticRequestError m) = m"
| "exc_message (CredentialAlreadyExistsError m) = m"
| "exc_message CredentialStoreBackendError = ''credential store backend operation failed''"
| "exc_message (CalendarEventListRequestError m f) = m"
| "exc_message (CalendarAgendaWorkflowError m f k) = m"
| "exc_message (SoftwareEngineeringRunStateError m) = m"
| "exc_message (SoftwareEngineeringRecoveryError m) = m"
| "exc_message (SoftwareEngineeringRecoveryNotFoundError m) = m"
| "exc_message (SoftwareEngineeringRunControlNotFoundError m) = m"
| "exc_message (SoftwareEngineeringRunControlStateError m) = m"
| "exc_message (SoftwareEngineeringDispositionNotFoundError m) = m"
| "exc_message (SoftwareEngineeringDispositionStateError m) = m"
| "exc_message (SoftwareEngineeringDispositionRouteError m) = m"
| "exc_message (SoftwareEngineeringContinuationNotFoundError m) = m"
| "exc_message (SoftwareEngineeringContinuationStateError m) = m"
| "exc_message (SoftwareEngineeringContinuationRouteError m) = m"
| "exc_message (SoftwareEngineeringPromotionNotFoundError m) = m"
| "exc_message (SoftwareEngineeringPromotionStateError m) = m"
| "exc_message (SoftwareEngineeringPromotionExternalError m) = m"
| "exc_message (WorkProductIdentityError m) = m"
| "exc_message (WorkspaceUnavailableError m) = m"
| "exc_message (PullRequestPublicationError m) = m"
| "exc_message (HTTPException c m) = m"
| "exc_message (OperatorError m) = m"
| "exc_message (AcceptanceError m) = m"
| "exc_message (HttpxError m) = m"

text \<open>\<open>type(error).__name__\<close>.\<close>

fun exc_name :: "exc \<Rightarrow> string" where
  "exc_name (ValueError m) = ''ValueError''"
| "exc_name (TypeError m) = ''TypeError''"
| "exc_name (KeyError m) = ''KeyError''"
| "exc_name (RuntimeError m) = ''RuntimeError''"
| "exc_name (OtherException c m) = c"
| "exc_name (PendingActionNotFoundError m) = ''PendingActionNotFoundError''"
| "exc_name (TaskDelegationRequestError m) = ''TaskDelegationRequestError''"
| "exc_name (DuplicateEventError m) = ''DuplicateEventError''"
| "exc_name (EventNotFoundError m) = ''EventNotFoundError''"
| "exc_name (EventLifecycleConflictError m) = ''EventLifecycleConflictError''"
| "exc_name (EventProcessingError m) = ''EventProcessingError''"
| "exc_name (NormalizationError m) = ''NormalizationError''"
| "exc_name (SemanticRoutingError m) = ''SemanticRoutingError''"
| "exc_name (SemanticInputError m) = ''SemanticInputError''"
| "exc_name (SemanticResolverError m) = ''SemanticResolverError''"
| "exc_name (SemanticRequestError m) = ''SemanticRequestError''"
| "exc_name (CredentialAlreadyExistsError m) = ''CredentialAlreadyExistsError''"
| "exc_name (SoftwareEngineeringRunStateError m) = ''SoftwareEngineeringRunStateError''"
| "exc_name (SoftwareEngineeringRecoveryError m) = ''SoftwareEngineeringRecoveryError''"
| "exc_name (SoftwareEngineeringRecoveryNotFoundError m) = ''SoftwareEngineeringRecoveryNotFoundError''"
| "exc_name (SoftwareEngineeringRunControlNotFoundError m) = ''SoftwareEngineeringRunControlNotFoundError''"
| "exc_name (SoftwareEngineeringRunControlStateError m) = ''SoftwareEngineeringRunControlStateError''"
| "exc_name (SoftwareEngineeringDispositionNotFoundError m) = ''SoftwareEngineeringDispositionNotFoundError''"
| "exc_name (SoftwareEngineeringDispositionStateError m) = ''SoftwareEngineeringDispositionStateError''"
| "exc_name (SoftwareEngineeringDispositionRouteError m) = ''SoftwareEngineeringDispositionRouteError''"
| "exc_name (SoftwareEngineeringContinuationNotFoundError m) = ''SoftwareEngineeringContinuationNotFoundError''"
| "exc_name (SoftwareEngineeringContinuationStateError m) = ''SoftwareEngineeringContinuationStateError''"
| "exc_name (SoftwareEngineeringContinuationRouteError m) = ''SoftwareEngineeringContinuationRouteError''"
| "exc_name (SoftwareEngineeringPromotionNotFoundError m) = ''SoftwareEngineeringPromotionNotFoundError''"
| "exc_name (SoftwareEngineeringPromotionStateError m) = ''SoftwareEngineeringPromotionStateError''"
| "exc_name (SoftwareEngineeringPromotionExternalError m) = ''SoftwareEngineeringPromotionExternalError''"
| "exc_name (WorkProductIdentityError m) = ''WorkProductIdentityError''"
| "exc_name (WorkspaceUnavailableError m) = ''WorkspaceUnavailableError''"
| "exc_name (PullRequestPublicationError m) = ''PullRequestPublicationError''"
| "exc_name (HTTPException c m) = ''HTTPException''"
| "exc_name CredentialStoreBackendError = ''CredentialStoreBackendError''"
| "exc_name (CalendarEventListRequestError m f) = ''CalendarEventListRequestError''"
| "exc_name (CalendarAgendaWorkflowError m f k) = ''CalendarAgendaWorkflowError''"
| "exc_name (OperatorError m) = ''OperatorError''"
| "exc_name (AcceptanceError m) = ''SoftwareEngineeringAcceptanceError''"
| "exc_name (HttpxError m) = m"

section \<open>Fallible functions and stateful programs\<close>

definition rbind :: "'a result \<Rightarrow> ('a \<Rightarrow> 'b result) \<Rightarrow> 'b result" where
  "rbind r f = (case r of Inl e \<Rightarrow> Inl e | Inr x \<Rightarrow> f x)"

definition guard_exc :: "bool \<Rightarrow> exc \<Rightarrow> unit result" where
  "guard_exc ok e = (if ok then Inr () else Inl e)"

type_synonym ('s, 'a) prog = "'s \<Rightarrow> 'a result \<times> 's"

definition ret :: "'a \<Rightarrow> ('s, 'a) prog" where
  "ret x s = (Inr x, s)"

definition raise_exc :: "exc \<Rightarrow> ('s, 'a) prog" where
  "raise_exc e s = (Inl e, s)"

definition liftr :: "'a result \<Rightarrow> ('s, 'a) prog" where
  "liftr r s = (r, s)"

definition bnd :: "('s, 'a) prog \<Rightarrow> ('a \<Rightarrow> ('s, 'b) prog) \<Rightarrow> ('s, 'b) prog" where
  "bnd m f s = (case m s of (Inl e, s') \<Rightarrow> (Inl e, s') | (Inr x, s') \<Rightarrow> f x s')"

definition gets :: "('s \<Rightarrow> 'a) \<Rightarrow> ('s, 'a) prog" where
  "gets f s = (Inr (f s), s)"

definition modify :: "('s \<Rightarrow> 's) \<Rightarrow> ('s, unit) prog" where
  "modify f s = (Inr (), f s)"

text \<open>\<open>try: m  except E: h\<close>. The handler sees the state that \<open>m\<close> left.\<close>

definition try_except :: "('s, 'a) prog \<Rightarrow> (exc \<Rightarrow> ('s, 'a) prog) \<Rightarrow> ('s, 'a) prog" where
  "try_except m h s = (case m s of (Inl e, s') \<Rightarrow> h e s' | (Inr x, s') \<Rightarrow> (Inr x, s'))"

named_theorems prog_defs \<open>unfolding rules of the program combinators\<close>

declare ret_def [prog_defs] raise_exc_def [prog_defs] liftr_def [prog_defs] bnd_def [prog_defs]
  gets_def [prog_defs] modify_def [prog_defs] try_except_def [prog_defs]

lemma bnd_liftr_Inr [simp]: "bnd (liftr (Inr x)) f = f x"
  by (rule ext) (simp add: prog_defs)

lemma rbind_simps [simp]:
  "rbind (Inl e) f = Inl e"
  "rbind (Inr x) f = f x"
  by (simp_all add: rbind_def)

lemma rbind_eq_Inr [simp]: "rbind r f = Inr y \<longleftrightarrow> (\<exists>x. r = Inr x \<and> f x = Inr y)"
  by (auto simp: rbind_def split: sum.splits)

lemma rbind_eq_Inl: "rbind r f = Inl e \<longleftrightarrow> r = Inl e \<or> (\<exists>x. r = Inr x \<and> f x = Inl e)"
  by (auto simp: rbind_def split: sum.splits)

lemma guard_exc_simps [simp]:
  "guard_exc ok e = Inr u \<longleftrightarrow> ok"
  "guard_exc ok e = Inl e' \<longleftrightarrow> \<not> ok \<and> e' = e"
  by (auto simp: guard_exc_def)

lemma bnd_eq_Inr:
  "bnd m f s = (Inr y, s') \<longleftrightarrow> (\<exists>x s1. m s = (Inr x, s1) \<and> f x s1 = (Inr y, s'))"
  by (auto simp: bnd_def split: prod.splits sum.splits)

lemma bnd_eq_Inl:
  "bnd m f s = (Inl e, s') \<longleftrightarrow>
     m s = (Inl e, s') \<or> (\<exists>x s1. m s = (Inr x, s1) \<and> f x s1 = (Inl e, s'))"
  by (auto simp: bnd_def split: prod.splits sum.splits)

lemma prog_simps [simp]:
  "ret x s = (Inr x, s)"
  "raise_exc e s = (Inl e, s)"
  "liftr r s = (r, s)"
  "gets f s = (Inr (f s), s)"
  "modify g s = (Inr (), g s)"
  by (simp_all add: prog_defs)

text \<open>A frame rule: what every part of a program preserves, the program preserves.\<close>

definition preserves :: "('s \<Rightarrow> 'b) \<Rightarrow> ('s, 'a) prog \<Rightarrow> bool" where
  "preserves f m \<longleftrightarrow> (\<forall>s. f (snd (m s)) = f s)"

named_theorems frame_intros \<open>frame rules of the operations\<close>

lemma preserves_ret [frame_intros]: "preserves f (ret x)"
  by (simp add: preserves_def)

lemma preserves_raise [frame_intros]: "preserves f (raise_exc e)"
  by (simp add: preserves_def)

lemma preserves_liftr [frame_intros]: "preserves f (liftr r)"
  by (simp add: preserves_def)

lemma preserves_gets [frame_intros]: "preserves f (gets g)"
  by (simp add: preserves_def)

lemma preserves_modify: "(\<And>s. f (g s) = f s) \<Longrightarrow> preserves f (modify g)"
  by (simp add: preserves_def)

lemma preserves_bnd [frame_intros]:
  "preserves f m \<Longrightarrow> (\<And>x. preserves f (h x)) \<Longrightarrow> preserves f (bnd m h)"
  unfolding preserves_def bnd_def
  by (auto split: prod.splits sum.splits) (metis snd_conv)+

lemma preserves_try [frame_intros]:
  "preserves f m \<Longrightarrow> (\<And>e. preserves f (h e)) \<Longrightarrow> preserves f (try_except m h)"
  unfolding preserves_def try_except_def
  by (auto split: prod.splits sum.splits) (metis snd_conv)+

lemma preserves_if [frame_intros]:
  "preserves f a \<Longrightarrow> preserves f b \<Longrightarrow> preserves f (if c then a else b)"
  by simp

lemma preserves_option [frame_intros]:
  "preserves f a \<Longrightarrow> (\<And>x. preserves f (b x)) \<Longrightarrow>
     preserves f (case y of None \<Rightarrow> a | Some x \<Rightarrow> b x)"
  by (cases y) auto

lemma preserves_sum [frame_intros]:
  "(\<And>e. preserves f (a e)) \<Longrightarrow> (\<And>x. preserves f (b x)) \<Longrightarrow>
     preserves f (case y of Inl e \<Rightarrow> a e | Inr x \<Rightarrow> b x)"
  by (cases y) auto

lemma preservesD: "preserves f m \<Longrightarrow> m s = (r, s') \<Longrightarrow> f s' = f s"
  by (metis preserves_def snd_conv)

section \<open>What a program may return\<close>

definition returns :: "('a \<Rightarrow> bool) \<Rightarrow> ('s, 'a) prog \<Rightarrow> bool" where
  "returns P m \<longleftrightarrow> (\<forall>s x s'. m s = (Inr x, s') \<longrightarrow> P x)"

named_theorems return_intros \<open>rules for what a program may return\<close>

lemma returns_ret [return_intros]: "P x \<Longrightarrow> returns P (ret x)"
  by (simp add: returns_def)

lemma returns_bnd [return_intros]: "(\<And>x. returns P (f x)) \<Longrightarrow> returns P (bnd m f)"
  by (auto simp: returns_def bnd_eq_Inr)

lemma returns_if [return_intros]: "returns P a \<Longrightarrow> returns P b \<Longrightarrow> returns P (if c then a else b)"
  by simp

lemma returns_option [return_intros]:
  "returns P a \<Longrightarrow> (\<And>x. returns P (b x)) \<Longrightarrow> returns P (case y of None \<Rightarrow> a | Some x \<Rightarrow> b x)"
  by (cases y) auto

lemma returns_sum [return_intros]:
  "(\<And>e. returns P (a e)) \<Longrightarrow> (\<And>x. returns P (b x)) \<Longrightarrow> returns P (case y of Inl e \<Rightarrow> a e | Inr x \<Rightarrow> b x)"
  by (cases y) auto

lemma returns_prod [return_intros]: "(\<And>x y. returns P (a x y)) \<Longrightarrow> returns P (case p of (x, y) \<Rightarrow> a x y)"
  by (cases p) auto

lemma preserves_bnd_returns:
  assumes "preserves f m" "returns P m" "\<And>x. P x \<Longrightarrow> preserves f (k x)"
  shows "preserves f (bnd m k)"
  using assms unfolding preserves_def returns_def bnd_def
  by (auto split: prod.splits sum.splits) (metis snd_conv)+

section \<open>Lists searched by a key\<close>

text \<open>\<open>next((x for x in xs if p(x)), None)\<close>, and removal of the first match with \<open>pop(index)\<close>.\<close>

definition find_first :: "('a \<Rightarrow> bool) \<Rightarrow> 'a list \<Rightarrow> 'a option" where
  "find_first p xs = List.find p xs"

fun remove_first :: "('a \<Rightarrow> bool) \<Rightarrow> 'a list \<Rightarrow> 'a option \<times> 'a list" where
  "remove_first p [] = (None, [])"
| "remove_first p (x # xs) =
     (if p x then (Some x, xs) else (case remove_first p xs of (r, ys) \<Rightarrow> (r, x # ys)))"

lemma find_first_None: "find_first p xs = None \<longleftrightarrow> (\<forall>x\<in>set xs. \<not> p x)"
  by (auto simp: find_first_def find_None_iff)

lemma find_first_Some: "find_first p xs = Some x \<Longrightarrow> x \<in> set xs \<and> p x"
  by (auto simp: find_first_def find_Some_iff)

lemma find_first_append:
  "find_first p (xs @ ys) = (case find_first p xs of None \<Rightarrow> find_first p ys | r \<Rightarrow> r)"
  by (induction xs) (auto simp: find_first_def)

lemma fst_remove_first: "fst (remove_first p xs) = find_first p xs"
  by (induction xs) (auto simp: find_first_def split: prod.splits)

lemma remove_first_None: "(\<forall>x\<in>set xs. \<not> p x) \<Longrightarrow> remove_first p xs = (None, xs)"
  by (induction xs) auto

lemma remove_first_split:
  "remove_first p xs = (Some x, ys) \<Longrightarrow>
     \<exists>as bs. xs = as @ x # bs \<and> ys = as @ bs \<and> p x \<and> (\<forall>a\<in>set as. \<not> p a)"
proof (induction xs arbitrary: ys)
  case Nil
  then show ?case by simp
next
  case (Cons z xs)
  show ?case
  proof (cases "p z")
    case True
    with Cons.prems show ?thesis by (intro exI [of _ "[]"] exI [of _ xs]) auto
  next
    case False
    with Cons.prems obtain zs where r: "remove_first p xs = (Some x, zs)" and ys: "ys = z # zs"
      by (auto split: prod.splits)
    from Cons.IH [OF r] obtain as bs where
      "xs = as @ x # bs \<and> zs = as @ bs \<and> p x \<and> (\<forall>a\<in>set as. \<not> p a)" by blast
    with False ys show ?thesis by (intro exI [of _ "z # as"] exI [of _ bs]) auto
  qed
qed

lemma remove_first_last:
  "(\<forall>x\<in>set xs. \<not> p x) \<Longrightarrow> p a \<Longrightarrow> remove_first p (xs @ [a]) = (Some a, xs)"
  by (induction xs) auto

lemma set_remove_first: "set (snd (remove_first p xs)) \<subseteq> set xs"
  by (induction xs) (auto split: prod.splits)

section \<open>Identifiers and clock readings\<close>

type_synonym uuid = "128 word"

section \<open>Lines and paths\<close>

definition is_line_break :: "char \<Rightarrow> bool" where
  "is_line_break c = (chr_code c \<in> {10, 11, 12, 13, 28, 29, 30, 133})"

text \<open>\<open>str.splitlines()\<close>; a carriage return followed by a line feed is one boundary.\<close>

fun splitlines_acc :: "string \<Rightarrow> string \<Rightarrow> string list" where
  "splitlines_acc acc [] = (if acc = [] then [] else [rev acc])"
| "splitlines_acc acc [c] = (if is_line_break c then [rev acc] else [rev (c # acc)])"
| "splitlines_acc acc (c # d # s) =
     (if chr_code c = 13 \<and> chr_code d = 10 then rev acc # splitlines_acc [] s
      else if is_line_break c then rev acc # splitlines_acc [] (d # s)
      else splitlines_acc (c # acc) (d # s))"

definition str_splitlines :: "string \<Rightarrow> string list" where
  "str_splitlines s = splitlines_acc [] s"

text \<open>\<open>s.split(sep, 1)[-1]\<close>: what follows the first occurrence of \<open>sep\<close>, or all of \<open>s\<close>.\<close>

fun after_first :: "string \<Rightarrow> string \<Rightarrow> string option" where
  "after_first sep [] = None"
| "after_first sep (c # s) =
     (if str_startswith (c # s) sep then Some (drop (length sep) (c # s)) else after_first sep s)"

definition split_once_last :: "string \<Rightarrow> string \<Rightarrow> string" where
  "split_once_last sep s = (case after_first sep s of None \<Rightarrow> s | Some t \<Rightarrow> t)"

fun str_join :: "string \<Rightarrow> string list \<Rightarrow> string" where
  "str_join sep [] = ''''"
| "str_join sep [x] = x"
| "str_join sep (x # y # xs) = x @ sep @ str_join sep (y # xs)"

text \<open>A \<open>pathlib.Path\<close> in its POSIX form: whether it is absolute, and its components.\<close>

record path =
  path_abs :: bool
  path_parts :: "string list"

definition path_str :: "path \<Rightarrow> string" where
  "path_str p =
     (if path_abs p then ''/'' @ str_join ''/'' (path_parts p)
      else if path_parts p = [] then ''.'' else str_join ''/'' (path_parts p))"

fun split_on :: "char \<Rightarrow> string \<Rightarrow> string list" where
  "split_on d [] = [[]]"
| "split_on d (c # s) =
     (if c = d then [] # split_on d s
      else (case split_on d s of [] \<Rightarrow> [[c]] | w # ws \<Rightarrow> (c # w) # ws))"

definition path_of_str :: "string \<Rightarrow> path" where
  "path_of_str s =
     \<lparr>path_abs = str_startswith s ''/'',
      path_parts = filter (\<lambda>w. w \<noteq> '''' \<and> w \<noteq> ''.'') (split_on (CHR ''/'') s)\<rparr>"

definition path_child :: "path \<Rightarrow> string \<Rightarrow> path" where
  "path_child p name = p\<lparr>path_parts := path_parts p @ [name]\<rparr>"

definition path_parent :: "path \<Rightarrow> path" where
  "path_parent p = p\<lparr>path_parts := butlast (path_parts p)\<rparr>"

definition path_name :: "path \<Rightarrow> string" where
  "path_name p = (if path_parts p = [] then '''' else last (path_parts p))"

text \<open>\<open>q in p.parents\<close>: \<open>q\<close> is a proper ancestor of \<open>p\<close>.\<close>

definition path_in_parents :: "path \<Rightarrow> path \<Rightarrow> bool" where
  "path_in_parents q p =
     (path_abs q = path_abs p \<and> length (path_parts q) < length (path_parts p) \<and>
      take (length (path_parts q)) (path_parts p) = path_parts q)"

end
