(* ===== verification/Py_Time.thy ===== *)
theory Py_Time
  imports Velox_Prelude "HOL-Library.Monad_Syntax"
begin

text \<open>
  The parts of Python's standard library whose text forms the server stores and compares:
  \<open>datetime\<close> values with \<open>isoformat\<close>, \<open>fromisoformat\<close> and comparison, and \<open>uuid.UUID\<close> with its text form.
  A \<open>datetime\<close> keeps its civil fields and its UTC offset in seconds (\<open>None\<close> for a naive value).
  \<open>fromisoformat\<close> is modelled on the extended date-time form, the one \<open>isoformat\<close> writes and the
  RFC 3339 pattern of the calendar code accepts; other spellings are refused.
  The main results are the two round trips, \<open>fromisoformat_isoformat\<close> and \<open>uuid_of_str_uuid_str\<close>.
\<close>

section \<open>Fixed-width digits\<close>

fun to_digits :: "nat \<Rightarrow> nat \<Rightarrow> nat \<Rightarrow> nat list" where
  "to_digits b 0 n = []"
| "to_digits b (Suc k) n = to_digits b k (n div b) @ [n mod b]"

definition of_digits :: "nat \<Rightarrow> nat list \<Rightarrow> nat" where
  "of_digits b ds = foldl (\<lambda>a d. a * b + d) 0 ds"

lemma length_to_digits [simp]: "length (to_digits b k n) = k"
  by (induction k arbitrary: n) auto

lemma of_digits_snoc [simp]: "of_digits b (ds @ [d]) = of_digits b ds * b + d"
  by (simp add: of_digits_def)

lemma of_to_digits: "of_digits b (to_digits b k n) = n mod b ^ k"
proof (induction k arbitrary: n)
  case 0
  then show ?case by (simp add: of_digits_def)
next
  case (Suc k)
  have "n mod b ^ Suc k = n div b mod b ^ k * b + n mod b"
    by (simp add: mod_mult2_eq mult.commute)
  with Suc show ?case by simp
qed

lemma to_digits_less: "0 < b \<Longrightarrow> d \<in> set (to_digits b k n) \<Longrightarrow> d < b"
  by (induction k arbitrary: n) auto

definition hexdigits :: string where
  "hexdigits = ''0123456789abcdef''"

definition digit_chr :: "nat \<Rightarrow> char" where
  "digit_chr n = hexdigits ! n"

text \<open>The value of one digit character; letters of either case, as \<open>int(text, 16)\<close> reads them.\<close>

definition digit_val :: "char \<Rightarrow> nat option" where
  "digit_val c = (let n = chr_code c in
     if 48 \<le> n \<and> n \<le> 57 then Some (n - 48)
     else if 97 \<le> n \<and> n \<le> 102 then Some (n - 87)
     else if 65 \<le> n \<and> n \<le> 70 then Some (n - 55)
     else None)"

definition dec_val :: "char \<Rightarrow> nat option" where
  "dec_val c = (let n = chr_code c in if 48 \<le> n \<and> n \<le> 57 then Some (n - 48) else None)"

lemma upt_16: "n < 16 \<Longrightarrow> n \<in> {0,1,2,3,4,5,6,7,8,9,10,11,12,13,14,15::nat}"
  by simp arith

lemma digit_val_chr [simp]: "n < 16 \<Longrightarrow> digit_val (digit_chr n) = Some n"
  by (drule upt_16) (auto simp: digit_chr_def digit_val_def hexdigits_def chr_code_def)

lemma dec_val_chr [simp]: "n < 10 \<Longrightarrow> dec_val (digit_chr n) = Some n"
  using upt_16 [of n] by (auto simp: digit_chr_def dec_val_def hexdigits_def chr_code_def)

definition padded :: "nat \<Rightarrow> nat \<Rightarrow> string" where
  "padded k n = map digit_chr (to_digits 10 k n)"

lemma length_padded [simp]: "length (padded k n) = k"
  by (simp add: padded_def)

text \<open>Read exactly \<open>k\<close> decimal digits.\<close>

fun take_dec :: "nat \<Rightarrow> nat \<Rightarrow> string \<Rightarrow> (nat \<times> string) option" where
  "take_dec 0 acc s = Some (acc, s)"
| "take_dec (Suc k) acc [] = None"
| "take_dec (Suc k) acc (c # s) =
     (case dec_val c of None \<Rightarrow> None | Some d \<Rightarrow> take_dec k (acc * 10 + d) s)"

lemma take_dec_digits:
  "list_all (\<lambda>d. d < 10) ds \<Longrightarrow>
     take_dec (length ds) acc (map digit_chr ds @ s) = Some (foldl (\<lambda>a d. a * 10 + d) acc ds, s)"
  by (induction ds arbitrary: acc) auto

lemma take_dec_padded: "n < 10 ^ k \<Longrightarrow> take_dec k 0 (padded k n @ s) = Some (n, s)"
proof -
  assume n: "n < 10 ^ k"
  have "list_all (\<lambda>d. d < 10) (to_digits 10 k n)"
    by (auto simp: list_all_iff dest: to_digits_less [rotated])
  from take_dec_digits [OF this, of 0 s] show ?thesis
    using of_to_digits [of 10 k n] n by (simp add: padded_def of_digits_def)
qed

fun expect_chr :: "char \<Rightarrow> string \<Rightarrow> string option" where
  "expect_chr c [] = None"
| "expect_chr c (x # s) = (if x = c then Some s else None)"

section \<open>Dates and times\<close>

record datetime =
  dt_year :: nat
  dt_month :: nat
  dt_day :: nat
  dt_hour :: nat
  dt_minute :: nat
  dt_second :: nat
  dt_micro :: nat
  dt_offset :: "int option"

definition leap_year :: "nat \<Rightarrow> bool" where
  "leap_year y = (y mod 4 = 0 \<and> (y mod 100 \<noteq> 0 \<or> y mod 400 = 0))"

definition days_in_month :: "nat \<Rightarrow> nat \<Rightarrow> nat" where
  "days_in_month y m =
     (if m = 2 then (if leap_year y then 29 else 28)
      else if m \<in> {4, 6, 9, 11} then 30 else 31)"

definition valid_datetime :: "datetime \<Rightarrow> bool" where
  "valid_datetime d \<longleftrightarrow>
     1 \<le> dt_year d \<and> dt_year d \<le> 9999 \<and> 1 \<le> dt_month d \<and> dt_month d \<le> 12 \<and>
     1 \<le> dt_day d \<and> dt_day d \<le> days_in_month (dt_year d) (dt_month d) \<and>
     dt_hour d < 24 \<and> dt_minute d < 60 \<and> dt_second d < 60 \<and> dt_micro d < 1000000 \<and>
     (case dt_offset d of None \<Rightarrow> True | Some z \<Rightarrow> \<bar>z\<bar> < 86400)"

text \<open>\<open>value.tzinfo is None or value.utcoffset() is None\<close> is false: the value is timezone-aware.\<close>

definition is_aware :: "datetime \<Rightarrow> bool" where
  "is_aware d = (dt_offset d \<noteq> None)"

text \<open>Days from 1 January of year 1, and the instant in microseconds on the UTC line.\<close>

definition days_before_year :: "nat \<Rightarrow> int" where
  "days_before_year y = (let p = int y - 1 in p * 365 + p div 4 - p div 100 + p div 400)"

definition days_before_month :: "nat \<Rightarrow> nat \<Rightarrow> int" where
  "days_before_month y m = int (sum_list (map (days_in_month y) [1..<m]))"

definition dt_local :: "datetime \<Rightarrow> int" where
  "dt_local d =
     (((days_before_year (dt_year d) + days_before_month (dt_year d) (dt_month d) + int (dt_day d)) * 24
       + int (dt_hour d)) * 60 + int (dt_minute d)) * 60000000
     + int (dt_second d) * 1000000 + int (dt_micro d)"

definition dt_instant :: "datetime \<Rightarrow> int" where
  "dt_instant d = dt_local d - (case dt_offset d of None \<Rightarrow> 0 | Some z \<Rightarrow> z * 1000000)"

text \<open>Python's \<open>==\<close>: two aware values compare as instants, an aware and a naive value are unequal.\<close>

definition dt_eq :: "datetime \<Rightarrow> datetime \<Rightarrow> bool" where
  "dt_eq a b \<longleftrightarrow> (is_aware a = is_aware b \<and> dt_instant a = dt_instant b)"

lemma dt_eq_refl [simp]: "dt_eq d d"
  by (simp add: dt_eq_def)

type_synonym clock = "nat \<Rightarrow> datetime"

text \<open>\<open>datetime.now(UTC)\<close> at the \<open>i\<close>-th read site of an operation.\<close>

definition now_utc :: "clock \<Rightarrow> nat \<Rightarrow> datetime" where
  "now_utc c i = (c i)\<lparr>dt_offset := Some 0\<rparr>"

lemma now_utc_aware [simp]: "is_aware (now_utc c i)" "dt_offset (now_utc c i) = Some 0"
  by (simp_all add: now_utc_def is_aware_def)

section \<open>The ISO text form\<close>

definition iso_offset :: "int \<Rightarrow> string" where
  "iso_offset z = (let a = nat \<bar>z\<bar> in
     (if z < 0 then ''-'' else ''+'') @ padded 2 (a div 3600) @ '':'' @ padded 2 (a div 60 mod 60)
     @ (if a mod 60 = 0 then '''' else '':'' @ padded 2 (a mod 60)))"

definition isoformat :: "datetime \<Rightarrow> string" where
  "isoformat d =
     padded 4 (dt_year d) @ ''-'' @ padded 2 (dt_month d) @ ''-'' @ padded 2 (dt_day d) @ ''T''
     @ padded 2 (dt_hour d) @ '':'' @ padded 2 (dt_minute d) @ '':'' @ padded 2 (dt_second d)
     @ (if dt_micro d = 0 then '''' else ''.'' @ padded 6 (dt_micro d))
     @ (case dt_offset d of None \<Rightarrow> '''' | Some z \<Rightarrow> iso_offset z)"

text \<open>The fraction: every further digit is read, those after the sixth are dropped.\<close>

fun take_fraction :: "nat \<Rightarrow> nat \<Rightarrow> string \<Rightarrow> nat \<times> nat \<times> string" where
  "take_fraction n acc [] = (n, acc, [])"
| "take_fraction n acc (c # s) =
     (case dec_val c of
        None \<Rightarrow> (n, acc, c # s)
      | Some d \<Rightarrow> if n < 6 then take_fraction (Suc n) (acc * 10 + d) s else take_fraction n acc s)"

definition parse_fraction :: "string \<Rightarrow> (nat \<times> string) option" where
  "parse_fraction s =
     (case s of
        c # t \<Rightarrow>
          if c = CHR ''.'' then
            (case take_fraction 0 0 t of (n, acc, r) \<Rightarrow>
               if n = 0 then None else Some (acc * 10 ^ (6 - n), r))
          else Some (0, s)
      | [] \<Rightarrow> Some (0, s))"

definition parse_offset :: "string \<Rightarrow> int option option" where
  "parse_offset s =
     (if s = '''' then Some None
      else if s = ''Z'' then Some (Some 0)
      else if hd s = CHR ''+'' \<or> hd s = CHR ''-'' then
        do {
          (h, s1) \<leftarrow> take_dec 2 0 (tl s);
          s2 \<leftarrow> expect_chr (CHR '':'') s1;
          (m, s3) \<leftarrow> take_dec 2 0 s2;
          sec \<leftarrow> (if s3 = '''' then Some 0 else do {
            s4 \<leftarrow> expect_chr (CHR '':'') s3;
            (x, s5) \<leftarrow> take_dec 2 0 s4;
            if s5 = '''' then Some x else None });
          let z = int (h * 3600 + m * 60 + sec) in
            (if z < 86400 then Some (Some (if hd s = CHR ''-'' then - z else z)) else None)
        }
      else None)"

definition fromisoformat_opt :: "string \<Rightarrow> datetime option" where
  "fromisoformat_opt s = do {
     (y, s) \<leftarrow> take_dec 4 0 s;
     s \<leftarrow> expect_chr (CHR ''-'') s;
     (mo, s) \<leftarrow> take_dec 2 0 s;
     s \<leftarrow> expect_chr (CHR ''-'') s;
     (dy, s) \<leftarrow> take_dec 2 0 s;
     s \<leftarrow> expect_chr (CHR ''T'') s;
     (h, s) \<leftarrow> take_dec 2 0 s;
     s \<leftarrow> expect_chr (CHR '':'') s;
     (mi, s) \<leftarrow> take_dec 2 0 s;
     s \<leftarrow> expect_chr (CHR '':'') s;
     (se, s) \<leftarrow> take_dec 2 0 s;
     (us, s) \<leftarrow> parse_fraction s;
     off \<leftarrow> parse_offset s;
     let d = \<lparr>dt_year = y, dt_month = mo, dt_day = dy, dt_hour = h, dt_minute = mi,
              dt_second = se, dt_micro = us, dt_offset = off\<rparr> in
       (if valid_datetime d then Some d else None)
   }"

definition fromisoformat :: "string \<Rightarrow> datetime result" where
  "fromisoformat s =
     (case fromisoformat_opt s of
        None \<Rightarrow> Inl (ValueError ''Invalid isoformat string'') | Some d \<Rightarrow> Inr d)"

lemma take_fraction_digits:
  "list_all (\<lambda>d. d < 10) ds \<Longrightarrow> n + length ds \<le> 6 \<Longrightarrow> (\<And>c t. s = c # t \<Longrightarrow> dec_val c = None) \<Longrightarrow>
     take_fraction n acc (map digit_chr ds @ s)
       = (n + length ds, foldl (\<lambda>a d. a * 10 + d) acc ds, s)"
proof (induction ds arbitrary: n acc)
  case Nil
  then show ?case by (cases s) auto
next
  case (Cons d ds)
  then show ?case by simp
qed

lemma parse_fraction_padded:
  assumes "n < 1000000" and "\<And>c t. s = c # t \<Longrightarrow> dec_val c = None"
  shows "parse_fraction (CHR ''.'' # padded 6 n @ s) = Some (n, s)"
proof -
  have d: "list_all (\<lambda>d. d < 10) (to_digits 10 6 n)"
    by (auto simp: list_all_iff dest: to_digits_less [rotated])
  show ?thesis
    using take_fraction_digits [OF d, of 0 s 0] assms of_to_digits [of 10 6 n]
    by (simp add: parse_fraction_def padded_def of_digits_def)
qed

lemma parse_offset_parts:
  assumes "h < 10 ^ 2" "m < 10 ^ 2" "x < 10 ^ 2" and "h * 3600 + m * 60 + x < 86400"
    and "c = CHR ''+'' \<or> c = CHR ''-''"
  shows "parse_offset (c # padded 2 h @ CHR '':'' # padded 2 m
           @ (if x = 0 then [] else CHR '':'' # padded 2 x))
         = Some (Some (if c = CHR ''-'' then - int (h * 3600 + m * 60 + x) else int (h * 3600 + m * 60 + x)))"
proof -
  have z: "int (h * 3600 + m * 60 + x) < 86400" using assms(4) by linarith
  note reads = take_dec_padded [OF assms(1)] take_dec_padded [OF assms(2)]
    take_dec_padded [OF assms(2), of "[]", simplified] take_dec_padded [OF assms(3), of "[]", simplified]
  show ?thesis
    using z assms(5)
    by (cases "x = 0") (auto simp: parse_offset_def Let_def reads simp del: of_nat_add of_nat_mult)
qed

lemma parse_offset_iso:
  assumes "\<bar>z\<bar> < 86400"
  shows "parse_offset (iso_offset z) = Some (Some z)"
proof -
  define a where "a = nat \<bar>z\<bar>"
  have a: "a < 86400" using assms by (simp add: a_def)
  have h: "a div 3600 < 10 ^ 2" using a by simp
  have m: "a div 60 mod 60 < (10::nat) ^ 2" by (rule less_trans [of _ 60]) auto
  have sc: "a mod 60 < (10::nat) ^ 2" by (rule less_trans [of _ 60]) auto
  have sum: "a div 3600 * 3600 + a div 60 mod 60 * 60 + a mod 60 = a"
  proof -
    have "a div 3600 = a div 60 div 60" by (simp add: div_mult2_eq [symmetric])
    moreover have "a div 60 * 60 + a mod 60 = a" by simp
    moreover have "a div 60 div 60 * 60 + a div 60 mod 60 = a div 60" by simp
    ultimately show ?thesis by linarith
  qed
  have z: "(if z < 0 then - int a else int a) = z" by (simp add: a_def)
  define c where "c = (if z < 0 then CHR ''-'' else CHR ''+'')"
  have "iso_offset z = c # padded 2 (a div 3600) @ CHR '':'' # padded 2 (a div 60 mod 60)
          @ (if a mod 60 = 0 then [] else CHR '':'' # padded 2 (a mod 60))"
    by (simp add: iso_offset_def Let_def a_def c_def)
  then show ?thesis
    using parse_offset_parts [OF h m sc, of c, unfolded sum] a z by (simp add: c_def split: if_splits)
qed

lemma dec_val_seps [simp]:
  "dec_val (CHR ''+'') = None" "dec_val (CHR ''-'') = None"
  by (simp_all add: dec_val_def chr_code_def)

lemma parse_tail_iso:
  assumes "us < 1000000" and off: "case off of None \<Rightarrow> True | Some z \<Rightarrow> \<bar>z\<bar> < 86400"
  shows "parse_fraction ((if us = 0 then '''' else ''.'' @ padded 6 us)
           @ (case off of None \<Rightarrow> '''' | Some z \<Rightarrow> iso_offset z))
         = Some (us, (case off of None \<Rightarrow> '''' | Some z \<Rightarrow> iso_offset z))" (is "?F (_ @ ?tz) = _")
    and "parse_offset (case off of None \<Rightarrow> '''' | Some z \<Rightarrow> iso_offset z) = Some off"
proof -
  have c: "dec_val c = None \<and> c \<noteq> CHR ''.''" if "?tz = c # t" for c t
    using that by (auto simp: iso_offset_def Let_def split: option.splits if_splits)
  show "?F ((if us = 0 then '''' else ''.'' @ padded 6 us) @ ?tz) = Some (us, ?tz)"
  proof (cases "us = 0")
    case True
    have "parse_fraction s = Some (0, s)" if "\<And>c t. s = c # t \<Longrightarrow> c \<noteq> CHR ''.''" for s
      using that by (auto simp: parse_fraction_def split: list.splits)
    with True c show ?thesis by simp
  next
    case False
    with parse_fraction_padded [OF assms(1), of ?tz] c show ?thesis by simp
  qed
  show "parse_offset ?tz = Some off"
  proof (cases off)
    case None
    then show ?thesis by (simp add: parse_offset_def)
  next
    case (Some z)
    with off parse_offset_iso show ?thesis by simp
  qed
qed

lemma days_in_month_le: "days_in_month y m \<le> 31"
  by (simp add: days_in_month_def)

theorem fromisoformat_isoformat:
  assumes v: "valid_datetime d"
  shows "fromisoformat (isoformat d) = Inr d"
proof -
  have bounds: "dt_year d < 10 ^ 4" "dt_month d < 10 ^ 2" "dt_day d < 10 ^ 2" "dt_hour d < 10 ^ 2"
    "dt_minute d < 10 ^ 2" "dt_second d < 10 ^ 2" "dt_micro d < 1000000"
    "case dt_offset d of None \<Rightarrow> True | Some z \<Rightarrow> \<bar>z\<bar> < 86400"
    using v days_in_month_le [of "dt_year d" "dt_month d"] by (auto simp: valid_datetime_def)
  have rebuild: "\<lparr>dt_year = dt_year d, dt_month = dt_month d, dt_day = dt_day d, dt_hour = dt_hour d,
      dt_minute = dt_minute d, dt_second = dt_second d, dt_micro = dt_micro d,
      dt_offset = dt_offset d\<rparr> = d"
    by (cases d) simp
  show ?thesis
    using v
    by (simp add: fromisoformat_def fromisoformat_opt_def isoformat_def Let_def
        take_dec_padded [OF bounds(1)] take_dec_padded [OF bounds(2)] take_dec_padded [OF bounds(3)]
        take_dec_padded [OF bounds(4)] take_dec_padded [OF bounds(5)] take_dec_padded [OF bounds(6)]
        parse_tail_iso [OF bounds(7,8)] rebuild split del: if_split)
qed

section \<open>UUID text\<close>

definition uuid_hex :: "uuid \<Rightarrow> string" where
  "uuid_hex u = map digit_chr (to_digits 16 32 (unat u))"

definition uuid_str :: "uuid \<Rightarrow> string" where
  "uuid_str u = (let h = uuid_hex u in
     take 8 h @ ''-'' @ take 4 (drop 8 h) @ ''-'' @ take 4 (drop 12 h) @ ''-''
     @ take 4 (drop 16 h) @ ''-'' @ drop 20 h)"

text \<open>\<open>text.replace(needle, '')\<close>, and \<open>int(text, 16)\<close> for text without a minus sign.\<close>

function str_erase :: "string \<Rightarrow> string \<Rightarrow> string" where
  "str_erase needle s =
     (if needle = [] then s
      else case s of
        [] \<Rightarrow> []
      | c # t \<Rightarrow>
          if str_startswith s needle then str_erase needle (drop (length needle) s)
          else c # str_erase needle t)"
  by pat_completeness auto
termination
  by (relation "measure (\<lambda>(needle, s). length s)") auto

declare str_erase.simps [simp del]

fun hex_digits :: "bool \<Rightarrow> nat \<Rightarrow> string \<Rightarrow> nat option" where
  "hex_digits after_digit acc [] = (if after_digit then Some acc else None)"
| "hex_digits after_digit acc (c # s) =
     (if c = CHR ''_'' then (if after_digit then hex_digits False acc s else None)
      else case digit_val c of None \<Rightarrow> None | Some d \<Rightarrow> hex_digits True (acc * 16 + d) s)"

definition int_base16 :: "string \<Rightarrow> nat option" where
  "int_base16 text = (let s = str_strip text;
       s = (if str_startswith s ''+'' then drop 1 s else s);
       prefixed = str_startswith s ''0x'' \<or> str_startswith s ''0X'';
       s = (if prefixed then drop 2 s else s);
       s = (if prefixed \<and> str_startswith s ''_'' then drop 1 s else s)
     in hex_digits False 0 s)"

definition uuid_brace :: "char \<Rightarrow> bool" where
  "uuid_brace c = (c = CHR ''{'' \<or> c = CHR ''}'')"

definition uuid_of_str :: "string \<Rightarrow> uuid result" where
  "uuid_of_str text = (let h = str_erase ''uuid:'' (str_erase ''urn:'' text);
       h = filter (\<lambda>c. c \<noteq> CHR ''-'') (rev (dropWhile uuid_brace (rev (dropWhile uuid_brace h))))
     in if length h \<noteq> 32 then Inl (ValueError ''badly formed hexadecimal UUID string'')
        else case int_base16 h of
               None \<Rightarrow> Inl (ValueError ''invalid literal for int() with base 16'')
             | Some n \<Rightarrow> if n < 2 ^ 128 then Inr (of_nat n)
                         else Inl (ValueError ''int is out of range (need a 128-bit value)''))"

lemma hexchr_props:
  "n < 16 \<Longrightarrow> c = digit_chr n \<Longrightarrow>
     c \<noteq> CHR ''-'' \<and> \<not> uuid_brace c \<and> c \<noteq> CHR ''_'' \<and> c \<noteq> CHR ''+'' \<and>
     c \<noteq> CHR '':'' \<and> c \<noteq> CHR ''x'' \<and> c \<noteq> CHR ''X'' \<and> c \<noteq> CHR ''u'' \<and> \<not> is_space c"
  by (drule upt_16) (auto simp: digit_chr_def hexdigits_def is_space_def chr_code_def uuid_brace_def)

lemma hex_digits_chr:
  "list_all (\<lambda>d. d < 16) ds \<Longrightarrow> ds \<noteq> [] \<or> b \<Longrightarrow>
     hex_digits b acc (map digit_chr ds) = Some (foldl (\<lambda>a d. a * 16 + d) acc ds)"
proof (induction ds arbitrary: b acc)
  case Nil
  then show ?case by simp
next
  case (Cons d ds)
  then show ?case using hexchr_props [of d "digit_chr d"] by simp
qed

lemma str_erase_absent:
  "needle \<noteq> [] \<Longrightarrow> hd needle \<notin> set s \<Longrightarrow> str_erase needle s = s"
proof (induction s)
  case Nil
  then show ?case by (simp add: str_erase.simps)
next
  case (Cons c s)
  then have "\<not> str_startswith (c # s) needle" by (cases needle) auto
  with Cons show ?case by (simp add: str_erase.simps [of needle "c # s"])
qed

lemma set_uuid_hex: "c \<in> set (uuid_hex u) \<Longrightarrow> \<exists>n<16. c = digit_chr n"
  by (auto simp: uuid_hex_def dest!: to_digits_less [rotated])

lemma length_uuid_hex [simp]: "length (uuid_hex u) = 32"
  by (simp add: uuid_hex_def)

lemma hex_chunks:
  "h = take 8 h @ take 4 (drop 8 h) @ take 4 (drop 12 h) @ take 4 (drop 16 h) @ drop 20 h"
  for h :: "'a list"
proof -
  have "drop n h = take 4 (drop n h) @ drop (n + 4) h" for n
    by (metis add.commute append_take_drop_id drop_drop)
  from this [of 8] this [of 12] this [of 16] show ?thesis
    by (simp add: append_take_drop_id)
qed

lemma filter_uuid_str: "filter (\<lambda>c. c \<noteq> CHR ''-'') (uuid_str u) = uuid_hex u"
proof -
  define h where "h = uuid_hex u"
  have nd: "c \<noteq> CHR ''-''" if "c \<in> set h" for c
    using that set_uuid_hex hexchr_props unfolding h_def by blast
  have "filter (\<lambda>c. c \<noteq> CHR ''-'') (take n (drop m h)) = take n (drop m h)" for n m
    using nd by (auto simp: filter_id_conv dest!: in_set_takeD in_set_dropD)
  note this [of 8 0, simplified] this [of 4 8] this [of 4 12] this [of 4 16]
  moreover have "filter (\<lambda>c. c \<noteq> CHR ''-'') (drop 20 h) = drop 20 h"
    using nd by (auto simp: filter_id_conv dest!: in_set_dropD)
  ultimately show ?thesis
    using hex_chunks [of h] by (simp add: uuid_str_def Let_def h_def [symmetric])
qed

lemma set_uuid_str: "c \<in> set (uuid_str u) \<Longrightarrow> c = CHR ''-'' \<or> c \<in> set (uuid_hex u)"
proof -
  assume "c \<in> set (uuid_str u)"
  then have "c = CHR ''-'' \<or> c \<in> set (filter (\<lambda>c. c \<noteq> CHR ''-'') (uuid_str u))" by auto
  then show ?thesis by (simp add: filter_uuid_str)
qed

lemma uuid_str_plain:
  "c \<in> set (uuid_str u) \<Longrightarrow> \<not> uuid_brace c \<and> c \<noteq> CHR ''u''"
proof -
  assume "c \<in> set (uuid_str u)"
  then consider "c = CHR ''-''" | n where "n < 16" "c = digit_chr n"
    using set_uuid_str set_uuid_hex by blast
  then show ?thesis
    by cases (use hexchr_props in \<open>auto simp: uuid_brace_def\<close>)
qed

lemma dropWhile_none: "(\<And>c. c \<in> set s \<Longrightarrow> \<not> P c) \<Longrightarrow> dropWhile P s = s"
  by (cases s) auto

lemma str_strip_none: "(\<And>c. c \<in> set s \<Longrightarrow> \<not> is_space c) \<Longrightarrow> str_strip s = s"
  using dropWhile_none [of s is_space] dropWhile_none [of "rev s" is_space]
  by (simp add: str_strip_def str_lstrip_def str_rstrip_def)

lemma unat_uuid_less: "unat u < 2 ^ 128" for u :: uuid
proof -
  have "unat u < 2 ^ LENGTH(128)" by (rule unsigned_less)
  then show ?thesis by simp
qed

lemma int_base16_uuid_hex: "int_base16 (uuid_hex u) = Some (unat u)"
proof -
  have props: "c \<noteq> CHR ''_'' \<and> c \<noteq> CHR ''+'' \<and> c \<noteq> CHR ''x'' \<and> c \<noteq> CHR ''X'' \<and> \<not> is_space c"
    if "c \<in> set (uuid_hex u)" for c
    using that set_uuid_hex hexchr_props by blast
  obtain a b r where h: "uuid_hex u = a # b # r"
    using length_uuid_hex [of u] by (metis length_0_conv list.exhaust length_Suc_conv numeral_eq_iff
        One_nat_def one_eq_numeral_iff semiring_norm(85) zero_neq_numeral list.size(3))
  have strip: "str_strip (uuid_hex u) = uuid_hex u" using props by (intro str_strip_none) blast
  have "\<not> str_startswith (uuid_hex u) ''+''" "\<not> str_startswith (uuid_hex u) ''0x''"
    "\<not> str_startswith (uuid_hex u) ''0X''"
    using props [of a] props [of b] by (auto simp: h)
  moreover have "hex_digits False 0 (uuid_hex u) = Some (unat u)"
  proof -
    have "list_all (\<lambda>d. d < 16) (to_digits 16 32 (unat u))"
      by (auto simp: list_all_iff dest: to_digits_less [rotated])
    moreover have "to_digits 16 32 (unat u) \<noteq> []"
      by (metis length_to_digits list.size(3) zero_neq_numeral)
    moreover have "unat u < 16 ^ 32" using unat_uuid_less [of u] by simp
    ultimately show ?thesis
      using hex_digits_chr [of "to_digits 16 32 (unat u)" False 0] of_to_digits [of 16 32 "unat u"]
      by (simp add: uuid_hex_def of_digits_def)
  qed
  ultimately show ?thesis by (simp add: int_base16_def Let_def strip)
qed

theorem uuid_of_str_uuid_str: "uuid_of_str (uuid_str u) = Inr u"
proof -
  have e: "str_erase ''urn:'' (uuid_str u) = uuid_str u" "str_erase ''uuid:'' (uuid_str u) = uuid_str u"
    by (rule str_erase_absent; use uuid_str_plain in force)+
  have d: "dropWhile uuid_brace (uuid_str u) = uuid_str u"
    "dropWhile uuid_brace (rev (uuid_str u)) = rev (uuid_str u)"
    using uuid_str_plain by (intro dropWhile_none; simp)+
  show ?thesis using unat_uuid_less [of u]
    by (simp add: uuid_of_str_def Let_def e d filter_uuid_str int_base16_uuid_hex)
qed

lemma uuid_str_inject [simp]: "uuid_str a = uuid_str b \<longleftrightarrow> a = b"
  by (metis sum.inject(2) uuid_of_str_uuid_str)

section \<open>Decimal text of a natural number\<close>

fun nat_str :: "nat \<Rightarrow> string" where
  "nat_str n = (if n < 10 then [digit_chr n] else nat_str (n div 10) @ [digit_chr (n mod 10)])"

declare nat_str.simps [simp del]

end
