(* ===== verification/Store_Interfaces.thy ===== *)
theory Store_Interfaces
  imports Velox_Prelude
begin

text \<open>
  The storage contracts the server's services rely on, as locales: a keyed store (the repositories of action
  and of event lifecycle states), a keyed store with removal (the approval registry), a queue addressed by
  identifier (the event inbox) and one that is also taken from in order (the action queue).
  Each is interpreted, in the theory of the component that provides it, on the model of that component.
\<close>

locale keyed_store =
  fixes get :: "'s \<Rightarrow> 'k \<Rightarrow> 'v option"
    and put :: "'k \<Rightarrow> 'v \<Rightarrow> 's \<Rightarrow> 's"
    and empty :: 's
  assumes get_put: "get (put k v s) k' = (if k' = k then Some v else get s k')"
    and get_empty: "get empty k = None"
begin

lemma get_put_same [simp]: "get (put k v s) k = Some v"
  by (simp add: get_put)

lemma get_put_other: "k' \<noteq> k \<Longrightarrow> get (put k v s) k' = get s k'"
  by (simp add: get_put)

lemma get_put_put: "get (put k v (put k w s)) = get (put k v s)"
  by (rule ext) (simp add: get_put)

lemma get_put_commute: "k \<noteq> k' \<Longrightarrow> get (put k v (put k' w s)) = get (put k' w (put k v s))"
  by (rule ext) (simp add: get_put)

text \<open>A sequence of writes: the last write to a key is what a later read returns.\<close>

lemma get_fold_put:
  "get (fold (\<lambda>(k, v). put k v) ws s) k
     = (case map_of (rev ws) k of None \<Rightarrow> get s k | Some v \<Rightarrow> Some v)"
proof (induction ws arbitrary: s)
  case Nil
  then show ?case by simp
next
  case (Cons w ws)
  obtain k' v' where [simp]: "w = (k', v')" by (cases w)
  show ?case by (auto simp: Cons get_put map_add_def split: option.splits)
qed

end

locale removable_store = keyed_store +
  fixes remove :: "'k \<Rightarrow> 's \<Rightarrow> 'v option \<times> 's"
  assumes fst_remove: "fst (remove k s) = get s k"
    and get_remove: "get (snd (remove k s)) k' = (if k' = k then None else get s k')"
begin

text \<open>What was added is what is removed, once.\<close>

lemma remove_after_put: "fst (remove k (put k v s)) = Some v"
  by (simp add: fst_remove)

lemma remove_twice: "fst (remove k (snd (remove k s))) = None"
  by (simp add: fst_remove get_remove)

lemma remove_put_frame: "k' \<noteq> k \<Longrightarrow> get (snd (remove k (put k v s))) k' = get s k'"
  by (simp add: get_remove get_put)

end

locale addressed_queue =
  fixes contents :: "'q \<Rightarrow> 'a list"
    and enqueue :: "'a \<Rightarrow> 'q \<Rightarrow> 'q"
    and remove :: "'i \<Rightarrow> 'q \<Rightarrow> 'a option \<times> 'q"
    and ident :: "'a \<Rightarrow> 'i"
  assumes contents_enqueue: "contents (enqueue a q) = contents q @ [a]"
    and remove_first_match: "fst (remove i q) = fst (remove_first (\<lambda>a. ident a = i) (contents q))"
    and contents_remove:
      "contents (snd (remove i q)) = snd (remove_first (\<lambda>a. ident a = i) (contents q))"
begin

lemma contents_enqueue_many: "contents (fold enqueue as q) = contents q @ as"
  by (induction as arbitrary: q) (auto simp: contents_enqueue)

text \<open>Removal by identifier takes the first match and keeps every other element in its place.\<close>

lemma remove_keeps_order:
  assumes "fst (remove i q) = Some a"
  shows "\<exists>as bs. contents q = as @ a # bs \<and> contents (snd (remove i q)) = as @ bs
           \<and> ident a = i \<and> (\<forall>x\<in>set as. ident x \<noteq> i)"
proof -
  have "remove_first (\<lambda>a. ident a = i) (contents q) = (Some a, contents (snd (remove i q)))"
    using assms by (metis contents_remove prod.collapse remove_first_match)
  from remove_first_split [OF this] show ?thesis by blast
qed

lemma remove_absent:
  "fst (remove i q) = None \<Longrightarrow> contents (snd (remove i q)) = contents q"
proof -
  assume "fst (remove i q) = None"
  then have "find_first (\<lambda>a. ident a = i) (contents q) = None"
    by (simp add: remove_first_match fst_remove_first)
  then have "\<forall>x\<in>set (contents q). ident x \<noteq> i" by (simp add: find_first_None)
  then show ?thesis by (simp add: contents_remove remove_first_None)
qed

lemma remove_subset: "set (contents (snd (remove i q))) \<subseteq> set (contents q)"
  by (simp add: contents_remove set_remove_first)

text \<open>An element that came alone is taken out again, and nothing else with it.\<close>

lemma remove_fresh:
  assumes "\<forall>x\<in>set (contents q). ident x \<noteq> ident a"
  shows "contents (snd (remove (ident a) (enqueue a q))) = contents q"
  using assms by (simp add: contents_remove contents_enqueue remove_first_last)

end

locale fifo_queue = addressed_queue +
  fixes dequeue :: "'q \<Rightarrow> 'a option \<times> 'q"
    and find :: "'i \<Rightarrow> 'q \<Rightarrow> 'a option"
  assumes dequeue_empty: "contents q = [] \<Longrightarrow> dequeue q = (None, q)"
    and dequeue_Cons: "contents q = a # as \<Longrightarrow>
          fst (dequeue q) = Some a \<and> contents (snd (dequeue q)) = as"
    and find_first_match: "find i q = find_first (\<lambda>a. ident a = i) (contents q)"
begin

text \<open>Order: an element enqueued on a queue comes out after exactly what was there before it.\<close>

lemma enqueue_then_dequeue:
  "contents q = b # bs \<Longrightarrow> fst (dequeue (enqueue a q)) = Some b
     \<and> contents (snd (dequeue (enqueue a q))) = bs @ [a]"
  using dequeue_Cons [of "enqueue a q" b "bs @ [a]"] by (simp add: contents_enqueue)

lemma find_iff_remove: "find i q = fst (remove i q)"
  by (simp add: find_first_match remove_first_match fst_remove_first)

end

end
