(* ===== verification/Actions.thy ===== *)
theory Actions
  imports Py_Time Store_Interfaces
begin

text \<open>
  The action model of \<open>core/actions.py\<close>, \<open>core/action_lifecycle.py\<close>, \<open>core/action_lifecycle_manager.py\<close>,
  \<open>core/action_lifecycle_repository.py\<close>, \<open>core/action_queue.py\<close> and \<open>core/approvals.py\<close>: actions,
  their lifecycle states and transitions, and the three in-memory stores.
  \<open>action_state\<close> is the part of the process state these stores make up; later theories extend it.
\<close>

section \<open>Actions\<close>

datatype ExecutorRole =
  CONTENT_REVIEW | CONTENT_SUMMARY | CONTEXT_PREPARATION | SOFTWARE_ENGINEERING

fun role_value :: "ExecutorRole \<Rightarrow> string" where
  "role_value CONTENT_REVIEW = ''content_review''"
| "role_value CONTENT_SUMMARY = ''content_summary''"
| "role_value CONTEXT_PREPARATION = ''context_preparation''"
| "role_value SOFTWARE_ENGINEERING = ''software_engineering''"

definition all_roles :: "ExecutorRole list" where
  "all_roles = [CONTENT_REVIEW, CONTENT_SUMMARY, CONTEXT_PREPARATION, SOFTWARE_ENGINEERING]"

text \<open>A field of type \<open>ExecutorRole | str\<close>; equality is equality of the text, as for a StrEnum.\<close>

datatype role_ref = RoleEnum ExecutorRole | RoleText string

fun role_ref_text :: "role_ref \<Rightarrow> string" where
  "role_ref_text (RoleEnum r) = role_value r"
| "role_ref_text (RoleText s) = s"

record action =
  act_id :: uuid
  act_type :: string
  act_target :: string
  act_payload :: pydict
  act_executor_role :: "role_ref option"
  act_created_at :: datetime
  act_metadata :: pydict

definition is_utc :: "datetime \<Rightarrow> bool" where
  "is_utc d = (dt_offset d = Some 0)"

text \<open>The validator of \<open>Action.created_at\<close>.\<close>

definition require_utc_created_at :: "datetime \<Rightarrow> datetime result" where
  "require_utc_created_at v =
     (if \<not> is_aware v then Inl (ValueError ''created_at must be timezone-aware'')
      else if \<not> is_utc v then Inl (ValueError ''created_at must be in UTC'')
      else Inr v)"

definition mk_action ::
  "uuid \<Rightarrow> string \<Rightarrow> string \<Rightarrow> pydict \<Rightarrow> role_ref option \<Rightarrow> datetime \<Rightarrow> pydict \<Rightarrow> action result" where
  "mk_action i ty tgt payload role created md =
     rbind (require_utc_created_at created) (\<lambda>c.
       Inr \<lparr>act_id = i, act_type = ty, act_target = tgt, act_payload = payload,
            act_executor_role = role, act_created_at = c, act_metadata = md\<rparr>)"

section \<open>Lifecycle states\<close>

datatype ActionStatus =
  PLANNED | QUEUED | APPROVED | REJECTED | EXECUTING | COMPLETED | SKIPPED | FAILED

fun action_status_value :: "ActionStatus \<Rightarrow> string" where
  "action_status_value PLANNED = ''planned''"
| "action_status_value QUEUED = ''queued''"
| "action_status_value APPROVED = ''approved''"
| "action_status_value REJECTED = ''rejected''"
| "action_status_value EXECUTING = ''executing''"
| "action_status_value COMPLETED = ''completed''"
| "action_status_value SKIPPED = ''skipped''"
| "action_status_value FAILED = ''failed''"

record action_lifecycle_state =
  als_status :: ActionStatus
  als_created_at :: datetime
  als_updated_at :: datetime
  als_reason :: "string option"
  als_metadata :: pydict

definition require_utc_timestamp :: "datetime \<Rightarrow> datetime result" where
  "require_utc_timestamp v =
     (if \<not> is_aware v then Inl (ValueError ''timestamp must be timezone-aware'')
      else if \<not> is_utc v then Inl (ValueError ''timestamp must be in UTC'')
      else Inr v)"

definition normalize_blank_reason :: "string option \<Rightarrow> string option" where
  "normalize_blank_reason v =
     (case v of None \<Rightarrow> None | Some s \<Rightarrow> if str_blank s then None else Some s)"

text \<open>The constructor with its validators; an omitted \<open>updated_at\<close> takes the creation time.\<close>

definition mk_action_lifecycle_state ::
  "ActionStatus \<Rightarrow> datetime \<Rightarrow> datetime option \<Rightarrow> string option \<Rightarrow> pydict
     \<Rightarrow> action_lifecycle_state result" where
  "mk_action_lifecycle_state st created updated reason md =
     rbind (require_utc_timestamp created) (\<lambda>c.
     rbind (case updated of None \<Rightarrow> Inr c | Some u \<Rightarrow> require_utc_timestamp u) (\<lambda>u.
       Inr \<lparr>als_status = st, als_created_at = c, als_updated_at = u,
            als_reason = normalize_blank_reason reason, als_metadata = md\<rparr>))"

section \<open>The lifecycle manager\<close>

definition valid_transitions :: "(ActionStatus \<times> ActionStatus) list" where
  "valid_transitions =
     [(PLANNED, QUEUED), (QUEUED, APPROVED), (QUEUED, REJECTED), (APPROVED, EXECUTING),
      (EXECUTING, COMPLETED), (EXECUTING, SKIPPED), (EXECUTING, FAILED), (FAILED, QUEUED)]"

definition action_transition ::
  "action_lifecycle_state \<Rightarrow> ActionStatus \<Rightarrow> string option \<Rightarrow> pydict option \<Rightarrow> datetime
     \<Rightarrow> action_lifecycle_state result" where
  "action_transition state status reason metadata now =
     (if (als_status state, status) \<notin> set valid_transitions
      then Inl (ValueError (''invalid action lifecycle transition: ''
             @ action_status_value (als_status state) @ '' -> '' @ action_status_value status))
      else if reason \<noteq> None \<and> status \<notin> {FAILED, REJECTED, SKIPPED}
      then Inl (ValueError ''reason may only be supplied for failed, rejected or skipped actions'')
      else mk_action_lifecycle_state status (als_created_at state) (Some now) reason
             (dict_merge (als_metadata state) (case metadata of None \<Rightarrow> [] | Some m \<Rightarrow> m)))"

definition wf_lifecycle :: "action_lifecycle_state \<Rightarrow> bool" where
  "wf_lifecycle s \<longleftrightarrow> is_utc (als_created_at s) \<and> is_utc (als_updated_at s) \<and>
     (case als_reason s of None \<Rightarrow> True | Some r \<Rightarrow> \<not> str_blank r)"

lemma is_utc_aware: "is_utc d \<Longrightarrow> is_aware d"
  by (simp add: is_utc_def is_aware_def)

lemma is_utc_now [simp]: "is_utc (now_utc c i)"
  by (simp add: is_utc_def)

lemma require_utc_timestamp_Inr: "require_utc_timestamp v = Inr w \<longleftrightarrow> w = v \<and> is_utc v"
  by (auto simp: require_utc_timestamp_def is_utc_aware)

lemma require_utc_created_at_Inr: "require_utc_created_at v = Inr w \<longleftrightarrow> w = v \<and> is_utc v"
  by (auto simp: require_utc_created_at_def is_utc_aware)

lemma mk_lifecycle_now [simp]:
  "mk_action_lifecycle_state st (now_utc c i) None reason md
     = Inr \<lparr>als_status = st, als_created_at = now_utc c i, als_updated_at = now_utc c i,
            als_reason = normalize_blank_reason reason, als_metadata = md\<rparr>"
  by (simp add: mk_action_lifecycle_state_def require_utc_timestamp_def is_utc_aware)

lemma mk_lifecycle_wf: "mk_action_lifecycle_state st cr up reason md = Inr s \<Longrightarrow> wf_lifecycle s"
  by (auto simp: mk_action_lifecycle_state_def wf_lifecycle_def normalize_blank_reason_def
      require_utc_timestamp_Inr split: option.splits if_splits)

lemma action_transition_wf: "action_transition s st r md now = Inr s' \<Longrightarrow> wf_lifecycle s'"
  by (auto simp: action_transition_def split: if_splits dest: mk_lifecycle_wf)

lemma action_transition_Inr:
  "action_transition s st r md now = Inr s' \<longleftrightarrow>
     (als_status s, st) \<in> set valid_transitions \<and> (r \<noteq> None \<longrightarrow> st \<in> {FAILED, REJECTED, SKIPPED}) \<and>
     is_utc (als_created_at s) \<and> is_utc now \<and>
     s' = \<lparr>als_status = st, als_created_at = als_created_at s, als_updated_at = now,
           als_reason = normalize_blank_reason r,
           als_metadata = dict_merge (als_metadata s) (case md of None \<Rightarrow> [] | Some m \<Rightarrow> m)\<rparr>"
  by (auto simp: action_transition_def mk_action_lifecycle_state_def require_utc_timestamp_Inr)

text \<open>On a well-formed state and a UTC clock a transition of the table always succeeds.\<close>

lemma action_transition_ok:
  assumes "wf_lifecycle s" "(als_status s, st) \<in> set valid_transitions"
    and "r \<noteq> None \<longrightarrow> st \<in> {FAILED, REJECTED, SKIPPED}"
  shows "action_transition s st r md (now_utc c i)
     = Inr \<lparr>als_status = st, als_created_at = als_created_at s, als_updated_at = now_utc c i,
           als_reason = normalize_blank_reason r,
           als_metadata = dict_merge (als_metadata s) (case md of None \<Rightarrow> [] | Some m \<Rightarrow> m)\<rparr>"
  using assms by (simp add: action_transition_Inr wf_lifecycle_def)

lemma action_transition_status: "action_transition s st r md now = Inr s' \<Longrightarrow> als_status s' = st"
  by (simp add: action_transition_Inr)

text \<open>A run of transitions: the statuses requested one after the other.\<close>

fun transition_run :: "action_lifecycle_state \<Rightarrow> (ActionStatus \<times> string option \<times> datetime) list
    \<Rightarrow> action_lifecycle_state result" where
  "transition_run s [] = Inr s"
| "transition_run s ((st, r, now) # ts) =
     rbind (action_transition s st r None now) (\<lambda>s'. transition_run s' ts)"

lemma transition_run_gate:
  "transition_run s ts = Inr s' \<Longrightarrow> als_status s \<notin> {APPROVED, EXECUTING, COMPLETED, SKIPPED, FAILED} \<Longrightarrow>
   als_status s' \<in> {EXECUTING, COMPLETED, SKIPPED, FAILED} \<Longrightarrow> APPROVED \<in> fst ` set ts"
proof (induction s ts rule: transition_run.induct)
  case (1 s)
  then show ?case by simp
next
  case (2 s st r now ts)
  from "2.prems"(1) obtain s1 where tr: "action_transition s st r None now = Inr s1"
    and run: "transition_run s1 ts = Inr s'" by auto
  have s1: "als_status s1 = st" using tr by (rule action_transition_status)
  have valid: "(als_status s, st) \<in> set valid_transitions" using tr by (simp add: action_transition_Inr)
  show ?case
  proof (cases "st = APPROVED")
    case False
    with valid "2.prems"(2) s1 have "als_status s1 \<notin> {APPROVED, EXECUTING, COMPLETED, SKIPPED, FAILED}"
      by (auto simp: valid_transitions_def)
    with "2.IH" [OF run] "2.prems"(3) show ?thesis by auto
  qed simp
qed

section \<open>The lifecycle repository\<close>

type_synonym lifecycle_repository = "(uuid \<times> action_lifecycle_state) list"

definition lifecycle_get :: "lifecycle_repository \<Rightarrow> uuid \<Rightarrow> action_lifecycle_state option" where
  "lifecycle_get repo i = dict_get repo i"

definition lifecycle_set :: "uuid \<Rightarrow> action_lifecycle_state \<Rightarrow> lifecycle_repository \<Rightarrow> lifecycle_repository" where
  "lifecycle_set i st repo = dict_set i st repo"

definition lifecycle_list_states :: "lifecycle_repository \<Rightarrow> (uuid \<times> action_lifecycle_state) list" where
  "lifecycle_list_states repo = repo"

definition lifecycle_clear :: "lifecycle_repository \<Rightarrow> lifecycle_repository" where
  "lifecycle_clear repo = []"

interpretation lifecycle: keyed_store lifecycle_get lifecycle_set "[]"
  by unfold_locales (simp_all add: lifecycle_get_def lifecycle_set_def)

section \<open>The action queue\<close>

type_synonym action_queue = "action list"

definition queue_enqueue :: "action \<Rightarrow> action_queue \<Rightarrow> action_queue" where
  "queue_enqueue a q = q @ [a]"

definition queue_enqueue_many :: "action list \<Rightarrow> action_queue \<Rightarrow> action_queue" where
  "queue_enqueue_many as q = fold queue_enqueue as q"

definition queue_dequeue :: "action_queue \<Rightarrow> action option \<times> action_queue" where
  "queue_dequeue q = (case q of [] \<Rightarrow> (None, q) | a # as \<Rightarrow> (Some a, as))"

definition queue_get :: "uuid \<Rightarrow> action_queue \<Rightarrow> action option" where
  "queue_get i q = find_first (\<lambda>a. act_id a = i) q"

definition queue_remove :: "uuid \<Rightarrow> action_queue \<Rightarrow> action option \<times> action_queue" where
  "queue_remove i q = remove_first (\<lambda>a. act_id a = i) q"

definition queue_list :: "action_queue \<Rightarrow> action list" where
  "queue_list q = q"

definition queue_clear :: "action_queue \<Rightarrow> action_queue" where
  "queue_clear q = []"

definition queue_count :: "action_queue \<Rightarrow> nat" where
  "queue_count q = length q"

interpretation queue: fifo_queue queue_list queue_enqueue queue_remove act_id queue_dequeue queue_get
  by unfold_locales
     (auto simp: queue_list_def queue_enqueue_def queue_dequeue_def queue_get_def queue_remove_def)

lemma queue_enqueue_many_append: "queue_enqueue_many as q = q @ as"
  using queue.contents_enqueue_many [of as q] by (simp add: queue_enqueue_many_def queue_list_def)

section \<open>The pending approval registry\<close>

type_synonym approval_registry = "(uuid \<times> action) list"

definition registry_add :: "action \<Rightarrow> approval_registry \<Rightarrow> approval_registry" where
  "registry_add a reg = dict_set (act_id a) a reg"

definition registry_get :: "approval_registry \<Rightarrow> uuid \<Rightarrow> action option" where
  "registry_get reg i = dict_get reg i"

definition registry_remove :: "uuid \<Rightarrow> approval_registry \<Rightarrow> action option \<times> approval_registry" where
  "registry_remove i reg = (dict_get reg i, dict_pop i reg)"

definition registry_list_pending :: "approval_registry \<Rightarrow> action list" where
  "registry_list_pending reg = map snd reg"

definition registry_clear :: "approval_registry \<Rightarrow> approval_registry" where
  "registry_clear reg = []"

interpretation registry: removable_store registry_get "\<lambda>i a reg. dict_set i a reg" "[]" registry_remove
  by unfold_locales (simp_all add: registry_get_def registry_remove_def)

lemma registry_get_add: "registry_get (registry_add a reg) i = (if i = act_id a then Some a else registry_get reg i)"
  by (simp add: registry_add_def registry.get_put)

section \<open>The process state of the action layer\<close>

record action_state =
  action_queue :: action_queue
  action_lifecycle_repository :: lifecycle_repository
  pending_approval_registry :: approval_registry

abbreviation lifecycle_of :: "'z action_state_scheme \<Rightarrow> uuid \<Rightarrow> action_lifecycle_state option" where
  "lifecycle_of s i \<equiv> lifecycle_get (action_lifecycle_repository s) i"

abbreviation set_lifecycle :: "uuid \<Rightarrow> action_lifecycle_state \<Rightarrow> ('z action_state_scheme, unit) prog" where
  "set_lifecycle i st \<equiv> modify (action_lifecycle_repository_update (lifecycle_set i st))"

abbreviation enqueue_action :: "action \<Rightarrow> ('z action_state_scheme, unit) prog" where
  "enqueue_action a \<equiv> modify (action_queue_update (queue_enqueue a))"

end
