(* ===== verification/SE_Work_Product.thy ===== *)
theory SE_Work_Product
  imports Actions
begin

text \<open>
  \<open>integrations/software_engineering.py\<close> (the trusted workspace) and
  \<open>integrations/software_engineering_work_product.py\<close> (review and disposition of a worktree).
  The file system and the git executable are not the repository's code: they are the record \<open>host\<close> of
  operations on a world of type \<open>'g\<close>. A process run returns \<open>None\<close> when the executable is missing.
\<close>

section \<open>The process boundary and the host\<close>

record process_result =
  pr_returncode :: "int option"
  pr_stdout :: string
  pr_stderr :: string
  pr_timed_out :: bool

record 'g host =
  host_run :: "string list \<Rightarrow> path \<Rightarrow> 'g \<Rightarrow> process_result option \<times> 'g"
  host_is_dir :: "'g \<Rightarrow> path \<Rightarrow> bool"
  host_exists :: "'g \<Rightarrow> path \<Rightarrow> bool"
  host_resolve :: "'g \<Rightarrow> path \<Rightarrow> path"
  host_mkdir :: "path \<Rightarrow> 'g \<Rightarrow> 'g"

definition process_ok :: "process_result \<Rightarrow> bool" where
  "process_ok r \<longleftrightarrow> pr_returncode r = Some 0 \<and> \<not> pr_timed_out r"

section \<open>The trusted workspace\<close>

record isolated_worktree =
  iw_path :: path
  iw_branch :: string

record trusted_git_workspace =
  tgw_root :: path
  tgw_worktrees_root :: "path option"
  tgw_git :: string

definition run_git ::
  "'g host \<Rightarrow> trusted_git_workspace \<Rightarrow> string list \<Rightarrow> path \<Rightarrow> ('g, process_result) prog" where
  "run_git h ws args cwd g =
     (case host_run h (tgw_git ws # args) cwd g of
        (None, g') \<Rightarrow> (Inl (WorkspaceUnavailableError ''git is not available''), g')
      | (Some r, g') \<Rightarrow> (Inr r, g'))"

definition workspace_validate :: "'g host \<Rightarrow> trusted_git_workspace \<Rightarrow> ('g, path) prog" where
  "workspace_validate h ws =
     (let root = tgw_root ws in
      bnd (gets (\<lambda>g. host_is_dir h g root)) (\<lambda>isdir.
      if \<not> path_abs root \<or> \<not> isdir
      then raise_exc (WorkspaceUnavailableError ''trusted workspace does not exist'')
      else bnd (run_git h ws [''rev-parse'', ''--show-toplevel''] root) (\<lambda>r.
        if \<not> process_ok r
        then raise_exc (WorkspaceUnavailableError ''trusted workspace is not a git repository'')
        else bnd (gets (\<lambda>g. host_resolve h g (path_of_str (str_strip (pr_stdout r))) = host_resolve h g root)) (\<lambda>same.
          if \<not> same
          then raise_exc (WorkspaceUnavailableError ''trusted workspace is not the repository root'')
          else ret root))))"

definition worktrees_root :: "trusted_git_workspace \<Rightarrow> path" where
  "worktrees_root ws =
     (case tgw_worktrees_root ws of
        Some p \<Rightarrow> p
      | None \<Rightarrow> path_child (path_parent (tgw_root ws)) (''.'' @ path_name (tgw_root ws) @ ''-velox-worktrees''))"

definition expected_worktree :: "trusted_git_workspace \<Rightarrow> uuid \<Rightarrow> isolated_worktree" where
  "expected_worktree ws action_id =
     (let name = ''se-'' @ uuid_str action_id
      in \<lparr>iw_path = path_child (worktrees_root ws) name, iw_branch = ''velox/'' @ name\<rparr>)"

definition create_worktree :: "'g host \<Rightarrow> trusted_git_workspace \<Rightarrow> uuid \<Rightarrow> ('g, isolated_worktree) prog" where
  "create_worktree h ws action_id =
     bnd (workspace_validate h ws) (\<lambda>root.
     let worktree = expected_worktree ws action_id in
     bnd (gets (\<lambda>g. host_exists h g (iw_path worktree))) (\<lambda>present.
     if present
     then raise_exc (WorkspaceUnavailableError ''isolated worktree already exists'')
     else bnd (modify (host_mkdir h (path_parent (iw_path worktree)))) (\<lambda>_.
       bnd (run_git h ws [''worktree'', ''add'', ''-b'', iw_branch worktree, path_str (iw_path worktree), ''HEAD''] root) (\<lambda>r.
       if \<not> process_ok r
       then raise_exc (WorkspaceUnavailableError ''isolated worktree could not be created'')
       else ret worktree))))"

definition workspace_status :: "'g host \<Rightarrow> trusted_git_workspace \<Rightarrow> path \<Rightarrow> ('g, string) prog" where
  "workspace_status h ws p =
     bnd (run_git h ws [''status'', ''--porcelain=v1'', ''--untracked-files=all''] p) (\<lambda>r.
     if \<not> process_ok r
     then raise_exc (WorkspaceUnavailableError ''workspace status is unavailable'')
     else ret (pr_stdout r))"

definition changed_files :: "string \<Rightarrow> string list" where
  "changed_files status =
     map (\<lambda>line. split_once_last '' -> '' (drop 3 line))
       (filter (\<lambda>line. 3 < length line) (str_splitlines status))"

section \<open>Work products\<close>

definition DEFAULT_DIFF_LIMIT :: nat where "DEFAULT_DIFF_LIMIT = 20000"

definition DIFF_STAT_LIMIT :: nat where "DIFF_STAT_LIMIT = 4000"

datatype WorkProductDisposition = KEEP | DISCARD

fun disposition_value :: "WorkProductDisposition \<Rightarrow> string" where
  "disposition_value KEEP = ''keep''"
| "disposition_value DISCARD = ''discard''"

record work_product_review =
  wrv_action_id :: uuid
  wrv_worktree_path :: path
  wrv_branch :: string
  wrv_changed_files :: "string list"
  wrv_untracked_files :: "string list"
  wrv_diff_stat :: string
  wrv_diff :: string
  wrv_diff_truncated :: bool
  wrv_dirty :: bool
  wrv_canonical_clean :: bool
  wrv_canonical_unchanged :: bool

record work_product_disposition_result =
  wpr_action_id :: uuid
  wpr_disposition :: WorkProductDisposition
  wpr_worktree_path :: path
  wpr_branch :: string
  wpr_worktree_present :: bool
  wpr_branch_present :: bool
  wpr_canonical_unchanged :: bool

definition wpr_remaining :: "work_product_disposition_result \<Rightarrow> string list" where
  "wpr_remaining r =
     (if wpr_disposition r = KEEP then []
      else (if wpr_worktree_present r then [''worktree''] else [])
           @ (if wpr_branch_present r then [''branch''] else []))"

definition wpr_succeeded :: "work_product_disposition_result \<Rightarrow> bool" where
  "wpr_succeeded r \<longleftrightarrow> wpr_remaining r = [] \<and> wpr_canonical_unchanged r"

definition clip :: "string \<Rightarrow> nat \<Rightarrow> string \<times> bool" where
  "clip text limit = (if length text \<le> limit then (text, False) else (take limit text, True))"

fun registered_worktrees_loop ::
  "(path \<times> string option) list \<Rightarrow> path option \<Rightarrow> string option \<Rightarrow> string list \<Rightarrow> (path \<times> string option) list" where
  "registered_worktrees_loop entries p branch [] = entries"
| "registered_worktrees_loop entries p branch (line # lines) =
     (if str_startswith line ''worktree ''
      then registered_worktrees_loop entries (Some (path_of_str (drop (length ''worktree '') line))) None lines
      else if str_startswith line ''branch ''
      then registered_worktrees_loop entries p (Some (drop (length ''branch '') line)) lines
      else case (line, p) of
          ([], Some q) \<Rightarrow> registered_worktrees_loop (entries @ [(q, branch)]) None None lines
        | _ \<Rightarrow> registered_worktrees_loop entries p branch lines)"

definition registered_worktrees :: "string \<Rightarrow> (path \<times> string option) list" where
  "registered_worktrees porcelain = registered_worktrees_loop [] None None (str_splitlines porcelain @ [''''])"

section \<open>The work product service\<close>

definition wp_git :: "'g host \<Rightarrow> trusted_git_workspace \<Rightarrow> string list \<Rightarrow> path \<Rightarrow> ('g, string) prog" where
  "wp_git h ws args cwd =
     bnd (run_git h ws args cwd) (\<lambda>r.
     if \<not> process_ok r
     then raise_exc (WorkProductIdentityError ''git command failed during verification'')
     else ret (pr_stdout r))"

definition branch_exists :: "'g host \<Rightarrow> trusted_git_workspace \<Rightarrow> path \<Rightarrow> string \<Rightarrow> ('g, bool) prog" where
  "branch_exists h ws checkout branch =
     bnd (run_git h ws [''rev-parse'', ''--verify'', ''--quiet'', ''refs/heads/'' @ branch] checkout) (\<lambda>r.
     ret (process_ok r))"

text \<open>\<open>except WorkspaceUnavailableError: raise WorkProductIdentityError(message)\<close>.\<close>

definition unavailable_as :: "string \<Rightarrow> ('g, 'a) prog \<Rightarrow> ('g, 'a) prog" where
  "unavailable_as msg m =
     try_except m (\<lambda>e. case e of
         WorkspaceUnavailableError _ \<Rightarrow> raise_exc (WorkProductIdentityError msg)
       | _ \<Rightarrow> raise_exc e)"

definition wp_verified ::
  "'g host \<Rightarrow> trusted_git_workspace \<Rightarrow> uuid \<Rightarrow> ('g, path \<times> isolated_worktree \<times> string) prog" where
  "wp_verified h ws action_id =
     bnd (unavailable_as ''trusted workspace is unavailable''
       (bnd (workspace_validate h ws) (\<lambda>root.
        bnd (workspace_status h ws root) (\<lambda>st. ret (root, st))))) (\<lambda>(root, canonical_status).
     let worktree = expected_worktree ws action_id in
     bnd (gets (\<lambda>g. host_is_dir h g (iw_path worktree))) (\<lambda>isdir.
     if \<not> isdir then raise_exc (WorkProductIdentityError ''isolated worktree does not exist'')
     else bnd (gets (\<lambda>g. (host_resolve h g root, host_resolve h g (iw_path worktree)))) (\<lambda>(canonical, derived).
     if derived = canonical \<or> path_in_parents canonical derived
     then raise_exc (WorkProductIdentityError ''derived worktree overlaps the canonical checkout'')
     else bnd (wp_git h ws [''worktree'', ''list'', ''--porcelain''] root) (\<lambda>porcelain.
     let entries = registered_worktrees porcelain in
     bnd (gets (\<lambda>g. map (\<lambda>(p, b). (host_resolve h g p, b)) entries)) (\<lambda>resolved.
     if resolved = [] \<or> fst (hd resolved) \<noteq> canonical
     then raise_exc (WorkProductIdentityError ''canonical checkout is not the main worktree'')
     else if map snd (filter (\<lambda>(p, b). p = derived) (tl resolved)) \<noteq> [Some (''refs/heads/'' @ iw_branch worktree)]
     then raise_exc (WorkProductIdentityError ''derived worktree is not registered on its branch'')
     else bnd (wp_git h ws [''rev-parse'', ''--show-toplevel''] (iw_path worktree)) (\<lambda>top.
     bnd (gets (\<lambda>g. host_resolve h g (path_of_str (str_strip top)) = derived)) (\<lambda>own.
     if \<not> own then raise_exc (WorkProductIdentityError ''derived worktree is not its own checkout'')
     else ret (root, worktree, canonical_status))))))))"

definition diff_options :: "string list" where
  "diff_options = [''--no-ext-diff'', ''--no-textconv'', ''--no-color'']"

definition wp_review ::
  "'g host \<Rightarrow> trusted_git_workspace \<Rightarrow> nat \<Rightarrow> uuid \<Rightarrow> ('g, work_product_review) prog" where
  "wp_review h ws diff_limit action_id =
     bnd (wp_verified h ws action_id) (\<lambda>(root, worktree, canonical_before).
     bnd (unavailable_as ''worktree status is unavailable'' (workspace_status h ws (iw_path worktree))) (\<lambda>status.
     let untracked = map (drop 3) (filter (\<lambda>line. str_startswith line ''?? '') (str_splitlines status)) in
     bnd (wp_git h ws ([''diff''] @ diff_options @ [''--stat'', ''HEAD'']) (iw_path worktree)) (\<lambda>stat_out.
     bnd (wp_git h ws ([''diff''] @ diff_options @ [''HEAD'']) (iw_path worktree)) (\<lambda>diff_out.
     bnd (unavailable_as ''canonical status is unavailable'' (workspace_status h ws root)) (\<lambda>canonical_after.
     ret \<lparr>wrv_action_id = action_id, wrv_worktree_path = iw_path worktree, wrv_branch = iw_branch worktree,
          wrv_changed_files = changed_files status, wrv_untracked_files = untracked,
          wrv_diff_stat = fst (clip stat_out DIFF_STAT_LIMIT),
          wrv_diff = fst (clip diff_out diff_limit), wrv_diff_truncated = snd (clip diff_out diff_limit),
          wrv_dirty = (\<not> str_blank status), wrv_canonical_clean = str_blank canonical_after,
          wrv_canonical_unchanged = (canonical_after = canonical_before)\<rparr>)))))"

definition wp_apply ::
  "'g host \<Rightarrow> trusted_git_workspace \<Rightarrow> uuid \<Rightarrow> WorkProductDisposition
     \<Rightarrow> ('g, work_product_disposition_result) prog" where
  "wp_apply h ws action_id disposition =
     bnd (wp_verified h ws action_id) (\<lambda>(root, worktree, canonical_before).
     if disposition = KEEP
     then ret \<lparr>wpr_action_id = action_id, wpr_disposition = disposition,
               wpr_worktree_path = iw_path worktree, wpr_branch = iw_branch worktree,
               wpr_worktree_present = True, wpr_branch_present = True, wpr_canonical_unchanged = True\<rparr>
     else bnd (wp_git h ws [''rev-list'', ''--count'', ''HEAD..refs/heads/'' @ iw_branch worktree] root) (\<lambda>ahead.
       if str_strip ahead \<noteq> ''0''
       then raise_exc (WorkProductIdentityError ''branch has commits not in the canonical HEAD'')
       else bnd (run_git h ws [''worktree'', ''remove'', ''--force'', path_str (iw_path worktree)] root) (\<lambda>_.
       bnd (gets (\<lambda>g. host_exists h g (iw_path worktree))) (\<lambda>worktree_present.
       bnd (if \<not> worktree_present
            then bnd (run_git h ws [''branch'', ''-D'', iw_branch worktree] root) (\<lambda>_. ret ())
            else ret ()) (\<lambda>_.
       bnd (try_except (bnd (workspace_status h ws root) (\<lambda>st. ret (Some st)))
              (\<lambda>e. case e of WorkspaceUnavailableError _ \<Rightarrow> ret None | _ \<Rightarrow> raise_exc e)) (\<lambda>canonical_after.
       bnd (branch_exists h ws root (iw_branch worktree)) (\<lambda>branch_present.
       ret \<lparr>wpr_action_id = action_id, wpr_disposition = disposition,
            wpr_worktree_path = iw_path worktree, wpr_branch = iw_branch worktree,
            wpr_worktree_present = worktree_present, wpr_branch_present = branch_present,
            wpr_canonical_unchanged = (canonical_after = Some canonical_before)\<rparr>)))))))"

end
