(* ===== verification/Executor_Registry.thy ===== *)
theory Executor_Registry
  imports Actions
begin

text \<open>
  \<open>workers/executor.py\<close>: execution results, capabilities, provider manifests and the executor registry
  with its capability routing. Executors are values of the type parameter \<open>'x\<close>: the registry stores
  and returns them and calls nothing on them. The \<open>isinstance\<close> checks of the source on capabilities and
  executors hold by typing here.
\<close>

section \<open>Execution results\<close>

datatype WorkerExecutionStatus = WSUCCEEDED | WSKIPPED | WFAILED

fun worker_status_value :: "WorkerExecutionStatus \<Rightarrow> string" where
  "worker_status_value WSUCCEEDED = ''succeeded''"
| "worker_status_value WSKIPPED = ''skipped''"
| "worker_status_value WFAILED = ''failed''"

datatype WorkerExecutionFailureCategory = TRANSIENT | PERMANENT | INTERNAL

fun failure_category_value :: "WorkerExecutionFailureCategory \<Rightarrow> string" where
  "failure_category_value TRANSIENT = ''transient''"
| "failure_category_value PERMANENT = ''permanent''"
| "failure_category_value INTERNAL = ''internal''"

record worker_execution_failure =
  wef_category :: WorkerExecutionFailureCategory
  wef_message :: "string option"
  wef_metadata :: pydict

record worker_execution_result =
  wer_action :: action
  wer_status :: WorkerExecutionStatus
  wer_reason :: "string option"
  wer_metadata :: pydict
  wer_failure :: "worker_execution_failure option"

record worker_account_context =
  wac_principal :: "string option"
  wac_account_identifier :: string

definition as_metadata :: "worker_account_context \<Rightarrow> pyval" where
  "as_metadata a =
     PDict [(''principal'', opt_str (wac_principal a)),
            (''account_identifier'', PStr (wac_account_identifier a))]"

definition noop_execute :: "action \<Rightarrow> worker_execution_result" where
  "noop_execute a =
     \<lparr>wer_action = a, wer_status = WSKIPPED,
      wer_reason = Some ''no registered executor handled this action'',
      wer_metadata = [(''external_execution_performed'', PBool False), (''skipped'', PBool True)],
      wer_failure = None\<rparr>"

section \<open>Normalized identifiers\<close>

text \<open>The argument is of type Any at the call sites that read an action's payload.\<close>

definition normalize_identifier :: "pyval \<Rightarrow> string" where
  "normalize_identifier v = (case v of PStr s \<Rightarrow> str_casefold (str_strip s) | _ \<Rightarrow> '''')"

definition normalize_role :: "role_ref option \<Rightarrow> string" where
  "normalize_role r = (case r of
      None \<Rightarrow> '''' | Some (RoleEnum x) \<Rightarrow> role_value x | Some (RoleText s) \<Rightarrow> str_strip s)"

definition normalize_route_value :: "pyval \<Rightarrow> string" where
  "normalize_route_value v = (case v of PStr s \<Rightarrow> str_strip s | _ \<Rightarrow> '''')"

record worker_capability =
  wc_identifier :: string
  wc_role :: string
  wc_provider :: string

definition mk_worker_capability :: "string \<Rightarrow> role_ref \<Rightarrow> string \<Rightarrow> worker_capability result" where
  "mk_worker_capability identifier role provider =
     (let ni = normalize_identifier (PStr identifier);
          nr = normalize_role (Some role);
          np = normalize_identifier (PStr provider)
      in if ni = '''' then Inl (ValueError ''worker capability identifier must not be empty'')
         else if nr = '''' then Inl (ValueError ''worker capability role must not be empty'')
         else if np = '''' then Inl (ValueError ''worker capability provider must not be empty'')
         else Inr \<lparr>wc_identifier = ni, wc_role = nr, wc_provider = np\<rparr>)"

section \<open>Provider manifests\<close>

record 'x provider_manifest =
  pm_capabilities :: "worker_capability list"
  pm_executor :: 'x
  pm_account_context :: "worker_account_context option"

type_synonym route_key = "string \<times> string \<times> string \<times> string option"

fun validate_capabilities ::
  "nat \<Rightarrow> string set \<Rightarrow> (string \<times> string \<times> string) set \<Rightarrow> worker_capability list
     \<Rightarrow> (string set \<times> (string \<times> string \<times> string) set) result" where
  "validate_capabilities index providers keys [] = Inr (providers, keys)"
| "validate_capabilities index providers keys (cap # caps) =
     (let pos = ''invalid provider manifest: capability at index '' @ nat_str index;
          key = (wc_role cap, wc_identifier cap, wc_provider cap)
      in if wc_identifier cap = '''' \<or> wc_identifier cap \<noteq> normalize_identifier (PStr (wc_identifier cap))
         then Inl (ValueError (pos @ '' has an invalid identifier''))
         else if wc_provider cap = '''' \<or> wc_provider cap \<noteq> normalize_identifier (PStr (wc_provider cap))
         then Inl (ValueError (pos @ '' has an invalid provider identifier''))
         else if wc_role cap \<notin> set (map role_value all_roles)
         then Inl (ValueError (pos @ '' has an invalid executor role''))
         else if key \<in> keys
         then Inl (ValueError (''invalid provider manifest: duplicate capability route ''
                @ [CHR 0x27] @ wc_role cap @ '':'' @ wc_identifier cap @ '':'' @ wc_provider cap @ [CHR 0x27]))
         else validate_capabilities (Suc index) (insert (wc_provider cap) providers) (insert key keys) caps)"

definition manifest_validate :: "'x provider_manifest \<Rightarrow> unit result" where
  "manifest_validate m =
     (if pm_capabilities m = []
      then Inl (ValueError ''invalid provider manifest: capabilities must not be empty'')
      else rbind (validate_capabilities 0 {} {} (pm_capabilities m)) (\<lambda>(providers, keys).
        if card providers \<noteq> 1
        then Inl (ValueError ''invalid provider manifest: capabilities must declare one provider'')
        else Inr ()))"

section \<open>The registry\<close>

record 'x worker_registration =
  reg_capability :: worker_capability
  reg_executor :: 'x
  reg_account_context :: "worker_account_context option"

record 'x executor_registry =
  provider_registrations :: "(route_key \<times> 'x worker_registration) list"
  fallback_executor :: 'x

record 'x executor_resolution =
  res_executor :: 'x
  res_requested_role :: "string option"
  res_registered :: bool
  res_requested_capability :: "string option"
  res_requested_provider :: "string option"
  res_matched_provider :: "string option"
  res_requested_account_context :: "worker_account_context option"
  res_matched_account_context :: "worker_account_context option"
  res_routing_reason :: "string option"

definition empty_registry :: "'x \<Rightarrow> 'x executor_registry" where
  "empty_registry fallback = \<lparr>provider_registrations = [], fallback_executor = fallback\<rparr>"

definition normalize_account_context ::
  "worker_account_context option \<Rightarrow> worker_account_context option" where
  "normalize_account_context ctx =
     (case ctx of
        None \<Rightarrow> None
      | Some a \<Rightarrow>
          let ident = normalize_route_value (PStr (wac_account_identifier a));
              principal = map_option (\<lambda>p. normalize_route_value (PStr p)) (wac_principal a)
          in if ident = '''' then None
             else if principal = Some '''' then None
             else Some \<lparr>wac_principal = principal, wac_account_identifier = ident\<rparr>)"

definition account_key :: "worker_account_context option \<Rightarrow> string option" where
  "account_key ctx = map_option wac_account_identifier ctx"

definition route_key_of :: "worker_account_context option \<Rightarrow> worker_capability \<Rightarrow> route_key" where
  "route_key_of ctx cap = (wc_role cap, wc_identifier cap, wc_provider cap, account_key ctx)"

definition register_capability ::
  "worker_capability \<Rightarrow> 'x \<Rightarrow> worker_account_context option \<Rightarrow> ('x executor_registry, unit) prog" where
  "register_capability cap executor ctx =
     (let nctx = normalize_account_context ctx in
      if ctx \<noteq> None \<and> nctx = None
      then raise_exc (ValueError ''capability account context must not be empty'')
      else bnd (gets provider_registrations) (\<lambda>regs.
        if dict_has regs (route_key_of nctx cap)
        then raise_exc (ValueError ''capability route is already registered'')
        else modify (provider_registrations_update (dict_set (route_key_of nctx cap)
               \<lparr>reg_capability = cap, reg_executor = executor, reg_account_context = nctx\<rparr>))))"

fun register_capabilities ::
  "worker_capability list \<Rightarrow> 'x \<Rightarrow> worker_account_context option \<Rightarrow> ('x executor_registry, unit) prog" where
  "register_capabilities [] executor ctx = ret ()"
| "register_capabilities (cap # caps) executor ctx =
     bnd (register_capability cap executor ctx) (\<lambda>_. register_capabilities caps executor ctx)"

definition register_manifest :: "'x provider_manifest \<Rightarrow> ('x executor_registry, unit) prog" where
  "register_manifest m =
     bnd (liftr (manifest_validate m)) (\<lambda>_.
     let nctx = normalize_account_context (pm_account_context m) in
     if pm_account_context m \<noteq> None \<and> nctx = None
     then raise_exc (ValueError (''invalid provider manifest: account context must contain a ''
            @ ''non-empty account identifier and principal when provided''))
     else bnd (gets provider_registrations) (\<lambda>regs.
       case find_first (dict_has regs) (map (route_key_of nctx) (pm_capabilities m)) of
         Some (role, cap, provider, acct) \<Rightarrow>
           raise_exc (ValueError (''invalid provider manifest: capability route conflicts with an ''
             @ ''existing registration '' @ [CHR 0x27] @ role @ '':'' @ cap @ '':'' @ provider @ [CHR 0x27]))
       | None \<Rightarrow> register_capabilities (pm_capabilities m) (pm_executor m) nctx))"

definition registered_capability_routes :: "'x executor_registry \<Rightarrow> route_key list" where
  "registered_capability_routes r = map fst (provider_registrations r)"

definition registered_capabilities :: "'x executor_registry \<Rightarrow> worker_capability list" where
  "registered_capabilities r = map (reg_capability \<circ> snd) (provider_registrations r)"

section \<open>Routing inputs of an action\<close>

record 'a route_request =
  rr_value :: "'a option"
  rr_present :: bool
  rr_valid :: bool

definition identifier_request :: "bool \<Rightarrow> pyval \<Rightarrow> string route_request" where
  "identifier_request present v = (let n = normalize_identifier v in
     \<lparr>rr_value = (if n = '''' then None else Some n), rr_present = present, rr_valid = (n \<noteq> '''')\<rparr>)"

definition capability_for_action :: "action \<Rightarrow> string route_request" where
  "capability_for_action a =
     (if dict_has (act_payload a) ''capability''
      then identifier_request True (pd_get (act_payload a) ''capability'')
      else if dict_has (act_metadata a) ''capability''
      then identifier_request True (pd_get (act_metadata a) ''capability'')
      else identifier_request False (PStr (act_type a)))"

definition provider_for_action :: "action \<Rightarrow> string route_request" where
  "provider_for_action a =
     (if dict_has (act_payload a) ''capability_provider''
      then identifier_request True (pd_get (act_payload a) ''capability_provider'')
      else if dict_has (act_metadata a) ''capability_provider''
      then identifier_request True (pd_get (act_metadata a) ''capability_provider'')
      else \<lparr>rr_value = None, rr_present = False, rr_valid = True\<rparr>)"

definition parse_account_context :: "pyval \<Rightarrow> worker_account_context route_request" where
  "parse_account_context v =
     (case v of
        PDict d \<Rightarrow>
          let ident = normalize_route_value (pd_get d ''account_identifier'');
              principal = pd_get d ''principal'';
              np = (if principal = PNone then None else Some (normalize_route_value principal))
          in if np = Some '''' then \<lparr>rr_value = None, rr_present = True, rr_valid = False\<rparr>
             else if ident = '''' then \<lparr>rr_value = None, rr_present = True, rr_valid = False\<rparr>
             else \<lparr>rr_value = Some \<lparr>wac_principal = np, wac_account_identifier = ident\<rparr>,
                   rr_present = True, rr_valid = True\<rparr>
      | _ \<Rightarrow> \<lparr>rr_value = None, rr_present = True, rr_valid = False\<rparr>)"

definition account_context_for_action :: "action \<Rightarrow> worker_account_context route_request" where
  "account_context_for_action a =
     (if dict_has (act_payload a) ''account_context''
      then parse_account_context (pd_get (act_payload a) ''account_context'')
      else if dict_has (act_metadata a) ''account_context''
      then parse_account_context (pd_get (act_metadata a) ''account_context'')
      else \<lparr>rr_value = None, rr_present = False, rr_valid = True\<rparr>)"

section \<open>Route resolution\<close>

definition capability_matches ::
  "string \<Rightarrow> string \<Rightarrow> string option \<Rightarrow> 'x worker_registration \<Rightarrow> bool" where
  "capability_matches role cap provider r =
     (wc_role (reg_capability r) = role \<and> wc_identifier (reg_capability r) = cap \<and>
      (provider = None \<or> Some (wc_provider (reg_capability r)) = provider))"

definition matching_capability_routes ::
  "'x executor_registry \<Rightarrow> string \<Rightarrow> string \<Rightarrow> string option \<Rightarrow> worker_account_context option
     \<Rightarrow> (string \<times> worker_account_context option \<times> 'x) list" where
  "matching_capability_routes reg role cap provider ctx =
     map (\<lambda>r. (wc_provider (reg_capability r), reg_account_context r, reg_executor r))
       (filter (\<lambda>r. capability_matches role cap provider r \<and>
                    account_key (reg_account_context r) = account_key ctx \<and>
                    reg_account_context r = ctx)
          (map snd (provider_registrations reg)))"

definition has_account_specific_routes ::
  "'x executor_registry \<Rightarrow> string \<Rightarrow> string \<Rightarrow> string option \<Rightarrow> bool" where
  "has_account_specific_routes reg role cap provider =
     list_ex (\<lambda>r. capability_matches role cap provider r \<and> reg_account_context r \<noteq> None)
       (map snd (provider_registrations reg))"

definition unrouted ::
  "'x executor_registry \<Rightarrow> string option \<Rightarrow> string option \<Rightarrow> string option
     \<Rightarrow> worker_account_context option \<Rightarrow> string \<Rightarrow> 'x executor_resolution" where
  "unrouted reg role cap provider ctx reason =
     \<lparr>res_executor = fallback_executor reg, res_requested_role = role, res_registered = False,
      res_requested_capability = cap, res_requested_provider = provider, res_matched_provider = None,
      res_requested_account_context = ctx, res_matched_account_context = None,
      res_routing_reason = Some reason\<rparr>"

definition routed ::
  "string \<Rightarrow> string \<Rightarrow> string option \<Rightarrow> worker_account_context option
     \<Rightarrow> (string \<times> worker_account_context option \<times> 'x) \<Rightarrow> 'x executor_resolution" where
  "routed role cap provider ctx m =
     (case m of (mprovider, mctx, executor) \<Rightarrow>
       \<lparr>res_executor = executor, res_requested_role = Some role, res_registered = True,
        res_requested_capability = Some cap, res_requested_provider = provider,
        res_matched_provider = Some mprovider, res_requested_account_context = ctx,
        res_matched_account_context = mctx, res_routing_reason = Some ''capability_route''\<rparr>)"

definition resolve_capability_route ::
  "'x executor_registry \<Rightarrow> string \<Rightarrow> string option \<Rightarrow> string option \<Rightarrow> worker_account_context option
     \<Rightarrow> 'x executor_resolution option" where
  "resolve_capability_route reg role capability provider ctx =
     (case capability of
        None \<Rightarrow> None
      | Some cap \<Rightarrow>
          (case provider of
             Some p \<Rightarrow>
               (case matching_capability_routes reg role cap (Some p) ctx of
                  [m] \<Rightarrow> Some (routed role cap (Some p) ctx m)
                | _ # _ # _ \<Rightarrow>
                    Some (unrouted reg (Some role) (Some cap) (Some p) ctx ''ambiguous_capability_route'')
                | [] \<Rightarrow>
                    Some (unrouted reg (Some role) (Some cap) (Some p) ctx
                      (if has_account_specific_routes reg role cap (Some p) \<and> ctx = None
                       then ''missing_account_context'' else ''no_handler'')))
           | None \<Rightarrow>
               (case matching_capability_routes reg role cap None ctx of
                  [m] \<Rightarrow> Some (routed role cap None ctx m)
                | _ # _ # _ \<Rightarrow>
                    Some (unrouted reg (Some role) (Some cap) None ctx ''ambiguous_capability_route'')
                | [] \<Rightarrow>
                    if ctx = None \<and> has_account_specific_routes reg role cap None
                    then Some (unrouted reg (Some role) (Some cap) None None ''missing_account_context'')
                    else None)))"

definition resolve_with_registration ::
  "'x executor_registry \<Rightarrow> action \<Rightarrow> 'x executor_resolution" where
  "resolve_with_registration reg a =
     (let role = normalize_role (act_executor_role a) in
      if role = '''' then unrouted reg None None None None ''missing_executor_role''
      else let cap = capability_for_action a;
               provider = provider_for_action a;
               ctx = account_context_for_action a;
               refuse = unrouted reg (Some role) (rr_value cap) (rr_value provider) (rr_value ctx)
           in if rr_present cap \<and> \<not> rr_valid cap then refuse ''invalid_capability''
              else if rr_present provider \<and> \<not> rr_valid provider then refuse ''invalid_capability_provider''
              else if rr_present ctx \<and> \<not> rr_valid ctx then refuse ''invalid_account_context''
              else case resolve_capability_route reg role (rr_value cap) (rr_value provider) (rr_value ctx) of
                     Some r \<Rightarrow> r
                   | None \<Rightarrow> refuse ''no_handler'')"

definition registry_resolve :: "'x executor_registry \<Rightarrow> action \<Rightarrow> 'x" where
  "registry_resolve reg a = res_executor (resolve_with_registration reg a)"

section \<open>Normalization is idempotent\<close>

lemma chr_code_less: "chr_code c < 256"
  by (simp add: chr_code_def)

lemma chr_code_char_of: "n < 256 \<Longrightarrow> chr_code (char_of n) = n"
  by (simp add: chr_code_def)

lemma chr_lower_idem: "chr_lower (chr_lower c) = chr_lower c"
  by (simp add: chr_lower_def Let_def chr_code_char_of)

lemma chr_code_lower_223: "chr_code (chr_lower c) = 223 \<longleftrightarrow> chr_code c = 223"
  by (simp add: chr_lower_def Let_def chr_code_char_of)

lemma concat_map_single: "(\<And>x. x \<in> set xs \<Longrightarrow> f x = [x]) \<Longrightarrow> concat (map f xs) = xs"
  by (induction xs) auto

lemma chr_casefold_fixed: "d \<in> set (chr_casefold c) \<Longrightarrow> chr_casefold d = [d]"
proof (cases "chr_code c = 223")
  case True
  assume "d \<in> set (chr_casefold c)"
  with True have "d = CHR ''s''" by (simp add: chr_casefold_def)
  then show ?thesis by (simp add: chr_casefold_def chr_lower_def chr_code_def)
next
  case False
  assume "d \<in> set (chr_casefold c)"
  with False have "d = chr_lower c" by (simp add: chr_casefold_def)
  with False show ?thesis by (simp add: chr_casefold_def chr_code_lower_223 chr_lower_idem)
qed

lemma str_casefold_idem [simp]: "str_casefold (str_casefold s) = str_casefold s"
  unfolding str_casefold_def by (rule concat_map_single) (auto dest: chr_casefold_fixed)

lemma chr_casefold_space: "d \<in> set (chr_casefold c) \<Longrightarrow> is_space d \<longleftrightarrow> is_space c"
  by (auto simp: chr_casefold_def chr_lower_def is_space_def Let_def chr_code_char_of split: if_splits)
     (auto simp: chr_code_def)

lemma chr_casefold_nonempty: "chr_casefold c \<noteq> []"
  by (simp add: chr_casefold_def)

lemma str_strip_fixed_iff:
  "str_strip s = s \<longleftrightarrow> s = [] \<or> (\<not> is_space (hd s) \<and> \<not> is_space (last s))"
proof (cases s)
  case Nil
  then show ?thesis by simp
next
  case (Cons c t)
  have len: "length (dropWhile is_space xs) < length xs" if "is_space (hd xs)" "xs \<noteq> []" for xs
    using that by (cases xs) (auto simp: le_imp_less_Suc length_dropWhile_le)
  show ?thesis
  proof
    assume e: "str_strip s = s"
    have "\<not> is_space (hd s)"
    proof
      assume "is_space (hd s)"
      then have "length (str_strip s) < length s"
        using len [of s] Cons length_dropWhile_le [of is_space "rev (dropWhile is_space s)"]
        by (simp add: str_strip_def str_lstrip_def str_rstrip_def del: dropWhile.simps)
      then show False using e by simp
    qed
    moreover from this have l: "dropWhile is_space s = s" using Cons by simp
    have "\<not> is_space (last s)"
    proof
      assume "is_space (last s)"
      then have "length (str_strip s) < length s"
        using len [of "rev s"] Cons l by (simp add: str_strip_def str_lstrip_def str_rstrip_def hd_rev del: dropWhile.simps rev.simps)
      then show False using e by simp
    qed
    ultimately show "s = [] \<or> (\<not> is_space (hd s) \<and> \<not> is_space (last s))" by simp
  next
    assume "s = [] \<or> (\<not> is_space (hd s) \<and> \<not> is_space (last s))"
    then have h: "\<not> is_space (hd s)" "\<not> is_space (last s)" using Cons by auto
    then have "dropWhile is_space s = s" using Cons by simp
    moreover have "dropWhile is_space (rev s) = rev s"
    proof -
      have "rev s \<noteq> []" "\<not> is_space (hd (rev s))" using h Cons by (simp_all add: hd_rev del: rev.simps)
      then show ?thesis by (cases "rev s") auto
    qed
    ultimately show "str_strip s = s" by (simp add: str_strip_def str_lstrip_def str_rstrip_def)
  qed
qed

lemma hd_concat_casefold: "s \<noteq> [] \<Longrightarrow> hd (str_casefold s) \<in> set (chr_casefold (hd s))"
  by (cases s) (simp_all add: str_casefold_def chr_casefold_nonempty)

lemma last_concat_casefold: "s \<noteq> [] \<Longrightarrow> last (str_casefold s) \<in> set (chr_casefold (last s))"
  by (cases s rule: rev_cases) (simp_all add: str_casefold_def chr_casefold_nonempty last_append)

lemma str_casefold_eq_Nil [simp]: "str_casefold s = [] \<longleftrightarrow> s = []"
  by (cases s) (simp_all add: str_casefold_def chr_casefold_nonempty)

lemma str_strip_casefold [simp]: "str_strip (str_casefold (str_strip s)) = str_casefold (str_strip s)"
proof (cases "str_strip s = []")
  case True
  show ?thesis unfolding True by (simp add: str_casefold_def)
next
  case False
  have "\<not> is_space (hd (str_strip s)) \<and> \<not> is_space (last (str_strip s))"
    using False str_strip_fixed_iff [of "str_strip s"] by simp
  with False show ?thesis
    using chr_casefold_space [OF hd_concat_casefold [OF False]]
      chr_casefold_space [OF last_concat_casefold [OF False]]
    by (simp add: str_strip_fixed_iff)
qed

theorem normalize_identifier_idem: "normalize_identifier (PStr (normalize_identifier v)) = normalize_identifier v"
  by (cases v) (simp_all add: normalize_identifier_def)

lemma normalize_account_context_idem [simp]:
  "normalize_account_context (normalize_account_context ctx) = normalize_account_context ctx"
  by (auto simp: normalize_account_context_def normalize_route_value_def Let_def option.map_comp comp_def
      split: option.splits)

lemma normalize_account_context_None_iff: "normalize_account_context None = None"
  by (simp add: normalize_account_context_def)

section \<open>Registration\<close>

text \<open>Every entry stands under the key of its own route, and no key occurs twice.\<close>

definition wf_registry :: "'x executor_registry \<Rightarrow> bool" where
  "wf_registry reg \<longleftrightarrow>
     distinct (map fst (provider_registrations reg)) \<and>
     (\<forall>(k, r)\<in>set (provider_registrations reg). k = route_key_of (reg_account_context r) (reg_capability r))"

lemma dict_set_new: "\<not> dict_has d k \<Longrightarrow> dict_set k v d = d @ [(k, v)]"
  by (induction d) (auto simp: dict_has_def split: if_splits)

lemma dict_has_append: "dict_has (d @ [(k, v)]) k' \<longleftrightarrow> dict_has d k' \<or> k' = k"
  by (auto simp: dict_has_def map_add_def split: option.splits)

lemma dict_has_iff: "dict_has d k \<longleftrightarrow> k \<in> fst ` set d"
  by (auto simp: dict_has_def map_of_eq_None_iff)

definition new_entries ::
  "worker_account_context option \<Rightarrow> 'x \<Rightarrow> worker_capability list \<Rightarrow> (route_key \<times> 'x worker_registration) list" where
  "new_entries ctx executor caps =
     map (\<lambda>cap. (route_key_of ctx cap,
                 \<lparr>reg_capability = cap, reg_executor = executor, reg_account_context = ctx\<rparr>)) caps"

lemma register_capabilities_fresh:
  assumes "normalize_account_context ctx = ctx"
    and "distinct (map (route_key_of ctx) caps)"
    and "\<forall>cap\<in>set caps. \<not> dict_has (provider_registrations reg) (route_key_of ctx cap)"
  shows "register_capabilities caps executor ctx reg =
     (Inr (), reg\<lparr>provider_registrations := provider_registrations reg @ new_entries ctx executor caps\<rparr>)"
  using assms
proof (induction caps arbitrary: reg)
  case Nil
  then show ?case by (simp add: new_entries_def)
next
  case (Cons cap caps)
  let ?entry = "(route_key_of ctx cap,
      \<lparr>reg_capability = cap, reg_executor = executor, reg_account_context = ctx\<rparr>)"
  define reg1 where "reg1 = reg\<lparr>provider_registrations := provider_registrations reg @ [?entry]\<rparr>"
  have "register_capability cap executor ctx reg = (Inr (), reg1)"
    using Cons.prems by (auto simp: register_capability_def Let_def bnd_def dict_set_new reg1_def)
  moreover have "\<forall>c\<in>set caps. \<not> dict_has (provider_registrations reg1) (route_key_of ctx c)"
  proof
    fix c assume c: "c \<in> set caps"
    then have "route_key_of ctx c \<noteq> route_key_of ctx cap"
      using Cons.prems(2) by (metis distinct.simps(2) image_eqI list.set_map list.simps(9))
    with c Cons.prems(3) show "\<not> dict_has (provider_registrations reg1) (route_key_of ctx c)"
      by (simp add: reg1_def dict_has_append)
  qed
  with Cons.prems have "register_capabilities caps executor ctx reg1 =
     (Inr (), reg1\<lparr>provider_registrations := provider_registrations reg1 @ new_entries ctx executor caps\<rparr>)"
    by (intro Cons.IH) simp_all
  ultimately show ?case by (simp add: bnd_def reg1_def new_entries_def)
qed

lemma validate_capabilities_distinct:
  "validate_capabilities i ps keys caps = Inr out \<Longrightarrow>
     distinct (map (\<lambda>c. (wc_role c, wc_identifier c, wc_provider c)) caps) \<and>
     (\<forall>c\<in>set caps. (wc_role c, wc_identifier c, wc_provider c) \<notin> keys)"
proof (induction caps arbitrary: i ps keys)
  case Nil
  then show ?case by simp
next
  case (Cons cap caps)
  let ?key = "\<lambda>c. (wc_role c, wc_identifier c, wc_provider c)"
  from Cons.prems have fresh: "?key cap \<notin> keys"
    and rest: "validate_capabilities (Suc i) (insert (wc_provider cap) ps) (insert (?key cap) keys) caps = Inr out"
    by (simp_all add: Let_def split: if_split_asm)
  from Cons.IH [OF rest] fresh show ?case by auto
qed

lemma manifest_validate_keys:
  assumes "manifest_validate m = Inr u"
  shows "distinct (map (route_key_of ctx) (pm_capabilities m))"
proof -
  from assms obtain out where "validate_capabilities 0 {} {} (pm_capabilities m) = Inr out"
    by (auto simp: manifest_validate_def split: if_splits)
  from validate_capabilities_distinct [OF this] show ?thesis
    by (auto simp: distinct_map inj_on_def route_key_of_def)
qed

text \<open>
  Registration of a manifest is all or nothing: an error leaves the registry as it was, success adds
  exactly the manifest's routes in their order.
\<close>

lemma register_manifest_cases:
  "(\<exists>e. register_manifest m reg = (Inl e, reg)) \<or>
   register_manifest m reg =
     (Inr (), reg\<lparr>provider_registrations := provider_registrations reg
        @ new_entries (normalize_account_context (pm_account_context m)) (pm_executor m) (pm_capabilities m)\<rparr>)"
proof (cases "manifest_validate m")
  case (Inl e)
  then show ?thesis by (simp add: register_manifest_def bnd_def)
next
  case (Inr u)
  let ?ctx = "normalize_account_context (pm_account_context m)"
  let ?keys = "map (route_key_of ?ctx) (pm_capabilities m)"
  show ?thesis
  proof (cases "find_first (dict_has (provider_registrations reg)) ?keys")
    case None
    then have "\<forall>cap\<in>set (pm_capabilities m). \<not> dict_has (provider_registrations reg) (route_key_of ?ctx cap)"
      by (simp add: find_first_None)
    from register_capabilities_fresh [OF _ manifest_validate_keys [OF Inr] this, of "pm_executor m"]
    show ?thesis using Inr None by (simp add: register_manifest_def bnd_def Let_def)
  next
    case (Some k)
    then show ?thesis using Inr by (cases k) (simp add: register_manifest_def bnd_def Let_def)
  qed
qed

lemma wf_registry_empty: "wf_registry (empty_registry fb)"
  by (simp add: wf_registry_def empty_registry_def)

lemma register_capability_wf:
  assumes "wf_registry reg" and "register_capability cap executor ctx reg = (r, reg')"
  shows "wf_registry reg'"
  using assms
  by (auto simp: register_capability_def Let_def bnd_def dict_set_new wf_registry_def dict_has_iff split: if_splits)

lemma register_capabilities_wf:
  "wf_registry reg \<Longrightarrow> register_capabilities caps executor ctx reg = (r, reg') \<Longrightarrow> wf_registry reg'"
proof (induction caps arbitrary: reg)
  case Nil
  then show ?case by simp
next
  case (Cons cap caps)
  obtain r1 reg1 where one: "register_capability cap executor ctx reg = (r1, reg1)" by (cases "register_capability cap executor ctx reg")
  with Cons show ?case
    by (auto simp: bnd_def dest: register_capability_wf [OF Cons.prems(1)] split: sum.splits)
qed

lemma register_manifest_wf:
  assumes "wf_registry reg" and "register_manifest m reg = (r, reg')"
  shows "wf_registry reg'"
  using assms
  by (auto simp: register_manifest_def Let_def bnd_def split: sum.splits if_splits option.splits
      intro: register_capabilities_wf)

section \<open>Routing\<close>

text \<open>
  A resolution is either a refusal (the fallback executor, no matched account) or the one registration
  that matches the action's role, capability, provider and account.
\<close>

definition selects :: "'x executor_registry \<Rightarrow> 'x executor_resolution \<Rightarrow> 'x worker_registration \<Rightarrow> bool" where
  "selects reg res r \<longleftrightarrow>
     r \<in> snd ` set (provider_registrations reg) \<and>
     Some (wc_role (reg_capability r)) = res_requested_role res \<and>
     Some (wc_identifier (reg_capability r)) = res_requested_capability res \<and>
     (res_requested_provider res \<noteq> None \<longrightarrow> Some (wc_provider (reg_capability r)) = res_requested_provider res) \<and>
     reg_account_context r = res_requested_account_context res"

lemma filter_singletonD: "filter P xs = [x] \<Longrightarrow> x \<in> set xs \<and> P x \<and> (\<forall>y\<in>set xs. P y \<longrightarrow> y = x)"
proof -
  assume a: "filter P xs = [x]"
  then have "set (filter P xs) = {x}" by simp
  then show ?thesis by auto
qed

lemma matching_singleton:
  assumes "matching_capability_routes reg role cap provider ctx = [m]"
  obtains r where "m = (wc_provider (reg_capability r), reg_account_context r, reg_executor r)"
    "r \<in> snd ` set (provider_registrations reg)" "capability_matches role cap provider r"
    "reg_account_context r = ctx"
    "\<And>r'. r' \<in> snd ` set (provider_registrations reg) \<Longrightarrow> capability_matches role cap provider r' \<Longrightarrow>
       reg_account_context r' = ctx \<Longrightarrow> r' = r"
proof -
  from assms obtain r where f: "filter (\<lambda>r. capability_matches role cap provider r \<and>
        account_key (reg_account_context r) = account_key ctx \<and> reg_account_context r = ctx)
      (map snd (provider_registrations reg)) = [r]"
    and m: "m = (wc_provider (reg_capability r), reg_account_context r, reg_executor r)"
    by (auto simp: matching_capability_routes_def map_eq_Cons_conv)
  from filter_singletonD [OF f] show thesis by (intro that [OF m]) auto
qed

definition refused :: "'x executor_registry \<Rightarrow> 'x executor_resolution \<Rightarrow> bool" where
  "refused reg res \<longleftrightarrow> \<not> res_registered res \<and> res_executor res = fallback_executor reg
     \<and> res_matched_account_context res = None \<and> res_matched_provider res = None"

definition uniquely_routed :: "'x executor_registry \<Rightarrow> 'x executor_resolution \<Rightarrow> bool" where
  "uniquely_routed reg res \<longleftrightarrow> res_registered res \<and>
     (\<exists>!r. selects reg res r) \<and>
     (\<forall>r. selects reg res r \<longrightarrow>
        res_executor res = reg_executor r \<and> res_matched_account_context res = reg_account_context r
        \<and> res_matched_provider res = Some (wc_provider (reg_capability r)))"

lemma unrouted_refused [simp]: "refused reg (unrouted reg role cap p ctx reason)"
  by (simp add: refused_def unrouted_def)

lemma routed_unique:
  assumes "matching_capability_routes reg role cap provider ctx = [m]"
  shows "uniquely_routed reg (routed role cap provider ctx m)"
proof -
  obtain r where m: "m = (wc_provider (reg_capability r), reg_account_context r, reg_executor r)"
    and r: "r \<in> snd ` set (provider_registrations reg)" "capability_matches role cap provider r"
      "reg_account_context r = ctx"
    and u: "\<And>r'. r' \<in> snd ` set (provider_registrations reg) \<Longrightarrow> capability_matches role cap provider r' \<Longrightarrow>
       reg_account_context r' = ctx \<Longrightarrow> r' = r"
    using matching_singleton [OF assms] by metis
  have sel: "selects reg (routed role cap provider ctx m) r' \<longleftrightarrow> r' = r" for r'
    using r u [of r'] by (auto simp: selects_def routed_def m capability_matches_def)
  show ?thesis
    unfolding uniquely_routed_def sel by (simp add: routed_def m)
qed

lemma resolve_capability_route_cases:
  "resolve_capability_route reg role cap provider ctx = Some res \<Longrightarrow> refused reg res \<or> uniquely_routed reg res"
  by (auto simp: resolve_capability_route_def routed_unique split: option.splits list.splits if_splits)

lemma resolution_cases: "refused reg (resolve_with_registration reg a) \<or> uniquely_routed reg (resolve_with_registration reg a)"
  by (auto simp: resolve_with_registration_def Let_def dest: resolve_capability_route_cases split: option.splits)

text \<open>What a resolution asks for is what the action carries.\<close>

lemma resolve_capability_route_request:
  "resolve_capability_route reg role cap provider ctx = Some res \<Longrightarrow>
     res_requested_role res = Some role \<and> res_requested_capability res = cap \<and>
     res_requested_provider res = provider \<and> res_requested_account_context res = ctx"
  by (auto simp: resolve_capability_route_def routed_def unrouted_def split: option.splits list.splits if_splits)

lemma resolution_request:
  assumes "res_registered (resolve_with_registration reg a)"
  shows "res_requested_role (resolve_with_registration reg a) = Some (normalize_role (act_executor_role a))
    \<and> res_requested_capability (resolve_with_registration reg a) = rr_value (capability_for_action a)
    \<and> res_requested_provider (resolve_with_registration reg a) = rr_value (provider_for_action a)
    \<and> res_requested_account_context (resolve_with_registration reg a) = rr_value (account_context_for_action a)"
  using assms
  by (auto simp: resolve_with_registration_def Let_def unrouted_def
      dest: resolve_capability_route_request split: option.splits if_splits)

end
