(* ===== verification/SE_State.thy ===== *)
theory SE_State
  imports SE_Work_Product Executor_Registry
begin

text \<open>
  \<open>integrations/software_engineering_state.py\<close>, first part: the durable run state, the repository
  protocol as a record of operations (\<open>run_ops\<close>) and the in-memory repository. \<open>SE_Sqlite\<close> holds the
  database repository. The clients of the protocol take a \<open>run_ops\<close>; the locale \<open>run_repository\<close> below
  states what they may rely on, for any repository that provides it.
\<close>

section \<open>Run states\<close>

datatype SoftwareEngineeringApprovalStatus = AWAITING_APPROVAL | SE_APPROVED | SE_REJECTED

fun approval_status_value :: "SoftwareEngineeringApprovalStatus \<Rightarrow> string" where
  "approval_status_value AWAITING_APPROVAL = ''awaiting_approval''"
| "approval_status_value SE_APPROVED = ''approved''"
| "approval_status_value SE_REJECTED = ''rejected''"

datatype SoftwareEngineeringClaimResolution = RELEASED_BEFORE_START | ABANDONED_AFTER_START

fun claim_resolution_value :: "SoftwareEngineeringClaimResolution \<Rightarrow> string" where
  "claim_resolution_value RELEASED_BEFORE_START = ''released_before_start''"
| "claim_resolution_value ABANDONED_AFTER_START = ''abandoned_after_start''"

record action_claim =
  ac_action_id :: uuid
  ac_claim_id :: uuid
  ac_target :: string
  ac_objective :: string
  ac_claimed_at :: datetime

record run_state =
  rs_action_id :: uuid
  rs_executor_role :: string
  rs_capability :: string
  rs_target :: string
  rs_delegation_status :: "string option"
  rs_pending_objective :: "string option"
  rs_approval_status :: "SoftwareEngineeringApprovalStatus option"
  rs_approved_at :: "datetime option"
  rs_rejected_at :: "datetime option"
  rs_claim_id :: "uuid option"
  rs_claimed_at :: "datetime option"
  rs_execution_started_at :: "datetime option"
  rs_claim_resolution :: "SoftwareEngineeringClaimResolution option"
  rs_claim_reconciled_at :: "datetime option"
  rs_execution_status :: "string option"
  rs_execution_finished_at :: "datetime option"
  rs_external_execution_performed :: "bool option"
  rs_disposition :: "WorkProductDisposition option"
  rs_disposition_succeeded :: "bool option"
  rs_worktree_present :: "bool option"
  rs_branch_present :: "bool option"
  rs_canonical_unchanged :: "bool option"
  rs_promotion_commit_sha :: "string option"
  rs_pull_request_number :: "int option"
  rs_pull_request_url :: "string option"
  rs_promotion_base_branch :: "string option"
  rs_promotion_head_branch :: "string option"
  rs_promotion_finished_at :: "datetime option"
  rs_created_at :: "datetime option"
  rs_updated_at :: "datetime option"

text \<open>The constructor with the defaults of the dataclass.\<close>

definition mk_run_state ::
  "uuid \<Rightarrow> string \<Rightarrow> string \<Rightarrow> string \<Rightarrow> string option \<Rightarrow> string option
     \<Rightarrow> SoftwareEngineeringApprovalStatus option \<Rightarrow> datetime \<Rightarrow> datetime \<Rightarrow> run_state" where
  "mk_run_state i role cap target deleg obj appr created updated =
     \<lparr>rs_action_id = i, rs_executor_role = role, rs_capability = cap, rs_target = target,
      rs_delegation_status = deleg, rs_pending_objective = obj, rs_approval_status = appr,
      rs_approved_at = None, rs_rejected_at = None, rs_claim_id = None, rs_claimed_at = None,
      rs_execution_started_at = None, rs_claim_resolution = None, rs_claim_reconciled_at = None,
      rs_execution_status = None, rs_execution_finished_at = None,
      rs_external_execution_performed = None, rs_disposition = None, rs_disposition_succeeded = None,
      rs_worktree_present = None, rs_branch_present = None, rs_canonical_unchanged = None,
      rs_promotion_commit_sha = None, rs_pull_request_number = None, rs_pull_request_url = None,
      rs_promotion_base_branch = None, rs_promotion_head_branch = None,
      rs_promotion_finished_at = None, rs_created_at = Some created, rs_updated_at = Some updated\<rparr>"

abbreviation run_error :: "string \<Rightarrow> exc" where
  "run_error \<equiv> SoftwareEngineeringRunStateError"

section \<open>Shared checks\<close>

definition normalize_objective :: "string option \<Rightarrow> string option result" where
  "normalize_objective v =
     (case v of
        None \<Rightarrow> Inr None
      | Some s \<Rightarrow>
          if str_blank s then Inl (run_error ''software engineering pending objective must not be blank'')
          else Inr (Some (str_strip s)))"

definition normalize_required_objective :: "string option \<Rightarrow> string result" where
  "normalize_required_objective v =
     rbind (normalize_objective v) (\<lambda>n. case n of
        None \<Rightarrow> Inl (run_error ''software engineering pending objective is unavailable'')
      | Some s \<Rightarrow> Inr s)"

definition require_compatible_objective :: "run_state \<Rightarrow> string option \<Rightarrow> unit result" where
  "require_compatible_objective st obj =
     guard_exc (obj = None \<or> rs_pending_objective st = None \<or> rs_pending_objective st = obj)
       (run_error ''software engineering pending objective conflicts with durable state'')"

definition require_same_identity :: "run_state \<Rightarrow> string \<Rightarrow> string \<Rightarrow> string \<Rightarrow> unit result" where
  "require_same_identity st target role cap =
     guard_exc (rs_target st = target \<and> rs_executor_role st = role \<and> rs_capability st = cap)
       (run_error ''software engineering Action identity conflicts with durable state'')"

definition SOFTWARE_ENGINEERING_IMPLEMENT_CAPABILITY :: string where
  "SOFTWARE_ENGINEERING_IMPLEMENT_CAPABILITY = ''code.implement''"

definition is_canonical_route :: "string option \<Rightarrow> string option \<Rightarrow> bool" where
  "is_canonical_route role cap \<longleftrightarrow>
     role = Some (role_value SOFTWARE_ENGINEERING) \<and>
     cap = Some SOFTWARE_ENGINEERING_IMPLEMENT_CAPABILITY"

definition require_aware :: "datetime \<Rightarrow> datetime result" where
  "require_aware v =
     (if is_aware v then Inr v
      else Inl (run_error ''software engineering state timestamp must be timezone-aware''))"

text \<open>\<open>state.updated_at != value\<close> on an optional timestamp.\<close>

definition opt_dt_eq :: "datetime option \<Rightarrow> datetime \<Rightarrow> bool" where
  "opt_dt_eq a b = (case a of None \<Rightarrow> False | Some d \<Rightarrow> dt_eq d b)"

definition pending_approval :: "run_state \<Rightarrow> bool" where
  "pending_approval st \<longleftrightarrow> rs_approval_status st = Some AWAITING_APPROVAL \<and> rs_claim_id st = None
     \<and> rs_execution_status st = None"

definition default_software_engineering_state_path :: "path \<Rightarrow> path result" where
  "default_software_engineering_state_path workspace_root =
     (if \<not> path_abs workspace_root
      then Inl (run_error ''trusted software engineering workspace must be absolute'')
      else Inr (path_child (path_child (path_parent workspace_root) ''.velox'')
                  (path_name workspace_root @ ''-software-engineering.sqlite3'')))"

section \<open>The repository protocol\<close>

record 'r run_ops =
  run_get :: "uuid \<Rightarrow> ('r, run_state option) prog"
  run_list_pending :: "('r, run_state list) prog"
  run_register_action :: "clock \<Rightarrow> uuid \<Rightarrow> string \<Rightarrow> string \<Rightarrow> string \<Rightarrow> string option \<Rightarrow> string option
     \<Rightarrow> SoftwareEngineeringApprovalStatus option \<Rightarrow> ('r, run_state) prog"
  run_record_approval :: "clock \<Rightarrow> uuid \<Rightarrow> string \<Rightarrow> datetime \<Rightarrow> ('r, run_state) prog"
  run_record_rejection :: "clock \<Rightarrow> uuid \<Rightarrow> datetime \<Rightarrow> ('r, run_state) prog"
  run_claim_approved :: "clock \<Rightarrow> uuid \<Rightarrow> uuid \<Rightarrow> ('r, action_claim) prog"
  run_record_execution_started :: "clock \<Rightarrow> uuid \<Rightarrow> datetime \<Rightarrow> ('r, run_state) prog"
  run_release_unstarted_claim :: "uuid \<Rightarrow> datetime \<Rightarrow> datetime \<Rightarrow> ('r, run_state) prog"
  run_abandon_started_claim :: "uuid \<Rightarrow> datetime \<Rightarrow> datetime \<Rightarrow> ('r, run_state) prog"
  run_record_execution :: "clock \<Rightarrow> uuid \<Rightarrow> string \<Rightarrow> datetime \<Rightarrow> bool \<Rightarrow> ('r, run_state) prog"
  run_record_disposition :: "clock \<Rightarrow> work_product_disposition_result \<Rightarrow> ('r, run_state) prog"
  run_record_promotion :: "clock \<Rightarrow> uuid \<Rightarrow> string \<Rightarrow> int \<Rightarrow> string \<Rightarrow> string \<Rightarrow> string \<Rightarrow> datetime
     \<Rightarrow> ('r, run_state) prog"

section \<open>The in-memory repository\<close>

type_synonym mem_runs = "(uuid \<times> run_state) list"

definition mem_get :: "uuid \<Rightarrow> (mem_runs, run_state option) prog" where
  "mem_get i = gets (\<lambda>states. dict_get states i)"

definition mem_list_pending :: "(mem_runs, run_state list) prog" where
  "mem_list_pending = gets (\<lambda>states. filter pending_approval (map snd states))"

definition mem_require :: "uuid \<Rightarrow> (mem_runs, run_state) prog" where
  "mem_require i =
     bnd (mem_get i) (\<lambda>st. case st of
        None \<Rightarrow> raise_exc (run_error ''software engineering run state does not exist'')
      | Some s \<Rightarrow> ret s)"

definition mem_store :: "uuid \<Rightarrow> run_state \<Rightarrow> (mem_runs, run_state) prog" where
  "mem_store i st = bnd (modify (dict_set i st)) (\<lambda>_. ret st)"

definition mem_register_action ::
  "clock \<Rightarrow> uuid \<Rightarrow> string \<Rightarrow> string \<Rightarrow> string \<Rightarrow> string option \<Rightarrow> string option
     \<Rightarrow> SoftwareEngineeringApprovalStatus option \<Rightarrow> (mem_runs, run_state) prog" where
  "mem_register_action c i target role cap deleg objective appr =
     bnd (liftr (normalize_objective objective)) (\<lambda>normalized.
     bnd (mem_get i) (\<lambda>current. case current of
        Some cur \<Rightarrow>
          bnd (liftr (require_same_identity cur target role cap)) (\<lambda>_.
          bnd (liftr (require_compatible_objective cur normalized)) (\<lambda>_.
          mem_store i (cur\<lparr>
            rs_delegation_status := (if deleg \<noteq> None then deleg else rs_delegation_status cur),
            rs_pending_objective := (if normalized \<noteq> None \<and> rs_pending_objective cur = None
                                     then normalized else rs_pending_objective cur),
            rs_approval_status := (if appr \<noteq> None then appr else rs_approval_status cur),
            rs_updated_at := Some (now_utc c 0)\<rparr>)))
      | None \<Rightarrow>
          mem_store i (mk_run_state i role cap target deleg normalized appr (now_utc c 0) (now_utc c 0))))"

definition mem_record_approval :: "clock \<Rightarrow> uuid \<Rightarrow> string \<Rightarrow> datetime \<Rightarrow> (mem_runs, run_state) prog" where
  "mem_record_approval c i objective approved_at =
     bnd (mem_require i) (\<lambda>cur.
     bnd (liftr (normalize_required_objective (Some objective))) (\<lambda>normalized.
     bnd (liftr (require_compatible_objective cur (Some normalized))) (\<lambda>_.
     if rs_approval_status cur = Some SE_REJECTED
     then raise_exc (run_error ''rejected software engineering action cannot be approved'')
     else bnd (liftr (require_aware approved_at)) (\<lambda>approved.
       mem_store i (cur\<lparr>rs_pending_objective := Some normalized,
         rs_approval_status := Some SE_APPROVED, rs_approved_at := Some approved,
         rs_updated_at := Some (now_utc c 0)\<rparr>)))))"

definition mem_record_rejection :: "clock \<Rightarrow> uuid \<Rightarrow> datetime \<Rightarrow> (mem_runs, run_state) prog" where
  "mem_record_rejection c i rejected_at =
     bnd (mem_require i) (\<lambda>cur.
     if rs_claim_id cur \<noteq> None \<or> rs_execution_status cur \<noteq> None
     then raise_exc (run_error ''claimed or executed software engineering action cannot be rejected'')
     else bnd (liftr (require_aware rejected_at)) (\<lambda>rejected.
       mem_store i (cur\<lparr>rs_pending_objective := None, rs_approval_status := Some SE_REJECTED,
         rs_rejected_at := Some rejected, rs_updated_at := Some (now_utc c 0)\<rparr>)))"

definition mem_claim_approved :: "clock \<Rightarrow> uuid \<Rightarrow> uuid \<Rightarrow> (mem_runs, action_claim) prog" where
  "mem_claim_approved c claim_id i =
     bnd (mem_require i) (\<lambda>cur.
     if rs_approval_status cur \<noteq> Some SE_APPROVED
     then raise_exc (run_error ''software engineering action is not durably approved'')
     else if rs_execution_status cur \<noteq> None
     then raise_exc (run_error ''software engineering action already has an execution result'')
     else if rs_claim_id cur \<noteq> None
     then raise_exc (run_error ''software engineering action already has a durable execution claim'')
     else bnd (liftr (normalize_required_objective (rs_pending_objective cur))) (\<lambda>objective.
       bnd (mem_store i (cur\<lparr>rs_claim_id := Some claim_id, rs_claimed_at := Some (now_utc c 0),
         rs_claim_resolution := None, rs_claim_reconciled_at := None,
         rs_updated_at := Some (now_utc c 0)\<rparr>)) (\<lambda>_.
       ret \<lparr>ac_action_id = i, ac_claim_id = claim_id, ac_target = rs_target cur,
            ac_objective = objective, ac_claimed_at = now_utc c 0\<rparr>)))"

definition mem_record_execution_started :: "clock \<Rightarrow> uuid \<Rightarrow> datetime \<Rightarrow> (mem_runs, run_state) prog" where
  "mem_record_execution_started c i started_at =
     bnd (mem_require i) (\<lambda>cur.
     if rs_claim_id cur = None
     then raise_exc (run_error ''software engineering execution has no durable claim'')
     else if rs_execution_status cur \<noteq> None
     then raise_exc (run_error ''software engineering action already has an execution result'')
     else bnd (liftr (require_aware started_at)) (\<lambda>started.
       mem_store i (cur\<lparr>rs_execution_started_at := Some started, rs_updated_at := Some (now_utc c 0)\<rparr>)))"

definition mem_release_unstarted_claim :: "uuid \<Rightarrow> datetime \<Rightarrow> datetime \<Rightarrow> (mem_runs, run_state) prog" where
  "mem_release_unstarted_claim i expected_updated_at reconciled_at =
     bnd (mem_require i) (\<lambda>cur.
     bnd (liftr (require_aware expected_updated_at)) (\<lambda>expected.
     if \<not> opt_dt_eq (rs_updated_at cur) expected
     then raise_exc (run_error ''software engineering run state changed during reconciliation'')
     else if rs_claim_id cur = None
     then raise_exc (run_error ''software engineering action has no durable execution claim'')
     else if rs_execution_started_at cur \<noteq> None
     then raise_exc (run_error ''software engineering execution already started'')
     else if rs_execution_status cur \<noteq> None
     then raise_exc (run_error ''software engineering action already has an execution result'')
     else bnd (liftr (require_aware reconciled_at)) (\<lambda>reconciled.
       mem_store i (cur\<lparr>rs_claim_id := None, rs_claimed_at := None,
         rs_claim_resolution := Some RELEASED_BEFORE_START, rs_claim_reconciled_at := Some reconciled,
         rs_updated_at := Some reconciled\<rparr>))))"

definition mem_abandon_started_claim :: "uuid \<Rightarrow> datetime \<Rightarrow> datetime \<Rightarrow> (mem_runs, run_state) prog" where
  "mem_abandon_started_claim i expected_updated_at reconciled_at =
     bnd (mem_require i) (\<lambda>cur.
     bnd (liftr (require_aware expected_updated_at)) (\<lambda>expected.
     if \<not> opt_dt_eq (rs_updated_at cur) expected
     then raise_exc (run_error ''software engineering run state changed during reconciliation'')
     else if rs_claim_id cur = None
     then raise_exc (run_error ''software engineering action has no durable execution claim'')
     else if rs_execution_started_at cur = None
     then raise_exc (run_error ''software engineering execution never started'')
     else if rs_execution_status cur \<noteq> None
     then raise_exc (run_error ''software engineering action already has an execution result'')
     else bnd (liftr (require_aware reconciled_at)) (\<lambda>reconciled.
       mem_store i (cur\<lparr>rs_pending_objective := None,
         rs_claim_resolution := Some ABANDONED_AFTER_START, rs_claim_reconciled_at := Some reconciled,
         rs_updated_at := Some reconciled\<rparr>))))"

definition mem_record_execution ::
  "clock \<Rightarrow> uuid \<Rightarrow> string \<Rightarrow> datetime \<Rightarrow> bool \<Rightarrow> (mem_runs, run_state) prog" where
  "mem_record_execution c i status finished_at performed =
     bnd (mem_require i) (\<lambda>cur.
     bnd (liftr (require_aware finished_at)) (\<lambda>finished.
     mem_store i (cur\<lparr>rs_pending_objective := None, rs_execution_status := Some status,
       rs_execution_finished_at := Some finished, rs_external_execution_performed := Some performed,
       rs_updated_at := Some (now_utc c 0)\<rparr>)))"

definition mem_record_disposition ::
  "clock \<Rightarrow> work_product_disposition_result \<Rightarrow> (mem_runs, run_state) prog" where
  "mem_record_disposition c result =
     bnd (mem_require (wpr_action_id result)) (\<lambda>cur.
     mem_store (wpr_action_id result) (cur\<lparr>rs_disposition := Some (wpr_disposition result),
       rs_disposition_succeeded := Some (wpr_succeeded result),
       rs_worktree_present := Some (wpr_worktree_present result),
       rs_branch_present := Some (wpr_branch_present result),
       rs_canonical_unchanged := Some (wpr_canonical_unchanged result),
       rs_updated_at := Some (now_utc c 0)\<rparr>))"

definition mem_record_promotion ::
  "clock \<Rightarrow> uuid \<Rightarrow> string \<Rightarrow> int \<Rightarrow> string \<Rightarrow> string \<Rightarrow> string \<Rightarrow> datetime \<Rightarrow> (mem_runs, run_state) prog" where
  "mem_record_promotion c i sha number url base head finished_at =
     bnd (mem_require i) (\<lambda>cur.
     bnd (liftr (require_aware finished_at)) (\<lambda>finished.
     mem_store i (cur\<lparr>rs_promotion_commit_sha := Some sha, rs_pull_request_number := Some number,
       rs_pull_request_url := Some url, rs_promotion_base_branch := Some base,
       rs_promotion_head_branch := Some head, rs_promotion_finished_at := Some finished,
       rs_updated_at := Some (now_utc c 0)\<rparr>)))"

definition mem_ops :: "mem_runs run_ops" where
  "mem_ops =
     \<lparr>run_get = mem_get, run_list_pending = mem_list_pending,
      run_register_action = mem_register_action, run_record_approval = mem_record_approval,
      run_record_rejection = mem_record_rejection, run_claim_approved = mem_claim_approved,
      run_record_execution_started = mem_record_execution_started,
      run_release_unstarted_claim = mem_release_unstarted_claim,
      run_abandon_started_claim = mem_abandon_started_claim,
      run_record_execution = mem_record_execution, run_record_disposition = mem_record_disposition,
      run_record_promotion = mem_record_promotion\<rparr>"

section \<open>Edits of one run\<close>

text \<open>
  What each operation does to the state of one run, as a pure fallible function: the specification that
  both repositories implement.
\<close>

definition edit_register ::
  "clock \<Rightarrow> string \<Rightarrow> string \<Rightarrow> string \<Rightarrow> string option \<Rightarrow> string option
     \<Rightarrow> SoftwareEngineeringApprovalStatus option \<Rightarrow> run_state \<Rightarrow> run_state result" where
  "edit_register c target role cap deleg objective appr cur =
     rbind (normalize_objective objective) (\<lambda>normalized.
     rbind (require_same_identity cur target role cap) (\<lambda>_.
     rbind (require_compatible_objective cur normalized) (\<lambda>_.
     Inr (cur\<lparr>
       rs_delegation_status := (if deleg \<noteq> None then deleg else rs_delegation_status cur),
       rs_pending_objective := (if normalized \<noteq> None \<and> rs_pending_objective cur = None
                                then normalized else rs_pending_objective cur),
       rs_approval_status := (if appr \<noteq> None then appr else rs_approval_status cur),
       rs_updated_at := Some (now_utc c 0)\<rparr>))))"

definition edit_approval :: "clock \<Rightarrow> string \<Rightarrow> datetime \<Rightarrow> run_state \<Rightarrow> run_state result" where
  "edit_approval c objective t cur =
     rbind (normalize_required_objective (Some objective)) (\<lambda>normalized.
     rbind (require_compatible_objective cur (Some normalized)) (\<lambda>_.
     rbind (guard_exc (rs_approval_status cur \<noteq> Some SE_REJECTED)
              (run_error ''rejected software engineering action cannot be approved'')) (\<lambda>_.
     rbind (require_aware t) (\<lambda>approved.
     Inr (cur\<lparr>rs_pending_objective := Some normalized, rs_approval_status := Some SE_APPROVED,
              rs_approved_at := Some approved, rs_updated_at := Some (now_utc c 0)\<rparr>)))))"

definition edit_rejection :: "clock \<Rightarrow> datetime \<Rightarrow> run_state \<Rightarrow> run_state result" where
  "edit_rejection c t cur =
     rbind (guard_exc (rs_claim_id cur = None \<and> rs_execution_status cur = None)
              (run_error ''claimed or executed software engineering action cannot be rejected'')) (\<lambda>_.
     rbind (require_aware t) (\<lambda>rejected.
     Inr (cur\<lparr>rs_pending_objective := None, rs_approval_status := Some SE_REJECTED,
              rs_rejected_at := Some rejected, rs_updated_at := Some (now_utc c 0)\<rparr>)))"

definition claimable :: "run_state \<Rightarrow> string result" where
  "claimable cur =
     rbind (guard_exc (rs_approval_status cur = Some SE_APPROVED)
              (run_error ''software engineering action is not durably approved'')) (\<lambda>_.
     rbind (guard_exc (rs_execution_status cur = None)
              (run_error ''software engineering action already has an execution result'')) (\<lambda>_.
     rbind (guard_exc (rs_claim_id cur = None)
              (run_error ''software engineering action already has a durable execution claim'')) (\<lambda>_.
     normalize_required_objective (rs_pending_objective cur))))"

definition edit_claim :: "clock \<Rightarrow> uuid \<Rightarrow> run_state \<Rightarrow> run_state result" where
  "edit_claim c claim_id cur =
     rbind (claimable cur) (\<lambda>_.
     Inr (cur\<lparr>rs_claim_id := Some claim_id, rs_claimed_at := Some (now_utc c 0),
              rs_claim_resolution := None, rs_claim_reconciled_at := None,
              rs_updated_at := Some (now_utc c 0)\<rparr>))"

definition edit_started :: "clock \<Rightarrow> datetime \<Rightarrow> run_state \<Rightarrow> run_state result" where
  "edit_started c t cur =
     rbind (guard_exc (rs_claim_id cur \<noteq> None)
              (run_error ''software engineering execution has no durable claim'')) (\<lambda>_.
     rbind (guard_exc (rs_execution_status cur = None)
              (run_error ''software engineering action already has an execution result'')) (\<lambda>_.
     rbind (require_aware t) (\<lambda>started.
     Inr (cur\<lparr>rs_execution_started_at := Some started, rs_updated_at := Some (now_utc c 0)\<rparr>))))"

definition reconcilable :: "bool \<Rightarrow> datetime \<Rightarrow> datetime \<Rightarrow> run_state \<Rightarrow> datetime result" where
  "reconcilable started expected_updated_at reconciled_at cur =
     rbind (require_aware expected_updated_at) (\<lambda>expected.
     rbind (guard_exc (opt_dt_eq (rs_updated_at cur) expected)
              (run_error ''software engineering run state changed during reconciliation'')) (\<lambda>_.
     rbind (guard_exc (rs_claim_id cur \<noteq> None)
              (run_error ''software engineering action has no durable execution claim'')) (\<lambda>_.
     rbind (guard_exc ((rs_execution_started_at cur \<noteq> None) = started)
              (run_error (if started then ''software engineering execution never started''
                          else ''software engineering execution already started''))) (\<lambda>_.
     rbind (guard_exc (rs_execution_status cur = None)
              (run_error ''software engineering action already has an execution result'')) (\<lambda>_.
     require_aware reconciled_at)))))"

definition edit_release :: "datetime \<Rightarrow> datetime \<Rightarrow> run_state \<Rightarrow> run_state result" where
  "edit_release expected t cur =
     rbind (reconcilable False expected t cur) (\<lambda>reconciled.
     Inr (cur\<lparr>rs_claim_id := None, rs_claimed_at := None,
              rs_claim_resolution := Some RELEASED_BEFORE_START,
              rs_claim_reconciled_at := Some reconciled, rs_updated_at := Some reconciled\<rparr>))"

definition edit_abandon :: "datetime \<Rightarrow> datetime \<Rightarrow> run_state \<Rightarrow> run_state result" where
  "edit_abandon expected t cur =
     rbind (reconcilable True expected t cur) (\<lambda>reconciled.
     Inr (cur\<lparr>rs_pending_objective := None, rs_claim_resolution := Some ABANDONED_AFTER_START,
              rs_claim_reconciled_at := Some reconciled, rs_updated_at := Some reconciled\<rparr>))"

definition edit_execution :: "clock \<Rightarrow> string \<Rightarrow> datetime \<Rightarrow> bool \<Rightarrow> run_state \<Rightarrow> run_state result" where
  "edit_execution c status t performed cur =
     rbind (require_aware t) (\<lambda>finished.
     Inr (cur\<lparr>rs_pending_objective := None, rs_execution_status := Some status,
              rs_execution_finished_at := Some finished,
              rs_external_execution_performed := Some performed, rs_updated_at := Some (now_utc c 0)\<rparr>))"

definition edit_disposition :: "clock \<Rightarrow> work_product_disposition_result \<Rightarrow> run_state \<Rightarrow> run_state result" where
  "edit_disposition c result cur =
     Inr (cur\<lparr>rs_disposition := Some (wpr_disposition result),
       rs_disposition_succeeded := Some (wpr_succeeded result),
       rs_worktree_present := Some (wpr_worktree_present result),
       rs_branch_present := Some (wpr_branch_present result),
       rs_canonical_unchanged := Some (wpr_canonical_unchanged result),
       rs_updated_at := Some (now_utc c 0)\<rparr>)"

definition edit_promotion ::
  "clock \<Rightarrow> string \<Rightarrow> int \<Rightarrow> string \<Rightarrow> string \<Rightarrow> string \<Rightarrow> datetime \<Rightarrow> run_state \<Rightarrow> run_state result" where
  "edit_promotion c sha number url base head t cur =
     rbind (require_aware t) (\<lambda>finished.
     Inr (cur\<lparr>rs_promotion_commit_sha := Some sha, rs_pull_request_number := Some number,
              rs_pull_request_url := Some url, rs_promotion_base_branch := Some base,
              rs_promotion_head_branch := Some head, rs_promotion_finished_at := Some finished,
              rs_updated_at := Some (now_utc c 0)\<rparr>))"

lemmas edit_defs = edit_register_def edit_approval_def edit_rejection_def edit_claim_def edit_started_def
  edit_release_def edit_abandon_def edit_execution_def edit_disposition_def edit_promotion_def
  claimable_def reconcilable_def

text \<open>The in-memory operations are edits of the stored state.\<close>

definition mem_edit :: "uuid \<Rightarrow> (run_state \<Rightarrow> run_state result) \<Rightarrow> (mem_runs, run_state) prog" where
  "mem_edit i f = bnd (mem_require i) (\<lambda>cur. bnd (liftr (f cur)) (mem_store i))"

lemma mem_require_eq:
  "mem_require i s = (case dict_get s i of
      None \<Rightarrow> (Inl (run_error ''software engineering run state does not exist''), s)
    | Some st \<Rightarrow> (Inr st, s))"
  by (simp add: mem_require_def mem_get_def bnd_def split: option.splits)

lemma mem_edit_eq:
  "mem_edit i f s = (case dict_get s i of
      None \<Rightarrow> (Inl (run_error ''software engineering run state does not exist''), s)
    | Some st \<Rightarrow> (case f st of Inl e \<Rightarrow> (Inl e, s) | Inr st' \<Rightarrow> (Inr st', dict_set i st' s)))"
  by (simp add: mem_edit_def mem_require_eq mem_store_def bnd_def split: option.splits sum.splits)

lemmas mem_op_simps = mem_require_eq mem_edit_eq mem_store_def bnd_def rbind_def guard_exc_def

lemma mem_record_approval_edit: "mem_record_approval c i obj t = mem_edit i (edit_approval c obj t)"
  by (rule ext) (simp add: mem_op_simps mem_record_approval_def edit_approval_def split: option.splits sum.splits)

lemma mem_record_rejection_edit: "mem_record_rejection c i t = mem_edit i (edit_rejection c t)"
  by (rule ext) (simp add: mem_op_simps mem_record_rejection_def edit_rejection_def split: option.splits sum.splits)

lemma mem_record_execution_started_edit:
  "mem_record_execution_started c i t = mem_edit i (edit_started c t)"
  by (rule ext) (simp add: mem_op_simps mem_record_execution_started_def edit_started_def split: option.splits sum.splits)

lemma mem_release_unstarted_claim_edit:
  "mem_release_unstarted_claim i e t = mem_edit i (edit_release e t)"
  by (rule ext) (auto simp: mem_op_simps mem_release_unstarted_claim_def edit_release_def reconcilable_def
      split: option.splits sum.splits)

lemma mem_abandon_started_claim_edit:
  "mem_abandon_started_claim i e t = mem_edit i (edit_abandon e t)"
  by (rule ext) (auto simp: mem_op_simps mem_abandon_started_claim_def edit_abandon_def reconcilable_def
      split: option.splits sum.splits)

lemma mem_record_execution_edit:
  "mem_record_execution c i status t p = mem_edit i (edit_execution c status t p)"
  by (rule ext) (simp add: mem_op_simps mem_record_execution_def edit_execution_def split: option.splits sum.splits)

lemma mem_record_disposition_edit:
  "mem_record_disposition c res = mem_edit (wpr_action_id res) (edit_disposition c res)"
  by (rule ext) (simp add: mem_op_simps mem_record_disposition_def edit_disposition_def split: option.splits sum.splits)

lemma mem_record_promotion_edit:
  "mem_record_promotion c i sha n url base head t = mem_edit i (edit_promotion c sha n url base head t)"
  by (rule ext) (simp add: mem_op_simps mem_record_promotion_def edit_promotion_def split: option.splits sum.splits)

lemmas mem_edits = mem_record_approval_edit mem_record_rejection_edit mem_record_execution_started_edit
  mem_release_unstarted_claim_edit mem_abandon_started_claim_edit mem_record_execution_edit
  mem_record_disposition_edit mem_record_promotion_edit

lemma mem_register_action_eq:
  "mem_register_action c i target role cap deleg obj appr s =
     (case dict_get s i of
        Some cur \<Rightarrow>
          (case edit_register c target role cap deleg obj appr cur of
             Inl e \<Rightarrow> (Inl e, s) | Inr st \<Rightarrow> (Inr st, dict_set i st s))
      | None \<Rightarrow>
          (case normalize_objective obj of
             Inl e \<Rightarrow> (Inl e, s)
           | Inr n \<Rightarrow>
               let st = mk_run_state i role cap target deleg n appr (now_utc c 0) (now_utc c 0)
               in (Inr st, dict_set i st s)))"
  by (simp add: mem_op_simps mem_get_def mem_register_action_def edit_register_def Let_def
      split: option.splits sum.splits)

lemma mem_claim_approved_eq:
  "mem_claim_approved c k i s =
     (case dict_get s i of
        None \<Rightarrow> (Inl (run_error ''software engineering run state does not exist''), s)
      | Some cur \<Rightarrow>
          (case claimable cur of
             Inl e \<Rightarrow> (Inl e, s)
           | Inr obj \<Rightarrow>
               (Inr \<lparr>ac_action_id = i, ac_claim_id = k, ac_target = rs_target cur,
                     ac_objective = obj, ac_claimed_at = now_utc c 0\<rparr>,
                dict_set i (cur\<lparr>rs_claim_id := Some k, rs_claimed_at := Some (now_utc c 0),
                   rs_claim_resolution := None, rs_claim_reconciled_at := None,
                   rs_updated_at := Some (now_utc c 0)\<rparr>) s)))"
  by (simp add: mem_op_simps mem_claim_approved_def claimable_def split: option.splits sum.splits)

end
