(* ===== verification/SE_Runs.thy ===== *)
theory SE_Runs
  imports SE_State
begin

text \<open>
  The contract of the run repository and the protocol it enforces. A call of the repository is a value of
  \<open>run_call\<close>; \<open>call_result\<close> is its abstract specification on the mapping from actions to run states.
  The locale \<open>run_repository\<close> says that a repository implements it: a call that returns has exactly
  the specified effect on its one action, and a call that raises has that effect or none (a database can
  fail after a commit). Its lemmas are about arbitrary sequences of calls, failing ones included.
\<close>

section \<open>Calls and their specification\<close>

datatype run_call =
    RegisterAction clock uuid string string string "string option" "string option"
      "SoftwareEngineeringApprovalStatus option"
  | RecordApproval clock uuid string datetime
  | RecordRejection clock uuid datetime
  | ClaimApproved clock uuid uuid
  | RecordExecutionStarted clock uuid datetime
  | ReleaseUnstartedClaim uuid datetime datetime
  | AbandonStartedClaim uuid datetime datetime
  | RecordExecution clock uuid string datetime bool
  | RecordDisposition clock work_product_disposition_result
  | RecordPromotion clock uuid string int string string string datetime

fun call_action :: "run_call \<Rightarrow> uuid" where
  "call_action (RegisterAction c i target role cap deleg obj appr) = i"
| "call_action (RecordApproval c i obj t) = i"
| "call_action (RecordRejection c i t) = i"
| "call_action (ClaimApproved c k i) = i"
| "call_action (RecordExecutionStarted c i t) = i"
| "call_action (ReleaseUnstartedClaim i e t) = i"
| "call_action (AbandonStartedClaim i e t) = i"
| "call_action (RecordExecution c i st t p) = i"
| "call_action (RecordDisposition c res) = wpr_action_id res"
| "call_action (RecordPromotion c i sha n url base head t) = i"

text \<open>Every timestamp a call carries is one Python can construct.\<close>

definition valid_clock :: "clock \<Rightarrow> bool" where
  "valid_clock c \<longleftrightarrow> (\<forall>i. valid_datetime (c i))"

fun call_valid :: "run_call \<Rightarrow> bool" where
  "call_valid (RegisterAction c i target role cap deleg obj appr) = valid_clock c"
| "call_valid (RecordApproval c i obj t) = (valid_clock c \<and> valid_datetime t)"
| "call_valid (RecordRejection c i t) = (valid_clock c \<and> valid_datetime t)"
| "call_valid (ClaimApproved c k i) = valid_clock c"
| "call_valid (RecordExecutionStarted c i t) = (valid_clock c \<and> valid_datetime t)"
| "call_valid (ReleaseUnstartedClaim i e t) = (valid_datetime e \<and> valid_datetime t)"
| "call_valid (AbandonStartedClaim i e t) = (valid_datetime e \<and> valid_datetime t)"
| "call_valid (RecordExecution c i st t p) = (valid_clock c \<and> valid_datetime t)"
| "call_valid (RecordDisposition c res) = valid_clock c"
| "call_valid (RecordPromotion c i sha n url base head t) = (valid_clock c \<and> valid_datetime t)"

fun call_edit :: "run_call \<Rightarrow> run_state \<Rightarrow> run_state result" where
  "call_edit (RegisterAction c i target role cap deleg obj appr) = edit_register c target role cap deleg obj appr"
| "call_edit (RecordApproval c i obj t) = edit_approval c obj t"
| "call_edit (RecordRejection c i t) = edit_rejection c t"
| "call_edit (ClaimApproved c k i) = edit_claim c k"
| "call_edit (RecordExecutionStarted c i t) = edit_started c t"
| "call_edit (ReleaseUnstartedClaim i e t) = edit_release e t"
| "call_edit (AbandonStartedClaim i e t) = edit_abandon e t"
| "call_edit (RecordExecution c i st t p) = edit_execution c st t p"
| "call_edit (RecordDisposition c res) = edit_disposition c res"
| "call_edit (RecordPromotion c i sha n url base head t) = edit_promotion c sha n url base head t"

text \<open>A call on an action without a state: only registration creates one.\<close>

fun call_create :: "run_call \<Rightarrow> run_state result" where
  "call_create (RegisterAction c i target role cap deleg obj appr) =
     rbind (normalize_objective obj) (\<lambda>n.
       Inr (mk_run_state i role cap target deleg n appr (now_utc c 0) (now_utc c 0)))"
| "call_create call = Inl (run_error ''software engineering run state does not exist'')"

definition call_result :: "run_call \<Rightarrow> run_state option \<Rightarrow> run_state result" where
  "call_result call st = (case st of None \<Rightarrow> call_create call | Some s \<Rightarrow> call_edit call s)"

datatype reply = RState run_state | RClaim action_claim

fun exec_call :: "'r run_ops \<Rightarrow> run_call \<Rightarrow> ('r, reply) prog" where
  "exec_call ops (RegisterAction c i target role cap deleg obj appr) =
     bnd (run_register_action ops c i target role cap deleg obj appr) (ret \<circ> RState)"
| "exec_call ops (RecordApproval c i obj t) = bnd (run_record_approval ops c i obj t) (ret \<circ> RState)"
| "exec_call ops (RecordRejection c i t) = bnd (run_record_rejection ops c i t) (ret \<circ> RState)"
| "exec_call ops (ClaimApproved c k i) = bnd (run_claim_approved ops c k i) (ret \<circ> RClaim)"
| "exec_call ops (RecordExecutionStarted c i t) = bnd (run_record_execution_started ops c i t) (ret \<circ> RState)"
| "exec_call ops (ReleaseUnstartedClaim i e t) = bnd (run_release_unstarted_claim ops i e t) (ret \<circ> RState)"
| "exec_call ops (AbandonStartedClaim i e t) = bnd (run_abandon_started_claim ops i e t) (ret \<circ> RState)"
| "exec_call ops (RecordExecution c i st t p) = bnd (run_record_execution ops c i st t p) (ret \<circ> RState)"
| "exec_call ops (RecordDisposition c res) = bnd (run_record_disposition ops c res) (ret \<circ> RState)"
| "exec_call ops (RecordPromotion c i sha n url base head t) =
     bnd (run_record_promotion ops c i sha n url base head t) (ret \<circ> RState)"

definition run_calls :: "'r run_ops \<Rightarrow> run_call list \<Rightarrow> 'r \<Rightarrow> 'r" where
  "run_calls ops calls r = fold (\<lambda>call r. snd (exec_call ops call r)) calls r"

type_synonym run_view = "uuid \<Rightarrow> run_state option"

definition applies :: "run_call \<Rightarrow> run_view \<Rightarrow> run_state \<Rightarrow> run_view \<Rightarrow> bool" where
  "applies call v st v' \<longleftrightarrow>
     call_result call (v (call_action call)) = Inr st \<and> v' = v(call_action call \<mapsto> st)"

fun reply_matches :: "run_call \<Rightarrow> run_state \<Rightarrow> reply \<Rightarrow> bool" where
  "reply_matches call st (RState s) \<longleftrightarrow> s = st"
| "reply_matches call st (RClaim k) \<longleftrightarrow>
     ac_action_id k = call_action call \<and> Some (ac_claim_id k) = rs_claim_id st \<and>
     ac_target k = rs_target st \<and> Some (ac_claimed_at k) = rs_claimed_at st \<and>
     normalize_required_objective (rs_pending_objective st) = Inr (ac_objective k)"

definition run_effect :: "run_call \<Rightarrow> run_view \<Rightarrow> reply result \<Rightarrow> run_view \<Rightarrow> bool" where
  "run_effect call v res v' \<longleftrightarrow>
     (case res of
        Inl e \<Rightarrow> v' = v \<or> (\<exists>st. applies call v st v')
      | Inr x \<Rightarrow> \<exists>st. applies call v st v' \<and> reply_matches call st x)"

lemma run_effect_cases:
  assumes "run_effect call v res v'"
  obtains (none) "v' = v" "\<exists>e. res = Inl e" | (some) st where "applies call v st v'"
  using assms by (auto simp: run_effect_def split: sum.splits)

section \<open>Facts about edits\<close>

definition claimed :: "run_state option \<Rightarrow> bool" where
  "claimed st \<longleftrightarrow> (\<exists>s. st = Some s \<and> rs_claim_id s \<noteq> None)"

definition started :: "run_state option \<Rightarrow> bool" where
  "started st \<longleftrightarrow> (\<exists>s. st = Some s \<and> rs_claim_id s \<noteq> None \<and> rs_execution_started_at s \<noteq> None)"

definition executed :: "run_state option \<Rightarrow> bool" where
  "executed st \<longleftrightarrow> (\<exists>s. st = Some s \<and> rs_execution_status s \<noteq> None)"

fun is_release :: "uuid \<Rightarrow> run_call \<Rightarrow> bool" where
  "is_release i (ReleaseUnstartedClaim j e t) = (j = i)"
| "is_release i call = False"

lemma require_aware_Inr: "require_aware t = Inr u \<longleftrightarrow> is_aware t \<and> u = t"
  by (auto simp: require_aware_def)

lemma claimable_Inr:
  "claimable st = Inr obj \<longleftrightarrow> rs_approval_status st = Some SE_APPROVED \<and> rs_execution_status st = None
     \<and> rs_claim_id st = None \<and> normalize_required_objective (rs_pending_objective st) = Inr obj"
  by (auto simp: claimable_def)

lemma reconcilable_Inr:
  "reconcilable b e t st = Inr u \<longleftrightarrow> is_aware e \<and> is_aware t \<and> u = t \<and> opt_dt_eq (rs_updated_at st) e
     \<and> rs_claim_id st \<noteq> None \<and> (rs_execution_started_at st \<noteq> None) = b \<and> rs_execution_status st = None"
  by (auto simp: reconcilable_def require_aware_Inr)

lemmas edit_facts = edit_register_def edit_approval_def edit_rejection_def edit_claim_def edit_started_def
  edit_release_def edit_abandon_def edit_execution_def edit_disposition_def edit_promotion_def
  claimable_Inr reconcilable_Inr require_aware_Inr

lemma call_edit_claim_kept:
  "call_edit call s = Inr s' \<Longrightarrow> rs_claim_id s \<noteq> None \<Longrightarrow> \<not> is_release (call_action call) call \<Longrightarrow>
     rs_claim_id s' \<noteq> None"
  by (cases call) (auto simp: edit_facts)

lemma call_edit_started_kept:
  "call_edit call s = Inr s' \<Longrightarrow> rs_claim_id s \<noteq> None \<Longrightarrow> rs_execution_started_at s \<noteq> None \<Longrightarrow>
     rs_claim_id s' \<noteq> None \<and> rs_execution_started_at s' \<noteq> None"
  by (cases call) (auto simp: edit_facts)

lemma call_edit_executed_kept:
  "call_edit call s = Inr s' \<Longrightarrow> rs_execution_status s \<noteq> None \<Longrightarrow> rs_execution_status s' \<noteq> None"
  by (cases call) (auto simp: edit_facts)

lemma applies_kept:
  assumes "applies call v st v'" and "P (v i)"
    and "\<And>s s'. call_action call = i \<Longrightarrow> v i = Some s \<Longrightarrow> call_edit call s = Inr s' \<Longrightarrow> P (Some s')"
    and "\<not> P None"
  shows "P (v' i)"
proof (cases "call_action call = i")
  case True
  from assms(2,4) obtain s where "v i = Some s" by (metis option.exhaust)
  with True assms(1,3) show ?thesis by (auto simp: applies_def call_result_def)
qed (use assms in \<open>simp add: applies_def\<close>)

lemma applies_claimed:
  "applies call v st v' \<Longrightarrow> claimed (v i) \<Longrightarrow> \<not> is_release i call \<Longrightarrow> claimed (v' i)"
  by (erule applies_kept) (auto simp: claimed_def dest: call_edit_claim_kept)

lemma applies_started: "applies call v st v' \<Longrightarrow> started (v i) \<Longrightarrow> started (v' i)"
  by (erule applies_kept) (auto simp: started_def dest: call_edit_started_kept)

lemma applies_executed: "applies call v st v' \<Longrightarrow> executed (v i) \<Longrightarrow> executed (v' i)"
  by (erule applies_kept) (auto simp: executed_def dest: call_edit_executed_kept)

lemma started_claimed: "started st \<Longrightarrow> claimed st"
  by (auto simp: started_def claimed_def)

lemma applies_claim:
  "applies (ClaimApproved c k i) v st v' \<Longrightarrow> \<not> claimed (v i) \<and> \<not> executed (v i) \<and> claimed (v' i)
     \<and> (\<exists>s. v i = Some s \<and> rs_approval_status s = Some SE_APPROVED)"
  by (cases "v i") (auto simp: applies_def call_result_def edit_facts claimed_def executed_def)

lemma applies_execution_started:
  "applies (RecordExecutionStarted c i t) v st v' \<Longrightarrow> claimed (v i) \<and> started (v' i)"
  by (cases "v i") (auto simp: applies_def call_result_def edit_facts claimed_def started_def)

lemma applies_execution: "applies (RecordExecution c i s t p) v st v' \<Longrightarrow> executed (v' i)"
  by (cases "v i") (auto simp: applies_def call_result_def edit_facts executed_def)

lemma applies_release: "applies (ReleaseUnstartedClaim i e t) v st v' \<Longrightarrow> claimed (v i) \<and> \<not> started (v i)"
  by (cases "v i") (auto simp: applies_def call_result_def edit_facts claimed_def started_def)

lemma applies_rejection:
  "applies (RecordRejection c i t) v st v' \<Longrightarrow> \<not> claimed (v i) \<and> \<not> executed (v i)"
  by (cases "v i") (auto simp: applies_def call_result_def edit_facts claimed_def executed_def)

text \<open>Whether a call can make the action durably approved.\<close>

fun approves :: "uuid \<Rightarrow> run_call \<Rightarrow> bool" where
  "approves i (RegisterAction c j target role cap deleg obj appr) = (j = i \<and> appr = Some SE_APPROVED)"
| "approves i (RecordApproval c j obj t) = (j = i)"
| "approves i call = False"

definition durably_approved :: "run_state option \<Rightarrow> bool" where
  "durably_approved st \<longleftrightarrow> (\<exists>s. st = Some s \<and> rs_approval_status s = Some SE_APPROVED)"

lemma applies_not_approved:
  assumes "applies call v st v'" "\<not> durably_approved (v i)" "\<not> approves i call"
  shows "\<not> durably_approved (v' i)"
proof (cases "call_action call = i")
  case True
  then show ?thesis
    using assms by (cases call; cases "v i")
      (auto simp: applies_def call_result_def edit_facts durably_approved_def mk_run_state_def split: if_splits)
qed (use assms in \<open>simp add: applies_def\<close>)

section \<open>The contract\<close>

locale run_repository =
  fixes ops :: "'r run_ops"
    and view :: "'r \<Rightarrow> run_view"
    and inv :: "'r \<Rightarrow> bool"
  assumes get_law: "inv r \<Longrightarrow> run_get ops i r = (got, r') \<Longrightarrow>
        inv r' \<and> view r' = view r \<and> (\<forall>x. got = Inr x \<longrightarrow> x = view r i)"
    and pending_law: "inv r \<Longrightarrow> run_list_pending ops r = (listed, r') \<Longrightarrow>
        inv r' \<and> view r' = view r \<and>
        (\<forall>xs. listed = Inr xs \<longrightarrow> set xs = {st. \<exists>i. view r i = Some st \<and> pending_approval st})"
    and call_law: "inv r \<Longrightarrow> call_valid call \<Longrightarrow> exec_call ops call r = (res, r') \<Longrightarrow>
        inv r' \<and> run_effect call (view r) res (view r')"
    and view_id: "inv r \<Longrightarrow> view r i = Some st \<Longrightarrow> rs_action_id st = i"
    and view_updated: "inv r \<Longrightarrow> view r i = Some st \<Longrightarrow> rs_updated_at st = Some t \<Longrightarrow> valid_datetime t"
begin

lemma call_applies:
  assumes "inv r" "call_valid call" "exec_call ops call r = (Inr x, r')"
  obtains st where "inv r'" "applies call (view r) st (view r')" "reply_matches call st x"
  using call_law [OF assms] by (auto simp: run_effect_def)

lemma run_calls_inv: "inv r \<Longrightarrow> list_all call_valid calls \<Longrightarrow> inv (run_calls ops calls r)"
proof (induction calls arbitrary: r)
  case (Cons call calls)
  then show ?case
    using call_law [of r call "fst (exec_call ops call r)" "snd (exec_call ops call r)"]
    by (simp add: run_calls_def)
qed (simp add: run_calls_def)

text \<open>What every call of a sequence keeps, the sequence keeps.\<close>

lemma run_calls_keep:
  assumes "inv r" "list_all call_valid calls" "P (view r)"
    and "\<And>call v st v'. call \<in> set calls \<Longrightarrow> applies call v st v' \<Longrightarrow> P v \<Longrightarrow> P v'"
  shows "P (view (run_calls ops calls r))"
  using assms
proof (induction calls arbitrary: r)
  case (Cons call calls)
  let ?r = "snd (exec_call ops call r)"
  have e: "inv ?r" "run_effect call (view r) (fst (exec_call ops call r)) (view ?r)"
    using call_law [of r call] Cons.prems(1,2) by (metis list.pred_inject(2) prod.collapse)+
  have "P (view ?r)"
    using e(2)
  proof (cases rule: run_effect_cases)
    case (some st)
    with Cons.prems(3,4) show ?thesis by (metis list.set_intros(1))
  qed (use Cons.prems(3) in simp)
  with Cons.IH [of ?r] Cons.prems e(1) show ?case by (auto simp: run_calls_def)
qed (simp add: run_calls_def)

text \<open>A durable claim is exclusive: until it is released, no further claim of the action succeeds.\<close>

lemma claim_exclusive:
  assumes "inv r" "valid_clock c" "exec_call ops (ClaimApproved c k i) r = (Inr x, r1)"
    and calls: "list_all call_valid calls" "\<forall>call\<in>set calls. \<not> is_release i call"
    and "valid_clock c'" "exec_call ops (ClaimApproved c' k' i) (run_calls ops calls r1) = (res, r2)"
  shows "\<exists>e. res = Inl e"
proof -
  obtain st where i1: "inv r1" and "applies (ClaimApproved c k i) (view r) st (view r1)"
    using call_applies [OF assms(1) _ assms(3)] assms(2) by auto
  then have "claimed (view r1 i)" using applies_claim by blast
  then have "claimed (view (run_calls ops calls r1) i)"
    using run_calls_keep [OF i1 calls(1), of "\<lambda>v. claimed (v i)"] calls(2) applies_claimed by blast
  then show ?thesis
    using call_law [OF run_calls_inv [OF i1 calls(1)] _ assms(7)] assms(6) applies_claim
    by (auto simp: run_effect_def split: sum.splits)
qed

text \<open>At most one execution: once an execution has started, no claim of the action succeeds any more.\<close>

lemma started_never_reclaimed:
  assumes "inv r" "valid_clock c" "valid_datetime t"
    and "exec_call ops (RecordExecutionStarted c i t) r = (Inr x, r1)"
    and calls: "list_all call_valid calls" and "valid_clock c'"
    and "exec_call ops (ClaimApproved c' k' i) (run_calls ops calls r1) = (res, r2)"
  shows "\<exists>e. res = Inl e"
proof -
  obtain st where i1: "inv r1" and "applies (RecordExecutionStarted c i t) (view r) st (view r1)"
    using call_applies [OF assms(1) _ assms(4)] assms(2,3) by auto
  then have "started (view r1 i)" using applies_execution_started by blast
  then have "claimed (view (run_calls ops calls r1) i)"
    using run_calls_keep [OF i1 calls(1), of "\<lambda>v. started (v i)"] applies_started started_claimed by blast
  then show ?thesis
    using call_law [OF run_calls_inv [OF i1 calls(1)] _ assms(7)] assms(6) applies_claim
    by (auto simp: run_effect_def split: sum.splits)
qed

text \<open>An execution result is final: the action is neither claimed nor rejected afterwards.\<close>

lemma executed_is_final:
  assumes "inv r" "valid_clock c" "valid_datetime t"
    and "exec_call ops (RecordExecution c i s t p) r = (Inr x, r1)"
    and calls: "list_all call_valid calls"
    and call: "call = ClaimApproved c' k' i \<or> call = RecordRejection c' i t'" "call_valid call"
    and "exec_call ops call (run_calls ops calls r1) = (res, r2)"
  shows "\<exists>e. res = Inl e"
proof -
  obtain st where i1: "inv r1" and "applies (RecordExecution c i s t p) (view r) st (view r1)"
    using call_applies [OF assms(1) _ assms(4)] assms(2,3) by auto
  then have "executed (view r1 i)" using applies_execution by blast
  then have ex: "executed (view (run_calls ops calls r1) i)"
    using run_calls_keep [OF i1 calls(1), of "\<lambda>v. executed (v i)"] applies_executed by blast
  have eff: "run_effect call (view (run_calls ops calls r1)) res (view r2)"
    using call_law [OF run_calls_inv [OF i1 calls(1)] call(2) assms(8)] by simp
  have "\<not> applies call (view (run_calls ops calls r1)) st' (view r2)" for st'
    using call(1) ex applies_claim applies_rejection by blast
  with eff show ?thesis by (auto simp: run_effect_def split: sum.splits)
qed

text \<open>No claim without an approval: some earlier call has approved the action.\<close>

lemma claim_needs_approval:
  assumes "inv r" "view r i = None" "list_all call_valid calls" "valid_clock c"
    and "exec_call ops (ClaimApproved c k i) (run_calls ops calls r) = (Inr x, r')"
  shows "\<exists>call\<in>set calls. approves i call"
proof (rule ccontr)
  assume "\<not> (\<exists>call\<in>set calls. approves i call)"
  then have "\<not> durably_approved (view (run_calls ops calls r) i)"
    using run_calls_keep [OF assms(1,3), of "\<lambda>v. \<not> durably_approved (v i)"] assms(2) applies_not_approved
    by (metis durably_approved_def option.distinct(1))
  moreover obtain st where "applies (ClaimApproved c k i) (view (run_calls ops calls r)) st (view r')"
    using call_applies [OF run_calls_inv [OF assms(1,3)] _ assms(5)] assms(4) by auto
  ultimately show False using applies_claim unfolding durably_approved_def by blast
qed

end

section \<open>The in-memory repository provides it\<close>

lemma mem_ops_sel [simp]:
  "run_get mem_ops = mem_get" "run_list_pending mem_ops = mem_list_pending"
  "run_register_action mem_ops = mem_register_action" "run_record_approval mem_ops = mem_record_approval"
  "run_record_rejection mem_ops = mem_record_rejection" "run_claim_approved mem_ops = mem_claim_approved"
  "run_record_execution_started mem_ops = mem_record_execution_started"
  "run_release_unstarted_claim mem_ops = mem_release_unstarted_claim"
  "run_abandon_started_claim mem_ops = mem_abandon_started_claim"
  "run_record_execution mem_ops = mem_record_execution"
  "run_record_disposition mem_ops = mem_record_disposition"
  "run_record_promotion mem_ops = mem_record_promotion"
  by (simp_all add: mem_ops_def)

definition mem_view :: "mem_runs \<Rightarrow> run_view" where
  "mem_view states = dict_get states"

definition mem_inv :: "mem_runs \<Rightarrow> bool" where
  "mem_inv states \<longleftrightarrow> distinct (map fst states) \<and>
     (\<forall>(i, st)\<in>set states. rs_action_id st = i \<and> (\<forall>t. rs_updated_at st = Some t \<longrightarrow> valid_datetime t))"

lemma mem_view_set [simp]: "mem_view (dict_set i st s) = (mem_view s)(i \<mapsto> st)"
  by (rule ext) (simp add: mem_view_def)

lemma set_dict_set: "set (dict_set i st s) \<subseteq> insert (i, st) (set s)"
  by (induction s) auto

lemma mem_inv_set [simp]:
  "mem_inv s \<Longrightarrow> rs_action_id st = i \<Longrightarrow> (\<forall>t. rs_updated_at st = Some t \<longrightarrow> valid_datetime t) \<Longrightarrow>
     mem_inv (dict_set i st s)"
  using set_dict_set [of i st s] unfolding mem_inv_def by (fastforce simp: distinct_update)

lemma mem_inv_get: "mem_inv s \<Longrightarrow> dict_get s i = Some st \<Longrightarrow> rs_action_id st = i"
  by (auto simp: mem_inv_def dest: map_of_SomeD)

lemma call_edit_id: "call_edit call s = Inr s' \<Longrightarrow> rs_action_id s' = rs_action_id s"
  by (cases call) (auto simp: edit_facts)

lemma valid_now: "valid_clock c \<Longrightarrow> valid_datetime (now_utc c j)"
  by (auto simp: valid_clock_def now_utc_def valid_datetime_def)

lemma call_edit_updated:
  "call_valid call \<Longrightarrow> call_edit call s = Inr s' \<Longrightarrow> rs_updated_at s' = Some t \<Longrightarrow> valid_datetime t"
  by (cases call) (auto simp: edit_facts valid_now)

lemma mem_edit_law:
  assumes "call_valid call" "mem_inv s" "mem_edit (call_action call) (call_edit call) s = (res, s')"
    and "call_create call = Inl (run_error ''software engineering run state does not exist'')"
  shows "mem_inv s' \<and> run_effect call (mem_view s) (map_sum id RState res) (mem_view s')"
proof (cases "dict_get s (call_action call)")
  case None
  with assms(3) have "res = Inl (run_error ''software engineering run state does not exist'')" "s' = s"
    by (simp_all add: mem_edit_eq)
  with assms(2) show ?thesis by (simp add: run_effect_def)
next
  case (Some cur)
  show ?thesis
  proof (cases "call_edit call cur")
    case (Inl e)
    with assms(3) Some have "res = Inl e" "s' = s" by (simp_all add: mem_edit_eq)
    with assms(2) show ?thesis by (simp add: run_effect_def)
  next
    case (Inr st)
    with assms(3) Some have "res = Inr st" "s' = dict_set (call_action call) st s"
      by (simp_all add: mem_edit_eq)
    moreover have "mem_view s (call_action call) = Some cur" using Some by (simp add: mem_view_def)
    moreover have "rs_action_id st = call_action call"
      using call_edit_id [OF Inr] mem_inv_get [OF assms(2) Some] by simp
    ultimately show ?thesis
      using assms(2) Inr call_edit_updated [OF assms(1) Inr] by (simp add: run_effect_def applies_def call_result_def)
  qed
qed

lemma bnd_ret: "bnd m (ret \<circ> f) s = (res, s') \<longleftrightarrow> (\<exists>r. m s = (r, s') \<and> res = map_sum id f r)"
  by (auto simp: bnd_def split: prod.splits sum.splits)

lemma mem_view_get: "mem_view s i = dict_get s i"
  by (simp add: mem_view_def)

lemma mem_register_law:
  assumes c: "valid_clock c" and m: "mem_inv s" "mem_register_action c i target role cap deleg obj appr s = (res, s')"
  shows "mem_inv s' \<and> run_effect (RegisterAction c i target role cap deleg obj appr) (mem_view s)
     (map_sum id RState res) (mem_view s')"
proof (cases "call_result (RegisterAction c i target role cap deleg obj appr) (dict_get s i)")
  case (Inl e)
  with m(2) have "res = Inl e" "s' = s"
    by (auto simp: mem_register_action_eq call_result_def rbind_def split: option.splits sum.splits)
  with m(1) show ?thesis by (simp add: run_effect_def)
next
  case (Inr st)
  with m(2) have "res = Inr st" "s' = dict_set i st s"
    by (auto simp: mem_register_action_eq call_result_def rbind_def Let_def split: option.splits sum.splits)
  moreover have "rs_action_id st = i"
    using Inr mem_inv_get [OF m(1), of i]
      call_edit_id [of "RegisterAction c i target role cap deleg obj appr"]
    by (fastforce simp: call_result_def mk_run_state_def split: option.splits)
  moreover have "\<forall>t. rs_updated_at st = Some t \<longrightarrow> valid_datetime t"
    using Inr c by (auto simp: call_result_def mk_run_state_def edit_register_def valid_now split: option.splits)
  ultimately show ?thesis
    using m(1) Inr by (simp add: run_effect_def applies_def mem_view_get)
qed

lemma mem_claim_law:
  assumes c: "valid_clock c" and m: "mem_inv s" "mem_claim_approved c k i s = (res, s')"
  shows "mem_inv s' \<and> run_effect (ClaimApproved c k i) (mem_view s) (map_sum id RClaim res) (mem_view s')"
proof (cases "\<exists>cur obj. dict_get s i = Some cur \<and> claimable cur = Inr obj")
  case True
  then obtain cur obj where cur: "dict_get s i = Some cur" "claimable cur = Inr obj" by blast
  with m mem_inv_get [OF m(1) cur(1)] show ?thesis
    by (auto simp: mem_claim_approved_eq run_effect_def applies_def mem_view_get call_result_def
        edit_claim_def claimable_Inr valid_now [OF c])
next
  case False
  with m have "s' = s" "\<exists>e. res = Inl e"
    by (auto simp: mem_claim_approved_eq split: option.splits sum.splits)
  with m(1) show ?thesis by (auto simp: run_effect_def)
qed

lemma mem_call_law:
  assumes v: "call_valid call" and m: "mem_inv s" "exec_call mem_ops call s = (res, s')"
  shows "mem_inv s' \<and> run_effect call (mem_view s) res (mem_view s')"
proof (cases "(\<exists>c i target role cap deleg obj appr. call = RegisterAction c i target role cap deleg obj appr)
     \<or> (\<exists>c k i. call = ClaimApproved c k i)")
  case False
  then have "exec_call mem_ops call = bnd (mem_edit (call_action call) (call_edit call)) (ret \<circ> RState)"
    by (cases call) (auto simp: mem_edits)
  moreover have "call_create call = Inl (run_error ''software engineering run state does not exist'')"
    using False by (cases call) auto
  ultimately show ?thesis using m mem_edit_law [OF v] by (auto simp: bnd_ret)
next
  case True
  then show ?thesis
    using m v mem_register_law [OF _ m(1)] mem_claim_law [OF _ m(1)]
    by (elim disjE exE) (auto simp: bnd_ret)
qed

interpretation mem: run_repository mem_ops mem_view mem_inv
proof
  show "mem_inv r' \<and> mem_view r' = mem_view r \<and> (\<forall>x. res = Inr x \<longrightarrow> x = mem_view r i)"
    if "mem_inv r" "run_get mem_ops i r = (res, r')" for r i res r'
    using that by (auto simp: mem_get_def mem_view_def)
  show "mem_inv r' \<and> mem_view r' = mem_view r \<and>
      (\<forall>xs. res = Inr xs \<longrightarrow> set xs = {st. \<exists>i. mem_view r i = Some st \<and> pending_approval st})"
    if "mem_inv r" "run_list_pending mem_ops r = (res, r')" for r res r'
    using that by (force simp: mem_list_pending_def mem_view_def mem_inv_def)
  show "rs_action_id st = i" if "mem_inv r" "mem_view r i = Some st" for r i st
    using that mem_inv_get by (simp add: mem_view_def)
  show "valid_datetime t" if "mem_inv r" "mem_view r i = Some st" "rs_updated_at st = Some t" for r i st t
    using that by (auto simp: mem_view_def mem_inv_def dest: map_of_SomeD)
qed (use mem_call_law in blast)

end
