(* ===== verification/Permission.thy ===== *)
theory Permission
  imports Actions
begin

text \<open>
  \<open>core/permission.py\<close>: permission decisions, the approval-first engine of the application and the
  runtime that evaluates planned actions. The runtime takes any engine: one that raises or returns
  something else than a decision is a value of the model too, and is denied.
  \<open>model_dump\<close> of a decision belongs to the validation library; it is the parameter \<open>dump\<close>.
\<close>

datatype PermissionStatus = ALLOWED | REQUIRES_APPROVAL | DENIED

fun permission_status_value :: "PermissionStatus \<Rightarrow> string" where
  "permission_status_value ALLOWED = ''allowed''"
| "permission_status_value REQUIRES_APPROVAL = ''requires_approval''"
| "permission_status_value DENIED = ''denied''"

record permission_decision =
  pdec_status :: PermissionStatus
  pdec_reason :: "string option"
  pdec_metadata :: pydict
  pdec_created_at :: datetime

definition mk_permission_decision ::
  "PermissionStatus \<Rightarrow> string option \<Rightarrow> pydict \<Rightarrow> datetime \<Rightarrow> permission_decision result" where
  "mk_permission_decision st reason md created =
     rbind (require_utc_created_at created) (\<lambda>c.
       Inr \<lparr>pdec_status = st, pdec_reason = normalize_blank_reason reason,
            pdec_metadata = md, pdec_created_at = c\<rparr>)"

text \<open>An engine returns a decision, returns another object (\<open>None\<close>), or raises.\<close>

type_synonym permission_engine = "clock \<Rightarrow> action \<Rightarrow> permission_decision option result"

definition quoted :: "string \<Rightarrow> string" where
  "quoted s = [CHR 0x27] @ s @ [CHR 0x27]"

definition safe_action_types :: "string list" where
  "safe_action_types =
     [''review_pull_request'', ''summarize_email'', ''prepare_meeting'', ''gmail.read'']"

definition base_permission_engine :: permission_engine where
  "base_permission_engine c a =
     (if act_type a \<in> set safe_action_types
      then rbind (mk_permission_decision ALLOWED
             (Some (''action type '' @ quoted (act_type a) @ '' is on the safe list and is auto-approved''))
             [] (now_utc c 0)) (\<lambda>d. Inr (Some d))
      else rbind (mk_permission_decision REQUIRES_APPROVAL
             (Some (''action type '' @ quoted (act_type a)
                @ '' is not on the safe list and requires explicit approval''))
             [] (now_utc c 0)) (\<lambda>d. Inr (Some d)))"

record permission_evaluation =
  pe_action :: action
  pe_decision :: permission_decision

definition is_allowed :: "permission_evaluation \<Rightarrow> bool" where
  "is_allowed e = (pdec_status (pe_decision e) = ALLOWED)"

definition resolve_decision :: "permission_engine \<Rightarrow> clock \<Rightarrow> action \<Rightarrow> permission_decision result" where
  "resolve_decision engine c a =
     (case engine c a of
        Inr (Some d) \<Rightarrow> Inr d
      | _ \<Rightarrow> mk_permission_decision DENIED (Some ''permission decision could not be resolved'')
               [] (now_utc c 1))"

definition resolve_lifecycle_state ::
  "clock \<Rightarrow> permission_decision \<Rightarrow> action_lifecycle_state result" where
  "resolve_lifecycle_state c d =
     (case pdec_status d of
        ALLOWED \<Rightarrow>
          rbind (mk_action_lifecycle_state PLANNED (now_utc c 2) None None []) (\<lambda>planned.
          rbind (action_transition planned QUEUED None None (now_utc c 3)) (\<lambda>queued.
          action_transition queued APPROVED None None (now_utc c 4)))
      | REQUIRES_APPROVAL \<Rightarrow>
          rbind (mk_action_lifecycle_state PLANNED (now_utc c 2) None None
                   [(''approval_required'', PBool True)]) (\<lambda>planned.
          action_transition planned QUEUED None None (now_utc c 3))
      | DENIED \<Rightarrow>
          mk_action_lifecycle_state REJECTED (now_utc c 2) None (pdec_reason d)
            [(''permission_status'', PStr (permission_status_value (pdec_status d)))])"

definition apply_permission_metadata ::
  "(permission_decision \<Rightarrow> pyval) \<Rightarrow> action \<Rightarrow> permission_decision \<Rightarrow> action" where
  "apply_permission_metadata dump a d =
     a\<lparr>act_metadata := dict_merge (act_metadata a) [(''permission_decision'', dump d)]\<rparr>"

definition evaluate_action ::
  "permission_engine \<Rightarrow> (permission_decision \<Rightarrow> pyval) \<Rightarrow> clock \<Rightarrow> action
     \<Rightarrow> ('z action_state_scheme, permission_evaluation) prog" where
  "evaluate_action engine dump c a =
     bnd (liftr (resolve_decision engine c a)) (\<lambda>d.
     bnd (liftr (resolve_lifecycle_state c d)) (\<lambda>st.
     bnd (set_lifecycle (act_id a) st) (\<lambda>_.
     let evaluated = apply_permission_metadata dump a d in
     bnd (if pdec_status d = REQUIRES_APPROVAL
          then modify (pending_approval_registry_update (registry_add evaluated)) else ret ()) (\<lambda>_.
     ret \<lparr>pe_action = evaluated, pe_decision = d\<rparr>))))"

fun evaluate_actions ::
  "permission_engine \<Rightarrow> (permission_decision \<Rightarrow> pyval) \<Rightarrow> (nat \<Rightarrow> clock) \<Rightarrow> nat \<Rightarrow> action list
     \<Rightarrow> ('z action_state_scheme, permission_evaluation list) prog" where
  "evaluate_actions engine dump c j [] = ret []"
| "evaluate_actions engine dump c j (a # as) =
     bnd (evaluate_action engine dump (c j) a) (\<lambda>e.
     bnd (evaluate_actions engine dump c (Suc j) as) (\<lambda>es. ret (e # es)))"

definition permission_evaluate ::
  "permission_engine \<Rightarrow> (permission_decision \<Rightarrow> pyval) \<Rightarrow> (nat \<Rightarrow> clock) \<Rightarrow> action list
     \<Rightarrow> ('z action_state_scheme, permission_evaluation list) prog" where
  "permission_evaluate engine dump c as = evaluate_actions engine dump c 0 as"

definition queueable_actions :: "permission_evaluation list \<Rightarrow> action list" where
  "queueable_actions es = map pe_action (filter is_allowed es)"

definition pending_approval_actions :: "permission_evaluation list \<Rightarrow> action list" where
  "pending_approval_actions es =
     map pe_action (filter (\<lambda>e. pdec_status (pe_decision e) = REQUIRES_APPROVAL) es)"

section \<open>Behaviour of one evaluation\<close>

lemma mk_permission_decision_now [simp]:
  "mk_permission_decision st r md (now_utc c i)
     = Inr \<lparr>pdec_status = st, pdec_reason = normalize_blank_reason r, pdec_metadata = md,
            pdec_created_at = now_utc c i\<rparr>"
  by (simp add: mk_permission_decision_def require_utc_created_at_def is_utc_aware)

lemma resolve_decision_total: "\<exists>d. resolve_decision engine c a = Inr d"
  by (auto simp: resolve_decision_def split: sum.splits option.splits)

lemma resolve_decision_default:
  "(\<nexists>d. engine c a = Inr (Some d)) \<Longrightarrow> resolve_decision engine c a = Inr d \<Longrightarrow> pdec_status d = DENIED"
  by (auto simp: resolve_decision_def split: sum.splits option.splits)

text \<open>The status the lifecycle repository gets for each decision, and the approval mark.\<close>

definition initial_status :: "PermissionStatus \<Rightarrow> ActionStatus" where
  "initial_status p = (case p of ALLOWED \<Rightarrow> APPROVED | REQUIRES_APPROVAL \<Rightarrow> QUEUED | DENIED \<Rightarrow> REJECTED)"

lemma resolve_lifecycle_state_total:
  "\<exists>st. resolve_lifecycle_state c d = Inr st \<and> wf_lifecycle st
      \<and> als_status st = initial_status (pdec_status d)
      \<and> als_metadata st = (case pdec_status d of
            ALLOWED \<Rightarrow> []
          | REQUIRES_APPROVAL \<Rightarrow> [(''approval_required'', PBool True)]
          | DENIED \<Rightarrow> [(''permission_status'', PStr ''denied'')])"
proof (cases "pdec_status d")
  case ALLOWED
  then show ?thesis
    by (simp add: resolve_lifecycle_state_def initial_status_def action_transition_ok wf_lifecycle_def
        normalize_blank_reason_def valid_transitions_def)
next
  case REQUIRES_APPROVAL
  then show ?thesis
    by (simp add: resolve_lifecycle_state_def initial_status_def action_transition_ok wf_lifecycle_def
        normalize_blank_reason_def valid_transitions_def)
next
  case DENIED
  then show ?thesis
    by (auto simp: resolve_lifecycle_state_def initial_status_def wf_lifecycle_def
        normalize_blank_reason_def split: option.splits)
qed

lemma apply_permission_metadata_simps [simp]:
  "act_id (apply_permission_metadata dump a d) = act_id a"
  "act_type (apply_permission_metadata dump a d) = act_type a"
  "act_target (apply_permission_metadata dump a d) = act_target a"
  "act_payload (apply_permission_metadata dump a d) = act_payload a"
  "act_executor_role (apply_permission_metadata dump a d) = act_executor_role a"
  by (simp_all add: apply_permission_metadata_def)

text \<open>Everything one evaluation does, for any engine.\<close>

lemma evaluate_action_effect:
  obtains d st where
    "resolve_decision engine c a = Inr d"
    "wf_lifecycle st" "als_status st = initial_status (pdec_status d)"
    "als_metadata st = (case pdec_status d of
            ALLOWED \<Rightarrow> []
          | REQUIRES_APPROVAL \<Rightarrow> [(''approval_required'', PBool True)]
          | DENIED \<Rightarrow> [(''permission_status'', PStr ''denied'')])"
    "evaluate_action engine dump c a s =
       (Inr \<lparr>pe_action = apply_permission_metadata dump a d, pe_decision = d\<rparr>,
        (if pdec_status d = REQUIRES_APPROVAL
         then pending_approval_registry_update (registry_add (apply_permission_metadata dump a d))
         else id)
        (s\<lparr>action_lifecycle_repository := lifecycle_set (act_id a) st (action_lifecycle_repository s)\<rparr>))"
proof -
  obtain d where d: "resolve_decision engine c a = Inr d" using resolve_decision_total by blast
  obtain st where st: "resolve_lifecycle_state c d = Inr st" "wf_lifecycle st"
    "als_status st = initial_status (pdec_status d)"
    "als_metadata st = (case pdec_status d of
            ALLOWED \<Rightarrow> []
          | REQUIRES_APPROVAL \<Rightarrow> [(''approval_required'', PBool True)]
          | DENIED \<Rightarrow> [(''permission_status'', PStr ''denied'')])"
    using resolve_lifecycle_state_total by blast
  show thesis
    by (rule that [OF d st(2-4)]) (simp add: evaluate_action_def bnd_def d st(1) Let_def)
qed

lemma evaluate_action_total: "\<exists>e s'. evaluate_action engine dump c a s = (Inr e, s')"
  by (rule evaluate_action_effect [of engine c a dump s]) auto

lemma evaluate_actions_total: "\<exists>es s'. evaluate_actions engine dump c j as s = (Inr es, s') \<and> length es = length as"
proof (induction as arbitrary: j s)
  case Nil
  then show ?case by simp
next
  case (Cons a as)
  obtain e s1 where e: "evaluate_action engine dump (c j) a s = (Inr e, s1)"
    using evaluate_action_total by blast
  obtain es s2 where "evaluate_actions engine dump c (Suc j) as s1 = (Inr es, s2)" "length es = length as"
    using Cons by blast
  with e show ?case by (simp add: bnd_def)
qed

lemma evaluate_action_queue:
  "preserves (action_queue :: 'z action_state_scheme \<Rightarrow> _) (evaluate_action engine dump c a)"
  unfolding preserves_def
proof
  fix s :: "'z action_state_scheme"
  show "action_queue (snd (evaluate_action engine dump c a s)) = action_queue s"
    by (rule evaluate_action_effect [of engine c a dump s]) simp
qed

lemma evaluate_actions_queue: "preserves action_queue (evaluate_actions engine dump c j as)"
  by (induction as arbitrary: j) (auto intro!: frame_intros evaluate_action_queue)

text \<open>The safe list of the application's engine decides the outcome.\<close>

lemma base_engine_decision:
  "resolve_decision base_permission_engine c a = Inr d \<Longrightarrow>
     pdec_status d = (if act_type a \<in> set safe_action_types then ALLOWED else REQUIRES_APPROVAL)"
  by (auto simp: resolve_decision_def base_permission_engine_def split: if_splits)

end
