(* ===== verification/Worker_Runtime.thy ===== *)
theory Worker_Runtime
  imports SE_Runs Permission
begin

text \<open>
  \<open>workers/runtime.py\<close>: execution observations and their observers, the worker runtime and the invocation
  service; and the durable observer of \<open>integrations/software_engineering_state.py\<close>.
  \<open>process_state\<close> extends the action stores with the run repository, the recorded observations and the
  world that executors act on. An executor is a value of type \<open>'x\<close>; running it is the parameter \<open>run\<close>,
  a program on that world which may raise. An observation is mutable in the source: the model keeps the
  list of them and refers to one by its position.
\<close>

section \<open>Process state and observations\<close>

record observation =
  obs_execution_id :: uuid
  obs_action_id :: uuid
  obs_requested_role :: "string option"
  obs_executor_registered :: bool
  obs_requested_capability :: "string option"
  obs_requested_provider :: "string option"
  obs_matched_provider :: "string option"
  obs_requested_account_context :: pyval
  obs_matched_account_context :: pyval
  obs_account_context_used :: pyval
  obs_routing_reason :: "string option"
  obs_status :: string
  obs_started_at :: datetime
  obs_finished_at :: "datetime option"
  obs_duration_ms :: "rat option"
  obs_reason :: "string option"
  obs_failure_category :: "string option"
  obs_failure_message :: "string option"
  obs_metadata :: pydict

definition obs_as_metadata :: "observation \<Rightarrow> pyval" where
  "obs_as_metadata o1 =
     PDict [(''execution_id'', PStr (uuid_str (obs_execution_id o1))),
            (''action_id'', PStr (uuid_str (obs_action_id o1))),
            (''requested_role'', opt_str (obs_requested_role o1)),
            (''executor_registered'', PBool (obs_executor_registered o1)),
            (''requested_capability'', opt_str (obs_requested_capability o1)),
            (''requested_provider'', opt_str (obs_requested_provider o1)),
            (''matched_provider'', opt_str (obs_matched_provider o1)),
            (''requested_account_context'', obs_requested_account_context o1),
            (''matched_account_context'', obs_matched_account_context o1),
            (''account_context_used'', obs_account_context_used o1),
            (''routing_reason'', opt_str (obs_routing_reason o1)),
            (''status'', PStr (obs_status o1)),
            (''started_at'', PStr (isoformat (obs_started_at o1))),
            (''finished_at'', opt_str (map_option isoformat (obs_finished_at o1))),
            (''duration_ms'', (case obs_duration_ms o1 of None \<Rightarrow> PNone | Some d \<Rightarrow> PFloat d)),
            (''reason'', opt_str (obs_reason o1)),
            (''failure_category'', opt_str (obs_failure_category o1)),
            (''failure_message'', opt_str (obs_failure_message o1)),
            (''metadata'', PDict (obs_metadata o1))]"

record ('r, 'w) process_state = action_state +
  run_repository :: 'r
  execution_observations :: "observation list"
  execution_world :: 'w

text \<open>A repository operation as an operation of the process.\<close>

definition on_runs :: "('r, 'a) prog \<Rightarrow> ('r, 'w, 'z) process_state_scheme \<Rightarrow> 'a result \<times> ('r, 'w, 'z) process_state_scheme" where
  "on_runs m s = (case m (run_repository s) of (res, r) \<Rightarrow> (res, s\<lparr>run_repository := r\<rparr>))"

definition on_world :: "('w, 'a) prog \<Rightarrow> ('r, 'w, 'z) process_state_scheme \<Rightarrow> 'a result \<times> ('r, 'w, 'z) process_state_scheme" where
  "on_world m s = (case m (execution_world s) of (res, w) \<Rightarrow> (res, s\<lparr>execution_world := w\<rparr>))"

definition shift_clock :: "nat \<Rightarrow> clock \<Rightarrow> clock" where
  "shift_clock k c = (\<lambda>i. c (i + k))"

section \<open>Observers\<close>

text \<open>What the runtime hands to an observer at the start: the action and the resolved route.\<close>

definition account_metadata :: "worker_account_context option \<Rightarrow> pyval" where
  "account_metadata ctx = (case ctx of None \<Rightarrow> PNone | Some a \<Rightarrow> as_metadata a)"

definition new_observation :: "uuid \<Rightarrow> datetime \<Rightarrow> action \<Rightarrow> 'x executor_resolution \<Rightarrow> observation" where
  "new_observation eid now a res =
     \<lparr>obs_execution_id = eid, obs_action_id = act_id a,
      obs_requested_role = res_requested_role res, obs_executor_registered = res_registered res,
      obs_requested_capability = res_requested_capability res,
      obs_requested_provider = res_requested_provider res,
      obs_matched_provider = res_matched_provider res,
      obs_requested_account_context = account_metadata (res_requested_account_context res),
      obs_matched_account_context = account_metadata (res_matched_account_context res),
      obs_account_context_used = account_metadata (res_matched_account_context res),
      obs_routing_reason = res_routing_reason res, obs_status = ''started'', obs_started_at = now,
      obs_finished_at = None, obs_duration_ms = None, obs_reason = None,
      obs_failure_category = None, obs_failure_message = None,
      obs_metadata = [(''action_type'', PStr (act_type a)), (''action_target'', PStr (act_target a))]\<rparr>"

type_synonym ('r, 'w, 'z, 'x) observer_start =
  "clock \<Rightarrow> uuid \<Rightarrow> action \<Rightarrow> 'x executor_resolution
     \<Rightarrow> ('r, 'w, 'z) process_state_scheme \<Rightarrow> (nat \<times> observation) result \<times> ('r, 'w, 'z) process_state_scheme"

type_synonym ('r, 'w, 'z) observer_finish =
  "clock \<Rightarrow> nat \<Rightarrow> WorkerExecutionStatus \<Rightarrow> pydict \<Rightarrow> string option \<Rightarrow> worker_execution_failure option \<Rightarrow> rat
     \<Rightarrow> ('r, 'w, 'z) process_state_scheme \<Rightarrow> observation result \<times> ('r, 'w, 'z) process_state_scheme"

definition mem_observer_start :: "('r, 'w, 'z, 'x) observer_start" where
  "mem_observer_start c eid a res s =
     (let o1 = new_observation eid (now_utc c 0) a res
      in (Inr (length (execution_observations s), o1),
          s\<lparr>execution_observations := execution_observations s @ [o1]\<rparr>))"

definition finished_observation ::
  "datetime \<Rightarrow> WorkerExecutionStatus \<Rightarrow> pydict \<Rightarrow> string option \<Rightarrow> worker_execution_failure option \<Rightarrow> rat
     \<Rightarrow> observation \<Rightarrow> observation" where
  "finished_observation now status metadata reason failure duration o1 =
     o1\<lparr>obs_status := worker_status_value status, obs_finished_at := Some now,
        obs_duration_ms := Some duration, obs_reason := reason,
        obs_failure_category := map_option (failure_category_value \<circ> wef_category) failure,
        obs_failure_message := (case failure of None \<Rightarrow> None | Some f \<Rightarrow> wef_message f),
        obs_metadata := dict_merge (obs_metadata o1) metadata\<rparr>"

definition mem_observer_finish :: "('r, 'w, 'z) observer_finish" where
  "mem_observer_finish c h status metadata reason failure duration s =
     (let o1 = finished_observation (now_utc c 0) status metadata reason failure duration
                 (execution_observations s ! h)
      in (Inr o1, s\<lparr>execution_observations := (execution_observations s)[h := o1]\<rparr>))"

definition mem_observer_list :: "('r, 'w, 'z) process_state_scheme \<Rightarrow> observation list" where
  "mem_observer_list s = execution_observations s"

text \<open>The durable observer records the canonical route's executions in the run repository.\<close>

definition durable_observer_start :: "'r run_ops \<Rightarrow> ('r, 'w, 'z, 'x) observer_start" where
  "durable_observer_start ops c eid a res =
     bnd (mem_observer_start c eid a res) (\<lambda>(h, o1).
     bnd (if is_canonical_route (res_requested_role res) (res_requested_capability res)
          then bnd (on_runs (run_register_action ops (shift_clock 1 c) (act_id a) (act_target a)
                       (role_value SOFTWARE_ENGINEERING) SOFTWARE_ENGINEERING_IMPLEMENT_CAPABILITY
                       None None None)) (\<lambda>st.
               if rs_claim_id st \<noteq> None \<and> rs_execution_started_at st = None
               then bnd (on_runs (run_record_execution_started ops (shift_clock 2 c) (act_id a)
                           (obs_started_at o1))) (\<lambda>_. ret ())
               else ret ())
          else ret ()) (\<lambda>_.
     ret (h, o1)))"

definition durable_observer_finish :: "'r run_ops \<Rightarrow> ('r, 'w, 'z) observer_finish" where
  "durable_observer_finish ops c h status metadata reason failure duration =
     bnd (mem_observer_finish c h status metadata reason failure duration) (\<lambda>finished.
     bnd (if is_canonical_route (obs_requested_role finished) (obs_requested_capability finished)
          then (case obs_finished_at finished of
              None \<Rightarrow> raise_exc (run_error ''finished execution observation has no completion time'')
            | Some t \<Rightarrow>
                bnd (on_runs (run_record_execution ops (shift_clock 1 c) (obs_action_id finished)
                       (worker_status_value status) t
                       (truthy (pd_get_or metadata ''external_execution_performed'' (PBool False))))) (\<lambda>_.
                ret ()))
          else ret ()) (\<lambda>_.
     ret finished))"

section \<open>The runtime\<close>

record worker_processing_result =
  wpres_action :: "action option"
  wpres_lifecycle_state :: "action_lifecycle_state option"
  wpres_execution_status :: "WorkerExecutionStatus option"
  wpres_execution_reason :: "string option"
  wpres_processed :: bool
  wpres_external_execution_performed :: bool

record worker_invocation_result =
  wir_requested_count :: int
  wir_processed_count :: nat
  wir_queue_empty :: bool
  wir_results :: "worker_processing_result list"

text \<open>The objects a runtime is constructed with, and the inputs of one processing attempt.\<close>

record ('r, 'w, 'z, 'x) worker_runtime =
  wr_registry :: "'x executor_registry"
  wr_run :: "'x \<Rightarrow> action \<Rightarrow> string option \<Rightarrow> worker_account_context option \<Rightarrow> 'w \<Rightarrow> worker_execution_result result \<times> 'w"
  wr_observer_start :: "('r, 'w, 'z, 'x) observer_start"
  wr_observer_finish :: "('r, 'w, 'z) observer_finish"
  wr_max_transient_retries :: int
  wr_dump_lifecycle :: "action_lifecycle_state \<Rightarrow> pyval"

record worker_inputs =
  wi_clock :: clock
  wi_start_clock :: clock
  wi_finish_clock :: clock
  wi_execution_id :: uuid
  wi_duration :: rat

definition unprocessed_result :: "string option \<Rightarrow> worker_processing_result" where
  "unprocessed_result reason =
     \<lparr>wpres_action = None, wpres_lifecycle_state = None, wpres_execution_status = None,
      wpres_execution_reason = reason, wpres_processed = False, wpres_external_execution_performed = False\<rparr>"

definition held_result :: "action \<Rightarrow> action_lifecycle_state \<Rightarrow> string \<Rightarrow> worker_processing_result" where
  "held_result a st reason =
     \<lparr>wpres_action = Some a, wpres_lifecycle_state = Some st, wpres_execution_status = None,
      wpres_execution_reason = Some reason, wpres_processed = False, wpres_external_execution_performed = False\<rparr>"

definition awaits_approval :: "action_lifecycle_state \<Rightarrow> bool" where
  "awaits_approval st \<longleftrightarrow> als_status st = QUEUED \<and> truthy (pd_get (als_metadata st) ''approval_required'')"

definition resolution_execute ::
  "('x \<Rightarrow> action \<Rightarrow> string option \<Rightarrow> worker_account_context option \<Rightarrow> ('w, worker_execution_result) prog)
     \<Rightarrow> 'x executor_resolution \<Rightarrow> action \<Rightarrow> ('w, worker_execution_result) prog" where
  "resolution_execute run res a =
     run (res_executor res) a (if res_registered res then res_requested_capability res else None)
       (res_matched_account_context res)"

definition executor_raised :: "action \<Rightarrow> exc \<Rightarrow> worker_execution_result" where
  "executor_raised a e =
     (let details = [(''exception_type'', PStr (exc_name e)), (''exception_message'', PStr (exc_message e))];
          text = ''executor raised exception: '' @ exc_message e
      in \<lparr>wer_action = a, wer_status = WFAILED, wer_reason = Some text,
          wer_metadata = (''external_execution_performed'', PBool False) # details,
          wer_failure = Some \<lparr>wef_category = INTERNAL, wef_message = Some text, wef_metadata = details\<rparr>\<rparr>)"

definition failure_for_result :: "worker_execution_result \<Rightarrow> worker_execution_failure option" where
  "failure_for_result r =
     (if wer_status r \<noteq> WFAILED then None
      else case wer_failure r of
          Some f \<Rightarrow> Some f
        | None \<Rightarrow> Some \<lparr>wef_category = INTERNAL, wef_message = wer_reason r, wef_metadata = []\<rparr>)"

definition failure_metadata :: "worker_execution_failure option \<Rightarrow> pyval" where
  "failure_metadata f =
     (case f of
        None \<Rightarrow> PNone
      | Some x \<Rightarrow> PDict [(''category'', PStr (failure_category_value (wef_category x))),
                         (''message'', opt_str (wef_message x)),
                         (''metadata'', PDict (wef_metadata x))])"

text \<open>\<open>int(value)\<close> of the retry counter.\<close>

definition int_of_str :: "string \<Rightarrow> int result" where
  "int_of_str s =
     (let t = str_strip s;
          neg = str_startswith t ''-'';
          body = (if neg \<or> str_startswith t ''+'' then tl t else t)
      in if body = [] \<or> \<not> list_all (\<lambda>ch. dec_val ch \<noteq> None) body
         then Inl (ValueError ''invalid literal for int() with base 10'')
         else let n = foldl (\<lambda>acc ch. acc * 10 + int (the (dec_val ch))) 0 body
              in Inr (if neg then - n else n))"

fun py_int :: "pyval \<Rightarrow> int result" where
  "py_int (PInt n) = Inr n"
| "py_int (PBool b) = Inr (if b then 1 else 0)"
| "py_int (PFloat r) = Inr (if r < 0 then - \<lfloor>- r\<rfloor> else \<lfloor>r\<rfloor>)"
| "py_int (PStr s) = int_of_str s"
| "py_int v = Inl (TypeError ''int() argument must be a string, a bytes-like object or a real number'')"

definition processed_metadata ::
  "(action_lifecycle_state \<Rightarrow> pyval) \<Rightarrow> 'x executor_resolution \<Rightarrow> worker_execution_result
     \<Rightarrow> worker_execution_failure option \<Rightarrow> observation \<Rightarrow> action_lifecycle_state \<Rightarrow> bool \<Rightarrow> pydict" where
  "processed_metadata dump res r failure o1 st performed =
     dict_merge (act_metadata (wer_action r))
       [(''action_lifecycle'', dump st),
        (''worker_execution'', PDict
          [(''status'', PStr (worker_status_value (wer_status r))),
           (''reason'', opt_str (wer_reason r)),
           (''failure'', failure_metadata failure),
           (''requested_role'', opt_str (res_requested_role res)),
           (''executor_registered'', PBool (res_registered res)),
           (''requested_capability'', opt_str (res_requested_capability res)),
           (''requested_provider'', opt_str (res_requested_provider res)),
           (''matched_provider'', opt_str (res_matched_provider res)),
           (''requested_account_context'', account_metadata (res_requested_account_context res)),
           (''matched_account_context'', account_metadata (res_matched_account_context res)),
           (''account_context_used'', account_metadata (res_matched_account_context res)),
           (''routing_reason'', opt_str (res_routing_reason res)),
           (''started_at'', PStr (isoformat (obs_started_at o1))),
           (''finished_at'', opt_str (map_option isoformat (obs_finished_at o1))),
           (''duration_ms'', (case obs_duration_ms o1 of None \<Rightarrow> PNone | Some d \<Rightarrow> PFloat d)),
           (''metadata'', PDict (wer_metadata r)),
           (''observation'', obs_as_metadata o1)]),
        (''external_execution_performed'', PBool performed)]"

text \<open>The lifecycle status an execution result leads to.\<close>

definition final_transition ::
  "action_lifecycle_state \<Rightarrow> worker_execution_result \<Rightarrow> datetime \<Rightarrow> action_lifecycle_state result" where
  "final_transition st r now =
     (case wer_status r of
        WSUCCEEDED \<Rightarrow> action_transition st COMPLETED None None now
      | WSKIPPED \<Rightarrow> action_transition st SKIPPED (wer_reason r) None now
      | WFAILED \<Rightarrow> action_transition st FAILED (wer_reason r) None now)"

definition retry_transient ::
  "int \<Rightarrow> clock \<Rightarrow> action \<Rightarrow> worker_execution_failure option \<Rightarrow> action_lifecycle_state
     \<Rightarrow> ('z action_state_scheme, action_lifecycle_state) prog" where
  "retry_transient max_retries c a failure st =
     (case failure of
        Some f \<Rightarrow>
          if als_status st = FAILED \<and> wef_category f = TRANSIENT
          then bnd (liftr (py_int (pd_get_or (als_metadata st) ''transient_retry_count'' (PInt 0)))) (\<lambda>retry_count.
            if retry_count < max_retries
            then bnd (liftr (action_transition st QUEUED None
                        (Some [(''transient_retry_count'', PInt (retry_count + 1))]) (now_utc c 4))) (\<lambda>st1.
                 bnd (liftr (action_transition st1 APPROVED None None (now_utc c 5))) (\<lambda>st2.
                 bnd (set_lifecycle (act_id a) st2) (\<lambda>_.
                 bnd (enqueue_action a) (\<lambda>_. ret st2))))
            else ret st)
          else ret st
      | None \<Rightarrow> ret st)"

text \<open>The part of \<open>_process_dequeued_action\<close> after the executor has returned \<open>r\<close>.\<close>

definition conclude_execution ::
  "('r, 'w, 'z, 'x) worker_runtime \<Rightarrow> worker_inputs \<Rightarrow> action \<Rightarrow> 'x executor_resolution \<Rightarrow> nat
     \<Rightarrow> action_lifecycle_state \<Rightarrow> worker_execution_result
     \<Rightarrow> (('r, 'w, 'z) process_state_scheme, worker_processing_result) prog" where
  "conclude_execution rt inp a res h st1 r =
     (let failure = failure_for_result r in
     bnd (wr_observer_finish rt (wi_finish_clock inp) h (wer_status r) (wer_metadata r) (wer_reason r)
            failure (wi_duration inp)) (\<lambda>o1.
     bnd (liftr (final_transition st1 r (now_utc (wi_clock inp) 3))) (\<lambda>st2.
     bnd (set_lifecycle (act_id a) st2) (\<lambda>_.
     bnd (retry_transient (wr_max_transient_retries rt) (wi_clock inp) a failure st2) (\<lambda>st3.
     let performed = truthy (pd_get_or (wer_metadata r) ''external_execution_performed'' (PBool False)) in
     ret \<lparr>wpres_action = Some ((wer_action r)\<lparr>act_metadata :=
              processed_metadata (wr_dump_lifecycle rt) res r failure o1 st3 performed\<rparr>),
          wpres_lifecycle_state = Some st3, wpres_execution_status = Some (wer_status r),
          wpres_execution_reason = wer_reason r, wpres_processed = True,
          wpres_external_execution_performed = performed\<rparr>)))))"

text \<open>The part of \<open>_process_dequeued_action\<close> after the gate: the action is APPROVED.\<close>

definition execute_approved ::
  "('r, 'w, 'z, 'x) worker_runtime \<Rightarrow> worker_inputs \<Rightarrow> action \<Rightarrow> action_lifecycle_state
     \<Rightarrow> (('r, 'w, 'z) process_state_scheme, worker_processing_result) prog" where
  "execute_approved rt inp a st0 =
     bnd (liftr (action_transition st0 EXECUTING None None (now_utc (wi_clock inp) 2))) (\<lambda>st1.
     bnd (set_lifecycle (act_id a) st1) (\<lambda>_.
     let res = resolve_with_registration (wr_registry rt) a in
     bnd (wr_observer_start rt (wi_start_clock inp) (wi_execution_id inp) a res) (\<lambda>(h, _).
     bnd (try_except (on_world (resolution_execute (wr_run rt) res a))
            (\<lambda>e. ret (executor_raised a e))) (\<lambda>r.
     conclude_execution rt inp a res h st1 r))))"

definition process_dequeued_action ::
  "('r, 'w, 'z, 'x) worker_runtime \<Rightarrow> worker_inputs \<Rightarrow> action
     \<Rightarrow> (('r, 'w, 'z) process_state_scheme, worker_processing_result) prog" where
  "process_dequeued_action rt inp a =
     bnd (gets (\<lambda>s. lifecycle_of s (act_id a))) (\<lambda>stored.
     bnd (case stored of
            Some st \<Rightarrow> ret st
          | None \<Rightarrow> liftr (mk_action_lifecycle_state QUEUED (now_utc (wi_clock inp) 0) None None [])) (\<lambda>st.
     if awaits_approval st
     then bnd (enqueue_action a) (\<lambda>_. ret (held_result a st ''action awaits explicit approval''))
     else bnd (if als_status st = QUEUED
               then liftr (action_transition st APPROVED None None (now_utc (wi_clock inp) 1))
               else ret st) (\<lambda>st0.
       if als_status st0 \<noteq> APPROVED
       then ret (held_result a st0 (''action is not approved for execution (status: ''
                  @ action_status_value (als_status st0) @ '')''))
       else execute_approved rt inp a st0)))"

definition process_next ::
  "('r, 'w, 'z, 'x) worker_runtime \<Rightarrow> worker_inputs
     \<Rightarrow> (('r, 'w, 'z) process_state_scheme, worker_processing_result) prog" where
  "process_next rt inp =
     bnd (gets (\<lambda>s. queue_dequeue (action_queue s))) (\<lambda>(next, q).
     bnd (modify (action_queue_update (\<lambda>_. q))) (\<lambda>_.
     case next of
       None \<Rightarrow> ret (unprocessed_result None)
     | Some a \<Rightarrow> process_dequeued_action rt inp a))"

text \<open>\<open>claimed = self._action_queue.remove(action_id)\<close> and what follows it.\<close>

definition claim_and_process ::
  "('r, 'w, 'z, 'x) worker_runtime \<Rightarrow> worker_inputs \<Rightarrow> uuid
     \<Rightarrow> (('r, 'w, 'z) process_state_scheme, worker_processing_result) prog" where
  "claim_and_process rt inp i =
     bnd (gets (\<lambda>s. queue_remove i (action_queue s))) (\<lambda>(claimed, q).
     bnd (modify (action_queue_update (\<lambda>_. q))) (\<lambda>_.
     case claimed of
       None \<Rightarrow> ret (unprocessed_result (Some ''action is not queued''))
     | Some b \<Rightarrow> process_dequeued_action rt inp b))"

definition process_action ::
  "('r, 'w, 'z, 'x) worker_runtime \<Rightarrow> worker_inputs \<Rightarrow> uuid
     \<Rightarrow> (('r, 'w, 'z) process_state_scheme, worker_processing_result) prog" where
  "process_action rt inp i =
     bnd (gets (\<lambda>s. queue_get i (action_queue s))) (\<lambda>found.
     case found of
       None \<Rightarrow> ret (unprocessed_result (Some ''action is not queued''))
     | Some a \<Rightarrow>
         bnd (gets (\<lambda>s. lifecycle_of s (act_id a))) (\<lambda>stored.
         case stored of
           Some st \<Rightarrow>
             if awaits_approval st
             then ret (held_result a st ''action awaits explicit approval'')
             else claim_and_process rt inp i
         | None \<Rightarrow> claim_and_process rt inp i))"

definition pending_action_count :: "'z action_state_scheme \<Rightarrow> nat" where
  "pending_action_count s = queue_count (action_queue s)"

section \<open>The invocation service\<close>

fun invoke_loop ::
  "('r, 'w, 'z, 'x) worker_runtime \<Rightarrow> worker_inputs list
     \<Rightarrow> (('r, 'w, 'z) process_state_scheme, worker_processing_result list) prog" where
  "invoke_loop rt [] = ret []"
| "invoke_loop rt (inp # inps) =
     bnd (process_next rt inp) (\<lambda>r.
     if \<not> wpres_processed r then ret [r]
     else bnd (invoke_loop rt inps) (\<lambda>rs. ret (r # rs)))"

text \<open>\<open>range(max_actions)\<close> gives the number of attempts; the inputs of the attempts are a stream.\<close>

definition invoke ::
  "('r, 'w, 'z, 'x) worker_runtime \<Rightarrow> (nat \<Rightarrow> worker_inputs) \<Rightarrow> int
     \<Rightarrow> (('r, 'w, 'z) process_state_scheme, worker_invocation_result) prog" where
  "invoke rt inps max_actions =
     (if max_actions < 1 then raise_exc (ValueError ''max_actions must be at least 1'')
      else bnd (invoke_loop rt (map inps [0..<nat max_actions])) (\<lambda>results.
        bnd (gets pending_action_count) (\<lambda>left.
        ret \<lparr>wir_requested_count = max_actions,
             wir_processed_count = length (filter wpres_processed results),
             wir_queue_empty = (left = 0), wir_results = results\<rparr>)))"

end
