(* ===== verification/Events.thy ===== *)
theory Events
  imports Worker_Runtime
begin

text \<open>
  \<open>core/events/\<close>, \<open>core/planner.py\<close> and \<open>integrations/calendar_ingress.py\<close>: the event envelope, the
  event store and inbox, the event lifecycle, classification, context resolution and the processing
  pipeline, the planner and the event workflow service. \<open>server_state\<close> extends the process state with the
  three event stores. Classifier, context resolver, planner and permission engine are constructor
  arguments of the service; here they are fields of \<open>event_workflow\<close>, any of which may raise.
\<close>

section \<open>Events\<close>

record universal_event =
  ev_id :: uuid
  ev_source :: string
  ev_type :: string
  ev_timestamp :: datetime
  ev_payload :: pydict
  ev_metadata :: pydict
  ev_correlation_id :: "uuid option"
  ev_causation_id :: "uuid option"

definition require_non_empty_text :: "string \<Rightarrow> string result" where
  "require_non_empty_text v = (if str_blank v then Inl (ValueError ''must not be blank'') else Inr v)"

definition mk_universal_event ::
  "uuid \<Rightarrow> string \<Rightarrow> string \<Rightarrow> datetime \<Rightarrow> pydict \<Rightarrow> pydict \<Rightarrow> uuid option \<Rightarrow> uuid option
     \<Rightarrow> universal_event result" where
  "mk_universal_event i source ty timestamp payload md corr caus =
     rbind (require_non_empty_text source) (\<lambda>src.
     rbind (require_non_empty_text ty) (\<lambda>t.
     rbind (require_utc_timestamp timestamp) (\<lambda>ts.
     Inr \<lparr>ev_id = i, ev_source = src, ev_type = t, ev_timestamp = ts, ev_payload = payload,
          ev_metadata = md, ev_correlation_id = corr, ev_causation_id = caus\<rparr>)))"

section \<open>The event store and the inbox\<close>

type_synonym event_store = "universal_event list"

definition store_append :: "universal_event \<Rightarrow> event_store \<Rightarrow> event_store" where
  "store_append e st = st @ [e]"

definition store_list_events :: "event_store \<Rightarrow> universal_event list" where
  "store_list_events st = st"

definition store_get_event :: "event_store \<Rightarrow> uuid \<Rightarrow> universal_event option" where
  "store_get_event st i = find_first (\<lambda>e. ev_id e = i) st"

definition store_clear :: "event_store \<Rightarrow> event_store" where
  "store_clear st = []"

type_synonym event_inbox = "universal_event list"

definition inbox_enqueue :: "universal_event \<Rightarrow> event_inbox \<Rightarrow> event_inbox" where
  "inbox_enqueue e q = q @ [e]"

definition inbox_list_pending :: "event_inbox \<Rightarrow> universal_event list" where
  "inbox_list_pending q = q"

definition inbox_mark_processed :: "uuid \<Rightarrow> event_inbox \<Rightarrow> universal_event option \<times> event_inbox" where
  "inbox_mark_processed i q = remove_first (\<lambda>e. ev_id e = i) q"

definition inbox_clear :: "event_inbox \<Rightarrow> event_inbox" where
  "inbox_clear q = []"

interpretation inbox: addressed_queue inbox_list_pending inbox_enqueue inbox_mark_processed ev_id
  by unfold_locales (simp_all add: inbox_list_pending_def inbox_enqueue_def inbox_mark_processed_def)

section \<open>The event lifecycle\<close>

datatype EventStatus = EV_ACCEPTED | EV_PENDING | EV_PROCESSING | EV_PROCESSED | EV_FAILED

fun event_status_value :: "EventStatus \<Rightarrow> string" where
  "event_status_value EV_ACCEPTED = ''accepted''"
| "event_status_value EV_PENDING = ''pending''"
| "event_status_value EV_PROCESSING = ''processing''"
| "event_status_value EV_PROCESSED = ''processed''"
| "event_status_value EV_FAILED = ''failed''"

record event_lifecycle_state =
  els_event_id :: uuid
  els_status :: EventStatus
  els_reason :: "string option"
  els_metadata :: pydict
  els_updated_at :: datetime

definition require_utc_updated_at :: "datetime \<Rightarrow> datetime result" where
  "require_utc_updated_at v =
     (if \<not> is_aware v then Inl (ValueError ''updated_at must be timezone-aware'')
      else if \<not> is_utc v then Inl (ValueError ''updated_at must be in UTC'')
      else Inr v)"

definition mk_event_lifecycle_state ::
  "uuid \<Rightarrow> EventStatus \<Rightarrow> string option \<Rightarrow> pydict \<Rightarrow> datetime \<Rightarrow> event_lifecycle_state result" where
  "mk_event_lifecycle_state i st reason md updated =
     rbind (require_utc_updated_at updated) (\<lambda>u.
     Inr \<lparr>els_event_id = i, els_status = st, els_reason = normalize_blank_reason reason,
          els_metadata = md, els_updated_at = u\<rparr>)"

definition event_valid_transitions :: "(EventStatus \<times> EventStatus) list" where
  "event_valid_transitions =
     [(EV_ACCEPTED, EV_PENDING), (EV_PENDING, EV_PROCESSING), (EV_PROCESSING, EV_PROCESSED),
      (EV_PROCESSING, EV_FAILED), (EV_FAILED, EV_PROCESSING)]"

definition event_transition ::
  "event_lifecycle_state \<Rightarrow> EventStatus \<Rightarrow> string option \<Rightarrow> datetime \<Rightarrow> event_lifecycle_state result" where
  "event_transition state status reason now =
     (if (els_status state, status) \<notin> set event_valid_transitions
      then Inl (ValueError (''invalid lifecycle transition: '' @ event_status_value (els_status state)
             @ '' -> '' @ event_status_value status))
      else if reason \<noteq> None \<and> status \<noteq> EV_FAILED
      then Inl (ValueError ''reason may only be supplied when moving to failed'')
      else mk_event_lifecycle_state (els_event_id state) status reason (els_metadata state) now)"

section \<open>Normalization, classification, context\<close>

text \<open>
  \<open>BaseEventNormalizer.normalize\<close>; the raw event is a value of type Any, its class attributes and the class
  name are arguments.
\<close>

definition base_normalize ::
  "string \<Rightarrow> string \<Rightarrow> string \<Rightarrow> uuid \<Rightarrow> datetime \<Rightarrow> pyval \<Rightarrow> universal_event result" where
  "base_normalize source event_type class_name i now raw =
     (case raw of
        PDict d \<Rightarrow> mk_universal_event i source event_type now d [(''normalizer'', PStr class_name)] None None
      | _ \<Rightarrow> Inl (NormalizationError ''raw_event must be mapping-like''))"

definition calendar_normalize :: "uuid \<Rightarrow> datetime \<Rightarrow> pyval \<Rightarrow> universal_event result" where
  "calendar_normalize i now raw =
     rbind (base_normalize ''calendar'' ''calendar.event'' ''CalendarEventNormalizer'' i now raw) (\<lambda>e.
     let payload = (case raw of
           PDict d \<Rightarrow> (case dict_get d ''event_id'' of
               Some v \<Rightarrow> dict_set ''calendar_event_id'' v (ev_payload e)
             | None \<Rightarrow> ev_payload e)
         | _ \<Rightarrow> ev_payload e)
     in Inr (e\<lparr>ev_payload := payload\<rparr>))"

record event_classification =
  ecl_category :: string
  ecl_confidence :: rat
  ecl_labels :: "string list"
  ecl_reason :: "string option"

definition rule_based_classify :: "universal_event \<Rightarrow> event_classification" where
  "rule_based_classify e =
     (let source = str_lower (ev_source e);
          category =
            (if str_contains ''github'' source \<or> str_contains ''github.com'' source then ''github''
             else if str_contains ''gmail'' source \<or> str_contains ''google-mail'' source then ''gmail''
             else if str_contains ''calendar'' source \<or> str_contains ''google-calendar'' source
                     \<or> str_contains ''apple-calendar'' source then ''calendar''
             else ''unknown'')
      in \<lparr>ecl_category = category, ecl_confidence = 1, ecl_labels = [ev_source e, ev_type e],
          ecl_reason = Some ''Rule-based v0 classification based on event source.''\<rparr>)"

record resolved_context =
  rc_event :: universal_event
  rc_classification :: event_classification
  rc_context :: pydict
  rc_sources :: "string list"
  rc_confidence :: rat
  rc_reason :: "string option"

definition base_resolve_context :: "universal_event \<Rightarrow> event_classification \<Rightarrow> resolved_context" where
  "base_resolve_context e cl =
     \<lparr>rc_event = e, rc_classification = cl, rc_context = [], rc_sources = [],
      rc_confidence = ecl_confidence cl,
      rc_reason = Some ''Base context resolver v0 returned no additional context.''\<rparr>"

section \<open>The pipeline\<close>

record integration_route_context =
  irc_provider :: string
  irc_principal :: "string option"
  irc_account_identifier :: string

definition require_non_blank_string :: "pyval \<Rightarrow> pyval result" where
  "require_non_blank_string v =
     (case v of
        PNone \<Rightarrow> Inr PNone
      | PStr s \<Rightarrow> if str_blank s then Inl (ValueError ''must be a non-blank string'') else Inr (PStr s)
      | _ \<Rightarrow> Inl (ValueError ''must be a non-blank string''))"

record processed_event =
  pev_event :: universal_event
  pev_classification :: event_classification
  pev_context :: resolved_context
  pev_integration_route :: "integration_route_context option"

definition pipeline_process ::
  "(universal_event \<Rightarrow> event_classification result)
     \<Rightarrow> (universal_event \<Rightarrow> event_classification \<Rightarrow> resolved_context result)
     \<Rightarrow> universal_event \<Rightarrow> integration_route_context option \<Rightarrow> processed_event result" where
  "pipeline_process classify resolve e route =
     rbind (classify e) (\<lambda>cl.
     rbind (resolve e cl) (\<lambda>ctx.
     Inr \<lparr>pev_event = e, pev_classification = cl, pev_context = ctx, pev_integration_route = route\<rparr>))"

section \<open>The planner\<close>

definition action_types_by_category :: "(string \<times> string) list" where
  "action_types_by_category =
     [(''github'', ''review_pull_request''), (''gmail'', ''summarize_email''), (''calendar'', ''prepare_meeting'')]"

definition executor_roles_by_category :: "(string \<times> ExecutorRole) list" where
  "executor_roles_by_category =
     [(''github'', CONTENT_REVIEW), (''gmail'', CONTENT_SUMMARY), (''calendar'', CONTEXT_PREPARATION)]"

definition build_action_payload :: "processed_event \<Rightarrow> pydict" where
  "build_action_payload pe =
     (if ecl_category (pev_classification pe) = ''calendar''
      then (case dict_get (ev_payload (pev_event pe)) ''calendar_event_id'' of
              Some v \<Rightarrow> [(''calendar_event_id'', v)] | None \<Rightarrow> [])
      else [])
     @ (case pev_integration_route pe of
          None \<Rightarrow> []
        | Some route \<Rightarrow>
            [(''capability_provider'', PStr (irc_provider route)),
             (''account_context'', PDict
                [(''principal'', opt_str (irc_principal route)),
                 (''account_identifier'', PStr (irc_account_identifier route))])])"

definition base_plan :: "clock \<Rightarrow> uuid \<Rightarrow> processed_event \<Rightarrow> action list result" where
  "base_plan c i pe =
     (let category = ecl_category (pev_classification pe) in
      case dict_get action_types_by_category category of
        None \<Rightarrow> Inr []
      | Some ty \<Rightarrow>
          (case dict_get executor_roles_by_category category of
             None \<Rightarrow> Inl (KeyError category)
           | Some role \<Rightarrow>
               rbind (mk_action i ty (uuid_str (ev_id (pev_event pe))) (build_action_payload pe)
                        (Some (RoleEnum role)) (now_utc c 0)
                        [(''event_id'', PStr (uuid_str (ev_id (pev_event pe)))),
                         (''category'', PStr category)]) (\<lambda>a.
               Inr [a])))"

section \<open>The workflow service\<close>

record ('r, 'w) server_state = "('r, 'w) process_state" +
  event_repository :: event_store
  event_inbox :: event_inbox
  event_lifecycle_states :: "(uuid \<times> event_lifecycle_state) list"

record event_workflow =
  ew_classify :: "universal_event \<Rightarrow> event_classification result"
  ew_resolve :: "universal_event \<Rightarrow> event_classification \<Rightarrow> resolved_context result"
  ew_plan :: "clock \<Rightarrow> uuid \<Rightarrow> processed_event \<Rightarrow> action list result"
  ew_engine :: permission_engine
  ew_dump :: "permission_decision \<Rightarrow> pyval"

record event_processing_result =
  epr_processed_event :: processed_event
  epr_permission_evaluations :: "permission_evaluation list"

abbreviation set_event_state ::
  "uuid \<Rightarrow> event_lifecycle_state \<Rightarrow> (('r, 'w, 'z) server_state_scheme, unit) prog" where
  "set_event_state i st \<equiv> modify (event_lifecycle_states_update (dict_set i st))"

definition accept_event ::
  "clock \<Rightarrow> universal_event \<Rightarrow> (('r, 'w, 'z) server_state_scheme, universal_event) prog" where
  "accept_event c e =
     bnd (gets (\<lambda>s. store_get_event (event_repository s) (ev_id e))) (\<lambda>existing.
     if existing \<noteq> None
     then raise_exc (DuplicateEventError (''event '' @ uuid_str (ev_id e) @ '' already exists''))
     else bnd (modify (event_repository_update (store_append e))) (\<lambda>_.
       bnd (modify (event_inbox_update (inbox_enqueue e))) (\<lambda>_.
       bnd (liftr (mk_event_lifecycle_state (ev_id e) EV_ACCEPTED None [] (now_utc c 0))) (\<lambda>accepted.
       bnd (liftr (event_transition accepted EV_PENDING None (now_utc c 1))) (\<lambda>pending.
       bnd (set_event_state (ev_id e) pending) (\<lambda>_.
       ret e))))))"

definition plan_and_queue ::
  "event_workflow \<Rightarrow> clock \<Rightarrow> (nat \<Rightarrow> clock) \<Rightarrow> uuid \<Rightarrow> processed_event
     \<Rightarrow> (('r, 'w, 'z) server_state_scheme, event_processing_result) prog" where
  "plan_and_queue ew c pc aid pe =
     bnd (liftr (ew_plan ew c aid pe)) (\<lambda>actions.
     bnd (permission_evaluate (ew_engine ew) (ew_dump ew) pc actions) (\<lambda>es.
     bnd (modify (action_queue_update (queue_enqueue_many (queueable_actions es)))) (\<lambda>_.
     ret \<lparr>epr_processed_event = pe, epr_permission_evaluations = es\<rparr>)))"

definition process_event ::
  "event_workflow \<Rightarrow> clock \<Rightarrow> (nat \<Rightarrow> clock) \<Rightarrow> uuid \<Rightarrow> uuid \<Rightarrow> integration_route_context option
     \<Rightarrow> (('r, 'w, 'z) server_state_scheme, event_processing_result) prog" where
  "process_event ew c pc aid event_id route =
     bnd (gets (\<lambda>s. store_get_event (event_repository s) event_id)) (\<lambda>found.
     case found of
       None \<Rightarrow> raise_exc (EventNotFoundError (''event '' @ uuid_str event_id @ '' not found''))
     | Some e \<Rightarrow>
         bnd (gets (\<lambda>s. dict_get (event_lifecycle_states s) event_id)) (\<lambda>stored.
         bnd (case stored of
                Some st \<Rightarrow> ret st
              | None \<Rightarrow> liftr (mk_event_lifecycle_state event_id EV_PENDING None [] (now_utc c 0))) (\<lambda>st.
         bnd (try_except (liftr (event_transition st EV_PROCESSING None (now_utc c 1)))
                (\<lambda>err. case err of
                    ValueError m \<Rightarrow> raise_exc (EventLifecycleConflictError m)
                  | _ \<Rightarrow> raise_exc err)) (\<lambda>processing.
         bnd (set_event_state event_id processing) (\<lambda>_.
         bnd (try_except (liftr (pipeline_process (ew_classify ew) (ew_resolve ew) e route))
                (\<lambda>err. bnd (liftr (event_transition processing EV_FAILED (Some (exc_message err)) (now_utc c 2))) (\<lambda>failed.
                       bnd (set_event_state event_id failed) (\<lambda>_.
                       raise_exc (EventProcessingError ''event processing failed''))))) (\<lambda>pe.
         bnd (liftr (event_transition processing EV_PROCESSED None (now_utc c 2))) (\<lambda>processed.
         bnd (set_event_state event_id processed) (\<lambda>_.
         bnd (modify (event_inbox_update (\<lambda>q. snd (inbox_mark_processed event_id q)))) (\<lambda>_.
         plan_and_queue ew (shift_clock 3 c) pc aid pe)))))))))"

section \<open>Calendar ingress\<close>

record calendar_ingress_result =
  cir_event :: universal_event
  cir_acceptance :: universal_event
  cir_processing :: event_processing_result

definition calendar_ingest ::
  "(uuid \<Rightarrow> datetime \<Rightarrow> pyval \<Rightarrow> universal_event result) \<Rightarrow> event_workflow \<Rightarrow> clock \<Rightarrow> (nat \<Rightarrow> clock) \<Rightarrow> uuid \<Rightarrow> uuid
     \<Rightarrow> pyval \<Rightarrow> integration_route_context \<Rightarrow> (('r, 'w, 'z) server_state_scheme, calendar_ingress_result) prog" where
  "calendar_ingest normalizer ew c pc eid aid raw route =
     bnd (liftr (normalizer eid (now_utc c 0) raw)) (\<lambda>e.
     bnd (accept_event (shift_clock 1 c) e) (\<lambda>accepted.
     bnd (process_event ew (shift_clock 3 c) pc aid (ev_id e) (Some route)) (\<lambda>processed.
     ret \<lparr>cir_event = e, cir_acceptance = accepted, cir_processing = processed\<rparr>)))"

end
