(* ===== verification/Approval.thy ===== *)
theory Approval
  imports Permission
begin

text \<open>
  \<open>core/approval_decisions.py\<close>: the explicit approval transition. The optional recovery of pending actions
  and the optional durable recorder are protocols of the source; they are parameters here, programs on
  the whole process state, and \<open>None\<close> when absent. The recorder runs before the process-local mutation.
\<close>

section \<open>The protocols\<close>

type_synonym 's pending_action_recovery = "uuid \<Rightarrow> ('s, action option) prog"

record 's approval_recorder =
  record_approved :: "action \<Rightarrow> ('s, unit) prog"
  record_rejected :: "action \<Rightarrow> ('s, unit) prog"

section \<open>Decisions\<close>

definition resolve_pending_action ::
  "'z action_state_scheme pending_action_recovery option \<Rightarrow> uuid \<Rightarrow> ('z action_state_scheme, action) prog" where
  "resolve_pending_action recovery i =
     bnd (gets (\<lambda>s. registry_get (pending_approval_registry s) i)) (\<lambda>found.
     bnd (case (found, recovery) of
            (None, Some recover) \<Rightarrow> recover i
          | _ \<Rightarrow> ret found) (\<lambda>resolved.
     case resolved of
       None \<Rightarrow> raise_exc (PendingActionNotFoundError ''action is not awaiting approval'')
     | Some a \<Rightarrow> ret a))"

text \<open>The stored lifecycle state, or the state of an action that awaits approval.\<close>

definition lifecycle_or_pending :: "clock \<Rightarrow> uuid \<Rightarrow> ('z action_state_scheme, action_lifecycle_state) prog" where
  "lifecycle_or_pending c i =
     bnd (gets (\<lambda>s. lifecycle_of s i)) (\<lambda>st. case st of
        Some x \<Rightarrow> ret x
      | None \<Rightarrow> liftr (mk_action_lifecycle_state QUEUED (now_utc c 0) None None
                  [(''approval_required'', PBool True)]))"

definition approve_pending_action ::
  "'z action_state_scheme pending_action_recovery option \<Rightarrow> 'z action_state_scheme approval_recorder option
     \<Rightarrow> clock \<Rightarrow> uuid \<Rightarrow> ('z action_state_scheme, action_lifecycle_state) prog" where
  "approve_pending_action recovery recorder c i =
     bnd (resolve_pending_action recovery i) (\<lambda>a.
     bnd (lifecycle_or_pending c i) (\<lambda>st.
     bnd (liftr (action_transition st APPROVED None None (now_utc c 1))) (\<lambda>approved.
     bnd (case recorder of None \<Rightarrow> ret () | Some rec \<Rightarrow> record_approved rec a) (\<lambda>_.
     bnd (set_lifecycle i approved) (\<lambda>_.
     bnd (modify (pending_approval_registry_update (\<lambda>reg. snd (registry_remove i reg)))) (\<lambda>_.
     bnd (enqueue_action a) (\<lambda>_.
     ret approved)))))))"

definition reject_pending_action ::
  "'z action_state_scheme pending_action_recovery option \<Rightarrow> 'z action_state_scheme approval_recorder option
     \<Rightarrow> clock \<Rightarrow> string \<Rightarrow> uuid \<Rightarrow> ('z action_state_scheme, action_lifecycle_state) prog" where
  "reject_pending_action recovery recorder c reason i =
     bnd (resolve_pending_action recovery i) (\<lambda>a.
     bnd (lifecycle_or_pending c i) (\<lambda>st.
     bnd (liftr (action_transition st REJECTED (Some reason) None (now_utc c 1))) (\<lambda>rejected.
     bnd (case recorder of None \<Rightarrow> ret () | Some rec \<Rightarrow> record_rejected rec a) (\<lambda>_.
     bnd (set_lifecycle i rejected) (\<lambda>_.
     bnd (modify (pending_approval_registry_update (\<lambda>reg. snd (registry_remove i reg)))) (\<lambda>_.
     ret rejected))))))"

end
