(* ===== verification/Delegation.thy ===== *)
theory Delegation
  imports Permission Executor_Registry
begin

text \<open>
  \<open>core/delegation.py\<close>: a typed task request becomes a routed, permission-gated action. The type checks of
  the source (\<open>isinstance\<close>) hold by typing. The identifier and the creation time of the new action are inputs.
\<close>

datatype TaskDelegationStatus = TD_QUEUED | TD_AWAITING_APPROVAL | TD_DENIED | TD_ROUTE_REJECTED

fun delegation_status_value :: "TaskDelegationStatus \<Rightarrow> string" where
  "delegation_status_value TD_QUEUED = ''queued''"
| "delegation_status_value TD_AWAITING_APPROVAL = ''awaiting_approval''"
| "delegation_status_value TD_DENIED = ''denied''"
| "delegation_status_value TD_ROUTE_REJECTED = ''route_rejected''"

definition require_text :: "string \<Rightarrow> string \<Rightarrow> unit result" where
  "require_text v field =
     guard_exc (\<not> str_blank v) (TaskDelegationRequestError (''task delegation '' @ field @ '' is required''))"

record task_delegation_request =
  tdr_objective :: string
  tdr_target :: string
  tdr_executor_role :: ExecutorRole
  tdr_capability :: string
  tdr_account_context :: "worker_account_context option"

text \<open>\<open>__post_init__\<close>: the request exists only when these checks pass.\<close>

definition check_request :: "task_delegation_request \<Rightarrow> task_delegation_request result" where
  "check_request r =
     rbind (require_text (tdr_objective r) ''objective'') (\<lambda>_.
     rbind (require_text (tdr_target r) ''target'') (\<lambda>_.
     rbind (require_text (tdr_capability r) ''capability'') (\<lambda>_.
     rbind (guard_exc (tdr_capability r = str_casefold (str_strip (tdr_capability r)))
              (TaskDelegationRequestError ''task delegation capability must be a canonical identifier'')) (\<lambda>_.
     case tdr_account_context r of
       None \<Rightarrow> Inr r
     | Some ctx \<Rightarrow>
         rbind (require_text (wac_account_identifier ctx) ''account identifier'') (\<lambda>_.
         rbind (case wac_principal ctx of None \<Rightarrow> Inr () | Some p \<Rightarrow> require_text p ''account principal'') (\<lambda>_.
         Inr r))))))"

record task_delegation_result =
  tdres_action_id :: uuid
  tdres_status :: TaskDelegationStatus
  tdres_permission_status :: "PermissionStatus option"
  tdres_routing_reason :: "string option"

definition tdres_queued :: "task_delegation_result \<Rightarrow> bool" where
  "tdres_queued r \<longleftrightarrow> tdres_status r = TD_QUEUED"

definition action_for :: "uuid \<Rightarrow> datetime \<Rightarrow> task_delegation_request \<Rightarrow> action result" where
  "action_for i now r =
     mk_action i (tdr_capability r) (tdr_target r)
       ([(''capability'', PStr (tdr_capability r)), (''objective'', PStr (tdr_objective r))]
        @ (case tdr_account_context r of None \<Rightarrow> [] | Some ctx \<Rightarrow> [(''account_context'', as_metadata ctx)]))
       (Some (RoleEnum (tdr_executor_role r))) now
       [(''task_delegation'', PDict
          [(''requested_role'', PStr (role_value (tdr_executor_role r))),
           (''requested_capability'', PStr (tdr_capability r))])]"

definition delegate ::
  "'x executor_registry \<Rightarrow> permission_engine \<Rightarrow> (permission_decision \<Rightarrow> pyval) \<Rightarrow> clock \<Rightarrow> uuid
     \<Rightarrow> task_delegation_request \<Rightarrow> ('z action_state_scheme, task_delegation_result) prog" where
  "delegate reg engine dump c i r =
     bnd (liftr (action_for i (now_utc c 0) r)) (\<lambda>a.
     let res = resolve_with_registration reg a in
     if \<not> res_registered res
     then ret \<lparr>tdres_action_id = act_id a, tdres_status = TD_ROUTE_REJECTED,
               tdres_permission_status = None, tdres_routing_reason = res_routing_reason res\<rparr>
     else bnd (permission_evaluate engine dump (\<lambda>_ n. c (Suc n)) [a]) (\<lambda>es.
       let e = hd es; ps = pdec_status (pe_decision e) in
       bnd (case ps of
              ALLOWED \<Rightarrow> bnd (enqueue_action (pe_action e)) (\<lambda>_. ret TD_QUEUED)
            | REQUIRES_APPROVAL \<Rightarrow> ret TD_AWAITING_APPROVAL
            | DENIED \<Rightarrow> ret TD_DENIED) (\<lambda>status.
       ret \<lparr>tdres_action_id = act_id a, tdres_status = status,
            tdres_permission_status = Some ps, tdres_routing_reason = res_routing_reason res\<rparr>)))"

end
