(* ===== verification/SE_Services.thy ===== *)
theory SE_Services
  imports Worker_Runtime Approval Delegation
begin

text \<open>
  The software engineering services: \<open>software_engineering_recovery.py\<close>, \<open>software_engineering_ingress.py\<close>,
  \<open>software_engineering_disposition.py\<close>, \<open>software_engineering_run_control.py\<close> and
  \<open>software_engineering_continuation.py\<close>. Each takes the repository as a \<open>run_ops\<close>. Reviewing and disposing
  of a work product are programs on the execution world (\<open>SE_Work_Product\<close> provides them), absent when no
  workspace is configured. The SHA-256 digest of the state token is the parameter \<open>digest\<close>.
\<close>

section \<open>Recovery\<close>

text \<open>\<open>except SoftwareEngineeringRunStateError as error: raise e\<close>.\<close>

definition run_state_error_as :: "exc \<Rightarrow> ('s, 'a) prog \<Rightarrow> ('s, 'a) prog" where
  "run_state_error_as e m =
     try_except m (\<lambda>x. case x of SoftwareEngineeringRunStateError _ \<Rightarrow> raise_exc e | _ \<Rightarrow> raise_exc x)"

abbreviation recovery_error :: "string \<Rightarrow> exc" where
  "recovery_error \<equiv> SoftwareEngineeringRecoveryError"

definition is_canonical_action :: "action \<Rightarrow> bool" where
  "is_canonical_action a \<longleftrightarrow>
     map_option role_ref_text (act_executor_role a) = Some (role_value SOFTWARE_ENGINEERING) \<and>
     act_type a = SOFTWARE_ENGINEERING_IMPLEMENT_CAPABILITY \<and>
     pd_get (act_payload a) ''capability'' = PStr SOFTWARE_ENGINEERING_IMPLEMENT_CAPABILITY"

definition objective_of :: "action \<Rightarrow> string result" where
  "objective_of a =
     (case pd_get (act_payload a) ''objective'' of
        PStr s \<Rightarrow>
          if str_blank s then Inl (recovery_error ''software engineering Action has no recoverable objective'')
          else Inr (str_strip s)
      | _ \<Rightarrow> Inl (recovery_error ''software engineering Action has no recoverable objective''))"

definition canonical_state :: "run_state \<Rightarrow> bool" where
  "canonical_state st \<longleftrightarrow> rs_executor_role st = role_value SOFTWARE_ENGINEERING
     \<and> rs_capability st = SOFTWARE_ENGINEERING_IMPLEMENT_CAPABILITY"

definition require_canonical_state :: "run_state \<Rightarrow> unit result" where
  "require_canonical_state st =
     guard_exc (canonical_state st)
       (recovery_error ''durable Action is not the canonical Software Engineering route'')"

definition delegation_metadata :: "string \<times> pyval" where
  "delegation_metadata =
     (''task_delegation'', PDict
        [(''requested_role'', PStr (role_value SOFTWARE_ENGINEERING)),
         (''requested_capability'', PStr SOFTWARE_ENGINEERING_IMPLEMENT_CAPABILITY)])"

definition canonical_payload :: "string \<Rightarrow> pydict" where
  "canonical_payload objective =
     [(''capability'', PStr SOFTWARE_ENGINEERING_IMPLEMENT_CAPABILITY), (''objective'', PStr objective)]"

definition action_from_state :: "datetime \<Rightarrow> run_state \<Rightarrow> action result" where
  "action_from_state now st =
     (case rs_pending_objective st of
        None \<Rightarrow> Inl (recovery_error ''durable Software Engineering Action has no pending objective'')
      | Some obj \<Rightarrow>
          if str_blank obj
          then Inl (recovery_error ''durable Software Engineering Action has no pending objective'')
          else mk_action (rs_action_id st) SOFTWARE_ENGINEERING_IMPLEMENT_CAPABILITY (rs_target st)
                 (canonical_payload (str_strip obj)) (Some (RoleEnum SOFTWARE_ENGINEERING)) now
                 [delegation_metadata, (''durable_recovery'', PDict [(''pending'', PBool True)])])"

definition recover_pending :: "'r run_ops \<Rightarrow> clock \<Rightarrow> uuid \<Rightarrow> (('r, 'w, 'z) process_state_scheme, action option) prog" where
  "recover_pending ops c i =
     bnd (run_state_error_as (recovery_error ''software engineering pending recovery state is unavailable'')
            (on_runs (run_get ops i))) (\<lambda>found.
     case found of
       None \<Rightarrow> ret None
     | Some st \<Rightarrow>
         bnd (liftr (require_canonical_state st)) (\<lambda>_.
         if rs_approval_status st \<noteq> Some AWAITING_APPROVAL then ret None
         else if rs_claim_id st \<noteq> None \<or> rs_execution_status st \<noteq> None
         then raise_exc (recovery_error ''pending software engineering Action has execution evidence'')
         else bnd (liftr (action_from_state (now_utc c 0) st)) (\<lambda>a. ret (Some a))))"

fun actions_from_states :: "clock \<Rightarrow> nat \<Rightarrow> run_state list \<Rightarrow> action list result" where
  "actions_from_states c j [] = Inr []"
| "actions_from_states c j (st # sts) =
     rbind (require_canonical_state st) (\<lambda>_.
     rbind (action_from_state (now_utc c j) st) (\<lambda>a.
     rbind (actions_from_states c (Suc j) sts) (\<lambda>as. Inr (a # as))))"

definition recovery_list_pending :: "'r run_ops \<Rightarrow> clock \<Rightarrow> (('r, 'w, 'z) process_state_scheme, action list) prog" where
  "recovery_list_pending ops c =
     bnd (run_state_error_as (recovery_error ''software engineering pending recovery state is unavailable'')
            (on_runs (run_list_pending ops))) (\<lambda>states.
     liftr (actions_from_states c 0 states))"

definition ensure_registered :: "'r run_ops \<Rightarrow> clock \<Rightarrow> action \<Rightarrow> string \<Rightarrow> (('r, 'w, 'z) process_state_scheme, unit) prog" where
  "ensure_registered ops c a objective =
     run_state_error_as (recovery_error ''software engineering Action identity could not be persisted'')
       (bnd (on_runs (run_get ops (act_id a))) (\<lambda>current.
        bnd (on_runs (run_register_action ops c (act_id a) (act_target a) (role_value SOFTWARE_ENGINEERING)
               SOFTWARE_ENGINEERING_IMPLEMENT_CAPABILITY None (Some objective)
               (if current = None then Some AWAITING_APPROVAL else None))) (\<lambda>_.
        ret ())))"

definition recovery_record_approved :: "'r run_ops \<Rightarrow> clock \<Rightarrow> action \<Rightarrow> (('r, 'w, 'z) process_state_scheme, unit) prog" where
  "recovery_record_approved ops c a =
     (if \<not> is_canonical_action a then ret ()
      else bnd (liftr (objective_of a)) (\<lambda>objective.
        bnd (ensure_registered ops c a objective) (\<lambda>_.
        run_state_error_as (recovery_error ''software engineering approval could not be persisted'')
          (bnd (on_runs (run_record_approval ops (shift_clock 2 c) (act_id a) objective (now_utc c 1))) (\<lambda>_.
           ret ())))))"

definition recovery_record_rejected :: "'r run_ops \<Rightarrow> clock \<Rightarrow> action \<Rightarrow> (('r, 'w, 'z) process_state_scheme, unit) prog" where
  "recovery_record_rejected ops c a =
     (if \<not> is_canonical_action a then ret ()
      else bnd (liftr (objective_of a)) (\<lambda>objective.
        bnd (ensure_registered ops c a objective) (\<lambda>_.
        run_state_error_as (recovery_error ''software engineering rejection could not be persisted'')
          (bnd (on_runs (run_record_rejection ops (shift_clock 2 c) (act_id a) (now_utc c 1))) (\<lambda>_.
           ret ())))))"

definition recovery_claim :: "'r run_ops \<Rightarrow> clock \<Rightarrow> uuid \<Rightarrow> uuid \<Rightarrow> (('r, 'w, 'z) process_state_scheme, action) prog" where
  "recovery_claim ops c claim_id i =
     bnd (run_state_error_as (recovery_error ''software engineering claim state is unavailable'')
            (on_runs (run_get ops i))) (\<lambda>found.
     case found of
       None \<Rightarrow> raise_exc (SoftwareEngineeringRecoveryNotFoundError ''software engineering action was not found'')
     | Some st \<Rightarrow>
         bnd (liftr (require_canonical_state st)) (\<lambda>_.
         bnd (run_state_error_as (recovery_error ''software engineering action could not be claimed'')
                (on_runs (run_claim_approved ops c claim_id i))) (\<lambda>claim.
         liftr (mk_action (ac_action_id claim) SOFTWARE_ENGINEERING_IMPLEMENT_CAPABILITY (ac_target claim)
                  (canonical_payload (ac_objective claim)) (Some (RoleEnum SOFTWARE_ENGINEERING)) (now_utc c 1)
                  [delegation_metadata,
                   (''durable_recovery'', PDict [(''claim_id'', PStr (uuid_str (ac_claim_id claim)))])]))))"

text \<open>The recovery as the two protocols of the approval decisions.\<close>

definition se_recovery :: "'r run_ops \<Rightarrow> clock \<Rightarrow> ('r, 'w, 'z) process_state_scheme pending_action_recovery" where
  "se_recovery ops c = recover_pending ops c"

definition se_recorder :: "'r run_ops \<Rightarrow> clock \<Rightarrow> ('r, 'w, 'z) process_state_scheme approval_recorder" where
  "se_recorder ops c =
     \<lparr>record_approved = recovery_record_approved ops c, record_rejected = recovery_record_rejected ops c\<rparr>"

section \<open>Ingress\<close>

definition ingress_delegate ::
  "'r run_ops \<Rightarrow> 'x executor_registry \<Rightarrow> permission_engine \<Rightarrow> (permission_decision \<Rightarrow> pyval) \<Rightarrow> clock \<Rightarrow> clock \<Rightarrow> uuid
     \<Rightarrow> string \<Rightarrow> string \<Rightarrow> (('r, 'w, 'z) process_state_scheme, task_delegation_result) prog" where
  "ingress_delegate ops reg engine dump c rc i objective target =
     bnd (liftr (check_request \<lparr>tdr_objective = objective, tdr_target = target,
            tdr_executor_role = SOFTWARE_ENGINEERING,
            tdr_capability = SOFTWARE_ENGINEERING_IMPLEMENT_CAPABILITY, tdr_account_context = None\<rparr>)) (\<lambda>request.
     bnd (delegate reg engine dump c i request) (\<lambda>result.
     let (approval, obj) = (case tdres_status result of
             TD_AWAITING_APPROVAL \<Rightarrow> (Some AWAITING_APPROVAL, Some objective)
           | TD_QUEUED \<Rightarrow> (Some SE_APPROVED, Some objective)
           | _ \<Rightarrow> (None, None))
     in bnd (on_runs (run_register_action ops rc (tdres_action_id result) target
               (role_value SOFTWARE_ENGINEERING) SOFTWARE_ENGINEERING_IMPLEMENT_CAPABILITY
               (Some (delegation_status_value (tdres_status result))) obj approval)) (\<lambda>_.
        ret result)))"

section \<open>Disposition\<close>

type_synonym 'w disposer = "uuid \<Rightarrow> WorkProductDisposition \<Rightarrow> ('w, work_product_disposition_result) prog"

type_synonym 'w reviewer = "uuid \<Rightarrow> ('w, work_product_review) prog"

definition terminal_execution_statuses :: "string list" where
  "terminal_execution_statuses = [''succeeded'', ''failed'', ''skipped'']"

definition finished_execution :: "run_state \<Rightarrow> bool" where
  "finished_execution st \<longleftrightarrow>
     (\<exists>x\<in>set terminal_execution_statuses. rs_execution_status st = Some x)
     \<and> rs_execution_finished_at st \<noteq> None"

definition disposition_apply ::
  "'r run_ops \<Rightarrow> 'w disposer option \<Rightarrow> clock \<Rightarrow> uuid \<Rightarrow> WorkProductDisposition
     \<Rightarrow> (('r, 'w, 'z) process_state_scheme, work_product_disposition_result) prog" where
  "disposition_apply ops disposer c i disposition =
     bnd (on_runs (run_get ops i)) (\<lambda>found.
     case found of
       None \<Rightarrow> raise_exc (SoftwareEngineeringDispositionNotFoundError ''software engineering action was not found'')
     | Some st \<Rightarrow>
         if \<not> canonical_state st
         then raise_exc (SoftwareEngineeringDispositionRouteError
                ''action was not executed through the software engineering route'')
         else if \<not> finished_execution st
         then raise_exc (SoftwareEngineeringDispositionStateError
                ''software engineering action has not finished execution'')
         else (case disposer of
             None \<Rightarrow> raise_exc (SoftwareEngineeringDispositionStateError
                ''software engineering work-product service is unavailable'')
           | Some apply \<Rightarrow>
               bnd (try_except (on_world (apply i disposition))
                 (\<lambda>e. case e of
                     WorkProductIdentityError _ \<Rightarrow> raise_exc (SoftwareEngineeringDispositionStateError
                       ''software engineering work product is unavailable or unverifiable'')
                   | _ \<Rightarrow> raise_exc e)) (\<lambda>result.
               bnd (if wpr_succeeded result
                    then bnd (on_runs (run_record_disposition ops c result)) (\<lambda>_. ret ())
                    else ret ()) (\<lambda>_.
               ret result))))"

section \<open>Run control\<close>

datatype SoftwareEngineeringRunPhase =
    PH_REGISTERED | PH_ROUTE_REJECTED | PH_AWAITING_APPROVAL | PH_APPROVED | PH_CLAIMED
  | PH_RUNNING_OR_AMBIGUOUS | PH_ABANDONED | PH_REJECTED | PH_SUCCEEDED | PH_FAILED | PH_SKIPPED
  | PH_KEPT | PH_DISCARDED | PH_PROMOTED

datatype SoftwareEngineeringClaimReconciliation = RC_RELEASE | RC_ABANDON

datatype WorkProductInspectionStatus = INSP_NOT_APPLICABLE | INSP_AVAILABLE | INSP_UNAVAILABLE

record work_product_summary =
  wps_status :: WorkProductInspectionStatus
  wps_dirty :: "bool option"
  wps_changed_files_count :: "nat option"
  wps_untracked_files_count :: "nat option"
  wps_canonical_clean :: "bool option"
  wps_canonical_unchanged :: "bool option"

record run_status =
  rst_action_id :: uuid
  rst_target :: string
  rst_phase :: SoftwareEngineeringRunPhase
  rst_approval_status :: "SoftwareEngineeringApprovalStatus option"
  rst_claimed :: bool
  rst_worker_started :: bool
  rst_execution_status :: "string option"
  rst_external_execution_performed :: "bool option"
  rst_disposition :: "WorkProductDisposition option"
  rst_claim_resolution :: "SoftwareEngineeringClaimResolution option"
  rst_promoted :: bool
  rst_pull_request_number :: "int option"
  rst_pull_request_url :: "string option"
  rst_promotion_base_branch :: "string option"
  rst_promotion_head_branch :: "string option"
  rst_reconciliation_options :: "SoftwareEngineeringClaimReconciliation list"
  rst_retriable :: bool
  rst_state_token :: string
  rst_work_product :: work_product_summary

definition run_phase :: "run_state \<Rightarrow> SoftwareEngineeringRunPhase" where
  "run_phase st =
     (if rs_promotion_finished_at st \<noteq> None then PH_PROMOTED
      else if rs_disposition_succeeded st = Some True \<and> rs_disposition st = Some KEEP then PH_KEPT
      else if rs_disposition_succeeded st = Some True \<and> rs_disposition st = Some DISCARD then PH_DISCARDED
      else if rs_execution_status st = Some ''succeeded'' then PH_SUCCEEDED
      else if rs_execution_status st = Some ''failed'' then PH_FAILED
      else if rs_execution_status st = Some ''skipped'' then PH_SKIPPED
      else if rs_claim_resolution st = Some ABANDONED_AFTER_START then PH_ABANDONED
      else if rs_claim_id st \<noteq> None \<and> rs_execution_started_at st \<noteq> None then PH_RUNNING_OR_AMBIGUOUS
      else if rs_claim_id st \<noteq> None then PH_CLAIMED
      else if rs_approval_status st = Some SE_REJECTED then PH_REJECTED
      else if rs_approval_status st = Some SE_APPROVED then PH_APPROVED
      else if rs_approval_status st = Some AWAITING_APPROVAL then PH_AWAITING_APPROVAL
      else if rs_delegation_status st = Some ''route_rejected'' then PH_ROUTE_REJECTED
      else PH_REGISTERED)"

definition reconciliation_options :: "run_state \<Rightarrow> SoftwareEngineeringClaimReconciliation list" where
  "reconciliation_options st =
     (if rs_execution_status st \<noteq> None \<or> rs_claim_id st = None then []
      else if rs_claim_resolution st = Some ABANDONED_AFTER_START then []
      else if rs_execution_started_at st = None then [RC_RELEASE]
      else [RC_ABANDON])"

abbreviation control_error :: "string \<Rightarrow> exc" where
  "control_error \<equiv> SoftwareEngineeringRunControlStateError"

definition require_releasable :: "run_state \<Rightarrow> unit result" where
  "require_releasable st =
     guard_exc (rs_claim_id st \<noteq> None \<and> rs_execution_started_at st = None \<and> rs_execution_status st = None
                \<and> rs_approval_status st = Some SE_APPROVED)
       (control_error ''software engineering claim cannot be safely released'')"

definition require_abandonable :: "bool \<Rightarrow> run_state \<Rightarrow> unit result" where
  "require_abandonable acknowledged st =
     rbind (guard_exc acknowledged
              (control_error ''possible external execution side effects were not acknowledged'')) (\<lambda>_.
     guard_exc (rs_claim_id st \<noteq> None \<and> rs_execution_started_at st \<noteq> None \<and> rs_execution_status st = None
                \<and> rs_claim_resolution st \<noteq> Some ABANDONED_AFTER_START)
       (control_error ''software engineering claim cannot be abandoned''))"

definition token_material :: "run_state \<Rightarrow> string" where
  "token_material st =
     str_join ''|''
       [uuid_str (rs_action_id st), isoformat (the (rs_updated_at st)),
        (case rs_claim_id st of None \<Rightarrow> '''' | Some k \<Rightarrow> uuid_str k),
        (case rs_execution_started_at st of None \<Rightarrow> '''' | Some t \<Rightarrow> isoformat t),
        (case rs_execution_status st of None \<Rightarrow> '''' | Some x \<Rightarrow> x),
        (case rs_claim_resolution st of None \<Rightarrow> '''' | Some x \<Rightarrow> claim_resolution_value x)]"

definition state_token :: "(string \<Rightarrow> string) \<Rightarrow> run_state \<Rightarrow> string result" where
  "state_token digest st =
     (if rs_updated_at st = None
      then Inl (control_error ''software engineering run has no durable state version'')
      else Inr (digest (token_material st)))"

definition bare_summary :: "WorkProductInspectionStatus \<Rightarrow> work_product_summary" where
  "bare_summary s =
     \<lparr>wps_status = s, wps_dirty = None, wps_changed_files_count = None, wps_untracked_files_count = None,
      wps_canonical_clean = None, wps_canonical_unchanged = None\<rparr>"

definition inspect_work_product ::
  "'w reviewer option \<Rightarrow> uuid \<Rightarrow> (('r, 'w, 'z) process_state_scheme, work_product_summary) prog" where
  "inspect_work_product inspector i =
     (case inspector of
        None \<Rightarrow> ret (bare_summary INSP_UNAVAILABLE)
      | Some review \<Rightarrow>
          try_except
            (bnd (on_world (review i)) (\<lambda>r.
             ret \<lparr>wps_status = INSP_AVAILABLE, wps_dirty = Some (wrv_dirty r),
                  wps_changed_files_count = Some (length (wrv_changed_files r)),
                  wps_untracked_files_count = Some (length (wrv_untracked_files r)),
                  wps_canonical_clean = Some (wrv_canonical_clean r),
                  wps_canonical_unchanged = Some (wrv_canonical_unchanged r)\<rparr>))
            (\<lambda>e. case e of
                WorkProductIdentityError _ \<Rightarrow> ret (bare_summary INSP_UNAVAILABLE)
              | _ \<Rightarrow> raise_exc e))"

definition inspect_for_abandon ::
  "'w reviewer option \<Rightarrow> uuid \<Rightarrow> (('r, 'w, 'z) process_state_scheme, unit) prog" where
  "inspect_for_abandon inspector i =
     (case inspector of
        None \<Rightarrow> raise_exc (control_error ''software engineering work-product inspection is unavailable'')
      | Some review \<Rightarrow>
          try_except (bnd (on_world (review i)) (\<lambda>_. ret ()))
            (\<lambda>e. case e of WorkProductIdentityError _ \<Rightarrow> ret () | _ \<Rightarrow> raise_exc e))"

definition control_get :: "'r run_ops \<Rightarrow> uuid \<Rightarrow> (('r, 'w, 'z) process_state_scheme, run_state) prog" where
  "control_get ops i =
     bnd (run_state_error_as (control_error ''software engineering durable state is unavailable'')
            (on_runs (run_get ops i))) (\<lambda>found.
     case found of
       None \<Rightarrow> raise_exc (SoftwareEngineeringRunControlNotFoundError ''software engineering action was not found'')
     | Some st \<Rightarrow>
         if \<not> canonical_state st
         then raise_exc (SoftwareEngineeringRunControlNotFoundError ''software engineering action was not found'')
         else ret st)"

definition status_from_state ::
  "(string \<Rightarrow> string) \<Rightarrow> 'w reviewer option \<Rightarrow> run_state \<Rightarrow> (('r, 'w, 'z) process_state_scheme, run_status) prog" where
  "status_from_state digest inspector st =
     (let options = reconciliation_options st in
      bnd (if RC_ABANDON \<in> set options \<or> rs_claim_resolution st = Some ABANDONED_AFTER_START
           then inspect_work_product inspector (rs_action_id st)
           else ret (bare_summary INSP_NOT_APPLICABLE)) (\<lambda>work_product.
      bnd (liftr (state_token digest st)) (\<lambda>token.
      ret \<lparr>rst_action_id = rs_action_id st, rst_target = rs_target st, rst_phase = run_phase st,
           rst_approval_status = rs_approval_status st, rst_claimed = (rs_claim_id st \<noteq> None),
           rst_worker_started = (rs_execution_started_at st \<noteq> None),
           rst_execution_status = rs_execution_status st,
           rst_external_execution_performed = rs_external_execution_performed st,
           rst_disposition = rs_disposition st, rst_claim_resolution = rs_claim_resolution st,
           rst_promoted = (rs_promotion_finished_at st \<noteq> None),
           rst_pull_request_number = rs_pull_request_number st,
           rst_pull_request_url = rs_pull_request_url st,
           rst_promotion_base_branch = rs_promotion_base_branch st,
           rst_promotion_head_branch = rs_promotion_head_branch st,
           rst_reconciliation_options = options,
           rst_retriable = (rs_approval_status st = Some SE_APPROVED \<and> rs_claim_id st = None
              \<and> rs_execution_status st = None \<and> rs_claim_resolution st \<noteq> Some ABANDONED_AFTER_START),
           rst_state_token = token, rst_work_product = work_product\<rparr>)))"

definition control_status ::
  "'r run_ops \<Rightarrow> (string \<Rightarrow> string) \<Rightarrow> 'w reviewer option \<Rightarrow> uuid
     \<Rightarrow> (('r, 'w, 'z) process_state_scheme, run_status) prog" where
  "control_status ops digest inspector i =
     bnd (control_get ops i) (\<lambda>st. status_from_state digest inspector st)"

definition control_reconcile ::
  "'r run_ops \<Rightarrow> (string \<Rightarrow> string) \<Rightarrow> 'w reviewer option \<Rightarrow> clock \<Rightarrow> uuid
     \<Rightarrow> SoftwareEngineeringClaimReconciliation \<Rightarrow> string \<Rightarrow> bool
     \<Rightarrow> (('r, 'w, 'z) process_state_scheme, run_status) prog" where
  "control_reconcile ops digest inspector c i resolution token acknowledged =
     bnd (control_get ops i) (\<lambda>st.
     bnd (liftr (state_token digest st)) (\<lambda>current.
     if current \<noteq> token
     then raise_exc (control_error ''software engineering run state changed since status inspection'')
     else (case rs_updated_at st of
         None \<Rightarrow> raise_exc (control_error ''software engineering run has no durable state version'')
       | Some updated_at \<Rightarrow>
           let now = now_utc c 0 in
           bnd (run_state_error_as (control_error ''software engineering claim reconciliation failed closed'')
             (case resolution of
                RC_RELEASE \<Rightarrow>
                  bnd (liftr (require_releasable st)) (\<lambda>_.
                  on_runs (run_release_unstarted_claim ops i updated_at now))
              | RC_ABANDON \<Rightarrow>
                  bnd (liftr (require_abandonable acknowledged st)) (\<lambda>_.
                  bnd (inspect_for_abandon inspector i) (\<lambda>_.
                  on_runs (run_abandon_started_claim ops i updated_at now))))) (\<lambda>updated.
           status_from_state digest inspector updated))))"

section \<open>Continuation\<close>

datatype WorkProductReviewStatus = REVIEW_AVAILABLE | REVIEW_UNAVAILABLE

definition safe_execution_failure_reasons :: "string list" where
  "safe_execution_failure_reasons =
     [''unsupported_capability'', ''invalid_task'', ''executable_missing'', ''workspace_unavailable'',
      ''unsupported_cli'', ''canonical_workspace_modified'', ''timeout'', ''authentication_failed'',
      ''malformed_output'', ''process_failed'', ''invalid_result'', ''worker_reported_blockers'']"

record continuation_result =
  cr_action_id :: uuid
  cr_processed :: bool
  cr_execution_status :: WorkerExecutionStatus
  cr_lifecycle_status :: ActionStatus
  cr_execution_reason :: "string option"
  cr_external_execution_performed :: bool
  cr_review_status :: WorkProductReviewStatus
  cr_review :: "work_product_review option"

definition require_canonical_action :: "action \<Rightarrow> unit result" where
  "require_canonical_action a =
     guard_exc (is_canonical_action a) (SoftwareEngineeringContinuationRouteError
       ''action is not the canonical software engineering implementation route'')"

abbreviation continuation_error :: "string \<Rightarrow> exc" where
  "continuation_error \<equiv> SoftwareEngineeringContinuationStateError"

definition claim_for_continuation ::
  "'r run_ops \<Rightarrow> clock \<Rightarrow> uuid \<Rightarrow> uuid \<Rightarrow> (('r, 'w, 'z) process_state_scheme, action) prog" where
  "claim_for_continuation ops c claim_id i =
     try_except (recovery_claim ops c claim_id i)
       (\<lambda>e. case e of
           SoftwareEngineeringRecoveryNotFoundError _ \<Rightarrow>
             raise_exc (SoftwareEngineeringContinuationNotFoundError ''software engineering action was not found'')
         | SoftwareEngineeringRecoveryError _ \<Rightarrow>
             raise_exc (continuation_error ''software engineering action could not be claimed for execution'')
         | _ \<Rightarrow> raise_exc e)"

definition review_after_execution ::
  "'w reviewer option \<Rightarrow> uuid \<Rightarrow> (('r, 'w, 'z) process_state_scheme, work_product_review option) prog" where
  "review_after_execution reviewer i =
     (case reviewer of
        None \<Rightarrow> ret None
      | Some review \<Rightarrow>
          try_except (bnd (on_world (review i)) (\<lambda>r. ret (Some r)))
            (\<lambda>e. case e of WorkProductIdentityError _ \<Rightarrow> ret None | _ \<Rightarrow> raise_exc e))"

definition public_execution_reason :: "WorkerExecutionStatus \<Rightarrow> string option \<Rightarrow> string option" where
  "public_execution_reason status raw =
     (case status of
        WFAILED \<Rightarrow> (case raw of
            Some r \<Rightarrow> if r \<in> set safe_execution_failure_reasons then Some r else Some ''worker execution failed''
          | None \<Rightarrow> Some ''worker execution failed'')
      | WSKIPPED \<Rightarrow> Some ''worker execution skipped''
      | WSUCCEEDED \<Rightarrow> None)"

definition continuation_execute ::
  "'r run_ops \<Rightarrow> ('r, 'w, 'z, 'x) worker_runtime \<Rightarrow> 'w reviewer option \<Rightarrow> clock \<Rightarrow> uuid \<Rightarrow> worker_inputs \<Rightarrow> uuid
     \<Rightarrow> (('r, 'w, 'z) process_state_scheme, continuation_result) prog" where
  "continuation_execute ops rt reviewer c claim_id inp i =
     bnd (gets (\<lambda>s. lifecycle_of s i)) (\<lambda>lifecycle.
     bnd (gets (\<lambda>s. queue_get i (action_queue s))) (\<lambda>queued.
     if (case lifecycle of None \<Rightarrow> False | Some st \<Rightarrow> als_status st \<notin> {QUEUED, APPROVED})
     then raise_exc (continuation_error ''software engineering action is not approved for execution'')
     else bnd (case queued of None \<Rightarrow> ret () | Some q \<Rightarrow> liftr (require_canonical_action q)) (\<lambda>_.
     bnd (claim_for_continuation ops c claim_id i) (\<lambda>recovered.
     bnd (case queued of
            None \<Rightarrow> enqueue_action recovered
          | Some q \<Rightarrow>
              if act_target q \<noteq> act_target recovered
                 \<or> pd_get (act_payload q) ''objective'' \<noteq> pd_get (act_payload recovered) ''objective''
              then raise_exc (SoftwareEngineeringContinuationRouteError
                     ''queued Action conflicts with durable Software Engineering identity'')
              else ret ()) (\<lambda>_.
     bnd (if (case lifecycle of None \<Rightarrow> True | Some st \<Rightarrow> als_status st = QUEUED)
          then bnd (liftr (mk_action_lifecycle_state APPROVED (now_utc c 2) None None
                      [(''approval_required'', PBool True), (''durable_recovery'', PBool True)])) (\<lambda>st.
               set_lifecycle i st)
          else ret ()) (\<lambda>_.
     bnd (process_action rt inp i) (\<lambda>processing.
     case (wpres_processed processing, wpres_execution_status processing, wpres_lifecycle_state processing) of
       (True, Some status, Some st) \<Rightarrow>
         bnd (review_after_execution reviewer i) (\<lambda>review.
         ret \<lparr>cr_action_id = i, cr_processed = True, cr_execution_status = status,
              cr_lifecycle_status = als_status st,
              cr_execution_reason = public_execution_reason status (wpres_execution_reason processing),
              cr_external_execution_performed = wpres_external_execution_performed processing,
              cr_review_status = (if review \<noteq> None then REVIEW_AVAILABLE else REVIEW_UNAVAILABLE),
              cr_review = review\<rparr>)
     | _ \<Rightarrow> raise_exc (continuation_error ''software engineering action could not be claimed for execution''))))))))"

end
