(* ===== verification/SE_Promotion.thy ===== *)
theory SE_Promotion
  imports SE_Services SE_Work_Product
begin

text \<open>
  \<open>integrations/software_engineering_promotion.py\<close>, \<open>integrations/pull_request.py\<close> and
  \<open>integrations/github_pull_request.py\<close>: the guarded promotion of a kept work product. Git and the GitHub CLI
  run on the host; the world of the process state is the host's world. Decoding the JSON that the CLI prints is
  the parameter \<open>json_loads\<close>, which gives \<open>None\<close> for text that is no JSON.
\<close>

section \<open>Words of a line\<close>

text \<open>\<open>text.split()\<close>: maximal runs of characters that are not white space.\<close>

fun str_words :: "string \<Rightarrow> string \<Rightarrow> string list" where
  "str_words acc [] = (if acc = [] then [] else [rev acc])"
| "str_words acc (c # cs) =
     (if is_space c then (if acc = [] then [] else [rev acc]) @ str_words [] cs
      else str_words (c # acc) cs)"

section \<open>The pull-request publisher\<close>

record pull_request_publication =
  prp_number :: int
  prp_url :: string
  prp_base_branch :: string
  prp_head_branch :: string
  prp_created :: bool

text \<open>A publisher: repository repo, base branch, head branch, title and body.\<close>

type_synonym 'g publisher =
  "path \<Rightarrow> string \<Rightarrow> string \<Rightarrow> string \<Rightarrow> string \<Rightarrow> ('g, pull_request_publication) prog"

abbreviation publication_error :: "string \<Rightarrow> exc" where
  "publication_error \<equiv> PullRequestPublicationError"

definition gh_run :: "'g host \<Rightarrow> string \<Rightarrow> string list \<Rightarrow> path \<Rightarrow> ('g, string) prog" where
  "gh_run h executable argv cwd g =
     (case host_run h (executable # argv) cwd g of
        (None, g') \<Rightarrow> (Inl (publication_error ''pull-request publisher is unavailable''), g')
      | (Some r, g') \<Rightarrow>
          if process_ok r then (Inr (pr_stdout r), g')
          else (Inl (publication_error ''pull-request publisher command failed''), g'))"

definition head_matches :: "string \<Rightarrow> pyval \<Rightarrow> bool" where
  "head_matches head_branch item =
     (case item of PDict d \<Rightarrow> pd_get d ''headRefName'' = PStr head_branch | _ \<Rightarrow> False)"

definition publication_of :: "string \<Rightarrow> string \<Rightarrow> pydict \<Rightarrow> pull_request_publication result" where
  "publication_of base_branch head_branch d =
     (if pd_get d ''baseRefName'' \<noteq> PStr base_branch
      then Inl (publication_error ''existing pull request targets an unexpected base'')
      else
        let number = (case pd_get d ''number'' of
                PInt n \<Rightarrow> Some n | PBool b \<Rightarrow> Some (if b then 1 else 0) | _ \<Rightarrow> None);
            url = (case pd_get d ''url'' of PStr u \<Rightarrow> if str_blank u then None else Some u | _ \<Rightarrow> None)
        in case (number, url) of
             (Some n, Some u) \<Rightarrow>
               Inr \<lparr>prp_number = n, prp_url = u, prp_base_branch = base_branch,
                    prp_head_branch = head_branch, prp_created = False\<rparr>
           | _ \<Rightarrow> Inl (publication_error ''pull-request publisher returned invalid identity''))"

definition gh_select :: "string \<Rightarrow> string \<Rightarrow> pyval option \<Rightarrow> pull_request_publication option result" where
  "gh_select base_branch head_branch payload =
     (case payload of
        Some (PList items) \<Rightarrow>
          (case filter (head_matches head_branch) items of
             [] \<Rightarrow> Inr None
           | [PDict d] \<Rightarrow> rbind (publication_of base_branch head_branch d) (\<lambda>p. Inr (Some p))
           | _ \<Rightarrow> Inl (publication_error ''multiple pull requests match the promotion branch''))
      | _ \<Rightarrow> Inl (publication_error ''pull-request publisher returned invalid data''))"

definition gh_find ::
  "'g host \<Rightarrow> string \<Rightarrow> (string \<Rightarrow> pyval option) \<Rightarrow> path \<Rightarrow> string \<Rightarrow> string
     \<Rightarrow> ('g, pull_request_publication option) prog" where
  "gh_find h executable json_loads repo base_branch head_branch =
     bnd (gh_run h executable
            [''pr'', ''list'', ''--state'', ''all'', ''--head'', head_branch, ''--limit'', ''10'',
             ''--json'', ''number,url,headRefName,baseRefName''] repo) (\<lambda>raw.
     liftr (gh_select base_branch head_branch (json_loads raw)))"

definition gh_publish :: "'g host \<Rightarrow> string \<Rightarrow> (string \<Rightarrow> pyval option) \<Rightarrow> 'g publisher" where
  "gh_publish h executable json_loads repo base_branch head_branch title body =
     bnd (gh_find h executable json_loads repo base_branch head_branch) (\<lambda>existing.
     case existing of
       Some p \<Rightarrow> ret p
     | None \<Rightarrow>
         bnd (gh_run h executable
                [''pr'', ''create'', ''--base'', base_branch, ''--head'', head_branch,
                 ''--title'', title, ''--body'', body] repo) (\<lambda>_.
         bnd (gh_find h executable json_loads repo base_branch head_branch) (\<lambda>published.
         case published of
           None \<Rightarrow> raise_exc (publication_error ''pull request was not discoverable after creation'')
         | Some p \<Rightarrow> ret (p\<lparr>prp_created := True\<rparr>))))"

section \<open>The promotion service\<close>

record promotion_result =
  spr_action_id :: uuid
  spr_commit_sha :: string
  spr_pull_request_number :: int
  spr_pull_request_url :: string
  spr_base_branch :: string
  spr_head_branch :: string
  spr_pull_request_created :: bool

record 'g promotion_service =
  ps_workspace :: "trusted_git_workspace option"
  ps_review :: "(uuid \<Rightarrow> ('g, work_product_review) prog) option"
  ps_publisher :: "'g publisher option"
  ps_enabled :: bool
  ps_remote :: string
  ps_base_branch :: string
  ps_author_name :: string
  ps_author_email :: string

abbreviation promotion_state_error :: "string \<Rightarrow> exc" where
  "promotion_state_error \<equiv> SoftwareEngineeringPromotionStateError"

abbreviation promotion_external_error :: "string \<Rightarrow> exc" where
  "promotion_external_error \<equiv> SoftwareEngineeringPromotionExternalError"

definition promotion_git :: "'g host \<Rightarrow> trusted_git_workspace \<Rightarrow> string list \<Rightarrow> path \<Rightarrow> ('g, string) prog" where
  "promotion_git h ws args cwd =
     bnd (run_git h ws args cwd) (\<lambda>r.
     if \<not> process_ok r then raise_exc (promotion_state_error ''trusted git verification failed'')
     else ret (str_strip (pr_stdout r)))"

definition promotable :: "run_state \<Rightarrow> run_state result" where
  "promotable st =
     rbind (guard_exc (canonical_state st)
              (promotion_state_error ''software engineering durable route evidence is invalid'')) (\<lambda>_.
     rbind (guard_exc (rs_execution_status st = Some ''succeeded'' \<and> rs_execution_finished_at st \<noteq> None)
              (promotion_state_error ''software engineering action did not complete successfully'')) (\<lambda>_.
     rbind (guard_exc (rs_disposition st = Some KEEP \<and> rs_disposition_succeeded st = Some True
              \<and> rs_worktree_present st = Some True \<and> rs_branch_present st = Some True
              \<and> rs_canonical_unchanged st = Some True)
              (promotion_state_error ''work product has not been explicitly kept'')) (\<lambda>_.
     Inr st)))"

definition verify_action :: "'r run_ops \<Rightarrow> uuid \<Rightarrow> (('r, 'g, 'z) process_state_scheme, run_state) prog" where
  "verify_action ops i =
     bnd (on_runs (run_get ops i)) (\<lambda>found.
     case found of
       None \<Rightarrow> raise_exc (SoftwareEngineeringPromotionNotFoundError ''software engineering action was not found'')
     | Some st \<Rightarrow> liftr (promotable st))"

definition action_trailer :: "uuid \<Rightarrow> string" where
  "action_trailer i = ''VELOX-Action: '' @ uuid_str i"

definition verify_commit ::
  "'g host \<Rightarrow> trusted_git_workspace \<Rightarrow> uuid \<Rightarrow> path \<Rightarrow> path \<Rightarrow> string \<Rightarrow> string \<Rightarrow> string \<Rightarrow> ('g, unit) prog" where
  "verify_commit h ws i repo worktree_path branch canonical_head commit_sha =
     bnd (promotion_git h ws [''rev-list'', ''--count'', canonical_head @ ''..'' @ commit_sha] repo) (\<lambda>count.
     if count \<noteq> ''1''
     then raise_exc (promotion_state_error ''promotion branch has unexpected commit history'')
     else bnd (promotion_git h ws [''rev-parse'', commit_sha @ ''^''] repo) (\<lambda>parent.
     if parent \<noteq> canonical_head
     then raise_exc (promotion_state_error ''promotion commit does not descend directly from canonical HEAD'')
     else bnd (promotion_git h ws [''show'', ''-s'', ''--format=%B'', commit_sha] repo) (\<lambda>message.
     if action_trailer i \<notin> set (map str_strip (str_splitlines message))
     then raise_exc (promotion_state_error ''promotion commit is missing trusted Action identity'')
     else bnd (promotion_git h ws [''rev-parse'', branch] repo) (\<lambda>tip.
     if tip \<noteq> commit_sha
     then raise_exc (promotion_state_error ''promotion branch does not point to the promotion commit'')
     else bnd (workspace_status h ws worktree_path) (\<lambda>status.
     if \<not> str_blank status
     then raise_exc (promotion_state_error ''promotion worktree is not clean after commit'')
     else ret ())))))"

definition commit_work ::
  "'g host \<Rightarrow> 'g promotion_service \<Rightarrow> trusted_git_workspace \<Rightarrow> uuid \<Rightarrow> path \<Rightarrow> ('g, string) prog" where
  "commit_work h ps ws i worktree_path =
     bnd (run_git h ws [''add'', ''--all''] worktree_path) (\<lambda>add.
     if \<not> process_ok add then raise_exc (promotion_state_error ''work product could not be staged'')
     else bnd (run_git h ws [''diff'', ''--cached'', ''--quiet''] worktree_path) (\<lambda>staged.
     if pr_timed_out staged \<or> pr_returncode staged \<notin> {Some 0, Some 1}
     then raise_exc (promotion_state_error ''staged diff could not be verified'')
     else if pr_returncode staged = Some 0
     then raise_exc (promotion_state_error ''kept work product contains no promotable changes'')
     else bnd (run_git h ws
            [''-c'', ''user.name='' @ ps_author_name ps, ''-c'', ''user.email='' @ ps_author_email ps,
             ''commit'', ''--no-verify'', ''-m'', ''VELOX: promote software engineering action '' @ uuid_str i,
             ''-m'', action_trailer i] worktree_path) (\<lambda>commit.
     if \<not> process_ok commit then raise_exc (promotion_state_error ''VELOX promotion commit failed'')
     else promotion_git h ws [''rev-parse'', ''HEAD''] worktree_path)))"

definition create_or_recover_commit ::
  "'g host \<Rightarrow> 'g promotion_service \<Rightarrow> trusted_git_workspace \<Rightarrow> uuid \<Rightarrow> path \<Rightarrow> path \<Rightarrow> string \<Rightarrow> string \<Rightarrow> bool
     \<Rightarrow> ('g, string) prog" where
  "create_or_recover_commit h ps ws i repo worktree_path branch canonical_head dirty =
     bnd (promotion_git h ws [''rev-parse'', ''HEAD''] worktree_path) (\<lambda>worktree_head.
     if worktree_head \<noteq> canonical_head
     then (if dirty
           then raise_exc (promotion_state_error ''promotion worktree has both commits and uncommitted changes'')
           else bnd (verify_commit h ws i repo worktree_path branch canonical_head worktree_head) (\<lambda>_.
                ret worktree_head))
     else if \<not> dirty
     then raise_exc (promotion_state_error ''kept work product contains no promotable changes'')
     else bnd (commit_work h ps ws i worktree_path) (\<lambda>commit_sha.
          bnd (verify_commit h ws i repo worktree_path branch canonical_head commit_sha) (\<lambda>_.
          ret commit_sha)))"

text \<open>From the validation of the workspace to the verified publication: the part of \<open>promote\<close> that runs git.\<close>

definition push_and_publish ::
  "'g host \<Rightarrow> 'g promotion_service \<Rightarrow> trusted_git_workspace \<Rightarrow> 'g publisher \<Rightarrow> path \<Rightarrow> string \<Rightarrow> string \<Rightarrow> string \<Rightarrow> string
     \<Rightarrow> ('g, pull_request_publication) prog" where
  "push_and_publish h ps ws publish repo branch commit_sha title body =
     bnd (run_git h ws [''push'', ''--porcelain'', ps_remote ps,
            ''refs/heads/'' @ branch @ '':refs/heads/'' @ branch] repo) (\<lambda>push.
     if \<not> process_ok push then raise_exc (promotion_external_error ''promotion push failed'')
     else bnd (promotion_git h ws [''ls-remote'', ''--heads'', ps_remote ps, ''refs/heads/'' @ branch] repo) (\<lambda>remote.
     if str_words [] remote = [] \<or> hd (str_words [] remote) \<noteq> commit_sha
     then raise_exc (promotion_external_error ''promotion branch could not be verified on the remote'')
     else bnd (try_except (publish repo (ps_base_branch ps) branch title body)
            (\<lambda>e. case e of
                PullRequestPublicationError _ \<Rightarrow>
                  raise_exc (promotion_external_error ''pull-request publication failed'')
              | _ \<Rightarrow> raise_exc e)) (\<lambda>publication.
     if prp_base_branch publication \<noteq> ps_base_branch ps \<or> prp_head_branch publication \<noteq> branch
     then raise_exc (promotion_external_error ''pull-request identity did not match trusted promotion branches'')
     else ret publication)))"

definition trusted_base ::
  "'g host \<Rightarrow> 'g promotion_service \<Rightarrow> trusted_git_workspace \<Rightarrow> path \<Rightarrow> ('g, string) prog" where
  "trusted_base h ps ws repo =
     bnd (promotion_git h ws [''symbolic-ref'', ''--quiet'', ''--short'', ''HEAD''] repo) (\<lambda>current_branch.
     if current_branch \<noteq> ps_base_branch ps
     then raise_exc (promotion_state_error ''canonical checkout is not on the trusted base branch'')
     else bnd (workspace_status h ws repo) (\<lambda>status.
     if \<not> str_blank status
     then raise_exc (promotion_state_error ''canonical checkout is not clean'')
     else if ps_remote ps = '''' \<or> str_startswith (ps_remote ps) ''-''
     then raise_exc (promotion_state_error ''trusted promotion remote is invalid'')
     else if ps_base_branch ps = '''' \<or> str_startswith (ps_base_branch ps) ''-''
     then raise_exc (promotion_state_error ''trusted promotion base branch is invalid'')
     else bnd (promotion_git h ws [''remote'', ''get-url'', ps_remote ps] repo) (\<lambda>_.
     bnd (promotion_git h ws [''rev-parse'', ''HEAD''] repo) (\<lambda>canonical_head.
     bnd (promotion_git h ws [''ls-remote'', ''--heads'', ps_remote ps, ''refs/heads/'' @ ps_base_branch ps] repo) (\<lambda>remote.
     if str_words [] remote = [] \<or> hd (str_words [] remote) \<noteq> canonical_head
     then raise_exc (promotion_state_error ''trusted remote base does not match canonical HEAD'')
     else ret canonical_head)))))"

definition promote_work ::
  "'g host \<Rightarrow> 'g promotion_service \<Rightarrow> trusted_git_workspace \<Rightarrow> (uuid \<Rightarrow> ('g, work_product_review) prog) \<Rightarrow> 'g publisher
     \<Rightarrow> uuid \<Rightarrow> string \<Rightarrow> string \<Rightarrow> ('g, string \<times> pull_request_publication) prog" where
  "promote_work h ps ws review publish i title body =
     (let expected = expected_worktree ws i in
     bnd (try_except (bnd (workspace_validate h ws) (\<lambda>repo. bnd (review i) (\<lambda>r. ret (repo, r))))
            (\<lambda>e. case e of
                WorkspaceUnavailableError _ \<Rightarrow>
                  raise_exc (promotion_state_error ''software engineering work product is unavailable or unverifiable'')
              | WorkProductIdentityError _ \<Rightarrow>
                  raise_exc (promotion_state_error ''software engineering work product is unavailable or unverifiable'')
              | _ \<Rightarrow> raise_exc e)) (\<lambda>(repo, r).
     if \<not> wrv_canonical_clean r \<or> \<not> wrv_canonical_unchanged r
     then raise_exc (promotion_state_error ''canonical checkout changed during promotion verification'')
     else bnd (trusted_base h ps ws repo) (\<lambda>canonical_head.
     bnd (create_or_recover_commit h ps ws i repo (iw_path expected) (iw_branch expected) canonical_head
            (wrv_dirty r)) (\<lambda>commit_sha.
     bnd (promotion_git h ws [''rev-parse'', ''HEAD''] repo) (\<lambda>head_now.
     bnd (if head_now \<noteq> canonical_head then ret True
          else bnd (workspace_status h ws repo) (\<lambda>status. ret (\<not> str_blank status))) (\<lambda>changed.
     if changed
     then raise_exc (promotion_state_error ''canonical checkout changed before promotion push'')
     else bnd (push_and_publish h ps ws publish repo (iw_branch expected) commit_sha title body) (\<lambda>publication.
     ret (commit_sha, publication))))))))"

definition promotion_started :: "run_state \<Rightarrow> bool" where
  "promotion_started st \<longleftrightarrow> rs_promotion_commit_sha st \<noteq> None \<or> rs_pull_request_number st \<noteq> None
     \<or> rs_pull_request_url st \<noteq> None \<or> rs_promotion_base_branch st \<noteq> None
     \<or> rs_promotion_head_branch st \<noteq> None \<or> rs_promotion_finished_at st \<noteq> None"

definition promotion_complete :: "run_state \<Rightarrow> bool" where
  "promotion_complete st \<longleftrightarrow> rs_promotion_commit_sha st \<noteq> None \<and> rs_pull_request_number st \<noteq> None
     \<and> rs_pull_request_url st \<noteq> None \<and> rs_promotion_base_branch st \<noteq> None
     \<and> rs_promotion_head_branch st \<noteq> None \<and> rs_promotion_finished_at st \<noteq> None"

definition recorded_promotion ::
  "string \<Rightarrow> isolated_worktree \<Rightarrow> uuid \<Rightarrow> run_state \<Rightarrow> promotion_result result" where
  "recorded_promotion base_branch expected i st =
     (if \<not> promotion_complete st
      then Inl (promotion_state_error ''durable promotion state is incomplete'')
      else if rs_promotion_base_branch st \<noteq> Some base_branch \<or> rs_promotion_head_branch st \<noteq> Some (iw_branch expected)
      then Inl (promotion_state_error ''durable promotion identity does not match trusted branches'')
      else Inr \<lparr>spr_action_id = i, spr_commit_sha = the (rs_promotion_commit_sha st),
                spr_pull_request_number = the (rs_pull_request_number st),
                spr_pull_request_url = the (rs_pull_request_url st),
                spr_base_branch = the (rs_promotion_base_branch st),
                spr_head_branch = the (rs_promotion_head_branch st), spr_pull_request_created = False\<rparr>)"

definition promote ::
  "'r run_ops \<Rightarrow> 'g host \<Rightarrow> 'g promotion_service \<Rightarrow> clock \<Rightarrow> uuid \<Rightarrow> string \<Rightarrow> string
     \<Rightarrow> (('r, 'g, 'z) process_state_scheme, promotion_result) prog" where
  "promote ops h ps c i title body =
     (if \<not> ps_enabled ps
      then raise_exc (promotion_state_error ''software engineering promotion is disabled'')
      else bnd (verify_action ops i) (\<lambda>st.
        case (ps_workspace ps, ps_review ps, ps_publisher ps) of
          (Some ws, Some review, Some publish) \<Rightarrow>
            if promotion_started st
            then liftr (recorded_promotion (ps_base_branch ps) (expected_worktree ws i) i st)
            else bnd (on_world (promote_work h ps ws review publish i title body)) (\<lambda>(commit_sha, publication).
              bnd (on_runs (run_record_promotion ops (shift_clock 1 c) i commit_sha (prp_number publication)
                     (prp_url publication) (prp_base_branch publication) (prp_head_branch publication)
                     (now_utc c 0))) (\<lambda>_.
              ret \<lparr>spr_action_id = i, spr_commit_sha = commit_sha,
                   spr_pull_request_number = prp_number publication, spr_pull_request_url = prp_url publication,
                   spr_base_branch = prp_base_branch publication, spr_head_branch = prp_head_branch publication,
                   spr_pull_request_created = prp_created publication\<rparr>))
        | _ \<Rightarrow> raise_exc (promotion_state_error ''software engineering promotion is unavailable'')))"

end
