(* ===== verification/Runtime_Safety.thy ===== *)
theory Runtime_Safety
  imports Worker_Runtime
begin

text \<open>
  What the worker runtime does to the process state, for any executors and any observer that keeps the
  contract \<open>observed_runtime\<close>: an observer only appends the start of an execution to its log and completes
  entries of it. The contract is interpreted on runtimes with the in-memory and with the durable observer.
\<close>

section \<open>The observer contract\<close>

text \<open>The stores the runtime owns; observers leave them alone.\<close>

definition stores :: "('r, 'w, 'z) process_state_scheme \<Rightarrow> action_queue \<times> lifecycle_repository \<times> approval_registry" where
  "stores s = (action_queue s, action_lifecycle_repository s, pending_approval_registry s)"

text \<open>The identifiers of the actions whose execution has started, oldest first.\<close>

definition execution_log :: "('r, 'w, 'z) process_state_scheme \<Rightarrow> uuid list" where
  "execution_log s = map obs_action_id (execution_observations s)"

locale observed_runtime =
  fixes rt :: "('r, 'w, 'z, 'x) worker_runtime"
  assumes start_law: "wr_observer_start rt c eid a res s = (r, s') \<Longrightarrow>
      stores s' = stores s \<and> execution_world s' = execution_world s
      \<and> execution_log s' = execution_log s @ [act_id a]"
    and finish_law: "wr_observer_finish rt c h status md reason failure dur s = (fr, s') \<Longrightarrow>
      stores s' = stores s \<and> execution_world s' = execution_world s
      \<and> execution_log s' = execution_log s"

text \<open>Runtimes with the two observers of the source.\<close>

definition mem_runtime ::
  "'x executor_registry \<Rightarrow> ('x \<Rightarrow> action \<Rightarrow> string option \<Rightarrow> worker_account_context option \<Rightarrow> ('w, worker_execution_result) prog)
     \<Rightarrow> int \<Rightarrow> (action_lifecycle_state \<Rightarrow> pyval) \<Rightarrow> ('r, 'w, 'z, 'x) worker_runtime" where
  "mem_runtime reg run n dump =
     \<lparr>wr_registry = reg, wr_run = run, wr_observer_start = mem_observer_start,
      wr_observer_finish = mem_observer_finish, wr_max_transient_retries = n, wr_dump_lifecycle = dump\<rparr>"

definition durable_runtime ::
  "'r run_ops \<Rightarrow> 'x executor_registry \<Rightarrow> ('x \<Rightarrow> action \<Rightarrow> string option \<Rightarrow> worker_account_context option \<Rightarrow> ('w, worker_execution_result) prog)
     \<Rightarrow> int \<Rightarrow> (action_lifecycle_state \<Rightarrow> pyval) \<Rightarrow> ('r, 'w, 'z, 'x) worker_runtime" where
  "durable_runtime ops reg run n dump =
     \<lparr>wr_registry = reg, wr_run = run, wr_observer_start = durable_observer_start ops,
      wr_observer_finish = durable_observer_finish ops, wr_max_transient_retries = n, wr_dump_lifecycle = dump\<rparr>"

lemma runtime_sel [simp]:
  "wr_registry (mem_runtime reg run n dump) = reg" "wr_run (mem_runtime reg run n dump) = run"
  "wr_observer_start (mem_runtime reg run n dump) = mem_observer_start"
  "wr_observer_finish (mem_runtime reg run n dump) = mem_observer_finish"
  "wr_max_transient_retries (mem_runtime reg run n dump) = n"
  "wr_registry (durable_runtime ops reg run n dump) = reg" "wr_run (durable_runtime ops reg run n dump) = run"
  "wr_observer_start (durable_runtime ops reg run n dump) = durable_observer_start ops"
  "wr_observer_finish (durable_runtime ops reg run n dump) = durable_observer_finish ops"
  "wr_max_transient_retries (durable_runtime ops reg run n dump) = n"
  by (simp_all add: mem_runtime_def durable_runtime_def)

lemma mem_start_law:
  "mem_observer_start c eid a res s = (r, s') \<Longrightarrow>
     stores s' = stores s \<and> execution_world s' = execution_world s \<and> run_repository s' = run_repository s
     \<and> execution_log s' = execution_log s @ [act_id a]"
  by (auto simp: mem_observer_start_def new_observation_def stores_def execution_log_def Let_def)

lemma mem_finish_law:
  "mem_observer_finish c h status md reason failure dur s = (r, s') \<Longrightarrow>
     stores s' = stores s \<and> execution_world s' = execution_world s \<and> run_repository s' = run_repository s
     \<and> execution_log s' = execution_log s"
  by (auto simp: mem_observer_finish_def finished_observation_def stores_def execution_log_def Let_def
      map_update list_update_same_conv)
     (metis list_update_beyond list_update_id length_map linorder_not_le nth_map)

text \<open>A repository operation touches nothing but the repository.\<close>

definition beside_runs where
  "beside_runs s = (stores s, execution_world s, execution_log s)"

lemma on_runs_beside [frame_intros]: "preserves beside_runs (on_runs m)"
  by (auto simp: preserves_def on_runs_def beside_runs_def stores_def execution_log_def split: prod.splits)

lemma preserves_prod [frame_intros]:
  "(\<And>x y. preserves f (g x y)) \<Longrightarrow> preserves f (case p of (x, y) \<Rightarrow> g x y)"
  by (cases p) simp

lemma bnd_after: "bnd m k s = (r, s') \<Longrightarrow> m s = (Inr x, s1) \<Longrightarrow> preserves f (k x) \<Longrightarrow> f s' = f s1"
  by (auto simp: bnd_def dest: preservesD)

lemma durable_start_law:
  assumes "durable_observer_start ops c eid a res s = (r, s')"
  shows "stores s' = stores s \<and> execution_world s' = execution_world s \<and> execution_log s' = execution_log s @ [act_id a]"
proof -
  obtain h o1 s1 where st: "mem_observer_start c eid a res s = (Inr (h, o1), s1)"
    by (auto simp: mem_observer_start_def Let_def)
  have "beside_runs s' = beside_runs s1"
    by (rule bnd_after [OF assms [unfolded durable_observer_start_def] st])
       (intro frame_intros)
  with mem_start_law [OF st] show ?thesis by (simp add: beside_runs_def)
qed

lemma durable_finish_law:
  assumes "durable_observer_finish ops c h status md reason failure dur s = (r, s')"
  shows "stores s' = stores s \<and> execution_world s' = execution_world s \<and> execution_log s' = execution_log s"
proof -
  obtain o1 s1 where st: "mem_observer_finish c h status md reason failure dur s = (Inr o1, s1)"
    by (auto simp: mem_observer_finish_def Let_def)
  have "beside_runs s' = beside_runs s1"
    by (rule bnd_after [OF assms [unfolded durable_observer_finish_def] st]) (intro frame_intros)
  with mem_finish_law [OF st] show ?thesis by (simp add: beside_runs_def)
qed

interpretation mem_rt: observed_runtime "mem_runtime reg run n dump" for reg run n dump
  by unfold_locales (auto dest: mem_start_law mem_finish_law)

interpretation durable_rt: observed_runtime "durable_runtime ops reg run n dump" for ops reg run n dump
  by unfold_locales (auto dest: durable_start_law durable_finish_law)

section \<open>The gate and the effect of processing\<close>

text \<open>The lifecycle allows the execution of an action.\<close>

definition executable :: "action_lifecycle_state option \<Rightarrow> bool" where
  "executable stored \<longleftrightarrow>
     (case stored of None \<Rightarrow> True
      | Some st \<Rightarrow> als_status st = APPROVED \<or> als_status st = QUEUED \<and> \<not> awaits_approval st)"

definition attempted :: "action_lifecycle_state option \<Rightarrow> bool" where
  "attempted stored \<longleftrightarrow> (\<exists>st. stored = Some st \<and> als_status st \<in> {APPROVED, EXECUTING, COMPLETED, SKIPPED, FAILED})"

text \<open>
  What one processing attempt of \<open>a\<close> may do from \<open>s\<close> to \<open>s'\<close>: only the lifecycle entry of \<open>a\<close> changes,
  \<open>a\<close> is re-queued at most once and then has an entry, and at most its own execution is logged.
\<close>

definition attempt_effect :: "action \<Rightarrow> ('r, 'w, 'z) process_state_scheme \<Rightarrow> ('r, 'w, 'z) process_state_scheme \<Rightarrow> bool" where
  "attempt_effect a s s' \<longleftrightarrow>
     pending_approval_registry s' = pending_approval_registry s \<and>
     (\<forall>j. j \<noteq> act_id a \<longrightarrow> lifecycle_of s' j = lifecycle_of s j) \<and>
     (action_queue s' = action_queue s \<or> action_queue s' = action_queue s @ [a] \<and> lifecycle_of s' (act_id a) \<noteq> None) \<and>
     (lifecycle_of s' (act_id a) = lifecycle_of s (act_id a) \<or> attempted (lifecycle_of s' (act_id a))) \<and>
     (execution_log s' = execution_log s \<and> execution_world s' = execution_world s
      \<or> execution_log s' = execution_log s @ [act_id a] \<and> attempted (lifecycle_of s' (act_id a)))"

lemma attempt_effect_refl: "attempt_effect a s s"
  by (simp add: attempt_effect_def)

lemma stores_eqD:
  assumes "stores s' = stores s"
  shows "action_queue s' = action_queue s" "action_lifecycle_repository s' = action_lifecycle_repository s"
    "pending_approval_registry s' = pending_approval_registry s"
  using assms by (simp_all add: stores_def)

lemma log_store_update [simp]:
  "execution_log (action_lifecycle_repository_update f s) = execution_log s"
  "execution_log (action_queue_update g s) = execution_log s"
  "execution_log (pending_approval_registry_update k s) = execution_log s"
  by (simp_all add: execution_log_def)

lemma on_world_law:
  "on_world m s = (r, s') \<Longrightarrow> stores s' = stores s \<and> execution_log s' = execution_log s \<and> run_repository s' = run_repository s"
  by (auto simp: on_world_def stores_def execution_log_def split: prod.splits)

lemma final_transition_status:
  "final_transition st r now = Inr st' \<Longrightarrow> als_status st' \<in> {COMPLETED, SKIPPED, FAILED}"
  by (auto simp: final_transition_def dest: action_transition_status split: WorkerExecutionStatus.splits)

text \<open>A retry either leaves the state as it is or stores an APPROVED entry and re-queues the action.\<close>

lemma retry_transient_cases:
  assumes "retry_transient n c a failure st s = (r, s')"
  shows "s' = s \<or> (\<exists>st'. als_status st' = APPROVED \<and> r = Inr st' \<and>
     s' = action_queue_update (queue_enqueue a) (action_lifecycle_repository_update (lifecycle_set (act_id a) st') s))"
  using assms
  by (cases r) (auto simp: retry_transient_def bnd_eq_Inr bnd_eq_Inl dest: action_transition_status
      split: option.splits if_splits)

context observed_runtime
begin

lemma executed_result:
  assumes "try_except (on_world m) (\<lambda>e. ret (g e)) s = (r, s')"
  shows "stores s' = stores s \<and> execution_log s' = execution_log s \<and> (\<exists>x. r = Inr x)"
  using assms by (auto simp: try_except_def dest: on_world_law split: prod.splits sum.splits)

lemma conclude_execution_effect:
  assumes "conclude_execution rt inp a res h st1 er s = (r, s')" "attempted (lifecycle_of s (act_id a))"
  shows "pending_approval_registry s' = pending_approval_registry s
    \<and> (\<forall>j. j \<noteq> act_id a \<longrightarrow> lifecycle_of s' j = lifecycle_of s j)
    \<and> (action_queue s' = action_queue s \<or> action_queue s' = action_queue s @ [a])
    \<and> attempted (lifecycle_of s' (act_id a)) \<and> execution_log s' = execution_log s"
proof -
  obtain fr s4 where fin: "wr_observer_finish rt (wi_finish_clock inp) h (wer_status er) (wer_metadata er)
      (wer_reason er) (failure_for_result er) (wi_duration inp) s = (fr, s4)" by fastforce
  note l4 = finish_law [OF fin] stores_eqD [of s4 s]
  consider (stop) "s' = s4"
    | (goes) st2 rr s6 where "als_status st2 \<in> {COMPLETED, SKIPPED, FAILED}" "s' = s6"
      "retry_transient (wr_max_transient_retries rt) (wi_clock inp) a (failure_for_result er) st2
         (action_lifecycle_repository_update (lifecycle_set (act_id a) st2) s4) = (rr, s6)"
    using assms(1) fin final_transition_status
    by (fastforce simp: conclude_execution_def Let_def bnd_def split: sum.splits prod.splits)
  then show ?thesis
  proof cases
    case stop
    with l4 assms(2) show ?thesis by auto
  next
    case goes
    with retry_transient_cases [OF goes(3)] l4 show ?thesis
      by (auto simp: lifecycle.get_put attempted_def queue_enqueue_def)
  qed
qed

lemma execute_approved_effect:
  assumes "execute_approved rt inp a st0 s = (r, s')"
  shows "attempt_effect a s s'"
proof (cases "action_transition st0 EXECUTING None None (now_utc (wi_clock inp) 2)")
  case (Inl e)
  with assms show ?thesis by (simp add: execute_approved_def bnd_def attempt_effect_refl)
next
  case (Inr st1)
  have st1: "als_status st1 = EXECUTING" using Inr by (rule action_transition_status)
  define s1 where "s1 = action_lifecycle_repository_update (lifecycle_set (act_id a) st1) s"
  let ?res = "resolve_with_registration (wr_registry rt) a"
  obtain sr s2 where start: "wr_observer_start rt (wi_start_clock inp) (wi_execution_id inp) a ?res s1 = (sr, s2)"
    by fastforce
  note l2 = start_law [OF start] stores_eqD [of s2 s1]
  obtain er s3 where run: "try_except (on_world (resolution_execute (wr_run rt) ?res a))
      (\<lambda>e. ret (executor_raised a e)) s2 = (Inr er, s3)"
    using executed_result by (metis surj_pair)
  note l3 = executed_result [OF run] stores_eqD [of s3 s2]
  have mine: "attempted (lifecycle_of s1 (act_id a))"
    by (simp add: s1_def lifecycle.get_put attempted_def st1)
  consider (stop) "s' = s2" | (goes) h where "conclude_execution rt inp a ?res h st1 er s3 = (r, s')"
    using assms Inr start run
    by (auto simp: execute_approved_def bnd_def s1_def Let_def split: sum.splits prod.splits)
  then show ?thesis
  proof cases
    case stop
    with l2 mine show ?thesis by (auto simp: attempt_effect_def s1_def lifecycle.get_put)
  next
    case goes
    from conclude_execution_effect [OF this] l2 l3 mine show ?thesis
      by (auto simp: attempt_effect_def s1_def lifecycle.get_put attempted_def)
  qed
qed

lemma process_dequeued_effect:
  assumes "process_dequeued_action rt inp a s = (r, s')"
  shows "attempt_effect a s s'"
proof -
  let ?i = "act_id a"
  consider (same) "s' = s"
    | (held) st where "lifecycle_of s ?i = Some st" "s' = action_queue_update (queue_enqueue a) s"
    | (goes) st0 where "execute_approved rt inp a st0 s = (r, s')"
    using assms
    by (cases "lifecycle_of s ?i")
       (auto simp: process_dequeued_action_def bnd_def awaits_approval_def pd_get_def split: sum.splits if_splits)
  then show ?thesis
  proof cases
    case same
    then show ?thesis by (simp add: attempt_effect_refl)
  next
    case (held st)
    then show ?thesis by (simp add: attempt_effect_def queue_enqueue_def)
  next
    case goes
    then show ?thesis by (rule execute_approved_effect)
  qed
qed

text \<open>The gate: an action whose lifecycle does not allow execution is not executed.\<close>

lemma process_dequeued_gate:
  assumes "process_dequeued_action rt inp a s = (r, s')" "\<not> executable (lifecycle_of s (act_id a))"
  shows "(\<exists>res. r = Inr res \<and> \<not> wpres_processed res) \<and> execution_log s' = execution_log s
     \<and> execution_world s' = execution_world s \<and> action_lifecycle_repository s' = action_lifecycle_repository s
     \<and> pending_approval_registry s' = pending_approval_registry s"
proof (cases "lifecycle_of s (act_id a)")
  case None
  with assms(2) show ?thesis by (simp add: executable_def)
next
  case (Some st)
  show ?thesis
  proof (cases "awaits_approval st")
    case True
    with assms(1) Some show ?thesis by (auto simp: process_dequeued_action_def bnd_def held_result_def)
  next
    case False
    with assms(2) Some have "als_status st \<noteq> APPROVED" "als_status st \<noteq> QUEUED" by (auto simp: executable_def)
    with False assms(1) Some show ?thesis by (auto simp: process_dequeued_action_def bnd_def held_result_def)
  qed
qed

text \<open>The queue loses its head, and nothing else than the attempt happens.\<close>

lemma process_next_cases:
  assumes "process_next rt inp s = (r, s')"
  obtains "action_queue s = []" "s' = s" "r = Inr (unprocessed_result None)"
  | a q where "action_queue s = a # q" "process_dequeued_action rt inp a (s\<lparr>action_queue := q\<rparr>) = (r, s')"
  using assms
  by (cases "action_queue s") (auto simp: process_next_def bnd_def queue_dequeue_def)

lemma process_action_cases:
  assumes "process_action rt inp i s = (r, s')"
  obtains "s' = s" "\<exists>res. r = Inr res \<and> \<not> wpres_processed res"
  | a as bs where "action_queue s = as @ a # bs" "act_id a = i"
      "process_dequeued_action rt inp a (s\<lparr>action_queue := as @ bs\<rparr>) = (r, s')"
proof (cases "queue_get i (action_queue s)")
  case None
  with assms that(1) show thesis by (fastforce simp: process_action_def bnd_def unprocessed_result_def)
next
  case (Some a)
  then obtain q where rem: "queue_remove i (action_queue s) = (Some a, q)"
    using queue.find_iff_remove by (metis prod.collapse)
  obtain as bs where q: "action_queue s = as @ a # bs" "q = as @ bs" "act_id a = i"
    using queue.remove_keeps_order [of i "action_queue s" a] rem by (auto simp: queue_list_def)
  show thesis
  proof (cases "case lifecycle_of s (act_id a) of None \<Rightarrow> False | Some st \<Rightarrow> awaits_approval st")
    case True
    with assms Some that(1) show thesis
      by (auto simp: process_action_def bnd_def held_result_def split: option.splits)
  next
    case False
    with assms Some rem have "process_dequeued_action rt inp a (s\<lparr>action_queue := q\<rparr>) = (r, s')"
      by (auto simp: process_action_def claim_and_process_def bnd_def split: option.splits)
    with q that(2) show thesis by blast
  qed
qed

end

section \<open>Every attempt concludes\<close>

definition retry_counter :: "action_lifecycle_state \<Rightarrow> pyval" where
  "retry_counter st = pd_get_or (als_metadata st) ''transient_retry_count'' (PInt 0)"

text \<open>The state of an approved action that has been retried \<open>k\<close> times.\<close>

definition approved_after :: "int \<Rightarrow> action_lifecycle_state option \<Rightarrow> bool" where
  "approved_after k stored \<longleftrightarrow>
     (\<exists>st. stored = Some st \<and> wf_lifecycle st \<and> als_status st = APPROVED \<and> retry_counter st = PInt k)"

definition concluded :: "action_lifecycle_state option \<Rightarrow> bool" where
  "concluded stored \<longleftrightarrow> (\<exists>st. stored = Some st \<and> wf_lifecycle st \<and> als_status st \<in> {COMPLETED, SKIPPED, FAILED})"

lemma retry_transient_concludes:
  assumes st: "wf_lifecycle st" "als_status st \<in> {COMPLETED, SKIPPED, FAILED}" "retry_counter st = PInt k"
    and stored: "lifecycle_of s (act_id a) = Some st"
  shows "\<exists>st' s'. retry_transient n c a failure st s = (Inr st', s') \<and>
     (s' = s \<or> k < n \<and> approved_after (k + 1) (lifecycle_of s' (act_id a)) \<and> action_queue s' = action_queue s @ [a]
        \<and> (\<forall>j. j \<noteq> act_id a \<longrightarrow> lifecycle_of s' j = lifecycle_of s j))"
proof (cases "\<exists>f. failure = Some f \<and> als_status st = FAILED \<and> wef_category f = TRANSIENT \<and> k < n")
  case False
  then have "retry_transient n c a failure st s = (Inr st, s)"
    using st(3) by (auto simp: retry_transient_def bnd_def retry_counter_def split: option.splits)
  then show ?thesis by blast
next
  case True
  then obtain f where f: "failure = Some f" "als_status st = FAILED" "wef_category f = TRANSIENT" "k < n" by blast
  define st1 where "st1 = \<lparr>als_status = QUEUED, als_created_at = als_created_at st, als_updated_at = now_utc c 4,
      als_reason = None, als_metadata = dict_merge (als_metadata st) [(''transient_retry_count'', PInt (k + 1))]\<rparr>"
  define st2 where "st2 = st1\<lparr>als_status := APPROVED, als_updated_at := now_utc c 5\<rparr>"
  have t1: "action_transition st QUEUED None (Some [(''transient_retry_count'', PInt (k + 1))]) (now_utc c 4) = Inr st1"
    using st(1) f(2) by (simp add: action_transition_ok valid_transitions_def st1_def normalize_blank_reason_def)
  have w1: "wf_lifecycle st1" using t1 by (rule action_transition_wf)
  have t2: "action_transition st1 APPROVED None None (now_utc c 5) = Inr st2"
    using w1 by (simp add: action_transition_ok valid_transitions_def st1_def st2_def normalize_blank_reason_def)
  have "retry_transient n c a failure st s =
      (Inr st2, action_queue_update (queue_enqueue a) (action_lifecycle_repository_update (lifecycle_set (act_id a) st2) s))"
    using f st(3) t1 t2 by (simp add: retry_transient_def bnd_def retry_counter_def)
  moreover have "retry_counter st2 = PInt (k + 1)"
    by (simp add: st2_def st1_def retry_counter_def pd_get_or_def dict_merge_get)
  moreover have "wf_lifecycle st2" "als_status st2 = APPROVED"
    using action_transition_wf [OF t2] by (simp_all add: st2_def)
  ultimately show ?thesis
    using f(4) by (auto simp: approved_after_def lifecycle.get_put queue_enqueue_def)
qed

lemma final_transition_concludes:
  assumes "wf_lifecycle st" "als_status st = EXECUTING" "retry_counter st = PInt k"
  shows "\<exists>st'. final_transition st r (now_utc c j) = Inr st' \<and> wf_lifecycle st'
     \<and> als_status st' \<in> {COMPLETED, SKIPPED, FAILED} \<and> retry_counter st' = PInt k"
  using assms
  by (auto simp: final_transition_def action_transition_ok valid_transitions_def wf_lifecycle_def
      normalize_blank_reason_def retry_counter_def split: WorkerExecutionStatus.splits option.splits)

text \<open>The durable observer raises only on the canonical route, and only what an operation of the run repository raised.\<close>

definition store_refused :: "'r run_ops \<Rightarrow> uuid \<Rightarrow> exc \<Rightarrow> bool" where
  "store_refused ops i e \<longleftrightarrow>
     (\<exists>c target role cap deleg obj appr q q'. run_register_action ops c i target role cap deleg obj appr q = (Inl e, q'))
     \<or> (\<exists>c t q q'. run_record_execution_started ops c i t q = (Inl e, q'))
     \<or> (\<exists>c status t performed q q'. run_record_execution ops c i status t performed q = (Inl e, q'))"

lemma on_runs_observations [frame_intros]: "preserves execution_observations (on_runs m)"
  by (auto simp: preserves_def on_runs_def split: prod.splits)

lemma on_runs_raises: "on_runs m s = (Inl e, s') \<Longrightarrow> \<exists>q'. m (run_repository s) = (Inl e, q')"
  by (auto simp: on_runs_def split: prod.splits)

lemma durable_start_outcome:
  assumes "durable_observer_start ops c eid a res s = (r, s')"
  shows "execution_observations s' = execution_observations s @ [new_observation eid (now_utc c 0) a res]
    \<and> (case r of
        Inr (h, o1) \<Rightarrow> h = length (execution_observations s)
      | Inl e \<Rightarrow> is_canonical_route (res_requested_role res) (res_requested_capability res) \<and> store_refused ops (act_id a) e)"
proof -
  let ?o = "new_observation eid (now_utc c 0) a res" and ?h = "length (execution_observations s)"
  let ?s1 = "s\<lparr>execution_observations := execution_observations s @ [?o]\<rparr>"
  have st: "mem_observer_start c eid a res s = (Inr (?h, ?o), ?s1)" by (simp add: mem_observer_start_def Let_def)
  have "execution_observations s' = execution_observations ?s1"
    by (rule bnd_after [OF assms [unfolded durable_observer_start_def] st]) (intro frame_intros)
  moreover have "case r of Inr (h, o1) \<Rightarrow> h = ?h
      | Inl e \<Rightarrow> is_canonical_route (res_requested_role res) (res_requested_capability res) \<and> store_refused ops (act_id a) e"
  proof (cases r)
    case (Inl e)
    with assms st show ?thesis
      by (auto simp: durable_observer_start_def bnd_eq_Inl store_refused_def dest!: on_runs_raises split: if_splits; blast)
  next
    case (Inr x)
    with assms st show ?thesis by (auto simp: durable_observer_start_def bnd_eq_Inr split: prod.splits)
  qed
  ultimately show ?thesis by simp
qed

lemma durable_finish_outcome:
  assumes "durable_observer_finish ops c h status md reason failure dur s = (Inl e, s')"
    and "execution_observations s ! h = new_observation eid t a res"
  shows "is_canonical_route (res_requested_role res) (res_requested_capability res) \<and> store_refused ops (act_id a) e"
proof -
  let ?o = "finished_observation (now_utc c 0) status md reason failure dur (new_observation eid t a res)"
  have "obs_requested_role ?o = res_requested_role res" "obs_requested_capability ?o = res_requested_capability res"
    "obs_action_id ?o = act_id a" "obs_finished_at ?o = Some (now_utc c 0)"
    by (simp_all add: finished_observation_def new_observation_def)
  moreover have "mem_observer_finish c h status md reason failure dur s
      = (Inr ?o, s\<lparr>execution_observations := (execution_observations s)[h := ?o]\<rparr>)"
    by (simp add: mem_observer_finish_def assms(2) Let_def)
  ultimately show ?thesis
    using assms(1)
    by (auto simp: durable_observer_finish_def bnd_eq_Inl store_refused_def dest!: on_runs_raises split: if_splits; blast)
qed

text \<open>An attempt that raised: its action was on the canonical route, the run repository refused a record of it, and it is left
  EXECUTING.\<close>

definition left_executing ::
  "'r run_ops \<Rightarrow> 'x executor_registry \<Rightarrow> action \<Rightarrow> exc \<Rightarrow> ('r, 'w, 'z) process_state_scheme \<Rightarrow> bool" where
  "left_executing ops reg a e s \<longleftrightarrow>
     (let res = resolve_with_registration reg a in
        is_canonical_route (res_requested_role res) (res_requested_capability res))
     \<and> store_refused ops (act_id a) e \<and> (\<exists>st. lifecycle_of s (act_id a) = Some st \<and> als_status st = EXECUTING)"

lemma durable_conclude:
  fixes s :: "('r, 'w, 'z) process_state_scheme" and reg :: "'x executor_registry"
  assumes "conclude_execution (durable_runtime ops reg run n dump) inp a res h st1 er s = (r, s')"
    and st1: "als_status st1 = EXECUTING" "wf_lifecycle st1" "retry_counter st1 = PInt k" "lifecycle_of s (act_id a) = Some st1"
    and obs: "execution_observations s ! h = new_observation eid t a res"
  shows "case r of
      Inr x \<Rightarrow> wpres_processed x \<and> (concluded (lifecycle_of s' (act_id a)) \<and> action_queue s' = action_queue s
        \<or> k < n \<and> approved_after (k + 1) (lifecycle_of s' (act_id a)) \<and> action_queue s' = action_queue s @ [a])
    | Inl e \<Rightarrow> is_canonical_route (res_requested_role res) (res_requested_capability res) \<and> store_refused ops (act_id a) e
        \<and> lifecycle_of s' (act_id a) = Some st1 \<and> action_queue s' = action_queue s"
proof -
  let ?fail = "failure_for_result er"
  obtain fr s4 where fin: "durable_observer_finish ops (wi_finish_clock inp) h (wer_status er) (wer_metadata er) (wer_reason er)
      ?fail (wi_duration inp) s = (fr, s4)" by fastforce
  have "stores s4 = stores s" using durable_finish_law [OF fin] by simp
  note same = stores_eqD(1,2) [OF this]
  obtain st2 where ft: "final_transition st1 er (now_utc (wi_clock inp) 3) = Inr st2"
    and st2: "wf_lifecycle st2" "als_status st2 \<in> {COMPLETED, SKIPPED, FAILED}" "retry_counter st2 = PInt k"
    using final_transition_concludes [OF st1(2,1,3)] by blast
  define s5 where "s5 = action_lifecycle_repository_update (lifecycle_set (act_id a) st2) s4"
  have stored: "lifecycle_of s5 (act_id a) = Some st2" by (simp add: s5_def lifecycle.get_put)
  obtain st3 s6 where retry: "retry_transient n (wi_clock inp) a ?fail st2 s5 = (Inr st3, s6)"
    "s6 = s5 \<or> k < n \<and> approved_after (k + 1) (lifecycle_of s6 (act_id a)) \<and> action_queue s6 = action_queue s5 @ [a]"
    using retry_transient_concludes [OF st2 stored] by metis
  show ?thesis
  proof (cases fr)
    case (Inl e)
    then have "r = Inl e" "s' = s4" using assms(1) fin by (simp_all add: conclude_execution_def bnd_def Let_def)
    with durable_finish_outcome [OF fin [unfolded Inl] obs] same st1(4) show ?thesis by simp
  next
    case (Inr o1)
    then have "\<exists>x. conclude_execution (durable_runtime ops reg run n dump) inp a res h st1 er s = (Inr x, s6) \<and> wpres_processed x"
      using fin ft retry(1) by (simp add: conclude_execution_def bnd_def s5_def Let_def)
    then obtain x where x: "s' = s6" "r = Inr x" "wpres_processed x" using assms(1) by auto
    have "action_queue s5 = action_queue s" by (simp add: s5_def same)
    moreover have "concluded (lifecycle_of s5 (act_id a))" using stored st2 by (simp add: concluded_def)
    ultimately show ?thesis using retry(2) x by auto
  qed
qed

lemma durable_attempt:
  fixes s :: "('r, 'w, 'z) process_state_scheme" and reg :: "'x executor_registry"
  assumes "approved_after k (lifecycle_of s (act_id a))"
    and "process_dequeued_action (durable_runtime ops reg run n dump) inp a s = (r, s')"
  shows "case r of
      Inr x \<Rightarrow> wpres_processed x \<and> (concluded (lifecycle_of s' (act_id a)) \<and> action_queue s' = action_queue s
        \<or> k < n \<and> approved_after (k + 1) (lifecycle_of s' (act_id a)) \<and> action_queue s' = action_queue s @ [a])
    | Inl e \<Rightarrow> left_executing ops reg a e s' \<and> action_queue s' = action_queue s"
proof -
  let ?rt = "durable_runtime ops reg run n dump :: ('r, 'w, 'z, 'x) worker_runtime"
  let ?res = "resolve_with_registration reg a"
  obtain st where st: "lifecycle_of s (act_id a) = Some st" "wf_lifecycle st" "als_status st = APPROVED"
    "retry_counter st = PInt k" using assms(1) by (auto simp: approved_after_def)
  obtain st1 where t1: "action_transition st EXECUTING None None (now_utc (wi_clock inp) 2) = Inr st1"
    and st1: "als_status st1 = EXECUTING" "wf_lifecycle st1" "retry_counter st1 = PInt k"
    using action_transition_ok [OF st(2), of EXECUTING None None "wi_clock inp" 2] st(3,4)
      action_transition_wf [of st EXECUTING None None]
    by (simp add: valid_transitions_def retry_counter_def)
  define s1 where "s1 = action_lifecycle_repository_update (lifecycle_set (act_id a) st1) s"
  have mine: "lifecycle_of s1 (act_id a) = Some st1" by (simp add: s1_def lifecycle.get_put)
  have run: "execute_approved ?rt inp a st s = (r, s')"
    using assms(2) st by (simp add: process_dequeued_action_def bnd_def awaits_approval_def)
  obtain sr s2 where start: "durable_observer_start ops (wi_start_clock inp) (wi_execution_id inp) a ?res s1 = (sr, s2)" by fastforce
  note start_out = durable_start_outcome [OF start] and l2 = durable_start_law [OF start] stores_eqD [of s2 s1]
  show ?thesis
  proof (cases sr)
    case (Inl e)
    then have "r = Inl e" "s' = s2" using run t1 start by (simp_all add: execute_approved_def bnd_def s1_def Let_def)
    with Inl start_out l2 mine st1(1) show ?thesis by (simp add: left_executing_def s1_def)
  next
    case (Inr ho)
    obtain h o1 where ho: "ho = (h, o1)" by fastforce
    obtain er s3 where ex: "try_except (on_world (resolution_execute run ?res a)) (\<lambda>e. ret (executor_raised a e)) s2 = (Inr er, s3)"
      using mem_rt.executed_result by (metis surj_pair)
    have l3: "stores s3 = stores s2" using mem_rt.executed_result [OF ex] by simp
    have "execution_observations s3 = execution_observations s2"
      using ex by (auto simp: try_except_def on_world_def split: prod.splits sum.splits)
    then have obs: "execution_observations s3 ! h = new_observation (wi_execution_id inp) (now_utc (wi_start_clock inp) 0) a ?res"
      using start_out Inr ho by simp
    have "conclude_execution ?rt inp a ?res h st1 er s3 = (r, s')"
      using run t1 start Inr ho ex by (simp add: execute_approved_def bnd_def s1_def Let_def)
    from durable_conclude [OF this st1 _ obs] mine stores_eqD [OF l3] l2 st1(1) show ?thesis
      by (cases r) (simp_all add: left_executing_def s1_def)
  qed
qed

section \<open>Retries end\<close>

text \<open>How many attempts a queue can need: each action one, and one for each retry it has left.\<close>

definition attempts_left :: "int \<Rightarrow> (uuid \<Rightarrow> int) \<Rightarrow> action list \<Rightarrow> nat" where
  "attempts_left n k q = (\<Sum>a\<leftarrow>q. Suc (nat (n - k (act_id a))))"

lemma attempts_left_simps [simp]:
  "attempts_left n k [] = 0" "attempts_left n k (a # q) = Suc (nat (n - k (act_id a))) + attempts_left n k q"
  "attempts_left n k (q @ [a]) = attempts_left n k q + Suc (nat (n - k (act_id a)))"
  by (simp_all add: attempts_left_def)

lemma attempts_left_other: "act_id a \<notin> act_id ` set q \<Longrightarrow> attempts_left n (k(act_id a := v)) q = attempts_left n k q"
  unfolding attempts_left_def by (intro arg_cong [where f = sum_list] map_cong) (auto simp: image_iff)

lemma process_next_head:
  assumes "action_queue s = a # q" "process_dequeued_action rt inp a (s\<lparr>action_queue := q\<rparr>) = (r, s')"
  shows "process_next rt inp s = (r, s')"
  using assms by (simp add: process_next_def bnd_def queue_dequeue_def)

lemma process_next_empty: "action_queue s = [] \<Longrightarrow> process_next rt inp s = (Inr (unprocessed_result None), s)"
  by (simp add: process_next_def bnd_def queue_dequeue_def)

definition all_approved :: "(uuid \<Rightarrow> int) \<Rightarrow> ('r, 'w, 'z) process_state_scheme \<Rightarrow> bool" where
  "all_approved k s \<longleftrightarrow> distinct (map act_id (action_queue s))
     \<and> (\<forall>a\<in>set (action_queue s). approved_after (k (act_id a)) (lifecycle_of s (act_id a)))"

text \<open>What a run of the loop from \<open>s\<close> to \<open>s'\<close> has done, with at most \<open>d\<close> attempts.\<close>

definition drained ::
  "'r run_ops \<Rightarrow> 'x executor_registry \<Rightarrow> nat \<Rightarrow> ('r, 'w, 'z) process_state_scheme \<Rightarrow> worker_processing_result list result
     \<Rightarrow> ('r, 'w, 'z) process_state_scheme \<Rightarrow> bool" where
  "drained ops reg d s r s' \<longleftrightarrow>
     (\<forall>j. j \<notin> act_id ` set (action_queue s) \<longrightarrow> lifecycle_of s' j = lifecycle_of s j) \<and>
     (case r of
        Inr results \<Rightarrow> action_queue s' = [] \<and> (\<forall>a\<in>set (action_queue s). concluded (lifecycle_of s' (act_id a)))
          \<and> length (filter wpres_processed results) \<le> d
      | Inl e \<Rightarrow> \<exists>a\<in>set (action_queue s). left_executing ops reg a e s')"

lemma invoke_loop_drains:
  fixes s :: "('r, 'w, 'z) process_state_scheme" and reg :: "'x executor_registry"
  assumes "all_approved k s" "attempts_left n k (action_queue s) \<le> length inps"
    and "invoke_loop (durable_runtime ops reg run n dump) inps s = (r, s')"
  shows "drained ops reg (attempts_left n k (action_queue s)) s r s'"
  using assms
proof (induction inps arbitrary: s k r s')
  case Nil
  then have "action_queue s = []" by (cases "action_queue s") auto
  with Nil show ?case by (auto simp: drained_def)
next
  case (Cons inp inps)
  let ?rt = "durable_runtime ops reg run n dump :: ('r, 'w, 'z, 'x) worker_runtime"
  show ?case
  proof (cases "action_queue s")
    case Nil
    with Cons.prems(3) process_next_empty [OF Nil, of ?rt inp] show ?thesis
      by (auto simp: bnd_def unprocessed_result_def drained_def)
  next
    case (Cons a q)
    let ?s0 = "s\<lparr>action_queue := q\<rparr>" and ?i = "act_id a"
    have fresh: "?i \<notin> act_id ` set q" using Cons.prems(1) Cons by (simp add: all_approved_def)
    obtain ra s1 where att: "process_dequeued_action ?rt inp a ?s0 = (ra, s1)" by fastforce
    note next1 = process_next_head [OF Cons att]
    have "approved_after (k ?i) (lifecycle_of ?s0 ?i)" using Cons.prems(1) Cons by (simp add: all_approved_def)
    note out = durable_attempt [OF this att]
    have frame: "lifecycle_of s1 j = lifecycle_of s j" if "j \<noteq> ?i" for j
      using durable_rt.process_dequeued_effect [OF att] that by (simp add: attempt_effect_def)
    show ?thesis
    proof (cases ra)
      case (Inl e)
      then have "r = Inl e" "s' = s1" using Cons.prems(3) next1 by (simp_all add: bnd_def)
      with out Inl frame Cons show ?thesis by (auto simp: drained_def)
    next
      case (Inr res)
      obtain rl where loop: "invoke_loop ?rt inps s1 = (rl, s')" "r = (case rl of Inl e \<Rightarrow> Inl e | Inr rs \<Rightarrow> Inr (res # rs))"
        using Cons.prems(3) next1 Inr out by (auto simp: bnd_def split: prod.splits sum.splits)
      have others: "\<forall>b\<in>set q. approved_after (k (act_id b)) (lifecycle_of s1 (act_id b))"
        using Cons.prems(1) Cons frame fresh by (auto simp: all_approved_def image_iff)
      consider (over) "concluded (lifecycle_of s1 ?i)" "action_queue s1 = q"
        | (again) "k ?i < n" "approved_after (k ?i + 1) (lifecycle_of s1 ?i)" "action_queue s1 = q @ [a]"
        using out Inr by auto
      then show ?thesis
      proof cases
        case over
        have "drained ops reg (attempts_left n k (action_queue s1)) s1 rl s'"
          by (rule Cons.IH [OF _ _ loop(1)])
             (use over others Cons.prems(1,2) Cons in \<open>auto simp: all_approved_def\<close>)
        with over Cons frame fresh loop(2) show ?thesis
          by (auto simp: drained_def split: sum.splits)
      next
        case again
        let ?k = "k(?i := k ?i + 1)"
        have less: "Suc (attempts_left n ?k (action_queue s1)) = attempts_left n k (action_queue s)"
          using again(1,3) Cons attempts_left_other [OF fresh] by simp
        have "all_approved ?k s1"
          using again(2,3) others Cons.prems(1) Cons fresh by (auto simp: all_approved_def image_iff)
        moreover have "attempts_left n ?k (action_queue s1) \<le> length inps" using less Cons.prems(2) by simp
        ultimately have "drained ops reg (attempts_left n ?k (action_queue s1)) s1 rl s'" using loop(1) by (rule Cons.IH)
        with again(3) Cons frame loop(2) less show ?thesis
          by (auto simp: drained_def split: sum.splits)
      qed
    qed
  qed
qed

section \<open>Bounds of an invocation\<close>

lemma invoke_loop_length:
  "invoke_loop rt inps s = (Inr rs, s') \<Longrightarrow> length rs \<le> length inps \<and> length (filter wpres_processed rs) \<le> length inps"
proof (induction inps arbitrary: s rs)
  case Nil
  then show ?case by simp
next
  case (Cons inp inps)
  then show ?case
    by (fastforce simp: bnd_eq_Inr split: if_splits)
qed

end
