(* ===== verification/SE_Sqlite.thy ===== *)
theory SE_Sqlite
  imports SE_Runs "HOL-Library.Char_ord" "HOL-Library.List_Lexorder" "HOL-Library.Product_Lexorder"
begin

text \<open>
  \<open>integrations/software_engineering_state.py\<close>, second part: the SQLite repository. The table is the list
  of its rows in insertion order, a row has the columns of the schema (TEXT as strings, INTEGER as
  integers, NULL as \<open>None\<close>). Every connection is one transaction, committed when its block ends and rolled
  back when the block raises. \<open>db_up\<close> says of each transaction, in the order they happen, whether the
  database serves it, refuses the connection or fails in it: every \<open>sqlite3.Error\<close> branch is reachable.
\<close>

section \<open>Rows\<close>

record sql_row =
  c_action_id :: string
  c_executor_role :: string
  c_capability :: string
  c_target :: string
  c_delegation_status :: "string option"
  c_pending_objective :: "string option"
  c_approval_status :: "string option"
  c_approved_at :: "string option"
  c_rejected_at :: "string option"
  c_claim_id :: "string option"
  c_claimed_at :: "string option"
  c_execution_started_at :: "string option"
  c_claim_resolution :: "string option"
  c_claim_reconciled_at :: "string option"
  c_execution_status :: "string option"
  c_execution_finished_at :: "string option"
  c_external_execution_performed :: "int option"
  c_disposition :: "string option"
  c_disposition_succeeded :: "int option"
  c_worktree_present :: "int option"
  c_branch_present :: "int option"
  c_canonical_unchanged :: "int option"
  c_promotion_commit_sha :: "string option"
  c_pull_request_number :: "int option"
  c_pull_request_url :: "string option"
  c_promotion_base_branch :: "string option"
  c_promotion_head_branch :: "string option"
  c_promotion_finished_at :: "string option"
  c_created_at :: string
  c_updated_at :: string

definition int_of_bool :: "bool \<Rightarrow> int" where
  "int_of_bool b = (if b then 1 else 0)"

definition optional_bool :: "int option \<Rightarrow> bool option result" where
  "optional_bool v = Inr (map_option (\<lambda>n. n \<noteq> 0) v)"

definition optional_with :: "('a \<Rightarrow> 'b result) \<Rightarrow> 'a option \<Rightarrow> 'b option result" where
  "optional_with f v = (case v of None \<Rightarrow> Inr None | Some x \<Rightarrow> rbind (f x) (\<lambda>y. Inr (Some y)))"

definition optional_datetime :: "string option \<Rightarrow> datetime option result" where
  "optional_datetime v = optional_with (\<lambda>s. rbind (fromisoformat s) require_aware) v"

definition approval_status_of :: "string \<Rightarrow> SoftwareEngineeringApprovalStatus result" where
  "approval_status_of s =
     (if s = ''awaiting_approval'' then Inr AWAITING_APPROVAL
      else if s = ''approved'' then Inr SE_APPROVED
      else if s = ''rejected'' then Inr SE_REJECTED
      else Inl (ValueError (s @ '' is not a valid SoftwareEngineeringApprovalStatus'')))"

definition claim_resolution_of :: "string \<Rightarrow> SoftwareEngineeringClaimResolution result" where
  "claim_resolution_of s =
     (if s = ''released_before_start'' then Inr RELEASED_BEFORE_START
      else if s = ''abandoned_after_start'' then Inr ABANDONED_AFTER_START
      else Inl (ValueError (s @ '' is not a valid SoftwareEngineeringClaimResolution'')))"

definition disposition_of :: "string \<Rightarrow> WorkProductDisposition result" where
  "disposition_of s =
     (if s = ''keep'' then Inr KEEP else if s = ''discard'' then Inr DISCARD
      else Inl (ValueError (s @ '' is not a valid WorkProductDisposition'')))"

text \<open>\<open>except (KeyError, TypeError, ValueError)\<close> around the decoding.\<close>

fun row_error :: "exc \<Rightarrow> exc" where
  "row_error (KeyError m) = run_error ''software engineering durable state is invalid''"
| "row_error (TypeError m) = run_error ''software engineering durable state is invalid''"
| "row_error (ValueError m) = run_error ''software engineering durable state is invalid''"
| "row_error e = e"

definition state_from_row :: "sql_row \<Rightarrow> run_state result" where
  "state_from_row row = map_sum row_error id
     (rbind (uuid_of_str (c_action_id row)) (\<lambda>action_id.
      rbind (optional_with approval_status_of (c_approval_status row)) (\<lambda>approval.
      rbind (optional_datetime (c_approved_at row)) (\<lambda>approved_at.
      rbind (optional_datetime (c_rejected_at row)) (\<lambda>rejected_at.
      rbind (optional_with uuid_of_str (c_claim_id row)) (\<lambda>claim_id.
      rbind (optional_datetime (c_claimed_at row)) (\<lambda>claimed_at.
      rbind (optional_datetime (c_execution_started_at row)) (\<lambda>started_at.
      rbind (optional_with claim_resolution_of (c_claim_resolution row)) (\<lambda>resolution.
      rbind (optional_datetime (c_claim_reconciled_at row)) (\<lambda>reconciled_at.
      rbind (optional_datetime (c_execution_finished_at row)) (\<lambda>finished_at.
      rbind (optional_bool (c_external_execution_performed row)) (\<lambda>performed.
      rbind (optional_with disposition_of (c_disposition row)) (\<lambda>disposition.
      rbind (optional_bool (c_disposition_succeeded row)) (\<lambda>disposition_succeeded.
      rbind (optional_bool (c_worktree_present row)) (\<lambda>worktree_present.
      rbind (optional_bool (c_branch_present row)) (\<lambda>branch_present.
      rbind (optional_bool (c_canonical_unchanged row)) (\<lambda>canonical_unchanged.
      rbind (optional_datetime (c_promotion_finished_at row)) (\<lambda>promotion_finished_at.
      rbind (optional_datetime (Some (c_created_at row))) (\<lambda>created_at.
      rbind (optional_datetime (Some (c_updated_at row))) (\<lambda>updated_at.
      Inr \<lparr>rs_action_id = action_id, rs_executor_role = c_executor_role row,
           rs_capability = c_capability row, rs_target = c_target row,
           rs_delegation_status = c_delegation_status row,
           rs_pending_objective = c_pending_objective row, rs_approval_status = approval,
           rs_approved_at = approved_at, rs_rejected_at = rejected_at, rs_claim_id = claim_id,
           rs_claimed_at = claimed_at, rs_execution_started_at = started_at,
           rs_claim_resolution = resolution, rs_claim_reconciled_at = reconciled_at,
           rs_execution_status = c_execution_status row, rs_execution_finished_at = finished_at,
           rs_external_execution_performed = performed, rs_disposition = disposition,
           rs_disposition_succeeded = disposition_succeeded, rs_worktree_present = worktree_present,
           rs_branch_present = branch_present, rs_canonical_unchanged = canonical_unchanged,
           rs_promotion_commit_sha = c_promotion_commit_sha row,
           rs_pull_request_number = c_pull_request_number row,
           rs_pull_request_url = c_pull_request_url row,
           rs_promotion_base_branch = c_promotion_base_branch row,
           rs_promotion_head_branch = c_promotion_head_branch row,
           rs_promotion_finished_at = promotion_finished_at, rs_created_at = created_at,
           rs_updated_at = updated_at\<rparr>))))))))))))))))))))"

section \<open>Transactions\<close>

datatype sql_service = SqlOk | SqlConnectError | SqlError

record sqlite_db =
  db_rows :: "sql_row list"
  db_up :: "nat \<Rightarrow> sql_service"
  db_next :: nat

definition sql_tx :: "string \<Rightarrow> (sql_row list, 'a) prog \<Rightarrow> (sqlite_db, 'a) prog" where
  "sql_tx failure body db =
     (let db1 = db\<lparr>db_next := Suc (db_next db)\<rparr> in
      case db_up db (db_next db) of
        SqlConnectError \<Rightarrow> (Inl (run_error ''software engineering state database is unavailable''), db1)
      | SqlError \<Rightarrow> (Inl (run_error failure), db1)
      | SqlOk \<Rightarrow>
          (case body (db_rows db) of
             (Inl e, rows) \<Rightarrow> (Inl e, db1)
           | (Inr x, rows) \<Rightarrow> (Inr x, db1\<lparr>db_rows := rows\<rparr>)))"

definition select_row :: "uuid \<Rightarrow> (sql_row list, sql_row option) prog" where
  "select_row i = gets (find_first (\<lambda>row. c_action_id row = uuid_str i))"

text \<open>\<open>UPDATE ... WHERE\<close>, with the number of rows it changed.\<close>

definition update_where :: "(sql_row \<Rightarrow> bool) \<Rightarrow> (sql_row \<Rightarrow> sql_row) \<Rightarrow> (sql_row list, nat) prog" where
  "update_where cond f rows =
     (Inr (length (filter cond rows)), map (\<lambda>row. if cond row then f row else row) rows)"

text \<open>An \<open>INSERT\<close> violates the primary key when the identifier is present.\<close>

definition insert_row :: "sql_row \<Rightarrow> (sql_row list, unit) prog" where
  "insert_row row rows =
     (if \<exists>r\<in>set rows. c_action_id r = c_action_id row
      then (Inl (OtherException ''IntegrityError'' ''''), rows)
      else (Inr (), rows @ [row]))"

section \<open>The operations\<close>

definition sq_get :: "uuid \<Rightarrow> (sqlite_db, run_state option) prog" where
  "sq_get i =
     bnd (sql_tx ''software engineering state could not be read'' (select_row i)) (\<lambda>row.
     case row of
       None \<Rightarrow> ret None
     | Some r \<Rightarrow> bnd (liftr (state_from_row r)) (\<lambda>st. ret (Some st)))"

fun map_result :: "('a \<Rightarrow> 'b result) \<Rightarrow> 'a list \<Rightarrow> 'b list result" where
  "map_result f [] = Inr []"
| "map_result f (x # xs) = rbind (f x) (\<lambda>y. rbind (map_result f xs) (\<lambda>ys. Inr (y # ys)))"

definition sq_list_pending :: "(sqlite_db, run_state list) prog" where
  "sq_list_pending =
     bnd (sql_tx ''software engineering pending approvals could not be read''
       (gets (\<lambda>rows. sort_key (\<lambda>row. (c_created_at row, c_action_id row))
          (filter (\<lambda>row. c_approval_status row = Some (approval_status_value AWAITING_APPROVAL)
              \<and> c_claim_id row = None \<and> c_execution_status row = None) rows)))) (\<lambda>rows.
     liftr (map_result state_from_row rows))"

definition sq_require :: "uuid \<Rightarrow> (sqlite_db, run_state) prog" where
  "sq_require i =
     bnd (sq_get i) (\<lambda>st. case st of
        None \<Rightarrow> raise_exc (run_error ''software engineering run state does not exist'')
      | Some s \<Rightarrow> ret s)"

definition sq_update :: "uuid \<Rightarrow> (sql_row \<Rightarrow> sql_row) \<Rightarrow> (sqlite_db, unit) prog" where
  "sq_update i assignments =
     sql_tx ''software engineering state could not be updated''
       (bnd (update_where (\<lambda>row. c_action_id row = uuid_str i) assignments) (\<lambda>rowcount.
        if rowcount \<noteq> 1 then raise_exc (run_error ''software engineering run state does not exist'')
        else ret ()))"

definition fresh_row ::
  "uuid \<Rightarrow> string \<Rightarrow> string \<Rightarrow> string \<Rightarrow> string option \<Rightarrow> string option
     \<Rightarrow> SoftwareEngineeringApprovalStatus option \<Rightarrow> string \<Rightarrow> sql_row" where
  "fresh_row i role cap target deleg obj appr now =
     \<lparr>c_action_id = uuid_str i, c_executor_role = role, c_capability = cap, c_target = target,
      c_delegation_status = deleg, c_pending_objective = obj,
      c_approval_status = map_option approval_status_value appr,
      c_approved_at = None, c_rejected_at = None, c_claim_id = None, c_claimed_at = None,
      c_execution_started_at = None, c_claim_resolution = None, c_claim_reconciled_at = None,
      c_execution_status = None, c_execution_finished_at = None,
      c_external_execution_performed = None, c_disposition = None, c_disposition_succeeded = None,
      c_worktree_present = None, c_branch_present = None, c_canonical_unchanged = None,
      c_promotion_commit_sha = None, c_pull_request_number = None, c_pull_request_url = None,
      c_promotion_base_branch = None, c_promotion_head_branch = None, c_promotion_finished_at = None,
      c_created_at = now, c_updated_at = now\<rparr>"

definition sq_register_action ::
  "clock \<Rightarrow> uuid \<Rightarrow> string \<Rightarrow> string \<Rightarrow> string \<Rightarrow> string option \<Rightarrow> string option
     \<Rightarrow> SoftwareEngineeringApprovalStatus option \<Rightarrow> (sqlite_db, run_state) prog" where
  "sq_register_action c i target role cap deleg objective appr =
     bnd (liftr (normalize_objective objective)) (\<lambda>normalized.
     bnd (sq_get i) (\<lambda>current. case current of
        Some cur \<Rightarrow>
          bnd (liftr (require_same_identity cur target role cap)) (\<lambda>_.
          bnd (liftr (require_compatible_objective cur normalized)) (\<lambda>_.
          bnd (sq_update i (\<lambda>row.
            let r1 = row\<lparr>c_updated_at := isoformat (now_utc c 0)\<rparr>;
                r2 = (if deleg \<noteq> None then r1\<lparr>c_delegation_status := deleg\<rparr> else r1);
                r3 = (if normalized \<noteq> None \<and> rs_pending_objective cur = None
                      then r2\<lparr>c_pending_objective := normalized\<rparr> else r2)
            in if appr \<noteq> None then r3\<lparr>c_approval_status := map_option approval_status_value appr\<rparr> else r3)) (\<lambda>_.
          sq_require i)))
      | None \<Rightarrow>
          bnd (try_except
            (sql_tx ''software engineering action identity could not be registered''
               (insert_row (fresh_row i role cap target deleg normalized appr (isoformat (now_utc c 0)))))
            (\<lambda>e. if e = OtherException ''IntegrityError'' ''''
                 then bnd (sq_get i) (\<lambda>again. case again of
                     None \<Rightarrow> raise_exc (run_error ''software engineering action identity could not be registered'')
                   | Some cur \<Rightarrow>
                       bnd (liftr (require_same_identity cur target role cap)) (\<lambda>_.
                       liftr (require_compatible_objective cur normalized)))
                 else raise_exc e)) (\<lambda>_.
          sq_require i)))"

definition sq_record_approval :: "clock \<Rightarrow> uuid \<Rightarrow> string \<Rightarrow> datetime \<Rightarrow> (sqlite_db, run_state) prog" where
  "sq_record_approval c i objective approved_at =
     bnd (sq_require i) (\<lambda>cur.
     bnd (liftr (normalize_required_objective (Some objective))) (\<lambda>normalized.
     bnd (liftr (require_compatible_objective cur (Some normalized))) (\<lambda>_.
     if rs_approval_status cur = Some SE_REJECTED
     then raise_exc (run_error ''rejected software engineering action cannot be approved'')
     else bnd (liftr (require_aware approved_at)) (\<lambda>approved.
       bnd (sq_update i (\<lambda>row. row\<lparr>c_pending_objective := Some normalized,
              c_approval_status := Some (approval_status_value SE_APPROVED),
              c_approved_at := Some (isoformat approved),
              c_updated_at := isoformat (now_utc c 0)\<rparr>)) (\<lambda>_.
       sq_require i)))))"

definition sq_record_rejection :: "clock \<Rightarrow> uuid \<Rightarrow> datetime \<Rightarrow> (sqlite_db, run_state) prog" where
  "sq_record_rejection c i rejected_at =
     bnd (sq_require i) (\<lambda>cur.
     if rs_claim_id cur \<noteq> None \<or> rs_execution_status cur \<noteq> None
     then raise_exc (run_error ''claimed or executed software engineering action cannot be rejected'')
     else bnd (liftr (require_aware rejected_at)) (\<lambda>rejected.
       bnd (sq_update i (\<lambda>row. row\<lparr>c_pending_objective := None,
              c_approval_status := Some (approval_status_value SE_REJECTED),
              c_rejected_at := Some (isoformat rejected),
              c_updated_at := isoformat (now_utc c 0)\<rparr>)) (\<lambda>_.
       sq_require i)))"

definition sq_claim_approved :: "clock \<Rightarrow> uuid \<Rightarrow> uuid \<Rightarrow> (sqlite_db, action_claim) prog" where
  "sq_claim_approved c claim_id i =
     (let claimed_at = now_utc c 0 in
      sql_tx ''software engineering execution claim could not be persisted''
       (bnd (select_row i) (\<lambda>row. case row of
          None \<Rightarrow> raise_exc (run_error ''software engineering run state does not exist'')
        | Some r \<Rightarrow>
            bnd (liftr (state_from_row r)) (\<lambda>cur.
            if rs_approval_status cur \<noteq> Some SE_APPROVED
            then raise_exc (run_error ''software engineering action is not durably approved'')
            else if rs_execution_status cur \<noteq> None
            then raise_exc (run_error ''software engineering action already has an execution result'')
            else if rs_claim_id cur \<noteq> None
            then raise_exc (run_error ''software engineering action already has a durable execution claim'')
            else bnd (liftr (normalize_required_objective (rs_pending_objective cur))) (\<lambda>objective.
              bnd (update_where
                (\<lambda>row. c_action_id row = uuid_str i
                    \<and> c_approval_status row = Some (approval_status_value SE_APPROVED)
                    \<and> c_claim_id row = None \<and> c_execution_status row = None)
                (\<lambda>row. row\<lparr>c_claim_id := Some (uuid_str claim_id), c_claimed_at := Some (isoformat claimed_at),
                    c_claim_resolution := None, c_claim_reconciled_at := None,
                    c_updated_at := isoformat claimed_at\<rparr>)) (\<lambda>rowcount.
              if rowcount \<noteq> 1
              then raise_exc (run_error ''software engineering action could not be claimed atomically'')
              else ret \<lparr>ac_action_id = i, ac_claim_id = claim_id, ac_target = rs_target cur,
                        ac_objective = objective, ac_claimed_at = claimed_at\<rparr>))))))"

definition sq_record_execution_started :: "clock \<Rightarrow> uuid \<Rightarrow> datetime \<Rightarrow> (sqlite_db, run_state) prog" where
  "sq_record_execution_started c i started_at =
     bnd (sq_require i) (\<lambda>cur.
     if rs_claim_id cur = None
     then raise_exc (run_error ''software engineering execution has no durable claim'')
     else if rs_execution_status cur \<noteq> None
     then raise_exc (run_error ''software engineering action already has an execution result'')
     else bnd (liftr (require_aware started_at)) (\<lambda>started.
       bnd (sq_update i (\<lambda>row. row\<lparr>c_execution_started_at := Some (isoformat started),
              c_updated_at := isoformat (now_utc c 0)\<rparr>)) (\<lambda>_.
       sq_require i)))"

definition sq_release_unstarted_claim :: "uuid \<Rightarrow> datetime \<Rightarrow> datetime \<Rightarrow> (sqlite_db, run_state) prog" where
  "sq_release_unstarted_claim i expected_updated_at reconciled_at =
     bnd (liftr (require_aware expected_updated_at)) (\<lambda>expected.
     bnd (liftr (require_aware reconciled_at)) (\<lambda>reconciled.
     bnd (sql_tx ''software engineering claim release could not be persisted''
       (bnd (update_where
          (\<lambda>row. c_action_id row = uuid_str i
              \<and> c_approval_status row = Some (approval_status_value SE_APPROVED)
              \<and> c_claim_id row \<noteq> None \<and> c_execution_started_at row = None
              \<and> c_execution_status row = None \<and> c_updated_at row = isoformat expected)
          (\<lambda>row. row\<lparr>c_claim_id := None, c_claimed_at := None,
              c_claim_resolution := Some (claim_resolution_value RELEASED_BEFORE_START),
              c_claim_reconciled_at := Some (isoformat reconciled),
              c_updated_at := isoformat reconciled\<rparr>)) (\<lambda>rowcount.
        if rowcount \<noteq> 1
        then raise_exc (run_error ''software engineering unstarted claim could not be released'')
        else ret ()))) (\<lambda>_.
     sq_require i)))"

definition sq_abandon_started_claim :: "uuid \<Rightarrow> datetime \<Rightarrow> datetime \<Rightarrow> (sqlite_db, run_state) prog" where
  "sq_abandon_started_claim i expected_updated_at reconciled_at =
     bnd (liftr (require_aware expected_updated_at)) (\<lambda>expected.
     bnd (liftr (require_aware reconciled_at)) (\<lambda>reconciled.
     bnd (sql_tx ''software engineering claim abandonment could not be persisted''
       (bnd (update_where
          (\<lambda>row. c_action_id row = uuid_str i
              \<and> c_claim_id row \<noteq> None \<and> c_execution_started_at row \<noteq> None
              \<and> c_execution_status row = None \<and> c_updated_at row = isoformat expected)
          (\<lambda>row. row\<lparr>c_pending_objective := None,
              c_claim_resolution := Some (claim_resolution_value ABANDONED_AFTER_START),
              c_claim_reconciled_at := Some (isoformat reconciled),
              c_updated_at := isoformat reconciled\<rparr>)) (\<lambda>rowcount.
        if rowcount \<noteq> 1
        then raise_exc (run_error ''software engineering started claim could not be abandoned'')
        else ret ()))) (\<lambda>_.
     sq_require i)))"

definition sq_record_execution ::
  "clock \<Rightarrow> uuid \<Rightarrow> string \<Rightarrow> datetime \<Rightarrow> bool \<Rightarrow> (sqlite_db, run_state) prog" where
  "sq_record_execution c i status finished_at performed =
     bnd (sq_require i) (\<lambda>_.
     bnd (liftr (require_aware finished_at)) (\<lambda>finished.
     bnd (sq_update i (\<lambda>row. row\<lparr>c_pending_objective := None, c_execution_status := Some status,
            c_execution_finished_at := Some (isoformat finished),
            c_external_execution_performed := Some (int_of_bool performed),
            c_updated_at := isoformat (now_utc c 0)\<rparr>)) (\<lambda>_.
     sq_require i)))"

definition sq_record_disposition ::
  "clock \<Rightarrow> work_product_disposition_result \<Rightarrow> (sqlite_db, run_state) prog" where
  "sq_record_disposition c result =
     bnd (sq_require (wpr_action_id result)) (\<lambda>_.
     bnd (sq_update (wpr_action_id result) (\<lambda>row. row\<lparr>
            c_disposition := Some (disposition_value (wpr_disposition result)),
            c_disposition_succeeded := Some (int_of_bool (wpr_succeeded result)),
            c_worktree_present := Some (int_of_bool (wpr_worktree_present result)),
            c_branch_present := Some (int_of_bool (wpr_branch_present result)),
            c_canonical_unchanged := Some (int_of_bool (wpr_canonical_unchanged result)),
            c_updated_at := isoformat (now_utc c 0)\<rparr>)) (\<lambda>_.
     sq_require (wpr_action_id result)))"

definition sq_record_promotion ::
  "clock \<Rightarrow> uuid \<Rightarrow> string \<Rightarrow> int \<Rightarrow> string \<Rightarrow> string \<Rightarrow> string \<Rightarrow> datetime \<Rightarrow> (sqlite_db, run_state) prog" where
  "sq_record_promotion c i sha number url base head finished_at =
     bnd (sq_require i) (\<lambda>_.
     bnd (liftr (require_aware finished_at)) (\<lambda>finished.
     bnd (sq_update i (\<lambda>row. row\<lparr>c_promotion_commit_sha := Some sha, c_pull_request_number := Some number,
            c_pull_request_url := Some url, c_promotion_base_branch := Some base,
            c_promotion_head_branch := Some head,
            c_promotion_finished_at := Some (isoformat finished),
            c_updated_at := isoformat (now_utc c 0)\<rparr>)) (\<lambda>_.
     sq_require i)))"

definition sqlite_ops :: "sqlite_db run_ops" where
  "sqlite_ops =
     \<lparr>run_get = sq_get, run_list_pending = sq_list_pending,
      run_register_action = sq_register_action, run_record_approval = sq_record_approval,
      run_record_rejection = sq_record_rejection, run_claim_approved = sq_claim_approved,
      run_record_execution_started = sq_record_execution_started,
      run_release_unstarted_claim = sq_release_unstarted_claim,
      run_abandon_started_claim = sq_abandon_started_claim,
      run_record_execution = sq_record_execution, run_record_disposition = sq_record_disposition,
      run_record_promotion = sq_record_promotion\<rparr>"

section \<open>Rows encode run states\<close>

definition storable_time :: "datetime option \<Rightarrow> bool" where
  "storable_time t = (case t of None \<Rightarrow> True | Some d \<Rightarrow> valid_datetime d \<and> is_aware d)"

definition storable :: "run_state \<Rightarrow> bool" where
  "storable st \<longleftrightarrow>
     list_all storable_time [rs_approved_at st, rs_rejected_at st, rs_claimed_at st,
       rs_execution_started_at st, rs_claim_reconciled_at st, rs_execution_finished_at st,
       rs_promotion_finished_at st, rs_created_at st, rs_updated_at st]
     \<and> rs_created_at st \<noteq> None \<and> rs_updated_at st \<noteq> None"

definition encode_state :: "run_state \<Rightarrow> sql_row" where
  "encode_state st =
     \<lparr>c_action_id = uuid_str (rs_action_id st), c_executor_role = rs_executor_role st,
      c_capability = rs_capability st, c_target = rs_target st,
      c_delegation_status = rs_delegation_status st, c_pending_objective = rs_pending_objective st,
      c_approval_status = map_option approval_status_value (rs_approval_status st),
      c_approved_at = map_option isoformat (rs_approved_at st),
      c_rejected_at = map_option isoformat (rs_rejected_at st),
      c_claim_id = map_option uuid_str (rs_claim_id st),
      c_claimed_at = map_option isoformat (rs_claimed_at st),
      c_execution_started_at = map_option isoformat (rs_execution_started_at st),
      c_claim_resolution = map_option claim_resolution_value (rs_claim_resolution st),
      c_claim_reconciled_at = map_option isoformat (rs_claim_reconciled_at st),
      c_execution_status = rs_execution_status st,
      c_execution_finished_at = map_option isoformat (rs_execution_finished_at st),
      c_external_execution_performed = map_option int_of_bool (rs_external_execution_performed st),
      c_disposition = map_option disposition_value (rs_disposition st),
      c_disposition_succeeded = map_option int_of_bool (rs_disposition_succeeded st),
      c_worktree_present = map_option int_of_bool (rs_worktree_present st),
      c_branch_present = map_option int_of_bool (rs_branch_present st),
      c_canonical_unchanged = map_option int_of_bool (rs_canonical_unchanged st),
      c_promotion_commit_sha = rs_promotion_commit_sha st,
      c_pull_request_number = rs_pull_request_number st,
      c_pull_request_url = rs_pull_request_url st,
      c_promotion_base_branch = rs_promotion_base_branch st,
      c_promotion_head_branch = rs_promotion_head_branch st,
      c_promotion_finished_at = map_option isoformat (rs_promotion_finished_at st),
      c_created_at = isoformat (the (rs_created_at st)),
      c_updated_at = isoformat (the (rs_updated_at st))\<rparr>"

lemma optional_bool_int: "optional_bool (map_option int_of_bool b) = Inr b"
  by (cases b) (auto simp: optional_bool_def int_of_bool_def)

lemma optional_with_map: "(\<And>x. v = Some x \<Longrightarrow> f (g x) = Inr x) \<Longrightarrow> optional_with f (map_option g v) = Inr v"
  by (cases v) (auto simp: optional_with_def)

lemma approval_status_round [simp]: "approval_status_of (approval_status_value a) = Inr a"
  by (cases a) (simp_all add: approval_status_of_def)

lemma claim_resolution_round [simp]: "claim_resolution_of (claim_resolution_value a) = Inr a"
  by (cases a) (simp_all add: claim_resolution_of_def)

lemma disposition_round [simp]: "disposition_of (disposition_value a) = Inr a"
  by (cases a) (simp_all add: disposition_of_def)

lemma optional_datetime_round: "storable_time t \<Longrightarrow> optional_datetime (map_option isoformat t) = Inr t"
  by (cases t) (auto simp: optional_datetime_def optional_with_def storable_time_def
      fromisoformat_isoformat require_aware_def)

lemma optional_datetime_round_the:
  "storable_time t \<Longrightarrow> t \<noteq> None \<Longrightarrow> optional_datetime (Some (isoformat (the t))) = Inr t"
  using optional_datetime_round [of t] by (cases t) auto

lemma state_from_encode:
  assumes "storable st"
  shows "state_from_row (encode_state st) = Inr st"
proof -
  have t: "storable_time (rs_approved_at st)" "storable_time (rs_rejected_at st)"
    "storable_time (rs_claimed_at st)" "storable_time (rs_execution_started_at st)"
    "storable_time (rs_claim_reconciled_at st)" "storable_time (rs_execution_finished_at st)"
    "storable_time (rs_promotion_finished_at st)" "storable_time (rs_created_at st)"
    "storable_time (rs_updated_at st)" "rs_created_at st \<noteq> None" "rs_updated_at st \<noteq> None"
    using assms by (simp_all add: storable_def)
  show ?thesis
    by (simp add: state_from_row_def encode_state_def uuid_of_str_uuid_str optional_bool_int
        optional_with_map optional_datetime_round optional_datetime_round_the t)
qed

section \<open>The database as a mapping\<close>

definition db_rel :: "sqlite_db \<Rightarrow> mem_runs \<Rightarrow> bool" where
  "db_rel db s \<longleftrightarrow>
     db_rows db = map (encode_state \<circ> snd) s \<and> distinct (map fst s) \<and>
     (\<forall>(i, st)\<in>set s. rs_action_id st = i \<and> storable st)"

definition healthy :: "sqlite_db \<Rightarrow> bool" where
  "healthy db \<longleftrightarrow> (\<forall>n. db_up db n = SqlOk)"

lemma db_rel_row:
  assumes "db_rel db s"
  shows "find_first (\<lambda>row. c_action_id row = uuid_str i) (db_rows db) = map_option encode_state (dict_get s i)"
proof -
  have "\<forall>(k, st)\<in>set s. rs_action_id st = k \<Longrightarrow>
    find_first (\<lambda>row. c_action_id row = uuid_str i) (map (encode_state \<circ> snd) s)
      = map_option encode_state (dict_get s i)" for s :: mem_runs
    by (induction s) (auto simp: find_first_def encode_state_def)
  with assms show ?thesis by (auto simp: db_rel_def split_beta)
qed

lemma db_rel_get: "db_rel db s \<Longrightarrow> dict_get s i = Some st \<Longrightarrow> rs_action_id st = i \<and> storable st"
  by (auto simp: db_rel_def dest: map_of_SomeD)

lemma db_rel_next: "db_rel (db\<lparr>db_next := n\<rparr>) s = db_rel db s"
  by (simp add: db_rel_def)

lemma healthy_simps [simp]:
  "healthy (db\<lparr>db_next := n\<rparr>) = healthy db" "healthy (db\<lparr>db_rows := rows\<rparr>) = healthy db"
  by (simp_all add: healthy_def)

lemma sql_tx_cases:
  obtains (served) "db_up db (db_next db) = SqlOk"
      "sql_tx msg body db = (case body (db_rows db) of
         (Inl e, rows) \<Rightarrow> (Inl e, db\<lparr>db_next := Suc (db_next db)\<rparr>)
       | (Inr x, rows) \<Rightarrow> (Inr x, db\<lparr>db_next := Suc (db_next db), db_rows := rows\<rparr>))"
  | (failed) e where "\<not> healthy db" "sql_tx msg body db = (Inl (run_error e), db\<lparr>db_next := Suc (db_next db)\<rparr>)"
proof (cases "db_up db (db_next db)")
  case SqlOk
  then show thesis using served by (simp add: sql_tx_def Let_def split: prod.splits sum.splits)
next
  case SqlConnectError
  then have "\<not> healthy db" by (metis healthy_def sql_service.distinct(1))
  with SqlConnectError show thesis by (intro failed) (simp_all add: sql_tx_def Let_def)
next
  case SqlError
  then have "\<not> healthy db" by (metis healthy_def sql_service.distinct(3))
  with SqlError show thesis by (intro failed) (simp_all add: sql_tx_def Let_def)
qed

text \<open>A read returns the mapping's entry, or an error of an unhealthy database; nothing changes.\<close>

lemma sq_get_cases:
  assumes "db_rel db s"
  obtains db' where "db_rel db' s" "healthy db' = healthy db" "sq_get i db = (Inr (dict_get s i), db')"
  | db' e where "db_rel db' s" "healthy db' = healthy db" "\<not> healthy db" "sq_get i db = (Inl e, db')"
proof (cases rule: sql_tx_cases [of db "''software engineering state could not be read''" "select_row i"])
  case served
  show thesis
    by (rule that(1) [of "db\<lparr>db_next := Suc (db_next db)\<rparr>"])
       (use served assms db_rel_get [OF assms, of i] in
        \<open>auto simp: sq_get_def bnd_def select_row_def db_rel_row db_rel_next state_from_encode split: option.splits\<close>)
next
  case (failed e)
  then show thesis
    using that(2) [of "db\<lparr>db_next := Suc (db_next db)\<rparr>"] assms by (simp add: sq_get_def bnd_def db_rel_next)
qed

lemma sq_require_cases:
  assumes "db_rel db s"
  obtains db' st where "dict_get s i = Some st" "db_rel db' s" "healthy db' = healthy db"
      "sq_require i db = (Inr st, db')"
  | db' where "dict_get s i = None" "db_rel db' s"
      "sq_require i db = (Inl (run_error ''software engineering run state does not exist''), db')"
      "healthy db' = healthy db"
  | db' e where "db_rel db' s" "\<not> healthy db" "healthy db' = healthy db" "sq_require i db = (Inl e, db')"
  by (rule sq_get_cases [OF assms, of i]; cases "dict_get s i") (auto simp: sq_require_def bnd_def)

text \<open>An update of the one row of an action.\<close>


lemma db_rel_set:
  assumes "db_rel db s" "rs_action_id st = i" "storable st"
  shows "db_rel (db\<lparr>db_next := n, db_rows := map (encode_state \<circ> snd) (dict_set i st s)\<rparr>) (dict_set i st s)"
  using assms set_dict_set [of i st s] by (auto simp: db_rel_def distinct_update)

lemma update_rows:
  assumes "distinct (map fst s)" "\<forall>(k, st)\<in>set s. rs_action_id st = k" "dict_get s i = Some cur"
    and "\<And>row. cond row \<Longrightarrow> c_action_id row = uuid_str i" "cond (encode_state cur)"
    and "f (encode_state cur) = encode_state st"
  shows "map (\<lambda>row. if cond row then f row else row) (map (encode_state \<circ> snd) s)
           = map (encode_state \<circ> snd) (dict_set i st s)
         \<and> length (filter cond (map (encode_state \<circ> snd) s)) = 1"
  using assms(1-3)
proof (induction s)
  case Nil
  then show ?case by simp
next
  case (Cons p s)
  obtain k st0 where p: "p = (k, st0)" by (cases p)
  have other: "\<not> cond (encode_state st')" if "rs_action_id st' \<noteq> i" for st'
    using assms(4) [of "encode_state st'"] that by (auto simp: encode_state_def)
  show ?case
  proof (cases "k = i")
    case True
    have "\<not> cond (encode_state (snd q))" if "q \<in> set s" for q
      using that True Cons.prems(1,2) by (intro other) (force simp: p)
    then have "\<forall>q\<in>set s. \<not> cond (encode_state (snd q))" by blast
    then show ?thesis using True Cons.prems assms(5,6) by (auto simp: p filter_empty_conv)
  next
    case False
    with Cons show ?thesis using other by (auto simp: p)
  qed
qed

lemma update_where_cases:
  assumes rel: "db_rel db s" and get: "dict_get s i = Some cur"
    and cond: "\<And>row. cond row \<Longrightarrow> c_action_id row = uuid_str i" "cond (encode_state cur)"
    and st: "f (encode_state cur) = encode_state st" "storable st" "rs_action_id st = i"
  obtains db' where "db_rel db' (dict_set i st s)" "healthy db' = healthy db"
      "sql_tx msg (bnd (update_where cond f) (\<lambda>n. if n \<noteq> 1 then raise_exc ex else ret x)) db = (Inr x, db')"
  | db' e where "db_rel db' s" "healthy db' = healthy db" "\<not> healthy db"
      "sql_tx msg (bnd (update_where cond f) (\<lambda>n. if n \<noteq> 1 then raise_exc ex else ret x)) db = (Inl e, db')"
proof (cases rule: sql_tx_cases [of db msg "bnd (update_where cond f) (\<lambda>n. if n \<noteq> 1 then raise_exc ex else ret x)"])
  case served
  have rows: "db_rows db = map (encode_state \<circ> snd) s" "distinct (map fst s)"
    "\<forall>(k, st)\<in>set s. rs_action_id st = k"
    using rel by (auto simp: db_rel_def)
  note upd = update_rows [where cond = cond and f = f, OF rows(2,3) get cond st(1)]
  show thesis
    using served upd
    by (intro that(1) [OF db_rel_set [OF rel st(3,2), of "Suc (db_next db)"]])
       (simp_all add: rows(1) bnd_def update_where_def del: map_map)
next
  case (failed e)
  with rel show thesis
    using that(2) [of "db\<lparr>db_next := Suc (db_next db)\<rparr>"] by (simp add: db_rel_next)
qed

lemma update_where_none:
  assumes rel: "db_rel db s"
    and cond: "\<And>row. cond row \<Longrightarrow> c_action_id row = uuid_str i"
      "\<And>cur. dict_get s i = Some cur \<Longrightarrow> \<not> cond (encode_state cur)"
  shows "\<exists>db' e. db_rel db' s \<and> healthy db' = healthy db
    \<and> sql_tx msg (bnd (update_where cond f) (\<lambda>n. if n \<noteq> 1 then raise_exc ex else ret x)) db = (Inl e, db')"
proof -
  have "\<not> cond row" if row: "row \<in> set (db_rows db)" for row
  proof
    assume c: "cond row"
    have wf: "\<forall>p\<in>set s. rs_action_id (snd p) = fst p" using rel by (auto simp: db_rel_def)
    obtain p where "p \<in> set s" "row = encode_state (snd p)" using row rel by (auto simp: db_rel_def)
    then obtain k st where "(k, st) \<in> set s" "row = encode_state st" "rs_action_id st = k"
      using wf by (metis prod.collapse)
    with cond(1) [OF c] have "dict_get s i = Some st" "row = encode_state st"
      using rel by (auto simp: db_rel_def encode_state_def)
    with cond(2) c show False by simp
  qed
  then have "filter cond (db_rows db) = []" by (auto simp: filter_empty_conv)
  then show ?thesis
    using rel
    by (cases rule: sql_tx_cases [of db msg "bnd (update_where cond f) (\<lambda>n. if n \<noteq> 1 then raise_exc ex else ret x)"])
       (auto simp: bnd_def update_where_def db_rel_next)
qed

section \<open>Simulation by the in-memory repository\<close>

text \<open>
  The outcome of an operation on the database against the in-memory operation \<open>m\<close>: the same result and
  effect, or an error with the effect or none. On a healthy database (\<open>exact\<close>) only the first.
\<close>

definition simulated ::
  "bool \<Rightarrow> (mem_runs, 'a) prog \<Rightarrow> (sqlite_db, 'a) prog \<Rightarrow> sqlite_db \<Rightarrow> mem_runs \<Rightarrow> bool" where
  "simulated exact m q db s \<longleftrightarrow>
     (\<exists>res db' s'. q db = (res, db') \<and> db_rel db' s' \<and> healthy db' = healthy db \<and>
        (exact \<and> healthy db \<longrightarrow> m s = (res, s')) \<and>
        (m s = (res, s') \<or> (\<exists>e. res = Inl e) \<and> (s' = s \<or> s' = snd (m s))))"

lemma simulatedI:
  "q db = (res, db') \<Longrightarrow> db_rel db' s' \<Longrightarrow> healthy db' = healthy db \<Longrightarrow> m s = (res, s') \<Longrightarrow> simulated exact m q db s"
  by (auto simp: simulated_def)

lemma simulated_errorI:
  "q db = (Inl e, db') \<Longrightarrow> db_rel db' s' \<Longrightarrow> healthy db' = healthy db \<Longrightarrow> \<not> (exact \<and> healthy db) \<Longrightarrow>
     s' = s \<or> s' = snd (m s) \<Longrightarrow> simulated exact m q db s"
  by (auto simp: simulated_def)

lemma simulated_reply: "simulated exact m q db s \<Longrightarrow> simulated exact (bnd m (ret \<circ> f)) (bnd q (ret \<circ> f)) db s"
  unfolding simulated_def by (elim exE conjE) (auto simp: bnd_def split: sum.splits prod.splits)

definition sq_guarded ::
  "uuid \<Rightarrow> (run_state \<Rightarrow> 'a result) \<Rightarrow> ('a \<Rightarrow> sql_row \<Rightarrow> sql_row) \<Rightarrow> (sqlite_db, run_state) prog" where
  "sq_guarded i g upd =
     bnd (sq_require i) (\<lambda>cur. bnd (liftr (g cur)) (\<lambda>a. bnd (sq_update i (upd a)) (\<lambda>_. sq_require i)))"

lemma update_then_require:
  assumes rel: "db_rel db s" and get: "dict_get s i = Some cur"
    and m: "m s = (Inr st, dict_set i st s)"
    and cond: "\<And>row. cond row \<Longrightarrow> c_action_id row = uuid_str i" "cond (encode_state cur)"
    and st: "f (encode_state cur) = encode_state st" "storable st" "rs_action_id st = i"
  shows "simulated True m
     (bnd (sql_tx msg (bnd (update_where cond f) (\<lambda>n. if n \<noteq> 1 then raise_exc ex else ret ()))) (\<lambda>_. sq_require i)) db s"
proof (rule update_where_cases [where cond = cond and f = f, OF rel get cond st])
  fix db1 assume r1: "db_rel db1 (dict_set i st s)" "healthy db1 = healthy db"
    "sql_tx msg (bnd (update_where cond f) (\<lambda>n. if n \<noteq> 1 then raise_exc ex else ret ())) db = (Inr (), db1)"
  show ?thesis
    by (rule sq_require_cases [OF r1(1), of i])
       (use r1 m in \<open>auto simp: bnd_def intro: simulatedI simulated_errorI\<close>)
next
  fix db1 e assume "db_rel db1 s" "healthy db1 = healthy db" "\<not> healthy db"
    "sql_tx msg (bnd (update_where cond f) (\<lambda>n. if n \<noteq> 1 then raise_exc ex else ret ())) db = (Inl e, db1)"
  then show ?thesis by (intro simulated_errorI [of _ _ e db1]) (auto simp: bnd_def)
qed

lemma sq_guarded_simulated:
  assumes rel: "db_rel db s" and f: "\<And>cur. f cur = rbind (g cur) (\<lambda>a. Inr (ap a cur))"
    and upd: "\<And>cur a. g cur = Inr a \<Longrightarrow> storable cur \<Longrightarrow> upd a (encode_state cur) = encode_state (ap a cur)
      \<and> storable (ap a cur) \<and> rs_action_id (ap a cur) = rs_action_id cur"
  shows "simulated True (mem_edit i f) (sq_guarded i g upd) db s"
proof (rule sq_require_cases [OF rel, of i])
  fix db1 cur assume get: "dict_get s i = Some cur" and r1: "db_rel db1 s" "healthy db1 = healthy db"
    and req: "sq_require i db = (Inr cur, db1)"
  show ?thesis
  proof (cases "g cur")
    case (Inl e)
    then show ?thesis
      using get r1 req
      by (intro simulatedI [of _ _ "Inl e" db1 s]) (simp_all add: sq_guarded_def mem_edit_eq f bnd_def)
  next
    case (Inr a)
    have st: "upd a (encode_state cur) = encode_state (ap a cur)" "storable (ap a cur)" "rs_action_id (ap a cur) = i"
      using upd [OF Inr] db_rel_get [OF rel get] by auto
    have m: "mem_edit i f s = (Inr (ap a cur), dict_set i (ap a cur) s)"
      using get Inr by (simp add: mem_edit_eq f)
    have "simulated True (mem_edit i f) (bnd (sq_update i (upd a)) (\<lambda>_. sq_require i)) db1 s"
      unfolding sq_update_def
      by (rule update_then_require [where m = "mem_edit i f" and cur = cur and st = "ap a cur", OF r1(1) get m])
         (use st db_rel_get [OF rel get] in \<open>auto simp: encode_state_def\<close>)
    moreover have "sq_guarded i g upd db = bnd (sq_update i (upd a)) (\<lambda>_. sq_require i) db1"
      using req Inr by (simp add: sq_guarded_def bnd_def)
    ultimately show ?thesis using r1(2) by (simp add: simulated_def)
  qed
next
  fix db1 assume "dict_get s i = None" "db_rel db1 s" "healthy db1 = healthy db"
    "sq_require i db = (Inl (run_error ''software engineering run state does not exist''), db1)"
  then show ?thesis
    by (intro simulatedI [where db' = db1]) (simp_all add: sq_guarded_def mem_edit_eq bnd_def)
next
  fix db1 e assume "db_rel db1 s" "\<not> healthy db" "healthy db1 = healthy db" "sq_require i db = (Inl e, db1)"
  then show ?thesis by (intro simulated_errorI [of _ _ e db1 s]) (simp_all add: sq_guarded_def bnd_def)
qed

end
