(* ===== verification/SE_Refinement.thy ===== *)
theory SE_Refinement
  imports SE_Sqlite
begin

text \<open>
  The SQLite repository implements the in-memory one, operation by operation: \<open>simulated\<close> for each, then
  the interpretation of the contract \<open>run_repository\<close> on the SQLite operations. Release and abandonment
  are simulated without exactness: the database checks their conditions in one \<open>WHERE\<close> clause, with
  one error text, and compares the expected update time as text.
\<close>

section \<open>Each operation\<close>

lemma now_utc_storable [simp]: "valid_clock c \<Longrightarrow> storable_time (Some (now_utc c j))"
  by (auto simp: storable_time_def valid_clock_def now_utc_def valid_datetime_def is_aware_def)

lemma aware_storable: "valid_datetime t \<Longrightarrow> require_aware t = Inr u \<Longrightarrow> storable_time (Some u)"
  by (auto simp: require_aware_Inr storable_time_def)

lemma storable_time_None [simp]: "storable_time None"
  by (simp add: storable_time_def)

lemmas sq_op_simps = bnd_def rbind_def guard_exc_def

lemma sq_record_approval_guarded:
  "sq_record_approval c i obj t = sq_guarded i
     (\<lambda>cur. rbind (normalize_required_objective (Some obj)) (\<lambda>normalized.
        rbind (require_compatible_objective cur (Some normalized)) (\<lambda>_.
        rbind (guard_exc (rs_approval_status cur \<noteq> Some SE_REJECTED)
          (run_error ''rejected software engineering action cannot be approved'')) (\<lambda>_.
        rbind (require_aware t) (\<lambda>approved. Inr (normalized, approved))))))
     (\<lambda>(normalized, approved) row. row\<lparr>c_pending_objective := Some normalized,
              c_approval_status := Some (approval_status_value SE_APPROVED),
              c_approved_at := Some (isoformat approved),
              c_updated_at := isoformat (now_utc c 0)\<rparr>)"
  by (rule ext) (simp add: sq_record_approval_def sq_guarded_def sq_op_simps split: prod.splits sum.splits)

lemma sq_record_rejection_guarded:
  "sq_record_rejection c i t = sq_guarded i
     (\<lambda>cur. rbind (guard_exc (rs_claim_id cur = None \<and> rs_execution_status cur = None)
          (run_error ''claimed or executed software engineering action cannot be rejected'')) (\<lambda>_. require_aware t))
     (\<lambda>rejected row. row\<lparr>c_pending_objective := None,
              c_approval_status := Some (approval_status_value SE_REJECTED),
              c_rejected_at := Some (isoformat rejected), c_updated_at := isoformat (now_utc c 0)\<rparr>)"
  by (rule ext) (simp add: sq_record_rejection_def sq_guarded_def sq_op_simps split: prod.splits sum.splits)

lemma sq_record_execution_started_guarded:
  "sq_record_execution_started c i t = sq_guarded i
     (\<lambda>cur. rbind (guard_exc (rs_claim_id cur \<noteq> None)
              (run_error ''software engineering execution has no durable claim'')) (\<lambda>_.
        rbind (guard_exc (rs_execution_status cur = None)
              (run_error ''software engineering action already has an execution result'')) (\<lambda>_. require_aware t)))
     (\<lambda>started row. row\<lparr>c_execution_started_at := Some (isoformat started),
              c_updated_at := isoformat (now_utc c 0)\<rparr>)"
  by (rule ext) (simp add: sq_record_execution_started_def sq_guarded_def sq_op_simps split: prod.splits sum.splits)

lemma sq_record_execution_guarded:
  "sq_record_execution c i status t p = sq_guarded i (\<lambda>_. require_aware t)
     (\<lambda>finished row. row\<lparr>c_pending_objective := None, c_execution_status := Some status,
            c_execution_finished_at := Some (isoformat finished),
            c_external_execution_performed := Some (int_of_bool p),
            c_updated_at := isoformat (now_utc c 0)\<rparr>)"
  by (simp add: sq_record_execution_def sq_guarded_def)

lemma sq_record_disposition_guarded:
  "sq_record_disposition c res = sq_guarded (wpr_action_id res) (\<lambda>_. Inr ())
     (\<lambda>_ row. row\<lparr>c_disposition := Some (disposition_value (wpr_disposition res)),
            c_disposition_succeeded := Some (int_of_bool (wpr_succeeded res)),
            c_worktree_present := Some (int_of_bool (wpr_worktree_present res)),
            c_branch_present := Some (int_of_bool (wpr_branch_present res)),
            c_canonical_unchanged := Some (int_of_bool (wpr_canonical_unchanged res)),
            c_updated_at := isoformat (now_utc c 0)\<rparr>)"
  by (rule ext) (simp add: sq_record_disposition_def sq_guarded_def bnd_def split: prod.splits sum.splits)

lemma sq_record_promotion_guarded:
  "sq_record_promotion c i sha n url base head t = sq_guarded i (\<lambda>_. require_aware t)
     (\<lambda>finished row. row\<lparr>c_promotion_commit_sha := Some sha, c_pull_request_number := Some n,
            c_pull_request_url := Some url, c_promotion_base_branch := Some base,
            c_promotion_head_branch := Some head,
            c_promotion_finished_at := Some (isoformat finished),
            c_updated_at := isoformat (now_utc c 0)\<rparr>)"
  by (simp add: sq_record_promotion_def sq_guarded_def)

lemma guarded_calls_simulated:
  assumes rel: "db_rel db s" and c: "valid_clock c" and t: "valid_datetime t"
  shows "simulated True (mem_record_approval c i obj t) (sq_record_approval c i obj t) db s"
    and "simulated True (mem_record_rejection c i t) (sq_record_rejection c i t) db s"
    and "simulated True (mem_record_execution_started c i t) (sq_record_execution_started c i t) db s"
    and "simulated True (mem_record_execution c i status t p) (sq_record_execution c i status t p) db s"
    and "simulated True (mem_record_disposition c res) (sq_record_disposition c res) db s"
    and "simulated True (mem_record_promotion c i sha n url base head t)
           (sq_record_promotion c i sha n url base head t) db s"
proof -
  note now = now_utc_storable [OF c, of 0] and aware = aware_storable [OF t]
  show "simulated True (mem_record_approval c i obj t) (sq_record_approval c i obj t) db s"
    unfolding mem_edits sq_record_approval_guarded
    by (rule sq_guarded_simulated [OF rel, where ap = "\<lambda>(normalized, approved) cur.
        cur\<lparr>rs_pending_objective := Some normalized, rs_approval_status := Some SE_APPROVED,
            rs_approved_at := Some approved, rs_updated_at := Some (now_utc c 0)\<rparr>"])
       (auto simp: edit_approval_def rbind_def encode_state_def storable_def now aware split: sum.splits)
  show "simulated True (mem_record_rejection c i t) (sq_record_rejection c i t) db s"
    unfolding mem_edits sq_record_rejection_guarded
    by (rule sq_guarded_simulated [OF rel, where ap = "\<lambda>rejected cur.
        cur\<lparr>rs_pending_objective := None, rs_approval_status := Some SE_REJECTED,
            rs_rejected_at := Some rejected, rs_updated_at := Some (now_utc c 0)\<rparr>"])
       (auto simp: edit_rejection_def rbind_def encode_state_def storable_def now aware split: sum.splits)
  show "simulated True (mem_record_execution_started c i t) (sq_record_execution_started c i t) db s"
    unfolding mem_edits sq_record_execution_started_guarded
    by (rule sq_guarded_simulated [OF rel, where ap = "\<lambda>started cur.
        cur\<lparr>rs_execution_started_at := Some started, rs_updated_at := Some (now_utc c 0)\<rparr>"])
       (auto simp: edit_started_def rbind_def encode_state_def storable_def now aware split: sum.splits)
  show "simulated True (mem_record_execution c i status t p) (sq_record_execution c i status t p) db s"
    unfolding mem_edits sq_record_execution_guarded
    by (rule sq_guarded_simulated [OF rel, where ap = "\<lambda>finished cur.
        cur\<lparr>rs_pending_objective := None, rs_execution_status := Some status,
            rs_execution_finished_at := Some finished,
            rs_external_execution_performed := Some p, rs_updated_at := Some (now_utc c 0)\<rparr>"])
       (auto simp: edit_execution_def encode_state_def storable_def now aware)
  show "simulated True (mem_record_disposition c res) (sq_record_disposition c res) db s"
    unfolding mem_edits sq_record_disposition_guarded
    by (rule sq_guarded_simulated [OF rel, where ap = "\<lambda>_ cur.
        cur\<lparr>rs_disposition := Some (wpr_disposition res), rs_disposition_succeeded := Some (wpr_succeeded res),
            rs_worktree_present := Some (wpr_worktree_present res),
            rs_branch_present := Some (wpr_branch_present res),
            rs_canonical_unchanged := Some (wpr_canonical_unchanged res),
            rs_updated_at := Some (now_utc c 0)\<rparr>"])
       (auto simp: edit_disposition_def encode_state_def storable_def now)
  show "simulated True (mem_record_promotion c i sha n url base head t)
           (sq_record_promotion c i sha n url base head t) db s"
    unfolding mem_edits sq_record_promotion_guarded
    by (rule sq_guarded_simulated [OF rel, where ap = "\<lambda>finished cur.
        cur\<lparr>rs_promotion_commit_sha := Some sha, rs_pull_request_number := Some n,
            rs_pull_request_url := Some url, rs_promotion_base_branch := Some base,
            rs_promotion_head_branch := Some head, rs_promotion_finished_at := Some finished,
            rs_updated_at := Some (now_utc c 0)\<rparr>"])
       (auto simp: edit_promotion_def encode_state_def storable_def now aware)
qed


lemma isoformat_inject: "valid_datetime a \<Longrightarrow> valid_datetime b \<Longrightarrow> isoformat a = isoformat b \<Longrightarrow> a = b"
  using fromisoformat_isoformat by (metis sum.inject(2))

text \<open>The claim: one transaction that reads, decides and writes.\<close>

definition claim_cond :: "uuid \<Rightarrow> sql_row \<Rightarrow> bool" where
  "claim_cond i row \<longleftrightarrow> c_action_id row = uuid_str i
     \<and> c_approval_status row = Some (approval_status_value SE_APPROVED)
     \<and> c_claim_id row = None \<and> c_execution_status row = None"

definition claim_set :: "clock \<Rightarrow> uuid \<Rightarrow> sql_row \<Rightarrow> sql_row" where
  "claim_set c k row = row\<lparr>c_claim_id := Some (uuid_str k), c_claimed_at := Some (isoformat (now_utc c 0)),
     c_claim_resolution := None, c_claim_reconciled_at := None, c_updated_at := isoformat (now_utc c 0)\<rparr>"

definition claim_body :: "clock \<Rightarrow> uuid \<Rightarrow> uuid \<Rightarrow> sql_row option \<Rightarrow> (sql_row list, action_claim) prog" where
  "claim_body c k i row =
     (case row of
        None \<Rightarrow> raise_exc (run_error ''software engineering run state does not exist'')
      | Some r \<Rightarrow>
          bnd (liftr (state_from_row r)) (\<lambda>cur. bnd (liftr (claimable cur)) (\<lambda>objective.
          bnd (update_where (claim_cond i) (claim_set c k)) (\<lambda>rowcount.
          if rowcount \<noteq> 1
          then raise_exc (run_error ''software engineering action could not be claimed atomically'')
          else ret \<lparr>ac_action_id = i, ac_claim_id = k, ac_target = rs_target cur,
                    ac_objective = objective, ac_claimed_at = now_utc c 0\<rparr>))))"

lemma sq_claim_approved_body:
  "sq_claim_approved c k i =
     sql_tx ''software engineering execution claim could not be persisted'' (bnd (select_row i) (claim_body c k i))"
  unfolding sq_claim_approved_def claim_body_def Let_def claim_cond_def claim_set_def
  by (intro arg_cong [where f = "sql_tx _"] arg_cong [where f = "bnd _"] ext)
     (simp add: sq_op_simps claimable_def split: option.splits sum.splits)

lemma claim_body_claims:
  assumes rel: "db_rel db s" and get: "dict_get s i = Some cur" and ok: "claimable cur = Inr obj"
    and c: "valid_clock c"
    and st: "st = cur\<lparr>rs_claim_id := Some k, rs_claimed_at := Some (now_utc c 0), rs_claim_resolution := None,
        rs_claim_reconciled_at := None, rs_updated_at := Some (now_utc c 0)\<rparr>"
  shows "claim_body c k i (Some (encode_state cur)) (db_rows db) =
       (Inr \<lparr>ac_action_id = i, ac_claim_id = k, ac_target = rs_target cur, ac_objective = obj,
             ac_claimed_at = now_utc c 0\<rparr>, map (encode_state \<circ> snd) (dict_set i st s))"
    and "storable st" "rs_action_id st = i"
proof -
  have cur: "storable cur" "rs_action_id cur = i" using db_rel_get [OF rel get] by auto
  have cond: "claim_cond i (encode_state cur)"
    using ok cur(2) by (simp add: claim_cond_def encode_state_def claimable_Inr)
  show "storable st" "rs_action_id st = i"
    using cur now_utc_storable [OF c, of 0] by (simp_all add: st storable_def)
  have f: "claim_set c k (encode_state cur) = encode_state st"
    by (simp add: st claim_set_def encode_state_def)
  have rows: "db_rows db = map (encode_state \<circ> snd) s" "distinct (map fst s)"
    "\<forall>(k, st)\<in>set s. rs_action_id st = k" using rel by (auto simp: db_rel_def)
  have "update_where (claim_cond i) (claim_set c k) (db_rows db)
      = (Inr 1, map (encode_state \<circ> snd) (dict_set i st s))"
    using update_rows [where cond = "claim_cond i" and f = "claim_set c k", OF rows(2,3) get _ cond f]
    unfolding update_where_def rows(1) by (simp add: claim_cond_def)
  then show "claim_body c k i (Some (encode_state cur)) (db_rows db) =
       (Inr \<lparr>ac_action_id = i, ac_claim_id = k, ac_target = rs_target cur, ac_objective = obj,
             ac_claimed_at = now_utc c 0\<rparr>, map (encode_state \<circ> snd) (dict_set i st s))"
    by (simp add: claim_body_def ok bnd_def state_from_encode [OF cur(1)])
qed

lemma sq_claim_approved_simulated:
  assumes rel: "db_rel db s" and c: "valid_clock c"
  shows "simulated True (mem_claim_approved c k i) (sq_claim_approved c k i) db s"
proof (cases rule: sql_tx_cases [of db "''software engineering execution claim could not be persisted''"
      "bnd (select_row i) (claim_body c k i)"])
  case served
  have body: "bnd (select_row i) (claim_body c k i) (db_rows db)
      = claim_body c k i (map_option encode_state (dict_get s i)) (db_rows db)"
    by (simp add: bnd_def select_row_def db_rel_row [OF rel])
  consider (none) "dict_get s i = None"
    | (refuse) cur e where "dict_get s i = Some cur" "claimable cur = Inl e"
    | (claim) cur obj where "dict_get s i = Some cur" "claimable cur = Inr obj"
    by (metis option.exhaust sum.exhaust)
  then show ?thesis
  proof cases
    case none
    then show ?thesis
      using served(2) rel unfolding sq_claim_approved_body body
      by (intro simulatedI [where db' = "db\<lparr>db_next := Suc (db_next db)\<rparr>" and s' = s])
         (auto simp: claim_body_def mem_claim_approved_eq db_rel_next)
  next
    case (refuse cur e)
    then have "claim_body c k i (Some (encode_state cur)) (db_rows db) = (Inl e, db_rows db)"
      using db_rel_get [OF rel, of i cur] by (simp add: claim_body_def bnd_def state_from_encode)
    with refuse show ?thesis
      using served(2) rel unfolding sq_claim_approved_body body
      by (intro simulatedI [where db' = "db\<lparr>db_next := Suc (db_next db)\<rparr>" and s' = s])
         (auto simp: mem_claim_approved_eq db_rel_next)
  next
    case (claim cur obj)
    note b = claim_body_claims [OF rel claim c refl, of k]
    show ?thesis
      using served(2) claim b(1)
      unfolding sq_claim_approved_body body
      by (intro simulatedI [OF _ db_rel_set [OF rel b(3,2), of "Suc (db_next db)"]])
         (auto simp: mem_claim_approved_eq)
  qed
next
  case (failed e)
  then show ?thesis
    unfolding sq_claim_approved_body using rel by (auto simp: db_rel_next intro: simulated_errorI)
qed

text \<open>Release and abandonment: one conditional update.\<close>

lemma reconcile_simulated:
  assumes rel: "db_rel db s" and e: "valid_datetime e"
    and m: "\<And>cur. dict_get s i = Some cur \<Longrightarrow> cond (encode_state cur) \<Longrightarrow> storable cur \<Longrightarrow> rs_action_id cur = i \<Longrightarrow>
       m s = (Inr (ap cur), dict_set i (ap cur) s) \<and> f (encode_state cur) = encode_state (ap cur)
       \<and> storable (ap cur) \<and> rs_action_id (ap cur) = i"
    and cond: "\<And>row. cond row \<Longrightarrow> c_action_id row = uuid_str i"
  shows "simulated False m
     (bnd (sql_tx msg (bnd (update_where cond f) (\<lambda>n. if n \<noteq> 1 then raise_exc ex else ret ()))) (\<lambda>_. sq_require i)) db s"
proof (cases "\<exists>cur. dict_get s i = Some cur \<and> cond (encode_state cur)")
  case True
  then obtain cur where cur: "dict_get s i = Some cur" "cond (encode_state cur)" by blast
  note mm = m [OF cur] db_rel_get [OF rel cur(1)]
  have "simulated True m
     (bnd (sql_tx msg (bnd (update_where cond f) (\<lambda>n. if n \<noteq> 1 then raise_exc ex else ret ()))) (\<lambda>_. sq_require i)) db s"
    by (rule update_then_require [where m = m and cur = cur and st = "ap cur", OF rel cur(1)])
       (use mm cond cur in auto)
  then show ?thesis by (auto simp: simulated_def)
next
  case False
  then obtain db' e where "db_rel db' s" "healthy db' = healthy db"
    "sql_tx msg (bnd (update_where cond f) (\<lambda>n. if n \<noteq> 1 then raise_exc ex else ret ())) db = (Inl e, db')"
    using update_where_none [OF rel, of cond i msg f ex "()"] cond by blast
  then show ?thesis by (intro simulated_errorI [of _ _ e db' s]) (simp_all add: bnd_def)
qed

lemma updated_at_text:
  assumes "storable cur" "valid_datetime e" "c_updated_at (encode_state cur) = isoformat e"
  shows "opt_dt_eq (rs_updated_at cur) e"
proof -
  obtain u where u: "rs_updated_at cur = Some u" "valid_datetime u"
    using assms(1) by (auto simp: storable_def storable_time_def)
  then have "u = e" using isoformat_inject assms(2,3) by (simp add: encode_state_def)
  with u show ?thesis by (simp add: opt_dt_eq_def)
qed

lemma sq_release_simulated:
  assumes rel: "db_rel db s" and e: "valid_datetime e" and t: "valid_datetime t"
  shows "simulated False (mem_release_unstarted_claim i e t) (sq_release_unstarted_claim i e t) db s"
proof (cases "is_aware e \<and> is_aware t")
  case True
  then have aware: "require_aware e = Inr e" "require_aware t = Inr t" by (simp_all add: require_aware_def)
  have st: "storable_time (Some t)" using True t by (simp add: storable_time_def)
  show ?thesis
    unfolding sq_release_unstarted_claim_def aware bnd_liftr_Inr mem_release_unstarted_claim_edit
    by (rule reconcile_simulated [OF rel e, where ap = "\<lambda>cur. cur\<lparr>rs_claim_id := None, rs_claimed_at := None,
              rs_claim_resolution := Some RELEASED_BEFORE_START,
              rs_claim_reconciled_at := Some t, rs_updated_at := Some t\<rparr>"])
       (use aware updated_at_text [OF _ e] st in
         \<open>auto simp: mem_edit_eq edit_release_def reconcilable_def guard_exc_def encode_state_def storable_def\<close>)
next
  case False
  then show ?thesis
    using rel by (auto simp: simulated_def sq_release_unstarted_claim_def bnd_def require_aware_def)
qed

lemma sq_abandon_simulated:
  assumes rel: "db_rel db s" and e: "valid_datetime e" and t: "valid_datetime t"
  shows "simulated False (mem_abandon_started_claim i e t) (sq_abandon_started_claim i e t) db s"
proof (cases "is_aware e \<and> is_aware t")
  case True
  then have aware: "require_aware e = Inr e" "require_aware t = Inr t" by (simp_all add: require_aware_def)
  have st: "storable_time (Some t)" using True t by (simp add: storable_time_def)
  show ?thesis
    unfolding sq_abandon_started_claim_def aware bnd_liftr_Inr mem_abandon_started_claim_edit
    by (rule reconcile_simulated [OF rel e, where ap = "\<lambda>cur. cur\<lparr>rs_pending_objective := None,
              rs_claim_resolution := Some ABANDONED_AFTER_START,
              rs_claim_reconciled_at := Some t, rs_updated_at := Some t\<rparr>"])
       (use aware updated_at_text [OF _ e] st in
         \<open>auto simp: mem_edit_eq edit_abandon_def reconcilable_def guard_exc_def encode_state_def storable_def\<close>)
next
  case False
  then show ?thesis
    using rel by (auto simp: simulated_def sq_abandon_started_claim_def bnd_def require_aware_def)
qed

text \<open>Registration: a new row, or an update of the action's row.\<close>

lemma fresh_row_encode:
  "fresh_row i role cap target deleg obj appr (isoformat t) = encode_state (mk_run_state i role cap target deleg obj appr t t)"
  by (simp add: fresh_row_def encode_state_def mk_run_state_def)

lemma mk_run_state_storable: "valid_clock c \<Longrightarrow> storable (mk_run_state i role cap target deleg obj appr (now_utc c 0) (now_utc c 0))"
  using now_utc_storable [of c 0] by (simp add: storable_def mk_run_state_def)

lemma insert_row_cases:
  assumes rel: "db_rel db s" and get: "dict_get s i = None" and st: "rs_action_id st = i" "storable st"
  obtains db' where "db_rel db' (dict_set i st s)" "healthy db' = healthy db"
      "sql_tx msg (insert_row (encode_state st)) db = (Inr (), db')"
  | db' e where "db_rel db' s" "healthy db' = healthy db" "\<not> healthy db"
      "sql_tx msg (insert_row (encode_state st)) db = (Inl (run_error e), db')"
proof (cases rule: sql_tx_cases [of db msg "insert_row (encode_state st)"])
  case served
  have app: "dict_set i st s = s @ [(i, st)]" using get by (simp add: dict_set_new dict_has_def)
  have "c_action_id row \<noteq> uuid_str i" if "row \<in> set (db_rows db)" for row
    using db_rel_row [OF rel, of i] get that by (simp add: find_first_None)
  then have "insert_row (encode_state st) (db_rows db) = (Inr (), map (encode_state \<circ> snd) (dict_set i st s))"
    using st rel by (auto simp: insert_row_def encode_state_def app db_rel_def)
  then show thesis
    using served by (intro that(1) [OF db_rel_set [OF rel st, of "Suc (db_next db)"]]) simp_all
next
  case (failed e)
  then show thesis
    using that(2) [of "db\<lparr>db_next := Suc (db_next db)\<rparr>"] rel by (simp add: db_rel_next)
qed

definition sq_insert ::
  "clock \<Rightarrow> uuid \<Rightarrow> string \<Rightarrow> string \<Rightarrow> string \<Rightarrow> string option \<Rightarrow> string option
     \<Rightarrow> SoftwareEngineeringApprovalStatus option \<Rightarrow> (sqlite_db, run_state) prog" where
  "sq_insert c i target role cap deleg normalized appr =
     bnd (try_except
            (sql_tx ''software engineering action identity could not be registered''
               (insert_row (fresh_row i role cap target deleg normalized appr (isoformat (now_utc c 0)))))
            (\<lambda>e. if e = OtherException ''IntegrityError'' ''''
                 then bnd (sq_get i) (\<lambda>again. case again of
                     None \<Rightarrow> raise_exc (run_error ''software engineering action identity could not be registered'')
                   | Some cur \<Rightarrow>
                       bnd (liftr (require_same_identity cur target role cap)) (\<lambda>_.
                       liftr (require_compatible_objective cur normalized)))
                 else raise_exc e)) (\<lambda>_. sq_require i)"

lemma sq_insert_simulated:
  assumes rel: "db_rel db s" and get: "dict_get s i = None" and c: "valid_clock c"
    and n: "normalize_objective obj = Inr normalized"
  shows "simulated True (mem_register_action c i target role cap deleg obj appr)
     (sq_insert c i target role cap deleg normalized appr) db s"
proof -
  define st where "st = mk_run_state i role cap target deleg normalized appr (now_utc c 0) (now_utc c 0)"
  have st: "rs_action_id st = i" "storable st"
    using mk_run_state_storable [OF c] by (simp_all add: st_def mk_run_state_def)
  have m: "mem_register_action c i target role cap deleg obj appr s = (Inr st, dict_set i st s)"
    by (simp add: mem_register_action_eq get n st_def Let_def)
  note ins = sq_insert_def fresh_row_encode st_def [symmetric]
  show ?thesis
  proof (rule insert_row_cases [OF rel get st, of "''software engineering action identity could not be registered''"])
    fix db1 assume r1: "db_rel db1 (dict_set i st s)" "healthy db1 = healthy db"
      "sql_tx ''software engineering action identity could not be registered'' (insert_row (encode_state st)) db = (Inr (), db1)"
    show ?thesis
      by (rule sq_require_cases [OF r1(1), of i])
         (use r1 m in \<open>auto simp: ins bnd_def try_except_def intro: simulatedI simulated_errorI\<close>)
  next
    fix db1 e assume "db_rel db1 s" "healthy db1 = healthy db" "\<not> healthy db"
      "sql_tx ''software engineering action identity could not be registered'' (insert_row (encode_state st)) db = (Inl (run_error e), db1)"
    then show ?thesis
      by (intro simulated_errorI [of _ _ "run_error e" db1 s]) (simp_all add: ins bnd_def try_except_def)
  qed
qed

definition register_set ::
  "clock \<Rightarrow> string option \<Rightarrow> string option \<Rightarrow> SoftwareEngineeringApprovalStatus option \<Rightarrow> run_state
     \<Rightarrow> sql_row \<Rightarrow> sql_row" where
  "register_set c deleg normalized appr cur row =
     (let r1 = row\<lparr>c_updated_at := isoformat (now_utc c 0)\<rparr>;
          r2 = (if deleg \<noteq> None then r1\<lparr>c_delegation_status := deleg\<rparr> else r1);
          r3 = (if normalized \<noteq> None \<and> rs_pending_objective cur = None
                then r2\<lparr>c_pending_objective := normalized\<rparr> else r2)
      in if appr \<noteq> None then r3\<lparr>c_approval_status := map_option approval_status_value appr\<rparr> else r3)"

lemma sq_register_action_eq:
  "sq_register_action c i target role cap deleg obj appr =
     bnd (liftr (normalize_objective obj)) (\<lambda>normalized.
     bnd (sq_get i) (\<lambda>current. case current of
        Some cur \<Rightarrow>
          bnd (liftr (require_same_identity cur target role cap)) (\<lambda>_.
          bnd (liftr (require_compatible_objective cur normalized)) (\<lambda>_.
          bnd (sq_update i (register_set c deleg normalized appr cur)) (\<lambda>_. sq_require i)))
      | None \<Rightarrow> sq_insert c i target role cap deleg normalized appr))"
  unfolding sq_register_action_def sq_insert_def register_set_def ..

lemma sq_reregister_simulated:
  assumes rel: "db_rel db s" and get: "dict_get s i = Some cur" and c: "valid_clock c"
    and n: "normalize_objective obj = Inr n"
  shows "simulated True (mem_register_action c i target role cap deleg obj appr)
     (bnd (liftr (require_same_identity cur target role cap)) (\<lambda>_.
      bnd (liftr (require_compatible_objective cur n)) (\<lambda>_.
      bnd (sq_update i (register_set c deleg n appr cur)) (\<lambda>_. sq_require i)))) db s"
    (is "simulated True ?m _ db s")
proof (cases "edit_register c target role cap deleg obj appr cur")
  case (Inl e)
  then show ?thesis
    using rel get n
    by (intro simulatedI [of _ _ "Inl e" db s])
       (auto simp: mem_register_action_eq bnd_def edit_register_def rbind_def split: sum.splits)
next
  case (Inr st)
  note cur = db_rel_get [OF rel get]
  have ok: "require_same_identity cur target role cap = Inr ()" "require_compatible_objective cur n = Inr ()"
    using Inr n by (auto simp: edit_register_def)
  have st: "storable st" "rs_action_id st = i"
    using Inr n cur now_utc_storable [OF c, of 0] by (auto simp: edit_register_def storable_def)
  have m: "?m s = (Inr st, dict_set i st s)" using get Inr by (simp add: mem_register_action_eq)
  have f: "register_set c deleg n appr cur (encode_state cur) = encode_state st"
    using Inr n by (auto simp: register_set_def edit_register_def encode_state_def Let_def)
  show ?thesis
    unfolding ok bnd_liftr_Inr sq_update_def
    by (rule update_then_require [where m = ?m and cur = cur and st = st and f = "register_set c deleg n appr cur",
          OF rel get m _ _ f st])
       (use cur in \<open>auto simp: encode_state_def\<close>)
qed

lemma simulated_after:
  "q db = q1 db1 \<Longrightarrow> healthy db1 = healthy db \<Longrightarrow> simulated exact m q1 db1 s \<Longrightarrow> simulated exact m q db s"
  by (simp add: simulated_def)

lemma sq_register_simulated:
  assumes rel: "db_rel db s" and c: "valid_clock c"
  shows "simulated True (mem_register_action c i target role cap deleg obj appr)
     (sq_register_action c i target role cap deleg obj appr) db s"
proof (cases "normalize_objective obj")
  case (Inl e)
  have "mem_register_action c i target role cap deleg obj appr s = (Inl e, s)"
    by (simp add: mem_register_action_def Inl bnd_def)
  then show ?thesis
    using rel by (intro simulatedI [of _ _ "Inl e" db s]) (simp_all add: sq_register_action_def Inl bnd_def)
next
  case (Inr n)
  show ?thesis
  proof (rule sq_get_cases [OF rel, of i])
    fix db1 assume r1: "db_rel db1 s" "healthy db1 = healthy db" "sq_get i db = (Inr (dict_get s i), db1)"
    show ?thesis
    proof (cases "dict_get s i")
      case None
      show ?thesis
        by (rule simulated_after [OF _ r1(2) sq_insert_simulated [OF r1(1) None c Inr]])
           (simp add: sq_register_action_eq Inr None r1(3) bnd_def)
    next
      case (Some cur)
      show ?thesis
        by (rule simulated_after [OF _ r1(2) sq_reregister_simulated [OF r1(1) Some c Inr]])
           (simp add: sq_register_action_eq Inr Some r1(3) bnd_def)
    qed
  next
    fix db1 e assume "db_rel db1 s" "healthy db1 = healthy db" "\<not> healthy db" "sq_get i db = (Inl e, db1)"
    then show ?thesis
      by (intro simulated_errorI [of _ _ e db1 s]) (simp_all add: sq_register_action_def Inr bnd_def)
  qed
qed

section \<open>The refinement and the contract\<close>

fun exact_call :: "run_call \<Rightarrow> bool" where
  "exact_call (ReleaseUnstartedClaim i e t) = False"
| "exact_call (AbandonStartedClaim i e t) = False"
| "exact_call call = True"

lemma sqlite_ops_sel [simp]:
  "run_get sqlite_ops = sq_get" "run_list_pending sqlite_ops = sq_list_pending"
  "run_register_action sqlite_ops = sq_register_action" "run_record_approval sqlite_ops = sq_record_approval"
  "run_record_rejection sqlite_ops = sq_record_rejection" "run_claim_approved sqlite_ops = sq_claim_approved"
  "run_record_execution_started sqlite_ops = sq_record_execution_started"
  "run_release_unstarted_claim sqlite_ops = sq_release_unstarted_claim"
  "run_abandon_started_claim sqlite_ops = sq_abandon_started_claim"
  "run_record_execution sqlite_ops = sq_record_execution"
  "run_record_disposition sqlite_ops = sq_record_disposition"
  "run_record_promotion sqlite_ops = sq_record_promotion"
  by (simp_all add: sqlite_ops_def)

lemma valid_epoch: "valid_datetime \<lparr>dt_year = 1970, dt_month = 1, dt_day = 1, dt_hour = 0, dt_minute = 0,
    dt_second = 0, dt_micro = 0, dt_offset = Some 0\<rparr>"
  by (simp add: valid_datetime_def days_in_month_def)

lemma call_simulated:
  assumes "db_rel db s" "call_valid call"
  shows "simulated (exact_call call) (exec_call mem_ops call) (exec_call sqlite_ops call) db s"
  using assms valid_epoch
  by (cases call)
     (auto intro!: simulated_reply guarded_calls_simulated sq_claim_approved_simulated
        sq_release_simulated sq_abandon_simulated sq_register_simulated)

text \<open>The mapping a database holds.\<close>

definition db_abs :: "sqlite_db \<Rightarrow> mem_runs" where
  "db_abs db = map (\<lambda>row. let st = projr (state_from_row row) in (rs_action_id st, st)) (db_rows db)"

definition db_inv :: "sqlite_db \<Rightarrow> bool" where
  "db_inv db \<longleftrightarrow> db_rel db (db_abs db)"

definition sq_view :: "sqlite_db \<Rightarrow> run_view" where
  "sq_view db = mem_view (db_abs db)"

lemma db_rel_abs: "db_rel db s \<Longrightarrow> db_abs db = s"
proof -
  assume rel: "db_rel db s"
  have "map (\<lambda>row. let st = projr (state_from_row row) in (rs_action_id st, st)) (map (encode_state \<circ> snd) s) = s"
    using rel by (auto simp: db_rel_def state_from_encode Let_def intro!: map_idI)
  with rel show ?thesis by (simp add: db_abs_def db_rel_def)
qed

lemma db_inv_mem: "db_inv db \<Longrightarrow> mem_inv (db_abs db)"
  by (fastforce simp: db_inv_def db_rel_def mem_inv_def storable_def storable_time_def)

lemma call_outcome:
  assumes "db_inv db" "call_valid call" "exec_call sqlite_ops call db = (res, db')"
  shows "db_inv db'" "healthy db' = healthy db"
    "exact_call call \<and> healthy db \<Longrightarrow> exec_call mem_ops call (db_abs db) = (res, db_abs db')"
    "exec_call mem_ops call (db_abs db) = (res, db_abs db') \<or>
       (\<exists>e. res = Inl e) \<and> (db_abs db' = db_abs db \<or> db_abs db' = snd (exec_call mem_ops call (db_abs db)))"
proof -
  obtain s' where r: "db_rel db' s'" "healthy db' = healthy db"
    "exact_call call \<and> healthy db \<longrightarrow> exec_call mem_ops call (db_abs db) = (res, s')"
    "exec_call mem_ops call (db_abs db) = (res, s') \<or>
       (\<exists>e. res = Inl e) \<and> (s' = db_abs db \<or> s' = snd (exec_call mem_ops call (db_abs db)))"
    using call_simulated [OF assms(1) [unfolded db_inv_def] assms(2)] assms(3) by (auto simp: simulated_def)
  have "s' = db_abs db'" using db_rel_abs [OF r(1)] by simp
  with r show "db_inv db'" "healthy db' = healthy db"
    "exact_call call \<and> healthy db \<Longrightarrow> exec_call mem_ops call (db_abs db) = (res, db_abs db')"
    "exec_call mem_ops call (db_abs db) = (res, db_abs db') \<or>
       (\<exists>e. res = Inl e) \<and> (db_abs db' = db_abs db \<or> db_abs db' = snd (exec_call mem_ops call (db_abs db)))"
    by (simp_all add: db_inv_def)
qed

lemma run_effect_weaken: "run_effect call v res v' \<Longrightarrow> run_effect call v (Inl e) v'"
  by (auto simp: run_effect_def split: sum.splits)

lemma sq_call_law:
  assumes "db_inv db" "call_valid call" "exec_call sqlite_ops call db = (res, db')"
  shows "db_inv db' \<and> run_effect call (sq_view db) res (sq_view db')"
proof -
  obtain mres s1 where m: "exec_call mem_ops call (db_abs db) = (mres, s1)" by fastforce
  have eff: "run_effect call (mem_view (db_abs db)) mres (mem_view s1)"
    using mem_call_law [OF assms(2) db_inv_mem [OF assms(1)] m] by simp
  have "run_effect call (sq_view db) res (sq_view db')"
    using call_outcome(4) [OF assms] eff m
    by (auto simp: sq_view_def run_effect_def [of call _ "Inl _"] dest: run_effect_weaken split: sum.splits)
  with call_outcome(1) [OF assms] show ?thesis by simp
qed

lemma map_result_Inr: "(\<And>x. x \<in> set xs \<Longrightarrow> f x = Inr (g x)) \<Longrightarrow> map_result f xs = Inr (map g xs)"
  by (induction xs) auto

lemma sq_pending_law:
  assumes "db_inv db" "sq_list_pending db = (res, db')"
  shows "db_inv db' \<and> sq_view db' = sq_view db \<and>
    (\<forall>xs. res = Inr xs \<longrightarrow> set xs = {st. \<exists>i. sq_view db i = Some st \<and> pending_approval st})"
proof -
  define s where "s = db_abs db"
  have rel: "db_rel db s" using assms(1) by (simp add: db_inv_def s_def)
  have rows: "db_rows db = map (encode_state \<circ> snd) s" "distinct (map fst s)" "\<forall>p\<in>set s. storable (snd p)"
    using rel by (auto simp: db_rel_def)
  define P where "P = (\<lambda>row :: sql_row. c_approval_status row = Some (approval_status_value AWAITING_APPROVAL)
              \<and> c_claim_id row = None \<and> c_execution_status row = None)"
  have P: "P (encode_state st) \<longleftrightarrow> pending_approval st" for st
    by (cases "rs_approval_status st"; cases "the (rs_approval_status st)")
       (auto simp: P_def encode_state_def pending_approval_def)
  define q where "q = sort_key (\<lambda>row. (c_created_at row, c_action_id row)) (filter P (db_rows db))"
  have "map_result state_from_row q = Inr (map (\<lambda>row. projr (state_from_row row)) q)"
    by (rule map_result_Inr) (use rows in \<open>auto simp: q_def state_from_encode\<close>)
  moreover have "set (map (\<lambda>row. projr (state_from_row row)) q) = {st. \<exists>i. mem_view s i = Some st \<and> pending_approval st}"
    using rows P by (force simp: q_def state_from_encode mem_view_def image_iff)
  moreover have "fst (sq_list_pending db) = map_result state_from_row q \<or> (\<exists>e. fst (sq_list_pending db) = Inl e)"
    and "snd (sq_list_pending db) = db\<lparr>db_next := Suc (db_next db)\<rparr>"
    by (cases rule: sql_tx_cases [of db "''software engineering pending approvals could not be read''"
          "gets (\<lambda>rows. sort_key (\<lambda>row. (c_created_at row, c_action_id row)) (filter P rows))"];
        auto simp: sq_list_pending_def bnd_def P_def q_def)+
  moreover have "db_abs (db\<lparr>db_next := n\<rparr>) = db_abs db" for n by (simp add: db_abs_def)
  ultimately show ?thesis
    using assms by (auto simp: sq_view_def db_inv_def s_def db_rel_next)
qed

lemma sq_get_law:
  assumes "db_inv db" "sq_get i db = (res, db')"
  shows "db_inv db' \<and> sq_view db' = sq_view db \<and> (\<forall>x. res = Inr x \<longrightarrow> x = sq_view db i)"
proof -
  have rel: "db_rel db (db_abs db)" using assms(1) by (simp add: db_inv_def)
  show ?thesis
    by (rule sq_get_cases [OF rel, of i])
       (use assms(2) in \<open>auto simp: sq_view_def db_inv_def mem_view_def db_rel_abs\<close>)
qed

interpretation sq: run_repository sqlite_ops sq_view db_inv
proof
  show "db_inv r' \<and> sq_view r' = sq_view r \<and> (\<forall>x. res = Inr x \<longrightarrow> x = sq_view r i)"
    if "db_inv r" "run_get sqlite_ops i r = (res, r')" for r i res r'
    using sq_get_law that by simp
  show "db_inv r' \<and> sq_view r' = sq_view r \<and>
      (\<forall>xs. res = Inr xs \<longrightarrow> set xs = {st. \<exists>i. sq_view r i = Some st \<and> pending_approval st})"
    if "db_inv r" "run_list_pending sqlite_ops r = (res, r')" for r res r'
    using sq_pending_law that by simp
  show "rs_action_id st = i" if "db_inv r" "sq_view r i = Some st" for r i st
    using that mem_inv_get [OF db_inv_mem] by (simp add: sq_view_def mem_view_def)
  show "valid_datetime t" if "db_inv r" "sq_view r i = Some st" "rs_updated_at st = Some t" for r i st t
    using that db_inv_mem [of r] mem.view_updated by (simp add: sq_view_def)
qed (rule sq_call_law)

end
