(* ===== verification/Server.thy ===== *)
theory Server
  imports Events SE_Promotion Runtime_Safety SE_Refinement
begin

text \<open>
  The server as a whole: the operations of the API and of the command line as steps on one state, in any
  order and with any outcome, and the authorization invariant. A step carries the set of actions
  that were authorized so far: by the permission engine (\<open>ALLOWED\<close>) or by an operator's request to approve.
  A restart loses the process-local stores and keeps the run repository. The execution log is kept across a
  restart as a history of the executions that were started.
\<close>

section \<open>Configuration and steps\<close>

record ('r, 'w, 'x) server_config =
  cf_ops :: "'r run_ops"
  cf_registry :: "'x executor_registry"
  cf_run :: "'x \<Rightarrow> action \<Rightarrow> string option \<Rightarrow> worker_account_context option \<Rightarrow> 'w \<Rightarrow> worker_execution_result result \<times> 'w"
  cf_max_transient_retries :: int
  cf_dump_lifecycle :: "action_lifecycle_state \<Rightarrow> pyval"
  cf_workflow :: event_workflow
  cf_digest :: "string \<Rightarrow> string"
  cf_reviewer :: "'w reviewer option"
  cf_disposer :: "'w disposer option"
  cf_host :: "'w host"
  cf_promotion :: "'w promotion_service"

definition cf_runtime :: "('r, 'w, 'x) server_config \<Rightarrow> ('r, 'w, 'z, 'x) worker_runtime" where
  "cf_runtime cf = durable_runtime (cf_ops cf) (cf_registry cf) (cf_run cf)
     (cf_max_transient_retries cf) (cf_dump_lifecycle cf)"

text \<open>The actions a processed event authorizes: those the engine allowed.\<close>

definition allowed_ids :: "permission_evaluation list \<Rightarrow> uuid set" where
  "allowed_ids es = act_id ` set (queueable_actions es)"

definition event_authorizes :: "event_processing_result result \<Rightarrow> uuid set" where
  "event_authorizes r = (case r of Inl e \<Rightarrow> {} | Inr x \<Rightarrow> allowed_ids (epr_permission_evaluations x))"

text \<open>A delegated task is authorized when the engine allows its action.\<close>

definition delegation_authorizes ::
  "permission_engine \<Rightarrow> clock \<Rightarrow> uuid \<Rightarrow> task_delegation_request \<Rightarrow> uuid set" where
  "delegation_authorizes engine c i r =
     (case action_for i (now_utc c 0) r of
        Inl e \<Rightarrow> {}
      | Inr a \<Rightarrow> (case resolve_decision engine (\<lambda>n. c (Suc n)) a of
            Inl e \<Rightarrow> {} | Inr d \<Rightarrow> if pdec_status d = ALLOWED then {i} else {}))"

definition se_request :: "string \<Rightarrow> string \<Rightarrow> task_delegation_request" where
  "se_request objective target =
     \<lparr>tdr_objective = objective, tdr_target = target, tdr_executor_role = SOFTWARE_ENGINEERING,
      tdr_capability = SOFTWARE_ENGINEERING_IMPLEMENT_CAPABILITY, tdr_account_context = None\<rparr>"

definition valid_inputs :: "worker_inputs \<Rightarrow> bool" where
  "valid_inputs inp \<longleftrightarrow> valid_clock (wi_clock inp) \<and> valid_clock (wi_start_clock inp) \<and> valid_clock (wi_finish_clock inp)"

definition restart_state :: "('r, 'w) server_state \<Rightarrow> ('r, 'w) server_state" where
  "restart_state s = s\<lparr>action_queue := [], action_lifecycle_repository := [], pending_approval_registry := [],
     event_repository := [], event_inbox := [], event_lifecycle_states := []\<rparr>"

inductive server_step ::
  "('r, 'w, 'x) server_config \<Rightarrow> ('r, 'w) server_state \<times> uuid set \<Rightarrow> ('r, 'w) server_state \<times> uuid set \<Rightarrow> bool"
  for cf where
  accept: "accept_event c e s = (r, s') \<Longrightarrow> server_step cf (s, G) (s', G)"
| process: "process_event (cf_workflow cf) c pc aid i route s = (r, s') \<Longrightarrow>
    server_step cf (s, G) (s', G \<union> event_authorizes r)"
| delegate: "valid_clock rc \<Longrightarrow>
    ingress_delegate (cf_ops cf) (cf_registry cf) (ew_engine (cf_workflow cf)) (ew_dump (cf_workflow cf))
      c rc i objective target s = (r, s') \<Longrightarrow>
    server_step cf (s, G)
      (s', G \<union> delegation_authorizes (ew_engine (cf_workflow cf)) c i (se_request objective target))"
| approve: "valid_clock c1 \<Longrightarrow> valid_clock c2 \<Longrightarrow>
    approve_pending_action (Some (se_recovery (cf_ops cf) c1)) (Some (se_recorder (cf_ops cf) c2)) c i s = (r, s') \<Longrightarrow>
    server_step cf (s, G) (s', insert i G)"
| reject: "valid_clock c1 \<Longrightarrow> valid_clock c2 \<Longrightarrow>
    reject_pending_action (Some (se_recovery (cf_ops cf) c1)) (Some (se_recorder (cf_ops cf) c2)) c reason i s = (r, s') \<Longrightarrow>
    server_step cf (s, G) (s', G)"
| work: "valid_inputs inp \<Longrightarrow> process_next (cf_runtime cf) inp s = (r, s') \<Longrightarrow> server_step cf (s, G) (s', G)"
| work_on: "valid_inputs inp \<Longrightarrow> process_action (cf_runtime cf) inp i s = (r, s') \<Longrightarrow> server_step cf (s, G) (s', G)"
| continue_run: "valid_clock c \<Longrightarrow> valid_inputs inp \<Longrightarrow>
    continuation_execute (cf_ops cf) (cf_runtime cf) (cf_reviewer cf) c k inp i s = (r, s') \<Longrightarrow>
    server_step cf (s, G) (s', G)"
| reconcile: "valid_clock c \<Longrightarrow>
    control_reconcile (cf_ops cf) (cf_digest cf) (cf_reviewer cf) c i resolution token ack s = (r, s') \<Longrightarrow>
    server_step cf (s, G) (s', G)"
| dispose: "valid_clock c \<Longrightarrow> disposition_apply (cf_ops cf) (cf_disposer cf) c i d s = (r, s') \<Longrightarrow>
    server_step cf (s, G) (s', G)"
| promote_run: "valid_clock c \<Longrightarrow>
    promote (cf_ops cf) (cf_host cf) (cf_promotion cf) c i title body s = (r, s') \<Longrightarrow> server_step cf (s, G) (s', G)"
| inspect_run: "control_status (cf_ops cf) (cf_digest cf) (cf_reviewer cf) i s = (r, s') \<Longrightarrow>
    server_step cf (s, G) (s', G)"
| list_runs: "recovery_list_pending (cf_ops cf) c s = (r, s') \<Longrightarrow> server_step cf (s, G) (s', G)"
| restart: "server_step cf (s, G) (restart_state s, G)"

inductive server_reachable ::
  "('r, 'w, 'x) server_config \<Rightarrow> ('r, 'w) server_state \<Rightarrow> ('r, 'w) server_state \<times> uuid set \<Rightarrow> bool"
  for cf s0 where
  start: "server_reachable cf s0 (s0, {})"
| step: "server_reachable cf s0 x \<Longrightarrow> server_step cf x y \<Longrightarrow> server_reachable cf s0 y"

section \<open>Programs that keep a predicate\<close>

definition keeps :: "('s \<Rightarrow> bool) \<Rightarrow> ('s, 'a) prog \<Rightarrow> bool" where
  "keeps P m \<longleftrightarrow> (\<forall>s. P s \<longrightarrow> P (snd (m s)))"

named_theorems keep_intros \<open>predicates kept by programs\<close>

lemma keeps_pure [keep_intros]:
  "keeps P (ret x)" "keeps P (raise_exc e)" "keeps P (liftr q)" "keeps P (gets g)"
  by (simp_all add: keeps_def)

lemma keeps_bnd [keep_intros]:
  assumes "keeps P m" "\<And>x s s'. P s \<Longrightarrow> m s = (Inr x, s') \<Longrightarrow> keeps P (f x)"
  shows "keeps P (bnd m f)"
  unfolding keeps_def
proof (intro allI impI)
  fix s assume P: "P s"
  obtain r s1 where m: "m s = (r, s1)" by fastforce
  have P1: "P s1" using assms(1) P m by (metis keeps_def snd_conv)
  show "P (snd (bnd m f s))"
  proof (cases r)
    case (Inl e)
    then show ?thesis using m P1 by (simp add: bnd_def)
  next
    case (Inr x)
    then have "keeps P (f x)" using assms(2) P m by blast
    then show ?thesis using m Inr P1 by (simp add: bnd_def keeps_def)
  qed
qed

lemma keeps_try [keep_intros]:
  "keeps P m \<Longrightarrow> (\<And>e. keeps P (h e)) \<Longrightarrow> keeps P (try_except m h)"
  unfolding keeps_def try_except_def by (force split: prod.splits sum.splits)

lemma keeps_case [keep_intros]:
  "keeps P a \<Longrightarrow> keeps P b \<Longrightarrow> keeps P (if c then a else b)"
  "keeps P a \<Longrightarrow> (\<And>x. keeps P (k x)) \<Longrightarrow> keeps P (case y of None \<Rightarrow> a | Some x \<Rightarrow> k x)"
  "(\<And>x z. keeps P (g x z)) \<Longrightarrow> keeps P (case p of (x, z) \<Rightarrow> g x z)"
  by (auto split: option.splits prod.splits)

lemma keepsD: "keeps P m \<Longrightarrow> m s = (r, s') \<Longrightarrow> P s \<Longrightarrow> P s'"
  by (metis keeps_def snd_conv)

lemma keeps_preserves: "preserves f m \<Longrightarrow> keeps (\<lambda>s. Q (f s)) m"
  by (simp add: keeps_def preserves_def)

section \<open>The invariant of the stores\<close>

definition store_inv :: "uuid set \<Rightarrow> ('r, 'w, 'z) process_state_scheme \<Rightarrow> bool" where
  "store_inv G s \<longleftrightarrow>
     (\<forall>i. attempted (lifecycle_of s i) \<longrightarrow> i \<in> G) \<and>
     (\<forall>i st. lifecycle_of s i = Some st \<longrightarrow> als_status st \<noteq> PLANNED \<and> (als_status st = QUEUED \<longrightarrow> awaits_approval st)) \<and>
     (\<forall>a\<in>set (action_queue s). lifecycle_of s (act_id a) \<noteq> None) \<and>
     (\<forall>i a. registry_get (pending_approval_registry s) i = Some a \<longrightarrow> act_id a = i) \<and>
     set (execution_log s) \<subseteq> G"

lemma store_inv_mono: "store_inv G s \<Longrightarrow> G \<subseteq> H \<Longrightarrow> store_inv H s"
  by (auto simp: store_inv_def)

lemma store_inv_same: "stores s' = stores s \<Longrightarrow> execution_log s' = execution_log s \<Longrightarrow> store_inv G s' = store_inv G s"
  using stores_eqD [of s' s] by (simp add: store_inv_def)

text \<open>What may be written to the lifecycle repository for action \<open>i\<close>.\<close>

definition admissible :: "uuid set \<Rightarrow> uuid \<Rightarrow> action_lifecycle_state \<Rightarrow> bool" where
  "admissible G i st \<longleftrightarrow> als_status st \<noteq> PLANNED \<and> (als_status st = QUEUED \<longrightarrow> awaits_approval st)
     \<and> (als_status st \<in> {APPROVED, EXECUTING, COMPLETED, SKIPPED, FAILED} \<longrightarrow> i \<in> G)"

lemma lifecycle_update_eq:
  "s\<lparr>action_lifecycle_repository := f (action_lifecycle_repository s)\<rparr> = action_lifecycle_repository_update f s"
  by (cases s) simp

lemma store_inv_write:
  "store_inv G s \<Longrightarrow> admissible G i st \<Longrightarrow>
     store_inv G (action_lifecycle_repository_update (lifecycle_set i st) s)"
  by (auto simp: store_inv_def admissible_def attempted_def lifecycle.get_put)

lemma store_inv_queue:
  "store_inv G s \<Longrightarrow> \<forall>a\<in>set q. lifecycle_of s (act_id a) \<noteq> None \<Longrightarrow> store_inv G (s\<lparr>action_queue := q\<rparr>)"
  by (simp add: store_inv_def execution_log_def)

lemma store_inv_executable:
  "store_inv G s \<Longrightarrow> lifecycle_of s i \<noteq> None \<Longrightarrow> executable (lifecycle_of s i) \<Longrightarrow> i \<in> G"
  by (auto simp: store_inv_def executable_def attempted_def)

lemma store_inv_attempt:
  assumes inv: "store_inv G s" and known: "lifecycle_of s (act_id a) \<noteq> None" and eff: "attempt_effect a s s'"
    and gate: "\<not> executable (lifecycle_of s (act_id a)) \<Longrightarrow>
      execution_log s' = execution_log s \<and> action_lifecycle_repository s' = action_lifecycle_repository s"
  shows "store_inv G s'"
proof -
  from eff have reg: "pending_approval_registry s' = pending_approval_registry s"
    and others: "\<And>j. j \<noteq> act_id a \<Longrightarrow> lifecycle_of s' j = lifecycle_of s j"
    and queue: "set (action_queue s') \<subseteq> insert a (set (action_queue s))"
    and mine: "lifecycle_of s' (act_id a) = lifecycle_of s (act_id a) \<or> attempted (lifecycle_of s' (act_id a))"
    and log: "set (execution_log s') \<subseteq> insert (act_id a) (set (execution_log s))"
    by (auto simp: attempt_effect_def)
  show ?thesis
  proof (cases "executable (lifecycle_of s (act_id a))")
    case True
    then have G: "act_id a \<in> G" using store_inv_executable [OF inv known] by blast
    have lc: "lifecycle_of s' j = lifecycle_of s j \<or> j \<in> G \<and> attempted (lifecycle_of s' j)" for j
      using others [of j] mine G by (cases "j = act_id a") auto
    have "attempted (lifecycle_of s' j) \<longrightarrow> j \<in> G" for j
      using lc [of j] inv by (auto simp: store_inv_def)
    moreover have "als_status st \<noteq> PLANNED \<and> (als_status st = QUEUED \<longrightarrow> awaits_approval st)"
      if "lifecycle_of s' j = Some st" for j st
      using lc [of j] that inv by (auto simp: store_inv_def attempted_def)
    moreover have "lifecycle_of s' (act_id b) \<noteq> None" if "b \<in> set (action_queue s')" for b
      using lc [of "act_id b"] queue that known inv by (auto simp: store_inv_def attempted_def)
    ultimately show ?thesis using reg log G inv by (auto simp: store_inv_def)
  next
    case False
    with gate reg queue known inv show ?thesis by (auto simp: store_inv_def)
  qed
qed

text \<open>Evaluation of planned actions: the engine's decisions are admissible writes.\<close>

lemma evaluate_action_inv:
  assumes inv: "store_inv G s" and ev: "evaluate_action engine dump c a s = (r, s')"
  shows "\<exists>e. r = Inr e \<and> act_id (pe_action e) = act_id a
    \<and> resolve_decision engine c a = Inr (pe_decision e)
    \<and> store_inv (G \<union> (if is_allowed e then {act_id a} else {})) s'
    \<and> lifecycle_of s' (act_id a) \<noteq> None \<and> (\<forall>j. lifecycle_of s j \<noteq> None \<longrightarrow> lifecycle_of s' j \<noteq> None)"
proof -
  obtain d st where d: "resolve_decision engine c a = Inr d" "als_status st = initial_status (pdec_status d)"
    "als_metadata st = (case pdec_status d of ALLOWED \<Rightarrow> [] | REQUIRES_APPROVAL \<Rightarrow> [(''approval_required'', PBool True)]
        | DENIED \<Rightarrow> [(''permission_status'', PStr ''denied'')])"
    and run: "evaluate_action engine dump c a s =
       (Inr \<lparr>pe_action = apply_permission_metadata dump a d, pe_decision = d\<rparr>,
        (if pdec_status d = REQUIRES_APPROVAL
         then pending_approval_registry_update (registry_add (apply_permission_metadata dump a d)) else id)
        (s\<lparr>action_lifecycle_repository := lifecycle_set (act_id a) st (action_lifecycle_repository s)\<rparr>))"
    by (rule evaluate_action_effect [of engine c a dump s])
  let ?G = "G \<union> (if pdec_status d = ALLOWED then {act_id a} else {})"
  let ?s1 = "s\<lparr>action_lifecycle_repository := lifecycle_set (act_id a) st (action_lifecycle_repository s)\<rparr>"
  have adm: "admissible ?G (act_id a) st"
    using d(2,3) by (cases "pdec_status d") (auto simp: admissible_def initial_status_def awaits_approval_def pd_get_def)
  have s1: "store_inv ?G ?s1"
    unfolding lifecycle_update_eq by (rule store_inv_write [OF store_inv_mono [OF inv] adm]) blast
  have s': "store_inv ?G s'"
    using s1 run ev by (auto simp: store_inv_def registry_get_add)
  show ?thesis
    using s' run ev d(1) by (auto simp: is_allowed_def lifecycle.get_put)
qed

lemma evaluate_actions_inv:
  assumes "store_inv G s" "evaluate_actions engine dump c j as s = (r, s')"
  shows "\<exists>es. r = Inr es \<and> store_inv (G \<union> allowed_ids es) s'
    \<and> (\<forall>e\<in>set es. lifecycle_of s' (act_id (pe_action e)) \<noteq> None)
    \<and> (\<forall>i. lifecycle_of s i \<noteq> None \<longrightarrow> lifecycle_of s' i \<noteq> None)"
  using assms
proof (induction as arbitrary: G j s r s')
  case Nil
  then show ?case by (auto simp: allowed_ids_def queueable_actions_def)
next
  case (Cons a as)
  obtain r1 s1 where one: "evaluate_action engine dump (c j) a s = (r1, s1)" by fastforce
  from evaluate_action_inv [OF Cons.prems(1) one] obtain e where e: "r1 = Inr e" "act_id (pe_action e) = act_id a"
    "store_inv (G \<union> (if is_allowed e then {act_id a} else {})) s1" "lifecycle_of s1 (act_id a) \<noteq> None"
    "\<forall>i. lifecycle_of s i \<noteq> None \<longrightarrow> lifecycle_of s1 i \<noteq> None" by blast
  obtain r2 s2 where rest: "evaluate_actions engine dump c (Suc j) as s1 = (r2, s2)" by fastforce
  from Cons.IH [OF e(3) rest] obtain es where es: "r2 = Inr es"
    "store_inv (G \<union> (if is_allowed e then {act_id a} else {}) \<union> allowed_ids es) s2"
    "\<forall>e\<in>set es. lifecycle_of s2 (act_id (pe_action e)) \<noteq> None"
    "\<forall>i. lifecycle_of s1 i \<noteq> None \<longrightarrow> lifecycle_of s2 i \<noteq> None" by blast
  have ids: "G \<union> (if is_allowed e then {act_id a} else {}) \<union> allowed_ids es = G \<union> allowed_ids (e # es)"
    using e(2) by (auto simp: allowed_ids_def queueable_actions_def)
  have "r = Inr (e # es)" "s' = s2" using Cons.prems(2) one e(1) rest es(1) by (auto simp: bnd_def)
  with es e ids show ?case by auto
qed

section \<open>Events and delegation\<close>

definition core :: "('r, 'w, 'z) process_state_scheme \<Rightarrow> (action_queue \<times> lifecycle_repository \<times> approval_registry) \<times> uuid list \<times> 'r" where
  "core s = (stores s, execution_log s, run_repository s)"

lemma core_event_update [simp]:
  "core (event_repository_update f s) = core s" "core (event_inbox_update g s) = core s"
  "core (event_lifecycle_states_update h s) = core s"
  by (simp_all add: core_def stores_def execution_log_def)

lemma store_inv_core: "core s' = core s \<Longrightarrow> store_inv G s' = store_inv G s \<and> run_repository s' = run_repository s"
  using store_inv_same [of s' s] by (auto simp: core_def)

lemma evaluate_action_runs: "preserves run_repository (evaluate_action engine dump c a)"
  unfolding preserves_def
proof
  fix s :: "('a, 'b, 'c) process_state_scheme"
  show "run_repository (snd (evaluate_action engine dump c a s)) = run_repository s"
    by (rule evaluate_action_effect [of engine c a dump s]) simp
qed

lemma evaluate_actions_runs: "preserves run_repository (evaluate_actions engine dump c j as)"
  by (induction as arbitrary: j) (auto intro!: frame_intros evaluate_action_runs)

lemma accept_event_core: "preserves core (accept_event c e)"
  unfolding accept_event_def by (intro frame_intros preserves_modify) simp_all

lemma plan_and_queue_inv:
  assumes "store_inv G s" "plan_and_queue ew c pc aid pe s = (r, s')"
  shows "store_inv (G \<union> event_authorizes r) s' \<and> run_repository s' = run_repository s"
proof (cases "ew_plan ew c aid pe")
  case (Inl e)
  with assms show ?thesis by (auto simp: plan_and_queue_def bnd_def event_authorizes_def)
next
  case (Inr actions)
  obtain r1 s1 where ev: "evaluate_actions (ew_engine ew) (ew_dump ew) pc 0 actions s = (r1, s1)" by fastforce
  obtain es where es: "r1 = Inr es" "store_inv (G \<union> allowed_ids es) s1"
    "\<forall>e\<in>set es. lifecycle_of s1 (act_id (pe_action e)) \<noteq> None"
    using evaluate_actions_inv [OF assms(1) ev] by blast
  have out: "r = Inr \<lparr>epr_processed_event = pe, epr_permission_evaluations = es\<rparr>"
    "s' = action_queue_update (queue_enqueue_many (queueable_actions es)) s1"
    using assms(2) Inr ev es(1) by (auto simp: plan_and_queue_def permission_evaluate_def bnd_def)
  have "store_inv (G \<union> allowed_ids es) s'"
    using es(2,3) unfolding out(2) store_inv_def
    by (auto simp: queue_enqueue_many_append queueable_actions_def)
  with out preservesD [OF evaluate_actions_runs ev] show ?thesis by (simp add: event_authorizes_def)
qed

lemma process_event_cases:
  assumes "process_event ew c pc aid i route s = (r, s')"
  obtains (stops) e where "r = Inl e" "core s' = core s"
  | (plans) s1 pe where "core s1 = core s" "plan_and_queue ew (shift_clock 3 c) pc aid pe s1 = (r, s')"
proof (cases "store_get_event (event_repository s) i")
  case None
  with assms that(1) show thesis by (auto simp: process_event_def bnd_def)
next
  case (Some e)
  define st where "st = (case dict_get (event_lifecycle_states s) i of
      Some x \<Rightarrow> Inr x | None \<Rightarrow> mk_event_lifecycle_state i EV_PENDING None [] (now_utc c 0))"
  define go where "go = rbind st (\<lambda>x. event_transition x EV_PROCESSING None (now_utc c 1))"
  show thesis
  proof (cases go)
    case (Inl x)
    then have "s' = s" "\<exists>e. r = Inl e"
      using assms Some
      by (auto simp: process_event_def bnd_def try_except_def st_def go_def rbind_def
          split: option.splits sum.splits exc.splits)
    with that(1) show thesis by auto
  next
    case (Inr p)
    let ?s1 = "event_lifecycle_states_update (dict_set i p) s"
    have run: "process_event ew c pc aid i route s =
       bnd (try_except (liftr (pipeline_process (ew_classify ew) (ew_resolve ew) e route))
                (\<lambda>err. bnd (liftr (event_transition p EV_FAILED (Some (exc_message err)) (now_utc c 2))) (\<lambda>failed.
                       bnd (set_event_state i failed) (\<lambda>_.
                       raise_exc (EventProcessingError ''event processing failed''))))) (\<lambda>pe.
         bnd (liftr (event_transition p EV_PROCESSED None (now_utc c 2))) (\<lambda>processed.
         bnd (set_event_state i processed) (\<lambda>_.
         bnd (modify (event_inbox_update (\<lambda>q. snd (inbox_mark_processed i q)))) (\<lambda>_.
         plan_and_queue ew (shift_clock 3 c) pc aid pe)))) ?s1"
      using Some Inr
      by (auto simp: process_event_def bnd_def try_except_def st_def go_def rbind_def
          split: option.splits sum.splits)
    show thesis
    proof (cases "pipeline_process (ew_classify ew) (ew_resolve ew) e route")
      case (Inl x)
      then have "core s' = core s" "\<exists>e. r = Inl e"
        using run assms by (auto simp: bnd_def try_except_def split: sum.splits)
      with that(1) show thesis by blast
    next
      case pe: (Inr pe)
      show thesis
      proof (cases "event_transition p EV_PROCESSED None (now_utc c 2)")
        case (Inl x)
        then have "core s' = core s" "\<exists>e. r = Inl e"
          using run assms pe by (auto simp: bnd_def try_except_def split: sum.splits)
        with that(1) show thesis by blast
      next
        case q: (Inr q)
        let ?s3 = "event_inbox_update (\<lambda>q. snd (inbox_mark_processed i q)) (event_lifecycle_states_update (dict_set i q) ?s1)"
        have "plan_and_queue ew (shift_clock 3 c) pc aid pe ?s3 = (r, s')"
          using run assms pe q by (simp add: bnd_def try_except_def)
        then show thesis by (rule that(2) [rotated]) simp
      qed
    qed
  qed
qed

lemma process_event_inv:
  assumes "store_inv G s" "process_event ew c pc aid i route s = (r, s')"
  shows "store_inv (G \<union> event_authorizes r) s' \<and> run_repository s' = run_repository s"
  using assms(2)
proof (cases rule: process_event_cases)
  case (stops e)
  with assms(1) store_inv_core [of s' s G] show ?thesis by (simp add: event_authorizes_def)
next
  case (plans s1 pe)
  with store_inv_core [OF plans(1)] plan_and_queue_inv [OF _ plans(2), of G] assms(1) show ?thesis by simp
qed

text \<open>Delegation: the action is evaluated and, when allowed, queued.\<close>

lemma delegate_inv:
  assumes inv: "store_inv G s" and run: "delegate reg engine dump c i rq s = (r, s')"
  shows "store_inv (G \<union> delegation_authorizes engine c i rq) s' \<and> run_repository s' = run_repository s
    \<and> (\<forall>x. r = Inr x \<longrightarrow> tdres_action_id x = i
         \<and> (tdres_status x = TD_QUEUED \<longrightarrow> i \<in> delegation_authorizes engine c i rq))"
proof (cases "action_for i (now_utc c 0) rq")
  case (Inl e)
  with assms show ?thesis by (auto simp: delegate_def bnd_def delegation_authorizes_def)
next
  case (Inr a)
  then have id: "act_id a = i" by (auto simp: action_for_def mk_action_def rbind_def split: sum.splits)
  obtain r1 s1 where ev: "evaluate_action engine dump (\<lambda>n. c (Suc n)) a s = (r1, s1)" by fastforce
  from evaluate_action_inv [OF inv ev] id obtain e where e: "r1 = Inr e" "act_id (pe_action e) = i"
    "resolve_decision engine (\<lambda>n. c (Suc n)) a = Inr (pe_decision e)"
    "store_inv (G \<union> (if is_allowed e then {i} else {})) s1" "lifecycle_of s1 i \<noteq> None" by auto
  have G: "(if is_allowed e then {i} else {}) = delegation_authorizes engine c i rq"
    using Inr e(3) by (simp add: delegation_authorizes_def is_allowed_def)
  have runs: "run_repository s1 = run_repository s"
    using evaluate_action_runs ev by (rule preservesD)
  show ?thesis
  proof (cases "res_registered (resolve_with_registration reg a)")
    case False
    with Inr run id have "s' = s" "\<forall>x. r = Inr x \<longrightarrow> tdres_action_id x = i \<and> tdres_status x \<noteq> TD_QUEUED"
      by (auto simp: delegate_def bnd_def Let_def)
    with store_inv_mono [OF inv] show ?thesis by auto
  next
    case True
    have "s' = (if is_allowed e then action_queue_update (queue_enqueue (pe_action e)) s1 else s1)"
      "\<forall>x. r = Inr x \<longrightarrow> tdres_action_id x = i \<and> (tdres_status x = TD_QUEUED \<longrightarrow> is_allowed e)"
      using Inr run True ev e(1) id
      by (auto simp: delegate_def bnd_def Let_def permission_evaluate_def is_allowed_def
          split: PermissionStatus.splits)
    with e runs G show ?thesis by (auto simp: store_inv_def queue_enqueue_def split: if_splits)
  qed
qed

end
