(* ===== verification/Samples.thy ===== *)
theory Samples
  imports Server
begin

text \<open>
  Concrete inputs on which the properties are applied: a clock, an action on the safe list, a software
  engineering action, an empty process and a process whose executor succeeds, fails or is transiently down.
\<close>

definition sample_time :: datetime where
  "sample_time = \<lparr>dt_year = 2024, dt_month = 2, dt_day = 29, dt_hour = 13, dt_minute = 5, dt_second = 9,
     dt_micro = 250000, dt_offset = Some 0\<rparr>"

definition sample_clock :: clock where
  "sample_clock = (\<lambda>_. sample_time)"

definition safe_action :: action where
  "safe_action = \<lparr>act_id = 7, act_type = ''prepare_meeting'', act_target = ''42'', act_payload = [],
     act_executor_role = Some (RoleEnum CONTEXT_PREPARATION), act_created_at = sample_time, act_metadata = []\<rparr>"

definition se_action :: action where
  "se_action = \<lparr>act_id = 9, act_type = SOFTWARE_ENGINEERING_IMPLEMENT_CAPABILITY, act_target = ''repo'',
     act_payload = [(''capability'', PStr SOFTWARE_ENGINEERING_IMPLEMENT_CAPABILITY), (''objective'', PStr ''fix it'')],
     act_executor_role = Some (RoleEnum SOFTWARE_ENGINEERING), act_created_at = sample_time, act_metadata = []\<rparr>"

definition sample_lifecycle :: "ActionStatus \<Rightarrow> pydict \<Rightarrow> action_lifecycle_state" where
  "sample_lifecycle st md = \<lparr>als_status = st, als_created_at = sample_time, als_updated_at = sample_time,
     als_reason = None, als_metadata = md\<rparr>"

definition sample_process ::
  "action list \<Rightarrow> (uuid \<times> action_lifecycle_state) list \<Rightarrow> (uuid \<times> action) list \<Rightarrow> (mem_runs, nat) process_state" where
  "sample_process q l p = \<lparr>action_queue = q, action_lifecycle_repository = l, pending_approval_registry = p,
     run_repository = [], execution_observations = [], execution_world = 0\<rparr>"

definition sample_inputs :: worker_inputs where
  "sample_inputs = \<lparr>wi_clock = sample_clock, wi_start_clock = sample_clock, wi_finish_clock = sample_clock,
     wi_execution_id = 1, wi_duration = 2\<rparr>"

text \<open>An executor that succeeds and counts its runs in the world.\<close>

definition counting_run ::
  "unit \<Rightarrow> action \<Rightarrow> string option \<Rightarrow> worker_account_context option \<Rightarrow> (nat, worker_execution_result) prog" where
  "counting_run x a cap ctx w =
     (Inr \<lparr>wer_action = a, wer_status = WSUCCEEDED, wer_reason = None, wer_metadata = [], wer_failure = None\<rparr>, Suc w)"

text \<open>One whose failures are transient, always.\<close>

definition transient_run ::
  "unit \<Rightarrow> action \<Rightarrow> string option \<Rightarrow> worker_account_context option \<Rightarrow> (nat, worker_execution_result) prog" where
  "transient_run x a cap ctx w =
     (Inr \<lparr>wer_action = a, wer_status = WFAILED, wer_reason = Some ''busy'', wer_metadata = [],
           wer_failure = Some \<lparr>wef_category = TRANSIENT, wef_message = None, wef_metadata = []\<rparr>\<rparr>, Suc w)"

lemma sample_time_valid [simp]: "valid_datetime sample_time" "is_aware sample_time" "is_utc sample_time"
  by (simp_all add: sample_time_def valid_datetime_def days_in_month_def leap_year_def is_aware_def is_utc_def)

lemma sample_clock_valid [simp]: "valid_clock sample_clock"
  by (simp add: valid_clock_def sample_clock_def)

lemma now_sample [simp]: "now_utc sample_clock i = sample_time"
  by (simp add: now_utc_def sample_clock_def sample_time_def)

lemma sample_lifecycle_wf [simp]: "wf_lifecycle (sample_lifecycle st md)"
  by (simp add: sample_lifecycle_def wf_lifecycle_def)

end
