(* ===== verification/Action_Properties.thy ===== *)
theory Action_Properties
  imports Samples
begin

text \<open>
  The properties of the action layer: lifecycle, permission evaluation, queue, routing and the worker
  runtime, with an application of each one to a concrete input.
\<close>

section \<open>Lifecycle and permission\<close>

text \<open>Lifecycle gate: whatever sequence of transitions the lifecycle manager accepts, an action that starts
  outside the approved statuses is only ever EXECUTING, or in a status that follows it, after a transition to
  APPROVED.\<close>

theorem lifecycle_gate:
  assumes "transition_run s ts = Inr s'"
    and "als_status s \<in> {PLANNED, QUEUED, REJECTED}"
    and "als_status s' \<in> {EXECUTING, COMPLETED, SKIPPED, FAILED}"
  shows "APPROVED \<in> fst ` set ts"
  using transition_run_gate [OF assms(1)] assms(2,3) by auto

theorem lifecycle_gate_witness:
  "APPROVED \<in> fst ` set [(APPROVED, None :: string option, sample_time), (EXECUTING, None, sample_time)]"
  by (rule lifecycle_gate [of "sample_lifecycle QUEUED []" _ "sample_lifecycle EXECUTING []"])
     (simp_all add: sample_lifecycle_def action_transition_def valid_transitions_def mk_action_lifecycle_state_def
        require_utc_timestamp_def normalize_blank_reason_def dict_merge_def)

lemma base_evaluate_action:
  obtains e s' where "evaluate_action base_permission_engine dump c a s = (Inr e, s')"
    "act_id (pe_action e) = act_id a" "act_type (pe_action e) = act_type a"
    "is_allowed e \<longleftrightarrow> act_type a \<in> set safe_action_types" "action_queue s' = action_queue s"
    "\<And>j. j \<noteq> act_id a \<Longrightarrow> lifecycle_of s' j = lifecycle_of s j"
    "\<And>j. j \<noteq> act_id a \<Longrightarrow> registry_get (pending_approval_registry s') j = registry_get (pending_approval_registry s) j"
    "act_type a \<notin> set safe_action_types \<Longrightarrow>
       registry_get (pending_approval_registry s') (act_id a) \<noteq> None
       \<and> (\<exists>st. lifecycle_of s' (act_id a) = Some st \<and> awaits_approval st)"
proof -
  obtain d st where d: "resolve_decision base_permission_engine c a = Inr d"
    "als_status st = initial_status (pdec_status d)"
    "als_metadata st = (case pdec_status d of ALLOWED \<Rightarrow> [] | REQUIRES_APPROVAL \<Rightarrow> [(''approval_required'', PBool True)]
        | DENIED \<Rightarrow> [(''permission_status'', PStr ''denied'')])"
    and run: "evaluate_action base_permission_engine dump c a s =
       (Inr \<lparr>pe_action = apply_permission_metadata dump a d, pe_decision = d\<rparr>,
        (if pdec_status d = REQUIRES_APPROVAL
         then pending_approval_registry_update (registry_add (apply_permission_metadata dump a d)) else id)
        (s\<lparr>action_lifecycle_repository := lifecycle_set (act_id a) st (action_lifecycle_repository s)\<rparr>))"
    by (rule evaluate_action_effect [of base_permission_engine c a dump s])
  note st = base_engine_decision [OF d(1)]
  show thesis
    by (rule that [OF run])
       (use st d(2,3) in \<open>auto simp: is_allowed_def lifecycle.get_put registry_get_add awaits_approval_def
          initial_status_def pd_get_def split: if_splits\<close>)
qed

definition awaiting :: "'z action_state_scheme \<Rightarrow> uuid \<Rightarrow> bool" where
  "awaiting s i \<longleftrightarrow> registry_get (pending_approval_registry s) i \<noteq> None
     \<and> (\<exists>st. lifecycle_of s i = Some st \<and> awaits_approval st)"

lemma base_evaluate_actions:
  assumes "distinct (map act_id as)"
  shows "\<exists>es s'. evaluate_actions base_permission_engine dump c j as s = (Inr es, s')
    \<and> map (\<lambda>e. act_id (pe_action e)) es = map act_id as \<and> action_queue s' = action_queue s
    \<and> map act_id (queueable_actions es) = map act_id (filter (\<lambda>a. act_type a \<in> set safe_action_types) as)
    \<and> (\<forall>a\<in>set as. act_type a \<notin> set safe_action_types \<longrightarrow> awaiting s' (act_id a))
    \<and> (\<forall>i. i \<notin> act_id ` set as \<longrightarrow> awaiting s' i = awaiting s i)"
  using assms
proof (induction as arbitrary: j s)
  case Nil
  then show ?case by (simp add: queueable_actions_def)
next
  case (Cons a as)
  have rest: "distinct (map act_id as)" using Cons.prems by simp
  obtain e s1 where e: "evaluate_action base_permission_engine dump (c j) a s = (Inr e, s1)"
    "act_id (pe_action e) = act_id a" "is_allowed e \<longleftrightarrow> act_type a \<in> set safe_action_types"
    "action_queue s1 = action_queue s" "\<And>i. i \<noteq> act_id a \<Longrightarrow> awaiting s1 i = awaiting s i"
    "act_type a \<notin> set safe_action_types \<Longrightarrow> awaiting s1 (act_id a)"
    by (rule base_evaluate_action [of dump "c j" a s]) (auto simp: awaiting_def)
  obtain es s2 where es: "evaluate_actions base_permission_engine dump c (Suc j) as s1 = (Inr es, s2)"
    "map (\<lambda>e. act_id (pe_action e)) es = map act_id as" "action_queue s2 = action_queue s1"
    "map act_id (queueable_actions es) = map act_id (filter (\<lambda>a. act_type a \<in> set safe_action_types) as)"
    "\<forall>a\<in>set as. act_type a \<notin> set safe_action_types \<longrightarrow> awaiting s2 (act_id a)"
    "\<forall>i. i \<notin> act_id ` set as \<longrightarrow> awaiting s2 i = awaiting s1 i"
    using Cons.IH [OF rest, of "Suc j" s1] by blast
  have "evaluate_actions base_permission_engine dump c j (a # as) s = (Inr (e # es), s2)"
    using e(1) es(1) by (simp add: bnd_def)
  moreover have "awaiting s2 (act_id a) = awaiting s1 (act_id a)" using es(6) Cons.prems by auto
  ultimately show ?case using e es by (auto simp: queueable_actions_def)
qed

text \<open>Approval first: with the application's engine the evaluation of any planned actions returns, keeps their
  order and identity, queues nothing itself, offers for queueing exactly the actions whose type is on the safe list,
  and leaves every other action registered for approval in a QUEUED state that awaits approval.\<close>

theorem approval_first:
  assumes "distinct (map act_id as)"
  shows "\<exists>es s'. permission_evaluate base_permission_engine dump c as s = (Inr es, s')
    \<and> map (\<lambda>e. act_id (pe_action e)) es = map act_id as \<and> action_queue s' = action_queue s
    \<and> map act_id (queueable_actions es) = map act_id (filter (\<lambda>a. act_type a \<in> set safe_action_types) as)
    \<and> (\<forall>a\<in>set as. act_type a \<notin> set safe_action_types \<longrightarrow>
         registry_get (pending_approval_registry s') (act_id a) \<noteq> None
         \<and> (\<exists>st. lifecycle_of s' (act_id a) = Some st \<and> awaits_approval st))"
  using base_evaluate_actions [OF assms, of dump c 0 s] unfolding permission_evaluate_def awaiting_def by blast

theorem approval_first_witness:
  "\<exists>es s'. permission_evaluate base_permission_engine (\<lambda>_. PNone) (\<lambda>_. sample_clock) [safe_action, se_action]
        (sample_process [] [] []) = (Inr es, s') \<and> map act_id (queueable_actions es) = [7]
        \<and> registry_get (pending_approval_registry s') 9 \<noteq> None"
  using approval_first [of "[safe_action, se_action]" "\<lambda>_. PNone" "\<lambda>_. sample_clock" "sample_process [] [] []"]
  by (auto simp: safe_action_def se_action_def safe_action_types_def SOFTWARE_ENGINEERING_IMPLEMENT_CAPABILITY_def)

text \<open>Deny by default: when the permission engine raises or returns something that is no decision, the
  evaluation still returns, the action is DENIED and REJECTED, it is not offered for queueing and is not
  registered for approval.\<close>

theorem deny_by_default:
  assumes "\<nexists>d. engine (c 0) a = Inr (Some d)"
  shows "\<exists>e s'. permission_evaluate engine dump c [a] s = (Inr [e], s')
    \<and> pdec_status (pe_decision e) = DENIED \<and> queueable_actions [e] = [] \<and> action_queue s' = action_queue s
    \<and> pending_approval_registry s' = pending_approval_registry s
    \<and> (\<exists>st. lifecycle_of s' (act_id a) = Some st \<and> als_status st = REJECTED)"
proof -
  obtain d st where d: "resolve_decision engine (c 0) a = Inr d" "als_status st = initial_status (pdec_status d)"
    and run: "evaluate_action engine dump (c 0) a s =
       (Inr \<lparr>pe_action = apply_permission_metadata dump a d, pe_decision = d\<rparr>,
        (if pdec_status d = REQUIRES_APPROVAL
         then pending_approval_registry_update (registry_add (apply_permission_metadata dump a d)) else id)
        (s\<lparr>action_lifecycle_repository := lifecycle_set (act_id a) st (action_lifecycle_repository s)\<rparr>))"
    by (rule evaluate_action_effect [of engine "c 0" a dump s])
  have "pdec_status d = DENIED" by (rule resolve_decision_default [OF assms d(1)])
  with run d(2) show ?thesis
    by (auto simp: permission_evaluate_def bnd_def queueable_actions_def is_allowed_def lifecycle.get_put
        initial_status_def)
qed

theorem deny_by_default_witness:
  "\<exists>e s'. permission_evaluate (\<lambda>_ _. Inl (ValueError ''engine'')) (\<lambda>_. PNone) (\<lambda>_. sample_clock) [safe_action]
      (sample_process [] [] []) = (Inr [e], s') \<and> pdec_status (pe_decision e) = DENIED"
  using deny_by_default [of "\<lambda>_ _. Inl (ValueError ''engine'')" "\<lambda>_. sample_clock" safe_action "\<lambda>_. PNone"
      "sample_process [] [] []"] by auto

section \<open>Queue and registry\<close>

text \<open>Targeted removal: \<open>ActionQueue.remove\<close> returns the oldest action with the identifier, the one that
  \<open>get\<close> returns, and keeps all other actions in their order; without a match it changes nothing.\<close>

theorem queue_remove_order:
  "(case queue_remove i q of
      (Some a, q') \<Rightarrow> queue_get i q = Some a
        \<and> (\<exists>as bs. q = as @ a # bs \<and> q' = as @ bs \<and> act_id a = i \<and> i \<notin> act_id ` set as)
    | (None, q') \<Rightarrow> queue_get i q = None \<and> q' = q)"
proof (cases "fst (queue_remove i q)")
  case None
  with queue.remove_absent [of i q] queue.find_iff_remove [of i q] show ?thesis
    by (auto simp: queue_list_def split: prod.splits option.splits)
next
  case (Some a)
  with queue.remove_keeps_order [of i q a] queue.find_iff_remove [of i q] show ?thesis
    by (fastforce simp: queue_list_def split: prod.splits option.splits)
qed

text \<open>Manifest registration is all or nothing: it either raises and leaves the registry as it was, or adds one
  route for every declared capability, for the manifest's account and executor.\<close>

theorem register_manifest_atomic:
  "(\<exists>e. register_manifest m reg = (Inl e, reg)) \<or>
   register_manifest m reg =
     (Inr (), reg\<lparr>provider_registrations := provider_registrations reg
        @ map (\<lambda>cap. (route_key_of (normalize_account_context (pm_account_context m)) cap,
             \<lparr>reg_capability = cap, reg_executor = pm_executor m,
              reg_account_context = normalize_account_context (pm_account_context m)\<rparr>)) (pm_capabilities m)\<rparr>)"
  using register_manifest_cases [of m reg] by (simp add: new_entries_def)

section \<open>Routing\<close>

text \<open>Fail-closed routing: resolving any action either refuses it to the fallback executor, with no matched
  provider or account, or selects the only registration that matches the requested role, capability, provider
  and account.\<close>

theorem routing_refused_or_unique:
  "refused reg (resolve_with_registration reg a) \<or> uniquely_routed reg (resolve_with_registration reg a)"
  by (rule resolution_cases)

text \<open>C16. Account isolation: a registered executor that is selected for an action serves exactly the account that
  the action carries, after normalization, and the action's own role and capability.\<close>

theorem account_isolation:
  assumes "res_registered (resolve_with_registration reg a)"
  shows "\<exists>r\<in>snd ` set (provider_registrations reg).
      reg_account_context r = rr_value (account_context_for_action a)
      \<and> wc_role (reg_capability r) = normalize_role (act_executor_role a)
      \<and> Some (wc_identifier (reg_capability r)) = rr_value (capability_for_action a)
      \<and> res_executor (resolve_with_registration reg a) = reg_executor r
      \<and> res_matched_account_context (resolve_with_registration reg a) = reg_account_context r"
proof -
  let ?res = "resolve_with_registration reg a"
  have "uniquely_routed reg ?res" using resolution_cases [of reg a] assms by (auto simp: refused_def)
  then obtain r where "selects reg ?res r" "res_executor ?res = reg_executor r"
    "res_matched_account_context ?res = reg_account_context r" by (auto simp: uniquely_routed_def)
  with resolution_request [OF assms] show ?thesis by (force simp: selects_def)
qed

definition work_account :: worker_account_context where
  "work_account = \<lparr>wac_principal = None, wac_account_identifier = ''work''\<rparr>"

definition meeting_capability :: worker_capability where
  "meeting_capability = \<lparr>wc_identifier = ''prepare_meeting'', wc_role = ''context_preparation'', wc_provider = ''google''\<rparr>"

definition meeting_registry :: "unit executor_registry" where
  "meeting_registry = snd (register_capability meeting_capability () (Some work_account) (empty_registry ()))"

definition work_action :: action where
  "work_action = safe_action\<lparr>act_payload :=
     [(''account_context'', PDict [(''principal'', PNone), (''account_identifier'', PStr ''work'')])]\<rparr>"

lemma meeting_names:
  "normalize_identifier (PStr ''prepare_meeting'') = ''prepare_meeting''" "str_strip ''work'' = ''work''"
  by code_simp+

lemma meeting_registry_eq:
  "meeting_registry = \<lparr>provider_registrations = [((''context_preparation'', ''prepare_meeting'', ''google'', Some ''work''),
     \<lparr>reg_capability = meeting_capability, reg_executor = (), reg_account_context = Some work_account\<rparr>)],
     fallback_executor = ()\<rparr>"
  by (simp add: meeting_registry_def register_capability_def Let_def bnd_def empty_registry_def meeting_capability_def
      work_account_def normalize_account_context_def normalize_route_value_def route_key_of_def account_key_def
      dict_has_def meeting_names)

lemma work_action_route:
  "res_registered (resolve_with_registration meeting_registry work_action)"
  "rr_value (account_context_for_action work_action) = Some work_account"
  by (simp_all add: meeting_registry_eq resolve_with_registration_def Let_def work_action_def safe_action_def
      capability_for_action_def provider_for_action_def account_context_for_action_def parse_account_context_def
      dict_has_def pd_get_def meeting_names normalize_role_def normalize_route_value_def resolve_capability_route_def
      identifier_request_def matching_capability_routes_def capability_matches_def routed_def account_key_def
      meeting_capability_def work_account_def)

theorem account_isolation_witness:
  "res_matched_account_context (resolve_with_registration meeting_registry work_action) = Some work_account"
  using account_isolation [OF work_action_route(1)] work_action_route(2) by auto

text \<open>Identifier normalization is idempotent: a capability, provider or account identifier that has been
  normalized routes as itself.\<close>

theorem identifier_normal_form:
  "normalize_identifier (PStr (normalize_identifier v)) = normalize_identifier v
   \<and> normalize_account_context (normalize_account_context ctx) = normalize_account_context ctx"
  by (simp add: normalize_identifier_idem)

section \<open>The worker runtime\<close>

text \<open>C7. The runtime's gate: an action whose lifecycle entry is neither APPROVED nor QUEUED without an approval
  mark is not executed. The result says so, no execution is recorded, the executors' world and every
  lifecycle entry and pending approval stay as they were.\<close>

theorem runtime_gate:
  assumes "process_dequeued_action (durable_runtime ops reg run n dump) inp a s = (r, s')"
    and "lifecycle_of s (act_id a) = Some st" and "als_status st \<noteq> APPROVED"
    and "als_status st = QUEUED \<longrightarrow> awaits_approval st"
  shows "(\<exists>res. r = Inr res \<and> \<not> wpres_processed res) \<and> execution_log s' = execution_log s
     \<and> execution_world s' = execution_world s \<and> action_lifecycle_repository s' = action_lifecycle_repository s
     \<and> pending_approval_registry s' = pending_approval_registry s"
  by (rule durable_rt.process_dequeued_gate [OF assms(1)]) (use assms(2-4) in \<open>auto simp: executable_def\<close>)

theorem runtime_gate_witness:
  "execution_world (snd (process_dequeued_action
      (durable_runtime mem_ops (empty_registry ()) counting_run 3 (\<lambda>_. PNone)) sample_inputs se_action
      (sample_process [] [(9, sample_lifecycle QUEUED [(''approval_required'', PBool True)])] []))) = 0"
  using runtime_gate [OF surjective_pairing, where st = "sample_lifecycle QUEUED [(''approval_required'', PBool True)]"
      and a = se_action and s = "sample_process [] [(9, sample_lifecycle QUEUED [(''approval_required'', PBool True)])] []"
      and ops = mem_ops and reg = "empty_registry ()" and run = counting_run and n = 3 and dump = "\<lambda>_. PNone"
      and inp = sample_inputs]
  by (simp add: sample_process_def se_action_def sample_lifecycle_def lifecycle_get_def awaits_approval_def pd_get_def)

text \<open>Targeted processing leaves unrelated work alone: \<open>process_action\<close> changes no other action's lifecycle
  entry, no pending approval and not the order of the other queued actions, and starts at most the execution
  of its own action.\<close>

theorem process_action_frame:
  assumes "process_action (durable_runtime ops reg run n dump) inp i s = (r, s')"
  shows "(\<forall>j. j \<noteq> i \<longrightarrow> lifecycle_of s' j = lifecycle_of s j)
    \<and> pending_approval_registry s' = pending_approval_registry s
    \<and> filter (\<lambda>a. act_id a \<noteq> i) (action_queue s') = filter (\<lambda>a. act_id a \<noteq> i) (action_queue s)
    \<and> (execution_log s' = execution_log s \<or> execution_log s' = execution_log s @ [i])"
  using assms
proof (cases rule: durable_rt.process_action_cases)
  case (2 a as bs)
  with durable_rt.process_dequeued_effect [OF 2(3)] show ?thesis
    by (auto simp: attempt_effect_def)
qed auto

theorem process_action_frame_witness:
  "filter (\<lambda>a. act_id a \<noteq> 9) (action_queue (snd (process_action
      (durable_runtime mem_ops (empty_registry ()) counting_run 3 (\<lambda>_. PNone)) sample_inputs 9
      (sample_process [safe_action, se_action] [(9, sample_lifecycle APPROVED [])] [])))) = [safe_action]"
  using process_action_frame [OF surjective_pairing, where ops = mem_ops and reg = "empty_registry ()"
      and run = counting_run and n = 3 and dump = "\<lambda>_. PNone" and inp = sample_inputs and i = 9
      and s = "sample_process [safe_action, se_action] [(9, sample_lifecycle APPROVED [])] []"]
  by (simp add: sample_process_def se_action_def safe_action_def)

text \<open>C8. Every attempt concludes, in the runtime of the server with its durable observer. Whatever an executor returns or raises, an
  approved action that has been retried \<open>k\<close> times ends COMPLETED, SKIPPED or FAILED with the queue unchanged, or, when fewer
  than the configured retries were used, is APPROVED with \<open>k + 1\<close> retries and queued again. The one other outcome is that of a
  run on the canonical route of which the run repository refuses a record: its exception is raised, and the action
  is left EXECUTING and out of the queue.\<close>

theorem attempt_concludes:
  fixes s :: "('r, 'w, 'z) process_state_scheme" and reg :: "'x executor_registry"
  assumes "lifecycle_of s (act_id a) = Some st" "wf_lifecycle st" "als_status st = APPROVED" "retry_counter st = PInt k"
    and "process_dequeued_action (durable_runtime ops reg run n dump) inp a s = (r, s')"
  shows "case r of
      Inr res \<Rightarrow> wpres_processed res \<and>
        (concluded (lifecycle_of s' (act_id a)) \<and> action_queue s' = action_queue s
         \<or> k < n \<and> approved_after (k + 1) (lifecycle_of s' (act_id a)) \<and> action_queue s' = action_queue s @ [a])
    | Inl e \<Rightarrow> left_executing ops reg a e s' \<and> action_queue s' = action_queue s"
  by (rule durable_attempt [OF _ assms(5)]) (use assms(1-4) in \<open>auto simp: approved_after_def\<close>)

lemma safe_action_route:
  "\<not> is_canonical_route (res_requested_role (resolve_with_registration (empty_registry ()) safe_action))
     (res_requested_capability (resolve_with_registration (empty_registry ()) safe_action))"
  by (simp add: resolve_with_registration_def Let_def safe_action_def capability_for_action_def provider_for_action_def
      account_context_for_action_def parse_account_context_def dict_has_def pd_get_def meeting_names normalize_role_def
      resolve_capability_route_def matching_capability_routes_def empty_registry_def unrouted_def is_canonical_route_def
      split: option.splits)

theorem attempt_concludes_witness:
  "\<exists>res s'. process_dequeued_action (durable_runtime mem_ops (empty_registry ()) transient_run 3 (\<lambda>_. PNone)) sample_inputs safe_action
      (sample_process [] [(7, sample_lifecycle APPROVED [])] []) = (Inr res, s') \<and> wpres_processed res"
proof -
  let ?s = "sample_process [] [(7, sample_lifecycle APPROVED [])] []"
  obtain r s' where run: "process_dequeued_action (durable_runtime mem_ops (empty_registry ()) transient_run 3 (\<lambda>_. PNone)) sample_inputs
      safe_action ?s = (r, s')" by fastforce
  have "case r of
      Inr res \<Rightarrow> wpres_processed res \<and>
        (concluded (lifecycle_of s' (act_id safe_action)) \<and> action_queue s' = action_queue ?s
         \<or> 0 < (3::int) \<and> approved_after (0 + 1) (lifecycle_of s' (act_id safe_action)) \<and> action_queue s' = action_queue ?s @ [safe_action])
    | Inl e \<Rightarrow> left_executing mem_ops (empty_registry ()) safe_action e s' \<and> action_queue s' = action_queue ?s"
    by (rule attempt_concludes [OF _ _ _ _ run, of "sample_lifecycle APPROVED []"])
       (simp_all add: sample_process_def safe_action_def lifecycle_get_def sample_lifecycle_def retry_counter_def pd_get_or_def
         wf_lifecycle_def)
  with run safe_action_route show ?thesis by (cases r) (auto simp: left_executing_def Let_def)
qed

text \<open>C9. Retries end. An invocation on a queue of different approved actions, allowed as many attempts as these
  have together (one each, and one for each retry left), empties the queue and concludes all of them, however often the executors fail
  and whatever they raise, and processes no more than that. The one other outcome: the run repository refused the
  record of an action of the queue on the canonical route, which is left EXECUTING.\<close>

theorem retries_bounded:
  fixes s :: "('r, 'w, 'z) process_state_scheme" and reg :: "'x executor_registry"
  assumes "distinct (map act_id (action_queue s))"
    and "\<forall>a\<in>set (action_queue s). approved_after (k (act_id a)) (lifecycle_of s (act_id a))"
    and "1 \<le> m" "int (attempts_left n k (action_queue s)) \<le> m"
    and "invoke (durable_runtime ops reg run n dump) inps m s = (r, s')"
  shows "case r of
      Inr res \<Rightarrow> wir_queue_empty res \<and> wir_processed_count res \<le> attempts_left n k (action_queue s)
        \<and> (\<forall>a\<in>set (action_queue s). concluded (lifecycle_of s' (act_id a)))
    | Inl e \<Rightarrow> \<exists>a\<in>set (action_queue s). left_executing ops reg a e s'"
proof -
  obtain rl s1 where loop: "invoke_loop (durable_runtime ops reg run n dump) (map inps [0..<nat m]) s = (rl, s1)" by fastforce
  have d: "drained ops reg (attempts_left n k (action_queue s)) s rl s1"
    by (rule invoke_loop_drains [OF _ _ loop]) (use assms(1,2,4) in \<open>auto simp: all_approved_def\<close>)
  show ?thesis
  proof (cases rl)
    case (Inl e)
    with assms(3,5) loop d show ?thesis by (auto simp: invoke_def bnd_def drained_def)
  next
    case (Inr results)
    with assms(3,5) loop d show ?thesis
      by (auto simp: invoke_def bnd_def drained_def pending_action_count_def queue_count_def)
  qed
qed

theorem retries_bounded_witness:
  "\<exists>res s'. invoke (durable_runtime mem_ops (empty_registry ()) transient_run 3 (\<lambda>_. PNone)) (\<lambda>_. sample_inputs) 4
      (sample_process [safe_action] [(7, sample_lifecycle APPROVED [])] []) = (Inr res, s')
      \<and> wir_queue_empty res \<and> wir_processed_count res \<le> 4"
proof -
  let ?s = "sample_process [safe_action] [(7, sample_lifecycle APPROVED [])] []"
  obtain r s' where run: "invoke (durable_runtime mem_ops (empty_registry ()) transient_run 3 (\<lambda>_. PNone)) (\<lambda>_. sample_inputs) 4 ?s = (r, s')"
    by fastforce
  have q: "action_queue ?s = [safe_action]" by (simp add: sample_process_def)
  have "case r of
      Inr res \<Rightarrow> wir_queue_empty res \<and> wir_processed_count res \<le> attempts_left 3 (\<lambda>_. 0) (action_queue ?s)
        \<and> (\<forall>a\<in>set (action_queue ?s). concluded (lifecycle_of s' (act_id a)))
    | Inl e \<Rightarrow> \<exists>a\<in>set (action_queue ?s). left_executing mem_ops (empty_registry ()) a e s'"
    by (rule retries_bounded [OF _ _ _ _ run])
       (simp_all add: q, simp add: sample_process_def safe_action_def lifecycle_get_def sample_lifecycle_def retry_counter_def
         pd_get_or_def wf_lifecycle_def approved_after_def)
  with run q safe_action_route show ?thesis by (cases r) (auto simp: left_executing_def Let_def)
qed

lemma invoke_loop_results:
  "invoke_loop rt inps s = (Inr rs, s') \<Longrightarrow>
     length rs \<le> length inps \<and> (\<forall>x\<in>set (butlast rs). wpres_processed x)"
proof (induction inps arbitrary: s rs)
  case (Cons inp inps)
  then show ?case by (fastforce simp: bnd_eq_Inr split: if_splits)
qed simp

text \<open>Invocation bounds: an invocation asked for fewer than one action raises and changes nothing; one that
  returns has processed between zero and the requested number of actions, and its last result is the only one
  that may be unprocessed.\<close>

theorem invoke_bounds:
  "(m < 1 \<longrightarrow> invoke rt inps m s = (Inl (ValueError ''max_actions must be at least 1''), s)) \<and>
   (\<forall>res s'. invoke rt inps m s = (Inr res, s') \<longrightarrow>
      wir_requested_count res = m \<and> int (wir_processed_count res) \<le> m \<and> int (length (wir_results res)) \<le> m
      \<and> (\<forall>x\<in>set (butlast (wir_results res)). wpres_processed x)
      \<and> wir_queue_empty res = (action_queue s' = []))"
proof (intro conjI impI allI)
  show "invoke rt inps m s = (Inl (ValueError ''max_actions must be at least 1''), s)" if "m < 1"
    using that by (simp add: invoke_def)
next
  fix res s' assume run: "invoke rt inps m s = (Inr res, s')"
  then have m: "1 \<le> m" by (auto simp: invoke_def split: if_splits)
  with run obtain rs where rs: "invoke_loop rt (map inps [0..<nat m]) s = (Inr rs, s')"
    and res: "res = \<lparr>wir_requested_count = m, wir_processed_count = length (filter wpres_processed rs),
       wir_queue_empty = (action_queue s' = []), wir_results = rs\<rparr>"
    by (auto simp: invoke_def bnd_eq_Inr pending_action_count_def queue_count_def)
  note bounds = invoke_loop_results [OF rs]
  have "length (filter wpres_processed rs) \<le> nat m"
    using bounds by (auto intro: le_trans [OF length_filter_le])
  with bounds m res show "wir_requested_count res = m" "int (wir_processed_count res) \<le> m"
    "int (length (wir_results res)) \<le> m" "\<forall>x\<in>set (butlast (wir_results res)). wpres_processed x"
    "wir_queue_empty res = (action_queue s' = [])"
    by auto
qed

theorem invoke_bounds_witness:
  "invoke (mem_runtime (empty_registry ()) counting_run 3 (\<lambda>_. PNone)) (\<lambda>_. sample_inputs) 0 (sample_process [] [] [])
     = (Inl (ValueError ''max_actions must be at least 1''), sample_process [] [] [])"
  using invoke_bounds [of 0 "mem_runtime (empty_registry ()) counting_run 3 (\<lambda>_. PNone)" "\<lambda>_. sample_inputs"
      "sample_process [] [] []"] by simp

end
