(* ===== verification/Authorization.thy ===== *)
theory Authorization
  imports Server
begin

text \<open>
  No execution without authorization: an invariant of every state the server can reach, for every run
  repository that keeps the contract \<open>run_repository\<close>. The run repository's part of the invariant is that
  what it holds as approved was authorized; the lemmas say of each operation that it keeps this.
\<close>

section \<open>The run repository's part\<close>

definition run_inv :: "('r \<Rightarrow> run_view) \<Rightarrow> ('r \<Rightarrow> bool) \<Rightarrow> uuid set \<Rightarrow> 'r \<Rightarrow> bool" where
  "run_inv view okr G r \<longleftrightarrow> okr r \<and> (\<forall>i. durably_approved (view r i) \<longrightarrow> i \<in> G)"

definition runs_ok :: "('r \<Rightarrow> run_view) \<Rightarrow> ('r \<Rightarrow> bool) \<Rightarrow> uuid set \<Rightarrow> ('r, 'w, 'z) process_state_scheme \<Rightarrow> bool" where
  "runs_ok view okr G s \<longleftrightarrow> run_inv view okr G (run_repository s)"

lemma runs_ok_mono: "runs_ok view okr G s \<Longrightarrow> G \<subseteq> H \<Longrightarrow> runs_ok view okr H s"
  by (auto simp: runs_ok_def run_inv_def)

lemma runs_ok_same: "run_repository s' = run_repository s \<Longrightarrow> runs_ok view okr G s' = runs_ok view okr G s"
  by (simp add: runs_ok_def)

lemma keeps_runs: "keeps (run_inv view okr G) m \<Longrightarrow> keeps (runs_ok view okr G) (on_runs m)"
  by (auto simp: keeps_def runs_ok_def on_runs_def split: prod.splits)

lemma keeps_world [keep_intros]: "keeps (runs_ok view okr G) (on_world m)"
  by (auto simp: keeps_def runs_ok_def on_world_def split: prod.splits)

lemma keeps_modify_runs [keep_intros]:
  "(\<And>s. run_repository (g s) = run_repository s) \<Longrightarrow> keeps (runs_ok view okr G) (modify g)"
  by (simp add: keeps_def runs_ok_def)

lemma keeps_run_state_error [keep_intros]: "keeps P m \<Longrightarrow> keeps P (run_state_error_as e m)"
  unfolding run_state_error_as_def by (rule keeps_try) (auto intro: keep_intros split: exc.splits)

lemma keeps_Let [keep_intros]: "keeps P (f x) \<Longrightarrow> keeps P (Let x f)"
  by simp

lemma keeps_then: "keeps P (bnd m (ret \<circ> f)) \<Longrightarrow> keeps P m"
proof -
  have "snd (bnd m (ret \<circ> f) s) = snd (m s)" for s
    by (auto simp: bnd_def split: prod.splits sum.splits)
  then show "keeps P (bnd m (ret \<circ> f)) \<Longrightarrow> keeps P m" by (simp add: keeps_def)
qed

lemma valid_shift: "valid_clock c \<Longrightarrow> valid_clock (shift_clock k c)"
  by (simp add: valid_clock_def shift_clock_def)

context run_repository
begin

lemma exec_keeps:
  assumes "call_valid call" "\<And>i. approves i call \<Longrightarrow> i \<in> G"
  shows "keeps (run_inv view inv G) (exec_call ops call)"
  unfolding keeps_def
proof (intro allI impI)
  fix r assume r: "run_inv view inv G r"
  obtain res r' where e: "exec_call ops call r = (res, r')" by fastforce
  have law: "inv r'" "run_effect call (view r) res (view r')"
    using call_law [OF _ assms(1) e] r by (auto simp: run_inv_def)
  have "i \<in> G" if "durably_approved (view r' i)" for i
    using law(2)
  proof (cases rule: run_effect_cases)
    case none
    with that r show ?thesis by (auto simp: run_inv_def)
  next
    case (some st)
    then show ?thesis using that r assms(2) applies_not_approved unfolding run_inv_def by blast
  qed
  with law e show "run_inv view inv G (snd (exec_call ops call r))" by (simp add: run_inv_def)
qed

lemma get_keeps: "keeps (run_inv view inv G) (run_get ops i)" "keeps (run_inv view inv G) (run_list_pending ops)"
proof -
  show "keeps (run_inv view inv G) (run_get ops i)"
    using get_law [OF _ surjective_pairing] by (simp add: keeps_def run_inv_def)
  show "keeps (run_inv view inv G) (run_list_pending ops)"
    using pending_law [OF _ surjective_pairing] by (simp add: keeps_def run_inv_def)
qed

lemma register_keeps:
  assumes "valid_clock c" "appr = Some SE_APPROVED \<Longrightarrow> i \<in> G"
  shows "keeps (run_inv view inv G) (run_register_action ops c i target role cap deleg obj appr)"
  using exec_keeps [of "RegisterAction c i target role cap deleg obj appr" G] assms by (auto intro: keeps_then)

lemma approval_keeps:
  assumes "valid_clock c" "valid_datetime t" "i \<in> G"
  shows "keeps (run_inv view inv G) (run_record_approval ops c i obj t)"
  using exec_keeps [of "RecordApproval c i obj t" G] assms by (auto intro: keeps_then)

lemma other_keeps:
  "valid_clock c \<Longrightarrow> valid_datetime t \<Longrightarrow> keeps (run_inv view inv G) (run_record_rejection ops c i t)"
  "valid_clock c \<Longrightarrow> keeps (run_inv view inv G) (run_claim_approved ops c k i)"
  "valid_clock c \<Longrightarrow> valid_datetime t \<Longrightarrow> keeps (run_inv view inv G) (run_record_execution_started ops c i t)"
  "valid_datetime e \<Longrightarrow> valid_datetime t \<Longrightarrow> keeps (run_inv view inv G) (run_release_unstarted_claim ops i e t)"
  "valid_datetime e \<Longrightarrow> valid_datetime t \<Longrightarrow> keeps (run_inv view inv G) (run_abandon_started_claim ops i e t)"
  "valid_clock c \<Longrightarrow> valid_datetime t \<Longrightarrow> keeps (run_inv view inv G) (run_record_execution ops c i st t p)"
  "valid_clock c \<Longrightarrow> keeps (run_inv view inv G) (run_record_disposition ops c res)"
  "valid_clock c \<Longrightarrow> valid_datetime t \<Longrightarrow> keeps (run_inv view inv G) (run_record_promotion ops c i sha pr url base head t)"
  using exec_keeps [of "RecordRejection c i t" G] exec_keeps [of "ClaimApproved c k i" G]
    exec_keeps [of "RecordExecutionStarted c i t" G] exec_keeps [of "ReleaseUnstartedClaim i e t" G]
    exec_keeps [of "AbandonStartedClaim i e t" G] exec_keeps [of "RecordExecution c i st t p" G]
    exec_keeps [of "RecordDisposition c res" G] exec_keeps [of "RecordPromotion c i sha pr url base head t" G]
  by (auto intro: keeps_then)

lemmas repository_keeps = keeps_runs [OF get_keeps(1)] keeps_runs [OF get_keeps(2)]
  keeps_runs [OF register_keeps] keeps_runs [OF approval_keeps] other_keeps [THEN keeps_runs]

end

section \<open>Operations on the run repository\<close>

context run_repository
begin

lemma durable_start_keeps:
  assumes c: "valid_clock c"
  shows "keeps (runs_ok view inv G) (durable_observer_start ops c eid a res)"
proof -
  have mem: "keeps (runs_ok view inv G) (mem_observer_start c eid a res)"
    by (simp add: keeps_def mem_observer_start_def runs_ok_def Let_def)
  have at: "valid_datetime (obs_started_at o1)" if "mem_observer_start c eid a res s = (Inr (h, o1), s')"
    for h o1 and s s' :: "('r, 'w, 'z) process_state_scheme"
    using that valid_now [OF c, of 0] by (auto simp: mem_observer_start_def new_observation_def Let_def)
  show ?thesis
    unfolding durable_observer_start_def
    by (rule keeps_bnd [OF mem])
       (auto intro!: keep_intros repository_keeps valid_shift [OF c] dest: at split: prod.splits)
qed

lemma durable_finish_keeps:
  assumes c: "valid_clock c"
  shows "keeps (runs_ok view inv G) (durable_observer_finish ops c h status md reason failure dur)"
proof -
  have mem: "keeps (runs_ok view inv G) (mem_observer_finish c h status md reason failure dur)"
    by (simp add: keeps_def mem_observer_finish_def runs_ok_def Let_def)
  have at: "obs_finished_at o1 = Some (now_utc c 0)"
    if "mem_observer_finish c h status md reason failure dur s = (Inr o1, s')"
    for o1 and s s' :: "('r, 'w, 'z) process_state_scheme"
    using that by (auto simp: mem_observer_finish_def finished_observation_def Let_def)
  show ?thesis
    unfolding durable_observer_finish_def
    by (rule keeps_bnd [OF mem], drule at)
       (simp only: option.case, intro keep_intros repository_keeps valid_shift [OF c] valid_now [OF c])
qed

lemma retry_keeps [keep_intros]: "keeps (runs_ok view inv G) (retry_transient n c a failure st)"
  unfolding retry_transient_def by (intro keep_intros) simp_all

lemma process_dequeued_keeps:
  assumes "valid_inputs inp"
  shows "keeps (runs_ok view inv G) (process_dequeued_action (durable_runtime ops reg run n dump) inp a)"
  using assms
  unfolding process_dequeued_action_def execute_approved_def conclude_execution_def runtime_sel valid_inputs_def
  by (intro keep_intros durable_start_keeps durable_finish_keeps) simp_all

lemma process_keeps:
  assumes "valid_inputs inp"
  shows "keeps (runs_ok view inv G) (process_next (durable_runtime ops reg run n dump) inp)"
    "keeps (runs_ok view inv G) (process_action (durable_runtime ops reg run n dump) inp i)"
  unfolding process_next_def process_action_def claim_and_process_def
  by (intro keep_intros process_dequeued_keeps [OF assms]; simp)+

lemma recover_keeps: "keeps (runs_ok view inv G) (recover_pending ops c i)"
  unfolding recover_pending_def by (intro keep_intros repository_keeps)

lemma ensure_registered_keeps:
  "valid_clock c \<Longrightarrow> keeps (runs_ok view inv G) (ensure_registered ops c a obj)"
  unfolding ensure_registered_def by (intro keep_intros repository_keeps) (auto split: if_splits)

lemma record_approved_keeps:
  "valid_clock c \<Longrightarrow> act_id a \<in> G \<Longrightarrow> keeps (runs_ok view inv G) (recovery_record_approved ops c a)"
  unfolding recovery_record_approved_def
  by (intro keep_intros repository_keeps ensure_registered_keeps valid_shift valid_now)

lemma record_rejected_keeps:
  "valid_clock c \<Longrightarrow> keeps (runs_ok view inv G) (recovery_record_rejected ops c a)"
  unfolding recovery_record_rejected_def
  by (intro keep_intros repository_keeps ensure_registered_keeps valid_shift valid_now)

lemma claim_keeps: "valid_clock c \<Longrightarrow> keeps (runs_ok view inv G) (claim_for_continuation ops c k i)"
  unfolding claim_for_continuation_def recovery_claim_def
  by (rule keeps_try) (intro keep_intros repository_keeps, assumption, auto intro: keep_intros split: exc.splits)

lemma disposition_keeps: "valid_clock c \<Longrightarrow> keeps (runs_ok view inv G) (disposition_apply ops disposer c i d)"
  unfolding disposition_apply_def
  by (intro keep_intros repository_keeps) (auto intro: keep_intros split: exc.splits)

lemma promote_keeps: "valid_clock c \<Longrightarrow> keeps (runs_ok view inv G) (promote ops h ps c i title body)"
  unfolding promote_def verify_action_def
  by (auto intro!: keep_intros repository_keeps valid_shift valid_now split: option.splits prod.splits)

lemma list_pending_keeps: "keeps (runs_ok view inv G) (recovery_list_pending ops c)"
  unfolding recovery_list_pending_def by (intro keep_intros repository_keeps)

end

section \<open>The steps\<close>

definition server_inv ::
  "('r \<Rightarrow> run_view) \<Rightarrow> ('r \<Rightarrow> bool) \<Rightarrow> uuid set \<Rightarrow> ('r, 'w, 'z) process_state_scheme \<Rightarrow> bool" where
  "server_inv view okr G s \<longleftrightarrow> store_inv G s \<and> runs_ok view okr G s"


definition beside_world :: "('r, 'w, 'z) process_state_scheme \<Rightarrow> (action_queue \<times> lifecycle_repository \<times> approval_registry) \<times> uuid list" where
  "beside_world s = (stores s, execution_log s)"

lemma beside_world_store_inv: "store_inv G s \<Longrightarrow> beside_world s' = beside_world s \<Longrightarrow> store_inv G s'"
  using store_inv_same [of s' s] by (simp add: beside_world_def)

lemma beside_world_intros [frame_intros]:
  "preserves beside_world (on_runs m)" "preserves beside_world (on_world m)"
  by (auto simp: preserves_def on_runs_def on_world_def beside_world_def stores_def execution_log_def split: prod.splits)

lemma preserves_run_state_error [frame_intros]: "preserves f m \<Longrightarrow> preserves f (run_state_error_as e m)"
  unfolding run_state_error_as_def by (rule preserves_try) (auto intro: frame_intros split: exc.splits)

lemma preserves_Let [frame_intros]: "preserves f (g x) \<Longrightarrow> preserves f (Let x g)"
  by simp

lemma recovery_beside:
  "preserves beside_world (recover_pending ops c i)"
  "preserves beside_world (recovery_record_approved ops c a)"
  "preserves beside_world (recovery_record_rejected ops c a)"
  "preserves beside_world (recovery_claim ops c k i)"
  unfolding recover_pending_def recovery_record_approved_def recovery_record_rejected_def ensure_registered_def
    recovery_claim_def
  by (intro frame_intros)+

lemma claim_beside: "preserves beside_world (claim_for_continuation ops c k i)"
  unfolding claim_for_continuation_def
  by (rule preserves_try [OF recovery_beside(4)]) (auto intro: frame_intros split: exc.splits)

lemma disposition_beside: "preserves beside_world (disposition_apply ops disposer c i d)"
  unfolding disposition_apply_def
  by (intro frame_intros) (auto intro: frame_intros split: exc.splits)

lemma review_beside:
  "preserves beside_world (review_after_execution rv i)" "preserves beside_world (inspect_work_product rv i)"
  "preserves beside_world (inspect_for_abandon rv i)"
  unfolding review_after_execution_def inspect_work_product_def inspect_for_abandon_def
  by (intro frame_intros; auto intro: frame_intros split: exc.splits)+

lemma status_beside: "preserves beside_world (status_from_state digest rv st)"
  unfolding status_from_state_def by (intro frame_intros review_beside)

lemma reconcile_beside: "preserves beside_world (control_reconcile ops digest rv c i resolution token ack)"
  unfolding control_reconcile_def control_get_def
  by (intro frame_intros review_beside status_beside; cases resolution; simp; intro frame_intros review_beside)

lemma inspection_beside:
  "preserves beside_world (control_status ops digest rv i)" "preserves beside_world (recovery_list_pending ops c)"
  unfolding control_status_def control_get_def recovery_list_pending_def
  by (intro frame_intros status_beside)+

lemma promote_beside: "preserves beside_world (promote ops h ps c i title body)"
  unfolding promote_def verify_action_def
  by (auto intro!: frame_intros split: option.splits prod.splits)

lemma review_keeps:
  "keeps (runs_ok view okr G) (review_after_execution rv i)" "keeps (runs_ok view okr G) (inspect_work_product rv i)"
  "keeps (runs_ok view okr G) (inspect_for_abandon rv i)"
  unfolding review_after_execution_def inspect_work_product_def inspect_for_abandon_def
  by (intro keep_intros; auto intro: keep_intros split: exc.splits)+

lemma status_keeps: "keeps (runs_ok view okr G) (status_from_state digest rv st)"
  unfolding status_from_state_def by (intro keep_intros review_keeps)

lemma run_state_error_Inr: "run_state_error_as e m s = (Inr x, s') \<longleftrightarrow> m s = (Inr x, s')"
  by (auto simp: run_state_error_as_def try_except_def split: prod.splits sum.splits exc.splits)

lemma on_runs_Inr:
  "on_runs m s = (res, s') \<longleftrightarrow> (\<exists>r. m (run_repository s) = (res, r) \<and> s' = s\<lparr>run_repository := r\<rparr>)"
  by (auto simp: on_runs_def split: prod.splits)

lemma store_inv_enqueue:
  "store_inv G s \<Longrightarrow> lifecycle_of s (act_id a) \<noteq> None \<Longrightarrow> store_inv G (action_queue_update (queue_enqueue a) s)"
  by (auto simp: store_inv_def queue_enqueue_def)

lemma store_inv_registry_remove:
  "store_inv G s \<Longrightarrow> store_inv G (pending_approval_registry_update (\<lambda>reg. snd (registry_remove i reg)) s)"
  by (auto simp: store_inv_def registry.get_remove split: if_splits)

context run_repository
begin

lemma runs_ok_view: "runs_ok view inv G s \<Longrightarrow> inv (run_repository s)"
  by (simp add: runs_ok_def run_inv_def)

lemma found_state:
  assumes "runs_ok view inv G s" "run_state_error_as e (on_runs (run_get ops i)) s = (Inr (Some st), s')"
  shows "view (run_repository s) i = Some st" "view (run_repository s') = view (run_repository s)"
  using get_law [OF runs_ok_view [OF assms(1)]] assms(2) unfolding run_state_error_Inr on_runs_Inr by auto

lemma control_get_updated:
  assumes "runs_ok view inv G s" "control_get ops i s = (Inr st, s')" "rs_updated_at st = Some t"
  shows "valid_datetime t"
proof -
  have "view (run_repository s) i = Some st"
    using assms(2) found_state(1) [OF assms(1)]
    by (auto simp: control_get_def bnd_eq_Inr split: option.splits if_splits)
  with view_updated [OF runs_ok_view [OF assms(1)]] assms(3) show ?thesis by blast
qed

lemma control_get_keeps: "keeps (runs_ok view inv G) (control_get ops i)"
  unfolding control_get_def by (intro keep_intros repository_keeps)

lemma control_status_keeps: "keeps (runs_ok view inv G) (control_status ops digest rv i)"
  unfolding control_status_def by (intro keep_intros control_get_keeps status_keeps)

lemma reconcile_keeps:
  assumes c: "valid_clock c"
  shows "keeps (runs_ok view inv G) (control_reconcile ops digest rv c i resolution token ack)"
proof -
  have branch: "keeps (runs_ok view inv G)
      (case resolution of
         RC_RELEASE \<Rightarrow> bnd (liftr (require_releasable st)) (\<lambda>_. on_runs (run_release_unstarted_claim ops i t (now_utc c 0)))
       | RC_ABANDON \<Rightarrow> bnd (liftr (require_abandonable ack st)) (\<lambda>_. bnd (inspect_for_abandon rv i) (\<lambda>_.
            on_runs (run_abandon_started_claim ops i t (now_utc c 0)))))"
    if "valid_datetime t" for st t
    by (cases resolution) (simp_all, (intro keep_intros repository_keeps review_keeps that valid_now [OF c])+)
  show ?thesis
    unfolding control_reconcile_def Let_def
  proof (rule keeps_bnd [OF control_get_keeps], goal_cases)
    case (1 st s s')
    note t = control_get_updated [OF 1]
    show ?case
    proof (cases "rs_updated_at st")
      case None
      show ?thesis unfolding None option.case by (intro keep_intros)
    next
      case (Some t)
      show ?thesis
        unfolding Some option.case by (intro keep_intros status_keeps branch t [OF Some])
    qed
  qed
qed

lemma recover_pending_id:
  assumes "runs_ok view inv G s" "recover_pending ops c i s = (Inr (Some a), s')"
  shows "act_id a = i"
proof -
  obtain found s1 where get: "run_state_error_as (recovery_error ''software engineering pending recovery state is unavailable'')
      (on_runs (run_get ops i)) s = (Inr found, s1)"
    using assms(2) by (auto simp: recover_pending_def bnd_eq_Inr)
  with assms(2) obtain st where "found = Some st" "action_from_state (now_utc c 0) st = Inr a"
    by (cases found) (auto simp: recover_pending_def bnd_eq_Inr split: if_splits)
  with found_state(1) [OF assms(1)] get have "view (run_repository s) i = Some st"
    "action_from_state (now_utc c 0) st = Inr a" by blast+
  with view_id [OF runs_ok_view [OF assms(1)]] show ?thesis
    by (auto simp: action_from_state_def mk_action_def rbind_def split: option.splits if_splits sum.splits)
qed

end

section \<open>Approvals\<close>

text \<open>What an approval decision does: nothing to the local stores when it fails.\<close>

lemma lifecycle_or_pending_same: "lifecycle_or_pending c i s = (r, s') \<Longrightarrow> s' = s"
  by (auto simp: lifecycle_or_pending_def bnd_def split: option.splits)

lemma approve_cases:
  fixes s :: "('r, 'w, 'z) process_state_scheme"
  assumes "approve_pending_action recovery (Some rec) c i s = (r, s')"
  obtains (unresolved) e where "r = Inl e" "resolve_pending_action recovery i s = (Inl e, s')"
  | (illegal) e a where "r = Inl e" "resolve_pending_action recovery i s = (Inr a, s')"
  | (unrecorded) e a s1 where "r = Inl e" "resolve_pending_action recovery i s = (Inr a, s1)"
      "record_approved rec a s1 = (Inl e, s')"
  | (approved) a s1 s2 st where "r = Inr st" "resolve_pending_action recovery i s = (Inr a, s1)"
      "record_approved rec a s1 = (Inr (), s2)" "als_status st = APPROVED"
      "s' = action_queue_update (queue_enqueue a) (pending_approval_registry_update (\<lambda>reg. snd (registry_remove i reg))
              (action_lifecycle_repository_update (lifecycle_set i st) s2))"
proof (cases "resolve_pending_action recovery i s")
  case (Pair q s1)
  show thesis
  proof (cases q)
    case (Inl e)
    with Pair assms that(1) show thesis by (auto simp: approve_pending_action_def bnd_def)
  next
    case (Inr a)
    obtain l s0 where l: "lifecycle_or_pending c i s1 = (l, s0)" by fastforce
    have s0: "s0 = s1" by (rule lifecycle_or_pending_same [OF l])
    show thesis
    proof (cases "rbind l (\<lambda>st. action_transition st APPROVED None None (now_utc c 1))")
      case (Inl e)
      with Pair Inr l s0 assms have "r = Inl e" "s' = s1"
        by (auto simp: approve_pending_action_def bnd_def rbind_def split: sum.splits)
      with Pair Inr that(2) show thesis by simp
    next
      case st: (Inr st)
      then have "als_status st = APPROVED" by (auto simp: rbind_def dest: action_transition_status split: sum.splits)
      obtain w s2 where w: "record_approved rec a s1 = (w, s2)" by fastforce
      have "case w of Inl e \<Rightarrow> r = Inl e \<and> s' = s2
          | Inr x \<Rightarrow> r = Inr st \<and> s' = action_queue_update (queue_enqueue a)
              (pending_approval_registry_update (\<lambda>reg. snd (registry_remove i reg))
                (action_lifecycle_repository_update (lifecycle_set i st) s2))"
        using Pair Inr l s0 st w assms
        by (auto simp: approve_pending_action_def bnd_def rbind_def split: sum.splits)
      with Pair Inr w \<open>als_status st = APPROVED\<close> that(3,4) show thesis by (cases w) auto
    qed
  qed
qed

lemma reject_cases:
  fixes s :: "('r, 'w, 'z) process_state_scheme"
  assumes "reject_pending_action recovery (Some rec) c reason i s = (r, s')"
  obtains (unresolved) e where "r = Inl e" "resolve_pending_action recovery i s = (Inl e, s')"
  | (illegal) e a where "r = Inl e" "resolve_pending_action recovery i s = (Inr a, s')"
  | (unrecorded) e a s1 where "r = Inl e" "resolve_pending_action recovery i s = (Inr a, s1)"
      "record_rejected rec a s1 = (Inl e, s')"
  | (rejected) a s1 s2 st where "r = Inr st" "resolve_pending_action recovery i s = (Inr a, s1)"
      "record_rejected rec a s1 = (Inr (), s2)" "als_status st = REJECTED"
      "s' = pending_approval_registry_update (\<lambda>reg. snd (registry_remove i reg))
              (action_lifecycle_repository_update (lifecycle_set i st) s2)"
proof (cases "resolve_pending_action recovery i s")
  case (Pair q s1)
  show thesis
  proof (cases q)
    case (Inl e)
    with Pair assms that(1) show thesis by (auto simp: reject_pending_action_def bnd_def)
  next
    case (Inr a)
    obtain l s0 where l: "lifecycle_or_pending c i s1 = (l, s0)" by fastforce
    have s0: "s0 = s1" by (rule lifecycle_or_pending_same [OF l])
    show thesis
    proof (cases "rbind l (\<lambda>st. action_transition st REJECTED (Some reason) None (now_utc c 1))")
      case (Inl e)
      with Pair Inr l s0 assms have "r = Inl e" "s' = s1"
        by (auto simp: reject_pending_action_def bnd_def rbind_def split: sum.splits)
      with Pair Inr that(2) show thesis by simp
    next
      case st: (Inr st)
      then have "als_status st = REJECTED" by (auto simp: rbind_def dest: action_transition_status split: sum.splits)
      obtain w s2 where w: "record_rejected rec a s1 = (w, s2)" by fastforce
      have "case w of Inl e \<Rightarrow> r = Inl e \<and> s' = s2
          | Inr x \<Rightarrow> r = Inr st \<and> s' = pending_approval_registry_update (\<lambda>reg. snd (registry_remove i reg))
                (action_lifecycle_repository_update (lifecycle_set i st) s2)"
        using Pair Inr l s0 st w assms
        by (auto simp: reject_pending_action_def bnd_def rbind_def split: sum.splits)
      with Pair Inr w \<open>als_status st = REJECTED\<close> that(3,4) show thesis by (cases w) auto
    qed
  qed
qed

lemma resolve_pending_recovers:
  "resolve_pending_action (Some recover) i =
     bnd (gets (\<lambda>s. registry_get (pending_approval_registry s) i)) (\<lambda>found.
     bnd (case found of None \<Rightarrow> recover i | Some a \<Rightarrow> ret found) (\<lambda>resolved.
     case resolved of
       None \<Rightarrow> raise_exc (PendingActionNotFoundError ''action is not awaiting approval'')
     | Some a \<Rightarrow> ret a))"
  unfolding resolve_pending_action_def by (rule ext) (simp add: bnd_def split: option.split)

lemma se_resolve_beside: "preserves beside_world (resolve_pending_action (Some (se_recovery ops c)) i)"
  unfolding resolve_pending_recovers se_recovery_def by (intro frame_intros recovery_beside)

context run_repository
begin

lemma se_resolve:
  assumes inv: "server_inv view inv G s" and run: "resolve_pending_action (Some (se_recovery ops c)) i s = (r, s')"
  shows "server_inv view inv G s' \<and> (\<forall>a. r = Inr a \<longrightarrow> act_id a = i)"
proof -
  have parts: "store_inv G s" "runs_ok view inv G s" using inv by (auto simp: server_inv_def)
  have "keeps (runs_ok view inv G) (resolve_pending_action (Some (se_recovery ops c)) i)"
    unfolding resolve_pending_recovers se_recovery_def by (intro keep_intros recover_keeps)
  then have "server_inv view inv G s'"
    using parts keepsD run beside_world_store_inv [OF parts(1) preservesD [OF se_resolve_beside run]]
    by (auto simp: server_inv_def)
  moreover have "act_id a = i" if a: "r = Inr a" for a
  proof (cases "registry_get (pending_approval_registry s) i")
    case None
    with run a obtain s2 where "recover_pending ops c i s = (Inr (Some a), s2)"
      by (auto simp: resolve_pending_action_def se_recovery_def bnd_eq_Inr split: option.splits)
    then show ?thesis by (rule recover_pending_id [OF parts(2)])
  next
    case (Some b)
    with run a parts(1) show ?thesis by (auto simp: resolve_pending_action_def bnd_eq_Inr store_inv_def)
  qed
  ultimately show ?thesis by blast
qed

end

lemma server_inv_stores:
  "server_inv view okr G s \<Longrightarrow> beside_world s' = beside_world s \<Longrightarrow> runs_ok view okr H s' \<Longrightarrow> G \<subseteq> H \<Longrightarrow>
     server_inv view okr H s'"
  using beside_world_store_inv [of G s s'] store_inv_mono by (auto simp: server_inv_def)

lemma runs_ok_store_update [simp]:
  "runs_ok view okr G (action_queue_update f s) = runs_ok view okr G s"
  "runs_ok view okr G (action_lifecycle_repository_update g s) = runs_ok view okr G s"
  "runs_ok view okr G (pending_approval_registry_update h s) = runs_ok view okr G s"
  by (simp_all add: runs_ok_def)

context run_repository
begin

lemma recorder_step:
  assumes "server_inv view inv G s" "valid_clock c"
  shows "record_approved (se_recorder ops c) a s = (r, s') \<Longrightarrow> act_id a \<in> G \<Longrightarrow> server_inv view inv G s'"
    and "record_rejected (se_recorder ops c) a s = (q, s') \<Longrightarrow> server_inv view inv G s'"
proof -
  have ok: "runs_ok view inv G s" using assms(1) by (simp add: server_inv_def)
  show "server_inv view inv G s'" if "record_approved (se_recorder ops c) a s = (r, s')" "act_id a \<in> G"
  proof -
    have run: "recovery_record_approved ops c a s = (r, s')" using that(1) by (simp add: se_recorder_def)
    show ?thesis
      by (rule server_inv_stores [OF assms(1) preservesD [OF recovery_beside(2) run]
            keepsD [OF record_approved_keeps [OF assms(2) that(2)] run ok] subset_refl])
  qed
  show "server_inv view inv G s'" if "record_rejected (se_recorder ops c) a s = (q, s')"
  proof -
    have run: "recovery_record_rejected ops c a s = (q, s')" using that by (simp add: se_recorder_def)
    show ?thesis
      by (rule server_inv_stores [OF assms(1) preservesD [OF recovery_beside(3) run]
            keepsD [OF record_rejected_keeps [OF assms(2)] run ok] subset_refl])
  qed
qed

lemma approve_step:
  assumes inv: "server_inv view inv G s" and c2: "valid_clock c2"
    and run: "approve_pending_action (Some (se_recovery ops c1)) (Some (se_recorder ops c2)) c i s = (r, s')"
  shows "server_inv view inv (insert i G) s'"
proof -
  have inv: "server_inv view inv (insert i G) s"
    using inv by (auto simp: server_inv_def intro: store_inv_mono runs_ok_mono)
  from run show ?thesis
  proof (cases rule: approve_cases)
    case (unrecorded e a s1)
    then show ?thesis using se_resolve [OF inv unrecorded(2)] recorder_step(1) [OF _ c2 unrecorded(3)] by simp
  next
    case (approved a s1 s2 st)
    note a = se_resolve [OF inv approved(2)]
    then have s2: "server_inv view inv (insert i G) s2" using recorder_step(1) [OF _ c2 approved(3)] by simp
    have "admissible (insert i G) i st" using approved(4) by (simp add: admissible_def)
    with s2 a show ?thesis
      unfolding approved(5) server_inv_def
      by (auto intro!: store_inv_enqueue store_inv_registry_remove store_inv_write simp: lifecycle.get_put)
  qed (use se_resolve [OF inv] in \<open>blast+\<close>)
qed

lemma reject_step:
  assumes inv: "server_inv view inv G s" and c2: "valid_clock c2"
    and run: "reject_pending_action (Some (se_recovery ops c1)) (Some (se_recorder ops c2)) c reason i s = (r, s')"
  shows "server_inv view inv G s'"
  using run
proof (cases rule: reject_cases)
  case (unrecorded e a s1)
  then show ?thesis using se_resolve [OF inv unrecorded(2)] recorder_step(2) [OF _ c2 unrecorded(3)] by simp
next
  case (rejected a s1 s2 st)
  have s2: "server_inv view inv G s2"
    using recorder_step(2) [OF _ c2 rejected(3)] se_resolve [OF inv rejected(2)] by simp
  have "admissible G i st" using rejected(4) by (simp add: admissible_def)
  with s2 show ?thesis
    unfolding rejected(5) server_inv_def by (auto intro!: store_inv_registry_remove store_inv_write)
qed (use se_resolve [OF inv] in \<open>blast+\<close>)

end

section \<open>Work and continuation\<close>

lemma queue_write_swap:
  "action_lifecycle_repository_update (lifecycle_set i st) (action_queue_update (queue_enqueue a) s) =
     action_queue_update (queue_enqueue a) (action_lifecycle_repository_update (lifecycle_set i st) s)"
  by simp

lemma dequeue_inv:
  assumes "server_inv view okr G s" "action_queue s = as @ a # bs"
  shows "server_inv view okr G (s\<lparr>action_queue := as @ bs\<rparr>)"
    and "lifecycle_of (s\<lparr>action_queue := as @ bs\<rparr>) (act_id a) \<noteq> None"
  using assms by (auto simp: server_inv_def store_inv_def runs_ok_def execution_log_def)

lemma on_world_runs: "preserves run_repository (on_world m)"
  by (auto simp: preserves_def on_world_def split: prod.splits)

lemma review_runs: "preserves run_repository (review_after_execution rv i)"
  unfolding review_after_execution_def
  by (intro frame_intros on_world_runs) (auto intro: frame_intros split: exc.splits)

lemma continuation_cases:
  fixes s :: "('r, 'w, 'z) process_state_scheme"
  assumes "continuation_execute ops rt rv c k inp i s = (r, s')"
  obtains (refused) e where "r = Inl e" "s' = s"
  | (unclaimed) e where "r = Inl e" "claim_for_continuation ops c k i s = (Inl e, s')"
  | (conflict) e a where "r = Inl e" "claim_for_continuation ops c k i s = (Inr a, s')"
  | (runs) a s1 s2 q s3 where "claim_for_continuation ops c k i s = (Inr a, s1)"
      "(\<exists>st. als_status st = APPROVED
          \<and> s2 = action_lifecycle_repository_update (lifecycle_set i st)
               (if queue_get i (action_queue s) = None then action_queue_update (queue_enqueue a) s1 else s1))
       \<or> (\<exists>st. lifecycle_of s i = Some st \<and> als_status st = APPROVED \<and>
          s2 = (if queue_get i (action_queue s) = None then action_queue_update (queue_enqueue a) s1 else s1))"
      "process_action rt inp i s2 = (q, s3)" "beside_world s' = beside_world s3"
      "run_repository s' = run_repository s3"
      "\<And>x. r = Inr x \<Longrightarrow> \<exists>res. q = Inr res \<and> wpres_processed res"
proof (cases "(case lifecycle_of s i of None \<Rightarrow> False | Some st \<Rightarrow> als_status st \<notin> {QUEUED, APPROVED})
    \<or> (case queue_get i (action_queue s) of None \<Rightarrow> False | Some q \<Rightarrow> \<not> is_canonical_action q)")
  case True
  with assms have "(\<exists>e. r = Inl e) \<and> s' = s"
    by (auto simp: continuation_execute_def bnd_def require_canonical_action_def guard_exc_def
        split: option.splits if_splits)
  with that(1) show thesis by blast
next
  case False
  obtain claimed s1 where cl: "claim_for_continuation ops c k i s = (claimed, s1)" by fastforce
  show thesis
  proof (cases claimed)
    case (Inl e)
    with False assms cl have "r = Inl e \<and> s' = s1"
      by (auto simp: continuation_execute_def bnd_def require_canonical_action_def guard_exc_def
        split: option.splits if_splits)
    with Inl cl that(2) show thesis by blast
  next
    case (Inr a)
    define s2 where "s2 = (if queue_get i (action_queue s) = None then action_queue_update (queue_enqueue a) s1 else s1)"
    define st0 where "st0 = \<lparr>als_status = APPROVED, als_created_at = now_utc c 2, als_updated_at = now_utc c 2,
        als_reason = None, als_metadata = [(''approval_required'', PBool True), (''durable_recovery'', PBool True)]\<rparr>"
    define s3 where "s3 = (if (case lifecycle_of s i of None \<Rightarrow> True | Some st \<Rightarrow> als_status st = QUEUED)
        then action_lifecycle_repository_update (lifecycle_set i st0) s2 else s2)"
    obtain q s4 where pr: "process_action rt inp i s3 = (q, s4)" by fastforce
    have "(\<exists>e. r = Inl e) \<and> s' = s1 \<or>
      (case q of Inl e \<Rightarrow> r = Inl e \<and> s' = s4
       | Inr res \<Rightarrow> (\<exists>w s5. (s5 = s4 \<or> review_after_execution rv i s4 = (w, s5)) \<and> s' = s5
            \<and> (\<forall>x. r = Inr x \<longrightarrow> wpres_processed res)))"
      using False assms cl Inr pr
      by (auto simp: continuation_execute_def bnd_def require_canonical_action_def guard_exc_def
          normalize_blank_reason_def s2_def st0_def s3_def
        split: option.splits if_splits sum.splits prod.splits bool.splits)
    then consider (early) "\<exists>e. r = Inl e" "s' = s1"
      | (late) "beside_world s' = beside_world s4" "run_repository s' = run_repository s4"
          "\<And>x. r = Inr x \<Longrightarrow> \<exists>res. q = Inr res \<and> wpres_processed res"
      by (auto dest: preservesD [OF review_beside(1)] preservesD [OF review_runs] split: sum.splits)
    then show thesis
    proof cases
      case early
      with Inr cl that(3) show thesis by blast
    next
      case late
      have "als_status st0 = APPROVED" by (simp add: st0_def)
      then have "(\<exists>st. als_status st = APPROVED \<and> s3 = action_lifecycle_repository_update (lifecycle_set i st) s2)
          \<or> (\<exists>st. lifecycle_of s i = Some st \<and> als_status st = APPROVED \<and> s3 = s2)"
        using False unfolding s3_def by (auto split: option.splits)
      with cl Inr pr late show thesis unfolding s2_def by (intro that(4)) auto
    qed
  qed
qed

lemma mk_action_id: "mk_action i ty tgt payload role created md = Inr a \<Longrightarrow> act_id a = i"
  by (auto simp: mk_action_def rbind_def split: sum.splits)

context run_repository
begin

lemma dequeued_step:
  assumes inv: "server_inv view inv G s" and known: "lifecycle_of s (act_id a) \<noteq> None" and inp: "valid_inputs inp"
    and run: "process_dequeued_action (durable_runtime ops reg run n dump) inp a s = (r, s')"
  shows "server_inv view inv G s'"
proof -
  have "store_inv G s'"
    using store_inv_attempt [OF _ known durable_rt.process_dequeued_effect [OF run]]
      durable_rt.process_dequeued_gate [OF run] inv by (simp add: server_inv_def)
  moreover have "runs_ok view inv G s'"
    using keepsD [OF process_dequeued_keeps [OF inp] run] inv by (simp add: server_inv_def)
  ultimately show ?thesis by (simp add: server_inv_def)
qed

lemma work_step:
  assumes inv: "server_inv view inv G s" and inp: "valid_inputs inp"
    and run: "process_next (durable_runtime ops reg run n dump) inp s = (r, s')"
  shows "server_inv view inv G s'"
  using run
proof (cases rule: durable_rt.process_next_cases)
  case (2 a q)
  have q: "action_queue s = [] @ a # q" using 2(1) by simp
  show ?thesis
    by (rule dequeued_step [OF dequeue_inv [OF inv q, unfolded append_Nil] inp 2(2)])
qed (use inv in simp)

lemma work_on_step:
  assumes inv: "server_inv view inv G s" and inp: "valid_inputs inp"
    and run: "process_action (durable_runtime ops reg run n dump) inp i s = (r, s')"
  shows "server_inv view inv G s'"
  using run
proof (cases rule: durable_rt.process_action_cases)
  case (2 a as bs)
  show ?thesis by (rule dequeued_step [OF dequeue_inv [OF inv 2(1)] inp 2(3)])
qed (use inv in simp)

text \<open>A durable claim can only be taken for an authorized action.\<close>

lemma claimed_authorized:
  assumes ok: "runs_ok view inv G s" and c: "valid_clock c" and cl: "claim_for_continuation ops c k i s = (Inr a, s')"
  shows "i \<in> G \<and> act_id a = i"
proof -
  have rc: "recovery_claim ops c k i s = (Inr a, s')"
    using cl by (auto simp: claim_for_continuation_def try_except_def split: prod.splits sum.splits exc.splits)
  then obtain found s1 where got: "on_runs (run_get ops i) s = (Inr found, s1)"
    by (auto simp: recovery_claim_def bnd_eq_Inr run_state_error_Inr)
  with rc obtain claim s2 where claim: "on_runs (run_claim_approved ops c k i) s1 = (Inr claim, s2)"
    and a: "act_id a = ac_action_id claim"
    by (cases found) (auto simp: recovery_claim_def bnd_eq_Inr run_state_error_Inr dest: mk_action_id)
  have s1: "runs_ok view inv G s1" by (rule keepsD [OF repository_keeps(1) got ok])
  from claim obtain r where "exec_call ops (ClaimApproved c k i) (run_repository s1) = (Inr (RClaim claim), r)"
    by (auto simp: on_runs_Inr bnd_def)
  then obtain st where "applies (ClaimApproved c k i) (view (run_repository s1)) st (view r)"
    "reply_matches (ClaimApproved c k i) st (RClaim claim)"
    using call_applies [OF runs_ok_view [OF s1]] c by (metis call_valid.simps(4))
  with applies_claim s1 a show ?thesis by (auto simp: runs_ok_def run_inv_def durably_approved_def)
qed

lemma continue_step:
  assumes inv: "server_inv view inv G s" and c: "valid_clock c" and inp: "valid_inputs inp"
    and run: "continuation_execute ops (durable_runtime ops reg run n dump) rv c k inp i s = (r, s')"
  shows "server_inv view inv G s'"
proof -
  have ok: "runs_ok view inv G s" using inv by (simp add: server_inv_def)
  have claim: "server_inv view inv G s1" if "claim_for_continuation ops c k i s = (q, s1)" for q s1
    by (rule server_inv_stores [OF inv preservesD [OF claim_beside that] keepsD [OF claim_keeps [OF c] that ok] subset_refl])
  from run show ?thesis
  proof (cases rule: continuation_cases)
    case (runs a s1 s2 q s3)
    note a = claimed_authorized [OF ok c runs(1)]
    have s1: "store_inv G s1" "runs_ok view inv G s1" using claim [OF runs(1)] by (auto simp: server_inv_def)
    have same: "lifecycle_of s1 i = lifecycle_of s i"
      using preservesD [OF claim_beside runs(1)] by (simp add: beside_world_def stores_def)
    from runs(2) have "server_inv view inv G s2"
    proof (elim disjE exE conjE)
      fix st assume st: "als_status st = APPROVED" "s2 = action_lifecycle_repository_update (lifecycle_set i st)
          (if queue_get i (action_queue s) = None then action_queue_update (queue_enqueue a) s1 else s1)"
      have adm: "admissible G i st" using st(1) a by (simp add: admissible_def)
      note w = store_inv_write [OF s1(1) adm]
      have e: "store_inv G (action_queue_update (queue_enqueue a)
          (action_lifecycle_repository_update (lifecycle_set i st) s1))"
        by (rule store_inv_enqueue [OF w]) (simp add: a lifecycle.get_put)
      have "store_inv G s2"
        unfolding st(2) using w e
        by (cases "queue_get i (action_queue s) = None") (simp_all only: queue_write_swap if_True if_False simp_thms)
      with s1(2) st(2) show ?thesis by (simp add: server_inv_def)
    next
      fix st assume "lifecycle_of s i = Some st"
        "s2 = (if queue_get i (action_queue s) = None then action_queue_update (queue_enqueue a) s1 else s1)"
      with s1 same a show ?thesis by (auto simp: server_inv_def intro: store_inv_enqueue)
    qed
    from work_on_step [OF this inp runs(3)] beside_world_store_inv runs(4,5) show ?thesis
      by (auto simp: server_inv_def runs_ok_def)
  qed (use inv claim in \<open>blast+\<close>)
qed

lemma ingress_step:
  assumes inv: "server_inv view inv G s" and rc: "valid_clock rc"
    and run: "ingress_delegate ops reg engine dump c rc i objective target s = (r, s')"
  shows "server_inv view inv (G \<union> delegation_authorizes engine c i (se_request objective target)) s'"
proof -
  let ?H = "G \<union> delegation_authorizes engine c i (se_request objective target)"
  have inv': "server_inv view inv ?H s"
    using inv by (auto simp: server_inv_def intro: store_inv_mono runs_ok_mono)
  show ?thesis
  proof (cases "check_request (se_request objective target)")
    case (Inl e)
    with run inv' show ?thesis by (simp add: ingress_delegate_def se_request_def bnd_def)
  next
    case (Inr rq)
    then have rq: "rq = se_request objective target"
      by (auto simp: check_request_def rbind_def se_request_def guard_exc_def split: sum.splits option.splits if_splits)
    obtain q s1 where d: "delegate reg engine dump c i rq s = (q, s1)" by fastforce
    note facts = delegate_inv [OF _ d, of G, unfolded rq]
    then have s1: "server_inv view inv ?H s1"
      using inv by (auto simp: server_inv_def runs_ok_def run_inv_def)
    show ?thesis
    proof (cases q)
      case (Inl e)
      with run Inr rq d s1 show ?thesis by (simp add: ingress_delegate_def se_request_def bnd_def)
    next
      case q: (Inr x)
      define reg_call where "reg_call = (case tdres_status x of
             TD_AWAITING_APPROVAL \<Rightarrow> (Some AWAITING_APPROVAL, Some objective)
           | TD_QUEUED \<Rightarrow> (Some SE_APPROVED, Some objective) | _ \<Rightarrow> (None, None))"
      have "tdres_action_id x \<in> ?H" if "fst reg_call = Some SE_APPROVED"
        using facts inv q that by (auto simp: server_inv_def reg_call_def split: TaskDelegationStatus.splits)
      then have keep: "keeps (runs_ok view inv ?H) (on_runs (run_register_action ops rc (tdres_action_id x) target
               (role_value SOFTWARE_ENGINEERING) SOFTWARE_ENGINEERING_IMPLEMENT_CAPABILITY
               (Some (delegation_status_value (tdres_status x))) (snd reg_call) (fst reg_call)))"
        by (intro keeps_runs register_keeps rc)
      have "\<exists>q. on_runs (run_register_action ops rc (tdres_action_id x) target
               (role_value SOFTWARE_ENGINEERING) SOFTWARE_ENGINEERING_IMPLEMENT_CAPABILITY
               (Some (delegation_status_value (tdres_status x))) (snd reg_call) (fst reg_call)) s1 = (q, s')"
        using run Inr rq d q
        by (auto simp: ingress_delegate_def se_request_def bnd_def reg_call_def split: prod.splits sum.splits)
      then obtain w where w: "on_runs (run_register_action ops rc (tdres_action_id x) target
               (role_value SOFTWARE_ENGINEERING) SOFTWARE_ENGINEERING_IMPLEMENT_CAPABILITY
               (Some (delegation_status_value (tdres_status x))) (snd reg_call) (fst reg_call)) s1 = (w, s')" ..
      have "runs_ok view inv ?H s1" using s1 by (simp add: server_inv_def)
      then show ?thesis
        by (rule server_inv_stores [OF s1 preservesD [OF beside_world_intros(1) w] keepsD [OF keep w] subset_refl])
    qed
  qed
qed

end

section \<open>The invariant of reachable states\<close>

definition local_stores_empty :: "('r, 'w, 'z) process_state_scheme \<Rightarrow> bool" where
  "local_stores_empty s \<longleftrightarrow> action_queue s = [] \<and> action_lifecycle_repository s = []
     \<and> pending_approval_registry s = [] \<and> execution_observations s = []"

lemma restart_inv: "server_inv view okr G s \<Longrightarrow> server_inv view okr G (restart_state s)"
  by (simp add: server_inv_def store_inv_def restart_state_def runs_ok_def execution_log_def attempted_def
      lifecycle.get_empty registry.get_empty)

context run_repository
begin

lemma server_step_inv:
  assumes "server_step cf (s, G) (s', H)" "cf_ops cf = ops" "server_inv view inv G s"
  shows "server_inv view inv H s'"
  using assms(1)
proof cases
  case (accept c e r)
  then show ?thesis
    using store_inv_core [OF preservesD [OF accept_event_core accept(2)], of G] assms(3)
    by (simp add: server_inv_def runs_ok_def)
next
  case (process c pc aid i route r)
  then show ?thesis
    using process_event_inv [OF _ process(2), of G] assms(3)
    by (auto simp: server_inv_def runs_ok_def run_inv_def)
next
  case (delegate rc c i objective target r)
  then show ?thesis using ingress_step [OF assms(3) delegate(2)] assms(2) by auto
next
  case (approve c1 c2 c i r)
  then show ?thesis using approve_step [OF assms(3) approve(3)] assms(2) by auto
next
  case (reject c1 c2 c reason i r)
  then show ?thesis using reject_step [OF assms(3) reject(3)] assms(2) by auto
next
  case (work inp r)
  then show ?thesis using work_step [OF assms(3) work(2)] assms(2) by (auto simp: cf_runtime_def)
next
  case (work_on inp i r)
  then show ?thesis using work_on_step [OF assms(3) work_on(2)] assms(2) by (auto simp: cf_runtime_def)
next
  case (continue_run c inp k i r)
  then show ?thesis
    using continue_step [OF assms(3) continue_run(2,3)] assms(2) by (auto simp: cf_runtime_def)
next
  case (reconcile c i resolution token ack r)
  then show ?thesis
    using server_inv_stores [OF assms(3) preservesD [OF reconcile_beside reconcile(3)]]
      keepsD [OF reconcile_keeps reconcile(3) [unfolded assms(2)]] assms(3) by (auto simp: server_inv_def)
next
  case (dispose c i d r)
  then show ?thesis
    using server_inv_stores [OF assms(3) preservesD [OF disposition_beside dispose(3)]]
      keepsD [OF disposition_keeps dispose(3) [unfolded assms(2)]] assms(3) by (auto simp: server_inv_def)
next
  case (promote_run c i title body r)
  then show ?thesis
    using server_inv_stores [OF assms(3) preservesD [OF promote_beside promote_run(3)]]
      keepsD [OF promote_keeps promote_run(3) [unfolded assms(2)]] assms(3) by (auto simp: server_inv_def)
next
  case (inspect_run i r)
  then show ?thesis
    using server_inv_stores [OF assms(3) preservesD [OF inspection_beside(1) inspect_run(2)]]
      keepsD [OF control_status_keeps inspect_run(2) [unfolded assms(2)]] assms(3) by (auto simp: server_inv_def)
next
  case (list_runs c r)
  then show ?thesis
    using server_inv_stores [OF assms(3) preservesD [OF inspection_beside(2) list_runs(2)]]
      keepsD [OF list_pending_keeps list_runs(2) [unfolded assms(2)]] assms(3) by (auto simp: server_inv_def)
next
  case restart
  then show ?thesis using restart_inv [OF assms(3)] by simp
qed

lemma reachable_inv:
  assumes "server_reachable cf s0 x" "cf_ops cf = ops" "local_stores_empty s0" "inv (run_repository s0)"
    and "\<And>i. view (run_repository s0) i = None"
  shows "server_inv view inv (snd x) (fst x)"
  using assms(1)
proof induction
  case start
  from assms(3-5) show ?case
    by (simp add: server_inv_def store_inv_def runs_ok_def run_inv_def durably_approved_def local_stores_empty_def
        execution_log_def attempted_def lifecycle.get_empty registry.get_empty)
next
  case (step x y)
  then show ?case using server_step_inv [OF _ assms(2), of "fst x" "snd x" "fst y" "snd y"] by simp
qed

lemma authorized_executions:
  assumes "server_reachable cf s0 (s, G)" "cf_ops cf = ops" "local_stores_empty s0" "inv (run_repository s0)"
    and "\<And>i. view (run_repository s0) i = None"
  shows "set (execution_log s) \<subseteq> G" "durably_approved (view (run_repository s) i) \<Longrightarrow> i \<in> G"
  using reachable_inv [OF assms] by (auto simp: server_inv_def store_inv_def runs_ok_def run_inv_def)

end

end
