(* ===== verification/Http_Api.thy ===== *)
theory Http_Api
  imports Server
begin

text \<open>
  \<open>api/dependencies.py\<close>, \<open>api/events.py\<close> and \<open>api/tasks.py\<close>: the token check and the HTTP handlers over the services.
  FastAPI runs the dependency of a router before its handlers and has parsed path and body; the constraints of the
  request models are part of the model where the handlers rely on them. An HTTP error is the exception
  \<open>HTTPException\<close> with its status and detail (the phrase of the status when the code gives no detail); an exception a handler does not
  translate leaves it as it is, and the framework answers 500. \<open>model_dump\<close> is the record \<open>json_dumps\<close>; log output is
  left out.
\<close>

section \<open>The token\<close>

definition require_api_token :: "string option \<Rightarrow> string option \<Rightarrow> unit result" where
  "require_api_token expected authorization =
     (case expected of
        None \<Rightarrow> Inr ()
      | Some t \<Rightarrow>
          if authorization \<noteq> Some (''Bearer '' @ t)
          then Inl (HTTPException 401 ''missing or invalid bearer token'')
          else Inr ())"

section \<open>Translation of exceptions\<close>

abbreviation not_found :: exc where
  "not_found \<equiv> HTTPException 404 ''Not Found''"

text \<open>The exceptions of the model that are instances of \<open>ValueError\<close>.\<close>

fun is_value_error :: "exc \<Rightarrow> bool" where
  "is_value_error (ValueError m) = True"
| "is_value_error (TaskDelegationRequestError m) = True"
| "is_value_error (NormalizationError m) = True"
| "is_value_error (SemanticRoutingError m) = True"
| "is_value_error (SemanticInputError m) = True"
| "is_value_error (SemanticRequestError m) = True"
| "is_value_error (CalendarEventListRequestError m f) = True"
| "is_value_error e = False"

definition http_errors :: "(exc \<Rightarrow> exc) \<Rightarrow> ('s, 'a) prog \<Rightarrow> ('s, 'a) prog" where
  "http_errors translate m = try_except m (\<lambda>e. raise_exc (translate e))"

definition delegation_http_error :: "exc \<Rightarrow> exc" where
  "delegation_http_error e =
     (case e of
        TaskDelegationRequestError _ \<Rightarrow> HTTPException 422 ''invalid software engineering task''
      | _ \<Rightarrow> HTTPException 500 ''software engineering task delegation failed'')"

definition execution_http_error :: "exc \<Rightarrow> exc" where
  "execution_http_error e =
     (case e of
        SoftwareEngineeringContinuationNotFoundError _ \<Rightarrow> not_found
      | SoftwareEngineeringContinuationStateError _ \<Rightarrow> HTTPException 409 ''software engineering action is not executable''
      | SoftwareEngineeringContinuationRouteError _ \<Rightarrow> HTTPException 409 ''software engineering action is not executable''
      | _ \<Rightarrow> HTTPException 500 ''software engineering task continuation failed'')"

definition disposition_http_error :: "exc \<Rightarrow> exc" where
  "disposition_http_error e =
     (case e of
        SoftwareEngineeringDispositionNotFoundError _ \<Rightarrow> not_found
      | SoftwareEngineeringDispositionStateError _ \<Rightarrow> HTTPException 409 ''software engineering work product is not disposable''
      | SoftwareEngineeringDispositionRouteError _ \<Rightarrow> HTTPException 409 ''software engineering work product is not disposable''
      | _ \<Rightarrow> HTTPException 500 ''software engineering work-product disposition failed'')"

definition promotion_http_error :: "exc \<Rightarrow> exc" where
  "promotion_http_error e =
     (case e of
        SoftwareEngineeringPromotionNotFoundError _ \<Rightarrow> not_found
      | SoftwareEngineeringPromotionStateError _ \<Rightarrow> HTTPException 409 ''software engineering work product is not promotable''
      | SoftwareEngineeringPromotionExternalError _ \<Rightarrow> HTTPException 502 ''software engineering promotion failed''
      | _ \<Rightarrow> HTTPException 500 ''software engineering promotion failed'')"

definition status_http_error :: "exc \<Rightarrow> exc" where
  "status_http_error e =
     (case e of
        SoftwareEngineeringRunControlNotFoundError _ \<Rightarrow> not_found
      | SoftwareEngineeringRunControlStateError _ \<Rightarrow> HTTPException 409 ''software engineering run status is unavailable''
      | _ \<Rightarrow> HTTPException 500 ''software engineering run status failed'')"

definition reconciliation_http_error :: "exc \<Rightarrow> exc" where
  "reconciliation_http_error e =
     (case e of
        SoftwareEngineeringRunControlNotFoundError _ \<Rightarrow> not_found
      | SoftwareEngineeringRunControlStateError _ \<Rightarrow> HTTPException 409 ''software engineering claim is not reconcilable''
      | _ \<Rightarrow> HTTPException 500 ''software engineering claim reconciliation failed'')"

text \<open>The decision handlers give \<open>str(error)\<close> to the caller for a \<open>ValueError\<close>.\<close>

definition decision_http_error :: "string \<Rightarrow> exc \<Rightarrow> exc" where
  "decision_http_error persistence_detail e =
     (case e of
        PendingActionNotFoundError _ \<Rightarrow> not_found
      | SoftwareEngineeringRecoveryError _ \<Rightarrow> HTTPException 500 persistence_detail
      | _ \<Rightarrow> if is_value_error e then HTTPException 409 (exc_message e) else e)"

definition acceptance_http_error :: "exc \<Rightarrow> exc" where
  "acceptance_http_error e = (case e of DuplicateEventError m \<Rightarrow> HTTPException 409 m | _ \<Rightarrow> e)"

definition processing_http_error :: "exc \<Rightarrow> exc" where
  "processing_http_error e =
     (case e of
        EventNotFoundError _ \<Rightarrow> not_found
      | EventLifecycleConflictError m \<Rightarrow> HTTPException 409 m
      | EventProcessingError _ \<Rightarrow> HTTPException 500 ''event processing failed''
      | _ \<Rightarrow> e)"

section \<open>Tasks\<close>

record task_http_response =
  thr_action_id :: uuid
  thr_status :: TaskDelegationStatus
  thr_permission_status :: "PermissionStatus option"
  thr_routing_reason :: "string option"

record review_http_response =
  rhr_changed_files :: "string list"
  rhr_untracked_files :: "string list"
  rhr_diff_stat :: string
  rhr_diff :: string
  rhr_diff_truncated :: bool
  rhr_dirty :: bool
  rhr_canonical_clean :: bool
  rhr_canonical_unchanged :: bool

record execution_http_response =
  ehr_action_id :: uuid
  ehr_processed :: bool
  ehr_execution_status :: string
  ehr_lifecycle_status :: string
  ehr_execution_reason :: "string option"
  ehr_external_execution_performed :: bool
  ehr_review_status :: WorkProductReviewStatus
  ehr_review :: "review_http_response option"

record disposition_http_response =
  dhr_action_id :: uuid
  dhr_disposition :: WorkProductDisposition
  dhr_succeeded :: bool
  dhr_worktree_present :: bool
  dhr_branch_present :: bool
  dhr_canonical_unchanged :: bool
  dhr_remaining :: "string list"

record promotion_http_response =
  phr_action_id :: uuid
  phr_commit_sha :: string
  phr_pull_request_number :: int
  phr_pull_request_url :: string
  phr_base_branch :: string
  phr_head_branch :: string
  phr_pull_request_created :: bool

record run_work_product_http_response =
  whr_status :: WorkProductInspectionStatus
  whr_dirty :: "bool option"
  whr_changed_files_count :: "nat option"
  whr_untracked_files_count :: "nat option"
  whr_canonical_clean :: "bool option"
  whr_canonical_unchanged :: "bool option"

record run_status_http_response =
  shr_action_id :: uuid
  shr_target :: string
  shr_phase :: SoftwareEngineeringRunPhase
  shr_approval_status :: "SoftwareEngineeringApprovalStatus option"
  shr_claimed :: bool
  shr_worker_started :: bool
  shr_execution_status :: "string option"
  shr_external_execution_performed :: "bool option"
  shr_disposition :: "WorkProductDisposition option"
  shr_claim_resolution :: "SoftwareEngineeringClaimResolution option"
  shr_promoted :: bool
  shr_pull_request_number :: "int option"
  shr_pull_request_url :: "string option"
  shr_promotion_base_branch :: "string option"
  shr_promotion_head_branch :: "string option"
  shr_reconciliation_options :: "SoftwareEngineeringClaimReconciliation list"
  shr_retriable :: bool
  shr_state_token :: string
  shr_work_product :: run_work_product_http_response

record reconciliation_http_response =
  chr_resolution :: SoftwareEngineeringClaimReconciliation
  chr_run :: run_status_http_response

definition run_status_http :: "run_status \<Rightarrow> run_status_http_response" where
  "run_status_http r =
     (let summary = rst_work_product r in
     \<lparr>shr_action_id = rst_action_id r, shr_target = rst_target r, shr_phase = rst_phase r,
      shr_approval_status = rst_approval_status r, shr_claimed = rst_claimed r,
      shr_worker_started = rst_worker_started r, shr_execution_status = rst_execution_status r,
      shr_external_execution_performed = rst_external_execution_performed r,
      shr_disposition = rst_disposition r, shr_claim_resolution = rst_claim_resolution r,
      shr_promoted = rst_promoted r, shr_pull_request_number = rst_pull_request_number r,
      shr_pull_request_url = rst_pull_request_url r,
      shr_promotion_base_branch = rst_promotion_base_branch r,
      shr_promotion_head_branch = rst_promotion_head_branch r,
      shr_reconciliation_options = rst_reconciliation_options r, shr_retriable = rst_retriable r,
      shr_state_token = rst_state_token r,
      shr_work_product =
        \<lparr>whr_status = wps_status summary, whr_dirty = wps_dirty summary,
         whr_changed_files_count = wps_changed_files_count summary,
         whr_untracked_files_count = wps_untracked_files_count summary,
         whr_canonical_clean = wps_canonical_clean summary,
         whr_canonical_unchanged = wps_canonical_unchanged summary\<rparr>\<rparr>)"

definition review_http :: "work_product_review \<Rightarrow> review_http_response" where
  "review_http r =
     \<lparr>rhr_changed_files = wrv_changed_files r, rhr_untracked_files = wrv_untracked_files r,
      rhr_diff_stat = wrv_diff_stat r, rhr_diff = wrv_diff r, rhr_diff_truncated = wrv_diff_truncated r,
      rhr_dirty = wrv_dirty r, rhr_canonical_clean = wrv_canonical_clean r,
      rhr_canonical_unchanged = wrv_canonical_unchanged r\<rparr>"

definition http_delegate ::
  "('r, 'w, 'x) server_config \<Rightarrow> clock \<Rightarrow> clock \<Rightarrow> uuid \<Rightarrow> string \<Rightarrow> string \<Rightarrow> (('r, 'w) server_state, task_http_response) prog" where
  "http_delegate cf c rc i objective target =
     bnd (http_errors delegation_http_error
            (ingress_delegate (cf_ops cf) (cf_registry cf) (ew_engine (cf_workflow cf)) (ew_dump (cf_workflow cf))
               c rc i objective target)) (\<lambda>result.
     ret \<lparr>thr_action_id = tdres_action_id result, thr_status = tdres_status result,
          thr_permission_status = tdres_permission_status result, thr_routing_reason = tdres_routing_reason result\<rparr>)"

definition http_execute ::
  "('r, 'w, 'x) server_config \<Rightarrow> clock \<Rightarrow> uuid \<Rightarrow> worker_inputs \<Rightarrow> uuid \<Rightarrow> (('r, 'w) server_state, execution_http_response) prog" where
  "http_execute cf c claim_id inp i =
     bnd (http_errors execution_http_error
            (continuation_execute (cf_ops cf) (cf_runtime cf) (cf_reviewer cf) c claim_id inp i)) (\<lambda>result.
     ret \<lparr>ehr_action_id = cr_action_id result, ehr_processed = cr_processed result,
          ehr_execution_status = worker_status_value (cr_execution_status result),
          ehr_lifecycle_status = action_status_value (cr_lifecycle_status result),
          ehr_execution_reason = cr_execution_reason result,
          ehr_external_execution_performed = cr_external_execution_performed result,
          ehr_review_status = cr_review_status result, ehr_review = map_option review_http (cr_review result)\<rparr>)"

definition http_dispose ::
  "('r, 'w, 'x) server_config \<Rightarrow> clock \<Rightarrow> uuid \<Rightarrow> WorkProductDisposition \<Rightarrow> (('r, 'w) server_state, disposition_http_response) prog" where
  "http_dispose cf c i d =
     bnd (http_errors disposition_http_error (disposition_apply (cf_ops cf) (cf_disposer cf) c i d)) (\<lambda>result.
     ret \<lparr>dhr_action_id = wpr_action_id result, dhr_disposition = wpr_disposition result,
          dhr_succeeded = wpr_succeeded result, dhr_worktree_present = wpr_worktree_present result,
          dhr_branch_present = wpr_branch_present result,
          dhr_canonical_unchanged = wpr_canonical_unchanged result, dhr_remaining = wpr_remaining result\<rparr>)"

definition http_promote ::
  "('r, 'w, 'x) server_config \<Rightarrow> clock \<Rightarrow> uuid \<Rightarrow> string \<Rightarrow> string \<Rightarrow> (('r, 'w) server_state, promotion_http_response) prog" where
  "http_promote cf c i title body =
     bnd (http_errors promotion_http_error
            (promote (cf_ops cf) (cf_host cf) (cf_promotion cf) c i title body)) (\<lambda>result.
     ret \<lparr>phr_action_id = spr_action_id result, phr_commit_sha = spr_commit_sha result,
          phr_pull_request_number = spr_pull_request_number result,
          phr_pull_request_url = spr_pull_request_url result, phr_base_branch = spr_base_branch result,
          phr_head_branch = spr_head_branch result, phr_pull_request_created = spr_pull_request_created result\<rparr>)"

definition http_run_status ::
  "('r, 'w, 'x) server_config \<Rightarrow> uuid \<Rightarrow> (('r, 'w) server_state, run_status_http_response) prog" where
  "http_run_status cf i =
     bnd (http_errors status_http_error (control_status (cf_ops cf) (cf_digest cf) (cf_reviewer cf) i)) (\<lambda>result.
     ret (run_status_http result))"

definition http_reconcile ::
  "('r, 'w, 'x) server_config \<Rightarrow> clock \<Rightarrow> uuid \<Rightarrow> SoftwareEngineeringClaimReconciliation \<Rightarrow> string \<Rightarrow> bool
     \<Rightarrow> (('r, 'w) server_state, reconciliation_http_response) prog" where
  "http_reconcile cf c i resolution token acknowledged =
     bnd (http_errors reconciliation_http_error
            (control_reconcile (cf_ops cf) (cf_digest cf) (cf_reviewer cf) c i resolution token acknowledged)) (\<lambda>result.
     ret \<lparr>chr_resolution = resolution, chr_run = run_status_http result\<rparr>)"

text \<open>The constraints that the request models declare.\<close>

definition valid_promotion_request :: "string \<Rightarrow> string \<Rightarrow> bool" where
  "valid_promotion_request title body \<longleftrightarrow>
     1 \<le> length title \<and> length title \<le> 200 \<and> length body \<le> 10000 \<and> \<not> str_blank title"

definition valid_state_token :: "string \<Rightarrow> bool" where
  "valid_state_token token \<longleftrightarrow> length token = 64 \<and> (\<forall>ch\<in>set token. ch \<in> set ''0123456789abcdef'')"

section \<open>Events and actions\<close>

record json_dumps =
  jd_action :: "action \<Rightarrow> pyval"
  jd_action_lifecycle :: "action_lifecycle_state \<Rightarrow> pyval"
  jd_event :: "universal_event \<Rightarrow> pyval"
  jd_event_lifecycle :: "event_lifecycle_state \<Rightarrow> pyval"
  jd_processed_event :: "processed_event \<Rightarrow> pydict"
  jd_decision :: "permission_decision \<Rightarrow> pyval"

definition http_list_action_queue :: "json_dumps \<Rightarrow> (('r, 'w) server_state, pyval) prog" where
  "http_list_action_queue jd = gets (\<lambda>s. PList (map (jd_action jd) (queue_list (action_queue s))))"

text \<open>The process-local pending actions, then the recovered ones that are not among them.\<close>

fun add_unknown :: "action list \<Rightarrow> action list \<Rightarrow> action list" where
  "add_unknown actions [] = actions"
| "add_unknown actions (a # as) =
     add_unknown (if act_id a \<in> act_id ` set actions then actions else actions @ [a]) as"

fun pending_entries ::
  "json_dumps \<Rightarrow> clock \<Rightarrow> nat \<Rightarrow> lifecycle_repository \<Rightarrow> action list \<Rightarrow> pyval list result" where
  "pending_entries jd c j repo [] = Inr []"
| "pending_entries jd c j repo (a # as) =
     rbind (case lifecycle_get repo (act_id a) of
              Some st \<Rightarrow> Inr st
            | None \<Rightarrow> mk_action_lifecycle_state QUEUED (now_utc c j) None None
                [(''approval_required'', PBool True), (''durable_recovery'', PBool True)]) (\<lambda>st.
     rbind (pending_entries jd c (Suc j) repo as) (\<lambda>rest.
     Inr (PDict [(''action'', jd_action jd a), (''lifecycle'', jd_action_lifecycle jd st)] # rest)))"

definition http_list_pending_approval ::
  "('r, 'w, 'x) server_config \<Rightarrow> json_dumps \<Rightarrow> clock \<Rightarrow> clock \<Rightarrow> (('r, 'w) server_state, pyval) prog" where
  "http_list_pending_approval cf jd c1 c =
     bnd (gets (\<lambda>s. registry_list_pending (pending_approval_registry s))) (\<lambda>known.
     bnd (http_errors (\<lambda>e. case e of
              SoftwareEngineeringRecoveryError _ \<Rightarrow> HTTPException 500 ''pending approval recovery failed''
            | _ \<Rightarrow> e)
            (recovery_list_pending (cf_ops cf) c1)) (\<lambda>recovered.
     bnd (gets action_lifecycle_repository) (\<lambda>repo.
     bnd (liftr (pending_entries jd c 0 repo (add_unknown known recovered))) (\<lambda>entries.
     ret (PList entries)))))"

definition decision_response :: "json_dumps \<Rightarrow> string \<Rightarrow> uuid \<Rightarrow> action_lifecycle_state \<Rightarrow> pyval" where
  "decision_response jd status i st =
     PDict [(''status'', PStr status), (''action_id'', PStr (uuid_str i)), (''lifecycle'', jd_action_lifecycle jd st)]"

definition http_approve ::
  "('r, 'w, 'x) server_config \<Rightarrow> json_dumps \<Rightarrow> clock \<Rightarrow> clock \<Rightarrow> clock \<Rightarrow> uuid \<Rightarrow> (('r, 'w) server_state, pyval) prog" where
  "http_approve cf jd c1 c2 c i =
     bnd (http_errors (decision_http_error ''action approval persistence failed'')
            (approve_pending_action (Some (se_recovery (cf_ops cf) c1)) (Some (se_recorder (cf_ops cf) c2)) c i)) (\<lambda>st.
     ret (decision_response jd ''approved'' i st))"

definition rejection_reason :: "string option option \<Rightarrow> string" where
  "rejection_reason body =
     (case body of Some (Some r) \<Rightarrow> if r \<noteq> '''' then r else ''rejected by user'' | _ \<Rightarrow> ''rejected by user'')"

definition http_reject ::
  "('r, 'w, 'x) server_config \<Rightarrow> json_dumps \<Rightarrow> clock \<Rightarrow> clock \<Rightarrow> clock \<Rightarrow> uuid \<Rightarrow> string option option
     \<Rightarrow> (('r, 'w) server_state, pyval) prog" where
  "http_reject cf jd c1 c2 c i body =
     bnd (http_errors (decision_http_error ''action rejection persistence failed'')
            (reject_pending_action (Some (se_recovery (cf_ops cf) c1)) (Some (se_recorder (cf_ops cf) c2)) c
               (rejection_reason body) i)) (\<lambda>st.
     ret (decision_response jd ''rejected'' i st))"

definition http_accept_event :: "clock \<Rightarrow> universal_event \<Rightarrow> (('r, 'w) server_state, pyval) prog" where
  "http_accept_event c e =
     bnd (http_errors acceptance_http_error (accept_event c e)) (\<lambda>accepted.
     ret (PDict [(''status'', PStr ''accepted''), (''event_id'', PStr (uuid_str (ev_id accepted)))]))"

definition http_list_events :: "json_dumps \<Rightarrow> int \<Rightarrow> int \<Rightarrow> (('r, 'w) server_state, pyval) prog" where
  "http_list_events jd limit offset =
     gets (\<lambda>s. PList (map (jd_event jd) (take (nat limit) (drop (nat offset) (store_list_events (event_repository s))))))"

definition http_list_pending_events :: "json_dumps \<Rightarrow> (('r, 'w) server_state, pyval) prog" where
  "http_list_pending_events jd = gets (\<lambda>s. PList (map (jd_event jd) (inbox_list_pending (event_inbox s))))"

definition evaluation_entry :: "json_dumps \<Rightarrow> lifecycle_repository \<Rightarrow> permission_evaluation \<Rightarrow> pyval" where
  "evaluation_entry jd repo ev =
     PDict [(''action_id'', PStr (uuid_str (act_id (pe_action ev)))), (''decision'', jd_decision jd (pe_decision ev)),
            (''lifecycle'', (case lifecycle_get repo (act_id (pe_action ev)) of
                None \<Rightarrow> PNone | Some st \<Rightarrow> jd_action_lifecycle jd st))]"

definition http_process_event ::
  "('r, 'w, 'x) server_config \<Rightarrow> json_dumps \<Rightarrow> clock \<Rightarrow> (nat \<Rightarrow> clock) \<Rightarrow> uuid \<Rightarrow> uuid
     \<Rightarrow> integration_route_context option option \<Rightarrow> (('r, 'w) server_state, pyval) prog" where
  "http_process_event cf jd c pc aid i body =
     bnd (http_errors processing_http_error
            (process_event (cf_workflow cf) c pc aid i (case body of None \<Rightarrow> None | Some route \<Rightarrow> route))) (\<lambda>result.
     bnd (gets action_lifecycle_repository) (\<lambda>repo.
     ret (PDict (dict_set ''permission_decisions''
                   (PList (map (evaluation_entry jd repo) (epr_permission_evaluations result)))
                (dict_set ''actions''
                   (PList (map (\<lambda>ev. jd_action jd (pe_action ev)) (epr_permission_evaluations result)))
                   (jd_processed_event jd (epr_processed_event result)))))))"

definition http_read_event :: "json_dumps \<Rightarrow> uuid \<Rightarrow> (('r, 'w) server_state, pyval) prog" where
  "http_read_event jd i =
     bnd (gets (\<lambda>s. store_get_event (event_repository s) i)) (\<lambda>found.
     case found of None \<Rightarrow> raise_exc not_found | Some e \<Rightarrow> ret (jd_event jd e))"

definition http_read_event_lifecycle :: "json_dumps \<Rightarrow> uuid \<Rightarrow> (('r, 'w) server_state, pyval) prog" where
  "http_read_event_lifecycle jd i =
     bnd (gets (\<lambda>s. store_get_event (event_repository s) i)) (\<lambda>found.
     if found = None then raise_exc not_found
     else bnd (gets (\<lambda>s. dict_get (event_lifecycle_states s) i)) (\<lambda>st.
       case st of
         None \<Rightarrow> raise_exc (HTTPException 404 ''no lifecycle state recorded for this event'')
       | Some x \<Rightarrow> ret (jd_event_lifecycle jd x)))"

section \<open>Requests\<close>

text \<open>The routes of the two routers, and what the framework does with a request: the token, the constraints of the
  request model, the handler. The clocks and fresh identifiers a handler reads are inputs.\<close>

datatype api_request =
    ListActionQueue
  | ListPendingApproval
  | ApproveAction uuid
  | RejectAction uuid "string option option"
  | AcceptEvent universal_event
  | ListEvents int int
  | ListPendingEvents
  | ProcessEvent uuid "integration_route_context option option"
  | ReadEvent uuid
  | ReadEventLifecycle uuid
  | DelegateTask string string
  | ExecuteTask uuid
  | DisposeWorkProduct uuid WorkProductDisposition
  | PromoteWorkProduct uuid string string
  | RunStatus uuid
  | ReconcileClaim uuid SoftwareEngineeringClaimReconciliation string bool

datatype api_response =
    JsonResponse pyval
  | TaskResponse task_http_response
  | ExecutionResponse execution_http_response
  | DispositionResponse disposition_http_response
  | PromotionResponse promotion_http_response
  | RunStatusResponse run_status_http_response
  | ReconciliationResponse reconciliation_http_response

record api_inputs =
  ai_clock :: clock
  ai_clock1 :: clock
  ai_clock2 :: clock
  ai_evaluation_clocks :: "nat \<Rightarrow> clock"
  ai_action_id :: uuid
  ai_claim_id :: uuid
  ai_worker :: worker_inputs

definition valid_request :: "api_request \<Rightarrow> bool" where
  "valid_request req =
     (case req of
        ListEvents limit offset \<Rightarrow> 1 \<le> limit \<and> limit \<le> 1000 \<and> 0 \<le> offset
      | PromoteWorkProduct i title body \<Rightarrow> valid_promotion_request title body
      | ReconcileClaim i resolution token ack \<Rightarrow> valid_state_token token
      | _ \<Rightarrow> True)"

definition answer :: "('a \<Rightarrow> api_response) \<Rightarrow> ('s, 'a) prog \<Rightarrow> ('s, api_response) prog" where
  "answer f m = bnd m (\<lambda>x. ret (f x))"

fun api_handler ::
  "('r, 'w, 'x) server_config \<Rightarrow> json_dumps \<Rightarrow> api_inputs \<Rightarrow> api_request \<Rightarrow> (('r, 'w) server_state, api_response) prog" where
  "api_handler cf jd ai ListActionQueue = answer JsonResponse (http_list_action_queue jd)"
| "api_handler cf jd ai ListPendingApproval = answer JsonResponse (http_list_pending_approval cf jd (ai_clock1 ai) (ai_clock ai))"
| "api_handler cf jd ai (ApproveAction i) =
     answer JsonResponse (http_approve cf jd (ai_clock1 ai) (ai_clock2 ai) (ai_clock ai) i)"
| "api_handler cf jd ai (RejectAction i body) =
     answer JsonResponse (http_reject cf jd (ai_clock1 ai) (ai_clock2 ai) (ai_clock ai) i body)"
| "api_handler cf jd ai (AcceptEvent e) = answer JsonResponse (http_accept_event (ai_clock ai) e)"
| "api_handler cf jd ai (ListEvents limit offset) = answer JsonResponse (http_list_events jd limit offset)"
| "api_handler cf jd ai ListPendingEvents = answer JsonResponse (http_list_pending_events jd)"
| "api_handler cf jd ai (ProcessEvent i body) =
     answer JsonResponse (http_process_event cf jd (ai_clock ai) (ai_evaluation_clocks ai) (ai_action_id ai) i body)"
| "api_handler cf jd ai (ReadEvent i) = answer JsonResponse (http_read_event jd i)"
| "api_handler cf jd ai (ReadEventLifecycle i) = answer JsonResponse (http_read_event_lifecycle jd i)"
| "api_handler cf jd ai (DelegateTask objective target) =
     answer TaskResponse (http_delegate cf (ai_clock ai) (ai_clock1 ai) (ai_action_id ai) objective target)"
| "api_handler cf jd ai (ExecuteTask i) =
     answer ExecutionResponse (http_execute cf (ai_clock ai) (ai_claim_id ai) (ai_worker ai) i)"
| "api_handler cf jd ai (DisposeWorkProduct i d) = answer DispositionResponse (http_dispose cf (ai_clock ai) i d)"
| "api_handler cf jd ai (PromoteWorkProduct i title body) =
     answer PromotionResponse (http_promote cf (ai_clock ai) i title body)"
| "api_handler cf jd ai (RunStatus i) = answer RunStatusResponse (http_run_status cf i)"
| "api_handler cf jd ai (ReconcileClaim i resolution token ack) =
     answer ReconciliationResponse (http_reconcile cf (ai_clock ai) i resolution token ack)"

definition api_call ::
  "('r, 'w, 'x) server_config \<Rightarrow> json_dumps \<Rightarrow> string option \<Rightarrow> api_inputs \<Rightarrow> string option \<Rightarrow> api_request
     \<Rightarrow> (('r, 'w) server_state, api_response) prog" where
  "api_call cf jd expected ai authorization req =
     bnd (liftr (require_api_token expected authorization)) (\<lambda>_.
     if \<not> valid_request req then raise_exc (HTTPException 422 ''request validation failed'')
     else api_handler cf jd ai req)"

end
