(* ===== verification/Decision_Effects.thy ===== *)
theory Decision_Effects
  imports Authorization
begin

text \<open>
  What an approval decision does to the local stores and to the run repository, for every repository that
  keeps the contract.
\<close>

definition keyed_registry :: "('r, 'w, 'z) process_state_scheme \<Rightarrow> bool" where
  "keyed_registry s \<longleftrightarrow> (\<forall>j b. registry_get (pending_approval_registry s) j = Some b \<longrightarrow> act_id b = j)"

lemma runs_ok_UNIV: "runs_ok view okr UNIV s \<longleftrightarrow> okr (run_repository s)"
  by (simp add: runs_ok_def run_inv_def)

lemma beside_worldD:
  assumes "beside_world s' = beside_world s"
  shows "stores s' = stores s" "execution_log s' = execution_log s" "action_queue s' = action_queue s"
    "lifecycle_of s' j = lifecycle_of s j" "pending_approval_registry s' = pending_approval_registry s"
  using assms by (simp_all add: beside_world_def stores_def)

context run_repository
begin

lemma resolved_id:
  assumes "inv (run_repository s)" "keyed_registry s"
    and run: "resolve_pending_action (Some (se_recovery ops c)) i s = (r, s')"
  shows "inv (run_repository s') \<and> beside_world s' = beside_world s \<and> (\<forall>a. r = Inr a \<longrightarrow> act_id a = i)"
proof -
  have ok: "runs_ok view inv UNIV s" using assms(1) by (simp add: runs_ok_UNIV)
  have "keeps (runs_ok view inv UNIV) (resolve_pending_action (Some (se_recovery ops c)) i)"
    unfolding resolve_pending_recovers se_recovery_def by (intro keep_intros recover_keeps)
  then have "inv (run_repository s')" using keepsD run ok runs_ok_UNIV by metis
  moreover have "act_id a = i" if a: "r = Inr a" for a
  proof (cases "registry_get (pending_approval_registry s) i")
    case None
    with run a obtain s2 where "recover_pending ops c i s = (Inr (Some a), s2)"
      by (auto simp: resolve_pending_action_def se_recovery_def bnd_eq_Inr split: option.splits)
    then show ?thesis by (rule recover_pending_id [OF ok])
  next
    case (Some b)
    with run a assms(2) show ?thesis by (auto simp: resolve_pending_action_def bnd_eq_Inr keyed_registry_def)
  qed
  ultimately show ?thesis using preservesD [OF se_resolve_beside run] by blast
qed

text \<open>A recorded approval of a canonical action is durable.\<close>

lemma recorded_approval:
  assumes c: "valid_clock c" and ok: "inv (run_repository s)"
    and run: "recovery_record_approved ops c a s = (Inr u, s')" and canonical: "is_canonical_action a"
  shows "durably_approved (view (run_repository s') (act_id a))"
proof -
  obtain obj s1 st where reg: "ensure_registered ops c a obj s = (Inr (), s1)"
    and rec: "on_runs (run_record_approval ops (shift_clock 2 c) (act_id a) obj (now_utc c 1)) s1 = (Inr st, s')"
    using run canonical
    by (auto simp: recovery_record_approved_def bnd_eq_Inr run_state_error_Inr)
  have ok1: "inv (run_repository s1)"
    using keepsD [OF ensure_registered_keeps [OF c] reg] ok by (metis runs_ok_UNIV)
  from rec obtain r where r: "s' = s1\<lparr>run_repository := r\<rparr>"
    and call: "exec_call ops (RecordApproval (shift_clock 2 c) (act_id a) obj (now_utc c 1)) (run_repository s1)
      = (Inr (RState st), r)"
    by (auto simp: on_runs_Inr bnd_def)
  obtain st' where "applies (RecordApproval (shift_clock 2 c) (act_id a) obj (now_utc c 1)) (view (run_repository s1)) st' (view r)"
    using call_applies [OF ok1 _ call] valid_shift [OF c] valid_now [OF c] by auto
  then show ?thesis
    using r by (cases "view (run_repository s1) (act_id a)")
      (auto simp: applies_def call_result_def edit_facts durably_approved_def)
qed

lemma approve_effect:
  assumes "inv (run_repository s)" "keyed_registry s" and c2: "valid_clock c2"
    and run: "approve_pending_action (Some (se_recovery ops c1)) (Some (se_recorder ops c2)) c i s = (r, s')"
  shows "case r of
      Inl e \<Rightarrow> stores s' = stores s \<and> execution_log s' = execution_log s
    | Inr st \<Rightarrow> als_status st = APPROVED \<and> lifecycle_of s' i = Some st
        \<and> (\<forall>j. j \<noteq> i \<longrightarrow> lifecycle_of s' j = lifecycle_of s j)
        \<and> registry_get (pending_approval_registry s') i = None
        \<and> (\<forall>j. j \<noteq> i \<longrightarrow> registry_get (pending_approval_registry s') j = registry_get (pending_approval_registry s) j)
        \<and> execution_log s' = execution_log s
        \<and> (\<exists>a. act_id a = i \<and> action_queue s' = action_queue s @ [a]
              \<and> (is_canonical_action a \<longrightarrow> durably_approved (view (run_repository s') i)))"
  using run
proof (cases rule: approve_cases)
  case (unresolved e)
  with resolved_id [OF assms(1,2) unresolved(2)] show ?thesis by (auto dest: beside_worldD)
next
  case (illegal e a)
  with resolved_id [OF assms(1,2) illegal(2)] show ?thesis by (auto dest: beside_worldD)
next
  case (unrecorded e a s1)
  have "recovery_record_approved ops c2 a s1 = (Inl e, s')" using unrecorded(3) by (simp add: se_recorder_def)
  with resolved_id [OF assms(1,2) unrecorded(2)] preservesD [OF recovery_beside(2)] unrecorded(1) show ?thesis
    by (fastforce dest: beside_worldD)
next
  case (approved a s1 s2 st)
  have rec: "recovery_record_approved ops c2 a s1 = (Inr (), s2)" using approved(3) by (simp add: se_recorder_def)
  note one = resolved_id [OF assms(1,2) approved(2)]
  have two: "beside_world s2 = beside_world s" using preservesD [OF recovery_beside(2) rec] one by simp
  have "is_canonical_action a \<longrightarrow> durably_approved (view (run_repository s2) i)"
    using recorded_approval [OF c2 _ rec] one by auto
  with one approved(1,4,5) beside_worldD [OF two] show ?thesis
    by (auto simp: lifecycle.get_put registry.get_remove queue_enqueue_def)
qed

lemma reject_effect:
  assumes "inv (run_repository s)" "keyed_registry s"
    and run: "reject_pending_action (Some (se_recovery ops c1)) (Some (se_recorder ops c2)) c reason i s = (r, s')"
  shows "case r of
      Inl e \<Rightarrow> stores s' = stores s \<and> execution_log s' = execution_log s
    | Inr st \<Rightarrow> als_status st = REJECTED \<and> lifecycle_of s' i = Some st
        \<and> (\<forall>j. j \<noteq> i \<longrightarrow> lifecycle_of s' j = lifecycle_of s j)
        \<and> registry_get (pending_approval_registry s') i = None
        \<and> (\<forall>j. j \<noteq> i \<longrightarrow> registry_get (pending_approval_registry s') j = registry_get (pending_approval_registry s) j)
        \<and> action_queue s' = action_queue s \<and> execution_log s' = execution_log s"
  using run
proof (cases rule: reject_cases)
  case (unresolved e)
  with resolved_id [OF assms(1,2) unresolved(2)] show ?thesis by (auto dest: beside_worldD)
next
  case (illegal e a)
  with resolved_id [OF assms(1,2) illegal(2)] show ?thesis by (auto dest: beside_worldD)
next
  case (unrecorded e a s1)
  have "recovery_record_rejected ops c2 a s1 = (Inl e, s')" using unrecorded(3) by (simp add: se_recorder_def)
  with resolved_id [OF assms(1,2) unrecorded(2)] preservesD [OF recovery_beside(3)] unrecorded(1) show ?thesis
    by (fastforce dest: beside_worldD)
next
  case (rejected a s1 s2 st)
  have rec: "recovery_record_rejected ops c2 a s1 = (Inr (), s2)" using rejected(3) by (simp add: se_recorder_def)
  have two: "beside_world s2 = beside_world s"
    using preservesD [OF recovery_beside(3) rec] resolved_id [OF assms(1,2) rejected(2)] by simp
  with rejected(1,4,5) beside_worldD [OF two] show ?thesis
    by (auto simp: lifecycle.get_put registry.get_remove)
qed

end

end
