(* ===== verification/Service_Properties.thy ===== *)
theory Service_Properties
  imports Samples Decision_Effects
begin

text \<open>
  The properties of approval decisions, delegation and event processing, on the SQLite run repository where
  one is involved.
\<close>

section \<open>Approval decisions\<close>

definition empty_db :: sqlite_db where
  "empty_db = \<lparr>db_rows = [], db_up = (\<lambda>_. SqlOk), db_next = 0\<rparr>"

definition sample_server :: "action list \<Rightarrow> (uuid \<times> action_lifecycle_state) list \<Rightarrow> (uuid \<times> action) list
    \<Rightarrow> (sqlite_db, nat) process_state" where
  "sample_server q l p = \<lparr>action_queue = q, action_lifecycle_repository = l, pending_approval_registry = p,
     run_repository = empty_db, execution_observations = [], execution_world = 0\<rparr>"

lemma empty_db_inv [simp]: "db_inv empty_db" "sq_view empty_db i = None" "healthy empty_db"
  by (simp_all add: db_inv_def db_rel_def empty_db_def db_abs_def sq_view_def mem_view_def healthy_def)

text \<open>C10. Approving: a decision that raises, before or after the durable record was attempted, leaves queue,
  lifecycle states, pending approvals and executions as they were. One that returns makes the action APPROVED,
  takes it from the pending approvals, appends it to the queue, touches no other action, and the approval of
  a software engineering action is durable.\<close>

theorem approve_all_or_nothing:
  assumes "db_inv (run_repository s)" "keyed_registry s" "valid_clock c2"
  shows "case approve_pending_action (Some (se_recovery sqlite_ops c1)) (Some (se_recorder sqlite_ops c2)) c i s of
      (Inl e, s') \<Rightarrow> stores s' = stores s \<and> execution_log s' = execution_log s
    | (Inr st, s') \<Rightarrow> als_status st = APPROVED \<and> lifecycle_of s' i = Some st
        \<and> (\<forall>j. j \<noteq> i \<longrightarrow> lifecycle_of s' j = lifecycle_of s j)
        \<and> registry_get (pending_approval_registry s') i = None
        \<and> (\<forall>j. j \<noteq> i \<longrightarrow> registry_get (pending_approval_registry s') j = registry_get (pending_approval_registry s) j)
        \<and> execution_log s' = execution_log s
        \<and> (\<exists>a. act_id a = i \<and> action_queue s' = action_queue s @ [a]
              \<and> (is_canonical_action a \<longrightarrow> durably_approved (sq_view (run_repository s') i)))"
  using sq.approve_effect [OF assms surjective_pairing, of c1 c i] by (auto split: prod.splits sum.splits)

lemma sample_server_sel [simp]:
  "action_queue (sample_server q l p) = q" "action_lifecycle_repository (sample_server q l p) = l"
  "pending_approval_registry (sample_server q l p) = p" "run_repository (sample_server q l p) = empty_db"
  by (simp_all add: sample_server_def)

lemma pending_server [simp]:
  "db_inv (run_repository (sample_server [] [] [(9, se_action)]))" "keyed_registry (sample_server [] [] [(9, se_action)])"
  by (simp_all add: keyed_registry_def registry_get_def se_action_def)

theorem approve_all_or_nothing_witness:
  "case approve_pending_action (Some (se_recovery sqlite_ops sample_clock)) (Some (se_recorder sqlite_ops sample_clock))
       sample_clock 9 (sample_server [] [] [(9, se_action)]) of
      (Inl e, s') \<Rightarrow> action_queue s' = []
    | (Inr st, s') \<Rightarrow> registry_get (pending_approval_registry s') 9 = None \<and> map act_id (action_queue s') = [9]"
  using approve_all_or_nothing [where s = "sample_server [] [] [(9, se_action)]" and c = sample_clock
      and ?c1.0 = sample_clock and ?c2.0 = sample_clock and i = 9]
  by (auto simp: stores_def split: prod.splits sum.splits)

text \<open>Rejecting: a decision that raises leaves the local stores as they were; one that returns makes the action
  REJECTED, takes it from the pending approvals, queues nothing and touches no other action.\<close>

theorem reject_all_or_nothing:
  assumes "db_inv (run_repository s)" "keyed_registry s"
  shows "case reject_pending_action (Some (se_recovery sqlite_ops c1)) (Some (se_recorder sqlite_ops c2)) c reason i s of
      (Inl e, s') \<Rightarrow> stores s' = stores s \<and> execution_log s' = execution_log s
    | (Inr st, s') \<Rightarrow> als_status st = REJECTED \<and> lifecycle_of s' i = Some st
        \<and> (\<forall>j. j \<noteq> i \<longrightarrow> lifecycle_of s' j = lifecycle_of s j)
        \<and> registry_get (pending_approval_registry s') i = None
        \<and> (\<forall>j. j \<noteq> i \<longrightarrow> registry_get (pending_approval_registry s') j = registry_get (pending_approval_registry s) j)
        \<and> action_queue s' = action_queue s \<and> execution_log s' = execution_log s"
  using sq.reject_effect [OF assms surjective_pairing, of c1 c2 c reason i] by (auto split: prod.splits sum.splits)

theorem reject_all_or_nothing_witness:
  "case reject_pending_action (Some (se_recovery sqlite_ops sample_clock)) (Some (se_recorder sqlite_ops sample_clock))
       sample_clock ''no'' 9 (sample_server [] [] [(9, se_action)]) of
      (Inl e, s') \<Rightarrow> action_queue s' = []
    | (Inr st, s') \<Rightarrow> als_status st = REJECTED \<and> action_queue s' = []"
  using reject_all_or_nothing [where s = "sample_server [] [] [(9, se_action)]" and c = sample_clock
      and ?c1.0 = sample_clock and ?c2.0 = sample_clock and reason = "''no''" and i = 9]
  by (auto simp: stores_def split: prod.splits sum.splits)

section \<open>Delegation\<close>

text \<open>Delegation: a routed request always gets an outcome. Without a route nothing is stored or queued; an
  allowed action is queued; one that requires approval is registered as pending in a state that awaits approval
  and is not queued; a denied one is REJECTED and not queued.\<close>

theorem delegation_outcome:
  "\<exists>x s'. delegate reg engine dump c i rq s = (Inr x, s') \<and> tdres_action_id x = i
    \<and> (case tdres_status x of
         TD_ROUTE_REJECTED \<Rightarrow> s' = s \<and> tdres_permission_status x = None
       | TD_QUEUED \<Rightarrow> tdres_permission_status x = Some ALLOWED
           \<and> (\<exists>a st. act_id a = i \<and> action_queue s' = action_queue s @ [a]
                \<and> lifecycle_of s' i = Some st \<and> als_status st = APPROVED)
       | TD_AWAITING_APPROVAL \<Rightarrow> tdres_permission_status x = Some REQUIRES_APPROVAL \<and> action_queue s' = action_queue s
           \<and> registry_get (pending_approval_registry s') i \<noteq> None
           \<and> (\<exists>st. lifecycle_of s' i = Some st \<and> awaits_approval st)
       | TD_DENIED \<Rightarrow> tdres_permission_status x = Some DENIED \<and> action_queue s' = action_queue s
           \<and> (\<exists>st. lifecycle_of s' i = Some st \<and> als_status st = REJECTED))"
proof -
  obtain a where a: "action_for i (now_utc c 0) rq = Inr a" "act_id a = i"
    by (simp add: action_for_def mk_action_def require_utc_created_at_def is_utc_aware)
  obtain d st where d: "als_status st = initial_status (pdec_status d)"
    "als_metadata st = (case pdec_status d of ALLOWED \<Rightarrow> [] | REQUIRES_APPROVAL \<Rightarrow> [(''approval_required'', PBool True)]
        | DENIED \<Rightarrow> [(''permission_status'', PStr ''denied'')])"
    and run: "evaluate_action engine dump (\<lambda>n. c (Suc n)) a s =
       (Inr \<lparr>pe_action = apply_permission_metadata dump a d, pe_decision = d\<rparr>,
        (if pdec_status d = REQUIRES_APPROVAL
         then pending_approval_registry_update (registry_add (apply_permission_metadata dump a d)) else id)
        (s\<lparr>action_lifecycle_repository := lifecycle_set (act_id a) st (action_lifecycle_repository s)\<rparr>))"
    by (rule evaluate_action_effect [of engine "\<lambda>n. c (Suc n)" a dump s])
  show ?thesis
    by (cases "pdec_status d"; cases "res_registered (resolve_with_registration reg a)")
       (use a d run in \<open>simp_all add: delegate_def bnd_def Let_def permission_evaluate_def queue_enqueue_def
          lifecycle.get_put registry_get_add initial_status_def awaits_approval_def pd_get_def,
          (metis apply_permission_metadata_simps(1))?\<close>)
qed

section \<open>Events\<close>

definition sample_event :: universal_event where
  "sample_event = \<lparr>ev_id = 5, ev_source = ''calendar'', ev_type = ''calendar.event'', ev_timestamp = sample_time,
     ev_payload = [], ev_metadata = [], ev_correlation_id = None, ev_causation_id = None\<rparr>"

definition sample_events :: "EventStatus \<Rightarrow> (sqlite_db, nat) server_state" where
  "sample_events st = process_state.extend (sample_server [] [] [])
     (server_state.fields [sample_event] [sample_event]
        [(5, \<lparr>els_event_id = 5, els_status = st, els_reason = None, els_metadata = [], els_updated_at = sample_time\<rparr>)])"

lemma sample_events_sel [simp]:
  "event_repository (sample_events st) = [sample_event]"
  "event_lifecycle_states (sample_events st) =
     [(5, \<lparr>els_event_id = 5, els_status = st, els_reason = None, els_metadata = [], els_updated_at = sample_time\<rparr>)]"
  by (simp_all add: sample_events_def process_state.extend_def server_state.fields_def sample_server_def)

lemma sample_event_found [simp]: "store_get_event [sample_event] 5 = Some sample_event"
  by (simp add: store_get_event_def find_first_def sample_event_def)

definition base_workflow :: event_workflow where
  "base_workflow = \<lparr>ew_classify = (\<lambda>e. Inr (rule_based_classify e)),
     ew_resolve = (\<lambda>e cl. Inr (base_resolve_context e cl)), ew_plan = base_plan,
     ew_engine = base_permission_engine, ew_dump = (\<lambda>_. PNone)\<rparr>"

text \<open>Accepting an event: a second event with the same identifier raises \<open>DuplicateEventError\<close> and changes nothing;
  a new one is stored, is the last of the inbox, is found under its identifier and is PENDING. No action store changes.\<close>

theorem accept_event_once:
  "case store_get_event (event_repository s) (ev_id e) of
     Some e0 \<Rightarrow> \<exists>m. accept_event c e s = (Inl (DuplicateEventError m), s)
   | None \<Rightarrow> \<exists>s'. accept_event c e s = (Inr e, s') \<and> store_get_event (event_repository s') (ev_id e) = Some e
       \<and> event_inbox s' = event_inbox s @ [e] \<and> stores s' = stores s
       \<and> (\<exists>st. dict_get (event_lifecycle_states s') (ev_id e) = Some st \<and> els_status st = EV_PENDING)"
proof (cases "store_get_event (event_repository s) (ev_id e)")
  case None
  then have "find_first (\<lambda>x. ev_id x = ev_id e) (event_repository s @ [e]) = Some e"
    by (simp add: store_get_event_def find_first_append) (simp add: find_first_def)
  with None show ?thesis
    by (simp add: accept_event_def bnd_def mk_event_lifecycle_state_def require_utc_updated_at_def is_utc_aware
        event_transition_def event_valid_transitions_def store_append_def store_get_event_def inbox_enqueue_def stores_def)
qed (simp add: accept_event_def bnd_def)

text \<open>An event is planned at most once: when its processing has reached PROCESSED, every further attempt raises
  \<open>EventLifecycleConflictError\<close> and changes nothing, whatever the classifier, resolver and planner are.\<close>

theorem processed_event_is_final:
  assumes "store_get_event (event_repository s) i = Some e"
    and "dict_get (event_lifecycle_states s) i = Some st" and "els_status st \<in> {EV_ACCEPTED, EV_PROCESSING, EV_PROCESSED}"
  shows "\<exists>m. process_event ew c pc aid i route s = (Inl (EventLifecycleConflictError m), s)"
  using assms by (auto simp: process_event_def bnd_def try_except_def event_transition_def event_valid_transitions_def)

theorem processed_event_is_final_witness:
  "\<exists>m. process_event base_workflow sample_clock (\<lambda>_. sample_clock) 3 5 None (sample_events EV_PROCESSED)
     = (Inl (EventLifecycleConflictError m), sample_events EV_PROCESSED)"
  by (rule processed_event_is_final, simp, simp) simp

text \<open>A pending or failed event whose pipeline works ends PROCESSED, leaves the inbox and goes on to planning.\<close>

lemma process_event_planned:
  assumes "store_get_event (event_repository s) i = Some e"
    and "dict_get (event_lifecycle_states s) i = Some st" "els_status st \<in> {EV_PENDING, EV_FAILED}"
    and "pipeline_process (ew_classify ew) (ew_resolve ew) e route = Inr pe"
  shows "\<exists>s2 st2. process_event ew c pc aid i route s = plan_and_queue ew (shift_clock 3 c) pc aid pe s2
    \<and> dict_get (event_lifecycle_states s2) i = Some st2 \<and> els_status st2 = EV_PROCESSED \<and> core s2 = core s
    \<and> event_inbox s2 = snd (inbox_mark_processed i (event_inbox s)) \<and> event_repository s2 = event_repository s"
proof -
  define p where "p = st\<lparr>els_status := EV_PROCESSING, els_reason := None, els_updated_at := now_utc c 1\<rparr>"
  define d where "d = st\<lparr>els_status := EV_PROCESSED, els_reason := None, els_updated_at := now_utc c 2\<rparr>"
  have trans: "event_transition st EV_PROCESSING None (now_utc c 1) = Inr p"
    "event_transition p EV_PROCESSED None (now_utc c 2) = Inr d"
    using assms(3) by (auto simp: event_transition_def event_valid_transitions_def mk_event_lifecycle_state_def
      require_utc_updated_at_def is_utc_aware normalize_blank_reason_def p_def d_def)
  let ?s2 = "event_inbox_update (\<lambda>q. snd (inbox_mark_processed i q))
        (event_lifecycle_states_update (dict_set i d) (event_lifecycle_states_update (dict_set i p) s))"
  have "process_event ew c pc aid i route s = plan_and_queue ew (shift_clock 3 c) pc aid pe ?s2"
    using trans assms by (simp add: process_event_def bnd_def try_except_def comp_assoc)
  moreover have "els_status d = EV_PROCESSED" by (simp add: d_def)
  ultimately show ?thesis by (intro exI [of _ ?s2] exI [of _ d]) simp
qed

text \<open>C17. A failing pipeline can be replayed: when classification or context resolution raises, the event ends
  FAILED, stays in the inbox and in the store, nothing is planned or queued; and a later attempt with a working
  pipeline, on that state, is accepted by the lifecycle, ends PROCESSED and goes on to planning.\<close>

theorem failed_event_replay:
  assumes stored: "store_get_event (event_repository s) i = Some e"
    and state: "dict_get (event_lifecycle_states s) i = Some st" "els_status st \<in> {EV_PENDING, EV_FAILED}"
    and fails: "pipeline_process (ew_classify ew) (ew_resolve ew) e route = Inl x"
  shows "\<exists>s1 st1. process_event ew c pc aid i route s = (Inl (EventProcessingError ''event processing failed''), s1)
    \<and> dict_get (event_lifecycle_states s1) i = Some st1 \<and> els_status st1 = EV_FAILED
    \<and> event_inbox s1 = event_inbox s \<and> event_repository s1 = event_repository s \<and> core s1 = core s
    \<and> (\<forall>ew' c' pc' aid' pe. pipeline_process (ew_classify ew') (ew_resolve ew') e route = Inr pe \<longrightarrow>
         (\<exists>s2 st2. process_event ew' c' pc' aid' i route s1 = plan_and_queue ew' (shift_clock 3 c') pc' aid' pe s2
           \<and> dict_get (event_lifecycle_states s2) i = Some st2 \<and> els_status st2 = EV_PROCESSED \<and> core s2 = core s
           \<and> event_inbox s2 = snd (inbox_mark_processed i (event_inbox s))))"
proof -
  define p where "p = st\<lparr>els_status := EV_PROCESSING, els_reason := None, els_updated_at := now_utc c 1\<rparr>"
  define f where "f = st\<lparr>els_status := EV_FAILED, els_reason := normalize_blank_reason (Some (exc_message x)),
      els_updated_at := now_utc c 2\<rparr>"
  have p: "event_transition st EV_PROCESSING None (now_utc c 1) = Inr p"
    "event_transition p EV_FAILED (Some (exc_message x)) (now_utc c 2) = Inr f"
    using state(2) by (auto simp: event_transition_def event_valid_transitions_def mk_event_lifecycle_state_def
        require_utc_updated_at_def is_utc_aware normalize_blank_reason_def p_def f_def)
  let ?s1 = "event_lifecycle_states_update (dict_set i f) (event_lifecycle_states_update (dict_set i p) s)"
  have run: "process_event ew c pc aid i route s = (Inl (EventProcessingError ''event processing failed''), ?s1)"
    using stored state(1) fails p by (simp add: process_event_def bnd_def try_except_def)
  have "els_status f = EV_FAILED" by (simp add: f_def)
  moreover have "\<exists>s2 st2. process_event ew' c' pc' aid' i route ?s1 = plan_and_queue ew' (shift_clock 3 c') pc' aid' pe s2
      \<and> dict_get (event_lifecycle_states s2) i = Some st2 \<and> els_status st2 = EV_PROCESSED \<and> core s2 = core s
      \<and> event_inbox s2 = snd (inbox_mark_processed i (event_inbox s))"
    if "pipeline_process (ew_classify ew') (ew_resolve ew') e route = Inr pe" for ew' c' pc' aid' pe
    using process_event_planned [of ?s1 i e f ew' route pe c' pc' aid'] stored that \<open>els_status f = EV_FAILED\<close> by auto
  ultimately show ?thesis using run by (intro exI [of _ ?s1] exI [of _ f]) simp
qed


theorem failed_event_replay_witness:
  "\<exists>s1 st1. process_event (base_workflow\<lparr>ew_classify := \<lambda>_. Inl (ValueError ''down'')\<rparr>) sample_clock (\<lambda>_. sample_clock) 3 5 None
      (sample_events EV_PENDING) = (Inl (EventProcessingError ''event processing failed''), s1)
    \<and> dict_get (event_lifecycle_states s1) 5 = Some st1 \<and> els_status st1 = EV_FAILED"
  using failed_event_replay [where s = "sample_events EV_PENDING" and i = 5 and e = sample_event and route = None
      and ew = "base_workflow\<lparr>ew_classify := \<lambda>_. Inl (ValueError ''down'')\<rparr>" and x = "ValueError ''down''"
      and c = sample_clock and pc = "\<lambda>_. sample_clock" and aid = 3]
  by (simp add: pipeline_process_def) blast

end
