(* ===== verification/Run_Properties.thy ===== *)
theory Run_Properties
  imports Service_Properties
begin

text \<open>
  The properties of the run repository: the row codec, the refinement of the in-memory repository by the
  SQLite one, and the claim protocol on SQLite for arbitrary sequences of calls, failing ones included.
\<close>

section \<open>Representation\<close>

text \<open>C18. Row round trip: reading back the row that holds a run state whose times are timezone-aware gives the state,
  all thirty fields of it.\<close>

theorem run_state_row_roundtrip:
  assumes "storable st"
  shows "state_from_row (encode_state st) = Inr st"
  using assms by (rule state_from_encode)

definition sample_run :: "SoftwareEngineeringApprovalStatus option \<Rightarrow> uuid option \<Rightarrow> run_state" where
  "sample_run appr claim = (mk_run_state 9 ''software_engineering'' SOFTWARE_ENGINEERING_IMPLEMENT_CAPABILITY ''repo'' None
     (Some ''fix it'') appr sample_time sample_time)\<lparr>rs_claim_id := claim\<rparr>"

theorem run_state_row_roundtrip_witness:
  "state_from_row (encode_state (sample_run (Some SE_APPROVED) (Some 3))) = Inr (sample_run (Some SE_APPROVED) (Some 3))"
  by (rule run_state_row_roundtrip) (simp add: sample_run_def mk_run_state_def storable_def storable_time_def)

text \<open>C6. SQLite refines the in-memory repository: every call keeps the database well-formed and either has exactly
  the reply and the effect of the in-memory repository, or raises with that effect or none (a transaction can
  fail before or after it commits). On a database that stays available the two agree, error replies included,
  except for the guarded updates whose failure SQLite reports with one message.\<close>

theorem sqlite_refines_memory:
  assumes "db_inv db" "call_valid call" "exec_call sqlite_ops call db = (res, db')"
  shows "db_inv db'
    \<and> (exec_call mem_ops call (db_abs db) = (res, db_abs db') \<or>
       (\<exists>e. res = Inl e) \<and> (db_abs db' = db_abs db \<or> db_abs db' = snd (exec_call mem_ops call (db_abs db))))
    \<and> (exact_call call \<and> healthy db \<longrightarrow> exec_call mem_ops call (db_abs db) = (res, db_abs db'))"
  using call_outcome [OF assms] by blast

text \<open>What the in-memory repository answers on the abstraction, an available database answers.\<close>

lemma sq_from_mem:
  assumes "db_inv db" "healthy db" "exact_call call" "call_valid call" "exec_call mem_ops call (db_abs db) = (res, m')"
  obtains db' where "exec_call sqlite_ops call db = (res, db')" "db_abs db' = m'" "db_inv db'" "healthy db'"
proof -
  obtain r db' where run: "exec_call sqlite_ops call db = (r, db')" by fastforce
  note o = call_outcome [OF assms(1,4) run]
  have "exec_call mem_ops call (db_abs db) = (r, db_abs db')" using o(3) assms(2,3) by blast
  with run o(1,2) assms(2,5) that show thesis by auto
qed

definition register_call :: run_call where
  "register_call = RegisterAction sample_clock 9 ''repo'' ''software_engineering'' SOFTWARE_ENGINEERING_IMPLEMENT_CAPABILITY
     None (Some ''fix it'') (Some SE_APPROVED)"

definition claim_call :: run_call where
  "claim_call = ClaimApproved sample_clock 3 9"

lemma sample_calls [simp]: "exact_call register_call" "call_valid register_call" "exact_call claim_call" "call_valid claim_call"
  by (simp_all add: register_call_def claim_call_def)

lemma fix_it: "str_strip ''fix it'' = ''fix it''" "\<not> str_blank ''fix it''"
  by code_simp+

lemma abs_empty [simp]: "db_abs empty_db = []"
  by (simp add: db_abs_def empty_db_def)

lemma register_mem: "exec_call mem_ops register_call [] =
    (Inr (RState (sample_run (Some SE_APPROVED) None)), [(9, sample_run (Some SE_APPROVED) None)])"
  by (simp add: register_call_def mem_register_action_eq bnd_def normalize_objective_def fix_it sample_run_def
      mk_run_state_def Let_def)

theorem sqlite_refines_memory_witness:
  "fst (exec_call sqlite_ops register_call empty_db) = Inr (RState (sample_run (Some SE_APPROVED) None))"
  using sqlite_refines_memory [of empty_db register_call, OF _ _ surjective_pairing] register_mem
  by (auto dest: arg_cong [of _ _ fst])

section \<open>The claim protocol on SQLite\<close>

text \<open>C4. A durable claim is exclusive: after a claim has returned, and until the claim is released, no claim of the
  action returns, whatever calls of the repository come between and however they end.\<close>

theorem sqlite_claim_exclusive:
  assumes "db_inv db" "valid_clock c" "exec_call sqlite_ops (ClaimApproved c k i) db = (Inr x, db1)"
    and "list_all call_valid calls" "\<forall>call\<in>set calls. \<not> is_release i call" "valid_clock c'"
    and "exec_call sqlite_ops (ClaimApproved c' k' i) (run_calls sqlite_ops calls db1) = (res, db2)"
  shows "\<exists>e. res = Inl e"
  using assms by (rule sq.claim_exclusive)

lemma claim_mem: "exec_call mem_ops claim_call [(9, sample_run (Some SE_APPROVED) None)] =
   (Inr (RClaim \<lparr>ac_action_id = 9, ac_claim_id = 3, ac_target = ''repo'', ac_objective = ''fix it'', ac_claimed_at = sample_time\<rparr>),
    [(9, (sample_run (Some SE_APPROVED) (Some 3))\<lparr>rs_claimed_at := Some sample_time\<rparr>)])"
  by (simp add: claim_call_def mem_claim_approved_eq bnd_def claimable_def sample_run_def mk_run_state_def
      normalize_required_objective_def normalize_objective_def fix_it rbind_def guard_exc_def)

definition claimed_run :: run_state where
  "claimed_run = (sample_run (Some SE_APPROVED) (Some 3))\<lparr>rs_claimed_at := Some sample_time\<rparr>"

lemma claimed_db:
  obtains db x db1 where "db_inv db" "exec_call sqlite_ops (ClaimApproved sample_clock 3 9) db = (Inr x, db1)"
    "db_abs db1 = [(9, claimed_run)]" "db_inv db1" "healthy db1"
proof -
  obtain db where db: "db_abs db = [(9, sample_run (Some SE_APPROVED) None)]" "db_inv db" "healthy db"
    by (rule sq_from_mem [of empty_db register_call]) (use register_mem in simp_all)
  show thesis
    by (rule sq_from_mem [OF db(2,3), of claim_call])
       (use db claim_mem that in \<open>simp_all add: claim_call_def claimed_run_def\<close>)
qed

theorem sqlite_claim_exclusive_witness:
  "\<exists>db db1 x. exec_call sqlite_ops (ClaimApproved sample_clock 3 9) db = (Inr x, db1) \<and>
     isl (fst (exec_call sqlite_ops (ClaimApproved sample_clock 4 9) db1))"
proof (rule claimed_db)
  fix db x db1
  assume a: "db_inv db" "exec_call sqlite_ops (ClaimApproved sample_clock 3 9) db = (Inr x, db1)"
  have "\<exists>e. fst (exec_call sqlite_ops (ClaimApproved sample_clock 4 9) db1) = Inl e"
    by (rule sqlite_claim_exclusive [OF a(1) _ a(2), of "[]" sample_clock 4 _ "snd (exec_call sqlite_ops (ClaimApproved sample_clock 4 9) db1)"])
       (simp_all add: run_calls_def)
  then have "isl (fst (exec_call sqlite_ops (ClaimApproved sample_clock 4 9) db1))" by (metis sum.disc(1))
  with a(2) show ?thesis by blast
qed

text \<open>C5. At most one execution: once the start of an execution has been recorded, no claim of the action ever returns
  again, whatever calls follow, releases and abandonments included.\<close>

theorem sqlite_started_never_reclaimed:
  assumes "db_inv db" "valid_clock c" "valid_datetime t"
    and "exec_call sqlite_ops (RecordExecutionStarted c i t) db = (Inr x, db1)"
    and "list_all call_valid calls" "valid_clock c'"
    and "exec_call sqlite_ops (ClaimApproved c' k' i) (run_calls sqlite_ops calls db1) = (res, db2)"
  shows "\<exists>e. res = Inl e"
  using assms by (rule sq.started_never_reclaimed)

theorem sqlite_started_never_reclaimed_witness:
  "\<exists>db db1 x. exec_call sqlite_ops (RecordExecutionStarted sample_clock 9 sample_time) db = (Inr x, db1) \<and>
     isl (fst (exec_call sqlite_ops (ClaimApproved sample_clock 4 9)
        (run_calls sqlite_ops [AbandonStartedClaim 9 sample_time sample_time] db1)))"
proof (rule claimed_db)
  fix db0 x0 db
  assume db: "db_abs db = [(9, claimed_run)]" "db_inv db" "healthy db"
  obtain st m where "exec_call mem_ops (RecordExecutionStarted sample_clock 9 sample_time) [(9, claimed_run)] = (Inr (RState st), m)"
    by (simp add: mem_edits mem_edit_eq edit_started_def claimed_run_def sample_run_def mk_run_state_def bnd_def
        require_aware_def rbind_def guard_exc_def)
  then obtain db1 where a: "exec_call sqlite_ops (RecordExecutionStarted sample_clock 9 sample_time) db = (Inr (RState st), db1)"
    by (rule sq_from_mem [OF db(2,3), of "RecordExecutionStarted sample_clock 9 sample_time", unfolded db(1), rotated 2]) simp_all
  let ?r = "exec_call sqlite_ops (ClaimApproved sample_clock 4 9)
        (run_calls sqlite_ops [AbandonStartedClaim 9 sample_time sample_time] db1)"
  have "\<exists>e. fst ?r = Inl e"
    by (rule sqlite_started_never_reclaimed [OF db(2) _ _ a, of "[AbandonStartedClaim 9 sample_time sample_time]" sample_clock 4 _ "snd ?r"])
       simp_all
  then have "isl (fst ?r)" by (metis sum.disc(1))
  with a show ?thesis by blast
qed

text \<open>An execution result is final: after it has been recorded, the action can neither be claimed nor rejected,
  whatever calls come between.\<close>

theorem sqlite_executed_is_final:
  assumes "db_inv db" "valid_clock c" "valid_datetime t"
    and "exec_call sqlite_ops (RecordExecution c i s t p) db = (Inr x, db1)" "list_all call_valid calls"
    and "call = ClaimApproved c' k' i \<or> call = RecordRejection c' i t'" "call_valid call"
    and "exec_call sqlite_ops call (run_calls sqlite_ops calls db1) = (res, db2)"
  shows "\<exists>e. res = Inl e"
  using assms by (rule sq.executed_is_final)

theorem sqlite_executed_is_final_witness:
  "\<exists>db db1 x. exec_call sqlite_ops (RecordExecution sample_clock 9 ''succeeded'' sample_time True) db = (Inr x, db1) \<and>
     isl (fst (exec_call sqlite_ops (RecordRejection sample_clock 9 sample_time) db1))"
proof (rule claimed_db)
  fix db0 x0 db
  assume db: "db_abs db = [(9, claimed_run)]" "db_inv db" "healthy db"
  let ?c = "RecordExecution sample_clock 9 ''succeeded'' sample_time True"
  obtain st m where "exec_call mem_ops ?c [(9, claimed_run)] = (Inr (RState st), m)"
    by (simp add: mem_edits mem_edit_eq edit_execution_def bnd_def require_aware_def rbind_def)
  then obtain db1 where a: "exec_call sqlite_ops ?c db = (Inr (RState st), db1)"
    by (rule sq_from_mem [OF db(2,3), of ?c, unfolded db(1), rotated 2]) simp_all
  let ?r = "exec_call sqlite_ops (RecordRejection sample_clock 9 sample_time) db1"
  have "\<exists>e. fst ?r = Inl e"
    by (rule sqlite_executed_is_final [OF db(2) _ _ a, of "[]" "RecordRejection sample_clock 9 sample_time" sample_clock 0 sample_time
          _ "snd ?r"]) (simp_all add: run_calls_def)
  then have "isl (fst ?r)" by (metis sum.disc(1))
  with a show ?thesis by blast
qed

text \<open>No claim without an approval: when a claim of an action that the repository did not know at first returns,
  one of the calls before it recorded the approval, or registered the action as approved.\<close>

theorem sqlite_claim_needs_approval:
  assumes "db_inv db" "sq_view db i = None" "list_all call_valid calls" "valid_clock c"
    and "exec_call sqlite_ops (ClaimApproved c k i) (run_calls sqlite_ops calls db) = (Inr x, db')"
  shows "\<exists>call\<in>set calls. approves i call"
  using assms by (rule sq.claim_needs_approval)

theorem sqlite_claim_needs_approval_witness:
  "\<exists>db' x. exec_call sqlite_ops (ClaimApproved sample_clock 3 9) (run_calls sqlite_ops [register_call] empty_db) = (Inr x, db')
     \<and> (\<exists>call\<in>set [register_call]. approves 9 call)"
proof -
  obtain db where db: "exec_call sqlite_ops register_call empty_db = (Inr (RState (sample_run (Some SE_APPROVED) None)), db)"
    "db_abs db = [(9, sample_run (Some SE_APPROVED) None)]" "db_inv db" "healthy db"
    by (rule sq_from_mem [of empty_db register_call]) (use register_mem in simp_all)
  obtain x db' where c: "exec_call sqlite_ops claim_call db = (Inr x, db')"
    by (rule sq_from_mem [OF db(3,4), of claim_call]) (use db(2) claim_mem in simp_all)
  have r: "run_calls sqlite_ops [register_call] empty_db = db" using db(1) by (simp add: run_calls_def)
  note c' = c [unfolded claim_call_def, folded r]
  have "\<exists>call\<in>set [register_call]. approves 9 call"
    by (rule sqlite_claim_needs_approval [OF _ _ _ _ c']) simp_all
  with c' show ?thesis by blast
qed

end
