(* ===== verification/Continuation_Properties.thy ===== *)
theory Continuation_Properties
  imports Run_Properties
begin

text \<open>
  What the continuation of an approved task does with the durable claim: it needs a free one and keeps it, for every
  repository that keeps the contract, and the consequence for queued actions whose objective is padded.
\<close>

section \<open>The claim of a continuation\<close>

lemma mk_action_payload: "mk_action i ty tgt payload role created md = Inr a \<Longrightarrow> act_payload a = payload"
  by (auto simp: mk_action_def rbind_def split: sum.splits)

context run_repository
begin

text \<open>A repository that is never asked to release a claim keeps the claim it has. The worker runtime does not
  release claims, so its operations can be read over such a repository.\<close>

lemma without_release:
  "SE_Runs.run_repository (ops\<lparr>run_release_unstarted_claim := \<lambda>_ _ _. raise_exc err\<rparr>) view (\<lambda>r. inv r \<and> claimed (view r i))"
proof
  fix r res r' and call :: run_call
  assume r: "inv r \<and> claimed (view r i)" and valid: "call_valid call"
    and run: "exec_call (ops\<lparr>run_release_unstarted_claim := \<lambda>_ _ _. raise_exc err\<rparr>) call r = (res, r')"
  show "(inv r' \<and> claimed (view r' i)) \<and> run_effect call (view r) res (view r')"
  proof (cases "\<exists>j e t. call = ReleaseUnstartedClaim j e t")
    case True
    with run r show ?thesis by (auto simp: bnd_def run_effect_def)
  next
    case False
    then have "exec_call ops call r = (res, r')" using run by (cases call) simp_all
    moreover have "\<not> is_release i call" using False by (cases call) auto
    ultimately show ?thesis
      using call_law [OF _ valid, of r res r'] r applies_claimed by (auto elim!: run_effect_cases)
  qed
next
  fix r got r' j assume "inv r \<and> claimed (view r i)"
    and "run_get (ops\<lparr>run_release_unstarted_claim := \<lambda>_ _ _. raise_exc err\<rparr>) j r = (got, r')"
  then show "(inv r' \<and> claimed (view r' i)) \<and> view r' = view r \<and> (\<forall>x. got = Inr x \<longrightarrow> x = view r j)"
    using get_law [of r j got r'] by simp
next
  fix r listed r' assume "inv r \<and> claimed (view r i)"
    and "run_list_pending (ops\<lparr>run_release_unstarted_claim := \<lambda>_ _ _. raise_exc err\<rparr>) r = (listed, r')"
  then show "(inv r' \<and> claimed (view r' i)) \<and> view r' = view r
      \<and> (\<forall>xs. listed = Inr xs \<longrightarrow> set xs = {st. \<exists>i. view r i = Some st \<and> pending_approval st})"
    using pending_law [of r listed r'] by simp
next
  fix r j st t assume "inv r \<and> claimed (view r i)" "view r j = Some st" "rs_updated_at st = Some t"
  then show "valid_datetime t" using view_updated by blast
qed (use view_id in blast)

lemma runtime_without_release:
  "durable_runtime (ops\<lparr>run_release_unstarted_claim := f\<rparr>) reg run n dump = durable_runtime ops reg run n dump"
proof -
  let ?ops = "ops\<lparr>run_release_unstarted_claim := f\<rparr>"
  have sel: "run_register_action ?ops = run_register_action ops" "run_record_execution ?ops = run_record_execution ops"
    "run_record_execution_started ?ops = run_record_execution_started ops"
    by simp_all
  have "durable_observer_start ?ops = durable_observer_start ops" "durable_observer_finish ?ops = durable_observer_finish ops"
    unfolding fun_eq_iff durable_observer_start_def durable_observer_finish_def sel by simp_all
  then show ?thesis by (simp add: durable_runtime_def)
qed

lemma process_action_claimed:
  assumes "inv (run_repository s)" "claimed (view (run_repository s) i)" "valid_inputs inp"
    and "process_action (durable_runtime ops reg run n dump) inp j s = (r, s')"
  shows "inv (run_repository s') \<and> claimed (view (run_repository s') i)"
proof -
  have "keeps (runs_ok view (\<lambda>r. inv r \<and> claimed (view r i)) UNIV) (process_action (durable_runtime ops reg run n dump) inp j)"
    using run_repository.process_keeps(2) [OF without_release [of "KeyError []"] assms(3), of i UNIV]
    unfolding runtime_without_release .
  from keepsD [OF this assms(4)] assms(1,2) show ?thesis by (simp add: runs_ok_def run_inv_def)
qed

lemma claim_for_continuation_effect:
  assumes ok: "inv (run_repository s)" and c: "valid_clock c"
    and cl: "claim_for_continuation ops c k i s = (r, s')"
  shows "inv (run_repository s')"
    and "r = Inr a \<Longrightarrow> \<not> claimed (view (run_repository s) i) \<and> claimed (view (run_repository s') i)
       \<and> (\<exists>obj. pd_get (act_payload a) ''objective'' = PStr obj \<and> str_strip obj = obj)"
proof -
  have "runs_ok view inv UNIV s" using ok by (simp add: runs_ok_def run_inv_def)
  from keepsD [OF claim_keeps [OF c] cl this] show i: "inv (run_repository s')"
    by (simp add: runs_ok_def run_inv_def)
  have taken: "\<not> claimed (view (run_repository s) i) \<and> claimed (view (run_repository s') i)
       \<and> (\<exists>obj. pd_get (act_payload a) ''objective'' = PStr obj \<and> str_strip obj = obj)" if r: "r = Inr a" for a
  proof -
    have rc: "recovery_claim ops c k i s = (Inr a, s')"
      using cl r by (auto simp: claim_for_continuation_def try_except_def split: prod.splits sum.splits exc.splits)
    then obtain found s1 where got: "on_runs (run_get ops i) s = (Inr found, s1)"
      by (auto simp: recovery_claim_def bnd_eq_Inr run_state_error_Inr)
    with rc obtain claim where claim: "on_runs (run_claim_approved ops c k i) s1 = (Inr claim, s')"
      and a: "act_payload a = canonical_payload (ac_objective claim)"
      by (cases found) (auto simp: recovery_claim_def bnd_eq_Inr run_state_error_Inr dest: mk_action_payload)
    have s1: "inv (run_repository s1)" "view (run_repository s1) = view (run_repository s)"
      using got get_law [OF ok] by (auto simp: on_runs_Inr)
    from claim have "exec_call ops (ClaimApproved c k i) (run_repository s1) = (Inr (RClaim claim), run_repository s')"
      by (auto simp: on_runs_Inr bnd_def)
    then obtain st where ap: "applies (ClaimApproved c k i) (view (run_repository s1)) st (view (run_repository s'))"
      "reply_matches (ClaimApproved c k i) st (RClaim claim)"
      using call_applies [OF s1(1)] c by (metis call_valid.simps(4))
    have "str_strip (ac_objective claim) = ac_objective claim"
      using ap(2) by (auto simp: normalize_required_objective_def normalize_objective_def rbind_def
          split: option.splits if_splits) (metis str_strip_idem)
    with applies_claim [OF ap(1)] s1(2) show ?thesis by (auto simp: a canonical_payload_def pd_get_def)
  qed
  then show "r = Inr a \<Longrightarrow> \<not> claimed (view (run_repository s) i) \<and> claimed (view (run_repository s') i)
       \<and> (\<exists>obj. pd_get (act_payload a) ''objective'' = PStr obj \<and> str_strip obj = obj)" .
qed

end

context run_repository
begin

lemma continuation_claim:
  assumes ok: "inv (run_repository s)" and c: "valid_clock c" and inp: "valid_inputs inp"
    and run: "continuation_execute ops (durable_runtime ops reg run n dump) rv c k inp i s = (r, s')"
  shows "(\<forall>x. r = Inr x \<longrightarrow> \<not> claimed (view (run_repository s) i) \<and> claimed (view (run_repository s') i))
    \<and> (claimed (view (run_repository s) i) \<longrightarrow> (\<exists>e. r = Inl e) \<and> stores s' = stores s \<and> execution_log s' = execution_log s)"
  using run
proof (cases rule: continuation_cases)
  case (unclaimed e)
  with preservesD [OF claim_beside] show ?thesis by (fastforce simp: beside_world_def)
next
  case (conflict e a)
  with claim_for_continuation_effect(2) [OF ok c conflict(2)] show ?thesis by blast
next
  case (runs a s1 s2 q s3)
  note claim = claim_for_continuation_effect [OF ok c runs(1)]
  have "run_repository s2 = run_repository s1" using runs(2) by auto
  with process_action_claimed [OF _ _ inp runs(3), of i] claim(1) claim(2) [OF refl] runs(5)
  show ?thesis by simp
qed auto

lemma padded_objective_conflict:
  assumes ok: "inv (run_repository s)" and c: "valid_clock c"
    and q: "queue_get i (action_queue s) = Some q" "is_canonical_action q"
    and obj: "pd_get (act_payload q) ''objective'' = PStr obj" "str_strip obj \<noteq> obj"
    and lc: "lifecycle_of s i = None \<or> (\<exists>st. lifecycle_of s i = Some st \<and> als_status st \<in> {QUEUED, APPROVED})"
    and cl: "claim_for_continuation ops c k i s = (Inr a, s')"
  shows "continuation_execute ops rt rv c k inp i s =
    (Inl (SoftwareEngineeringContinuationRouteError ''queued Action conflicts with durable Software Engineering identity''), s')"
proof -
  have "pd_get (act_payload a) ''objective'' \<noteq> PStr obj"
    using claim_for_continuation_effect(2) [OF ok c cl refl] obj(2) by auto
  with q lc cl obj(1) show ?thesis
    by (auto simp: continuation_execute_def bnd_def require_canonical_action_def guard_exc_def)
qed

end

section \<open>Continuations on SQLite\<close>

text \<open>C11. One continuation per claim: a continuation that returns has taken a durable claim that was free, and the action
  is still claimed when it returns; while the action is claimed, every continuation raises and leaves queue, lifecycle
  states, pending approvals and the record of executions as they were. The local stores of the process are arbitrary:
  this holds across restarts.\<close>

theorem continuation_once:
  assumes "db_inv (run_repository s)" "valid_clock c" "valid_inputs inp"
    and "continuation_execute sqlite_ops (durable_runtime sqlite_ops reg run n dump) rv c k inp i s = (r, s')"
  shows "(\<forall>x. r = Inr x \<longrightarrow> \<not> claimed (sq_view (run_repository s) i) \<and> claimed (sq_view (run_repository s') i))
    \<and> (claimed (sq_view (run_repository s) i) \<longrightarrow> (\<exists>e. r = Inl e) \<and> stores s' = stores s \<and> execution_log s' = execution_log s)"
  using assms by (rule sq.continuation_claim)

text \<open>A queued action whose objective has leading or trailing white space cannot be continued: the durable objective is
  stripped, the queued one is not, and the comparison of the two fails after the claim has been taken.\<close>

lemma padded_objective_never_continues:
  assumes "db_inv (run_repository s)" "valid_clock c"
    and "queue_get i (action_queue s) = Some q" "is_canonical_action q"
    and "pd_get (act_payload q) ''objective'' = PStr obj" "str_strip obj \<noteq> obj"
    and "lifecycle_of s i = None \<or> (\<exists>st. lifecycle_of s i = Some st \<and> als_status st \<in> {QUEUED, APPROVED})"
    and "claim_for_continuation sqlite_ops c k i s = (Inr a, s')"
  shows "continuation_execute sqlite_ops rt rv c k inp i s =
    (Inl (SoftwareEngineeringContinuationRouteError ''queued Action conflicts with durable Software Engineering identity''), s')
    \<and> claimed (sq_view (run_repository s') i)"
  using sq.padded_objective_conflict [OF assms] sq.claim_for_continuation_effect(2) [OF assms(1,2,8) refl] by blast

theorem continuation_once_witness:
  "\<exists>db r s'. claimed (sq_view db 9) \<and>
     continuation_execute sqlite_ops (durable_runtime sqlite_ops (empty_registry ()) counting_run 3 (\<lambda>_. PNone)) None
       sample_clock 4 sample_inputs 9 ((sample_server [] [] [])\<lparr>run_repository := db\<rparr>) = (r, s') \<and>
     isl r \<and> execution_log s' = []"
proof (rule claimed_db)
  fix db x db1
  assume db1: "db_abs db1 = [(9, claimed_run)]" "db_inv db1"
  let ?s = "(sample_server [] [] [])\<lparr>run_repository := db1\<rparr>"
  obtain r s' where run: "continuation_execute sqlite_ops (durable_runtime sqlite_ops (empty_registry ()) counting_run 3 (\<lambda>_. PNone)) None
       sample_clock 4 sample_inputs 9 ?s = (r, s')" by fastforce
  have "claimed (sq_view (run_repository ?s) 9)"
    by (simp add: sq_view_def mem_view_def db1 claimed_def claimed_run_def sample_run_def)
  moreover have "execution_log ?s = []" by (simp add: execution_log_def sample_server_def)
  ultimately show ?thesis
    using continuation_once [OF _ _ _ run] db1(2) run by (intro exI [of _ db1] exI [of _ r] exI [of _ s']) (auto simp: valid_inputs_def sample_inputs_def)
qed

end
