(* ===== verification/Promotion_Properties.thy ===== *)
theory Promotion_Properties
  imports SE_Promotion Run_Properties
begin

text \<open>
  What a promotion promises: git and GitHub are reached only for a kept and successful work product, a result is
  the durable record of the promotion, and a recorded promotion is never carried out again.
\<close>

section \<open>Facts about the service\<close>

text \<open>The work product has been explicitly kept after a successful execution on the canonical route.\<close>

definition kept_success :: "run_state \<Rightarrow> bool" where
  "kept_success st \<longleftrightarrow> rs_executor_role st = ''software_engineering''
     \<and> rs_capability st = SOFTWARE_ENGINEERING_IMPLEMENT_CAPABILITY
     \<and> rs_execution_status st = Some ''succeeded'' \<and> rs_execution_finished_at st \<noteq> None
     \<and> rs_disposition st = Some KEEP \<and> rs_disposition_succeeded st = Some True
     \<and> rs_worktree_present st = Some True \<and> rs_branch_present st = Some True
     \<and> rs_canonical_unchanged st = Some True"

lemma promotable_Inr: "promotable st = Inr x \<longleftrightarrow> kept_success st \<and> x = st"
  by (auto simp: promotable_def kept_success_def canonical_state_def)

definition promotion_fields :: "run_state \<Rightarrow> string option \<times> int option \<times> string option \<times> string option \<times> string option" where
  "promotion_fields st = (rs_promotion_commit_sha st, rs_pull_request_number st, rs_pull_request_url st,
     rs_promotion_base_branch st, rs_promotion_head_branch st)"

definition result_fields :: "promotion_result \<Rightarrow> string option \<times> int option \<times> string option \<times> string option \<times> string option" where
  "result_fields r = (Some (spr_commit_sha r), Some (spr_pull_request_number r), Some (spr_pull_request_url r),
     Some (spr_base_branch r), Some (spr_head_branch r))"

text \<open>The durable record of the promotion \<open>r\<close> of the action \<open>i\<close>.\<close>

definition holds_promotion :: "promotion_result \<Rightarrow> run_state option \<Rightarrow> bool" where
  "holds_promotion r found \<longleftrightarrow>
     (\<exists>st. found = Some st \<and> promotion_fields st = result_fields r \<and> rs_promotion_finished_at st \<noteq> None)"

fun is_promotion :: "uuid \<Rightarrow> run_call \<Rightarrow> bool" where
  "is_promotion i (RecordPromotion c j sha n url base head t) = (j = i)"
| "is_promotion i call = False"

lemma call_edit_promotion_kept:
  "call_edit call s = Inr s' \<Longrightarrow> \<not> is_promotion (call_action call) call \<Longrightarrow>
     promotion_fields s' = promotion_fields s \<and> rs_promotion_finished_at s' = rs_promotion_finished_at s"
  by (cases call) (auto simp: edit_facts promotion_fields_def)

lemma applies_holds_promotion:
  "applies call v st v' \<Longrightarrow> holds_promotion r (v i) \<Longrightarrow> \<not> is_promotion i call \<Longrightarrow> holds_promotion r (v' i)"
  by (erule applies_kept) (auto simp: holds_promotion_def dest: call_edit_promotion_kept)

lemma applies_promotion:
  "applies (RecordPromotion c i sha n url base head t) v st v' \<Longrightarrow>
     v' i = Some st \<and> promotion_fields st = (Some sha, Some n, Some url, Some base, Some head)
     \<and> rs_promotion_finished_at st = Some t"
  by (cases "v i") (auto simp: applies_def call_result_def edit_facts promotion_fields_def)

lemma push_and_publish_branches:
  "push_and_publish h ps ws publish repo branch sha title body g = (Inr p, g') \<Longrightarrow>
     prp_base_branch p = ps_base_branch ps \<and> prp_head_branch p = branch"
  by (auto simp: push_and_publish_def bnd_eq_Inr split: if_splits)

lemma promote_work_branches:
  "promote_work h ps ws review publish i title body g = (Inr (sha, p), g') \<Longrightarrow>
     prp_base_branch p = ps_base_branch ps \<and> prp_head_branch p = iw_branch (expected_worktree ws i)"
  by (auto simp: promote_work_def bnd_eq_Inr Let_def split: if_splits dest!: push_and_publish_branches)

lemma promotion_started_iff:
  "promotion_started st \<longleftrightarrow> promotion_fields st \<noteq> (None, None, None, None, None) \<or> rs_promotion_finished_at st \<noteq> None"
  by (auto simp: promotion_started_def promotion_fields_def)

lemma holds_recorded:
  "holds_promotion r (Some st) \<Longrightarrow> promotion_started st \<and>
     (\<forall>x. recorded_promotion base w i st = Inr x \<longrightarrow>
        x = r\<lparr>spr_action_id := i, spr_pull_request_created := False\<rparr>)"
  by (auto simp: holds_promotion_def promotion_started_def promotion_fields_def result_fields_def recorded_promotion_def
      split: if_splits)

lemma recorded_holds:
  "recorded_promotion base w i st = Inr r \<Longrightarrow>
     holds_promotion r (Some st) \<and> spr_action_id r = i \<and> spr_base_branch r = base \<and> spr_head_branch r = iw_branch w"
  by (auto simp: recorded_promotion_def promotion_complete_def holds_promotion_def promotion_fields_def result_fields_def
      split: if_splits)

lemma world_then:
  "bnd (on_world m) k s = (Inr x, s') \<longleftrightarrow>
     (\<exists>a g. m (execution_world s) = (Inr a, g) \<and> k a (s\<lparr>execution_world := g\<rparr>) = (Inr x, s'))"
  by (auto simp: bnd_eq_Inr on_world_def split: prod.splits)

lemma runs_then:
  "bnd (on_runs m) k s = (Inr x, s') \<longleftrightarrow>
     (\<exists>a r. m (run_repository s) = (Inr a, r) \<and> k a (s\<lparr>run_repository := r\<rparr>) = (Inr x, s'))"
  by (auto simp: bnd_eq_Inr on_runs_def split: prod.splits)

context run_repository
begin

lemma verify_action_cases:
  assumes "inv (run_repository s)" "verify_action ops i s = (res, s')"
  shows "inv (run_repository s') \<and> view (run_repository s') = view (run_repository s)
    \<and> execution_world s' = execution_world s
    \<and> (\<forall>st. res = Inr st \<longrightarrow> view (run_repository s) i = Some st \<and> kept_success st)"
proof -
  obtain got r where g: "run_get ops i (run_repository s) = (got, r)" by fastforce
  note law = get_law [OF assms(1) g]
  show ?thesis
    using assms(2) g law
    by (auto simp: verify_action_def bnd_def on_runs_def promotable_Inr split: sum.splits option.splits)
qed

text \<open>The two ways a promotion goes: without an effect, or by carrying it out for a kept work product.\<close>

lemma promote_cases:
  assumes "inv (run_repository s)" "promote ops h ps c i title body s = (res, s')"
  obtains (no_effect) "inv (run_repository s')" "view (run_repository s') = view (run_repository s)"
      "execution_world s' = execution_world s"
      "\<And>r. res = Inr r \<Longrightarrow> \<exists>st ws. ps_enabled ps \<and> view (run_repository s) i = Some st \<and> kept_success st \<and> ps_workspace ps = Some ws
         \<and> recorded_promotion (ps_base_branch ps) (expected_worktree ws i) i st = Inr r"
  | (work) st s1 ws review publish where "ps_enabled ps" "view (run_repository s) i = Some st" "kept_success st"
      "\<not> promotion_started st" "inv (run_repository s1)" "view (run_repository s1) = view (run_repository s)"
      "ps_workspace ps = Some ws" "ps_review ps = Some review" "ps_publisher ps = Some publish"
      "bnd (on_world (promote_work h ps ws review publish i title body)) (\<lambda>(commit_sha, publication).
              bnd (on_runs (run_record_promotion ops (shift_clock 1 c) i commit_sha (prp_number publication)
                     (prp_url publication) (prp_base_branch publication) (prp_head_branch publication)
                     (now_utc c 0))) (\<lambda>_.
              ret \<lparr>spr_action_id = i, spr_commit_sha = commit_sha,
                   spr_pull_request_number = prp_number publication, spr_pull_request_url = prp_url publication,
                   spr_base_branch = prp_base_branch publication, spr_head_branch = prp_head_branch publication,
                   spr_pull_request_created = prp_created publication\<rparr>)) s1 = (res, s')"
proof -
  obtain v s1 where v: "verify_action ops i s = (v, s1)" by fastforce
  note va = verify_action_cases [OF assms(1) v]
  consider (off) "\<not> ps_enabled ps" | (bad) e where "ps_enabled ps" "v = Inl e" | (ok) st where "ps_enabled ps" "v = Inr st"
    by (cases v) auto
  then show thesis
  proof cases
    case off
    then show thesis using assms by (intro no_effect) (auto simp: promote_def)
  next
    case bad
    then show thesis using assms v va by (intro no_effect) (auto simp: promote_def bnd_def)
  next
    case (ok st)
    note run = assms(2) [unfolded promote_def] 
    show thesis
    proof (cases "ps_workspace ps = None \<or> ps_review ps = None \<or> ps_publisher ps = None \<or> promotion_started st")
      case True
      then show thesis
        using run ok v va
        by (intro no_effect) (auto simp: bnd_def split: option.splits if_splits)
    next
      case False
      then obtain ws review publish where "ps_workspace ps = Some ws" "ps_review ps = Some review"
        "ps_publisher ps = Some publish" "\<not> promotion_started st" by auto
      with run ok v va show thesis
        by (intro work [of st s1 ws review publish]) (auto simp: bnd_def)
    qed
  qed
qed

lemma promote_result:
  assumes "inv (run_repository s)" "valid_clock c" "promote ops h ps c i title body s = (Inr r, s')"
  shows "inv (run_repository s') \<and> holds_promotion r (view (run_repository s') i) \<and> spr_action_id r = i
    \<and> spr_base_branch r = ps_base_branch ps
    \<and> (\<exists>ws. ps_workspace ps = Some ws \<and> spr_head_branch r = iw_branch (expected_worktree ws i))"
  using assms(1,3)
proof (cases rule: promote_cases)
  case no_effect
  then show ?thesis by (auto dest: recorded_holds)
next
  case (work st s1 ws review publish)
  then obtain sha p s2 x r1 where w: "promote_work h ps ws review publish i title body (execution_world s1) = (Inr (sha, p), s2)"
    and rec: "run_record_promotion ops (shift_clock 1 c) i sha (prp_number p) (prp_url p) (prp_base_branch p) (prp_head_branch p)
        (now_utc c 0) (run_repository s1) = (Inr x, r1)"
    and s': "run_repository s' = r1"
    and r: "r = \<lparr>spr_action_id = i, spr_commit_sha = sha, spr_pull_request_number = prp_number p,
        spr_pull_request_url = prp_url p, spr_base_branch = prp_base_branch p, spr_head_branch = prp_head_branch p,
        spr_pull_request_created = prp_created p\<rparr>"
    by (auto simp: world_then runs_then)
  let ?call = "RecordPromotion (shift_clock 1 c) i sha (prp_number p) (prp_url p) (prp_base_branch p) (prp_head_branch p) (now_utc c 0)"
  have "exec_call ops ?call (run_repository s1) = (Inr (RState x), r1)" using rec by (simp add: bnd_def)
  moreover have "call_valid ?call" using assms(2) by (simp add: valid_shift valid_now)
  ultimately obtain st' where st': "inv r1" "applies ?call (view (run_repository s1)) st' (view r1)"
    using call_applies work(5) by blast
  show ?thesis
    using st'(1) applies_promotion [OF st'(2)] promote_work_branches [OF w] work(7) s' r
    by (simp add: holds_promotion_def result_fields_def)
qed

lemma promote_once:
  assumes "inv (run_repository s)" "holds_promotion r (view (run_repository s) i)" "spr_action_id r = i"
    and "promote ops h ps c i title body s = (res, s')"
  shows "execution_world s' = execution_world s \<and> view (run_repository s') = view (run_repository s)
    \<and> (\<forall>x. res = Inr x \<longrightarrow> x = r\<lparr>spr_pull_request_created := False\<rparr>)"
  using assms(1,4)
proof (cases rule: promote_cases)
  case no_effect
  with assms(2,3) show ?thesis by (force dest: holds_recorded)
next
  case (work st)
  with assms(2) holds_recorded show ?thesis by metis
qed

lemma promotion_stays:
  assumes "inv r" "list_all call_valid calls" "\<forall>call\<in>set calls. \<not> is_promotion i call" "holds_promotion p (view r i)"
  shows "holds_promotion p (view (run_calls ops calls r) i)"
  by (rule run_calls_keep [OF assms(1,2), of "\<lambda>v. holds_promotion p (v i)"]) (use assms applies_holds_promotion in blast)+

end

section \<open>Publication\<close>

lemma gh_select_identity:
  "gh_select base head payload = Inr (Some p) \<Longrightarrow> prp_base_branch p = base \<and> prp_head_branch p = head
     \<and> \<not> str_blank (prp_url p) \<and> \<not> prp_created p"
  by (auto simp: gh_select_def publication_of_def Let_def split: option.splits pyval.splits list.splits if_splits prod.splits)

lemma gh_find_identity:
  "gh_find h exe json_loads repo base head g = (Inr (Some p), g') \<Longrightarrow> prp_base_branch p = base \<and> prp_head_branch p = head
     \<and> \<not> str_blank (prp_url p) \<and> \<not> prp_created p"
  by (auto simp: gh_find_def bnd_eq_Inr dest: gh_select_identity)

text \<open>Publication identity: a pull request that the GitHub publisher returns has the requested base and head branch and
  a URL, however often it is asked, and it is reported as created exactly when the search before found none.\<close>

theorem gh_publish_identity:
  assumes "gh_publish h exe json_loads repo base head title body g = (Inr p, g')"
  shows "prp_base_branch p = base \<and> prp_head_branch p = head \<and> \<not> str_blank (prp_url p)
    \<and> (prp_created p \<longleftrightarrow> fst (gh_find h exe json_loads repo base head g) = Inr None)"
proof -
  obtain found g1 where f: "gh_find h exe json_loads repo base head g = (Inr found, g1)"
    using assms by (auto simp: gh_publish_def bnd_eq_Inr)
  show ?thesis
  proof (cases found)
    case None
    then obtain q g2 where "gh_find h exe json_loads repo base head g2 = (Inr (Some q), g')" "p = q\<lparr>prp_created := True\<rparr>"
      using assms f by (auto simp: gh_publish_def bnd_eq_Inr split: option.splits)
    with gh_find_identity show ?thesis using f None by fastforce
  next
    case (Some q)
    then have "p = q" using assms f by (simp add: gh_publish_def bnd_def)
    with gh_find_identity [of h exe json_loads repo base head g q] f Some show ?thesis by simp
  qed
qed

text \<open>A host on which no pull request exists until one is created; the world counts the creations.\<close>

definition gh_sample_host :: "nat host" where
  "gh_sample_host = \<lparr>host_run = (\<lambda>argv cwd g.
       (Some \<lparr>pr_returncode = Some 0, pr_stdout = (if 0 < g then ''one'' else ''none''), pr_stderr = '''', pr_timed_out = False\<rparr>,
        if argv ! 2 = ''create'' then Suc g else g)),
     host_is_dir = (\<lambda>_ _. True), host_exists = (\<lambda>_ _. True), host_resolve = (\<lambda>_ p. p), host_mkdir = (\<lambda>_ g. g)\<rparr>"

definition gh_sample_json :: "string \<Rightarrow> pyval option" where
  "gh_sample_json raw = Some (PList (if raw = ''one'' then [PDict [(''number'', PInt 5), (''url'', PStr ''u''),
     (''headRefName'', PStr ''work''), (''baseRefName'', PStr ''main'')]] else []))"

lemma gh_sample_publish:
  "gh_publish gh_sample_host ''gh'' gh_sample_json (path_of_str ''r'') ''main'' ''work'' ''t'' ''b'' 0 =
     (Inr \<lparr>prp_number = 5, prp_url = ''u'', prp_base_branch = ''main'', prp_head_branch = ''work'', prp_created = True\<rparr>, 1)"
  by code_simp

theorem gh_publish_identity_witness:
  "fst (gh_find gh_sample_host ''gh'' gh_sample_json (path_of_str ''r'') ''main'' ''work'' 0) = Inr None"
  using gh_publish_identity [OF gh_sample_publish] by simp

section \<open>Promotion on the SQLite repository\<close>

text \<open>C22. Promotion gate: a promotion that returns a result, or that reaches git or the pull-request provider, or that
  changes a durable state, is enabled and belongs to an action whose execution succeeded and whose work product was
  explicitly and successfully kept; git is reached only when no promotion is recorded.\<close>

theorem promotion_gate:
  assumes "db_inv (run_repository s)" "promote sqlite_ops h ps c i title body s = (res, s')"
    and "(\<exists>r. res = Inr r) \<or> execution_world s' \<noteq> execution_world s
      \<or> sq_view (run_repository s') \<noteq> sq_view (run_repository s)"
  shows "ps_enabled ps \<and> (\<exists>st. sq_view (run_repository s) i = Some st \<and> kept_success st
    \<and> (execution_world s' \<noteq> execution_world s \<longrightarrow> \<not> promotion_started st))"
  using assms(1,2) by (cases rule: sq.promote_cases) (use assms(3) in auto)

text \<open>Promotion record: when a promotion returns, its result is what the database holds as the promotion of the action,
  and its branches are the trusted base branch and the branch derived from the action identifier.\<close>

theorem promotion_recorded:
  assumes "db_inv (run_repository s)" "valid_clock c" "promote sqlite_ops h ps c i title body s = (Inr r, s')"
  shows "holds_promotion r (sq_view (run_repository s') i) \<and> spr_action_id r = i
    \<and> spr_base_branch r = ps_base_branch ps
    \<and> (\<exists>ws. ps_workspace ps = Some ws \<and> spr_head_branch r = iw_branch (expected_worktree ws i))"
  using sq.promote_result [OF assms] by blast

text \<open>C23. At most one promotion: after a promotion has returned, and whatever calls of the repository follow that record no
  other promotion of the action, a further promotion reaches neither git nor the pull-request provider, whatever
  its title, body and configuration, and it can only raise or return the recorded promotion.\<close>

theorem promotion_at_most_once:
  assumes "db_inv (run_repository s)" "valid_clock c" "promote sqlite_ops h ps c i title body s = (Inr r, s1)"
    and "list_all call_valid calls" "\<forall>call\<in>set calls. \<not> is_promotion i call"
    and "run_repository s2 = run_calls sqlite_ops calls (run_repository s1)"
    and "promote sqlite_ops h' ps' c' i title' body' s2 = (res, s3)"
  shows "execution_world s3 = execution_world s2 \<and> sq_view (run_repository s3) = sq_view (run_repository s2)
    \<and> (\<forall>x. res = Inr x \<longrightarrow> x = r\<lparr>spr_pull_request_created := False\<rparr>)"
proof -
  note r = sq.promote_result [OF assms(1-3)]
  have "db_inv (run_repository s2)" "holds_promotion r (sq_view (run_repository s2) i)"
    using r sq.run_calls_inv sq.promotion_stays assms(4-6) by auto
  with r assms(7) show ?thesis by (intro sq.promote_once) auto
qed

definition promo_workspace :: trusted_git_workspace where
  "promo_workspace = \<lparr>tgw_root = path_of_str ''r'', tgw_worktrees_root = None, tgw_git = ''git''\<rparr>"

definition promo_service :: "nat promotion_service" where
  "promo_service = \<lparr>ps_workspace = Some promo_workspace, ps_review = Some (\<lambda>_. raise_exc (RuntimeError ''review'')),
     ps_publisher = Some (\<lambda>_ _ _ _ _. raise_exc (RuntimeError ''publish'')), ps_enabled = True, ps_remote = ''origin'',
     ps_base_branch = ''main'', ps_author_name = ''VELOX'', ps_author_email = ''v''\<rparr>"

definition promo_calls :: "run_call list" where
  "promo_calls = [register_call, RecordExecution sample_clock 9 ''succeeded'' sample_time True,
     RecordDisposition sample_clock \<lparr>wpr_action_id = 9, wpr_disposition = KEEP, wpr_worktree_path = path_of_str ''r'',
       wpr_branch = '''', wpr_worktree_present = True, wpr_branch_present = True, wpr_canonical_unchanged = True\<rparr>,
     RecordPromotion sample_clock 9 ''c1'' 5 ''u'' ''main'' (iw_branch (expected_worktree promo_workspace 9)) sample_time]"

definition promo_result :: promotion_result where
  "promo_result = \<lparr>spr_action_id = 9, spr_commit_sha = ''c1'', spr_pull_request_number = 5, spr_pull_request_url = ''u'',
     spr_base_branch = ''main'', spr_head_branch = iw_branch (expected_worktree promo_workspace 9),
     spr_pull_request_created = False\<rparr>"

lemma sq_calls_from_mem:
  assumes "db_inv db" "healthy db" "list_all exact_call calls" "list_all call_valid calls"
  shows "db_abs (run_calls sqlite_ops calls db) = run_calls mem_ops calls (db_abs db) \<and>
    db_inv (run_calls sqlite_ops calls db) \<and> healthy (run_calls sqlite_ops calls db)"
  using assms
proof (induction calls arbitrary: db)
  case (Cons call calls)
  let ?m = "exec_call mem_ops call (db_abs db)"
  obtain db' where db': "exec_call sqlite_ops call db = (fst ?m, db')" "db_abs db' = snd ?m" "db_inv db'" "healthy db'"
    by (rule sq_from_mem [where call = call and db = db and res = "fst ?m" and m' = "snd ?m"]) (use Cons.prems in auto)
  with Cons.IH [OF db'(3,4)] Cons.prems show ?case by (simp add: run_calls_def)
qed (simp add: run_calls_def)

definition promo_db :: sqlite_db where
  "promo_db = run_calls sqlite_ops promo_calls empty_db"

lemma promo_mem:
  "\<exists>st. run_calls mem_ops promo_calls [] = [(9, st)] \<and> kept_success st \<and> promotion_started st
     \<and> recorded_promotion ''main'' (expected_worktree promo_workspace 9) 9 st = Inr promo_result"
  by (simp add: promo_calls_def run_calls_def register_mem mem_edits mem_edit_eq edit_execution_def edit_disposition_def
      edit_promotion_def bnd_def require_aware_def rbind_def sample_run_def mk_run_state_def kept_success_def
      promotion_started_def recorded_promotion_def promotion_complete_def promo_result_def wpr_succeeded_def wpr_remaining_def)

lemma promo_db: 
  "db_inv promo_db" "healthy promo_db"
  "\<exists>st. sq_view promo_db 9 = Some st \<and> kept_success st \<and> promotion_started st
     \<and> recorded_promotion ''main'' (expected_worktree promo_workspace 9) 9 st = Inr promo_result"
proof -
  have "list_all exact_call promo_calls" "list_all call_valid promo_calls"
    by (simp_all add: promo_calls_def)
  then have m: "db_abs promo_db = run_calls mem_ops promo_calls []" "db_inv promo_db" "healthy promo_db"
    using sq_calls_from_mem [of empty_db promo_calls] by (simp_all add: promo_db_def)
  show "db_inv promo_db" "healthy promo_db" by fact+
  show "\<exists>st. sq_view promo_db 9 = Some st \<and> kept_success st \<and> promotion_started st
     \<and> recorded_promotion ''main'' (expected_worktree promo_workspace 9) 9 st = Inr promo_result"
    using promo_mem m(1) by (auto simp: sq_view_def mem_view_def)
qed

definition promo_state :: "(sqlite_db, nat) process_state" where
  "promo_state = (sample_server [] [] [])\<lparr>run_repository := promo_db\<rparr>"

lemma promo_promote:
  "\<exists>s1. promote sqlite_ops h promo_service c 9 title body promo_state = (Inr promo_result, s1)"
proof -
  obtain st where st: "sq_view promo_db 9 = Some st" "kept_success st" "promotion_started st"
    "recorded_promotion ''main'' (expected_worktree promo_workspace 9) 9 st = Inr promo_result"
    using promo_db(3) by blast
  obtain db1 where "sq_get 9 promo_db = (Inr (Some st), db1)"
    by (rule sq_get_cases [OF promo_db(1) [unfolded db_inv_def], of 9])
       (use promo_db(2) st(1) in \<open>auto simp: sq_view_def mem_view_def\<close>)
  then show ?thesis
    using st by (simp add: promote_def verify_action_def bnd_def on_runs_def promo_state_def promo_service_def promotable_Inr
        [THEN iffD2])
qed

definition promo_run :: "string \<Rightarrow> (sqlite_db, nat) process_state \<Rightarrow> promotion_result result \<times> (sqlite_db, nat) process_state" where
  "promo_run title = promote sqlite_ops gh_sample_host promo_service sample_clock 9 title ''b''"

lemma promo_run: "promo_run title promo_state = (Inr promo_result, snd (promo_run title promo_state))"
  using promo_promote [of gh_sample_host sample_clock title "''b''"] by (auto simp: promo_run_def)

lemma promo_state_inv: "db_inv (run_repository promo_state)"
  by (simp add: promo_state_def promo_db(1))

theorem promotion_gate_witness:
  "\<exists>st. sq_view (run_repository promo_state) 9 = Some st \<and> kept_success st"
  using promotion_gate [OF promo_state_inv promo_run [of "''t''", unfolded promo_run_def]] by blast

theorem promotion_recorded_witness:
  "holds_promotion promo_result (sq_view (run_repository (snd (promo_run ''t'' promo_state))) 9)"
  using promotion_recorded [OF promo_state_inv _ promo_run [of "''t''", unfolded promo_run_def]]
  by (simp add: promo_run_def)

theorem promotion_at_most_once_witness:
  "fst (promo_run ''t'' promo_state) = Inr promo_result \<and>
   execution_world (snd (promo_run ''other'' (snd (promo_run ''t'' promo_state))))
     = execution_world (snd (promo_run ''t'' promo_state))"
  using promotion_at_most_once [OF promo_state_inv _ promo_run [of "''t''", unfolded promo_run_def], where calls = "[]"
      and ?s2.0 = "snd (promo_run ''t'' promo_state)" and title' = "''other''", OF _ _ _ _ surjective_pairing]
    arg_cong [OF promo_run [of "''t''"], of fst]
  by (simp add: promo_run_def run_calls_def)

end
