(* ===== verification/Api_Properties.thy ===== *)
theory Api_Properties
  imports Http_Api Continuation_Properties Promotion_Properties
begin

text \<open>
  The HTTP layer adds no behaviour of its own: a request with the wrong token does nothing, any other one is a step of
  the server, and the errors of the task routes are a fixed list that carries nothing of the exception behind them.
\<close>

section \<open>Requests as server steps\<close>

lemma snd_http_errors [simp]: "snd (http_errors f m s) = snd (m s)"
  by (auto simp: http_errors_def try_except_def split: prod.splits sum.splits)

lemma snd_bnd_pure: "(\<And>x s. snd (k x s) = s) \<Longrightarrow> snd (bnd m k s) = snd (m s)"
  by (auto simp: bnd_def split: prod.splits sum.splits)

lemma snd_bnd_gets: "snd (bnd (gets g) k s) = snd (k (g s) s)"
  by (simp add: bnd_def)

lemma snd_answer [simp]: "snd (answer f m s) = snd (m s)"
  by (simp add: answer_def snd_bnd_pure)

definition valid_api_inputs :: "api_inputs \<Rightarrow> bool" where
  "valid_api_inputs ai \<longleftrightarrow> valid_clock (ai_clock ai) \<and> valid_clock (ai_clock1 ai) \<and> valid_clock (ai_clock2 ai)
     \<and> valid_inputs (ai_worker ai)"

text \<open>The actions a request authorizes: the one it asks to approve, and those the permission engine allows while it is
  handled.\<close>

definition api_authorizes ::
  "('r, 'w, 'x) server_config \<Rightarrow> api_inputs \<Rightarrow> api_request \<Rightarrow> ('r, 'w) server_state \<Rightarrow> uuid set" where
  "api_authorizes cf ai req s =
     (case req of
        ApproveAction i \<Rightarrow> {i}
      | ProcessEvent i body \<Rightarrow> event_authorizes (fst (process_event (cf_workflow cf) (ai_clock ai) (ai_evaluation_clocks ai)
          (ai_action_id ai) i (case body of None \<Rightarrow> None | Some route \<Rightarrow> route) s))
      | DelegateTask objective target \<Rightarrow>
          delegation_authorizes (ew_engine (cf_workflow cf)) (ai_clock ai) (ai_action_id ai) (se_request objective target)
      | _ \<Rightarrow> {})"

lemma http_states:
  "snd (http_list_action_queue jd s) = s" "snd (http_list_events jd limit offset s) = s"
  "snd (http_list_pending_events jd s) = s" "snd (http_read_event jd i s) = s"
  "snd (http_read_event_lifecycle jd i s) = s"
  by (auto simp: http_list_action_queue_def http_list_events_def http_list_pending_events_def http_read_event_def
      http_read_event_lifecycle_def bnd_def split: option.splits)

text \<open>The operation of the server that a route is for; the other routes only read.\<close>

definition api_effect :: "('r, 'w, 'x) server_config \<Rightarrow> api_inputs \<Rightarrow> api_request \<Rightarrow> ('r, 'w) server_state \<Rightarrow> ('r, 'w) server_state" where
  "api_effect cf ai req s =
     (case req of
        ListPendingApproval \<Rightarrow> snd (recovery_list_pending (cf_ops cf) (ai_clock1 ai) s)
      | ApproveAction i \<Rightarrow> snd (approve_pending_action (Some (se_recovery (cf_ops cf) (ai_clock1 ai)))
          (Some (se_recorder (cf_ops cf) (ai_clock2 ai))) (ai_clock ai) i s)
      | RejectAction i body \<Rightarrow> snd (reject_pending_action (Some (se_recovery (cf_ops cf) (ai_clock1 ai)))
          (Some (se_recorder (cf_ops cf) (ai_clock2 ai))) (ai_clock ai) (rejection_reason body) i s)
      | AcceptEvent e \<Rightarrow> snd (accept_event (ai_clock ai) e s)
      | ProcessEvent i body \<Rightarrow> snd (process_event (cf_workflow cf) (ai_clock ai) (ai_evaluation_clocks ai) (ai_action_id ai) i
          (case body of None \<Rightarrow> None | Some route \<Rightarrow> route) s)
      | DelegateTask objective target \<Rightarrow> snd (ingress_delegate (cf_ops cf) (cf_registry cf) (ew_engine (cf_workflow cf))
          (ew_dump (cf_workflow cf)) (ai_clock ai) (ai_clock1 ai) (ai_action_id ai) objective target s)
      | ExecuteTask i \<Rightarrow> snd (continuation_execute (cf_ops cf) (cf_runtime cf) (cf_reviewer cf) (ai_clock ai) (ai_claim_id ai)
          (ai_worker ai) i s)
      | DisposeWorkProduct i d \<Rightarrow> snd (disposition_apply (cf_ops cf) (cf_disposer cf) (ai_clock ai) i d s)
      | PromoteWorkProduct i title body \<Rightarrow> snd (promote (cf_ops cf) (cf_host cf) (cf_promotion cf) (ai_clock ai) i title body s)
      | RunStatus i \<Rightarrow> snd (control_status (cf_ops cf) (cf_digest cf) (cf_reviewer cf) i s)
      | ReconcileClaim i resolution token ack \<Rightarrow>
          snd (control_reconcile (cf_ops cf) (cf_digest cf) (cf_reviewer cf) (ai_clock ai) i resolution token ack s)
      | _ \<Rightarrow> s)"

lemma http_list_pending_state:
  "snd (http_list_pending_approval cf jd c1 c s) = snd (recovery_list_pending (cf_ops cf) c1 s)"
  unfolding http_list_pending_approval_def snd_bnd_gets
  by (subst snd_bnd_pure) (simp_all add: bnd_def split: sum.splits)

lemma api_handler_effect: "snd (api_handler cf jd ai req s) = api_effect cf ai req s"
  by (cases req) (simp_all add: api_effect_def http_states http_list_pending_state http_approve_def http_reject_def
      http_accept_event_def http_process_event_def http_delegate_def http_execute_def http_dispose_def http_promote_def
      http_run_status_def http_reconcile_def snd_bnd_pure snd_bnd_gets)

lemma api_effect_step:
  assumes "valid_api_inputs ai"
  shows "api_effect cf ai req s = s \<or> server_step cf (s, G) (api_effect cf ai req s, G \<union> api_authorizes cf ai req s)"
  using assms
  by (cases req)
     (auto simp: api_effect_def api_authorizes_def valid_api_inputs_def
        intro: server_step.list_runs [OF surjective_pairing] server_step.approve [OF _ _ surjective_pairing]
          server_step.reject [OF _ _ surjective_pairing] server_step.accept [OF surjective_pairing]
          server_step.process [OF surjective_pairing] server_step.delegate [OF _ surjective_pairing]
          server_step.continue_run [OF _ _ surjective_pairing] server_step.dispose [OF _ surjective_pairing]
          server_step.promote_run [OF _ surjective_pairing] server_step.inspect_run [OF surjective_pairing]
          server_step.reconcile [OF _ surjective_pairing])

lemma api_call_cases:
  assumes "api_call cf jd expected ai authorization req s = (r, s')"
  obtains (unauthorized) t where "expected = Some t" "authorization \<noteq> Some (''Bearer '' @ t)"
      "r = Inl (HTTPException 401 ''missing or invalid bearer token'')" "s' = s"
  | (invalid) "require_api_token expected authorization = Inr ()" "\<not> valid_request req" "r = Inl (HTTPException 422 ''request validation failed'')" "s' = s"
  | (handled) "require_api_token expected authorization = Inr ()" "valid_request req"
      "api_handler cf jd ai req s = (r, s')"
  using assms
  by (cases "require_api_token expected authorization"; cases "valid_request req")
     (auto simp: api_call_def bnd_def require_api_token_def split: option.splits if_splits)

section \<open>Errors of the task routes\<close>

text \<open>The errors a task route can answer with.\<close>

fun task_route_errors :: "api_request \<Rightarrow> (int \<times> string) list" where
  "task_route_errors (DelegateTask objective target) =
     [(422, ''invalid software engineering task''), (500, ''software engineering task delegation failed'')]"
| "task_route_errors (ExecuteTask i) =
     [(404, ''Not Found''), (409, ''software engineering action is not executable''),
      (500, ''software engineering task continuation failed'')]"
| "task_route_errors (DisposeWorkProduct i d) =
     [(404, ''Not Found''), (409, ''software engineering work product is not disposable''),
      (500, ''software engineering work-product disposition failed'')]"
| "task_route_errors (PromoteWorkProduct i title body) =
     [(404, ''Not Found''), (409, ''software engineering work product is not promotable''),
      (502, ''software engineering promotion failed''), (500, ''software engineering promotion failed'')]"
| "task_route_errors (RunStatus i) =
     [(404, ''Not Found''), (409, ''software engineering run status is unavailable''),
      (500, ''software engineering run status failed'')]"
| "task_route_errors (ReconcileClaim i resolution token ack) =
     [(404, ''Not Found''), (409, ''software engineering claim is not reconcilable''),
      (500, ''software engineering claim reconciliation failed'')]"
| "task_route_errors req = []"

definition answers_with :: "(int \<times> string) list \<Rightarrow> exc \<Rightarrow> bool" where
  "answers_with table e \<longleftrightarrow> (\<exists>(code, detail)\<in>set table. e = HTTPException code detail)"

lemma http_error_tables:
  "answers_with (task_route_errors (DelegateTask objective target)) (delegation_http_error e)"
  "answers_with (task_route_errors (ExecuteTask i)) (execution_http_error e)"
  "answers_with (task_route_errors (DisposeWorkProduct i d)) (disposition_http_error e)"
  "answers_with (task_route_errors (PromoteWorkProduct i title body)) (promotion_http_error e)"
  "answers_with (task_route_errors (RunStatus i)) (status_http_error e)"
  "answers_with (task_route_errors (ReconcileClaim i resolution token ack)) (reconciliation_http_error e)"
  by (cases e; simp add: answers_with_def delegation_http_error_def execution_http_error_def disposition_http_error_def
      promotion_http_error_def status_http_error_def reconciliation_http_error_def)+

lemma answer_errors:
  assumes "answer f (bnd (http_errors g m) (\<lambda>x. ret (h x))) s = (Inl e, s')" "\<And>e. answers_with table (g e)"
  shows "answers_with table e"
  using assms by (auto simp: answer_def http_errors_def try_except_def bnd_def split: prod.splits sum.splits)

lemma api_handler_errors:
  assumes "api_handler cf jd ai req s = (Inl e, s')" "task_route_errors req \<noteq> []"
  shows "answers_with (task_route_errors req) e"
proof (cases req)
  case (DelegateTask objective target)
  show ?thesis
    unfolding DelegateTask
    by (rule answer_errors [OF assms(1) [unfolded DelegateTask api_handler.simps http_delegate_def] http_error_tables(1)])
next
  case (ExecuteTask i)
  show ?thesis
    unfolding ExecuteTask
    by (rule answer_errors [OF assms(1) [unfolded ExecuteTask api_handler.simps http_execute_def] http_error_tables(2)])
next
  case (DisposeWorkProduct i d)
  show ?thesis
    unfolding DisposeWorkProduct
    by (rule answer_errors [OF assms(1) [unfolded DisposeWorkProduct api_handler.simps http_dispose_def] http_error_tables(3)])
next
  case (PromoteWorkProduct i title body)
  show ?thesis
    unfolding PromoteWorkProduct
    by (rule answer_errors [OF assms(1) [unfolded PromoteWorkProduct api_handler.simps http_promote_def] http_error_tables(4)])
next
  case (RunStatus i)
  show ?thesis
    unfolding RunStatus
    by (rule answer_errors [OF assms(1) [unfolded RunStatus api_handler.simps http_run_status_def] http_error_tables(5)])
next
  case (ReconcileClaim i resolution token ack)
  show ?thesis
    unfolding ReconcileClaim
    by (rule answer_errors [OF assms(1) [unfolded ReconcileClaim api_handler.simps http_reconcile_def] http_error_tables(6)])
qed (use assms(2) in simp_all)

text \<open>C35. Errors tell nothing: whatever the services behind the task routes do, an error of a task route is the missing
  token, the rejected request or one of the fixed pairs of status and text of that route. No text of an exception, path
  or command output reaches the caller.\<close>

theorem api_task_errors_fixed:
  assumes "api_call cf jd expected ai authorization req s = (Inl e, s')" "task_route_errors req \<noteq> []"
  shows "answers_with ([(401, ''missing or invalid bearer token''), (422, ''request validation failed'')] @ task_route_errors req) e"
proof -
  have weaken: "answers_with table e \<Longrightarrow> answers_with (table' @ table) e" for table table' by (auto simp: answers_with_def)
  show ?thesis
    using assms(1)
  proof (cases rule: api_call_cases)
    case handled
    show ?thesis by (rule weaken [OF api_handler_errors [OF handled(3) assms(2)]])
  qed (auto simp: answers_with_def)
qed

text \<open>A concrete server: an empty SQLite repository, an executor that counts its runs, a planner that plans a safe action.\<close>

definition demo_config :: "(sqlite_db, nat, unit) server_config" where
  "demo_config = \<lparr>cf_ops = sqlite_ops, cf_registry = empty_registry (), cf_run = counting_run,
     cf_max_transient_retries = 3, cf_dump_lifecycle = (\<lambda>_. PNone),
     cf_workflow = base_workflow\<lparr>ew_plan := \<lambda>_ _ _. Inr [safe_action], ew_engine := \<lambda>_ _. Inr (Some
       \<lparr>pdec_status = ALLOWED, pdec_reason = None, pdec_metadata = [], pdec_created_at = sample_time\<rparr>)\<rparr>, cf_digest = id,
     cf_reviewer = None, cf_disposer = None, cf_host = gh_sample_host, cf_promotion = promo_service\<rparr>"

definition demo_start :: "(sqlite_db, nat) server_state" where
  "demo_start = process_state.extend (sample_server [] [] []) (server_state.fields [] [] [])"

definition demo_dumps :: json_dumps where
  "demo_dumps = \<lparr>jd_action = (\<lambda>_. PNone), jd_action_lifecycle = (\<lambda>_. PNone), jd_event = (\<lambda>_. PNone),
     jd_event_lifecycle = (\<lambda>_. PNone), jd_processed_event = (\<lambda>_. []), jd_decision = (\<lambda>_. PNone)\<rparr>"

definition demo_inputs :: api_inputs where
  "demo_inputs = \<lparr>ai_clock = sample_clock, ai_clock1 = sample_clock, ai_clock2 = sample_clock,
     ai_evaluation_clocks = (\<lambda>_. sample_clock), ai_action_id = 7, ai_claim_id = 3, ai_worker = sample_inputs\<rparr>"

lemma demo_inputs_valid: "valid_api_inputs demo_inputs"
  by (simp add: valid_api_inputs_def demo_inputs_def valid_inputs_def sample_inputs_def)

lemma demo_status:
  "api_call demo_config demo_dumps (Some ''t'') demo_inputs (Some ''Bearer t'') (RunStatus 9) demo_start
     = (Inl not_found, snd (api_call demo_config demo_dumps (Some ''t'') demo_inputs (Some ''Bearer t'') (RunStatus 9) demo_start))"
  by (simp add: api_call_def require_api_token_def valid_request_def answer_def http_run_status_def http_errors_def
      control_status_def control_get_def run_state_error_as_def on_runs_def demo_config_def demo_start_def bnd_def
      try_except_def process_state.extend_def server_state.fields_def sample_server_def empty_db_def sqlite_ops_def
      sq_get_def sql_tx_def select_row_def find_first_def status_http_error_def)

theorem api_task_errors_fixed_witness:
  "\<exists>s'. api_call demo_config demo_dumps (Some ''t'') demo_inputs (Some ''Bearer t'') (RunStatus 9) demo_start
       = (Inl not_found, s')
     \<and> answers_with ([(401, ''missing or invalid bearer token''), (422, ''request validation failed'')]
         @ task_route_errors (RunStatus 9)) not_found"
  using api_task_errors_fixed [OF demo_status] demo_status by auto

section \<open>The API refines the server\<close>

text \<open>C2. The routes of tasks, actions and events refine the server. With a configured token, a request to one of them that does
  not carry the token is answered with 401 and changes nothing. A request that carries it and violates the constraints of its
  model is answered with 422 and changes nothing. Any other has exactly the effect of the operation its route is for: the state
  stays as it is or one step of the server is made, which authorizes at most the action the request asks to approve and the
  actions the permission engine allows while it is handled.\<close>

theorem api_refines_server:
  assumes "valid_api_inputs ai" "api_call cf jd (Some t) ai authorization req s = (r, s')"
  shows "if authorization \<noteq> Some (''Bearer '' @ t)
    then r = Inl (HTTPException 401 ''missing or invalid bearer token'') \<and> s' = s
    else if \<not> valid_request req then r = Inl (HTTPException 422 ''request validation failed'') \<and> s' = s
    else s' = api_effect cf ai req s \<and> (s' = s \<or> server_step cf (s, G) (s', G \<union> api_authorizes cf ai req s))"
  using assms(2)
proof (cases rule: api_call_cases)
  case handled
  then have "s' = api_effect cf ai req s" using api_handler_effect by (metis snd_conv)
  with handled api_effect_step [OF assms(1)] show ?thesis by (simp add: require_api_token_def split: if_splits)
qed (use assms(2) in \<open>auto simp: require_api_token_def api_call_def bnd_def split: if_splits\<close>)

theorem api_refines_server_witness:
  "(let s' = snd (api_call demo_config demo_dumps (Some ''t'') demo_inputs (Some ''Bearer t'') (ApproveAction 7) demo_start) in
     s' = demo_start \<or> server_step demo_config (demo_start, {}) (s', {7}))
   \<and> api_call demo_config demo_dumps (Some ''t'') demo_inputs None (ApproveAction 7) demo_start
       = (Inl (HTTPException 401 ''missing or invalid bearer token''), demo_start)"
  using api_refines_server [where jd = demo_dumps and t = "''t''" and authorization = "Some ''Bearer t''" and req = "ApproveAction 7"
      and G = "{}", OF demo_inputs_valid surjective_pairing, of demo_config demo_start]
    api_refines_server [where jd = demo_dumps and t = "''t''" and authorization = None and req = "ApproveAction 7",
      OF demo_inputs_valid surjective_pairing, of demo_config demo_start]
  by (auto simp: api_authorizes_def valid_request_def prod_eq_iff Let_def)

end
