(* ===== verification/Demo_Run.thy ===== *)
theory Demo_Run
  imports Api_Properties
begin

text \<open>
  A concrete run of the server, for the witnesses of the properties about reachable states: a calendar event arrives,
  is planned into an action the engine allows, and the worker executes that action.
\<close>

definition demo_planned :: "(sqlite_db, nat) server_state" where
  "demo_planned = snd (process_event (cf_workflow demo_config) sample_clock (\<lambda>_. sample_clock) 3 5 None
     (snd (accept_event sample_clock sample_event demo_start)))"

lemmas demo_defs = demo_config_def demo_start_def process_state.extend_def server_state.fields_def sample_server_def
  base_workflow_def sample_event_def safe_action_def bnd_def try_except_def rbind_def
  mk_event_lifecycle_state_def require_utc_updated_at_def event_transition_def event_valid_transitions_def
  mk_action_lifecycle_state_def require_utc_timestamp_def action_transition_def valid_transitions_def
  normalize_blank_reason_def store_get_event_def find_first_def store_append_def inbox_enqueue_def
  inbox_mark_processed_def dict_merge_def

definition demo_evaluation :: permission_evaluation where
  "demo_evaluation = \<lparr>pe_action = safe_action\<lparr>act_metadata := [(''permission_decision'', PNone)]\<rparr>, pe_decision =
     \<lparr>pdec_status = ALLOWED, pdec_reason = None, pdec_metadata = [], pdec_created_at = sample_time\<rparr>\<rparr>"

lemma demo_planned_eq:
  "\<exists>pe. process_event (cf_workflow demo_config) sample_clock (\<lambda>_. sample_clock) 3 5 None
     (snd (accept_event sample_clock sample_event demo_start)) =
       (Inr \<lparr>epr_processed_event = pe, epr_permission_evaluations = [demo_evaluation]\<rparr>, demo_planned)"
  "action_queue demo_planned = [pe_action demo_evaluation]" "execution_log demo_planned = []"
  "lifecycle_of demo_planned 7 = Some (sample_lifecycle APPROVED [])"
  by (simp_all add: demo_planned_def accept_event_def process_event_def demo_defs pipeline_process_def plan_and_queue_def
      permission_evaluate_def evaluate_action_def resolve_decision_def resolve_lifecycle_state_def Let_def
      queueable_actions_def is_allowed_def demo_evaluation_def apply_permission_metadata_def queue_enqueue_many_def
      queue_enqueue_def lifecycle_set_def lifecycle_get_def sample_lifecycle_def execution_log_def)

lemma demo_not_canonical:
  "\<not> is_canonical_route (res_requested_role (resolve_with_registration reg (pe_action demo_evaluation)))
     (res_requested_capability (resolve_with_registration reg (pe_action demo_evaluation)))"
  by (auto simp: is_canonical_route_def resolve_with_registration_def demo_evaluation_def safe_action_def normalize_role_def
      Let_def unrouted_def dest: resolve_capability_route_request split: option.splits)

lemma demo_worked:
  "execution_log (snd (process_next (cf_runtime demo_config) sample_inputs demo_planned)) = [7]"
proof -
  let ?a = "pe_action demo_evaluation"
  have id: "act_id ?a = 7" by (simp add: demo_evaluation_def safe_action_def)
  have log: "map obs_action_id (execution_observations demo_planned) = []"
    using demo_planned_eq(3) by (simp add: execution_log_def)
  have cf: "cf_runtime demo_config = durable_runtime sqlite_ops (empty_registry ()) counting_run 3 (\<lambda>_. PNone)"
    by (simp add: cf_runtime_def demo_config_def)
  show ?thesis
    unfolding cf process_next_def
    using demo_planned_eq(2,4) id log demo_not_canonical [of "empty_registry ()"]
    by (simp add: bnd_def queue_dequeue_def process_dequeued_action_def awaits_approval_def sample_lifecycle_def
        execute_approved_def action_transition_def valid_transitions_def mk_action_lifecycle_state_def rbind_def
        require_utc_timestamp_def sample_inputs_def Let_def durable_observer_start_def mem_observer_start_def
        new_observation_def try_except_def on_world_def resolution_execute_def counting_run_def conclude_execution_def
        durable_observer_finish_def mem_observer_finish_def finished_observation_def final_transition_def
        retry_transient_def failure_for_result_def execution_log_def)
qed

lemma demo_planned_reachable: "server_reachable demo_config demo_start (demo_planned, {7})"
proof -
  obtain pe where planned: "process_event (cf_workflow demo_config) sample_clock (\<lambda>_. sample_clock) 3 5 None
     (snd (accept_event sample_clock sample_event demo_start)) =
       (Inr \<lparr>epr_processed_event = pe, epr_permission_evaluations = [demo_evaluation]\<rparr>, demo_planned)"
    using demo_planned_eq(1) by blast
  have G: "event_authorizes (Inr \<lparr>epr_processed_event = pe, epr_permission_evaluations = [demo_evaluation]\<rparr>) = {7}"
    by (simp add: event_authorizes_def allowed_ids_def queueable_actions_def is_allowed_def demo_evaluation_def safe_action_def)
  have "server_reachable demo_config demo_start (snd (accept_event sample_clock sample_event demo_start), {})"
    by (rule server_reachable.step [OF server_reachable.start server_step.accept]) (rule surjective_pairing)
  from server_reachable.step [OF this server_step.process [OF planned]]
  show ?thesis by (simp add: G)
qed

lemma demo_reachable:
  "server_reachable demo_config demo_start
     (snd (process_next (cf_runtime demo_config) sample_inputs demo_planned), {7})"
  by (rule server_reachable.step [OF demo_planned_reachable server_step.work [OF _ surjective_pairing]])
     (simp add: valid_inputs_def sample_inputs_def)

lemma demo_initial:
  "cf_ops demo_config = sqlite_ops" "local_stores_empty demo_start" "run_repository demo_start = empty_db"
  by (simp_all add: demo_config_def demo_start_def local_stores_empty_def process_state.extend_def server_state.fields_def
      sample_server_def)

end
