(* ===== verification/Typed_States.thy ===== *)
theory Typed_States
  imports Authorization Demo_Run
begin

text \<open>
  The types of what the server stores: every lifecycle state of an action or an event that a step writes is one its
  model's validators accept, so the stores of a reachable server hold valid states only. The rules say of each
  operation that it keeps this; the database and the world play no part.
\<close>

section \<open>Valid stores\<close>

definition valid_event_state :: "uuid \<Rightarrow> event_lifecycle_state \<Rightarrow> bool" where
  "valid_event_state i st \<longleftrightarrow> els_event_id st = i \<and> is_utc (els_updated_at st)
     \<and> (\<forall>reason. els_reason st = Some reason \<longrightarrow> \<not> str_blank reason)"

definition typed_stores :: "('r, 'w, 'z) server_state_scheme \<Rightarrow> bool" where
  "typed_stores s \<longleftrightarrow> (\<forall>i st. lifecycle_of s i = Some st \<longrightarrow> wf_lifecycle st)
     \<and> (\<forall>i st. dict_get (event_lifecycle_states s) i = Some st \<longrightarrow> valid_event_state i st)"

lemma typed_lifecycle: "typed_stores s \<Longrightarrow> lifecycle_of s i = Some st \<Longrightarrow> wf_lifecycle st"
  by (simp add: typed_stores_def)

lemma typed_event: "typed_stores s \<Longrightarrow> dict_get (event_lifecycle_states s) i = Some st \<Longrightarrow> valid_event_state i st"
  by (simp add: typed_stores_def)

lemma typed_elsewhere [keep_intros]:
  "keeps typed_stores (on_runs m)" "keeps typed_stores (on_world k)"
  by (auto simp: keeps_def typed_stores_def on_runs_def on_world_def split: prod.splits)

lemma typed_updates [keep_intros]:
  "keeps typed_stores (modify (action_queue_update f))" "keeps typed_stores (modify (pending_approval_registry_update g))"
  "keeps typed_stores (modify (event_repository_update h))" "keeps typed_stores (modify (event_inbox_update k))"
  by (simp_all add: keeps_def typed_stores_def)

lemma typed_set_lifecycle [keep_intros]: "wf_lifecycle st \<Longrightarrow> keeps typed_stores (set_lifecycle i st)"
  by (auto simp: keeps_def typed_stores_def lifecycle.get_put)

lemma typed_set_event [keep_intros]: "valid_event_state i st \<Longrightarrow> keeps typed_stores (set_event_state i st)"
  by (auto simp: keeps_def typed_stores_def)

lemma mk_event_state_valid: "mk_event_lifecycle_state i st reason md now = Inr x \<Longrightarrow> valid_event_state i x"
  by (auto simp: mk_event_lifecycle_state_def require_utc_updated_at_def rbind_def valid_event_state_def
      normalize_blank_reason_def split: if_splits option.splits)

lemma event_transition_valid: "event_transition x st reason now = Inr y \<Longrightarrow> valid_event_state i x \<Longrightarrow> valid_event_state i y"
  by (auto simp: event_transition_def valid_event_state_def dest: mk_event_state_valid [unfolded valid_event_state_def] split: if_splits)

lemma resolve_lifecycle_wf: "resolve_lifecycle_state c d = Inr st \<Longrightarrow> wf_lifecycle st"
  using resolve_lifecycle_state_total [of c d] by auto

lemma liftr_eq_Inr: "liftr r s = (Inr x, s') \<longleftrightarrow> r = Inr x \<and> s' = s"
  by (cases r) auto

lemmas typed_dests = mk_lifecycle_wf action_transition_wf mk_event_state_valid event_transition_valid typed_lifecycle typed_event
  resolve_lifecycle_wf

section \<open>Events\<close>

lemma evaluate_actions_typed: "keeps typed_stores (evaluate_actions engine dump c j as)"
proof (induction as arbitrary: j)
  case (Cons a as)
  have "keeps typed_stores (evaluate_action engine dump (c j) a)"
    unfolding evaluate_action_def Let_def by (intro keep_intros) (auto simp: liftr_eq_Inr dest: typed_dests)
  with Cons show ?case by (simp, intro keep_intros)
qed (simp add: keep_intros)

lemma plan_and_queue_typed: "keeps typed_stores (plan_and_queue ew c pc aid pe)"
  unfolding plan_and_queue_def permission_evaluate_def by (intro keep_intros evaluate_actions_typed)

lemma accept_event_typed: "keeps typed_stores (accept_event c e)"
  unfolding accept_event_def by (intro keep_intros) (auto simp: liftr_eq_Inr dest: typed_dests)

lemma processing_handler:
  "\<exists>x. (case err of ValueError m \<Rightarrow> raise_exc (EventLifecycleConflictError m) | _ \<Rightarrow> raise_exc err) s = (Inl x, s)"
  by (cases err) simp_all

lemma keeps_bool: "keeps P a \<Longrightarrow> keeps P b \<Longrightarrow> keeps P (case c of True \<Rightarrow> a | False \<Rightarrow> b)"
  by (cases c) simp_all

lemma keeps_handler: "keeps P (case err of ValueError m \<Rightarrow> raise_exc (EventLifecycleConflictError m) | _ \<Rightarrow> raise_exc err)"
  using processing_handler [of err] unfolding keeps_def by (metis snd_conv)

lemma try_except_Inr:
  assumes "try_except m h s = (Inr x, s')" "\<And>e s. \<exists>y. h e s = (Inl y, s)"
  shows "m s = (Inr x, s')"
  using assms(1) assms(2) [of "projl (fst (m s))" "snd (m s)"]
  by (auto simp: try_except_def split: sum.splits prod.splits)

lemma process_event_typed: "keeps typed_stores (process_event ew c pc aid i route)"
  unfolding process_event_def
  by (intro keep_intros plan_and_queue_typed keeps_handler)
     (auto simp: liftr_eq_Inr dest!: try_except_Inr [OF _ processing_handler] split: option.splits,
      (blast intro: event_transition_valid mk_event_state_valid typed_event)+)

section \<open>Actions\<close>

lemma mem_observer_typed:
  "keeps typed_stores (mem_observer_start c eid a res)"
  "keeps typed_stores (mem_observer_finish c h status md reason failure dur)"
  by (auto simp: keeps_def mem_observer_start_def mem_observer_finish_def typed_stores_def Let_def)

lemma durable_observer_typed:
  "keeps typed_stores (durable_observer_start ops c eid a res)"
  "keeps typed_stores (durable_observer_finish ops c h status md reason failure dur)"
  unfolding durable_observer_start_def durable_observer_finish_def
  by (intro keep_intros mem_observer_typed)+

lemma final_transition_wf: "final_transition st r now = Inr st' \<Longrightarrow> wf_lifecycle st'"
  by (auto simp: final_transition_def dest: action_transition_wf split: WorkerExecutionStatus.splits)

lemma retry_typed: "keeps typed_stores (retry_transient n c a failure st)"
  unfolding retry_transient_def by (intro keep_intros) (auto simp: liftr_eq_Inr dest: typed_dests)

lemma process_dequeued_typed: "keeps typed_stores (process_dequeued_action (durable_runtime ops reg run n dump) inp a)"
  unfolding process_dequeued_action_def execute_approved_def conclude_execution_def runtime_sel
  by (intro keep_intros durable_observer_typed retry_typed) (auto simp: liftr_eq_Inr dest: typed_dests final_transition_wf)

lemma process_typed:
  "keeps typed_stores (process_next (durable_runtime ops reg run n dump) inp)"
  "keeps typed_stores (process_action (durable_runtime ops reg run n dump) inp i)"
  unfolding process_next_def process_action_def claim_and_process_def
  by (intro keep_intros process_dequeued_typed)+

lemma recovery_typed:
  "keeps typed_stores (recover_pending ops c i)" "keeps typed_stores (recovery_record_approved ops c a)"
  "keeps typed_stores (recovery_record_rejected ops c a)" "keeps typed_stores (recovery_claim ops c k i)"
  unfolding recover_pending_def recovery_record_approved_def recovery_record_rejected_def ensure_registered_def recovery_claim_def
  by (intro keep_intros)+

lemma claim_typed: "keeps typed_stores (claim_for_continuation ops c k i)"
  unfolding claim_for_continuation_def
  by (rule keeps_try [OF recovery_typed(4)]) (auto intro: keep_intros split: exc.splits)

lemma resolve_pending_typed: "keeps typed_stores (resolve_pending_action (Some (se_recovery ops c)) i)"
proof -
  have "keeps typed_stores (case (found, Some (se_recovery ops c)) of (None, Some recover) \<Rightarrow> recover i | _ \<Rightarrow> ret found)"
    for found
    by (cases found) (simp_all add: se_recovery_def recovery_typed keep_intros)
  then show ?thesis
    unfolding resolve_pending_action_def
    by (intro keeps_bnd) (auto simp: se_recovery_def recovery_typed intro: keep_intros split: option.split)
qed

lemma lifecycle_or_pending_typed: "keeps typed_stores (lifecycle_or_pending c i)"
  unfolding lifecycle_or_pending_def by (intro keep_intros)

lemma recorder_sel:
  "record_approved (se_recorder ops c) = recovery_record_approved ops c"
  "record_rejected (se_recorder ops c) = recovery_record_rejected ops c"
  by (simp_all add: se_recorder_def)

lemma decision_typed:
  "keeps typed_stores (approve_pending_action (Some (se_recovery ops c1)) (Some (se_recorder ops c2)) c i)"
  "keeps typed_stores (reject_pending_action (Some (se_recovery ops c1)) (Some (se_recorder ops c2)) c reason i)"
  unfolding approve_pending_action_def reject_pending_action_def option.case recorder_sel
  by (intro keep_intros resolve_pending_typed recovery_typed lifecycle_or_pending_typed;
      auto simp: liftr_eq_Inr dest: typed_dests)+

lemma delegate_typed: "keeps typed_stores (delegate reg engine dump c i r)"
proof -
  have "keeps typed_stores (case ps of
      ALLOWED \<Rightarrow> bnd (enqueue_action a) (\<lambda>_. ret TD_QUEUED)
    | REQUIRES_APPROVAL \<Rightarrow> ret TD_AWAITING_APPROVAL | DENIED \<Rightarrow> ret TD_DENIED)" for ps a
    by (cases ps; simp; intro keep_intros)
  then show ?thesis
    unfolding delegate_def permission_evaluate_def Let_def by (intro keep_intros evaluate_actions_typed)
qed

lemma ingress_typed: "keeps typed_stores (ingress_delegate ops reg engine dump c rc i objective target)"
  unfolding ingress_delegate_def Let_def by (intro keep_intros delegate_typed)

lemma review_typed:
  "keeps typed_stores (review_after_execution rv i)" "keeps typed_stores (inspect_work_product rv i)"
  "keeps typed_stores (inspect_for_abandon rv i)"
  unfolding review_after_execution_def inspect_work_product_def inspect_for_abandon_def
  by (intro keep_intros; auto intro: keep_intros split: exc.splits)+

lemma continuation_typed:
  "keeps typed_stores (continuation_execute ops (durable_runtime ops reg run n dump) rv c k inp i)"
  unfolding continuation_execute_def
  by (intro keep_intros keeps_bool claim_typed process_typed review_typed)
     (auto simp: liftr_eq_Inr simp del: mk_lifecycle_now dest: typed_dests)

lemma control_typed:
  "keeps typed_stores (control_status ops digest rv i)" "keeps typed_stores (recovery_list_pending ops c)"
  "keeps typed_stores (control_reconcile ops digest rv c i resolution token ack)"
  unfolding control_status_def control_get_def recovery_list_pending_def control_reconcile_def status_from_state_def
  by (intro keep_intros review_typed; cases resolution; simp; intro keep_intros review_typed)+

lemma disposition_typed: "keeps typed_stores (disposition_apply ops disposer c i d)"
  unfolding disposition_apply_def by (intro keep_intros) (auto intro: keep_intros split: exc.splits)

lemma promote_typed: "keeps typed_stores (promote ops h ps c i title body)"
  unfolding promote_def verify_action_def
  by (auto intro!: keep_intros split: option.splits prod.splits)

section \<open>Every reachable server\<close>

lemma restart_typed: "typed_stores (restart_state s)"
  by (simp add: typed_stores_def restart_state_def lifecycle_get_def)

lemma runtime_typed:
  "keeps typed_stores (process_next (cf_runtime cf) inp)" "keeps typed_stores (process_action (cf_runtime cf) inp i)"
  "keeps typed_stores (continuation_execute (cf_ops cf) (cf_runtime cf) rv c k inp i)"
  unfolding cf_runtime_def by (rule process_typed continuation_typed)+

lemmas operations_typed = accept_event_typed process_event_typed ingress_typed decision_typed runtime_typed control_typed
  disposition_typed promote_typed

lemma server_step_typed: "server_step cf x y \<Longrightarrow> typed_stores (fst x) \<Longrightarrow> typed_stores (fst y)"
  by (induction rule: server_step.induct) (auto simp: restart_typed intro: keepsD [OF operations_typed(1)]
      keepsD [OF operations_typed(2)] keepsD [OF operations_typed(3)] keepsD [OF operations_typed(4)]
      keepsD [OF operations_typed(5)] keepsD [OF operations_typed(6)] keepsD [OF operations_typed(7)]
      keepsD [OF operations_typed(8)] keepsD [OF operations_typed(9)] keepsD [OF operations_typed(10)]
      keepsD [OF operations_typed(11)] keepsD [OF operations_typed(12)] keepsD [OF operations_typed(13)])

lemma reachable_typed: "server_reachable cf s0 x \<Longrightarrow> typed_stores s0 \<Longrightarrow> typed_stores (fst x)"
  by (induction rule: server_reachable.induct) (auto dest: server_step_typed)

text \<open>C20. What a reachable server stores is well typed: every lifecycle state of an action has UTC times and no blank
  reason, and every lifecycle state of an event is the state of the event it is filed under, with a UTC time and no
  blank reason. No step writes a state that the validators of its model would have refused, whatever the executors,
  the engine and the database do.\<close>

theorem stores_typed:
  assumes "server_reachable cf s0 (s, G)" "typed_stores s0"
  shows "(\<forall>i st. lifecycle_of s i = Some st \<longrightarrow>
            is_utc (als_created_at st) \<and> is_utc (als_updated_at st) \<and> (\<forall>r. als_reason st = Some r \<longrightarrow> \<not> str_blank r))
       \<and> (\<forall>i st. dict_get (event_lifecycle_states s) i = Some st \<longrightarrow>
            els_event_id st = i \<and> is_utc (els_updated_at st) \<and> (\<forall>r. els_reason st = Some r \<longrightarrow> \<not> str_blank r))"
  using reachable_typed [OF assms]
  by (auto simp: typed_stores_def wf_lifecycle_def valid_event_state_def split: option.splits)

theorem stores_typed_witness:
  "\<exists>st. server_reachable demo_config demo_start (demo_planned, {7}) \<and> lifecycle_of demo_planned 7 = Some st
     \<and> als_status st = APPROVED \<and> is_utc (als_updated_at st)"
proof -
  have "typed_stores demo_start"
    using demo_initial(2) by (simp add: typed_stores_def local_stores_empty_def lifecycle_get_def demo_start_def
        process_state.extend_def server_state.fields_def)
  then show ?thesis
    using stores_typed [OF demo_planned_reachable] demo_planned_eq(4) demo_planned_reachable
    by (auto simp: sample_lifecycle_def)
qed

end
