(* ===== verification/Google_Provider.thy ===== *)
theory Google_Provider
  imports Worker_Runtime
begin

text \<open>
  \<open>integrations/google_provider.py\<close>: the provider boundary that the Google services share. A credentials provider
  and a transport client are operations on a world of type \<open>'w\<close>. The exception
  \<open>GoogleCredentialsProviderError\<close> carries a whole failure record; the result of a credentials provider is
  therefore a failure or credentials, and any other exception is an error of the program.
\<close>

section \<open>Requests, responses and failures\<close>

record google_credentials =
  gc_access_token :: string
  gc_principal :: string
  gc_account :: string
  gc_token_type :: string
  gc_expires_at :: "string option"

record google_provider_request =
  gpr_operation :: string
  gpr_path :: string
  gpr_method :: string
  gpr_body :: "pydict option"
  gpr_query :: pydict
  gpr_account_context :: "worker_account_context option"

record google_provider_failure =
  gpf_category :: WorkerExecutionFailureCategory
  gpf_message :: string
  gpf_retryable :: bool
  gpf_provider_status_code :: "int option"
  gpf_provider_reason :: "string option"
  gpf_metadata :: pydict

record google_provider_response =
  gpp_status_code :: int
  gpp_body :: pydict
  gpp_headers :: "(string \<times> string) list"
  gpp_failure :: "google_provider_failure option"

type_synonym 'w credentials_provider =
  "string option \<Rightarrow> string option \<Rightarrow> ('w, google_provider_failure + google_credentials) prog"

type_synonym 'w transport_client =
  "google_provider_request \<Rightarrow> google_credentials \<Rightarrow> ('w, google_provider_response) prog"

text \<open>\<open>failure.provider_status_code or 500\<close>.\<close>

definition status_or_500 :: "google_provider_failure \<Rightarrow> int" where
  "status_or_500 f = (case gpf_provider_status_code f of None \<Rightarrow> 500 | Some n \<Rightarrow> if n = 0 then 500 else n)"

definition failed_body :: "string \<Rightarrow> string \<Rightarrow> string \<Rightarrow> pydict" where
  "failed_body service adapter operation =
     [(''external_execution_performed'', PBool False), (''integration'', PStr service), (''adapter'', PStr adapter),
      (''operation'', PStr operation), (''failed'', PBool True)]"

section \<open>The deterministic credentials provider\<close>

definition missing_identifier :: "string \<Rightarrow> string \<Rightarrow> google_provider_failure" where
  "missing_identifier service field_name =
     \<lparr>gpf_category = PERMANENT, gpf_message = service @ '' credentials request missing '' @ field_name,
      gpf_retryable = False, gpf_provider_status_code = None, gpf_provider_reason = None,
      gpf_metadata = [(''field'', PStr field_name)]\<rparr>"

definition google_normalize_identifier ::
  "string \<Rightarrow> string option \<Rightarrow> string \<Rightarrow> google_provider_failure + string" where
  "google_normalize_identifier service v field_name =
     (case v of
        Some s \<Rightarrow> if str_blank s then Inl (missing_identifier service field_name) else Inr (str_strip s)
      | None \<Rightarrow> Inl (missing_identifier service field_name))"

definition fake_get_credentials ::
  "string \<Rightarrow> (string \<times> google_provider_failure) list \<Rightarrow> 'w credentials_provider" where
  "fake_get_credentials service failures prin account =
     ret (case google_normalize_identifier service prin ''principal'' of
        Inl f \<Rightarrow> Inl f
      | Inr p \<Rightarrow>
          (case google_normalize_identifier service account ''account'' of
             Inl f \<Rightarrow> Inl f
           | Inr a \<Rightarrow>
               (case find_first (\<lambda>k. dict_has failures k) [p @ '':'' @ a, p, a] of
                  Some k \<Rightarrow> Inl (the (dict_get failures k))
                | None \<Rightarrow>
                    Inr \<lparr>gc_access_token = ''fake-'' @ service @ ''-access-token:'' @ p @ '':'' @ a,
                         gc_principal = p, gc_account = a, gc_token_type = ''Bearer'',
                         gc_expires_at = Some ''2099-01-01T00:00:00Z''\<rparr>)))"

section \<open>The deterministic transport\<close>

definition request_key :: "google_provider_request \<Rightarrow> string" where
  "request_key r = gpr_method r @ '':'' @ gpr_path r @ '':'' @ gpr_operation r"

definition google_default_response ::
  "string \<Rightarrow> google_provider_request \<Rightarrow> google_credentials \<Rightarrow> google_provider_response" where
  "google_default_response service r c =
     \<lparr>gpp_status_code = 200,
      gpp_body = [(''external_execution_performed'', PBool False), (''integration'', PStr service),
        (''adapter'', PStr ''fake_transport''), (''operation'', PStr (gpr_operation r)), (''path'', PStr (gpr_path r)),
        (''method'', PStr (gpr_method r)), (''token_type'', PStr (gc_token_type c)),
        (''principal'', PStr (gc_principal c)), (''account'', PStr (gc_account c))],
      gpp_headers = [], gpp_failure = None\<rparr>"

text \<open>\<open>default_response\<close> is the method \<open>_default_response\<close>, which a service may override and which may raise.\<close>

definition fake_transport_execute ::
  "string \<Rightarrow> (string \<times> google_provider_response) list \<Rightarrow> (string \<times> google_provider_failure) list
     \<Rightarrow> (google_provider_request \<Rightarrow> google_credentials \<Rightarrow> google_provider_response result) \<Rightarrow> 'w transport_client" where
  "fake_transport_execute service responses failures default_response r c =
     (let keys = [request_key r, gpr_operation r] in
      case find_first (\<lambda>k. dict_has failures k) keys of
        Some k \<Rightarrow>
          let f = the (dict_get failures k) in
          ret \<lparr>gpp_status_code = status_or_500 f,
               gpp_body = failed_body service ''fake_transport'' (gpr_operation r),
               gpp_headers = [], gpp_failure = Some f\<rparr>
      | None \<Rightarrow>
          (case find_first (\<lambda>k. dict_has responses k) keys of
             Some k \<Rightarrow> ret (the (dict_get responses k))
           | None \<Rightarrow> liftr (default_response r c)))"

section \<open>The composition\<close>

record 'w provider_composition =
  gp_service :: string
  gp_credentials :: "'w credentials_provider"
  gp_transport :: "'w transport_client"

definition context_mismatch ::
  "worker_account_context \<Rightarrow> string option \<Rightarrow> string option \<Rightarrow> bool" where
  "context_mismatch ctx prin account \<longleftrightarrow>
     (prin \<noteq> None \<and> map_option str_strip prin \<noteq> wac_principal ctx)
     \<or> (account \<noteq> None \<and> map_option str_strip account \<noteq> Some (wac_account_identifier ctx))"

definition mismatch_response :: "string \<Rightarrow> google_provider_request \<Rightarrow> google_provider_response" where
  "mismatch_response service r =
     \<lparr>gpp_status_code = 400, gpp_body = failed_body service ''fake_provider_composition'' (gpr_operation r),
      gpp_headers = [],
      gpp_failure = Some \<lparr>gpf_category = PERMANENT,
        gpf_message = service @ '' provider request account context mismatch'', gpf_retryable = False,
        gpf_provider_status_code = None, gpf_provider_reason = None,
        gpf_metadata = [(''field'', PStr ''account_context'')]\<rparr>\<rparr>"

definition provider_execute ::
  "'w provider_composition \<Rightarrow> google_provider_request \<Rightarrow> string option \<Rightarrow> string option
     \<Rightarrow> ('w, google_provider_response) prog" where
  "provider_execute gp r prin account =
     (if (case gpr_account_context r of None \<Rightarrow> False | Some ctx \<Rightarrow> context_mismatch ctx prin account)
      then ret (mismatch_response (gp_service gp) r)
      else
        let (p, a) = (case gpr_account_context r of
               None \<Rightarrow> (prin, account)
             | Some ctx \<Rightarrow> (wac_principal ctx, Some (wac_account_identifier ctx)))
        in bnd (gp_credentials gp p a) (\<lambda>credentials.
           case credentials of
             Inl f \<Rightarrow>
               ret \<lparr>gpp_status_code = status_or_500 f,
                    gpp_body = failed_body (gp_service gp) ''fake_provider_composition'' (gpr_operation r),
                    gpp_headers = [], gpp_failure = Some f\<rparr>
           | Inr c \<Rightarrow> gp_transport gp r c))"

section \<open>Facts about the composition\<close>

text \<open>A request that carries an account context is answered for that account whatever the caller names, unless the
  caller names another one; then nothing is reached.\<close>

lemma provider_execute_context:
  assumes "gpr_account_context r = Some ctx"
  shows "provider_execute gp r prin account =
    (if context_mismatch ctx prin account then ret (mismatch_response (gp_service gp) r)
     else provider_execute gp r None None)"
  using assms by (auto simp: provider_execute_def context_mismatch_def)

text \<open>C29. Account isolation at the provider boundary: the answer to a request that carries an account context depends only
  on the credentials of exactly that principal and account; and when the caller names another principal or account,
  the request is answered with a permanent failure and neither the credentials provider nor the transport is reached.\<close>

theorem provider_account_isolation:
  assumes "gpr_account_context r = Some ctx" "gp_service gp' = gp_service gp" "gp_transport gp' = gp_transport gp"
    and "gp_credentials gp' (wac_principal ctx) (Some (wac_account_identifier ctx)) =
      gp_credentials gp (wac_principal ctx) (Some (wac_account_identifier ctx))"
  shows "provider_execute gp' r prin account = provider_execute gp r prin account
    \<and> (context_mismatch ctx prin account \<longrightarrow> (\<exists>resp f. gpp_failure resp = Some f \<and> gpf_category f = PERMANENT
         \<and> gpp_status_code resp = 400 \<and> (\<forall>w. provider_execute gp r prin account w = (Inr resp, w))))"
proof
  show "provider_execute gp' r prin account = provider_execute gp r prin account"
    using assms by (simp add: provider_execute_def)
  show "context_mismatch ctx prin account \<longrightarrow> (\<exists>resp f. gpp_failure resp = Some f \<and> gpf_category f = PERMANENT
         \<and> gpp_status_code resp = 400 \<and> (\<forall>w. provider_execute gp r prin account w = (Inr resp, w)))"
    using assms(1) by (auto simp: provider_execute_context mismatch_response_def)
qed

definition google_sample :: "string \<Rightarrow> nat provider_composition" where
  "google_sample secret = \<lparr>gp_service = ''calendar'',
     gp_credentials = (\<lambda>p a. if a = Some ''mine'' then fake_get_credentials ''calendar'' [] p a
        else ret (Inr \<lparr>gc_access_token = secret, gc_principal = '''', gc_account = '''', gc_token_type = '''', gc_expires_at = None\<rparr>)),
     gp_transport = (\<lambda>r c w. (Inr (google_default_response ''calendar'' r c), Suc w))\<rparr>"

definition google_sample_context :: worker_account_context where
  "google_sample_context = \<lparr>wac_principal = Some ''me'', wac_account_identifier = ''mine''\<rparr>"

definition google_sample_request :: google_provider_request where
  "google_sample_request = \<lparr>gpr_operation = ''op'', gpr_path = ''/'', gpr_method = ''GET'', gpr_body = None, gpr_query = [],
     gpr_account_context = Some google_sample_context\<rparr>"

lemma google_sample_mismatch: "context_mismatch google_sample_context None (Some ''other'')"
  by code_simp

theorem provider_account_isolation_witness:
  "provider_execute (google_sample ''x'') google_sample_request None None 0 =
     provider_execute (google_sample ''y'') google_sample_request None None 0
   \<and> snd (provider_execute (google_sample ''y'') google_sample_request None (Some ''other'') 0) = 0"
proof -
  have iso: "provider_execute (google_sample ''x'') google_sample_request prin account = provider_execute (google_sample ''y'') google_sample_request prin account
    \<and> (context_mismatch google_sample_context prin account \<longrightarrow> (\<exists>resp f. gpp_failure resp = Some f \<and> gpf_category f = PERMANENT
         \<and> gpp_status_code resp = 400 \<and> (\<forall>w. provider_execute (google_sample ''y'') google_sample_request prin account w = (Inr resp, w))))"
    for prin account
    by (rule provider_account_isolation) (simp_all add: google_sample_def google_sample_request_def google_sample_context_def)
  then show ?thesis
    using google_sample_mismatch by (metis snd_conv)
qed

end
