(* ===== verification/Py_Values.thy ===== *)
theory Py_Values
  imports Py_Time
begin

text \<open>
  Python on \<open>Any\<close> values: numbers and their text, \<open>str\<close>, \<open>==\<close>, and the items of a value that are text. \<open>repr\<close> of
  containers and floats is the parameter \<open>py_repr\<close>.
\<close>

definition int_str :: "int \<Rightarrow> string" where
  "int_str n = (if n < 0 then ''-'' @ nat_str (nat (- n)) else nat_str (nat n))"

text \<open>The number a value stands for; truth values are integers.\<close>

definition py_number :: "pyval \<Rightarrow> rat option" where
  "py_number v = (case v of PInt n \<Rightarrow> Some (of_int n) | PFloat r \<Rightarrow> Some r
     | PBool b \<Rightarrow> Some (if b then 1 else 0) | _ \<Rightarrow> None)"

text \<open>\<open>str(value)\<close>.\<close>

fun py_str :: "(pyval \<Rightarrow> string) \<Rightarrow> pyval \<Rightarrow> string" where
  "py_str py_repr (PStr s) = s"
| "py_str py_repr PNone = ''None''"
| "py_str py_repr (PBool b) = (if b then ''True'' else ''False'')"
| "py_str py_repr (PInt i) = int_str i"
| "py_str py_repr v = py_repr v"

text \<open>\<open>==\<close>: numbers and truth values compare by value, containers by their elements.\<close>

fun py_eq :: "pyval \<Rightarrow> pyval \<Rightarrow> bool"
  and py_eqs :: "pyval list \<Rightarrow> pyval list \<Rightarrow> bool"
  and py_dict_within :: "pydict \<Rightarrow> pydict \<Rightarrow> bool" where
  "py_eq (PList xs) v = (case v of PList ys \<Rightarrow> py_eqs xs ys | _ \<Rightarrow> False)"
| "py_eq (PTuple xs) v = (case v of PTuple ys \<Rightarrow> py_eqs xs ys | _ \<Rightarrow> False)"
| "py_eq (PDict d) v = (case v of PDict e \<Rightarrow> length d = length e \<and> py_dict_within d e | _ \<Rightarrow> False)"
| "py_eq (PStr s) v = (v = PStr s)"
| "py_eq PNone v = (v = PNone)"
| "py_eq (PBool b) v = (py_number v = Some (if b then 1 else 0))"
| "py_eq (PInt n) v = (py_number v = Some (of_int n))"
| "py_eq (PFloat r) v = (py_number v = Some r)"
| "py_eqs [] ys = (ys = [])"
| "py_eqs (x # xs) ys = (case ys of [] \<Rightarrow> False | y # ys' \<Rightarrow> py_eq x y \<and> py_eqs xs ys')"
| "py_dict_within [] e = True"
| "py_dict_within ((k, v) # d) e = ((case dict_get e k of None \<Rightarrow> False | Some w \<Rightarrow> py_eq v w) \<and> py_dict_within d e)"

text \<open>\<open>[item for item in (value or []) if isinstance(item, str)]\<close>.\<close>

definition text_items :: "pyval \<Rightarrow> string list result" where
  "text_items v =
     (let texts_of = (\<lambda>xs. concat (map (\<lambda>x. case x of PStr s \<Rightarrow> [s] | _ \<Rightarrow> []) xs)) in
      if \<not> truthy v then Inr []
      else (case v of
          PList xs \<Rightarrow> Inr (texts_of xs)
        | PTuple xs \<Rightarrow> Inr (texts_of xs)
        | PStr s \<Rightarrow> Inr (map (\<lambda>c. [c]) s)
        | PDict d \<Rightarrow> Inr (map fst d)
        | PBool _ \<Rightarrow> Inl (TypeError (CHR 0x27 # ''bool'' @ [CHR 0x27] @ '' object is not iterable''))
        | PInt _ \<Rightarrow> Inl (TypeError (CHR 0x27 # ''int'' @ [CHR 0x27] @ '' object is not iterable''))
        | _ \<Rightarrow> Inl (TypeError (CHR 0x27 # ''float'' @ [CHR 0x27] @ '' object is not iterable''))))"

definition or_text :: "string \<Rightarrow> string \<Rightarrow> string" where
  "or_text s fallback = (if s = '''' then fallback else s)"

end
