(* ===== verification/Calendar_Listing.thy ===== *)
theory Calendar_Listing
  imports Google_Provider Py_Values
begin

text \<open>
  \<open>integrations/calendar.py\<close>: bounded listing of calendar events. The theory follows the file: the validated
  requests, the deterministic transport, the HTTP transport, the worker executor and the orchestrator that walks
  pages. The HTTP client (httpx) is an operation on the world that answers a GET with a response, with a
  transport error or with another exception; the body of a response is its decoded JSON, if it is JSON.
  CPython's limit on the length of the argument of \<open>int()\<close> is not modelled.
\<close>

section \<open>Text\<close>

text \<open>\<open>str.isdigit\<close>: the decimal digits and the superscripts one, two and three.\<close>

definition str_isdigit :: "string \<Rightarrow> bool" where
  "str_isdigit s \<longleftrightarrow> s \<noteq> [] \<and> list_all (\<lambda>c. dec_val c \<noteq> None \<or> chr_code c \<in> {178, 179, 185}) s"

text \<open>\<open>urllib.parse.quote(text, safe='')\<close>: percent-encoded UTF-8, the unreserved characters excepted.\<close>

definition unreserved :: "char \<Rightarrow> bool" where
  "unreserved c \<longleftrightarrow> (let n = chr_code c in
     (65 \<le> n \<and> n \<le> 90) \<or> (97 \<le> n \<and> n \<le> 122) \<or> (48 \<le> n \<and> n \<le> 57) \<or> n \<in> {95, 46, 45, 126})"

definition utf8_bytes :: "char \<Rightarrow> nat list" where
  "utf8_bytes c = (let n = chr_code c in if n < 128 then [n] else [192 + n div 64, 128 + n mod 64])"

definition upper_hex :: "nat \<Rightarrow> char" where
  "upper_hex n = ''0123456789ABCDEF'' ! n"

definition percent :: "nat \<Rightarrow> string" where
  "percent b = [CHR ''%'', upper_hex (b div 16), upper_hex (b mod 16)]"

definition quote :: "string \<Rightarrow> string" where
  "quote s = concat (map (\<lambda>c. if unreserved c then [c] else concat (map percent (utf8_bytes c))) s)"

text \<open>\<open>urllib.parse.unquote\<close>: maximal runs of percent escapes are decoded as UTF-8. Each byte that is not part of a
  character of the modelled range (Python decodes it to a character beyond that range, or replaces it by U+FFFD)
  is the character SUB here.\<close>

definition sub_chr :: char where
  "sub_chr = CHR 0x1A"

fun utf8_decode :: "nat list \<Rightarrow> string" where
  "utf8_decode [] = []"
| "utf8_decode [b] = [if b < 128 then char_of b else sub_chr]"
| "utf8_decode (b # c # bs) =
     (if b < 128 then char_of b # utf8_decode (c # bs)
      else if 194 \<le> b \<and> b \<le> 195 \<and> 128 \<le> c \<and> c < 192 then char_of ((b - 192) * 64 + (c - 128)) # utf8_decode bs
      else sub_chr # utf8_decode (c # bs))"

fun unquote_run :: "nat list \<Rightarrow> string \<Rightarrow> string" where
  "unquote_run acc [] = utf8_decode (rev acc)"
| "unquote_run acc (p # a # b # s) =
     (if p = CHR ''%'' \<and> digit_val a \<noteq> None \<and> digit_val b \<noteq> None
      then unquote_run ((the (digit_val a) * 16 + the (digit_val b)) # acc) s
      else utf8_decode (rev acc) @ p # unquote_run [] (a # b # s))"
| "unquote_run acc (p # s) = utf8_decode (rev acc) @ p # unquote_run [] s"

definition unquote :: "string \<Rightarrow> string" where
  "unquote s = unquote_run [] s"

section \<open>Constants\<close>

definition CALENDAR_EXECUTOR_ROLE :: ExecutorRole where
  "CALENDAR_EXECUTOR_ROLE = CONTEXT_PREPARATION"

definition CALENDAR_PREPARE_MEETING :: string where "CALENDAR_PREPARE_MEETING = ''prepare_meeting''"

definition CALENDAR_PREPARE_CONTEXT :: string where "CALENDAR_PREPARE_CONTEXT = ''prepare_calendar_context''"

definition CALENDAR_LIST_EVENTS :: string where "CALENDAR_LIST_EVENTS = ''list_calendar_events''"

definition CALENDAR_WORKER_CAPABILITIES :: "worker_capability list" where
  "CALENDAR_WORKER_CAPABILITIES =
     map (\<lambda>i. \<lparr>wc_identifier = i, wc_role = role_value CALENDAR_EXECUTOR_ROLE, wc_provider = ''calendar''\<rparr>)
       [CALENDAR_PREPARE_MEETING, CALENDAR_PREPARE_CONTEXT, CALENDAR_LIST_EVENTS]"

definition CALENDAR_ACCOUNT_CONTEXT :: worker_account_context where
  "CALENDAR_ACCOUNT_CONTEXT =
     \<lparr>wac_principal = Some ''velox-local-principal'', wac_account_identifier = ''calendar-local-account''\<rparr>"

definition GOOGLE_CALENDAR_EVENTS_PATH :: string where
  "GOOGLE_CALENDAR_EVENTS_PATH = ''/calendar/v3/calendars/primary/events''"

definition CALENDAR_LIST_MAX_MAX_RESULTS :: int where "CALENDAR_LIST_MAX_MAX_RESULTS = 50"

definition CALENDAR_LIST_MAX_MAX_PAGES :: int where "CALENDAR_LIST_MAX_MAX_PAGES = 10"

definition CALENDAR_LIST_QUERY_FIELDS :: "string set" where
  "CALENDAR_LIST_QUERY_FIELDS = {''timeMin'', ''timeMax'', ''maxResults'', ''singleEvents'', ''orderBy''}"

definition REDACTED_QUERY_VALUE :: string where "REDACTED_QUERY_VALUE = ''<redacted>''"

definition FAKE_CALENDAR_PAGE_TOKEN_PREFIX :: string where
  "FAKE_CALENDAR_PAGE_TOKEN_PREFIX = ''fake-calendar-page-''"

definition GOOGLE_RATE_LIMIT_REASONS :: "string set" where
  "GOOGLE_RATE_LIMIT_REASONS = {''rateLimitExceeded'', ''userRateLimitExceeded'', ''quotaExceeded''}"

section \<open>Validated requests\<close>

record calendar_event =
  ce_event_id :: string
  ce_title :: string
  ce_start :: string
  ce_end :: string
  ce_attendees :: "string list"

record calendar_event_list_request =
  clr_time_min :: string
  clr_time_max :: string
  clr_max_results :: int
  clr_page_token :: "string option"

record calendar_orchestration_request =
  cor_time_min :: string
  cor_time_max :: string
  cor_max_results :: int
  cor_max_pages :: int

text \<open>\<open>fullmatch\<close> of the RFC 3339 pattern.\<close>

definition rfc3339_zone :: "string \<Rightarrow> bool" where
  "rfc3339_zone s \<longleftrightarrow> s = ''Z'' \<or>
     (s \<noteq> [] \<and> hd s \<in> {CHR ''+'', CHR ''-''} \<and>
      (case do { (_, s) \<leftarrow> take_dec 2 0 (tl s); s \<leftarrow> expect_chr (CHR '':'') s; take_dec 2 0 s } of
         Some (_, r) \<Rightarrow> r = [] | None \<Rightarrow> False))"

definition rfc3339_match :: "string \<Rightarrow> bool" where
  "rfc3339_match s =
     (case do {
        (_, s) \<leftarrow> take_dec 4 0 s; s \<leftarrow> expect_chr (CHR ''-'') s;
        (_, s) \<leftarrow> take_dec 2 0 s; s \<leftarrow> expect_chr (CHR ''-'') s;
        (_, s) \<leftarrow> take_dec 2 0 s; s \<leftarrow> expect_chr (CHR ''T'') s;
        (_, s) \<leftarrow> take_dec 2 0 s; s \<leftarrow> expect_chr (CHR '':'') s;
        (_, s) \<leftarrow> take_dec 2 0 s; s \<leftarrow> expect_chr (CHR '':'') s;
        take_dec 2 0 s } of
        None \<Rightarrow> False
      | Some (_, r) \<Rightarrow>
          (case expect_chr (CHR ''.'') r of
             None \<Rightarrow> rfc3339_zone r
           | Some f \<Rightarrow> f \<noteq> [] \<and> dec_val (hd f) \<noteq> None \<and> rfc3339_zone (dropWhile (\<lambda>c. dec_val c \<noteq> None) f)))"

definition list_request_error :: "string \<Rightarrow> string \<Rightarrow> exc" where
  "list_request_error field_name text =
     CalendarEventListRequestError (''calendar list request '' @ text) field_name"

definition validated_rfc3339_timestamp :: "pyval \<Rightarrow> string \<Rightarrow> datetime result" where
  "validated_rfc3339_timestamp v field_name =
     (case v of
        PStr s \<Rightarrow>
          if \<not> rfc3339_match s
          then Inl (list_request_error field_name (field_name @ '' must be an RFC3339 timestamp''))
          else (case fromisoformat s of
              Inl _ \<Rightarrow> Inl (list_request_error field_name (field_name @ '' must be an RFC3339 timestamp''))
            | Inr d \<Rightarrow>
                if dt_offset d = None
                then Inl (list_request_error field_name (field_name @ '' must carry an explicit UTC offset''))
                else Inr d)
      | _ \<Rightarrow> Inl (list_request_error field_name (field_name @ '' must be an RFC3339 timestamp'')))"

definition unpadded :: "string \<Rightarrow> bool" where
  "unpadded s \<longleftrightarrow> s \<noteq> [] \<and> str_strip s = s"

definition mk_calendar_event_list_request ::
  "pyval \<Rightarrow> pyval \<Rightarrow> pyval \<Rightarrow> pyval \<Rightarrow> calendar_event_list_request result" where
  "mk_calendar_event_list_request time_min time_max max_results page_token =
     rbind (validated_rfc3339_timestamp time_min ''time_min'') (\<lambda>window_start.
     rbind (validated_rfc3339_timestamp time_max ''time_max'') (\<lambda>window_end.
     rbind (guard_exc (dt_instant window_start < dt_instant window_end)
              (list_request_error ''time_min'' ''requires time_min earlier than time_max'')) (\<lambda>_.
     case max_results of
       PInt n \<Rightarrow>
         rbind (guard_exc (1 \<le> n \<and> n \<le> CALENDAR_LIST_MAX_MAX_RESULTS)
                  (list_request_error ''max_results'' ''max_results is outside the allowed range'')) (\<lambda>_.
         rbind (guard_exc (case page_token of PNone \<Rightarrow> True | PStr t \<Rightarrow> unpadded t | _ \<Rightarrow> False)
                  (list_request_error ''page_token'' ''page_token must be a non-blank unpadded string'')) (\<lambda>_.
         case (time_min, time_max) of
           (PStr a, PStr b) \<Rightarrow>
             Inr \<lparr>clr_time_min = a, clr_time_max = b, clr_max_results = n,
                  clr_page_token = (case page_token of PStr t \<Rightarrow> Some t | _ \<Rightarrow> None)\<rparr>
         | _ \<Rightarrow> Inl (list_request_error ''time_min'' ''time_min must be an RFC3339 timestamp'')))
     | _ \<Rightarrow> Inl (list_request_error ''max_results'' ''max_results must be an integer''))))"

definition as_query :: "calendar_event_list_request \<Rightarrow> pydict" where
  "as_query r =
     [(''timeMin'', PStr (clr_time_min r)), (''timeMax'', PStr (clr_time_max r)),
      (''maxResults'', PStr (int_str (clr_max_results r))), (''singleEvents'', PStr ''true''),
      (''orderBy'', PStr ''startTime'')]
     @ (case clr_page_token r of None \<Rightarrow> [] | Some t \<Rightarrow> [(''pageToken'', PStr t)])"

definition mk_calendar_orchestration_request ::
  "pyval \<Rightarrow> pyval \<Rightarrow> pyval \<Rightarrow> pyval \<Rightarrow> calendar_orchestration_request result" where
  "mk_calendar_orchestration_request time_min time_max max_results max_pages =
     rbind (mk_calendar_event_list_request time_min time_max max_results PNone) (\<lambda>r.
     case max_pages of
       PInt n \<Rightarrow>
         rbind (guard_exc (1 \<le> n \<and> n \<le> CALENDAR_LIST_MAX_MAX_PAGES)
                  (CalendarEventListRequestError
                     ''calendar list orchestration max_pages is outside the allowed range'' ''max_pages'')) (\<lambda>_.
         Inr \<lparr>cor_time_min = clr_time_min r, cor_time_max = clr_time_max r,
              cor_max_results = clr_max_results r, cor_max_pages = n\<rparr>)
     | _ \<Rightarrow> Inl (CalendarEventListRequestError
              ''calendar list orchestration max_pages must be an integer'' ''max_pages''))"

section \<open>The deterministic transport\<close>

definition calendar_event_dict :: "calendar_event \<Rightarrow> pyval" where
  "calendar_event_dict e =
     PDict [(''event_id'', PStr (ce_event_id e)), (''title'', PStr (ce_title e)), (''start'', PStr (ce_start e)),
            (''end'', PStr (ce_end e)), (''attendees'', PTuple (map PStr (ce_attendees e)))]"

definition page_token_offset :: "pyval \<Rightarrow> nat \<Rightarrow> nat option result" where
  "page_token_offset page_token event_count =
     (case page_token of
        PStr t \<Rightarrow>
          if \<not> str_startswith t FAKE_CALENDAR_PAGE_TOKEN_PREFIX then Inr None
          else
            let offset = drop (length FAKE_CALENDAR_PAGE_TOKEN_PREFIX) t in
            if \<not> str_isdigit offset then Inr None
            else rbind (int_of_str offset) (\<lambda>n. Inr (if int event_count < n then None else Some (nat n)))
      | _ \<Rightarrow> Inr None)"

definition invalid_page_token_response :: google_provider_response where
  "invalid_page_token_response =
     \<lparr>gpp_status_code = 400,
      gpp_body = [(''external_execution_performed'', PBool False), (''integration'', PStr ''calendar''),
        (''adapter'', PStr ''fake_transport''), (''failed'', PBool True)],
      gpp_headers = [],
      gpp_failure = Some \<lparr>gpf_category = PERMANENT, gpf_message = ''Google Calendar rejected the event request'',
        gpf_retryable = False, gpf_provider_status_code = Some 400, gpf_provider_reason = Some ''invalidRequest'',
        gpf_metadata = []\<rparr>\<rparr>"

definition fake_list_page :: "calendar_event list \<Rightarrow> nat \<Rightarrow> nat \<Rightarrow> google_provider_response" where
  "fake_list_page ordered offset limit =
     (let page = take limit (drop offset ordered);
          next_offset = offset + length page
      in \<lparr>gpp_status_code = 200,
          gpp_body = [(''external_execution_performed'', PBool False), (''integration'', PStr ''calendar''),
            (''adapter'', PStr ''fake_transport''), (''events'', PTuple (map calendar_event_dict page)),
            (''skipped_event_count'', PInt 0),
            (''next_page_token'', if next_offset < length ordered
               then PStr (FAKE_CALENDAR_PAGE_TOKEN_PREFIX @ nat_str next_offset) else PNone)],
          gpp_headers = [], gpp_failure = None\<rparr>)"

definition default_list_response :: "calendar_event list \<Rightarrow> google_provider_request \<Rightarrow> google_provider_response result" where
  "default_list_response ordered r =
     rbind (case pd_get (gpr_query r) ''maxResults'' of
              PStr m \<Rightarrow> if str_isdigit m then rbind (int_of_str m) (\<lambda>n. Inr (nat n)) else Inr (length ordered)
            | _ \<Rightarrow> Inr (length ordered)) (\<lambda>limit.
     case pd_get (gpr_query r) ''pageToken'' of
       PNone \<Rightarrow> Inr (fake_list_page ordered 0 limit)
     | token \<Rightarrow>
         rbind (page_token_offset token (length ordered)) (\<lambda>resolved.
         case resolved of
           None \<Rightarrow> Inr invalid_page_token_response
         | Some offset \<Rightarrow> Inr (fake_list_page ordered offset limit)))"

definition after_last_slash :: "string \<Rightarrow> string" where
  "after_last_slash s = rev (takeWhile (\<lambda>c. c \<noteq> CHR ''/'') (rev s))"

definition calendar_identifiers :: "string list" where
  "calendar_identifiers = map wc_identifier CALENDAR_WORKER_CAPABILITIES"

definition calendar_default_response ::
  "(string \<times> calendar_event) list \<Rightarrow> google_provider_request \<Rightarrow> google_credentials \<Rightarrow> google_provider_response result" where
  "calendar_default_response events r c =
     (if gpr_operation r = CALENDAR_LIST_EVENTS then default_list_response (map snd events) r
      else if gpr_operation r \<notin> set calendar_identifiers then Inr (google_default_response ''calendar'' r c)
      else
        let found = dict_get events (unquote (after_last_slash (gpr_path r))) in
        Inr \<lparr>gpp_status_code = 200,
             gpp_body = [(''external_execution_performed'', PBool False), (''integration'', PStr ''calendar''),
               (''adapter'', PStr ''fake_transport''), (''found'', PBool (found \<noteq> None))]
               @ (case found of None \<Rightarrow> [] | Some e \<Rightarrow> [(''event'', calendar_event_dict e)]),
             gpp_headers = [], gpp_failure = None\<rparr>)"

definition fake_calendar_composition ::
  "(string \<times> google_provider_response) list \<Rightarrow> (string \<times> google_provider_failure) list \<Rightarrow> (string \<times> calendar_event) list
     \<Rightarrow> (string \<times> google_provider_failure) list \<Rightarrow> 'w provider_composition" where
  "fake_calendar_composition responses failures events credential_failures =
     \<lparr>gp_service = ''calendar'', gp_credentials = fake_get_credentials ''calendar'' credential_failures,
      gp_transport = fake_transport_execute ''calendar'' responses failures (calendar_default_response events)\<rparr>"

section \<open>The HTTP transport\<close>

record http_response =
  hr_status_code :: int
  hr_json :: "pyval option"

datatype http_outcome = HttpResponse http_response | HttpTransportError | HttpOtherError

type_synonym 'w http_get =
  "string \<Rightarrow> pydict \<Rightarrow> (string \<times> string) list \<Rightarrow> rat \<Rightarrow> 'w \<Rightarrow> http_outcome \<times> 'w"

record 'w httpx_transport =
  hx_client :: "'w http_get"
  hx_timeout_seconds :: rat
  hx_api_base_url :: string

definition mk_httpx_transport :: "'w http_get \<Rightarrow> pyval \<Rightarrow> pyval \<Rightarrow> 'w httpx_transport result" where
  "mk_httpx_transport client timeout_seconds api_base_url =
     (case py_number timeout_seconds of
        Some t \<Rightarrow>
          if \<not> (0 < t \<and> t \<le> 60)
          then Inl (ValueError ''calendar HTTP timeout must be between 0 and 60 seconds'')
          else (case api_base_url of
              PStr u \<Rightarrow>
                if str_blank u then Inl (ValueError ''calendar API base URL must be a non-blank string'')
                else Inr \<lparr>hx_client = client, hx_timeout_seconds = t,
                          hx_api_base_url = rev (dropWhile (\<lambda>c. c = CHR ''/'') (rev u))\<rparr>
            | _ \<Rightarrow> Inl (ValueError ''calendar API base URL must be a non-blank string''))
      | None \<Rightarrow> Inl (ValueError ''calendar HTTP timeout must be between 0 and 60 seconds''))"

definition safe_body :: "bool \<Rightarrow> bool \<Rightarrow> pydict" where
  "safe_body performed failed =
     [(''external_execution_performed'', PBool performed), (''integration'', PStr ''calendar''),
      (''adapter'', PStr ''httpx_transport'')] @ (if failed then [(''failed'', PBool True)] else [])"

definition failure_response ::
  "int \<Rightarrow> WorkerExecutionFailureCategory \<Rightarrow> string \<Rightarrow> bool \<Rightarrow> string \<Rightarrow> bool \<Rightarrow> google_provider_response" where
  "failure_response status category message retryable reason performed =
     \<lparr>gpp_status_code = status, gpp_body = safe_body performed True, gpp_headers = [],
      gpp_failure = Some \<lparr>gpf_category = category, gpf_message = message, gpf_retryable = retryable,
        gpf_provider_status_code = Some status, gpf_provider_reason = Some reason, gpf_metadata = []\<rparr>\<rparr>"

definition is_bounded_list_request :: "google_provider_request \<Rightarrow> bool result" where
  "is_bounded_list_request r =
     (let q = gpr_query r; fields = set (map fst q) in
      if gpr_operation r \<noteq> CALENDAR_LIST_EVENTS \<or> gpr_method r \<noteq> ''GET'' \<or> gpr_body r \<noteq> None
         \<or> gpr_path r \<noteq> GOOGLE_CALENDAR_EVENTS_PATH then Inr False
      else if fields \<noteq> CALENDAR_LIST_QUERY_FIELDS \<and> fields \<noteq> insert ''pageToken'' CALENDAR_LIST_QUERY_FIELDS
      then Inr False
      else if pd_get q ''singleEvents'' \<noteq> PStr ''true'' \<or> pd_get q ''orderBy'' \<noteq> PStr ''startTime'' then Inr False
      else (case pd_get q ''maxResults'' of
          PStr m \<Rightarrow>
            if \<not> str_isdigit m then Inr False
            else if dict_has q ''pageToken'' \<and> pd_get q ''pageToken'' = PNone then Inr False
            else rbind (int_of_str m) (\<lambda>n.
              case mk_calendar_event_list_request (pd_get q ''timeMin'') (pd_get q ''timeMax'') (PInt n)
                     (pd_get q ''pageToken'') of
                Inl (CalendarEventListRequestError _ _) \<Rightarrow> Inr False
              | Inl e \<Rightarrow> Inl e
              | Inr _ \<Rightarrow> Inr True)
        | _ \<Rightarrow> Inr False))"

definition requested_event_id :: "google_provider_request \<Rightarrow> string option" where
  "requested_event_id r =
     (let prefix = GOOGLE_CALENDAR_EVENTS_PATH @ ''/'' in
      if gpr_operation r \<notin> {CALENDAR_PREPARE_MEETING, CALENDAR_PREPARE_CONTEXT} \<or> gpr_method r \<noteq> ''GET''
         \<or> gpr_body r \<noteq> None \<or> \<not> str_startswith (gpr_path r) prefix then None
      else
        let encoded = drop (length prefix) (gpr_path r) in
        if encoded = [] \<or> CHR ''/'' \<in> set encoded then None
        else let event_id = unquote encoded in if event_id = [] then None else Some event_id)"

definition parse_json_object :: "http_response \<Rightarrow> pydict option" where
  "parse_json_object response = (case hr_json response of Some (PDict d) \<Rightarrow> Some d | _ \<Rightarrow> None)"

definition non_blank_str :: "pyval \<Rightarrow> string option" where
  "non_blank_str v = (case v of PStr s \<Rightarrow> if str_blank s then None else Some s | _ \<Rightarrow> None)"

definition event_boundary :: "pyval \<Rightarrow> string option" where
  "event_boundary v =
     (case v of
        PDict d \<Rightarrow>
          (case non_blank_str (pd_get d ''dateTime'') of
             Some s \<Rightarrow> Some s
           | None \<Rightarrow> non_blank_str (pd_get d ''date''))
      | _ \<Rightarrow> None)"

fun attendee_emails :: "pyval list \<Rightarrow> string list option" where
  "attendee_emails [] = Some []"
| "attendee_emails (a # as) =
     (case a of
        PDict d \<Rightarrow>
          (case (non_blank_str (pd_get d ''email''), attendee_emails as) of
             (Some e, Some es) \<Rightarrow> Some (e # es)
           | _ \<Rightarrow> None)
      | _ \<Rightarrow> None)"

definition map_event :: "pydict \<Rightarrow> pydict option" where
  "map_event raw =
     (case (non_blank_str (pd_get raw ''id''), pd_get_or raw ''summary'' (PStr ''''),
            event_boundary (pd_get raw ''start''), event_boundary (pd_get raw ''end''),
            pd_get_or raw ''attendees'' (PList [])) of
        (Some event_id, PStr summary, Some start, Some stop, PList as) \<Rightarrow>
          map_option (\<lambda>es. [(''event_id'', PStr event_id), (''title'', PStr summary), (''start'', PStr start),
             (''end'', PStr stop), (''attendees'', PTuple (map PStr es))]) (attendee_emails as)
      | _ \<Rightarrow> None)"

definition parse_event :: "http_response \<Rightarrow> string \<Rightarrow> pydict option" where
  "parse_event response requested =
     (case parse_json_object response of
        None \<Rightarrow> None
      | Some raw \<Rightarrow>
          (case map_event raw of
             None \<Rightarrow> None
           | Some e \<Rightarrow> if pd_get e ''event_id'' \<noteq> PStr requested then None else Some e))"

definition map_item :: "pyval \<Rightarrow> pydict option" where
  "map_item item = (case item of PDict d \<Rightarrow> map_event d | _ \<Rightarrow> None)"

definition parse_event_list :: "http_response \<Rightarrow> pydict option" where
  "parse_event_list response =
     (case parse_json_object response of
        None \<Rightarrow> None
      | Some raw \<Rightarrow>
          (case pd_get_or raw ''items'' (PList []) of
             PList items \<Rightarrow>
               let token = pd_get raw ''nextPageToken'' in
               if token \<noteq> PNone \<and> non_blank_str token = None then None
               else Some [(''events'', PTuple (map PDict (List.map_filter map_item items))),
                          (''skipped_event_count'', PInt (int (length (filter (\<lambda>x. map_item x = None) items)))),
                          (''next_page_token'', token)]
           | _ \<Rightarrow> None))"

text \<open>Membership in a set hashes the value: a list or a dictionary raises.\<close>

definition rate_limit_reason :: "pyval \<Rightarrow> string option result" where
  "rate_limit_reason v =
     (case v of
        PStr s \<Rightarrow> Inr (if s \<in> GOOGLE_RATE_LIMIT_REASONS then Some s else None)
      | PList _ \<Rightarrow> Inl (TypeError ''unhashable type'')
      | PDict _ \<Rightarrow> Inl (TypeError ''unhashable type'')
      | _ \<Rightarrow> Inr None)"

fun first_rate_limit_reason :: "pyval list \<Rightarrow> string option result" where
  "first_rate_limit_reason [] = Inr None"
| "first_rate_limit_reason (item # items) =
     (case item of
        PDict d \<Rightarrow>
          rbind (rate_limit_reason (pd_get d ''reason'')) (\<lambda>found.
          case found of Some s \<Rightarrow> Inr (Some s) | None \<Rightarrow> first_rate_limit_reason items)
      | _ \<Rightarrow> first_rate_limit_reason items)"

definition safe_error_reason :: "http_response \<Rightarrow> string option result" where
  "safe_error_reason response =
     (case parse_json_object response of
        None \<Rightarrow> Inr None
      | Some body \<Rightarrow>
          (case pd_get body ''error'' of
             PDict error \<Rightarrow>
               (case pd_get error ''errors'' of PList errors \<Rightarrow> first_rate_limit_reason errors | _ \<Rightarrow> Inr None)
           | _ \<Rightarrow> Inr None))"

definition plain_response :: "int \<Rightarrow> pydict \<Rightarrow> google_provider_response" where
  "plain_response status body = \<lparr>gpp_status_code = status, gpp_body = body, gpp_headers = [], gpp_failure = None\<rparr>"

text \<open>The answer to a response of the HTTP client; \<open>requested\<close> is the event of a single-event read.\<close>

definition httpx_answer :: "string option \<Rightarrow> http_response \<Rightarrow> google_provider_response result" where
  "httpx_answer requested response =
     (let status = hr_status_code response in
      if status = 404 \<and> requested \<noteq> None
      then Inr (plain_response 404 (safe_body True False @ [(''found'', PBool False)]))
      else if status = 400
      then Inr (failure_response status PERMANENT ''Google Calendar rejected the event request'' False ''invalidRequest'' True)
      else if status = 401
      then Inr (failure_response status PERMANENT ''Google Calendar authorization failed; reconnect is required''
                  False ''reconnectRequired'' True)
      else if status = 403
      then rbind (safe_error_reason response) (\<lambda>reason.
        let limited = (reason \<noteq> None) in
        Inr (failure_response status (if limited then TRANSIENT else PERMANENT)
               (if limited then ''Google Calendar rate limit was reached'' else ''Google Calendar access is forbidden'')
               limited (case reason of Some s \<Rightarrow> s | None \<Rightarrow> ''forbidden'') True))
      else if status = 429
      then Inr (failure_response status TRANSIENT ''Google Calendar rate limit was reached'' True ''rateLimitExceeded'' True)
      else if 500 \<le> status \<and> status \<le> 599
      then Inr (failure_response status TRANSIENT ''Google Calendar is temporarily unavailable'' True ''providerUnavailable'' True)
      else if \<not> (200 \<le> status \<and> status \<le> 299)
      then Inr (failure_response status PERMANENT ''Google Calendar request failed'' False ''providerRequestFailed'' True)
      else
        let invalid = failure_response status INTERNAL ''Google Calendar returned invalid event data'' False
               ''invalidProviderResponse'' True
        in case requested of
             None \<Rightarrow>
               (case parse_event_list response of
                  None \<Rightarrow> Inr invalid
                | Some l \<Rightarrow> Inr (plain_response status (dict_merge (safe_body True False) l)))
           | Some event_id \<Rightarrow>
               (case parse_event response event_id of
                  None \<Rightarrow> Inr invalid
                | Some e \<Rightarrow> Inr (plain_response status
                    (safe_body True False @ [(''found'', PBool True), (''event'', PDict e)]))))"

definition transport_failure_response :: "bool \<Rightarrow> google_provider_response" where
  "transport_failure_response temporary =
     (if temporary
      then failure_response 503 TRANSIENT ''Google Calendar transport is temporarily unavailable'' True
             ''transportUnavailable'' True
      else failure_response 500 INTERNAL ''Google Calendar transport failed safely'' False ''internalTransportError'' True)"

definition httpx_execute :: "'w httpx_transport \<Rightarrow> 'w transport_client" where
  "httpx_execute hx r c =
     (let requested = requested_event_id r in
      bnd (if requested \<noteq> None then ret True else liftr (is_bounded_list_request r)) (\<lambda>supported.
      if \<not> supported
      then ret (failure_response 400 PERMANENT ''Calendar provider request is invalid'' False ''invalidRequest'' False)
      else if str_blank (gc_access_token c)
      then ret (failure_response 401 PERMANENT ''Google Calendar credentials are invalid; reconnect is required''
                  False ''reconnectRequired'' False)
      else (\<lambda>w.
        case hx_client hx (hx_api_base_url hx @ gpr_path r) (gpr_query r)
               [(''Authorization'', ''Bearer '' @ gc_access_token c)] (hx_timeout_seconds hx) w of
          (HttpTransportError, w') \<Rightarrow> (Inr (transport_failure_response True), w')
        | (HttpOtherError, w') \<Rightarrow> (Inr (transport_failure_response False), w')
        | (HttpResponse response, w') \<Rightarrow> (httpx_answer requested response, w'))))"

section \<open>The worker executor\<close>

record calendar_capability_result =
  ccr_status :: WorkerExecutionStatus
  ccr_reason :: "string option"
  ccr_metadata :: pydict

definition str_values :: "pyval \<Rightarrow> pyval list option" where
  "str_values v =
     (case v of
        PList xs \<Rightarrow> if list_all (\<lambda>x. case x of PStr _ \<Rightarrow> True | _ \<Rightarrow> False) xs then Some xs else None
      | PTuple xs \<Rightarrow> if list_all (\<lambda>x. case x of PStr _ \<Rightarrow> True | _ \<Rightarrow> False) xs then Some xs else None
      | _ \<Rightarrow> None)"

definition allowlisted_calendar_event :: "pyval \<Rightarrow> pydict option" where
  "allowlisted_calendar_event event =
     (case event of
        PDict d \<Rightarrow>
          (case (pd_get d ''event_id'', pd_get d ''title'', pd_get d ''start'', pd_get d ''end'',
                 str_values (pd_get d ''attendees'')) of
             (PStr i, PStr t, PStr a, PStr b, Some as) \<Rightarrow>
               if str_blank i then None
               else Some [(''event_id'', PStr i), (''title'', PStr t), (''start'', PStr a), (''end'', PStr b),
                          (''attendees'', PTuple as)]
           | _ \<Rightarrow> None)
      | _ \<Rightarrow> None)"

definition adapter_entry :: "pydict \<Rightarrow> pydict" where
  "adapter_entry body =
     (if pd_get body ''adapter'' = PStr ''fake_transport'' then [(''adapter'', PStr ''fake_transport'')] else [])"

definition capability_result_of ::
  "google_provider_response \<Rightarrow> string \<Rightarrow> calendar_capability_result" where
  "capability_result_of response calendar_event_id =
     (let body = gpp_body response;
          failed = \<lparr>ccr_status = WFAILED, ccr_reason = Some ''calendar provider returned invalid event data'', ccr_metadata = []\<rparr>;
          succeeded = (\<lambda>md. \<lparr>ccr_status = WSUCCEEDED, ccr_reason = Some ''calendar meeting context provider result'',
                             ccr_metadata = md\<rparr>)
      in case pd_get body ''found'' of
           PBool found \<Rightarrow>
             let md = (''found'', PBool found) # adapter_entry body in
             if \<not> found then succeeded md
             else (case allowlisted_calendar_event (pd_get body ''event'') of
                 None \<Rightarrow> failed
               | Some e \<Rightarrow>
                   if pd_get e ''event_id'' \<noteq> PStr calendar_event_id then failed
                   else succeeded (md @ [(''event'', PDict e)]))
         | _ \<Rightarrow> failed)"

fun allowlisted_events :: "pyval list \<Rightarrow> pyval list option" where
  "allowlisted_events [] = Some []"
| "allowlisted_events (x # xs) =
     (case (allowlisted_calendar_event x, allowlisted_events xs) of
        (Some e, Some es) \<Rightarrow> Some (PDict e # es)
      | _ \<Rightarrow> None)"

definition sequence_items :: "pyval \<Rightarrow> pyval list option" where
  "sequence_items v = (case v of PList xs \<Rightarrow> Some xs | PTuple xs \<Rightarrow> Some xs | _ \<Rightarrow> None)"

definition calendar_event_list_result :: "google_provider_response \<Rightarrow> calendar_capability_result" where
  "calendar_event_list_result response =
     (let body = gpp_body response;
          token = pd_get body ''next_page_token'';
          failed = \<lparr>ccr_status = WFAILED, ccr_reason = Some ''calendar provider returned invalid event list data'',
                    ccr_metadata = []\<rparr>
      in case Option.bind (sequence_items (pd_get body ''events'')) allowlisted_events of
           None \<Rightarrow> failed
         | Some events \<Rightarrow>
             (case pd_get body ''skipped_event_count'' of
                PInt skipped \<Rightarrow>
                  if skipped < 0 \<or> (token \<noteq> PNone \<and> non_blank_str token = None) then failed
                  else \<lparr>ccr_status = WSUCCEEDED, ccr_reason = Some ''calendar event list provider result'',
                        ccr_metadata =
                          [(''events'', PTuple events), (''event_count'', PInt (int (length events))),
                           (''next_page_token'', token), (''has_more_pages'', PBool (token \<noteq> PNone)),
                           (''page_complete'', PBool (skipped = 0)), (''skipped_event_count'', PInt skipped)]
                          @ adapter_entry body\<rparr>
              | _ \<Rightarrow> failed))"

definition page_token_redacted_action :: "action \<Rightarrow> action" where
  "page_token_redacted_action a =
     (if \<not> dict_has (act_payload a) ''page_token'' then a
      else a\<lparr>act_payload := dict_merge (act_payload a) [(''page_token'', PStr REDACTED_QUERY_VALUE)]\<rparr>)"

definition context_metadata :: "worker_account_context option \<Rightarrow> pyval" where
  "context_metadata ctx = (case ctx of None \<Rightarrow> PNone | Some x \<Rightarrow> as_metadata x)"

definition provider_request_metadata :: "google_provider_request \<Rightarrow> pyval" where
  "provider_request_metadata r =
     PDict [(''operation'', PStr (gpr_operation r)), (''path'', PStr (gpr_path r)), (''method'', PStr (gpr_method r)),
            (''body'', case gpr_body r of None \<Rightarrow> PNone | Some d \<Rightarrow> PDict d),
            (''query'', PDict (map (\<lambda>(k, v). (k, if k = ''pageToken'' then PStr REDACTED_QUERY_VALUE else v)) (gpr_query r))),
            (''account_context'', context_metadata (gpr_account_context r))]"

definition provider_response_metadata :: "google_provider_response \<Rightarrow> pyval" where
  "provider_response_metadata response =
     (let body = gpp_body response in
      PDict ((case pd_get body ''external_execution_performed'' of
                PBool b \<Rightarrow> [(''external_execution_performed'', PBool b)] | _ \<Rightarrow> [])
             @ (if pd_get body ''integration'' = PStr ''calendar'' then [(''integration'', PStr ''calendar'')] else [])
             @ (case pd_get body ''adapter'' of
                  PStr s \<Rightarrow> if s \<in> {''fake_transport'', ''fake_provider_composition'', ''httpx_transport''}
                     then [(''adapter'', PStr s)] else []
                | _ \<Rightarrow> [])
             @ (case pd_get body ''failed'' of PBool b \<Rightarrow> [(''failed'', PBool b)] | _ \<Rightarrow> [])))"

definition calendar_result_metadata ::
  "google_provider_response \<Rightarrow> google_provider_request \<Rightarrow> string \<Rightarrow> worker_account_context option \<Rightarrow> pydict \<Rightarrow> pydict" where
  "calendar_result_metadata response r capability ctx extra =
     [(''external_execution_performed'', PBool (pd_get (gpp_body response) ''external_execution_performed'' = PBool True)),
      (''integration'', PStr ''calendar''), (''capability'', PStr capability)]
     @ extra
     @ [(''account_context_used'', context_metadata ctx), (''provider_request'', provider_request_metadata r),
        (''provider_response'', provider_response_metadata response)]"

definition provider_failure_result ::
  "action \<Rightarrow> google_provider_response \<Rightarrow> pydict \<Rightarrow> worker_execution_result option" where
  "provider_failure_result a response md =
     map_option (\<lambda>f. \<lparr>wer_action = a, wer_status = WFAILED, wer_reason = Some (gpf_message f), wer_metadata = md,
        wer_failure = Some \<lparr>wef_category = gpf_category f, wef_message = Some (gpf_message f),
          wef_metadata = dict_merge (gpf_metadata f)
            [(''provider_status_code'', PInt (gpp_status_code response)),
             (''provider_reason'', opt_str (gpf_provider_reason f)), (''retryable'', PBool (gpf_retryable f))]\<rparr>\<rparr>)
       (gpp_failure response)"

definition capability_worker_result ::
  "action \<Rightarrow> google_provider_response \<Rightarrow> pydict \<Rightarrow> calendar_capability_result \<Rightarrow> worker_execution_result" where
  "capability_worker_result a response md cr =
     (if ccr_status cr \<noteq> WSUCCEEDED
      then \<lparr>wer_action = a, wer_status = ccr_status cr, wer_reason = ccr_reason cr, wer_metadata = md,
            wer_failure = Some \<lparr>wef_category = INTERNAL, wef_message = ccr_reason cr,
              wef_metadata = [(''provider_status_code'', PInt (gpp_status_code response))]\<rparr>\<rparr>
      else \<lparr>wer_action = a, wer_status = ccr_status cr, wer_reason = ccr_reason cr,
            wer_metadata = dict_merge md (ccr_metadata cr), wer_failure = None\<rparr>)"

definition answered :: "action \<Rightarrow> google_provider_response \<Rightarrow> pydict \<Rightarrow> calendar_capability_result \<Rightarrow> worker_execution_result" where
  "answered a response md cr =
     (case provider_failure_result a response md of
        Some failed \<Rightarrow> failed
      | None \<Rightarrow> capability_worker_result a response md cr)"

definition event_provider_request ::
  "string \<Rightarrow> string \<Rightarrow> worker_account_context option \<Rightarrow> google_provider_request" where
  "event_provider_request capability calendar_event_id ctx =
     \<lparr>gpr_operation = capability, gpr_path = GOOGLE_CALENDAR_EVENTS_PATH @ ''/'' @ quote calendar_event_id,
      gpr_method = ''GET'', gpr_body = None, gpr_query = [], gpr_account_context = ctx\<rparr>"

definition execute_provider_request ::
  "'w provider_composition \<Rightarrow> action \<Rightarrow> string \<Rightarrow> string \<Rightarrow> worker_account_context option
     \<Rightarrow> ('w, worker_execution_result) prog" where
  "execute_provider_request gp a capability calendar_event_id ctx =
     (let r = event_provider_request capability calendar_event_id ctx
      in bnd (provider_execute gp r None None) (\<lambda>response.
         ret (answered a response
                (calendar_result_metadata response r capability ctx [(''calendar_event_id'', PStr calendar_event_id)])
                (capability_result_of response calendar_event_id))))"

definition list_provider_request ::
  "string \<Rightarrow> calendar_event_list_request \<Rightarrow> worker_account_context option \<Rightarrow> google_provider_request" where
  "list_provider_request capability lr ctx =
     \<lparr>gpr_operation = capability, gpr_path = GOOGLE_CALENDAR_EVENTS_PATH, gpr_method = ''GET'', gpr_body = None,
      gpr_query = as_query lr, gpr_account_context = ctx\<rparr>"

definition execute_list_provider_request ::
  "'w provider_composition \<Rightarrow> action \<Rightarrow> string \<Rightarrow> worker_account_context option \<Rightarrow> ('w, worker_execution_result) prog" where
  "execute_list_provider_request gp a capability ctx =
     (let result_action = page_token_redacted_action a; p = act_payload a in
      case mk_calendar_event_list_request (pd_get p ''time_min'') (pd_get p ''time_max'') (pd_get p ''max_results'')
             (pd_get p ''page_token'') of
        Inl (CalendarEventListRequestError reason field_name) \<Rightarrow>
          ret \<lparr>wer_action = result_action, wer_status = WFAILED, wer_reason = Some reason,
               wer_metadata = [(''external_execution_performed'', PBool False), (''integration'', PStr ''calendar''),
                 (''capability'', PStr capability)],
               wer_failure = Some \<lparr>wef_category = PERMANENT, wef_message = Some reason,
                 wef_metadata = [(''field'', PStr field_name)]\<rparr>\<rparr>
      | Inl e \<Rightarrow> raise_exc e
      | Inr lr \<Rightarrow>
          let r = list_provider_request capability lr ctx in
          bnd (provider_execute gp r None None) (\<lambda>response.
          ret (answered result_action response
                 (calendar_result_metadata response r capability ctx
                    [(''time_min'', PStr (clr_time_min lr)), (''time_max'', PStr (clr_time_max lr)),
                     (''max_results'', PInt (clr_max_results lr)),
                     (''page_token_supplied'', PBool (clr_page_token lr \<noteq> None))])
                 (calendar_event_list_result response))))"

definition calendar_execute ::
  "'w provider_composition \<Rightarrow> action \<Rightarrow> string option \<Rightarrow> worker_account_context option
     \<Rightarrow> ('w, worker_execution_result) prog" where
  "calendar_execute gp a capability ctx =
     (let resolved = (case capability of Some c \<Rightarrow> if c = '''' then act_type a else c | None \<Rightarrow> act_type a) in
      if resolved \<notin> set calendar_identifiers
      then ret \<lparr>wer_action = a, wer_status = WSKIPPED,
                wer_reason = Some ''calendar executor has no capability for this action type'',
                wer_metadata = [(''external_execution_performed'', PBool False), (''integration'', PStr ''calendar''),
                  (''placeholder'', PBool True), (''skipped'', PBool True)],
                wer_failure = None\<rparr>
      else if resolved = CALENDAR_LIST_EVENTS then execute_list_provider_request gp a resolved ctx
      else (case non_blank_str (pd_get (act_payload a) ''calendar_event_id'') of
          None \<Rightarrow>
            let reason = ''calendar meeting context request invalid calendar_event_id'' in
            ret \<lparr>wer_action = a, wer_status = WFAILED, wer_reason = Some reason,
                 wer_metadata = [(''external_execution_performed'', PBool False), (''integration'', PStr ''calendar''),
                   (''capability'', PStr resolved)],
                 wer_failure = Some \<lparr>wef_category = PERMANENT, wef_message = Some reason,
                   wef_metadata = [(''field'', PStr ''calendar_event_id'')]\<rparr>\<rparr>
        | Some v \<Rightarrow> execute_provider_request gp a resolved (str_strip v) ctx))"

section \<open>The orchestrator\<close>

record list_walk =
  lw_events :: "pyval list"
  lw_pages_fetched :: int
  lw_skipped :: int
  lw_every_page_complete :: bool
  lw_seen :: "string set"
  lw_page_token :: "string option"

record list_page =
  lp_events :: "pyval list"
  lp_skipped :: int
  lp_complete :: bool
  lp_next :: "string option"

definition failed_result ::
  "action \<Rightarrow> string \<Rightarrow> worker_execution_failure \<Rightarrow> worker_execution_result" where
  "failed_result a reason failure =
     \<lparr>wer_action = a, wer_status = WFAILED, wer_reason = Some reason, wer_metadata = [], wer_failure = Some failure\<rparr>"

definition request_failure :: "action \<Rightarrow> string \<Rightarrow> string \<Rightarrow> worker_execution_result" where
  "request_failure a field_name reason =
     failed_result a reason \<lparr>wef_category = PERMANENT, wef_message = Some reason, wef_metadata = [(''field'', PStr field_name)]\<rparr>"

definition page_failure :: "action \<Rightarrow> worker_execution_result \<Rightarrow> worker_execution_result" where
  "page_failure a page =
     (let reason = (case wer_reason page of Some s \<Rightarrow> if s = '''' then ''calendar list orchestration page failed'' else s
                    | None \<Rightarrow> ''calendar list orchestration page failed'')
      in failed_result a reason (case wer_failure page of
           Some f \<Rightarrow> f | None \<Rightarrow> \<lparr>wef_category = INTERNAL, wef_message = Some reason, wef_metadata = []\<rparr>))"

definition invalid_page_failure :: "action \<Rightarrow> worker_execution_result" where
  "invalid_page_failure a =
     (let reason = ''calendar list orchestrator received invalid page result'' in
      failed_result a reason \<lparr>wef_category = INTERNAL, wef_message = Some reason, wef_metadata = []\<rparr>)"

text \<open>The checks on the metadata of a page that succeeded.\<close>

definition read_page :: "pydict \<Rightarrow> list_page option" where
  "read_page md =
     (case (pd_get md ''events'', pd_get md ''event_count'', pd_get md ''skipped_event_count'', pd_get md ''page_complete'',
            pd_get md ''has_more_pages'') of
        (PTuple events, PInt n, PInt skipped, PBool whole, PBool has_more) \<Rightarrow>
          let token = pd_get md ''next_page_token'' in
          if list_all (\<lambda>e. case e of PDict _ \<Rightarrow> True | _ \<Rightarrow> False) events \<and> n = int (length events) \<and> 0 \<le> skipped
             \<and> whole = (skipped = 0) \<and> (token = PNone \<or> non_blank_str token \<noteq> None) \<and> has_more = (token \<noteq> PNone)
          then Some \<lparr>lp_events = events, lp_skipped = skipped, lp_complete = whole, lp_next = non_blank_str token\<rparr>
          else None
      | _ \<Rightarrow> None)"

definition page_payload :: "calendar_orchestration_request \<Rightarrow> string option \<Rightarrow> pydict" where
  "page_payload req token =
     [(''time_min'', PStr (cor_time_min req)), (''time_max'', PStr (cor_time_max req)),
      (''max_results'', PInt (cor_max_results req))]
     @ (case token of None \<Rightarrow> [] | Some t \<Rightarrow> [(''page_token'', PStr t)])"

definition add_page :: "list_walk \<Rightarrow> list_page \<Rightarrow> list_walk" where
  "add_page s p = s\<lparr>lw_events := lw_events s @ lp_events p, lw_pages_fetched := lw_pages_fetched s + 1,
     lw_skipped := lw_skipped s + lp_skipped p,
     lw_every_page_complete := (lw_every_page_complete s \<and> lp_complete p)\<rparr>"

definition walk_result :: "action \<Rightarrow> list_walk \<Rightarrow> string \<Rightarrow> worker_execution_result" where
  "walk_result a s reason =
     \<lparr>wer_action = a, wer_status = WSUCCEEDED, wer_reason = Some ''bounded calendar event list orchestration result'',
      wer_metadata =
        [(''events'', PTuple (lw_events s)), (''event_count'', PInt (int (length (lw_events s)))),
         (''pages_fetched'', PInt (lw_pages_fetched s)), (''skipped_event_count'', PInt (lw_skipped s)),
         (''aggregate_complete'', PBool (reason = ''exhausted'' \<and> lw_every_page_complete s)),
         (''termination_reason'', PStr reason)],
      wer_failure = None\<rparr>"

text \<open>The loop of \<open>execute\<close>. It ends because \<open>pages_fetched\<close> grows up to \<open>max_pages\<close>.\<close>

function walk_pages ::
  "(pydict \<Rightarrow> ('w, worker_execution_result) prog) \<Rightarrow> action \<Rightarrow> calendar_orchestration_request \<Rightarrow> list_walk
     \<Rightarrow> ('w, worker_execution_result) prog" where
  "walk_pages page_exec a req s w =
     (case page_exec (page_payload req (lw_page_token s)) w of
        (Inl e, w') \<Rightarrow> (Inl e, w')
      | (Inr page, w') \<Rightarrow>
          if wer_status page \<noteq> WSUCCEEDED then (Inr (page_failure a page), w')
          else (case read_page (wer_metadata page) of
              None \<Rightarrow> (Inr (invalid_page_failure a), w')
            | Some p \<Rightarrow>
                let s' = add_page s p in
                (case lp_next p of
                   None \<Rightarrow> (Inr (walk_result a s' ''exhausted''), w')
                 | Some token \<Rightarrow>
                     if cor_max_pages req \<le> lw_pages_fetched s + 1 then (Inr (walk_result a s' ''page_limit''), w')
                     else if token \<in> lw_seen s then (Inr (walk_result a s' ''repeated_page_token''), w')
                     else walk_pages page_exec a req
                            (s'\<lparr>lw_seen := insert token (lw_seen s), lw_page_token := Some token\<rparr>) w')))"
  by pat_completeness auto
termination
  by (relation "measure (\<lambda>(_, _, req, s, _). nat (cor_max_pages req - lw_pages_fetched s))") (auto simp: add_page_def)

declare walk_pages.simps [simp del]

definition empty_walk :: list_walk where
  "empty_walk = \<lparr>lw_events = [], lw_pages_fetched = 0, lw_skipped = 0, lw_every_page_complete = True, lw_seen = {},
     lw_page_token = None\<rparr>"

definition orchestrate ::
  "(action \<Rightarrow> string option \<Rightarrow> worker_account_context option \<Rightarrow> ('w, worker_execution_result) prog)
     \<Rightarrow> action \<Rightarrow> worker_account_context option \<Rightarrow> ('w, worker_execution_result) prog" where
  "orchestrate executor a ctx =
     (let result_action = page_token_redacted_action a; p = act_payload a in
      if dict_has p ''page_token''
      then ret (request_failure result_action ''page_token'' ''calendar list orchestration does not accept page_token'')
      else (case mk_calendar_orchestration_request (pd_get p ''time_min'') (pd_get p ''time_max'')
                   (pd_get p ''max_results'') (pd_get p ''max_pages'') of
          Inl (CalendarEventListRequestError reason field_name) \<Rightarrow> ret (request_failure result_action field_name reason)
        | Inl e \<Rightarrow> raise_exc e
        | Inr req \<Rightarrow>
            walk_pages (\<lambda>payload. executor (a\<lparr>act_payload := payload\<rparr>) (Some CALENDAR_LIST_EVENTS) ctx)
              result_action req empty_walk))"

end
