(* ===== verification/Semantic.thy ===== *)
theory Semantic
  imports Executor_Registry
begin

text \<open>
  \<open>core/semantic.py\<close>, \<open>core/semantic_query.py\<close> and \<open>api/semantic.py\<close>: semantic resolutions, the router that
  dispatches declared intents, the query path over it and its HTTP handler. A resolver and the handlers are
  operations on a world of type \<open>'w\<close> that may raise; a resolver that returns something other than a
  resolution returns \<open>None\<close>, and so does a handler that returns something other than a result.
\<close>

section \<open>Canonical intents\<close>

text \<open>\<open>re.compile(r"[a-z][a-z0-9_]*(?:\.[a-z][a-z0-9_]*)+")\<close> with \<open>fullmatch\<close>, as a scanner: \<open>start\<close> says that a
  segment must begin here, \<open>dots\<close> that a dot has been read.\<close>

definition intent_letter :: "char \<Rightarrow> bool" where
  "intent_letter c = (let n = chr_code c in 97 \<le> n \<and> n \<le> 122)"

definition intent_char :: "char \<Rightarrow> bool" where
  "intent_char c = (let n = chr_code c in (97 \<le> n \<and> n \<le> 122) \<or> (48 \<le> n \<and> n \<le> 57) \<or> n = 95)"

fun intent_scan :: "bool \<Rightarrow> bool \<Rightarrow> string \<Rightarrow> bool" where
  "intent_scan at_start dots [] = (\<not> at_start \<and> dots)"
| "intent_scan at_start dots (c # s) =
     (if at_start then intent_letter c \<and> intent_scan False dots s
      else if c = CHR ''.'' then intent_scan True True s
      else intent_char c \<and> intent_scan False dots s)"

definition canonical_intent :: "string \<Rightarrow> bool" where
  "canonical_intent s = intent_scan True False s"

section \<open>Resolutions and routes\<close>

datatype SemanticResolutionStatus = SR_RESOLVED | SR_UNRESOLVED

record semantic_resolution =
  sr_status :: SemanticResolutionStatus
  sr_intent :: "string option"

definition mk_semantic_resolution :: "SemanticResolutionStatus \<Rightarrow> string option \<Rightarrow> semantic_resolution result" where
  "mk_semantic_resolution status intent =
     (case status of
        SR_UNRESOLVED \<Rightarrow>
          if intent \<noteq> None then Inl (ValueError ''unresolved semantic resolution cannot carry an intent'')
          else Inr \<lparr>sr_status = status, sr_intent = intent\<rparr>
      | SR_RESOLVED \<Rightarrow>
          (case intent of
             Some i \<Rightarrow>
               if canonical_intent i then Inr \<lparr>sr_status = status, sr_intent = intent\<rparr>
               else Inl (ValueError ''resolved semantic intent must be a canonical identifier'')
           | None \<Rightarrow> Inl (ValueError ''resolved semantic intent must be a canonical identifier'')))"

definition resolution_resolved :: "string \<Rightarrow> semantic_resolution result" where
  "resolution_resolved intent = mk_semantic_resolution SR_RESOLVED (Some intent)"

definition resolution_unresolved :: "semantic_resolution result" where
  "resolution_unresolved = mk_semantic_resolution SR_UNRESOLVED None"

record semantic_route =
  srt_intent :: string
  srt_role :: ExecutorRole
  srt_capability :: string

definition mk_semantic_route :: "string \<Rightarrow> ExecutorRole \<Rightarrow> string \<Rightarrow> semantic_route result" where
  "mk_semantic_route intent role capability =
     (if \<exists>v\<in>{intent, capability}. v = '''' \<or> v \<noteq> str_strip v
      then Inl (ValueError ''semantic route identifiers must be non-blank and unpadded'')
      else Inr \<lparr>srt_intent = intent, srt_role = role, srt_capability = capability\<rparr>)"

section \<open>The router\<close>

type_synonym 'h handler_table = "((ExecutorRole \<times> string) \<times> 'h) list"

record 'h semantic_router =
  sro_handlers :: "'h handler_table"
  sro_routes :: "(string \<times> semantic_route) list"

fun add_routes ::
  "'h handler_table \<Rightarrow> (string \<times> semantic_route) list \<Rightarrow> semantic_route list \<Rightarrow> (string \<times> semantic_route) list result" where
  "add_routes handlers table [] = Inr table"
| "add_routes handlers table (r # rs) =
     (if dict_has table (srt_intent r) then Inl (ValueError ''duplicate semantic intent route'')
      else if \<not> dict_has handlers (srt_role r, srt_capability r)
      then Inl (ValueError ''semantic route requires a registered handler'')
      else add_routes handlers (dict_set (srt_intent r) r table) rs)"

definition mk_semantic_router :: "semantic_route list \<Rightarrow> 'h handler_table \<Rightarrow> 'h semantic_router result" where
  "mk_semantic_router routes handlers =
     rbind (add_routes handlers [] routes) (\<lambda>table. Inr \<lparr>sro_handlers = handlers, sro_routes = table\<rparr>)"

definition router_resolve :: "'h semantic_router \<Rightarrow> string \<Rightarrow> semantic_route result" where
  "router_resolve router intent =
     (case dict_get (sro_routes router) intent of
        None \<Rightarrow> Inl (SemanticRoutingError ''unsupported semantic intent'')
      | Some r \<Rightarrow> Inr r)"

definition router_execute ::
  "('q \<Rightarrow> ('w, 'a) prog) semantic_router \<Rightarrow> string \<Rightarrow> 'q \<Rightarrow> ('w, 'a) prog" where
  "router_execute router intent request =
     bnd (liftr (router_resolve router intent)) (\<lambda>r.
     case dict_get (sro_handlers router) (srt_role r, srt_capability r) of
       None \<Rightarrow> raise_exc (KeyError (srt_capability r))
     | Some h \<Rightarrow> h request)"

section \<open>The query path\<close>

record semantic_query_request =
  sqr_text :: string
  sqr_account_context :: worker_account_context
  sqr_timezone :: string

record resolved_semantic_query =
  rsq_intent :: string
  rsq_request :: semantic_query_request

record semantic_query_result =
  sqs_intent :: string
  sqs_result :: pydict

type_synonym 'w semantic_handler = "resolved_semantic_query \<Rightarrow> ('w, semantic_query_result option) prog"

type_synonym 'w semantic_resolver = "string \<Rightarrow> ('w, semantic_resolution option) prog"

definition is_input_error :: "exc \<Rightarrow> bool" where
  "is_input_error e = (case e of SemanticInputError _ \<Rightarrow> True | _ \<Rightarrow> False)"

definition execute_semantic_query ::
  "semantic_query_request \<Rightarrow> 'w semantic_resolver \<Rightarrow> 'w semantic_handler semantic_router \<Rightarrow> string list option
     \<Rightarrow> ('w, semantic_query_result) prog" where
  "execute_semantic_query request resolver router allowed =
     bnd (try_except (resolver (sqr_text request))
            (\<lambda>e. if is_input_error e then raise_exc e
                 else raise_exc (SemanticResolverError ''semantic resolution failed''))) (\<lambda>resolution.
     case resolution of
       None \<Rightarrow> raise_exc (SemanticResolverError ''semantic resolver returned an invalid result'')
     | Some res \<Rightarrow>
         (case (sr_status res, sr_intent res) of
            (SR_RESOLVED, Some intent) \<Rightarrow>
              if (case allowed of None \<Rightarrow> False | Some xs \<Rightarrow> intent \<notin> set xs)
              then raise_exc (SemanticRoutingError ''semantic intent is not allowed on this ingress'')
              else bnd (router_execute router intent \<lparr>rsq_intent = intent, rsq_request = request\<rparr>) (\<lambda>result.
                case result of
                  Some x \<Rightarrow>
                    if sqs_intent x = intent then ret x
                    else raise_exc (RuntimeError ''semantic handler returned an invalid result'')
                | None \<Rightarrow> raise_exc (RuntimeError ''semantic handler returned an invalid result''))
          | _ \<Rightarrow> raise_exc (SemanticRoutingError ''semantic query is unresolved'')))"

text \<open>The handler of \<open>POST /semantic/query\<close>: every exception becomes one of five HTTP errors.\<close>

definition semantic_http_error :: "exc \<Rightarrow> exc" where
  "semantic_http_error e =
     (case e of
        SemanticInputError _ \<Rightarrow> HTTPException 422 ''invalid semantic query''
      | SemanticRoutingError _ \<Rightarrow> HTTPException 422 ''unsupported semantic query''
      | SemanticRequestError _ \<Rightarrow> HTTPException 422 ''invalid semantic query request''
      | SemanticResolverError _ \<Rightarrow> HTTPException 500 ''semantic query resolution failed''
      | _ \<Rightarrow> HTTPException 500 ''semantic query execution failed'')"

definition semantic_query ::
  "string \<Rightarrow> string \<Rightarrow> string \<Rightarrow> string \<Rightarrow> 'w semantic_resolver \<Rightarrow> 'w semantic_handler semantic_router
     \<Rightarrow> ('w, semantic_query_result) prog" where
  "semantic_query text prin account_identifier timezone resolver router =
     try_except
       (execute_semantic_query
          \<lparr>sqr_text = text, sqr_account_context = \<lparr>wac_principal = Some prin, wac_account_identifier = account_identifier\<rparr>,
           sqr_timezone = timezone\<rparr> resolver router None)
       (\<lambda>e. raise_exc (semantic_http_error e))"

section \<open>The pattern\<close>

text \<open>Regular expressions with the operators the pattern uses, and their language.\<close>

datatype pattern = Chars "char \<Rightarrow> bool" | Seq pattern pattern | Star pattern | Plus pattern

inductive matches :: "pattern \<Rightarrow> string \<Rightarrow> bool" where
  m_chars: "p c \<Longrightarrow> matches (Chars p) [c]"
| m_seq: "matches a s \<Longrightarrow> matches b t \<Longrightarrow> matches (Seq a b) (s @ t)"
| m_star_nil: "matches (Star a) []"
| m_star_step: "matches a s \<Longrightarrow> matches (Star a) t \<Longrightarrow> matches (Star a) (s @ t)"
| m_plus: "matches a s \<Longrightarrow> matches (Star a) t \<Longrightarrow> matches (Plus a) (s @ t)"

inductive_simps matches_chars [simp]: "matches (Chars p) s"
inductive_simps matches_seq: "matches (Seq a b) s"
inductive_simps matches_plus: "matches (Plus a) s"
inductive_cases matches_starE: "matches (Star a) s"

definition segment_pattern :: pattern where
  "segment_pattern = Seq (Chars intent_letter) (Star (Chars intent_char))"

definition intent_pattern :: pattern where
  "intent_pattern = Seq segment_pattern (Plus (Seq (Chars (\<lambda>c. c = CHR ''.'')) segment_pattern))"

lemma star_concat: "matches (Star a) s \<longleftrightarrow> (\<exists>gs. s = concat gs \<and> (\<forall>g\<in>set gs. matches a g))"
proof
  show "\<exists>gs. s = concat gs \<and> (\<forall>g\<in>set gs. matches a g)" if "matches (Star a) s"
    using that
  proof (induction "Star a" s)
    case (m_star_step s t)
    then obtain gs where "t = concat gs" "\<forall>g\<in>set gs. matches a g" by blast
    with m_star_step.hyps(1) show ?case by (intro exI [of _ "s # gs"]) auto
  qed (intro exI [of _ "[]"], simp)
  show "matches (Star a) s" if "\<exists>gs. s = concat gs \<and> (\<forall>g\<in>set gs. matches a g)"
  proof -
    have "matches (Star a) (concat gs)" if "\<forall>g\<in>set gs. matches a g" for gs
      using that by (induction gs) (auto intro: matches.intros)
    with that show ?thesis by blast
  qed
qed

lemma star_chars: "matches (Star (Chars p)) s \<longleftrightarrow> list_all p s"
proof
  show "list_all p s" if "matches (Star (Chars p)) s"
    using that unfolding star_concat list_all_iff by fastforce
  show "matches (Star (Chars p)) s" if "list_all p s"
    using that unfolding star_concat by (intro exI [of _ "map (\<lambda>c. [c]) s"]) (auto simp: list_all_iff)
qed

definition intent_segment :: "string \<Rightarrow> bool" where
  "intent_segment s \<longleftrightarrow> s \<noteq> [] \<and> intent_letter (hd s) \<and> list_all intent_char (tl s)"

lemma matches_segment: "matches segment_pattern s \<longleftrightarrow> intent_segment s"
  unfolding segment_pattern_def matches_seq star_chars matches_chars intent_segment_def
  by (cases s) (auto intro: exI [of _ "[_]"])

lemma intent_letter_char: "intent_letter c \<Longrightarrow> intent_char c" "\<not> intent_char (CHR ''.'')" "\<not> intent_letter (CHR ''.'')"
  by (simp_all add: intent_letter_def intent_char_def chr_code_def Let_def)

abbreviation dotted :: "string list \<Rightarrow> string" where
  "dotted gs \<equiv> concat (map (\<lambda>g. CHR ''.'' # g) gs)"

definition segments :: "(string \<Rightarrow> bool) \<Rightarrow> bool \<Rightarrow> string \<Rightarrow> bool" where
  "segments P dots s \<longleftrightarrow> (\<exists>w gs. s = w @ dotted gs \<and> P w \<and> list_all intent_segment gs \<and> (dots \<or> gs \<noteq> []))"

lemma segments_Nil: "segments P dots [] \<longleftrightarrow> P [] \<and> dots"
  by (auto simp: segments_def)

lemma segments_conj: "segments (\<lambda>w. q \<and> P w) dots s \<longleftrightarrow> q \<and> segments P dots s"
  by (auto simp: segments_def)

lemma segments_False: "\<not> segments (\<lambda>w. False) dots s"
  by (simp add: segments_def)

lemma segments_Cons:
  "segments P dots (c # s) \<longleftrightarrow>
     segments (\<lambda>w. P (c # w)) dots s \<or> (c = CHR ''.'' \<and> P [] \<and> segments intent_segment True s)" (is "?L \<longleftrightarrow> ?A \<or> ?B")
proof
  assume ?L
  then obtain w gs where r: "c # s = w @ dotted gs" "P w" "list_all intent_segment gs" "dots \<or> gs \<noteq> []"
    by (auto simp: segments_def)
  show "?A \<or> ?B"
  proof (cases w)
    case Nil
    with r have ?B by (cases gs) (auto simp: segments_def)
    then show ?thesis ..
  next
    case (Cons d w')
    with r have ?A by (auto simp: segments_def)
    then show ?thesis ..
  qed
next
  assume "?A \<or> ?B"
  then show ?L
  proof
    assume ?A
    then obtain w gs where "s = w @ dotted gs" "P (c # w)" "list_all intent_segment gs" "dots \<or> gs \<noteq> []"
      by (auto simp: segments_def)
    then show ?L unfolding segments_def by (intro exI [of _ "c # w"] exI [of _ gs]) auto
  next
    assume ?B
    then obtain w gs where "c = CHR ''.''" "P []" "s = w @ dotted gs" "intent_segment w" "list_all intent_segment gs"
      by (auto simp: segments_def)
    then show ?L unfolding segments_def by (intro exI [of _ "[]"] exI [of _ "w # gs"]) auto
  qed
qed

lemma intent_scan_segments:
  "intent_scan b dots s \<longleftrightarrow> segments (if b then intent_segment else list_all intent_char) dots s"
proof (induction b dots s rule: intent_scan.induct)
  case (1 b dots)
  then show ?case by (simp add: segments_Nil intent_segment_def)
next
  case (2 b dots c s)
  have "intent_segment (c # w) \<longleftrightarrow> intent_letter c \<and> list_all intent_char w" for w by (simp add: intent_segment_def)
  with 2 show ?case
    by (cases b; cases "c = CHR ''.''")
       (auto simp: segments_Cons segments_conj segments_False intent_letter_char intent_segment_def [of "[]"])
qed

definition dot_segment :: pattern where
  "dot_segment = Seq (Chars (\<lambda>c. c = CHR ''.'')) segment_pattern"

lemma matches_dot_segment: "matches dot_segment g \<longleftrightarrow> (\<exists>h. g = CHR ''.'' # h \<and> intent_segment h)"
  by (auto simp: dot_segment_def matches_seq matches_segment)

lemma star_dotted: "matches (Star dot_segment) t \<longleftrightarrow> (\<exists>gs. t = dotted gs \<and> list_all intent_segment gs)"
proof
  assume "matches (Star dot_segment) t"
  then obtain fs where fs: "t = concat fs" "\<forall>g\<in>set fs. \<exists>h. g = CHR ''.'' # h \<and> intent_segment h"
    unfolding star_concat matches_dot_segment by blast
  from fs(2) have "map (\<lambda>g. CHR ''.'' # g) (map tl fs) = fs" "list_all intent_segment (map tl fs)"
    by (induction fs) auto
  with fs(1) show "\<exists>gs. t = dotted gs \<and> list_all intent_segment gs" by metis
next
  assume "\<exists>gs. t = dotted gs \<and> list_all intent_segment gs"
  then obtain gs where "t = dotted gs" "list_all intent_segment gs" by blast
  then show "matches (Star dot_segment) t"
    unfolding star_concat matches_dot_segment
    by (intro exI [of _ "map (\<lambda>g. CHR ''.'' # g) gs"]) (auto simp: list_all_iff)
qed

lemma plus_dotted: "matches (Plus dot_segment) t \<longleftrightarrow> (\<exists>gs. t = dotted gs \<and> list_all intent_segment gs \<and> gs \<noteq> [])"
proof
  assume "matches (Plus dot_segment) t"
  then obtain h gs where "t = (CHR ''.'' # h) @ dotted gs" "intent_segment h" "list_all intent_segment gs"
    by (auto simp: matches_plus star_dotted matches_dot_segment)
  then show "\<exists>gs. t = dotted gs \<and> list_all intent_segment gs \<and> gs \<noteq> []" by (intro exI [of _ "h # gs"]) auto
next
  assume "\<exists>gs. t = dotted gs \<and> list_all intent_segment gs \<and> gs \<noteq> []"
  then obtain h gs where "t = (CHR ''.'' # h) @ dotted gs" "intent_segment h" "list_all intent_segment gs"
    by (auto simp: neq_Nil_conv)
  then show "matches (Plus dot_segment) t"
    unfolding matches_plus star_dotted matches_dot_segment by blast
qed

text \<open>Canonical intents: the scanner accepts exactly the texts that match the pattern of the source.\<close>

theorem canonical_intent_pattern: "canonical_intent s \<longleftrightarrow> matches intent_pattern s"
proof -
  have "matches intent_pattern s \<longleftrightarrow> (\<exists>w t. s = w @ t \<and> intent_segment w \<and> matches (Plus dot_segment) t)"
    unfolding intent_pattern_def dot_segment_def by (auto simp: matches_seq [of segment_pattern] matches_segment)
  also have "\<dots> \<longleftrightarrow> segments intent_segment False s"
    by (auto simp: segments_def plus_dotted)
  finally show ?thesis by (simp add: canonical_intent_def intent_scan_segments)
qed

section \<open>Dispatch\<close>

lemma add_routes_sound:
  assumes "add_routes handlers table routes = Inr t" "dict_get t i = Some r"
  shows "dict_get table i = Some r \<or> (r \<in> set routes \<and> srt_intent r = i \<and> dict_has handlers (srt_role r, srt_capability r))"
  using assms by (induction handlers table routes rule: add_routes.induct) (auto split: if_splits)

lemma router_resolve_sound:
  assumes "mk_semantic_router routes handlers = Inr router" "router_resolve router i = Inr r"
  obtains h where "r \<in> set routes" "srt_intent r = i" "dict_get (sro_handlers router) (srt_role r, srt_capability r) = Some h"
    "sro_handlers router = handlers"
  using assms add_routes_sound [of handlers "[]" routes _ i r]
  by (auto simp: mk_semantic_router_def router_resolve_def dict_has_def split: option.splits)

text \<open>C32. Dispatch: with a router that the constructor accepted, a query either raises before any handler runs, or it runs
  exactly one handler, once, on the caller's unchanged request: the one that the application registered for the
  declared route of the resolved intent, and the intent is one the ingress allows. The result is the handler's.\<close>

theorem semantic_dispatch:
  assumes "mk_semantic_router routes handlers = Inr router" "resolver (sqr_text request) w = (resolution, w1)"
    and "execute_semantic_query request resolver router allowed w = (res, w2)"
  shows "((\<exists>e. res = Inl e) \<and> w2 = w1) \<or>
    (\<exists>x intent r h out. resolution = Inr (Some x) \<and> sr_status x = SR_RESOLVED \<and> sr_intent x = Some intent
      \<and> (\<forall>xs. allowed = Some xs \<longrightarrow> intent \<in> set xs)
      \<and> r \<in> set routes \<and> srt_intent r = intent \<and> dict_get handlers (srt_role r, srt_capability r) = Some h
      \<and> h \<lparr>rsq_intent = intent, rsq_request = request\<rparr> w1 = (out, w2)
      \<and> (\<forall>y. res = Inr y \<longrightarrow> out = Inr (Some y) \<and> sqs_intent y = intent))"
proof (cases "\<exists>x intent r. resolution = Inr (Some x) \<and> sr_status x = SR_RESOLVED \<and> sr_intent x = Some intent
      \<and> (\<forall>xs. allowed = Some xs \<longrightarrow> intent \<in> set xs) \<and> router_resolve router intent = Inr r")
  case True
  then obtain x intent r where t: "resolution = Inr (Some x)" "sr_status x = SR_RESOLVED" "sr_intent x = Some intent"
    "\<forall>xs. allowed = Some xs \<longrightarrow> intent \<in> set xs" "router_resolve router intent = Inr r" by blast
  obtain h where h: "r \<in> set routes" "srt_intent r = intent" "dict_get (sro_handlers router) (srt_role r, srt_capability r) = Some h"
    "sro_handlers router = handlers"
    by (rule router_resolve_sound [OF assms(1) t(5)])
  obtain out w3 where out: "h \<lparr>rsq_intent = intent, rsq_request = request\<rparr> w1 = (out, w3)" by fastforce
  have "w3 = w2 \<and> (\<forall>y. res = Inr y \<longrightarrow> out = Inr (Some y) \<and> sqs_intent y = intent)"
    using assms(2,3) t h(3) out
    by (auto simp: execute_semantic_query_def bnd_def try_except_def router_execute_def split: option.splits sum.splits if_splits)
  with t h out show ?thesis by blast
next
  case False
  then have "(\<exists>e. res = Inl e) \<and> w2 = w1"
    using assms(2,3)
    by (auto simp: execute_semantic_query_def bnd_def try_except_def router_execute_def
        split: option.splits sum.splits if_splits SemanticResolutionStatus.splits)
  then show ?thesis ..
qed

definition echo_handler :: "nat semantic_handler" where
  "echo_handler q w = (Inr (Some \<lparr>sqs_intent = rsq_intent q, sqs_result = []\<rparr>), Suc w)"

definition echo_route :: semantic_route where
  "echo_route = \<lparr>srt_intent = ''a.b'', srt_role = CONTEXT_PREPARATION, srt_capability = ''echo''\<rparr>"

definition echo_router :: "nat semantic_handler semantic_router" where
  "echo_router = \<lparr>sro_handlers = [((CONTEXT_PREPARATION, ''echo''), echo_handler)], sro_routes = [(''a.b'', echo_route)]\<rparr>"

definition echo_request :: semantic_query_request where
  "echo_request = \<lparr>sqr_text = ''x'', sqr_account_context = \<lparr>wac_principal = None, wac_account_identifier = ''me''\<rparr>, sqr_timezone = ''UTC''\<rparr>"

definition echo_resolver :: "nat semantic_resolver" where
  "echo_resolver text w = (Inr (Some \<lparr>sr_status = SR_RESOLVED, sr_intent = Some ''a.b''\<rparr>), w)"

lemma echo_facts:
  "mk_semantic_router [echo_route] [((CONTEXT_PREPARATION, ''echo''), echo_handler)] = Inr echo_router"
  "echo_resolver (sqr_text echo_request) 0 = (Inr (Some \<lparr>sr_status = SR_RESOLVED, sr_intent = Some ''a.b''\<rparr>), 0)"
  "execute_semantic_query echo_request echo_resolver echo_router (Some [''a.b'']) 0 = (Inr \<lparr>sqs_intent = ''a.b'', sqs_result = []\<rparr>, 1)"
  by (simp_all add: mk_semantic_router_def echo_route_def echo_router_def dict_has_def echo_resolver_def execute_semantic_query_def
      bnd_def try_except_def router_execute_def router_resolve_def echo_handler_def)

theorem semantic_dispatch_witness:
  "\<exists>h. dict_get [((CONTEXT_PREPARATION, ''echo''), echo_handler)] (CONTEXT_PREPARATION, ''echo'') = Some h
     \<and> snd (h \<lparr>rsq_intent = ''a.b'', rsq_request = echo_request\<rparr> 0) = 1"
  using semantic_dispatch [OF echo_facts] by (auto simp: echo_route_def)

end
