(* ===== verification/Py_Dates.thy ===== *)
theory Py_Dates
  imports Py_Time
begin

text \<open>
  Python's \<open>date\<close>, years 1 to 9999: moving by days, text form, and the conversion of a \<open>datetime\<close> to UTC. Moving
  a date agrees with the count of days.
\<close>

section \<open>Civil dates\<close>

type_synonym date = "nat \<times> nat \<times> nat"

fun valid_date :: "date \<Rightarrow> bool" where
  "valid_date (y, m, d) \<longleftrightarrow> 1 \<le> y \<and> y \<le> 9999 \<and> 1 \<le> m \<and> m \<le> 12 \<and> 1 \<le> d \<and> d \<le> days_in_month y m"

fun day_number :: "date \<Rightarrow> int" where
  "day_number (y, m, d) = days_before_year y + days_before_month y m + int d"

definition overflow_error :: exc where
  "overflow_error = OtherException ''OverflowError'' ''date value out of range''"

fun next_day :: "date \<Rightarrow> date result" where
  "next_day (y, m, d) =
     (if d < days_in_month y m then Inr (y, m, d + 1)
      else if m < 12 then Inr (y, m + 1, 1)
      else if y < 9999 then Inr (y + 1, 1, 1)
      else Inl overflow_error)"

fun previous_day :: "date \<Rightarrow> date result" where
  "previous_day (y, m, d) =
     (if 1 < d then Inr (y, m, d - 1)
      else if 1 < m then Inr (y, m - 1, days_in_month y (m - 1))
      else if 1 < y then Inr (y - 1, 12, 31)
      else Inl overflow_error)"

fun iterate_days :: "(date \<Rightarrow> date result) \<Rightarrow> nat \<Rightarrow> date \<Rightarrow> date result" where
  "iterate_days f 0 d = Inr d"
| "iterate_days f (Suc n) d = rbind (f d) (iterate_days f n)"

text \<open>\<open>date + timedelta(days=k)\<close>.\<close>

definition add_days :: "int \<Rightarrow> date \<Rightarrow> date result" where
  "add_days k d = (if 0 \<le> k then iterate_days next_day (nat k) d else iterate_days previous_day (nat (- k)) d)"

definition date_isoformat :: "date \<Rightarrow> string" where
  "date_isoformat = (\<lambda>(y, m, d). padded 4 y @ ''-'' @ padded 2 m @ ''-'' @ padded 2 d)"

abbreviation micros_per_day :: int where
  "micros_per_day \<equiv> 86400000000"

definition dt_date :: "datetime \<Rightarrow> date" where
  "dt_date t = (dt_year t, dt_month t, dt_day t)"

text \<open>\<open>value.astimezone(UTC)\<close> of an aware value.\<close>

definition to_utc :: "datetime \<Rightarrow> datetime result" where
  "to_utc t =
     (let u = dt_instant t; r = u mod micros_per_day in
      rbind (add_days (u div micros_per_day - day_number (dt_date t)) (dt_date t)) (\<lambda>(y, m, d).
      Inr \<lparr>dt_year = y, dt_month = m, dt_day = d, dt_hour = nat (r div 3600000000),
           dt_minute = nat (r div 60000000 mod 60), dt_second = nat (r div 1000000 mod 60),
           dt_micro = nat (r mod 1000000), dt_offset = Some 0\<rparr>))"

section \<open>Days\<close>

lemma div_step: "0 < k \<Longrightarrow> (y::int) div k = (y - 1) div k + (if y mod k = 0 then 1 else 0)"
proof -
  assume k: "0 < k"
  define q r where "q = y div k" and "r = y mod k"
  have y: "y = q * k + r" and r: "0 \<le> r" "r < k" using k by (simp_all add: q_def r_def)
  have "(y - 1) div k = (if r = 0 then q - 1 else q)"
  proof (rule int_div_pos_eq)
    show "y - 1 = k * (if r = 0 then q - 1 else q) + (if r = 0 then k - 1 else r - 1)" by (simp add: y algebra_simps)
  qed (use k r in auto)
  then show ?thesis by (simp add: q_def r_def)
qed

lemma days_before_year_Suc:
  "days_before_year (Suc y) = days_before_year y + (if leap_year y then 366 else 365)"
proof -
  have conv: "y mod 4 = 0 \<longleftrightarrow> int y mod 4 = 0" "y mod 100 = 0 \<longleftrightarrow> int y mod 100 = 0" "y mod 400 = 0 \<longleftrightarrow> int y mod 400 = 0"
    by presburger+
  have chain: "int y mod 400 = 0 \<Longrightarrow> int y mod 100 = 0" "int y mod 100 = 0 \<Longrightarrow> int y mod 4 = 0" by presburger+
  have year: "days_before_year (Suc y) = int y * 365 + int y div 4 - int y div 100 + int y div 400"
    "days_before_year y = (int y - 1) * 365 + (int y - 1) div 4 - (int y - 1) div 100 + (int y - 1) div 400"
    by (simp_all add: days_before_year_def Let_def)
  have count: "n * 365 + a - b + c = (n - 1) * 365 + a' - b' + c' + (if P \<and> (\<not> Q \<or> R) then 366 else 365)"
    if "a = a' + (if P then 1 else 0)" "b = b' + (if Q then 1 else 0)" "c = c' + (if R then 1 else 0)" "R \<Longrightarrow> Q" "Q \<Longrightarrow> P"
    for n a b c a' b' c' :: int and P Q R
    using that by (cases P; cases Q; cases R; simp)
  show ?thesis
    unfolding year leap_year_def conv by (rule count [OF div_step div_step div_step chain]) simp_all
qed

lemma days_before_month_Suc:
  "1 \<le> m \<Longrightarrow> days_before_month y (Suc m) = days_before_month y m + int (days_in_month y m)"
  by (simp add: days_before_month_def)

lemma days_before_month_ends: "days_before_month y 1 = 0" "days_before_month y 12 = (if leap_year y then 335 else 334)"
  by (simp_all add: days_before_month_def days_in_month_def upt_rec)

lemma days_in_month_pos [simp]: "Suc 0 \<le> days_in_month y m" "0 < days_in_month y m"
  by (simp_all add: days_in_month_def)

lemma next_day_number:
  assumes "valid_date d" "next_day d = Inr d'"
  shows "valid_date d' \<and> day_number d' = day_number d + 1"
proof -
  obtain y m n where d: "d = (y, m, n)" by (cases d)
  consider (day) "n < days_in_month y m" | (month) "n = days_in_month y m" "m < 12"
    | (year) "n = days_in_month y m" "m = 12" "y < 9999"
    using assms d by (fastforce split: if_splits)
  then show ?thesis
  proof cases
    case month
    then show ?thesis using assms d days_before_month_Suc [of m y] by auto
  next
    case year
    then show ?thesis
      using assms d days_before_year_Suc [of y] days_before_month_ends [of y] days_before_month_ends(1) [of "Suc y"]
      by (auto simp: days_in_month_def)
  qed (use assms d in auto)
qed

lemma previous_day_number:
  assumes "valid_date d" "previous_day d = Inr d'"
  shows "valid_date d' \<and> day_number d' = day_number d - 1"
proof -
  obtain y m n where d: "d = (y, m, n)" by (cases d)
  consider (day) "1 < n" | (month) "n = 1" "1 < m" | (year) "n = 1" "m = 1" "1 < y"
    using assms d by (fastforce split: if_splits)
  then show ?thesis
  proof cases
    case month
    then obtain k where k: "m = Suc k" "1 \<le> k" by (cases m) auto
    with month show ?thesis using assms d days_before_month_Suc [of k y] by auto
  next
    case year
    then show ?thesis
      using assms d days_before_year_Suc [of "y - 1"] days_before_month_ends [of "y - 1"] days_before_month_ends(1) [of y]
      by (auto simp: days_in_month_def)
  qed (use assms d in auto)
qed

lemma iterate_days_number:
  assumes "\<And>d d'. valid_date d \<Longrightarrow> f d = Inr d' \<Longrightarrow> valid_date d' \<and> day_number d' = day_number d + k"
  shows "valid_date d \<Longrightarrow> iterate_days f n d = Inr d' \<Longrightarrow> valid_date d' \<and> day_number d' = day_number d + int n * k"
proof (induction n arbitrary: d)
  case (Suc n)
  then obtain d1 where d1: "f d = Inr d1" "iterate_days f n d1 = Inr d'" by auto
  with assms [OF Suc.prems(1) d1(1)] Suc.IH [of d1] show ?case by (auto simp: algebra_simps)
qed simp

text \<open>Adding days to a date adds them to its day count.\<close>

lemma add_days_number:
  assumes "valid_date d" "add_days k d = Inr d'"
  shows "valid_date d' \<and> day_number d' = day_number d + k"
proof (cases "0 \<le> k")
  case True
  then have "iterate_days next_day (nat k) d = Inr d'" using assms(2) by (simp add: add_days_def)
  from iterate_days_number [OF next_day_number assms(1) this] show ?thesis using True by simp
next
  case False
  then have "iterate_days previous_day (nat (- k)) d = Inr d'" using assms(2) by (simp add: add_days_def)
  from iterate_days_number [of previous_day "- 1", OF _ assms(1) this] previous_day_number False
  show ?thesis by simp
qed

lemma next_day_defined: "valid_date (y, m, n) \<Longrightarrow> y < 9999 \<Longrightarrow> \<exists>d'. next_day (y, m, n) = Inr d'"
  by auto

end
