(* ===== verification/Calendar_Agenda.thy ===== *)
theory Calendar_Agenda
  imports Calendar_Listing Semantic Py_Dates
begin

text \<open>
  \<open>integrations/calendar_agenda.py\<close>, \<open>calendar_agenda_command.py\<close>, \<open>calendar_agenda_query.py\<close>, the classification of
  \<open>calendar_agenda_ollama.py\<close> and \<open>api/calendar.py\<close>: the agenda of the next local day. The time-zone database is not
  part of the repository: a zone gives the offset at an instant and the offset at a local midnight, in seconds, and
  looking one up may raise.
\<close>

section \<open>Time zones\<close>

record time_zone =
  tz_offset_at :: "int \<Rightarrow> int"
  tz_midnight_offset :: "date \<Rightarrow> int"

type_synonym zone_database = "string \<Rightarrow> time_zone result"

text \<open>\<open>now.astimezone(timezone).date()\<close>: first to UTC, then to the zone; each conversion may leave the range of dates.\<close>

definition local_date_of :: "time_zone \<Rightarrow> datetime \<Rightarrow> date result" where
  "local_date_of tz t =
     (let utc = dt_instant t; local = utc + tz_offset_at tz utc * 1000000 in
      rbind (add_days (utc div micros_per_day - day_number (dt_date t)) (dt_date t)) (\<lambda>utc_date.
      add_days (local div micros_per_day - utc div micros_per_day) utc_date))"

definition local_midnight :: "time_zone \<Rightarrow> date \<Rightarrow> datetime" where
  "local_midnight tz = (\<lambda>(y, m, d).
     \<lparr>dt_year = y, dt_month = m, dt_day = d, dt_hour = 0, dt_minute = 0, dt_second = 0, dt_micro = 0,
      dt_offset = Some (tz_midnight_offset tz (y, m, d))\<rparr>)"

section \<open>The workflow\<close>

definition CALENDAR_TOMORROW_INTENT :: string where
  "CALENDAR_TOMORROW_INTENT = ''tomorrow''"

record calendar_agenda_request =
  car_intent :: string
  car_account_context :: worker_account_context
  car_timezone :: string
  car_now :: datetime

record calendar_agenda_result =
  cag_intent :: string
  cag_timezone :: string
  cag_local_date :: string
  cag_time_min :: string
  cag_time_max :: string
  cag_events :: "pyval list"
  cag_event_count :: int
  cag_aggregate_complete :: bool
  cag_skipped_event_count :: int
  cag_termination_reason :: string

definition is_zone_error :: "exc \<Rightarrow> bool" where
  "is_zone_error e =
     (case e of ValueError _ \<Rightarrow> True | OtherException name _ \<Rightarrow> name = ''ZoneInfoNotFoundError'' | _ \<Rightarrow> False)"

definition agenda_field_error :: "string \<Rightarrow> string \<Rightarrow> exc" where
  "agenda_field_error text field_name = CalendarAgendaWorkflowError text (Some field_name) None"

definition agenda_validate_request :: "zone_database \<Rightarrow> calendar_agenda_request \<Rightarrow> time_zone result" where
  "agenda_validate_request zones r =
     rbind (guard_exc (car_intent r = CALENDAR_TOMORROW_INTENT)
              (agenda_field_error ''calendar agenda intent is unsupported'' ''intent'')) (\<lambda>_.
     rbind (guard_exc (unpadded (car_timezone r))
              (agenda_field_error ''calendar agenda timezone must be a non-blank unpadded string'' ''timezone'')) (\<lambda>_.
     rbind (case zones (car_timezone r) of
              Inl e \<Rightarrow> Inl (if is_zone_error e
                then agenda_field_error ''calendar agenda timezone is not a valid IANA timezone'' ''timezone'' else e)
            | Inr tz \<Rightarrow> Inr tz) (\<lambda>tz.
     rbind (guard_exc (is_aware (car_now r))
              (agenda_field_error ''calendar agenda now must be a timezone-aware datetime'' ''now'')) (\<lambda>_.
     rbind (guard_exc (case wac_principal (car_account_context r) of None \<Rightarrow> False | Some p \<Rightarrow> unpadded p)
              (agenda_field_error ''calendar agenda account context is invalid'' ''principal'')) (\<lambda>_.
     rbind (guard_exc (unpadded (wac_account_identifier (car_account_context r)))
              (agenda_field_error ''calendar agenda account context is invalid'' ''account_identifier'')) (\<lambda>_.
     Inr tz))))))"

definition agenda_payload :: "string \<Rightarrow> string \<Rightarrow> pydict" where
  "agenda_payload time_min time_max =
     [(''time_min'', PStr time_min), (''time_max'', PStr time_max),
      (''max_results'', PInt CALENDAR_LIST_MAX_MAX_RESULTS), (''max_pages'', PInt CALENDAR_LIST_MAX_MAX_PAGES)]"

text \<open>The check of the orchestrator's metadata and the result made of it.\<close>

definition termination_reasons :: "string list" where
  "termination_reasons = [''exhausted'', ''page_limit'', ''repeated_page_token'']"

definition agenda_result ::
  "calendar_agenda_request \<Rightarrow> date \<Rightarrow> string \<Rightarrow> string \<Rightarrow> pydict \<Rightarrow> calendar_agenda_result result" where
  "agenda_result r local_date time_min time_max md =
     (let invalid = CalendarAgendaWorkflowError ''calendar tomorrow agenda orchestration returned invalid data''
            None (Some (failure_category_value INTERNAL)) in
      case (pd_get md ''events'', pd_get md ''event_count'', pd_get md ''aggregate_complete'',
            pd_get md ''skipped_event_count'') of
        (PTuple events, PInt n, PBool whole, PInt skipped) \<Rightarrow>
          if \<not> list_all (\<lambda>e. case e of PDict _ \<Rightarrow> True | _ \<Rightarrow> False) events \<or> n \<noteq> int (length events) \<or> skipped < 0
          then Inl invalid
          else (case pd_get md ''termination_reason'' of
              PStr reason \<Rightarrow>
                if reason \<notin> set termination_reasons then Inl invalid
                else Inr \<lparr>cag_intent = CALENDAR_TOMORROW_INTENT, cag_timezone = car_timezone r,
                          cag_local_date = date_isoformat local_date, cag_time_min = time_min, cag_time_max = time_max,
                          cag_events = events, cag_event_count = n, cag_aggregate_complete = whole,
                          cag_skipped_event_count = skipped, cag_termination_reason = reason\<rparr>
            | PList _ \<Rightarrow> Inl (TypeError ''unhashable type'')
            | PDict _ \<Rightarrow> Inl (TypeError ''unhashable type'')
            | _ \<Rightarrow> Inl invalid)
      | _ \<Rightarrow> Inl invalid)"

definition agenda_execute ::
  "zone_database \<Rightarrow> (action \<Rightarrow> worker_account_context option \<Rightarrow> ('w, worker_execution_result) prog)
     \<Rightarrow> uuid \<Rightarrow> datetime \<Rightarrow> calendar_agenda_request \<Rightarrow> ('w, calendar_agenda_result) prog" where
  "agenda_execute zones orchestrator i created r =
     bnd (liftr (agenda_validate_request zones r)) (\<lambda>tz.
     bnd (liftr (rbind (local_date_of tz (car_now r)) (add_days 1))) (\<lambda>local_date.
     bnd (liftr (add_days 1 local_date)) (\<lambda>following_local_date.
     let time_min = isoformat (local_midnight tz local_date);
         time_max = isoformat (local_midnight tz following_local_date) in
     bnd (liftr (mk_action i CALENDAR_LIST_EVENTS ''calendar-agenda-tomorrow'' (agenda_payload time_min time_max)
                   (Some (RoleEnum CALENDAR_EXECUTOR_ROLE)) created [])) (\<lambda>a.
     bnd (orchestrator a (Some (car_account_context r))) (\<lambda>result.
     if wer_status result \<noteq> WSUCCEEDED
     then raise_exc (CalendarAgendaWorkflowError ''calendar tomorrow agenda orchestration failed'' None
            (Some (failure_category_value (case wer_failure result of None \<Rightarrow> INTERNAL | Some f \<Rightarrow> wef_category f))))
     else liftr (agenda_result r local_date time_min time_max (wer_metadata result)))))))"

section \<open>The command service\<close>

record calendar_agenda_command =
  cac_intent :: string
  cac_account_context :: worker_account_context
  cac_timezone :: string

definition command_execute ::
  "(calendar_agenda_request \<Rightarrow> ('w, calendar_agenda_result) prog) \<Rightarrow> datetime \<Rightarrow> calendar_agenda_command
     \<Rightarrow> ('w, calendar_agenda_result) prog" where
  "command_execute workflow now cmd =
     (if cac_intent cmd \<noteq> CALENDAR_TOMORROW_INTENT
      then raise_exc (agenda_field_error ''calendar agenda intent is unsupported'' ''intent'')
      else if \<not> is_aware now
      then raise_exc (agenda_field_error ''calendar agenda clock must return a timezone-aware datetime'' ''now'')
      else workflow \<lparr>car_intent = cac_intent cmd, car_account_context = cac_account_context cmd,
             car_timezone = cac_timezone cmd, car_now = now\<rparr>)"

section \<open>The semantic adapters\<close>

definition CALENDAR_AGENDA_TOMORROW_INTENT :: string where
  "CALENDAR_AGENDA_TOMORROW_INTENT = ''calendar.agenda.tomorrow''"

definition CALENDAR_AGENDA_COMMAND_INTENTS :: "(string \<times> string) list" where
  "CALENDAR_AGENDA_COMMAND_INTENTS = [(CALENDAR_AGENDA_TOMORROW_INTENT, ''tomorrow'')]"

definition CALENDAR_AGENDA_REQUEST_FIELDS :: "string list" where
  "CALENDAR_AGENDA_REQUEST_FIELDS = [''intent'', ''timezone'', ''account_context'', ''principal'', ''account_identifier'']"

text \<open>\<open>text.rstrip(chars)\<close>.\<close>

definition str_rstrip_chars :: "string \<Rightarrow> string \<Rightarrow> string" where
  "str_rstrip_chars chars s = rev (dropWhile (\<lambda>ch. ch \<in> set chars) (rev s))"

text \<open>The two Ukrainian phrases of the table have characters outside the range of the model's texts, so no text of the model
  is one of them; the English one remains.\<close>

definition agenda_phrases :: "(string \<times> string) list" where
  "agenda_phrases = [(''what do i have tomorrow'', CALENDAR_AGENDA_TOMORROW_INTENT)]"

definition bounded_resolve :: "string \<Rightarrow> semantic_resolution result" where
  "bounded_resolve text =
     (let normalized = str_strip (str_rstrip_chars ''!?.,;'' (str_casefold (str_strip text))) in
      if normalized = '''' then Inl (SemanticInputError ''calendar agenda query text is required'')
      else (case dict_get agenda_phrases normalized of
          None \<Rightarrow> resolution_unresolved
        | Some intent \<Rightarrow> resolution_resolved intent))"

text \<open>The resolver over a local model. The client answers the chat request with the decoded JSON body of a successful
  response; decoding the content is the parameter \<open>json_loads\<close>.\<close>

definition ollama_content :: "pyval \<Rightarrow> string option" where
  "ollama_content body =
     (case body of
        PDict d \<Rightarrow> (case dict_get d ''message'' of
            Some (PDict m) \<Rightarrow> (case dict_get m ''content'' of Some (PStr s) \<Rightarrow> Some s | _ \<Rightarrow> None)
          | _ \<Rightarrow> None)
      | _ \<Rightarrow> None)"

definition ollama_classification :: "pyval option \<Rightarrow> string option" where
  "ollama_classification v =
     (case v of
        Some (PDict d) \<Rightarrow>
          if map fst d = [''intent''] \<and> pd_get d ''intent'' \<in> {PStr ''tomorrow'', PStr ''unsupported''}
          then (case pd_get d ''intent'' of PStr s \<Rightarrow> Some s | _ \<Rightarrow> None)
          else None
      | _ \<Rightarrow> None)"

definition ollama_resolve ::
  "(string \<Rightarrow> ('w, pyval) prog) \<Rightarrow> (string \<Rightarrow> pyval option) \<Rightarrow> string \<Rightarrow> ('w, semantic_resolution) prog" where
  "ollama_resolve chat json_loads text =
     (let failed = SemanticResolverError ''calendar agenda query resolution failed'' in
      if str_blank text then raise_exc (SemanticInputError ''calendar agenda query text is required'')
      else bnd (try_except (chat text) (\<lambda>_. raise_exc failed)) (\<lambda>body.
        case Option.bind (ollama_content body) (\<lambda>content. ollama_classification (json_loads content)) of
          None \<Rightarrow> raise_exc failed
        | Some intent \<Rightarrow>
            liftr (if intent = ''unsupported'' then resolution_unresolved
                   else resolution_resolved CALENDAR_AGENDA_TOMORROW_INTENT)))"

definition agenda_result_dict :: "calendar_agenda_result \<Rightarrow> pydict" where
  "agenda_result_dict r =
     [(''intent'', PStr (cag_intent r)), (''timezone'', PStr (cag_timezone r)), (''local_date'', PStr (cag_local_date r)),
      (''time_min'', PStr (cag_time_min r)), (''time_max'', PStr (cag_time_max r)), (''events'', PTuple (cag_events r)),
      (''event_count'', PInt (cag_event_count r)), (''aggregate_complete'', PBool (cag_aggregate_complete r)),
      (''skipped_event_count'', PInt (cag_skipped_event_count r)),
      (''termination_reason'', PStr (cag_termination_reason r))]"

text \<open>\<open>error.category is None and error.field in CALENDAR_AGENDA_REQUEST_FIELDS\<close>.\<close>

definition is_request_error :: "exc \<Rightarrow> bool" where
  "is_request_error e =
     (case e of
        CalendarAgendaWorkflowError _ (Some field_name) None \<Rightarrow> field_name \<in> set CALENDAR_AGENDA_REQUEST_FIELDS
      | _ \<Rightarrow> False)"

definition agenda_semantic_handler ::
  "(calendar_agenda_command \<Rightarrow> ('w, calendar_agenda_result) prog) \<Rightarrow> 'w semantic_handler" where
  "agenda_semantic_handler service query =
     (case dict_get CALENDAR_AGENDA_COMMAND_INTENTS (rsq_intent query) of
        None \<Rightarrow> raise_exc (SemanticRoutingError ''semantic intent has no calendar agenda command'')
      | Some command_intent \<Rightarrow>
          bnd (try_except (service \<lparr>cac_intent = command_intent,
                 cac_account_context = sqr_account_context (rsq_request query), cac_timezone = sqr_timezone (rsq_request query)\<rparr>)
                 (\<lambda>e. raise_exc (if is_request_error e then SemanticRequestError ''invalid calendar agenda request'' else e)))
               (\<lambda>result. ret (Some \<lparr>sqs_intent = rsq_intent query, sqs_result = agenda_result_dict result\<rparr>)))"

section \<open>HTTP\<close>

definition agenda_http_error :: "exc \<Rightarrow> exc" where
  "agenda_http_error e =
     (if is_request_error e then HTTPException 422 ''invalid calendar agenda request''
      else HTTPException 500 ''calendar agenda execution failed'')"

definition http_calendar_agenda ::
  "(calendar_agenda_command \<Rightarrow> ('w, calendar_agenda_result) prog) \<Rightarrow> string \<Rightarrow> string \<Rightarrow> string \<Rightarrow> string
     \<Rightarrow> ('w, calendar_agenda_result) prog" where
  "http_calendar_agenda service intent prin account_identifier timezone =
     try_except
       (service \<lparr>cac_intent = intent,
          cac_account_context = \<lparr>wac_principal = Some prin, wac_account_identifier = account_identifier\<rparr>,
          cac_timezone = timezone\<rparr>)
       (\<lambda>e. raise_exc (agenda_http_error e))"

definition agenda_query_http_error :: "exc \<Rightarrow> exc" where
  "agenda_query_http_error e =
     (case e of
        SemanticInputError _ \<Rightarrow> HTTPException 422 ''invalid calendar agenda query''
      | SemanticRoutingError _ \<Rightarrow> HTTPException 422 ''unsupported calendar agenda query''
      | SemanticRequestError _ \<Rightarrow> HTTPException 422 ''invalid calendar agenda request''
      | SemanticResolverError _ \<Rightarrow> HTTPException 500 ''calendar agenda query resolution failed''
      | _ \<Rightarrow> HTTPException 500 ''calendar agenda execution failed'')"

definition http_calendar_agenda_query ::
  "string \<Rightarrow> string \<Rightarrow> string \<Rightarrow> string \<Rightarrow> 'w semantic_resolver \<Rightarrow> 'w semantic_handler semantic_router \<Rightarrow> ('w, pydict) prog" where
  "http_calendar_agenda_query text prin account_identifier timezone resolver router =
     bnd (try_except
       (execute_semantic_query
          \<lparr>sqr_text = text, sqr_account_context = \<lparr>wac_principal = Some prin, wac_account_identifier = account_identifier\<rparr>,
           sqr_timezone = timezone\<rparr> resolver router (Some (map fst CALENDAR_AGENDA_COMMAND_INTENTS)))
       (\<lambda>e. raise_exc (agenda_query_http_error e))) (\<lambda>result. ret (sqs_result result))"

end
