(* ===== verification/Calendar_Properties.thy ===== *)
theory Calendar_Properties
  imports Calendar_Listing Samples
begin

text \<open>
  The properties of the calendar listing: the walk over pages is bounded and, on the deterministic provider, collects
  exactly the first events of the calendar; page tokens do not leak; the HTTP transport only sends bounded reads;
  event identifiers survive the URL encoding.
\<close>

section \<open>Decimal text\<close>

lemma nat_str_chars: "c \<in> set (nat_str n) \<Longrightarrow> \<exists>d<10. c = digit_chr d"
proof (induction n rule: nat_str.induct)
  case (1 n)
  show ?case
  proof (cases "n < 10")
    case True
    with 1(2) show ?thesis by (auto simp: nat_str.simps [of n])
  next
    case False
    have "n mod 10 < 10" by simp
    with False 1 show ?thesis by (force simp: nat_str.simps [of n])
  qed
qed

lemma dec_chr_facts: "d < 10 \<Longrightarrow> \<not> is_space (digit_chr d) \<and> digit_chr d \<noteq> CHR ''-'' \<and> digit_chr d \<noteq> CHR ''+''"
  using upt_16 [of d] by (auto simp: digit_chr_def hexdigits_def is_space_def chr_code_def)

lemma nat_str_not_Nil [simp]: "nat_str n \<noteq> []"
  by (subst nat_str.simps) simp

lemma nat_str_strip [simp]: "str_strip (nat_str n) = nat_str n"
  by (rule str_strip_none) (use nat_str_chars dec_chr_facts in blast)

lemma nat_str_dec: "list_all (\<lambda>c. dec_val c \<noteq> None) (nat_str n)"
  by (auto simp: list_all_iff dest!: nat_str_chars)

lemma nat_str_isdigit [simp]: "str_isdigit (nat_str n)"
  using nat_str_dec [of n] by (auto simp: str_isdigit_def list_all_iff)

lemma nat_str_value: "foldl (\<lambda>acc ch. acc * 10 + int (the (dec_val ch))) 0 (nat_str n) = int n"
proof (induction n rule: nat_str.induct)
  case (1 n)
  show ?case
  proof (cases "n < 10")
    case True
    then show ?thesis by (simp add: nat_str.simps [of n])
  next
    case False
    have "int n = int (n div 10) * 10 + int (n mod 10)" using div_mult_mod_eq [of n 10] by linarith
    with 1 [OF False] False show ?thesis by (simp add: nat_str.simps [of n])
  qed
qed

lemma nat_str_sign: "\<not> str_startswith (nat_str n) ''-''" "\<not> str_startswith (nat_str n) ''+''"
proof -
  obtain c s where cs: "nat_str n = c # s" by (cases "nat_str n") auto
  then obtain d where "d < 10" "c = digit_chr d" using nat_str_chars [of c n] by auto
  with cs dec_chr_facts [of d] show "\<not> str_startswith (nat_str n) ''-''" "\<not> str_startswith (nat_str n) ''+''" by auto
qed

lemma int_of_str_nat_str [simp]: "int_of_str (nat_str n) = Inr (int n)"
  using nat_str_dec [of n] nat_str_value [of n] nat_str_sign [of n] by (simp add: int_of_str_def Let_def)

lemma nat_str_inject [simp]: "nat_str m = nat_str n \<longleftrightarrow> m = n"
  using int_of_str_nat_str by (metis of_nat_eq_iff sum.inject(2))

lemma int_str_nonneg: "0 \<le> n \<Longrightarrow> int_str n = nat_str (nat n)"
  by (simp add: int_str_def)

section \<open>The walk is bounded\<close>

text \<open>An executor that also counts how often it is called.\<close>

definition counted ::
  "(action \<Rightarrow> string option \<Rightarrow> worker_account_context option \<Rightarrow> ('w, worker_execution_result) prog)
     \<Rightarrow> action \<Rightarrow> string option \<Rightarrow> worker_account_context option \<Rightarrow> ('w \<times> nat, worker_execution_result) prog" where
  "counted ex a cap ctx = (\<lambda>(w, n). case ex a cap ctx w of (r, w') \<Rightarrow> (r, (w', Suc n)))"

lemma walk_pages_count:
  assumes tick: "\<And>p w n. snd (snd (page_exec p (w, n))) = Suc n" and "lw_pages_fetched s < cor_max_pages req"
    and "walk_pages page_exec a req s (w, n) = (res, (w', n'))"
  shows "n < n' \<and> int n' \<le> int n + (cor_max_pages req - lw_pages_fetched s)
    \<and> (\<forall>r. res = Inr r \<and> wer_status r = WSUCCEEDED \<longrightarrow>
         pd_get (wer_metadata r)  ''pages_fetched'' = PInt (lw_pages_fetched s + int n' - int n))"
  using assms(2,3)
proof (induction "nat (cor_max_pages req - lw_pages_fetched s)" arbitrary: s w n rule: less_induct)
  case less
  obtain out w1 n1 where run: "page_exec (page_payload req (lw_page_token s)) (w, n) = (out, (w1, n1))"
    by (metis prod.exhaust)
  have n1: "n1 = Suc n" using tick [of "page_payload req (lw_page_token s)" w n] run by simp
  note walk = less.prems(2) [unfolded walk_pages.simps [of page_exec a req s] run n1]
  show ?case
  proof (cases "\<exists>page p token. out = Inr page \<and> wer_status page = WSUCCEEDED \<and> read_page (wer_metadata page) = Some p
      \<and> lp_next p = Some token \<and> lw_pages_fetched s + 1 < cor_max_pages req \<and> token \<notin> lw_seen s")
    case True
    then obtain page p token where t: "out = Inr page" "wer_status page = WSUCCEEDED" "read_page (wer_metadata page) = Some p"
      "lp_next p = Some token" "lw_pages_fetched s + 1 < cor_max_pages req" "token \<notin> lw_seen s" by blast
    let ?s = "(add_page s p)\<lparr>lw_seen := insert token (lw_seen s), lw_page_token := Some token\<rparr>"
    have f: "lw_pages_fetched ?s = lw_pages_fetched s + 1" by (simp add: add_page_def)
    have "walk_pages page_exec a req ?s (w1, Suc n) = (res, (w', n'))" using walk t by simp
    with less.hyps [of ?s w1 "Suc n"] f t(5) show ?thesis by (auto simp: algebra_simps)
  next
    case False
    with walk have "n' = Suc n \<and> (\<forall>r. res = Inr r \<and> wer_status r = WSUCCEEDED \<longrightarrow> pd_get (wer_metadata r)  ''pages_fetched'' = PInt (lw_pages_fetched s + 1))"
      by (auto simp: Let_def walk_result_def add_page_def pd_get_def page_failure_def invalid_page_failure_def failed_result_def
          not_le split: sum.splits option.splits if_splits)
    with less.prems(1) show ?thesis by auto
  qed
qed

lemma orchestration_request_pages:
  "mk_calendar_orchestration_request t0 t1 m p = Inr req \<Longrightarrow>
     p = PInt (cor_max_pages req) \<and> 1 \<le> cor_max_pages req \<and> cor_max_pages req \<le> 10"
  by (cases p) (auto simp: mk_calendar_orchestration_request_def CALENDAR_LIST_MAX_MAX_PAGES_def)

lemma orchestration_request_list:
  "mk_calendar_orchestration_request t0 t1 m p = Inr req \<Longrightarrow>
     \<exists>lr. mk_calendar_event_list_request t0 t1 m PNone = Inr lr \<and> cor_time_min req = clr_time_min lr
       \<and> cor_time_max req = clr_time_max lr \<and> cor_max_results req = clr_max_results lr"
  by (cases p) (auto simp: mk_calendar_orchestration_request_def)

text \<open>C26. Bounded walk: an orchestrated listing calls the page executor at most \<open>max_pages\<close> times, at most ten
  times whatever is asked, and a successful one reports exactly the number of pages it fetched.\<close>

theorem orchestration_bounded:
  assumes "orchestrate (counted ex) a ctx (w, 0) = (res, (w', n))"
  shows "n \<le> 10 \<and> (0 < n \<longrightarrow> (\<exists>m. pd_get (act_payload a) ''max_pages'' = PInt m \<and> int n \<le> m))
    \<and> (\<forall>r. res = Inr r \<and> wer_status r = WSUCCEEDED \<longrightarrow> 0 < n \<and> pd_get (wer_metadata r)  ''pages_fetched'' = PInt (int n))"
proof -
  let ?p = "act_payload a"
  let ?mk = "mk_calendar_orchestration_request (pd_get ?p ''time_min'') (pd_get ?p ''time_max'')
                   (pd_get ?p ''max_results'') (pd_get ?p ''max_pages'')"
  consider (none) "n = 0" "\<And>r. res = Inr r \<Longrightarrow> wer_status r = WFAILED"
    | (walk) req where "?mk = Inr req"
      "walk_pages (\<lambda>payload. counted ex (a\<lparr>act_payload := payload\<rparr>) (Some CALENDAR_LIST_EVENTS) ctx)
         (page_token_redacted_action a) req empty_walk (w, 0) = (res, (w', n))"
    using assms
    by (auto simp: orchestrate_def Let_def request_failure_def failed_result_def split: if_splits sum.splits exc.splits)
  then show ?thesis
  proof cases
    case none
    then show ?thesis by auto
  next
    case (walk req)
    have tick: "snd (snd (counted ex (a\<lparr>act_payload := p\<rparr>) (Some CALENDAR_LIST_EVENTS) ctx (w, n))) = Suc n" for p w n
      by (simp add: counted_def split: prod.splits)
    have "lw_pages_fetched empty_walk = 0" by (simp add: empty_walk_def)
    then show ?thesis
      using walk_pages_count [OF tick _ walk(2)] orchestration_request_pages [OF walk(1)] by auto
  qed
qed

section \<open>The walk on the deterministic provider\<close>

lemma list_request_fields:
  assumes "mk_calendar_event_list_request t0 t1 m tok = Inr r"
  shows "t0 = PStr (clr_time_min r)" "t1 = PStr (clr_time_max r)" "m = PInt (clr_max_results r)"
    "1 \<le> clr_max_results r" "clr_max_results r \<le> 50"
    "tok = PNone \<and> clr_page_token r = None \<or> (\<exists>t. tok = PStr t \<and> unpadded t \<and> clr_page_token r = Some t)"
    "\<exists>a b. validated_rfc3339_timestamp t0 ''time_min'' = Inr a \<and> validated_rfc3339_timestamp t1 ''time_max'' = Inr b
       \<and> dt_instant a < dt_instant b"
proof -
  obtain n where n: "m = PInt n" using assms by (cases m) (auto simp: mk_calendar_event_list_request_def)
  obtain x y where xy: "t0 = PStr x" "t1 = PStr y"
    using assms n by (cases t0; cases t1) (auto simp: mk_calendar_event_list_request_def validated_rfc3339_timestamp_def)
  show "t0 = PStr (clr_time_min r)" "t1 = PStr (clr_time_max r)" "m = PInt (clr_max_results r)"
    "1 \<le> clr_max_results r" "clr_max_results r \<le> 50"
    "\<exists>a b. validated_rfc3339_timestamp t0 ''time_min'' = Inr a \<and> validated_rfc3339_timestamp t1 ''time_max'' = Inr b
       \<and> dt_instant a < dt_instant b"
    using assms n xy by (auto simp: mk_calendar_event_list_request_def CALENDAR_LIST_MAX_MAX_RESULTS_def)
  show "tok = PNone \<and> clr_page_token r = None \<or> (\<exists>t. tok = PStr t \<and> unpadded t \<and> clr_page_token r = Some t)"
    using assms n xy by (cases tok) (auto simp: mk_calendar_event_list_request_def)
qed

lemma list_request_token:
  "mk_calendar_event_list_request t0 t1 m PNone = Inr r \<Longrightarrow> unpadded t \<Longrightarrow>
     mk_calendar_event_list_request t0 t1 m (PStr t) = Inr (r\<lparr>clr_page_token := Some t\<rparr>)"
  by (frule list_request_fields(1), frule list_request_fields(2), frule list_request_fields(3))
     (auto simp: mk_calendar_event_list_request_def)

lemma list_request_token_Inl:
  assumes "mk_calendar_event_list_request t0 t1 m PNone = Inl e" "unpadded t"
  shows "mk_calendar_event_list_request t0 t1 m (PStr t) = Inl e"
proof (cases "validated_rfc3339_timestamp t0 ''time_min''")
  case (Inr a)
  then obtain x where x: "t0 = PStr x" by (cases t0) (auto simp: validated_rfc3339_timestamp_def)
  show ?thesis
  proof (cases "validated_rfc3339_timestamp t1 ''time_max''")
    case (Inr b)
    then obtain y where "t1 = PStr y" by (cases t1) (auto simp: validated_rfc3339_timestamp_def)
    with x assms show ?thesis
      by (cases m) (auto simp: mk_calendar_event_list_request_def rbind_def guard_exc_def split: sum.splits if_splits)
  qed (use assms Inr in \<open>auto simp: mk_calendar_event_list_request_def\<close>)
qed (use assms in \<open>auto simp: mk_calendar_event_list_request_def\<close>)

definition fake_token :: "nat \<Rightarrow> string" where
  "fake_token n = FAKE_CALENDAR_PAGE_TOKEN_PREFIX @ nat_str n"

definition offset_token :: "nat \<Rightarrow> string option" where
  "offset_token n = (if n = 0 then None else Some (fake_token n))"

lemma str_strip_prefixed:
  assumes "p \<noteq> []" "\<not> is_space (hd p)" "s \<noteq> []" "\<not> is_space (last s)"
  shows "str_strip (p @ s) = p @ s"
proof -
  have "dropWhile is_space (p @ s) = p @ s" using assms(1,2) by (cases p) auto
  moreover have "dropWhile is_space (rev s @ rev p) = rev s @ rev p"
    using assms(3,4) by (cases s rule: rev_cases) auto
  ultimately show ?thesis by (simp add: str_strip_def str_lstrip_def str_rstrip_def)
qed

lemma fake_token_facts:
  "unpadded (fake_token n)" "\<not> str_blank (fake_token n)" "fake_token m = fake_token n \<longleftrightarrow> m = n"
  "page_token_offset (PStr (fake_token n)) k = Inr (if k < n then None else Some n)"
proof -
  have "last (nat_str n) \<in> set (nat_str n)" by simp
  then have "\<not> is_space (last (nat_str n))" using nat_str_chars dec_chr_facts by metis
  then have s: "str_strip (fake_token n) = fake_token n"
    unfolding fake_token_def by (intro str_strip_prefixed) (simp_all add: FAKE_CALENDAR_PAGE_TOKEN_PREFIX_def is_space_def chr_code_def)
  have ne: "fake_token n \<noteq> []" by (simp add: fake_token_def)
  show "unpadded (fake_token n)" using s ne by (simp add: unpadded_def)
  show "\<not> str_blank (fake_token n)" using s ne by (simp add: str_blank_def)
  show "fake_token m = fake_token n \<longleftrightarrow> m = n" by (simp add: fake_token_def)
  show "page_token_offset (PStr (fake_token n)) k = Inr (if k < n then None else Some n)"
    by (simp add: page_token_offset_def fake_token_def str_startswith_append)
qed

definition listed_ids_ok :: "(string \<times> calendar_event) list \<Rightarrow> bool" where
  "listed_ids_ok events \<longleftrightarrow> (\<forall>(k, e)\<in>set events. \<not> str_blank (ce_event_id e))"

definition context_ok :: "worker_account_context \<Rightarrow> bool" where
  "context_ok ctx \<longleftrightarrow> (\<exists>p. wac_principal ctx = Some p \<and> \<not> str_blank p) \<and> \<not> str_blank (wac_account_identifier ctx)"

lemma allowlisted_event_dict: 
  "\<not> str_blank (ce_event_id e) \<Longrightarrow>
     \<exists>d. calendar_event_dict e = PDict d \<and> allowlisted_calendar_event (calendar_event_dict e) = Some d"
  by (simp add: allowlisted_calendar_event_def calendar_event_dict_def pd_get_def str_values_def list_all_iff)

lemma allowlisted_event_dicts:
  "list_all (\<lambda>e. \<not> str_blank (ce_event_id e)) es \<Longrightarrow>
     allowlisted_events (map calendar_event_dict es) = Some (map calendar_event_dict es)"
  by (induction es) (auto dest!: allowlisted_event_dict)

lemma fake_provider_execute:
  assumes "context_ok ctx" "gpr_account_context r = Some ctx"
  obtains c where "provider_execute (fake_calendar_composition [] [] events []) r None None w =
    (calendar_default_response events r c, w)"
proof -
  obtain p where "wac_principal ctx = Some p" "\<not> str_blank p" "\<not> str_blank (wac_account_identifier ctx)"
    using assms(1) by (auto simp: context_ok_def)
  with assms(2) that show thesis
    by (auto simp: provider_execute_def context_mismatch_def fake_calendar_composition_def fake_get_credentials_def
        google_normalize_identifier_def find_first_def dict_has_def bnd_def fake_transport_execute_def Let_def)
qed

text \<open>The page that the executor returns for an offset.\<close>

definition fake_page :: "calendar_event list \<Rightarrow> nat \<Rightarrow> nat \<Rightarrow> list_page" where
  "fake_page es m k = (let page = take m (drop k es) in
     \<lparr>lp_events = map calendar_event_dict page, lp_skipped = 0, lp_complete = True,
      lp_next = (if k + length page < length es then Some (fake_token (k + length page)) else None)\<rparr>)"

definition listing_exec ::
  "(string \<times> calendar_event) list \<Rightarrow> action \<Rightarrow> worker_account_context \<Rightarrow> pydict \<Rightarrow> ('w, worker_execution_result) prog" where
  "listing_exec events a ctx payload =
     calendar_execute (fake_calendar_composition [] [] events []) (a\<lparr>act_payload := payload\<rparr>) (Some CALENDAR_LIST_EVENTS) (Some ctx)"

lemma list_result_of_page:
  assumes "list_all (\<lambda>e. \<not> str_blank (ce_event_id e)) es"
  shows "calendar_event_list_result (fake_list_page es k m) =
     \<lparr>ccr_status = WSUCCEEDED, ccr_reason = Some ''calendar event list provider result'',
      ccr_metadata = (let p = fake_page es m k; token = opt_str (lp_next p) in
        [(''events'', PTuple (lp_events p)), (''event_count'', PInt (int (length (lp_events p)))),
         (''next_page_token'', token), (''has_more_pages'', PBool (token \<noteq> PNone)),
         (''page_complete'', PBool True), (''skipped_event_count'', PInt 0), (''adapter'', PStr ''fake_transport'')])\<rparr>"
proof -
  have "list_all (\<lambda>e. \<not> str_blank (ce_event_id e)) (take m (drop k es))"
    using assms by (auto simp: list_all_iff dest: in_set_takeD in_set_dropD)
  from allowlisted_event_dicts [OF this] show ?thesis
    using fake_token_facts(2)
    by (simp add: calendar_event_list_result_def fake_list_page_def Let_def pd_get_def sequence_items_def adapter_entry_def
        fake_page_def opt_str_def non_blank_str_def flip: fake_token_def) linarith
qed

lemma read_page_metadata:
  fixes es m k
  defines "p \<equiv> fake_page es m k"
  shows "read_page (dict_merge md [(''events'', PTuple (lp_events p)), (''event_count'', PInt (int (length (lp_events p)))),
         (''next_page_token'', opt_str (lp_next p)), (''has_more_pages'', PBool (opt_str (lp_next p) \<noteq> PNone)),
         (''page_complete'', PBool True), (''skipped_event_count'', PInt 0), (''adapter'', PStr ''fake_transport'')]) = Some p"
  using fake_token_facts(2)
  by (auto simp: read_page_def pd_get_def dict_merge_get Let_def p_def fake_page_def opt_str_def non_blank_str_def list_all_iff
      calendar_event_dict_def)

lemma fake_list_page_ok [simp]: "gpp_failure (fake_list_page es k m) = None"
  by (simp add: fake_list_page_def Let_def)

lemma default_list_response_page:
  assumes "clr_page_token lr = offset_token k" "k \<le> length events" "1 \<le> clr_max_results lr"
  shows "default_list_response (map snd events) (list_provider_request CALENDAR_LIST_EVENTS lr ctx) =
     Inr (fake_list_page (map snd events) k (nat (clr_max_results lr)))"
  using assms fake_token_facts(4) [of k "length events"]
  by (auto simp: default_list_response_def list_provider_request_def as_query_def pd_get_def int_str_nonneg offset_token_def
      split: if_splits)

lemma listing_page:
  assumes "context_ok ctx" "listed_ids_ok events" "k \<le> length events"
    and "mk_calendar_event_list_request (PStr (cor_time_min req)) (PStr (cor_time_max req)) (PInt (cor_max_results req)) PNone = Inr lr"
  shows "\<exists>page. listing_exec events a ctx (page_payload req (offset_token k)) w = (Inr page, w) \<and> wer_status page = WSUCCEEDED
    \<and> read_page (wer_metadata page) = Some (fake_page (map snd events) (nat (cor_max_results req)) k)"
proof -
  define lr' where "lr' = lr\<lparr>clr_page_token := offset_token k\<rparr>"
  have "clr_page_token lr = None" using list_request_fields(6) [OF assms(4)] by auto
  then have lr0: "lr\<lparr>clr_page_token := None\<rparr> = lr" by simp
  have mk: "mk_calendar_event_list_request (PStr (cor_time_min req)) (PStr (cor_time_max req)) (PInt (cor_max_results req))
      (opt_str (offset_token k)) = Inr lr'"
    using assms(4) list_request_token [OF assms(4) fake_token_facts(1)] lr0
    by (auto simp: lr'_def offset_token_def opt_str_def)
  have m: "clr_max_results lr' = cor_max_results req" "1 \<le> cor_max_results req"
    using list_request_fields(3,4) [OF assms(4)] by (auto simp: lr'_def)
  let ?r = "list_provider_request CALENDAR_LIST_EVENTS lr' (Some ctx)"
  obtain c where prov: "provider_execute (fake_calendar_composition [] [] events []) ?r None None w =
      (calendar_default_response events ?r c, w)"
    by (rule fake_provider_execute [OF assms(1), of ?r]) (simp add: list_provider_request_def)
  have resp: "calendar_default_response events ?r c = Inr (fake_list_page (map snd events) k (nat (cor_max_results req)))"
    using default_list_response_page [of lr' k events "Some ctx"] assms(3) m
    by (simp add: calendar_default_response_def lr'_def list_provider_request_def)
  have payload: "pd_get (page_payload req (offset_token k)) ''time_min'' = PStr (cor_time_min req)"
    "pd_get (page_payload req (offset_token k)) ''time_max'' = PStr (cor_time_max req)"
    "pd_get (page_payload req (offset_token k)) ''max_results'' = PInt (cor_max_results req)"
    "pd_get (page_payload req (offset_token k)) ''page_token'' = opt_str (offset_token k)"
    by (auto simp: page_payload_def pd_get_def opt_str_def split: option.splits)
  have ids: "list_all (\<lambda>e. \<not> str_blank (ce_event_id e)) (map snd events)"
    using assms(2) by (auto simp: listed_ids_ok_def list_all_iff)
  have ident: "CALENDAR_LIST_EVENTS \<in> set calendar_identifiers" "CALENDAR_LIST_EVENTS \<noteq> ''''"
    by (simp_all add: calendar_identifiers_def CALENDAR_WORKER_CAPABILITIES_def CALENDAR_LIST_EVENTS_def)
  show ?thesis
    using ident payload mk prov resp list_result_of_page [OF ids, of k "nat (cor_max_results req)"]
    by (simp add: listing_exec_def calendar_execute_def execute_list_provider_request_def bnd_def answered_def
        provider_failure_result_def capability_worker_result_def Let_def read_page_metadata)
qed

text \<open>The state of the walk after \<open>j\<close> full pages.\<close>

definition walk_at :: "calendar_event list \<Rightarrow> nat \<Rightarrow> nat \<Rightarrow> list_walk" where
  "walk_at es m j = \<lparr>lw_events = map calendar_event_dict (take (j * m) es), lw_pages_fetched = int j, lw_skipped = 0,
     lw_every_page_complete = True, lw_seen = (\<lambda>i. fake_token (i * m)) ` {1..j}, lw_page_token = offset_token (j * m)\<rparr>"

definition listed :: "action \<Rightarrow> worker_execution_result \<Rightarrow> calendar_event list \<Rightarrow> bool \<Rightarrow> bool" where
  "listed a r es whole \<longleftrightarrow> wer_action r = a \<and> wer_status r = WSUCCEEDED
     \<and> pd_get (wer_metadata r) ''events'' = PTuple (map calendar_event_dict es)
     \<and> pd_get (wer_metadata r) ''event_count'' = PInt (int (length es))
     \<and> pd_get (wer_metadata r) ''skipped_event_count'' = PInt 0
     \<and> pd_get (wer_metadata r) ''aggregate_complete'' = PBool whole
     \<and> pd_get (wer_metadata r) ''termination_reason'' = PStr (if whole then ''exhausted'' else ''page_limit'')"

lemma add_fake_page:
  assumes "0 < m" "j * m < length es \<or> j = 0"
  shows "lw_events (add_page (walk_at es m j) (fake_page es m (j * m))) = map calendar_event_dict (take (Suc j * m) es)"
    and "lp_next (fake_page es m (j * m)) = (if Suc j * m < length es then Some (fake_token (Suc j * m)) else None)"
    and "Suc j * m < length es \<Longrightarrow> (add_page (walk_at es m j) (fake_page es m (j * m)))\<lparr>lw_seen := insert (fake_token (Suc j * m)) (lw_seen (walk_at es m j)),
       lw_page_token := Some (fake_token (Suc j * m))\<rparr> = walk_at es m (Suc j)"
proof -
  have t: "take (j * m) es @ take m (drop (j * m) es) = take (Suc j * m) es"
    by (metis add.commute mult_Suc take_add)
  show ev: "lw_events (add_page (walk_at es m j) (fake_page es m (j * m))) = map calendar_event_dict (take (Suc j * m) es)"
    unfolding t [symmetric] map_append by (simp add: add_page_def walk_at_def fake_page_def Let_def)
  show "lp_next (fake_page es m (j * m)) = (if Suc j * m < length es then Some (fake_token (Suc j * m)) else None)"
    using assms by (auto simp: fake_page_def Let_def min_def algebra_simps)
  have seen: "insert (fake_token (Suc j * m)) ((\<lambda>i. fake_token (i * m)) ` {1..j}) = (\<lambda>i. fake_token (i * m)) ` {1..Suc j}"
    by (simp add: atLeastAtMostSuc_conv del: mult_Suc)
  show "(add_page (walk_at es m j) (fake_page es m (j * m)))\<lparr>lw_seen := insert (fake_token (Suc j * m)) (lw_seen (walk_at es m j)),
       lw_page_token := Some (fake_token (Suc j * m))\<rparr> = walk_at es m (Suc j)" if "Suc j * m < length es"
    using ev seen assms(1) by (simp add: walk_at_def add_page_def fake_page_def Let_def offset_token_def)
qed

lemma walk_listing:
  assumes ok: "context_ok ctx" "listed_ids_ok events"
    and req: "mk_calendar_event_list_request (PStr (cor_time_min req)) (PStr (cor_time_max req)) (PInt (cor_max_results req)) PNone = Inr lr"
    and m: "m = nat (cor_max_results req)" "0 < m" and P: "cor_max_pages req = int P"
    and j: "j < P" "j * m < length events \<or> j = 0"
  shows "\<exists>r. walk_pages (listing_exec events a ctx) a' req (walk_at (map snd events) m j) w = (Inr r, w)
    \<and> listed a' r (take (P * m) (map snd events)) (length events \<le> P * m)"
  using j
proof (induction "P - j" arbitrary: j rule: less_induct)
  case less
  let ?es = "map snd events" and ?s = "walk_at (map snd events) m j"
  have "j * m \<le> length events" using less.prems(2) by auto
  from listing_page [OF ok this req, of a w] obtain page where page: 
    "listing_exec events a ctx (page_payload req (lw_page_token ?s)) w = (Inr page, w)" "wer_status page = WSUCCEEDED"
    "read_page (wer_metadata page) = Some (fake_page ?es m (j * m))"
    by (auto simp: walk_at_def m(1))
  note add = add_fake_page [OF m(2), of j ?es, unfolded length_map, OF less.prems(2)]
  note step = walk_pages.simps [of "listing_exec events a ctx" a' req ?s w]
  have pages: "lw_pages_fetched ?s = int j" by (simp add: walk_at_def)
  have fresh: "fake_token (Suc j * m) \<notin> lw_seen ?s"
    using m(2) by (auto simp: walk_at_def fake_token_facts(3) simp del: mult_Suc)
  have res: "listed a' (walk_result a' (add_page ?s (fake_page ?es m (j * m))) reason) (take (Suc j * m) ?es) (reason = ''exhausted'')"
    if "reason = ''exhausted'' \<or> reason = ''page_limit''" for reason
    using add(1) that by (auto simp: listed_def walk_result_def pd_get_def) (auto simp: add_page_def walk_at_def fake_page_def Let_def)
  consider (last) "length events \<le> Suc j * m" | (limit) "Suc j * m < length events" "P = Suc j"
    | (further) "Suc j * m < length events" "Suc j < P"
    using less.prems(1) by linarith
  then show ?case
  proof cases
    case last
    have le: "length events \<le> P * m" using last less.prems(1) by (meson Suc_leI le_trans mult_le_mono1)
    then have "take (P * m) ?es = take (Suc j * m) ?es" using last by simp
    then show ?thesis using step page add(2) last le res [of "''exhausted''"] by simp
  next
    case limit
    then show ?thesis using step page add(2) P pages res [of "''page_limit''"] by simp
  next
    case further
    have "walk_pages (listing_exec events a ctx) a' req ?s w = walk_pages (listing_exec events a ctx) a' req (walk_at ?es m (Suc j)) w"
      using step page add(2) add(3) further P pages fresh by simp
    with less.hyps [of "Suc j"] further show ?thesis by simp
  qed
qed

lemma orchestrated_listing:
  assumes "context_ok ctx" "listed_ids_ok events" "\<not> dict_has (act_payload a) ''page_token''"
    and "mk_calendar_orchestration_request (pd_get (act_payload a) ''time_min'') (pd_get (act_payload a) ''time_max'')
      (pd_get (act_payload a) ''max_results'') (pd_get (act_payload a) ''max_pages'') = Inr req"
    and "k = nat (cor_max_results req) * nat (cor_max_pages req)"
  shows "\<exists>r. orchestrate (calendar_execute (fake_calendar_composition [] [] events [])) a (Some ctx) w = (Inr r, w)
    \<and> listed a r (take k (map snd events)) (length events \<le> k)"
proof -
  obtain lr where lr: "mk_calendar_event_list_request (pd_get (act_payload a) ''time_min'') (pd_get (act_payload a) ''time_max'')
      (pd_get (act_payload a) ''max_results'') PNone = Inr lr"
    "cor_time_min req = clr_time_min lr" "cor_time_max req = clr_time_max lr" "cor_max_results req = clr_max_results lr"
    using orchestration_request_list [OF assms(4)] by blast
  note f = list_request_fields [OF lr(1)]
  have mk: "mk_calendar_event_list_request (PStr (cor_time_min req)) (PStr (cor_time_max req)) (PInt (cor_max_results req)) PNone = Inr lr"
    using lr f(1-3) by simp
  have P: "cor_max_pages req = int (nat (cor_max_pages req))" "0 < nat (cor_max_pages req)"
    using orchestration_request_pages [OF assms(4)] by auto
  have m: "0 < nat (cor_max_results req)" using f(4) lr(4) by simp
  have w0: "walk_at (map snd events) (nat (cor_max_results req)) 0 = empty_walk"
    by (auto simp: walk_at_def empty_walk_def offset_token_def)
  obtain r where "walk_pages (listing_exec events a ctx) a req empty_walk w = (Inr r, w)"
    "listed a r (take k (map snd events)) (length events \<le> k)"
    using walk_listing [OF assms(1,2) mk refl m P(1) P(2), of a a w] w0 assms(5) by (auto simp: mult.commute)
  then show ?thesis
    using assms(3,4) by (simp add: orchestrate_def page_token_redacted_action_def Let_def flip: listing_exec_def)
qed

text \<open>C24. Complete listing: on the deterministic provider an orchestrated listing, with any window, page size and page limit
  that pass validation, returns exactly the first \<open>max_results * max_pages\<close> events of the calendar in order, and
  it reports them as complete exactly when these are all.\<close>

theorem listing_complete:
  assumes "context_ok ctx" "listed_ids_ok events" "\<not> dict_has (act_payload a) ''page_token''"
    and "mk_calendar_orchestration_request (pd_get (act_payload a) ''time_min'') (pd_get (act_payload a) ''time_max'')
      (pd_get (act_payload a) ''max_results'') (pd_get (act_payload a) ''max_pages'') = Inr req"
    and "k = nat (cor_max_results req) * nat (cor_max_pages req)"
  shows "\<exists>r. orchestrate (calendar_execute (fake_calendar_composition [] [] events [])) a (Some ctx) w = (Inr r, w)
    \<and> listed a r (take k (map snd events)) (length events \<le> k)"
  using assms by (rule orchestrated_listing)

lemma padded_dec: "c \<in> set (padded k n) \<Longrightarrow> dec_val c \<noteq> None"
  by (auto simp: padded_def dest!: to_digits_less [rotated])

lemma rfc3339_zone_iso:
  assumes "\<bar>z\<bar> < 86400" "z mod 60 = 0"
  shows "rfc3339_zone (iso_offset z)"
proof -
  define a where "a = nat \<bar>z\<bar>"
  have h: "a div 3600 < 10 ^ 2" using assms(1) by (simp add: a_def)
  have m: "a div 60 mod 60 < (10::nat) ^ 2" by (rule less_trans [of _ 60]) auto
  have "int a mod 60 = 0" using assms(2) by (simp add: a_def abs_if zmod_zminus1_eq_if)
  then have sec: "a mod 60 = 0" by presburger
  define c where "c = (if z < 0 then CHR ''-'' else CHR ''+'')"
  have iso: "iso_offset z = c # padded 2 (a div 3600) @ CHR '':'' # padded 2 (a div 60 mod 60)"
    unfolding iso_offset_def Let_def a_def [symmetric] sec c_def by simp
  have "c \<in> {CHR ''+'', CHR ''-''}" by (simp add: c_def)
  then show ?thesis
    unfolding iso rfc3339_zone_def using take_dec_padded [OF h] take_dec_padded [OF m, of "[]"] by simp
qed

text \<open>What \<open>isoformat\<close> writes for a time with an offset of whole minutes matches the pattern.\<close>

lemma rfc3339_match_isoformat:
  assumes "valid_datetime d" "dt_offset d = Some z" "z mod 60 = 0"
  shows "rfc3339_match (isoformat d)"
proof -
  have bounds: "dt_year d < 10 ^ 4" "dt_month d < 10 ^ 2" "dt_day d < 10 ^ 2" "dt_hour d < 10 ^ 2"
    "dt_minute d < 10 ^ 2" "dt_second d < 10 ^ 2" "\<bar>z\<bar> < 86400"
    using assms(1,2) days_in_month_le [of "dt_year d" "dt_month d"] by (auto simp: valid_datetime_def)
  have zone: "rfc3339_zone (iso_offset z)" by (rule rfc3339_zone_iso [OF bounds(7) assms(3)])
  obtain c t where ct: "iso_offset z = c # t" "dec_val c = None" "c \<noteq> CHR ''.''"
    by (cases "z < 0") (auto simp: iso_offset_def Let_def)
  have drop: "dropWhile (\<lambda>c. dec_val c \<noteq> None) (padded 6 n @ iso_offset z) = iso_offset z" for n
    using padded_dec [of _ 6 n] ct by (simp add: dropWhile_append2)
  have ne: "padded 6 n \<noteq> []" for n by (metis length_padded list.size(3) zero_neq_numeral)
  have hd: "dec_val (hd (padded 6 n)) \<noteq> None" for n
    using padded_dec [OF hd_in_set [OF ne]] .
  note reads = take_dec_padded [OF bounds(1)] take_dec_padded [OF bounds(2)] take_dec_padded [OF bounds(3)]
    take_dec_padded [OF bounds(4)] take_dec_padded [OF bounds(5)] take_dec_padded [OF bounds(6)]
  show ?thesis
    using zone ct ne hd drop assms(2)
    by (cases "dt_micro d = 0") (simp_all add: rfc3339_match_def isoformat_def reads)
qed

lemma validated_isoformat:
  assumes "valid_datetime d" "dt_offset d = Some z" "z mod 60 = 0"
  shows "validated_rfc3339_timestamp (PStr (isoformat d)) f = Inr d"
  using rfc3339_match_isoformat [OF assms] fromisoformat_isoformat [OF assms(1)] assms(2)
  by (simp add: validated_rfc3339_timestamp_def)

definition sample_calendar :: "(string \<times> calendar_event) list" where
  "sample_calendar = map (\<lambda>i. (i, \<lparr>ce_event_id = i, ce_title = ''t'', ce_start = ''s'', ce_end = ''e'', ce_attendees = []\<rparr>))
     [''a'', ''b'', ''c'', ''d'', ''f'']"

definition list_action :: "int \<Rightarrow> int \<Rightarrow> action" where
  "list_action m p = safe_action\<lparr>act_payload := [(''time_min'', PStr (isoformat sample_time)),
     (''time_max'', PStr (isoformat (sample_time\<lparr>dt_hour := 15\<rparr>))), (''max_results'', PInt m), (''max_pages'', PInt p)]\<rparr>"

definition sample_context :: worker_account_context where
  "sample_context = \<lparr>wac_principal = Some ''me'', wac_account_identifier = ''mine''\<rparr>"

lemma sample_window:
  "validated_rfc3339_timestamp (PStr (isoformat sample_time)) f = Inr sample_time"
  "validated_rfc3339_timestamp (PStr (isoformat (sample_time\<lparr>dt_hour := 15\<rparr>))) f = Inr (sample_time\<lparr>dt_hour := 15\<rparr>)"
  "dt_instant sample_time < dt_instant (sample_time\<lparr>dt_hour := 15\<rparr>)"
  by (rule validated_isoformat [of _ 0]; simp add: sample_time_def valid_datetime_def days_in_month_def leap_year_def)+
     (simp add: dt_instant_def dt_local_def sample_time_def)

lemma list_action_request:
  "1 \<le> m \<Longrightarrow> m \<le> 50 \<Longrightarrow> 1 \<le> p \<Longrightarrow> p \<le> 10 \<Longrightarrow>
   mk_calendar_orchestration_request (pd_get (act_payload (list_action m p)) ''time_min'') (pd_get (act_payload (list_action m p)) ''time_max'')
      (pd_get (act_payload (list_action m p)) ''max_results'') (pd_get (act_payload (list_action m p)) ''max_pages'') =
   Inr \<lparr>cor_time_min = isoformat sample_time, cor_time_max = isoformat (sample_time\<lparr>dt_hour := 15\<rparr>), cor_max_results = m, cor_max_pages = p\<rparr>"
  by (simp add: list_action_def pd_get_def mk_calendar_orchestration_request_def mk_calendar_event_list_request_def
      sample_window CALENDAR_LIST_MAX_MAX_RESULTS_def CALENDAR_LIST_MAX_MAX_PAGES_def guard_exc_def)

lemma sample_calendar_ok: "listed_ids_ok sample_calendar" "context_ok sample_context"
  by code_simp (simp add: context_ok_def sample_context_def str_blank_iff is_space_def chr_code_def)

theorem listing_complete_witness:
  "\<exists>r. orchestrate (calendar_execute (fake_calendar_composition [] [] sample_calendar [])) (list_action 2 2) (Some sample_context) (0::nat)
     = (Inr r, 0) \<and> pd_get (wer_metadata r) ''event_count'' = PInt 4 \<and> pd_get (wer_metadata r) ''aggregate_complete'' = PBool False"
proof -
  have "\<not> dict_has (act_payload (list_action 2 2)) ''page_token''" by (simp add: list_action_def dict_has_def)
  from listing_complete [OF sample_calendar_ok(2,1) this list_action_request refl, where w = "0::nat"]
  show ?thesis by (auto simp: listed_def sample_calendar_def)
qed

theorem orchestration_bounded_witness:
  "\<exists>r w' n. orchestrate (counted (calendar_execute (fake_calendar_composition [] [] sample_calendar []))) (list_action 2 2)
      (Some sample_context) (0::nat, 0) = (r, (w', n)) \<and> n \<le> 10"
proof -
  let ?o = "orchestrate (counted (calendar_execute (fake_calendar_composition [] [] sample_calendar []))) (list_action 2 2)
      (Some sample_context) (0::nat, 0)"
  have "?o = (fst ?o, (fst (snd ?o), snd (snd ?o)))" by simp
  from this orchestration_bounded [OF this] show ?thesis by blast
qed

section \<open>Page tokens do not leak\<close>

lemma redacted_query:
  "map (\<lambda>(k, v). (k, if k = ''pageToken'' then PStr REDACTED_QUERY_VALUE else v)) (as_query (lr\<lparr>clr_page_token := Some t\<rparr>)) =
   map (\<lambda>(k, v). (k, if k = ''pageToken'' then PStr REDACTED_QUERY_VALUE else v)) (as_query (lr\<lparr>clr_page_token := Some t'\<rparr>))"
  by (simp add: as_query_def)

text \<open>Page tokens are confined: apart from what the provider answers, nothing in the result of a listing depends on the
  page token that was supplied. When the provider's answer does not depend on the query, two listings that
  differ only in their tokens return equal results, actions and metadata included.\<close>

theorem page_token_confined:
  assumes "pd_get (act_payload a) ''page_token'' = PStr t" "unpadded t" "unpadded t'"
    and "\<And>r q. provider_execute gp (r\<lparr>gpr_query := q\<rparr>) None None = provider_execute gp r None None"
    and "b = a\<lparr>act_payload := dict_set ''page_token'' (PStr t') (act_payload a)\<rparr>"
  shows "calendar_execute gp b (Some CALENDAR_LIST_EVENTS) ctx = calendar_execute gp a (Some CALENDAR_LIST_EVENTS) ctx"
proof -
  have ident: "CALENDAR_LIST_EVENTS \<in> set calendar_identifiers" "CALENDAR_LIST_EVENTS \<noteq> ''''"
    by (simp_all add: calendar_identifiers_def CALENDAR_WORKER_CAPABILITIES_def CALENDAR_LIST_EVENTS_def)
  have has: "dict_has (act_payload a) ''page_token''"
    using assms(1) by (auto simp: pd_get_def dict_has_def split: option.splits)
  have act: "page_token_redacted_action b = page_token_redacted_action a"
    using has by (simp add: page_token_redacted_action_def assms(5) dict_has_def dict_merge_def)
  have get: "pd_get (act_payload b) k = (if k = ''page_token'' then PStr t' else pd_get (act_payload a) k)" for k
    by (simp add: assms(5) pd_get_def)
  let ?mk = "\<lambda>tok. mk_calendar_event_list_request (pd_get (act_payload a) ''time_min'') (pd_get (act_payload a) ''time_max'')
      (pd_get (act_payload a) ''max_results'') tok"
  show ?thesis
  proof (cases "?mk PNone")
    case (Inl e)
    then have "?mk (PStr t) = Inl e" "?mk (PStr t') = Inl e"
      using assms(2,3) list_request_token_Inl by blast+
    then show ?thesis
      using ident act assms(1) get by (simp add: calendar_execute_def execute_list_provider_request_def Let_def)
  next
    case (Inr lr)
    note mk = list_request_token [OF Inr assms(2)] list_request_token [OF Inr assms(3)]
    have r: "list_provider_request c (lr\<lparr>clr_page_token := Some u\<rparr>) ctx =
        (list_provider_request c lr ctx)\<lparr>gpr_query := as_query (lr\<lparr>clr_page_token := Some u\<rparr>)\<rparr>" for c u
      by (simp add: list_provider_request_def)
    have md: "calendar_result_metadata resp (list_provider_request c (lr\<lparr>clr_page_token := Some t'\<rparr>) ctx) c ctx x =
        calendar_result_metadata resp (list_provider_request c (lr\<lparr>clr_page_token := Some t\<rparr>) ctx) c ctx x" for resp c x
      using redacted_query [of t' lr t]
      by (simp add: calendar_result_metadata_def provider_request_metadata_def list_provider_request_def)
    show ?thesis
      using ident act assms(1) get mk
      by (simp add: calendar_execute_def execute_list_provider_request_def Let_def md) (simp add: r assms(4))
  qed
qed

section \<open>The HTTP transport\<close>

text \<open>A read that VELOX supports: one event of the primary calendar, or one bounded page of its events.\<close>

definition bounded_read :: "google_provider_request \<Rightarrow> bool" where
  "bounded_read r \<longleftrightarrow> gpr_method r = ''GET'' \<and> gpr_body r = None \<and>
     ((\<exists>x. gpr_path r = GOOGLE_CALENDAR_EVENTS_PATH @ ''/'' @ x \<and> x \<noteq> [] \<and> CHR ''/'' \<notin> set x)
      \<or> gpr_path r = GOOGLE_CALENDAR_EVENTS_PATH
        \<and> set (map fst (gpr_query r)) \<subseteq> insert ''pageToken'' CALENDAR_LIST_QUERY_FIELDS
        \<and> (\<exists>m n. pd_get (gpr_query r) ''maxResults'' = PStr m \<and> int_of_str m = Inr n \<and> 1 \<le> n \<and> n \<le> 50)
        \<and> (\<exists>a b. validated_rfc3339_timestamp (pd_get (gpr_query r) ''timeMin'') ''time_min'' = Inr a
             \<and> validated_rfc3339_timestamp (pd_get (gpr_query r) ''timeMax'') ''time_max'' = Inr b
             \<and> dt_instant a < dt_instant b))"

lemma requested_event_path:
  "requested_event_id r = Some i \<Longrightarrow> gpr_method r = ''GET'' \<and> gpr_body r = None \<and>
     (\<exists>x. gpr_path r = GOOGLE_CALENDAR_EVENTS_PATH @ ''/'' @ x \<and> x \<noteq> [] \<and> CHR ''/'' \<notin> set x)"
  by (auto simp: requested_event_id_def Let_def str_startswith_append split: if_splits)

lemma list_check_True:
  "(case x of Inl (CalendarEventListRequestError _ _) \<Rightarrow> Inr False | Inl e \<Rightarrow> Inl e | Inr _ \<Rightarrow> Inr True) = Inr True \<Longrightarrow>
     \<exists>y. x = Inr y" for x :: "'a result"
proof (cases x)
  case (Inl e)
  assume "(case x of Inl (CalendarEventListRequestError _ _) \<Rightarrow> Inr False | Inl e \<Rightarrow> Inl e | Inr _ \<Rightarrow> Inr True) = Inr True"
  with Inl show ?thesis by (cases e) auto
qed simp

lemma bounded_list_request:
  assumes "is_bounded_list_request r = Inr True"
  shows "bounded_read r"
proof -
  let ?q = "gpr_query r"
  have g: "gpr_method r = ''GET''" "gpr_body r = None" "gpr_path r = GOOGLE_CALENDAR_EVENTS_PATH"
    "set (map fst ?q) \<subseteq> insert ''pageToken'' CALENDAR_LIST_QUERY_FIELDS"
    using assms by (auto simp: is_bounded_list_request_def Let_def split: if_splits)
  obtain m n lr where m: "pd_get ?q ''maxResults'' = PStr m" "int_of_str m = Inr n"
    "mk_calendar_event_list_request (pd_get ?q ''timeMin'') (pd_get ?q ''timeMax'') (PInt n) (pd_get ?q ''pageToken'') = Inr lr"
    using assms by (cases "pd_get ?q ''maxResults''")
      (auto simp: is_bounded_list_request_def Let_def dest!: list_check_True split: if_splits)
  note f = list_request_fields(3-5,7) [OF m(3)]
  from f have n: "1 \<le> n" "n \<le> 50" by auto
  show ?thesis unfolding bounded_read_def using g m(1,2) n f(4) by blast
qed

text \<open>C27. Only bounded reads leave the process: the HTTP client is called only with credentials and for a read of one event
  or of one page of at most fifty events in a proper time window of the primary calendar; any other request is
  refused, and every failure is marked retryable exactly when its category is transient.\<close>

theorem httpx_bounded_reads:
  assumes "httpx_execute hx r c w = (res, w')"
  shows "(w' \<noteq> w \<longrightarrow> bounded_read r \<and> \<not> str_blank (gc_access_token c))
    \<and> (\<forall>resp f. res = Inr resp \<and> gpp_failure resp = Some f \<longrightarrow> (gpf_retryable f \<longleftrightarrow> gpf_category f = TRANSIENT))"
proof
  show "w' \<noteq> w \<longrightarrow> bounded_read r \<and> \<not> str_blank (gc_access_token c)"
    using assms requested_event_path [of r] bounded_list_request [of r]
    by (cases "requested_event_id r"; cases "is_bounded_list_request r")
       (auto simp: httpx_execute_def bnd_def Let_def bounded_read_def split: if_splits)
  have answer: "gpf_retryable f \<longleftrightarrow> gpf_category f = TRANSIENT"
    if "httpx_answer i resp = Inr x" "gpp_failure x = Some f" for i resp x f
    using that by (auto simp: httpx_answer_def Let_def failure_response_def plain_response_def
        split: if_splits option.splits)
  show "\<forall>resp f. res = Inr resp \<and> gpp_failure resp = Some f \<longrightarrow> (gpf_retryable f \<longleftrightarrow> gpf_category f = TRANSIENT)"
    using assms answer
    by (auto simp: httpx_execute_def bnd_def Let_def failure_response_def transport_failure_response_def
        split: if_splits sum.splits prod.splits http_outcome.splits)
qed

definition paged_action :: "string \<Rightarrow> action" where
  "paged_action t = safe_action\<lparr>act_payload := [(''time_min'', PStr (isoformat sample_time)),
     (''time_max'', PStr (isoformat (sample_time\<lparr>dt_hour := 15\<rparr>))), (''max_results'', PInt 2), (''page_token'', PStr t)]\<rparr>"

definition constant_provider :: "nat provider_composition" where
  "constant_provider = \<lparr>gp_service = ''calendar'', gp_credentials = fake_get_credentials ''calendar'' [],
     gp_transport = (\<lambda>r c w. (Inr (fake_list_page (map snd sample_calendar) 0 2), Suc w))\<rparr>"

lemma sample_tokens: "unpadded ''t1''" "unpadded ''t2''"
  by code_simp+

theorem page_token_confined_witness:
  "calendar_execute constant_provider (paged_action ''t2'') (Some CALENDAR_LIST_EVENTS) (Some sample_context) =
   calendar_execute constant_provider (paged_action ''t1'') (Some CALENDAR_LIST_EVENTS) (Some sample_context)"
  by (rule page_token_confined [OF _ sample_tokens])
     (simp_all add: paged_action_def pd_get_def constant_provider_def provider_execute_def Let_def bnd_def fun_eq_iff
       mismatch_response_def split: option.splits sum.splits prod.splits)

definition sample_http :: "nat httpx_transport" where
  "sample_http = \<lparr>hx_client = (\<lambda>url params headers timeout w. (HttpResponse \<lparr>hr_status_code = 429, hr_json = None\<rparr>, Suc w)),
     hx_timeout_seconds = 10, hx_api_base_url = ''https://www.googleapis.com''\<rparr>"

definition sample_credentials :: google_credentials where
  "sample_credentials = \<lparr>gc_access_token = ''secret'', gc_principal = ''me'', gc_account = ''mine'', gc_token_type = ''Bearer'',
     gc_expires_at = None\<rparr>"

definition sample_read :: google_provider_request where
  "sample_read = event_provider_request CALENDAR_PREPARE_MEETING ''a/b'' None"

lemma sample_read_sent: "snd (httpx_execute sample_http sample_read sample_credentials 0) = 1"
  by code_simp

theorem httpx_bounded_reads_witness: "bounded_read sample_read"
  using httpx_bounded_reads [OF surjective_pairing, of sample_http sample_read sample_credentials 0] sample_read_sent by simp

section \<open>Event identifiers in URLs\<close>

lemma upper_hex_val: "n < 16 \<Longrightarrow> digit_val (upper_hex n) = Some n"
  by (drule upt_16) (auto simp: upper_hex_def digit_val_def chr_code_def)

lemma unquote_run_percent: "b < 256 \<Longrightarrow> unquote_run acc (percent b @ s) = unquote_run (b # acc) s"
  using upper_hex_val [of "b div 16"] upper_hex_val [of "b mod 16"] by (simp add: percent_def)

lemma unquote_run_plain: "p \<noteq> CHR ''%'' \<Longrightarrow> unquote_run acc (p # s) = utf8_decode (rev acc) @ p # unquote_run [] s"
  by (cases s rule: remdups_adj.cases) auto

lemma utf8_decode_plain: "b < 128 \<Longrightarrow> utf8_decode (b # bs) = char_of b # utf8_decode bs"
  by (cases bs) auto

lemma utf8_decode_encode: "utf8_decode (utf8_bytes c @ bs) = c # utf8_decode bs"
proof -
  have n: "chr_code c < 256" "char_of (chr_code c) = c" by (simp_all add: chr_code_def)
  show ?thesis
  proof (cases "chr_code c < 128")
    case True
    with n show ?thesis by (simp add: utf8_bytes_def utf8_decode_plain)
  next
    case False
    then have d: "2 \<le> chr_code c div 64" "chr_code c div 64 \<le> 3" using n(1) by auto
    moreover have "chr_code c div 64 * 64 + chr_code c mod 64 = chr_code c" by simp
    ultimately show ?thesis using False n(2) by (simp add: utf8_bytes_def Let_def)
  qed
qed

lemma unquote_run_bytes: "list_all (\<lambda>b. b < 256) bs \<Longrightarrow> unquote_run acc (concat (map percent bs) @ s) = unquote_run (rev bs @ acc) s"
  by (induction bs arbitrary: acc) (auto simp: unquote_run_percent)

lemma utf8_bytes_less: "list_all (\<lambda>b. b < 256) (utf8_bytes c)"
proof -
  have "chr_code c < 256" by (simp add: chr_code_def)
  then show ?thesis by (auto simp: utf8_bytes_def Let_def)
qed

lemma unquote_run_quote: "unquote_run (rev (concat (map utf8_bytes u))) (quote s) = u @ s"
proof (induction s arbitrary: u)
  case Nil
  have "utf8_decode (concat (map utf8_bytes u)) = u"
    by (induction u) (auto simp: utf8_decode_encode)
  then show ?case by (simp add: quote_def)
next
  case (Cons c s)
  show ?case
  proof (cases "unreserved c")
    case True
    then have "c \<noteq> CHR ''%''" by (auto simp: unreserved_def chr_code_def)
    moreover have "utf8_decode (concat (map utf8_bytes u)) = u"
      by (induction u) (auto simp: utf8_decode_encode)
    ultimately show ?thesis
      using True Cons [of "[]"] by (simp add: quote_def unquote_run_plain)
  next
    case False
    have "unquote_run (rev (concat (map utf8_bytes u))) (quote (c # s)) = unquote_run (rev (concat (map utf8_bytes (u @ [c])))) (quote s)"
      using False unquote_run_bytes [OF utf8_bytes_less [of c]] by (simp add: quote_def)
    with Cons [of "u @ [c]"] show ?thesis by simp
  qed
qed

lemma unquote_quote: "unquote (quote s) = s"
  using unquote_run_quote [of "[]" s] by (simp add: unquote_def)

lemma quote_no_slash: "CHR ''/'' \<notin> set (quote s)"
proof -
  have "CHR ''/'' \<noteq> upper_hex n" if "n < 16" for n
    using upt_16 [OF that] by (auto simp: upper_hex_def)
  then have "CHR ''/'' \<notin> set (percent b)" if "b < 256" for b
    using that by (auto simp: percent_def)
  then show ?thesis
    using utf8_bytes_less by (auto simp: quote_def list_all_iff unreserved_def chr_code_def)
qed

text \<open>Event identifiers survive the URL: whatever non-empty identifier an event read asks for, slashes, percent signs and
  characters beyond ASCII included, the path that the executor builds names exactly that event to the HTTP transport
  and to the deterministic one.\<close>

theorem event_id_roundtrip:
  assumes "i \<noteq> []" "capability = CALENDAR_PREPARE_MEETING \<or> capability = CALENDAR_PREPARE_CONTEXT"
  shows "requested_event_id (event_provider_request capability i ctx) = Some i
    \<and> unquote (after_last_slash (gpr_path (event_provider_request capability i ctx))) = i"
proof
  have ne: "quote i \<noteq> []" using assms(1) unquote_quote [of i] by (auto simp: unquote_def)
  show "requested_event_id (event_provider_request capability i ctx) = Some i"
    using assms ne quote_no_slash [of i] unquote_quote [of i]
    by (auto simp: requested_event_id_def event_provider_request_def Let_def str_startswith_append)
  have "takeWhile (\<lambda>c. c \<noteq> CHR ''/'') (rev (quote i) @ CHR ''/'' # xs) = rev (quote i)" for xs
    using quote_no_slash [of i] by (subst takeWhile_append2) auto
  then have "after_last_slash (GOOGLE_CALENDAR_EVENTS_PATH @ ''/'' @ quote i) = quote i"
    by (simp add: after_last_slash_def)
  then show "unquote (after_last_slash (gpr_path (event_provider_request capability i ctx))) = i"
    by (simp add: event_provider_request_def unquote_quote)
qed

theorem event_id_roundtrip_witness:
  "requested_event_id (event_provider_request CALENDAR_PREPARE_MEETING ''a/b%c'' None) = Some ''a/b%c''"
  using event_id_roundtrip [of "''a/b%c''" CALENDAR_PREPARE_MEETING None] by simp

section \<open>Answers that are not handled\<close>

text \<open>Two inputs that raise instead of being refused: a rate-limit reason that cannot be hashed in the body of a 403
  response, and a superscript digit after the prefix of a page token of the deterministic provider.\<close>

lemma unhashable_reason_raises:
  "httpx_answer requested \<lparr>hr_status_code = 403, hr_json = Some (PDict [(''error'', PDict [(''errors'',
     PList [PDict [(''reason'', PList [])]])])])\<rparr> = Inl (TypeError ''unhashable type'')"
  by (simp add: httpx_answer_def safe_error_reason_def parse_json_object_def pd_get_def rate_limit_reason_def)

lemma superscript_token_raises:
  "page_token_offset (PStr (FAKE_CALENDAR_PAGE_TOKEN_PREFIX @ [CHR 0xB2])) n =
     Inl (ValueError ''invalid literal for int() with base 10'')"
proof -
  have "str_isdigit [CHR 0xB2]" "int_of_str [CHR 0xB2] = Inl (ValueError ''invalid literal for int() with base 10'')"
    by code_simp+
  then show ?thesis by (simp add: page_token_offset_def str_startswith_append)
qed

end
