(* ===== verification/Agenda_Properties.thy ===== *)
theory Agenda_Properties
  imports Calendar_Agenda Calendar_Properties
begin

text \<open>
  The agenda of the next local day: the arithmetic of civil dates agrees with the day count, the window runs from one
  local midnight to the next, and on the deterministic provider the agenda is the beginning of the calendar.
\<close>

section \<open>The window\<close>

lemma local_midnight_valid:
  assumes "valid_date d" "\<bar>tz_midnight_offset tz d\<bar> < 86400"
  shows "valid_datetime (local_midnight tz d)" "dt_offset (local_midnight tz d) = Some (tz_midnight_offset tz d)"
    "dt_instant (local_midnight tz d) = day_number d * micros_per_day - tz_midnight_offset tz d * 1000000"
  using assms by (cases d; simp add: local_midnight_def valid_datetime_def dt_instant_def dt_local_def)+

text \<open>The local day of an instant, counted in days.\<close>

definition local_day :: "time_zone \<Rightarrow> datetime \<Rightarrow> int" where
  "local_day tz t = (dt_instant t + tz_offset_at tz (dt_instant t) * 1000000) div micros_per_day"

lemma local_date_of_number:
  assumes "valid_datetime t" "local_date_of tz t = Inr d"
  shows "valid_date d \<and> day_number d = local_day tz t"
proof -
  have v: "valid_date (dt_date t)" using assms(1) by (simp add: dt_date_def valid_datetime_def)
  obtain u where u: "add_days (dt_instant t div micros_per_day - day_number (dt_date t)) (dt_date t) = Inr u"
    "add_days (local_day tz t - dt_instant t div micros_per_day) u = Inr d"
    using assms(2) by (auto simp: local_date_of_def local_day_def Let_def)
  from add_days_number [OF v u(1)] have n: "valid_date u" "day_number u = dt_instant t div micros_per_day" by simp_all
  from add_days_number [OF n(1) u(2)] show ?thesis by (simp add: n(2))
qed

text \<open>What the calendar code relies on of a zone at two consecutive midnights: offsets of whole minutes, and a day that does not end
  before it begins.\<close>

definition zone_ok :: "time_zone \<Rightarrow> date \<Rightarrow> date \<Rightarrow> bool" where
  "zone_ok tz d1 d2 \<longleftrightarrow> (\<forall>d\<in>{d1, d2}. \<bar>tz_midnight_offset tz d\<bar> < 86400 \<and> tz_midnight_offset tz d mod 60 = 0)
     \<and> tz_midnight_offset tz d2 - tz_midnight_offset tz d1 < 86400"

lemma agenda_window_accepted:
  assumes "valid_date d1" "valid_date d2" "day_number d2 = day_number d1 + 1" "zone_ok tz d1 d2"
    and p: "p = agenda_payload (isoformat (local_midnight tz d1)) (isoformat (local_midnight tz d2))"
  shows "mk_calendar_orchestration_request (pd_get p ''time_min'') (pd_get p ''time_max'') (pd_get p ''max_results'') (pd_get p ''max_pages'')
    = Inr \<lparr>cor_time_min = isoformat (local_midnight tz d1), cor_time_max = isoformat (local_midnight tz d2),
           cor_max_results = 50, cor_max_pages = 10\<rparr>"
proof -
  have z: "\<bar>tz_midnight_offset tz d1\<bar> < 86400" "\<bar>tz_midnight_offset tz d2\<bar> < 86400"
    "tz_midnight_offset tz d1 mod 60 = 0" "tz_midnight_offset tz d2 mod 60 = 0"
    "tz_midnight_offset tz d2 - tz_midnight_offset tz d1 < 86400"
    using assms(4) by (auto simp: zone_ok_def)
  note m1 = local_midnight_valid [OF assms(1) z(1)] and m2 = local_midnight_valid [OF assms(2) z(2)]
  have "dt_instant (local_midnight tz d1) < dt_instant (local_midnight tz d2)"
    using z(5) by (simp add: m1(3) m2(3) assms(3) algebra_simps)
  then show ?thesis
    using validated_isoformat [OF m1(1,2) z(3)] validated_isoformat [OF m2(1,2) z(4)]
    by (simp add: p agenda_payload_def pd_get_def mk_calendar_orchestration_request_def mk_calendar_event_list_request_def
        CALENDAR_LIST_MAX_MAX_RESULTS_def CALENDAR_LIST_MAX_MAX_PAGES_def guard_exc_def)
qed

section \<open>The agenda\<close>

lemma unpadded_not_blank: "unpadded s \<Longrightarrow> \<not> str_blank s"
  using str_strip_eq_Nil [of s] by (auto simp: unpadded_def)

lemma agenda_result_listed:
  assumes "listed a res es whole"
  shows "agenda_result r d tmin tmax (wer_metadata res) = Inr
    \<lparr>cag_intent = CALENDAR_TOMORROW_INTENT, cag_timezone = car_timezone r, cag_local_date = date_isoformat d, cag_time_min = tmin,
     cag_time_max = tmax, cag_events = map calendar_event_dict es, cag_event_count = int (length es),
     cag_aggregate_complete = whole, cag_skipped_event_count = 0,
     cag_termination_reason = (if whole then ''exhausted'' else ''page_limit'')\<rparr>"
  using assms by (auto simp: listed_def agenda_result_def Let_def list_all_iff calendar_event_dict_def termination_reasons_def)

text \<open>C25. Tomorrow: on the deterministic calendar provider, a valid request returns the agenda of the civil day that follows the
  local day of its clock: the window runs from that day's local midnight to the next one and is accepted by the listing,
  the events are the first five hundred of the calendar, and the agenda says whether these are all.\<close>

theorem agenda_tomorrow:
  assumes "agenda_validate_request zones r = Inr tz" "valid_datetime (car_now r)" "is_utc created"
    and "local_date_of tz (car_now r) = Inr d0" "add_days 1 d0 = Inr d1" "add_days 1 d1 = Inr d2" "zone_ok tz d1 d2"
    and "listed_ids_ok events"
  shows "\<exists>res. agenda_execute zones (orchestrate (calendar_execute (fake_calendar_composition [] [] events []))) i created r w
      = (Inr res, w)
    \<and> day_number d1 = local_day tz (car_now r) + 1 \<and> cag_local_date res = date_isoformat d1
    \<and> cag_time_min res = isoformat (local_midnight tz d1) \<and> cag_time_max res = isoformat (local_midnight tz d2)
    \<and> dt_instant (local_midnight tz d2) - dt_instant (local_midnight tz d1)
        = micros_per_day - (tz_midnight_offset tz d2 - tz_midnight_offset tz d1) * 1000000
    \<and> cag_events res = map calendar_event_dict (take 500 (map snd events))
    \<and> cag_aggregate_complete res = (length events \<le> 500)"
proof -
  have d0: "valid_date d0" "day_number d0 = local_day tz (car_now r)"
    using local_date_of_number [OF assms(2,4)] by auto
  have d1: "valid_date d1" "day_number d1 = day_number d0 + 1" using add_days_number [OF d0(1) assms(5)] by auto
  have d2: "valid_date d2" "day_number d2 = day_number d1 + 1" using add_days_number [OF d1(1) assms(6)] by auto
  let ?p = "agenda_payload (isoformat (local_midnight tz d1)) (isoformat (local_midnight tz d2))"
  obtain a where a: "mk_action i CALENDAR_LIST_EVENTS ''calendar-agenda-tomorrow'' ?p (Some (RoleEnum CALENDAR_EXECUTOR_ROLE)) created [] = Inr a"
    "act_payload a = ?p"
    using assms(3) by (auto simp: mk_action_def require_utc_created_at_def is_utc_aware)
  have ctx: "context_ok (car_account_context r)"
    using assms(1) by (auto simp: agenda_validate_request_def context_ok_def dest: unpadded_not_blank split: option.splits)
  have off: "\<bar>tz_midnight_offset tz d1\<bar> < 86400" "\<bar>tz_midnight_offset tz d2\<bar> < 86400"
    using assms(7) by (auto simp: zone_ok_def)
  have "\<not> dict_has (act_payload a) ''page_token''" by (simp add: a(2) agenda_payload_def dict_has_def)
  from orchestrated_listing [OF ctx assms(8) this agenda_window_accepted [OF d1(1) d2(1) d2(2) assms(7) a(2)], of 500 w]
  obtain res where res: "orchestrate (calendar_execute (fake_calendar_composition [] [] events [])) a (Some (car_account_context r)) w = (Inr res, w)"
    "listed a res (take 500 (map snd events)) (length events \<le> 500)"
    by auto
  have ok: "wer_status res = WSUCCEEDED" using res(2) by (simp add: listed_def)
  have "agenda_execute zones (orchestrate (calendar_execute (fake_calendar_composition [] [] events []))) i created r w
      = (agenda_result r d1 (isoformat (local_midnight tz d1)) (isoformat (local_midnight tz d2)) (wer_metadata res), w)"
    by (simp add: agenda_execute_def assms(1,4-6) a(1) bnd_def Let_def res(1) ok)
  moreover have "dt_instant (local_midnight tz d2) - dt_instant (local_midnight tz d1)
        = micros_per_day - (tz_midnight_offset tz d2 - tz_midnight_offset tz d1) * 1000000"
    unfolding local_midnight_valid(3) [OF d1(1) off(1)] local_midnight_valid(3) [OF d2(1) off(2)] d2(2)
    by (simp add: algebra_simps)
  ultimately show ?thesis by (simp add: agenda_result_listed [OF res(2)] d0(2) d1(2))
qed

definition sample_zone :: time_zone where
  "sample_zone = \<lparr>tz_offset_at = (\<lambda>_. 3600), tz_midnight_offset = (\<lambda>_. 3600)\<rparr>"

definition sample_agenda_request :: calendar_agenda_request where
  "sample_agenda_request = \<lparr>car_intent = ''tomorrow'', car_account_context = sample_context, car_timezone = ''Europe/Paris'',
     car_now = sample_time\<rparr>"

lemma sample_agenda_valid: "agenda_validate_request (\<lambda>_. Inr sample_zone) sample_agenda_request = Inr sample_zone"
proof -
  have "unpadded ''Europe/Paris''" "unpadded ''me''" "unpadded ''mine''" by code_simp+
  then show ?thesis
    by (simp add: agenda_validate_request_def sample_agenda_request_def CALENDAR_TOMORROW_INTENT_def sample_context_def guard_exc_def)
qed

lemma sample_agenda_days:
  "local_date_of sample_zone (car_now sample_agenda_request) = Inr (2024, 2, 29)"
  "add_days 1 (2024, 2, 29) = Inr (2024, 3, 1)" "add_days 1 (2024, 3, 1) = Inr (2024, 3, 2)"
  by (simp_all add: local_date_of_def sample_agenda_request_def sample_zone_def sample_time_def dt_date_def dt_instant_def
      dt_local_def days_before_year_def add_days_def days_in_month_def leap_year_def Let_def)

theorem agenda_tomorrow_witness:
  "\<exists>res. agenda_execute (\<lambda>_. Inr sample_zone)
      (orchestrate (calendar_execute (fake_calendar_composition [] [] sample_calendar []))) 7 sample_time sample_agenda_request (0::nat)
      = (Inr res, 0)
    \<and> cag_local_date res = ''2024-03-01'' \<and> cag_aggregate_complete res"
proof -
  have "zone_ok sample_zone (2024, 3, 1) (2024, 3, 2)" by (simp add: zone_ok_def sample_zone_def)
  moreover have "date_isoformat (2024, 3, 1) = ''2024-03-01''" by code_simp
  moreover have "valid_datetime (car_now sample_agenda_request)" by (simp add: sample_agenda_request_def)
  ultimately show ?thesis
    using agenda_tomorrow [OF sample_agenda_valid _ sample_time_valid(3) sample_agenda_days _ sample_calendar_ok(1),
        where i = 7 and w = "0::nat"]
    by (auto simp: sample_calendar_def)
qed

end
