(* ===== verification/Claude_Properties.thy ===== *)
theory Claude_Properties
  imports Claude_Code Samples
begin

text \<open>
  What the Claude Code executor promises, for any process runner, git, file system and JSON decoder: a failed run
  is never repeated by the worker runtime, success is reported for a verified run only, and the runner is called on
  nothing but the version query and the confined command line of the worktree derived from the action.
\<close>

section \<open>Failures are final\<close>

definition final_result :: "worker_execution_result \<Rightarrow> bool" where
  "final_result r \<longleftrightarrow> (\<forall>f. failure_for_result r = Some f \<longrightarrow> wef_category f \<noteq> TRANSIENT)"

lemma claude_failure_final [simp]: "final_result (claude_failure a reason category performed md) \<longleftrightarrow> category \<noteq> TRANSIENT"
  by (simp add: final_result_def failure_for_result_def claude_failure_def)

lemma claude_failure_status [simp]: "wer_status (claude_failure a reason category performed md) = WFAILED"
  by (simp add: claude_failure_def)

lemma executor_raised_final: "final_result (executor_raised a e)"
  by (simp add: final_result_def failure_for_result_def executor_raised_def Let_def)

lemma verified_final: "wer_status r = WSUCCEEDED \<Longrightarrow> final_result r"
  by (simp add: final_result_def failure_for_result_def)

lemma claude_judge_final: "final_result (claude_judge json_loads a run_facts p st)"
  by (cases "json_loads (pr_stdout p)"; cases "the (json_loads (pr_stdout p))")
     (simp_all add: claude_judge_def Let_def verified_final split: option.splits)

lemma claude_run_final: "returns final_result (claude_run h runner json_loads cc env repo before worktree objective a)"
  unfolding claude_run_def Let_def by (intro return_intros) (simp_all add: claude_judge_final)

lemma claude_execute_final: "returns final_result (claude_execute h runner json_loads os_environ cc a capability ctx)"
  unfolding claude_execute_def Let_def by (intro return_intros claude_run_final) simp_all

text \<open>The action awaits approval.\<close>

definition waits :: "action_lifecycle_state option \<Rightarrow> bool" where
  "waits stored \<longleftrightarrow> (\<exists>st. stored = Some st \<and> awaits_approval st)"

lemma remove_first_at: "(\<forall>x\<in>set xs. \<not> p x) \<Longrightarrow> p a \<Longrightarrow> remove_first p (xs @ a # ys) = (Some a, xs @ ys)"
  by (induction xs) auto

text \<open>A final result leaves the queue alone.\<close>

lemma retry_final:
  assumes "\<And>f. failure = Some f \<Longrightarrow> wef_category f \<noteq> TRANSIENT"
  shows "retry_transient n c a failure st = ret st"
  using assms by (auto simp: retry_transient_def split: option.splits)

lemma execution_final:
  assumes "returns final_result m"
  shows "returns final_result (try_except (on_world m) (\<lambda>e. ret (executor_raised a e)))"
  using assms
  by (auto simp: returns_def try_except_def on_world_def executor_raised_final split: prod.splits sum.splits)

lemma on_world_stores [frame_intros]: "preserves action_queue (on_world m)"
  by (auto simp: preserves_def on_world_def split: prod.splits)

lemma set_lifecycle_queue [frame_intros]: "preserves action_queue (set_lifecycle i st)"
  by (simp add: preserves_modify)

context observed_runtime
begin

lemma observer_queue:
  "preserves action_queue (wr_observer_start rt c eid a res)"
  "preserves action_queue (wr_observer_finish rt c h status md reason failure dur)"
  unfolding preserves_def
  by (intro allI, use start_law [OF prod.collapse [symmetric]] stores_eqD in blast)
     (intro allI, use finish_law [OF prod.collapse [symmetric]] stores_eqD in blast)

lemma conclude_final_queue:
  assumes "final_result r"
  shows "preserves action_queue (conclude_execution rt inp a res h st r)"
  unfolding conclude_execution_def Let_def
  using assms by (subst retry_final) (auto simp: final_result_def intro!: frame_intros observer_queue)

lemma final_never_requeued:
  assumes "returns final_result (resolution_execute (wr_run rt) (resolve_with_registration (wr_registry rt) a) a)"
  shows "preserves action_queue (execute_approved rt inp a st)"
  unfolding execute_approved_def Let_def
  by (intro frame_intros observer_queue
        preserves_bnd_returns [OF _ execution_final [OF assms]] conclude_final_queue)

lemma process_dequeued_final:
  assumes "returns final_result (resolution_execute (wr_run rt) (resolve_with_registration (wr_registry rt) a) a)"
    and "process_dequeued_action rt inp a s = (r, s')"
  shows "if waits (lifecycle_of s (act_id a)) then s' = action_queue_update (queue_enqueue a) s else action_queue s' = action_queue s"
proof -
  consider (held) "waits (lifecycle_of s (act_id a))" "s' = action_queue_update (queue_enqueue a) s"
    | (same) "\<not> waits (lifecycle_of s (act_id a))" "s' = s"
    | (goes) st0 where "\<not> waits (lifecycle_of s (act_id a))" "execute_approved rt inp a st0 s = (r, s')"
    using assms(2)
    by (cases "lifecycle_of s (act_id a)")
       (auto simp: process_dequeued_action_def bnd_def waits_def awaits_approval_def pd_get_def split: sum.splits if_splits)
  then show ?thesis
    by cases (simp_all add: preservesD [OF final_never_requeued [OF assms(1)]])
qed

end

lemma process_next_head_state:
  "action_queue s = a # q \<Longrightarrow> snd (process_next rt inp s) = snd (process_dequeued_action rt inp a (s\<lparr>action_queue := q\<rparr>))"
  by (simp add: process_next_def bnd_def queue_dequeue_def)

lemma process_action_state:
  assumes "action_queue s = as @ a # bs" "act_id a \<notin> act_id ` set as"
  shows "snd (process_action rt inp (act_id a) s) =
    (if waits (lifecycle_of s (act_id a)) then s else snd (process_dequeued_action rt inp a (s\<lparr>action_queue := as @ bs\<rparr>)))"
proof -
  have first: "\<forall>x\<in>set as. act_id x \<noteq> act_id a" using assms(2) by (metis image_eqI)
  have "queue_get (act_id a) (action_queue s) = Some a" "queue_remove (act_id a) (action_queue s) = (Some a, as @ bs)"
    using first by (simp_all add: assms(1) queue_get_def queue_remove_def find_first_append find_first_None [THEN iffD2] remove_first_at)
      (simp add: find_first_def)
  then show ?thesis
    by (cases "lifecycle_of s (act_id a)") (auto simp: process_action_def claim_and_process_def bnd_def waits_def)
qed

text \<open>
  C13. A coding run is not repeated automatically. Consider an action whose routing ends at a Claude Code executor, the first of its
  identifier in the queue. Processing it by its identifier, or processing the next action when it is at the head, takes it out
  of the queue for good, whatever the process, git and the observer do and however many transient retries the runtime is configured
  with. Only when it still awaits approval does it stay in the queue (put back at the end by the latter), and then nothing is
  executed.
\<close>

theorem claude_not_rerun:
  fixes rt
  assumes "rt = durable_runtime ops reg run n dump"
    and "run (res_executor (resolve_with_registration reg a)) = claude_execute h runner json_loads os_environ cc"
    and "action_queue s = as @ a # bs" "act_id a \<notin> act_id ` set as"
  shows "if waits (lifecycle_of s (act_id a))
    then snd (process_action rt inp (act_id a) s) = s
      \<and> (as = [] \<longrightarrow> snd (process_next rt inp s) = s\<lparr>action_queue := bs @ [a]\<rparr>)
    else action_queue (snd (process_action rt inp (act_id a) s)) = as @ bs
      \<and> (as = [] \<longrightarrow> action_queue (snd (process_next rt inp s)) = bs)"
proof -
  have final: "returns final_result (resolution_execute (wr_run rt) (resolve_with_registration (wr_registry rt) a) a)"
    by (simp add: resolution_execute_def assms(1,2) claude_execute_final)
  have attempt: "if waits (lifecycle_of s (act_id a))
      then snd (process_dequeued_action rt inp a (s\<lparr>action_queue := q\<rparr>)) = s\<lparr>action_queue := q @ [a]\<rparr>
      else action_queue (snd (process_dequeued_action rt inp a (s\<lparr>action_queue := q\<rparr>))) = q" for q
    using durable_rt.process_dequeued_final [OF final [unfolded assms(1)] surjective_pairing, where inp = inp and s = "s\<lparr>action_queue := q\<rparr>"]
    by (simp add: assms(1) queue_enqueue_def split: if_splits)
  show ?thesis
    using attempt [of bs] attempt [of "as @ bs"] process_action_state [OF assms(3,4), of rt inp] assms(3)
      process_next_head_state [of s a bs rt inp]
    by auto
qed

section \<open>Success is verified\<close>

lemma claude_judge_success:
  assumes "wer_status (claude_judge json_loads a run_facts p st) = WSUCCEEDED" "distinct (map fst run_facts)"
  obtains envelope report where "pr_returncode p = Some 0" "json_loads (pr_stdout p) = Some (PDict envelope)"
    "pd_get envelope ''is_error'' \<noteq> PBool True"
    "validate_report (pd_get envelope ''structured_output'') = Some report" "crep_blockers report = []"
    "pd_get (wer_metadata (claude_judge json_loads a run_facts p st)) ''changed_files'' = PList (map PStr (changed_files st))"
proof -
  obtain envelope where env: "json_loads (pr_stdout p) = Some (PDict envelope)"
    using assms by (cases "json_loads (pr_stdout p)"; cases "the (json_loads (pr_stdout p))")
      (simp_all add: claude_judge_def split: if_splits)
  have ok: "pr_returncode p = Some 0" "pd_get envelope ''is_error'' \<noteq> PBool True"
    using assms env by (auto simp: claude_judge_def Let_def split: if_splits)
  obtain report where rep: "validate_report (pd_get envelope ''structured_output'') = Some report"
    using assms env ok by (cases "validate_report (pd_get envelope ''structured_output'')")
      (simp_all add: claude_judge_def Let_def)
  have blk: "crep_blockers report = []"
    using assms env ok rep by (cases "crep_blockers report") (simp_all add: claude_judge_def Let_def)
  have "pd_get (wer_metadata (claude_judge json_loads a run_facts p st)) ''changed_files'' = PList (map PStr (changed_files st))"
    using env ok rep blk assms(2)
    by (simp add: claude_judge_def Let_def pd_get_def dict_merge_get dict_merge_distinct map_of_rev_distinct
        distinct_update split: pyval.splits)
  with env ok rep blk that show thesis by blast
qed

lemma claude_worktree_expected:
  assumes "claude_worktree h cc repo i g = (Inr (Some (canonical, worktree)), g')"
  shows "worktree = expected_worktree (cce_workspace cc) i"
  using assms
  by (auto simp: claude_worktree_def try_except_def bnd_def create_worktree_def Let_def ret_def raise_exc_def
      split: prod.splits sum.splits if_splits exc.splits)

text \<open>What a successful run of the process is, from the state \<open>g\<close> in which the worktree is made to the final one.\<close>

definition verified_run ::
  "'g host \<Rightarrow> 'g process_runner \<Rightarrow> (string \<Rightarrow> pyval option) \<Rightarrow> environment \<Rightarrow> claude_code_executor \<Rightarrow> action
     \<Rightarrow> worker_execution_result \<Rightarrow> 'g \<Rightarrow> 'g \<Rightarrow> bool" where
  "verified_run h runner json_loads env cc a r g g' \<longleftrightarrow>
     (let worktree = expected_worktree (cce_workspace cc) (act_id a); repo = tgw_root (cce_workspace cc) in
      \<exists>objective argv canonical status p d envelope report g1 g2 g3.
        task_objective a = Some objective
        \<and> claude_worktree h cc repo (act_id a) g = (Inr (Some (canonical, worktree)), g1)
        \<and> build_claude_code_argv (cce_executable cc) (iw_path worktree) = Inr argv
        \<and> runner argv (iw_path worktree) (cce_timeout_seconds cc)
            (Some (build_task_prompt objective (act_target a) worktree)) env g1 = (Inr (Some (p, d)), g2)
        \<and> process_ok p
        \<and> workspace_status h (cce_workspace cc) repo g2 = (Inr canonical, g3)
        \<and> workspace_status h (cce_workspace cc) (iw_path worktree) g3 = (Inr status, g')
        \<and> json_loads (pr_stdout p) = Some (PDict envelope) \<and> pd_get envelope ''is_error'' \<noteq> PBool True
        \<and> validate_report (pd_get envelope ''structured_output'') = Some report \<and> crep_blockers report = []
        \<and> pd_get (wer_metadata r) ''changed_files'' = PList (map PStr (changed_files status)))"

lemma claude_statuses_Some:
  "claude_statuses h cc repo worktree g = (Inr (Some (c, w)), g') \<longleftrightarrow>
     (\<exists>g1. workspace_status h (cce_workspace cc) repo g = (Inr c, g1)
        \<and> workspace_status h (cce_workspace cc) worktree g1 = (Inr w, g'))"
  by (auto simp: claude_statuses_def try_except_def bnd_def ret_def raise_exc_def
      split: prod.splits sum.splits exc.splits)

lemma claude_run_success:
  assumes "claude_run h runner json_loads cc env repo canonical worktree objective a g1 = (Inr r, g')"
    and "wer_status r = WSUCCEEDED"
  obtains argv p d g2 status where
    "build_claude_code_argv (cce_executable cc) (iw_path worktree) = Inr argv"
    "runner argv (iw_path worktree) (cce_timeout_seconds cc)
       (Some (build_task_prompt objective (act_target a) worktree)) env g1 = (Inr (Some (p, d)), g2)"
    "\<not> pr_timed_out p" "claude_statuses h cc repo (iw_path worktree) g2 = (Inr (Some (canonical, status)), g')"
    "r = claude_judge json_loads a [(''duration_seconds'', PFloat d), (''worktree_path'', PStr (path_str (iw_path worktree))),
        (''worktree_branch'', PStr (iw_branch worktree))] p status"
proof -
  obtain argv where argv: "build_claude_code_argv (cce_executable cc) (iw_path worktree) = Inr argv"
    using assms(1) by (auto simp: claude_run_def bnd_eq_Inr)
  obtain outcome g2 where out: "runner argv (iw_path worktree) (cce_timeout_seconds cc)
       (Some (build_task_prompt objective (act_target a) worktree)) env g1 = (Inr outcome, g2)"
    using assms(1) argv by (auto simp: claude_run_def bnd_eq_Inr)
  obtain p d where p: "outcome = Some (p, d)"
    using assms argv out by (cases outcome) (auto simp: claude_run_def Let_def bnd_def)
  obtain statuses g3 where st: "claude_statuses h cc repo (iw_path worktree) g2 = (Inr statuses, g3)"
    using assms(1) argv out p by (auto simp: claude_run_def Let_def bnd_def split: prod.splits sum.splits)
  obtain after status where ps: "statuses = Some (after, status)"
    using assms argv out p st by (cases statuses) (auto simp: claude_run_def Let_def bnd_def)
  with assms argv out p st that show thesis by (auto simp: claude_run_def Let_def bnd_def split: if_splits)
qed

lemma workspace_validate_root: "workspace_validate h ws g = (Inr repo, g') \<Longrightarrow> repo = tgw_root ws"
  by (auto simp: workspace_validate_def Let_def bnd_eq_Inr split: if_splits)

lemma claude_version_root:
  assumes "claude_version h runner cc env g = (Inr (Inr (repo, p)), g')"
  shows "repo = tgw_root (cce_workspace cc)"
  using assms workspace_validate_root
  by (fastforce simp: claude_version_def try_except_def bnd_def ret_def raise_exc_def
      split: prod.splits sum.splits exc.splits option.splits)

lemma claude_execute_success:
  assumes "claude_execute h runner json_loads os_environ cc a capability ctx g = (Inr r, g')"
    and "wer_status r = WSUCCEEDED"
  obtains objective canonical worktree g0 g1 env where
    "env = worker_environment (case cce_environment cc of None \<Rightarrow> os_environ | Some e \<Rightarrow> e)"
    "task_objective a = Some objective" "capability = Some SOFTWARE_ENGINEERING_IMPLEMENT_CAPABILITY"
    "claude_worktree h cc (tgw_root (cce_workspace cc)) (act_id a) g0 = (Inr (Some (canonical, worktree)), g1)"
    "claude_run h runner json_loads cc env (tgw_root (cce_workspace cc)) canonical worktree objective a g1 = (Inr r, g')"
proof -
  define env where "env = worker_environment (case cce_environment cc of None \<Rightarrow> os_environ | Some e \<Rightarrow> e)"
  have cap: "capability = Some SOFTWARE_ENGINEERING_IMPLEMENT_CAPABILITY"
    using assms by (auto simp: claude_execute_def split: if_splits)
  obtain objective where obj: "task_objective a = Some objective"
    using assms cap by (cases "task_objective a") (auto simp: claude_execute_def)
  obtain version g0 where v: "claude_version h runner cc env g = (Inr version, g0)"
    using assms cap obj by (auto simp: claude_execute_def bnd_eq_Inr env_def Let_def)
  obtain repo p where rp: "version = Inr (repo, p)" "supported_cli p"
    using assms cap obj v by (cases version) (auto simp: claude_execute_def bnd_def env_def Let_def split: if_splits)
  note root = claude_version_root [OF v [unfolded rp(1)]]
  obtain created g1 where c: "claude_worktree h cc repo (act_id a) g0 = (Inr created, g1)"
    using assms cap obj v rp by (auto simp: claude_execute_def bnd_def env_def Let_def split: prod.splits sum.splits)
  obtain canonical worktree where "created = Some (canonical, worktree)"
    "claude_run h runner json_loads cc env repo canonical worktree objective a g1 = (Inr r, g')"
    using assms cap obj v rp c by (cases created) (auto simp: claude_execute_def bnd_def env_def Let_def)
  with env_def obj cap c root that show thesis by blast
qed

text \<open>
  C12. Success is verified, not believed. The executor reports success only for the capability it implements and when the
  process, given the task prompt on standard input in the worktree derived from the action and an environment without
  configuration of the server, ended with code 0 before its timeout, the status of the canonical checkout is the same
  before and after, and the output is a JSON object with a valid completion report that names no blockers; the changed
  files in the result are those git lists in the worktree.
\<close>

theorem claude_success_verified:
  assumes "claude_execute h runner json_loads os_environ cc a capability ctx g = (Inr r, g')"
    and "wer_status r = WSUCCEEDED"
  shows "capability = Some SOFTWARE_ENGINEERING_IMPLEMENT_CAPABILITY
    \<and> (\<exists>g0. verified_run h runner json_loads
          (worker_environment (case cce_environment cc of None \<Rightarrow> os_environ | Some e \<Rightarrow> e)) cc a r g0 g')"
proof -
  obtain objective canonical worktree g0 g1 env where e:
    "env = worker_environment (case cce_environment cc of None \<Rightarrow> os_environ | Some e \<Rightarrow> e)"
    "task_objective a = Some objective" "capability = Some SOFTWARE_ENGINEERING_IMPLEMENT_CAPABILITY"
    "claude_worktree h cc (tgw_root (cce_workspace cc)) (act_id a) g0 = (Inr (Some (canonical, worktree)), g1)"
    "claude_run h runner json_loads cc env (tgw_root (cce_workspace cc)) canonical worktree objective a g1 = (Inr r, g')"
    using assms by (rule claude_execute_success)
  note wt = claude_worktree_expected [OF e(4)]
  obtain argv p d g2 status where ran:
    "build_claude_code_argv (cce_executable cc) (iw_path worktree) = Inr argv"
    "runner argv (iw_path worktree) (cce_timeout_seconds cc)
       (Some (build_task_prompt objective (act_target a) worktree)) env g1 = (Inr (Some (p, d)), g2)"
    "\<not> pr_timed_out p" "claude_statuses h cc (tgw_root (cce_workspace cc)) (iw_path worktree) g2 = (Inr (Some (canonical, status)), g')"
    "r = claude_judge json_loads a [(''duration_seconds'', PFloat d), (''worktree_path'', PStr (path_str (iw_path worktree))),
        (''worktree_branch'', PStr (iw_branch worktree))] p status"
    using e(5) assms(2) by (rule claude_run_success)
  obtain envelope report where "pr_returncode p = Some 0" "json_loads (pr_stdout p) = Some (PDict envelope)"
    "pd_get envelope ''is_error'' \<noteq> PBool True"
    "validate_report (pd_get envelope ''structured_output'') = Some report" "crep_blockers report = []"
    "pd_get (wer_metadata r) ''changed_files'' = PList (map PStr (changed_files status))"
    using assms(2) unfolding ran(5) by (rule claude_judge_success) simp_all
  with e ran(1-4) have "verified_run h runner json_loads env cc a r g0 g'"
    unfolding verified_run_def Let_def wt [symmetric] claude_statuses_Some process_ok_def by blast
  with e show ?thesis by blast
qed

section \<open>Confinement\<close>

text \<open>The configuration of the server in an environment.\<close>

definition server_setting :: "string \<Rightarrow> bool" where
  "server_setting key \<longleftrightarrow> key = ''CLAUDECODE'' \<or> (\<exists>rest. key = ''VELOX_'' @ rest)"

text \<open>An option and the argument that follows it.\<close>

definition has_option :: "string \<Rightarrow> string \<Rightarrow> string list \<Rightarrow> bool" where
  "has_option f v argv \<longleftrightarrow> (\<exists>i. Suc i < length argv \<and> argv ! i = f \<and> argv ! Suc i = v)"

definition forbidden_rules :: "string list" where
  "forbidden_rules =
     [''Bash(git push *)'', ''Bash(git commit *)'', ''Bash(git merge *)'', ''Bash(git rebase *)'', ''Bash(git reset *)'',
      ''Bash(git checkout *)'', ''Bash(git switch *)'', ''Bash(git branch *)'', ''Bash(git worktree *)'', ''Bash(git remote *)'',
      ''Bash(rm *)'', ''Bash(gh *)'', ''Bash(curl *)'', ''Bash(wget *)'', ''WebFetch'', ''WebSearch'']"

text \<open>A command line that asks for nothing, takes no settings from the worktree and forbids publishing, rewriting history and the
  network.\<close>

definition restricted_command :: "string \<Rightarrow> string list \<Rightarrow> bool" where
  "restricted_command exe argv \<longleftrightarrow>
     take 2 argv = [exe, ''-p''] \<and> has_option ''--permission-mode'' ''dontAsk'' argv
     \<and> has_option ''--tools'' ''Read,Edit,Write,Glob,Grep,Bash'' argv \<and> has_option ''--max-turns'' ''40'' argv
     \<and> {''--strict-mcp-config'', ''--setting-sources='', ''--disable-slash-commands'', ''--no-session-persistence''} \<subseteq> set argv
     \<and> (\<exists>deny. has_option ''--disallowedTools'' deny argv \<and> (\<forall>rule\<in>set forbidden_rules. str_contains rule deny))"

text \<open>The calls of the runner that are within the executor's authority for one action: nothing in them but the text on
standard input comes from the task.\<close>

definition permitted_call ::
  "environment \<Rightarrow> claude_code_executor \<Rightarrow> action \<Rightarrow> string list \<Rightarrow> path \<Rightarrow> string option \<Rightarrow> environment \<Rightarrow> bool" where
  "permitted_call os_environ cc a argv cwd stdin env \<longleftrightarrow>
     (let source = (case cce_environment cc of None \<Rightarrow> os_environ | Some e \<Rightarrow> e) in
      \<forall>key v. (key, v) \<in> set env \<longleftrightarrow> (key, v) \<in> set source \<and> \<not> server_setting key) \<and>
     (let worktree = expected_worktree (cce_workspace cc) (act_id a) in
      argv = [cce_executable cc, ''--version''] \<and> cwd = tgw_root (cce_workspace cc) \<and> stdin = None
      \<or> restricted_command (cce_executable cc) argv
        \<and> build_claude_code_argv (cce_executable cc) (iw_path worktree) = Inr argv \<and> cwd = iw_path worktree
        \<and> (\<exists>objective. task_objective a = Some objective
             \<and> stdin = Some (build_task_prompt objective (act_target a) worktree)))"

lemma worker_environment_clean:
  "(key, v) \<in> set (worker_environment source) \<longleftrightarrow> (key, v) \<in> set source \<and> \<not> server_setting key"
  by (auto simp: worker_environment_def server_setting_def str_startswith_append)

lemma str_join_contains: "x \<in> set xs \<Longrightarrow> str_contains x (str_join sep xs)"
proof (induction sep xs rule: str_join.induct)
  case (3 sep y z zs)
  show ?case
  proof (cases "x = y")
    case True
    then have "str_join sep (y # z # zs) = [] @ x @ sep @ str_join sep (z # zs)" by simp
    then show ?thesis unfolding str_contains_iff by blast
  next
    case False
    with 3 obtain pre post where "str_join sep (z # zs) = pre @ x @ post" by (auto simp: str_contains_iff)
    then have "str_join sep (y # z # zs) = (y @ sep @ pre) @ x @ post" by simp
    then show ?thesis unfolding str_contains_iff by blast
  qed
qed (auto simp: str_contains_iff intro: exI [of _ "[]"])

lemma forbidden_rules_denied: "set forbidden_rules \<subseteq> set CLAUDE_CODE_DISALLOWED_BASH_AND_WEB"
  by code_simp

lemma fixed_arguments: "str_join '','' CLAUDE_CODE_TOOLS = ''Read,Edit,Write,Glob,Grep,Bash''" "nat_str CLAUDE_CODE_MAX_TURNS = ''40''"
  by code_simp+

lemma command_restricted:
  assumes "build_claude_code_argv exe worktree = Inr argv"
  shows "restricted_command exe argv"
proof -
  obtain allow deny where argv: "argv = [exe, ''-p'', ''--output-format'', ''json'', ''--json-schema'', COMPLETION_REPORT_SCHEMA_JSON,
          ''--permission-mode'', ''dontAsk'', ''--tools'', ''Read,Edit,Write,Glob,Grep,Bash'',
          ''--allowedTools'', str_join '','' (allow @ CLAUDE_CODE_ALLOWED_BASH),
          ''--disallowedTools'', str_join '','' (deny @ CLAUDE_CODE_DISALLOWED_BASH_AND_WEB),
          ''--strict-mcp-config'', ''--setting-sources='', ''--disable-slash-commands'', ''--no-session-persistence'',
          ''--max-turns'', ''40'']"
    using assms by (auto simp: build_claude_code_argv_def rbind_eq_Inr fixed_arguments split: prod.splits)
  have "str_contains rule (str_join '','' (deny @ CLAUDE_CODE_DISALLOWED_BASH_AND_WEB))" if "rule \<in> set forbidden_rules" for rule
    using that forbidden_rules_denied by (intro str_join_contains) auto
  moreover have "has_option ''--permission-mode'' ''dontAsk'' argv" "has_option ''--tools'' ''Read,Edit,Write,Glob,Grep,Bash'' argv"
    "has_option ''--disallowedTools'' (str_join '','' (deny @ CLAUDE_CODE_DISALLOWED_BASH_AND_WEB)) argv" "has_option ''--max-turns'' ''40'' argv"
    unfolding has_option_def argv
    by (rule exI [of _ 6], simp, rule exI [of _ 8], simp, rule exI [of _ 12], simp, rule exI [of _ 18], simp)
  ultimately show ?thesis by (auto simp: restricted_command_def argv)
qed

lemma bnd_cong_returns:
  assumes "m = m'" "\<And>s x s'. m' s = (Inr x, s') \<Longrightarrow> k x = k' x"
  shows "bnd m k = bnd m' k'"
  using assms by (auto simp: bnd_def fun_eq_iff split: prod.splits sum.splits)

lemma claude_run_cong:
  assumes "\<And>argv. build_claude_code_argv (cce_executable cc) (iw_path worktree) = Inr argv \<Longrightarrow>
      runner argv (iw_path worktree) (cce_timeout_seconds cc)
        (Some (build_task_prompt objective (act_target a) worktree)) env
      = runner' argv (iw_path worktree) (cce_timeout_seconds cc)
        (Some (build_task_prompt objective (act_target a) worktree)) env"
  shows "claude_run h runner json_loads cc env repo canonical worktree objective a
     = claude_run h runner' json_loads cc env repo canonical worktree objective a"
  unfolding claude_run_def using assms
  by (cases "build_claude_code_argv (cce_executable cc) (iw_path worktree)") (auto simp: bnd_def fun_eq_iff)

lemma claude_version_cong:
  assumes "runner [cce_executable cc, ''--version''] (tgw_root (cce_workspace cc)) 30 None env
     = runner' [cce_executable cc, ''--version''] (tgw_root (cce_workspace cc)) 30 None env"
  shows "claude_version h runner cc env = claude_version h runner' cc env"
  unfolding claude_version_def
  by (rule arg_cong [where f = "\<lambda>m. try_except m _"], rule bnd_cong_returns [OF refl])
     (use assms workspace_validate_root in fastforce)

text \<open>
  C14. Confinement. Two process runners that agree on the calls within the executor's authority make it behave the same:
  the executor calls the runner only to ask for the version in the canonical checkout, and with the fixed command line
  for the worktree derived from the action, in that worktree, with the task prompt on standard input; both times with an
  environment that is the given one less \<open>CLAUDECODE\<close> and every variable whose name begins with \<open>VELOX_\<close>. That command line
  grants no permission on demand, reads no settings or MCP servers, bounds the turns, and forbids publishing, changing branches or
  history, and the network.
\<close>

theorem claude_calls_confined:
  assumes "\<And>argv cwd timeout stdin env. permitted_call os_environ cc a argv cwd stdin env \<Longrightarrow>
      runner argv cwd timeout stdin env = runner' argv cwd timeout stdin env"
  shows "claude_execute h runner json_loads os_environ cc a capability ctx
     = claude_execute h runner' json_loads os_environ cc a capability ctx"
proof -
  define env where "env = worker_environment (case cce_environment cc of None \<Rightarrow> os_environ | Some e \<Rightarrow> e)"
  have version: "claude_version h runner cc env = claude_version h runner' cc env"
    by (rule claude_version_cong, rule assms) (simp add: permitted_call_def env_def worker_environment_clean)
  have run: "claude_run h runner json_loads cc env repo canonical worktree objective a
      = claude_run h runner' json_loads cc env repo canonical worktree objective a"
    if "task_objective a = Some objective" "worktree = expected_worktree (cce_workspace cc) (act_id a)"
    for repo canonical worktree objective
    by (rule claude_run_cong, rule assms) (use that command_restricted in \<open>auto simp: permitted_call_def env_def worker_environment_clean\<close>)
  show ?thesis
    unfolding claude_execute_def env_def [symmetric] Let_def version
    by (auto simp: run split: option.splits sum.splits
        intro!: bnd_cong_returns dest!: claude_worktree_expected)
qed

section \<open>A concrete host\<close>

definition quiet_host :: "unit host" where
  "quiet_host = \<lparr>host_run = (\<lambda>argv cwd g. (Some \<lparr>pr_returncode = Some 0,
        pr_stdout = (if ''rev-parse'' \<in> set argv then ''/srv/velox'' else ''''), pr_stderr = '''', pr_timed_out = False\<rparr>, g)),
     host_is_dir = (\<lambda>g p. True), host_exists = (\<lambda>g p. False), host_resolve = (\<lambda>g p. p), host_mkdir = (\<lambda>p g. g)\<rparr>"

definition quiet_runner :: "unit process_runner" where
  "quiet_runner argv cwd timeout stdin env =
     ret (Some (\<lparr>pr_returncode = Some 0, pr_stdout = (if stdin = None then ''2.1.160 (Claude Code)'' else ''{}''),
                 pr_stderr = '''', pr_timed_out = False\<rparr>, 2))"

definition quiet_json :: "string \<Rightarrow> pyval option" where
  "quiet_json text = Some (PDict [(''structured_output'', PDict [(''summary'', PStr ''done''), (''files_changed'', PList []),
     (''validation'', PList []), (''blockers'', PList [])])])"

definition quiet_executor :: claude_code_executor where
  "quiet_executor = \<lparr>cce_workspace = \<lparr>tgw_root = path_of_str ''/srv/velox'', tgw_worktrees_root = None, tgw_git = ''git''\<rparr>,
     cce_executable = ''claude'', cce_timeout_seconds = 1800, cce_environment = Some [(''PATH'', ''/bin'')]\<rparr>"

lemma quiet_task: "task_objective se_action = Some ''fix it''"
proof -
  have "\<not> str_blank ''fix it''" by code_simp
  then show ?thesis
    by (simp add: task_objective_def se_action_def pd_get_def MAX_OBJECTIVE_CHARACTERS_def)
qed

lemma quiet_cli:
  assumes "pr_returncode p = Some 0" "pr_stdout p = ''2.1.160 (Claude Code)''"
  shows "supported_cli p"
proof -
  have "search_version ''2.1.160 (Claude Code)'' = Some (2, 1, 160)" by code_simp
  with assms show ?thesis unfolding supported_cli_def CLAUDE_CODE_MINIMUM_VERSION_def by (simp del: search_version.simps)
qed

lemma quiet_report: "\<exists>report. validate_report (PDict [(''summary'', PStr ''done''), (''files_changed'', PList []),
     (''validation'', PList []), (''blockers'', PList [])]) = Some report \<and> crep_blockers report = []"
  by (simp add: validate_report_def pd_get_def text_list_def insert_commute)

lemma quiet_rules:
  "\<exists>rules. worktree_file_rules (iw_path (expected_worktree (cce_workspace quiet_executor) 9)) = Inr rules"
proof -
  have "case worktree_file_rules (iw_path (expected_worktree (cce_workspace quiet_executor) 9)) of
      Inl e \<Rightarrow> False | Inr r \<Rightarrow> True" by code_simp
  then show ?thesis by (simp split: sum.splits)
qed

lemma quiet_root: "path_of_str (str_strip ''/srv/velox'') = path_of_str ''/srv/velox''" "path_abs (path_of_str ''/srv/velox'')"
  by code_simp+

lemma quiet_validate: "workspace_validate quiet_host (cce_workspace quiet_executor) () = (Inr (path_of_str ''/srv/velox''), ())"
  by (simp add: workspace_validate_def run_git_def quiet_host_def quiet_executor_def bnd_def gets_def Let_def process_ok_def quiet_root)

lemma quiet_status: "workspace_status quiet_host (cce_workspace quiet_executor) p () = (Inr '''', ())"
  by (simp add: workspace_status_def run_git_def quiet_host_def quiet_executor_def bnd_def process_ok_def)

lemma quiet_worktree:
  "claude_worktree quiet_host quiet_executor repo 9 ()
     = (Inr (Some ('''', expected_worktree (cce_workspace quiet_executor) 9)), ())"
proof -
  have "create_worktree quiet_host (cce_workspace quiet_executor) 9 () = (Inr (expected_worktree (cce_workspace quiet_executor) 9), ())"
    by (simp add: create_worktree_def bnd_def quiet_validate Let_def)
       (simp add: quiet_host_def run_git_def process_ok_def)
  then show ?thesis
    using quiet_rules by (auto simp: claude_worktree_def try_except_def bnd_def quiet_status)
qed

lemma quiet_version:
  "claude_version quiet_host quiet_runner quiet_executor env () = (Inr (Inr (path_of_str ''/srv/velox'', 
     \<lparr>pr_returncode = Some 0, pr_stdout = ''2.1.160 (Claude Code)'', pr_stderr = '''', pr_timed_out = False\<rparr>)), ())"
  by (simp add: claude_version_def try_except_def bnd_def quiet_validate quiet_runner_def)

lemma quiet_success:
  "\<exists>r. claude_execute quiet_host quiet_runner quiet_json [] quiet_executor se_action
      (Some SOFTWARE_ENGINEERING_IMPLEMENT_CAPABILITY) None () = (Inr r, ()) \<and> wer_status r = WSUCCEEDED"
proof -
  have id: "act_id se_action = 9" by (simp add: se_action_def)
  obtain argv where argv: "build_claude_code_argv (cce_executable quiet_executor)
      (iw_path (expected_worktree (cce_workspace quiet_executor) 9)) = Inr argv"
    using quiet_rules by (auto simp: build_claude_code_argv_def)
  obtain report where rep: "validate_report (PDict [(''summary'', PStr ''done''), (''files_changed'', PList []),
     (''validation'', PList []), (''blockers'', PList [])]) = Some report" "crep_blockers report = []"
    using quiet_report by blast
  have "\<exists>r. claude_run quiet_host quiet_runner quiet_json quiet_executor env repo ''''
      (expected_worktree (cce_workspace quiet_executor) 9) ''fix it'' se_action () = (Inr r, ()) \<and> wer_status r = WSUCCEEDED" for env repo
    by (simp add: claude_run_def bnd_def argv quiet_runner_def Let_def claude_statuses_def try_except_def quiet_status
        claude_judge_def quiet_json_def pd_get_def rep [unfolded pd_get_def])
  then show ?thesis
    by (simp add: claude_execute_def quiet_task bnd_def quiet_version quiet_worktree id quiet_cli Let_def)
qed

text \<open>A runner that refuses every call outside the executor's authority.\<close>

definition fenced_runner :: "unit process_runner" where
  "fenced_runner argv cwd timeout stdin env =
     (if permitted_call [] quiet_executor se_action argv cwd stdin env
      then quiet_runner argv cwd timeout stdin env else raise_exc (RuntimeError ''refused''))"

definition quiet_registry :: "unit executor_registry" where
  "quiet_registry = snd (register_manifest (claude_manifest ()) (empty_registry ()))"

definition quiet_process :: "(mem_runs, unit) process_state" where
  "quiet_process = \<lparr>action_queue = [se_action], action_lifecycle_repository = [(9, sample_lifecycle APPROVED [])],
     pending_approval_registry = [], run_repository = [], execution_observations = [], execution_world = ()\<rparr>"

theorem claude_not_rerun_witness:
  "action_queue (snd (process_next (durable_runtime mem_ops quiet_registry
       (\<lambda>x. claude_execute quiet_host quiet_runner quiet_json [] quiet_executor) 3 (\<lambda>st. PNone)) sample_inputs quiet_process)) = []
   \<and> action_queue (snd (process_action (durable_runtime mem_ops quiet_registry
       (\<lambda>x. claude_execute quiet_host quiet_runner quiet_json [] quiet_executor) 3 (\<lambda>st. PNone)) sample_inputs 9 quiet_process)) = []"
proof -
  have "\<not> waits (lifecycle_of quiet_process (act_id se_action))"
    by (simp add: quiet_process_def se_action_def waits_def awaits_approval_def sample_lifecycle_def lifecycle_get_def)
  moreover have "act_id se_action = 9" by (simp add: se_action_def)
  ultimately show ?thesis
    using claude_not_rerun [where run = "\<lambda>x. claude_execute quiet_host quiet_runner quiet_json [] quiet_executor" and as = "[]" and bs = "[]"
        and a = se_action and s = quiet_process, OF refl refl, of mem_ops quiet_registry 3 "\<lambda>st. PNone" sample_inputs]
    by (simp add: quiet_process_def)
qed

theorem claude_success_verified_witness:
  "\<exists>r. wer_status r = WSUCCEEDED \<and> (\<exists>g0. verified_run quiet_host quiet_runner quiet_json [(''PATH'', ''/bin'')]
      quiet_executor se_action r g0 ())"
proof -
  obtain r where r: "claude_execute quiet_host quiet_runner quiet_json [] quiet_executor se_action
      (Some SOFTWARE_ENGINEERING_IMPLEMENT_CAPABILITY) None () = (Inr r, ())" "wer_status r = WSUCCEEDED"
    using quiet_success by blast
  have env: "worker_environment (case cce_environment quiet_executor of None \<Rightarrow> [] | Some e \<Rightarrow> e) = [(''PATH'', ''/bin'')]"
    by code_simp
  show ?thesis using claude_success_verified [OF r] r(2) unfolding env by blast
qed

theorem claude_calls_confined_witness:
  "\<exists>r. claude_execute quiet_host fenced_runner quiet_json [] quiet_executor se_action
      (Some SOFTWARE_ENGINEERING_IMPLEMENT_CAPABILITY) None () = (Inr r, ()) \<and> wer_status r = WSUCCEEDED"
  using quiet_success
    claude_calls_confined [where os_environ = "[]" and cc = quiet_executor and a = se_action
      and runner = quiet_runner and runner' = fenced_runner and h = quiet_host and json_loads = quiet_json]
  by (simp add: fenced_runner_def)

end
