(* ===== verification/Credentials.thy ===== *)
theory Credentials
  imports Store_Interfaces
begin

text \<open>
  \<open>core/credentials.py\<close> and \<open>integrations/keyring_credentials.py\<close>: the credential store, in memory and over a
  keyring backend. The contract of a store is the locale \<open>credential_store\<close>. The keyring package is not part of the
  repository: its backend is a record of operations, and what the adapter relies on is the predicate
  \<open>keyring_backend_ok\<close>: a read returns the entry, a write or a deletion takes effect when it returns and takes
  effect or not when it raises. Other processes that use the same keychain between two calls are not modelled.
\<close>

section \<open>References and material\<close>

record credential_reference =
  cr_namespace :: string
  cr_account_identifier :: string

record credential_material =
  cm_value :: string

definition validate_identifier :: "string \<Rightarrow> string \<Rightarrow> unit result" where
  "validate_identifier v field_name =
     guard_exc (\<not> str_blank v) (ValueError (''credential reference '' @ field_name @ '' must be a non-blank string''))"

definition mk_credential_reference :: "string \<Rightarrow> string \<Rightarrow> credential_reference result" where
  "mk_credential_reference namespace account_identifier =
     rbind (validate_identifier namespace ''namespace'') (\<lambda>_.
     rbind (validate_identifier account_identifier ''account_identifier'') (\<lambda>_.
     Inr \<lparr>cr_namespace = namespace, cr_account_identifier = account_identifier\<rparr>))"

definition mk_credential_material :: "string \<Rightarrow> credential_material result" where
  "mk_credential_material v =
     (if v = '''' then Inl (ValueError ''credential material must be a non-empty string'') else Inr \<lparr>cm_value = v\<rparr>)"

abbreviation already_exists :: exc where
  "already_exists \<equiv> CredentialAlreadyExistsError ''credential already exists for the requested namespace and account''"

section \<open>The contract\<close>

locale credential_store =
  fixes store :: "credential_reference \<Rightarrow> credential_material \<Rightarrow> bool \<Rightarrow> ('s, unit) prog"
    and get :: "credential_reference \<Rightarrow> ('s, credential_material option) prog"
    and delete :: "credential_reference \<Rightarrow> ('s, bool) prog"
    and view :: "'s \<Rightarrow> credential_reference \<Rightarrow> credential_material option"
  assumes store_law: "store r m replace s = (res, s') \<Longrightarrow>
      (view s' = view s \<and> (\<exists>e. res = Inl e)) \<or> (view s' = (view s)(r \<mapsto> m) \<and> (view s r = None \<or> replace))"
    and get_law: "get r s = (got, s') \<Longrightarrow> view s' = view s \<and> (\<forall>x. got = Inr x \<longrightarrow> x = view s r)"
    and delete_law: "delete r s = (del, s') \<Longrightarrow>
      (view s' = view s \<and> (del = Inr False \<longrightarrow> view s r = None) \<and> del \<noteq> Inr True)
      \<or> (view s' = (view s)(r := None) \<and> view s r \<noteq> None \<and> del \<noteq> Inr False)"
begin

lemma store_then_get:
  "store r m replace s = (Inr (), s1) \<Longrightarrow> get r s1 = (Inr x, s2) \<Longrightarrow> x = Some m"
  using store_law get_law by (metis Inl_Inr_False fun_upd_same)

lemma store_keeps:
  "store r m replace s = (res, s') \<Longrightarrow> view s r' = Some x \<Longrightarrow> r' \<noteq> r \<or> \<not> replace \<Longrightarrow> view s' r' = Some x"
  by (drule store_law) auto

lemma delete_keeps: "delete r s = (del, s') \<Longrightarrow> r' \<noteq> r \<Longrightarrow> view s' r' = view s r'"
  by (drule delete_law) auto

end

section \<open>Sequences of calls\<close>

datatype credential_call =
    StoreCredential credential_reference credential_material bool
  | GetCredential credential_reference
  | DeleteCredential credential_reference

record 's credential_ops =
  co_store :: "credential_reference \<Rightarrow> credential_material \<Rightarrow> bool \<Rightarrow> ('s, unit) prog"
  co_get :: "credential_reference \<Rightarrow> ('s, credential_material option) prog"
  co_delete :: "credential_reference \<Rightarrow> ('s, bool) prog"

fun credential_step :: "'s credential_ops \<Rightarrow> credential_call \<Rightarrow> 's \<Rightarrow> 's" where
  "credential_step ops (StoreCredential r m replace) s = snd (co_store ops r m replace s)"
| "credential_step ops (GetCredential r) s = snd (co_get ops r s)"
| "credential_step ops (DeleteCredential r) s = snd (co_delete ops r s)"

fun overwrites :: "credential_reference \<Rightarrow> credential_call \<Rightarrow> bool" where
  "overwrites r (StoreCredential r' m replace) = (r' = r \<and> replace)"
| "overwrites r (GetCredential r') = False"
| "overwrites r (DeleteCredential r') = (r' = r)"

section \<open>The in-memory store\<close>

type_synonym mem_credentials = "(credential_reference \<times> credential_material) list"

definition mem_cred_store :: "credential_reference \<Rightarrow> credential_material \<Rightarrow> bool \<Rightarrow> (mem_credentials, unit) prog" where
  "mem_cred_store r m replace =
     bnd (gets (\<lambda>s. dict_has s r)) (\<lambda>present.
     if present \<and> \<not> replace then raise_exc already_exists
     else modify (dict_set r m))"

definition mem_cred_get :: "credential_reference \<Rightarrow> (mem_credentials, credential_material option) prog" where
  "mem_cred_get r = gets (\<lambda>s. dict_get s r)"

definition mem_cred_delete :: "credential_reference \<Rightarrow> (mem_credentials, bool) prog" where
  "mem_cred_delete r =
     bnd (gets (\<lambda>s. dict_get s r)) (\<lambda>found. bnd (modify (dict_pop r)) (\<lambda>_. ret (found \<noteq> None)))"

interpretation mem_cred: credential_store mem_cred_store mem_cred_get mem_cred_delete dict_get
  by unfold_locales
     (auto simp: mem_cred_store_def mem_cred_get_def mem_cred_delete_def bnd_def dict_has_def fun_eq_iff split: if_splits)

section \<open>The keychain store\<close>

record 'k keyring_backend =
  kb_get_password :: "string \<Rightarrow> string \<Rightarrow> ('k, string option) prog"
  kb_set_password :: "string \<Rightarrow> string \<Rightarrow> string \<Rightarrow> ('k, unit) prog"
  kb_delete_password :: "string \<Rightarrow> string \<Rightarrow> ('k, unit) prog"

text \<open>What selecting a backend gives: nothing when it raises, otherwise the backend, whether it is the macOS keychain,
  and its priority.\<close>

record 'k keyring_selection =
  ks_backend :: "'k keyring_backend"
  ks_is_macos :: bool
  ks_priority :: pyval

definition mk_keychain_store ::
  "'k keyring_backend option \<Rightarrow> 'k keyring_selection option \<Rightarrow> 'k keyring_backend result" where
  "mk_keychain_store backend selected =
     (case backend of
        Some b \<Rightarrow> Inr b
      | None \<Rightarrow>
          (case selected of
             None \<Rightarrow> Inl CredentialStoreBackendError
           | Some sel \<Rightarrow>
               if \<not> ks_is_macos sel then Inl CredentialStoreBackendError
               else (case ks_priority sel of
                   PInt n \<Rightarrow> if n \<le> 0 then Inl CredentialStoreBackendError else Inr (ks_backend sel)
                 | PFloat x \<Rightarrow> if x \<le> 0 then Inl CredentialStoreBackendError else Inr (ks_backend sel)
                 | _ \<Rightarrow> Inl CredentialStoreBackendError)))"

definition backend_failure :: "('k, 'a) prog \<Rightarrow> ('k, 'a) prog" where
  "backend_failure m = try_except m (\<lambda>_. raise_exc CredentialStoreBackendError)"

definition keyring_get_password :: "'k keyring_backend \<Rightarrow> credential_reference \<Rightarrow> ('k, string option) prog" where
  "keyring_get_password kb r = backend_failure (kb_get_password kb (cr_namespace r) (cr_account_identifier r))"

definition keyring_store ::
  "'k keyring_backend \<Rightarrow> credential_reference \<Rightarrow> credential_material \<Rightarrow> bool \<Rightarrow> ('k, unit) prog" where
  "keyring_store kb r m replace =
     bnd (keyring_get_password kb r) (\<lambda>existing.
     if existing \<noteq> None \<and> \<not> replace then raise_exc already_exists
     else backend_failure (kb_set_password kb (cr_namespace r) (cr_account_identifier r) (cm_value m)))"

definition keyring_get :: "'k keyring_backend \<Rightarrow> credential_reference \<Rightarrow> ('k, credential_material option) prog" where
  "keyring_get kb r =
     bnd (keyring_get_password kb r) (\<lambda>v.
     case v of None \<Rightarrow> ret None | Some x \<Rightarrow> bnd (liftr (mk_credential_material x)) (\<lambda>m. ret (Some m)))"

definition keyring_delete :: "'k keyring_backend \<Rightarrow> credential_reference \<Rightarrow> ('k, bool) prog" where
  "keyring_delete kb r =
     bnd (keyring_get_password kb r) (\<lambda>v.
     if v = None then ret False
     else bnd (backend_failure (kb_delete_password kb (cr_namespace r) (cr_account_identifier r))) (\<lambda>_. ret True))"

text \<open>The documented behaviour of a backend, over the entries it holds.\<close>

definition keyring_backend_ok :: "'k keyring_backend \<Rightarrow> ('k \<Rightarrow> string \<times> string \<Rightarrow> string option) \<Rightarrow> bool" where
  "keyring_backend_ok kb entries \<longleftrightarrow>
     (\<forall>a b k r k'. kb_get_password kb a b k = (r, k') \<longrightarrow> entries k' = entries k \<and> (\<forall>x. r = Inr x \<longrightarrow> x = entries k (a, b)))
     \<and> (\<forall>a b p k r k'. kb_set_password kb a b p k = (r, k') \<longrightarrow>
          entries k' = (entries k)((a, b) \<mapsto> p) \<or> (entries k' = entries k \<and> r \<noteq> Inr ()))
     \<and> (\<forall>a b k r k'. kb_delete_password kb a b k = (r, k') \<longrightarrow>
          entries k' = (entries k)((a, b) := None) \<or> (entries k' = entries k \<and> r \<noteq> Inr ()))"

definition keyring_view ::
  "('k \<Rightarrow> string \<times> string \<Rightarrow> string option) \<Rightarrow> 'k \<Rightarrow> credential_reference \<Rightarrow> credential_material option" where
  "keyring_view entries k r =
     map_option (\<lambda>v. \<lparr>cm_value = v\<rparr>) (entries k (cr_namespace r, cr_account_identifier r))"

section \<open>The contract is kept\<close>

context credential_store
begin

lemma step_keeps:
  assumes "view s r = Some x" "\<not> overwrites r call"
  shows "view (credential_step \<lparr>co_store = store, co_get = get, co_delete = delete\<rparr> call s) r = Some x"
  using assms store_keeps [OF surjective_pairing] get_law [OF surjective_pairing] delete_keeps [OF surjective_pairing]
  by (cases call) auto

lemma calls_keep:
  "view s r = Some x \<Longrightarrow> \<forall>call\<in>set calls. \<not> overwrites r call \<Longrightarrow>
     view (fold (credential_step \<lparr>co_store = store, co_get = get, co_delete = delete\<rparr>) calls s) r = Some x"
  by (induction calls arbitrary: s) (auto simp: step_keeps)

end

lemma keyring_read:
  assumes "keyring_backend_ok kb entries" "keyring_get_password kb r k = (res, k')"
  shows "entries k' = entries k \<and> (\<forall>x. res = Inr x \<longrightarrow> x = entries k (cr_namespace r, cr_account_identifier r))"
  using assms
  by (auto simp: keyring_get_password_def backend_failure_def try_except_def keyring_backend_ok_def split: prod.splits sum.splits)

lemma keyring_view_cong: "entries k' = entries k \<Longrightarrow> keyring_view entries k' = keyring_view entries k"
  by (simp add: keyring_view_def fun_eq_iff)

lemma keyring_view_update:
  "entries k' = (entries k)((cr_namespace r, cr_account_identifier r) := v) \<Longrightarrow>
     keyring_view entries k' = (keyring_view entries k)(r := map_option (\<lambda>v. \<lparr>cm_value = v\<rparr>) v)"
  by (auto simp: keyring_view_def fun_eq_iff)

lemma keyring_is_store:
  assumes ok: "keyring_backend_ok kb entries"
  shows "credential_store (keyring_store kb) (keyring_get kb) (keyring_delete kb) (keyring_view entries)"
proof
  fix r m replace s res s'
  assume run: "keyring_store kb r m replace s = (res, s')"
  obtain v s1 where v: "keyring_get_password kb r s = (v, s1)" by fastforce
  note rd = keyring_read [OF ok v]
  obtain w s2 where w: "kb_set_password kb (cr_namespace r) (cr_account_identifier r) (cm_value m) s1 = (w, s2)" by fastforce
  have wr: "entries s2 = (entries s1)((cr_namespace r, cr_account_identifier r) \<mapsto> cm_value m) \<or> (entries s2 = entries s1 \<and> w \<noteq> Inr ())"
    using ok w unfolding keyring_backend_ok_def by blast
  have up: "keyring_view entries s2 = (keyring_view entries s)(r \<mapsto> m)"
    if "entries s2 = (entries s1)((cr_namespace r, cr_account_identifier r) \<mapsto> cm_value m)"
    using keyring_view_update [OF that] keyring_view_cong [of entries s1 s] rd by (cases m) simp
  show "(keyring_view entries s' = keyring_view entries s \<and> (\<exists>e. res = Inl e)) \<or>
      (keyring_view entries s' = (keyring_view entries s)(r \<mapsto> m) \<and> (keyring_view entries s r = None \<or> replace))"
    using run v rd w wr up
    by (auto simp: keyring_store_def bnd_def backend_failure_def try_except_def keyring_view_def [of entries s] split: sum.splits if_splits
        dest!: keyring_view_cong)
next
  fix r s got s'
  assume run: "keyring_get kb r s = (got, s')"
  obtain v s1 where v: "keyring_get_password kb r s = (v, s1)" by fastforce
  from run v keyring_read [OF ok v] keyring_view_cong [of entries s1 s]
  show "keyring_view entries s' = keyring_view entries s \<and> (\<forall>x. got = Inr x \<longrightarrow> x = keyring_view entries s r)"
    by (auto simp: keyring_get_def bnd_def mk_credential_material_def keyring_view_def [of entries s r] split: sum.splits option.splits if_splits)
next
  fix r s del s'
  assume run: "keyring_delete kb r s = (del, s')"
  obtain v s1 where v: "keyring_get_password kb r s = (v, s1)" by fastforce
  note rd = keyring_read [OF ok v]
  obtain w s2 where w: "kb_delete_password kb (cr_namespace r) (cr_account_identifier r) s1 = (w, s2)" by fastforce
  have wr: "entries s2 = (entries s1)((cr_namespace r, cr_account_identifier r) := None) \<or> (entries s2 = entries s1 \<and> w \<noteq> Inr ())"
    using ok w unfolding keyring_backend_ok_def by blast
  have up: "keyring_view entries s2 = (keyring_view entries s)(r := None)"
    if "entries s2 = (entries s1)((cr_namespace r, cr_account_identifier r) := None)"
    using keyring_view_update [OF that] keyring_view_cong [of entries s1 s] rd by simp
  show "(keyring_view entries s' = keyring_view entries s \<and> (del = Inr False \<longrightarrow> keyring_view entries s r = None) \<and> del \<noteq> Inr True) \<or>
      (keyring_view entries s' = (keyring_view entries s)(r := None) \<and> keyring_view entries s r \<noteq> None \<and> del \<noteq> Inr False)"
    using run v rd w wr up
    by (auto simp: keyring_delete_def bnd_def backend_failure_def try_except_def keyring_view_def [of entries s r] split: sum.splits if_splits
        dest!: keyring_view_cong)
qed

abbreviation keyring_ops :: "'k keyring_backend \<Rightarrow> 'k credential_ops" where
  "keyring_ops kb \<equiv> \<lparr>co_store = keyring_store kb, co_get = keyring_get kb, co_delete = keyring_delete kb\<rparr>"

text \<open>C34. No silent replacement: once the keychain holds the material of a reference, it keeps exactly that material whatever
  credentials are stored, read and deleted, failing calls included, until a call asks to replace or delete that
  very reference; and a read of it returns that material or raises.\<close>

theorem no_silent_replacement:
  assumes "keyring_backend_ok kb entries" "keyring_store kb r m replace k = (Inr (), k1)"
    and "\<forall>call\<in>set calls. \<not> overwrites r call" "k2 = fold (credential_step (keyring_ops kb)) calls k1"
  shows "keyring_view entries k2 r = Some m \<and> (\<forall>x k3. keyring_get kb r k2 = (Inr x, k3) \<longrightarrow> x = Some m)"
proof -
  note store = keyring_is_store [OF assms(1)]
  have "keyring_view entries k1 r = Some m"
    using credential_store.store_law [OF store assms(2)] by auto
  with credential_store.calls_keep [OF store this assms(3)] assms(4) have "keyring_view entries k2 r = Some m" by simp
  with credential_store.get_law [OF store] show ?thesis by metis
qed

definition dict_backend :: "((string \<times> string) \<times> string) list keyring_backend" where
  "dict_backend = \<lparr>kb_get_password = (\<lambda>a b. gets (\<lambda>k. dict_get k (a, b))),
     kb_set_password = (\<lambda>a b p. modify (dict_set (a, b) p)), kb_delete_password = (\<lambda>a b. modify (dict_pop (a, b)))\<rparr>"

lemma dict_backend_ok: "keyring_backend_ok dict_backend dict_get"
  by (auto simp: keyring_backend_ok_def dict_backend_def fun_eq_iff)

definition cred_ref :: "string \<Rightarrow> credential_reference" where
  "cred_ref a = \<lparr>cr_namespace = ''velox'', cr_account_identifier = a\<rparr>"

definition cred_calls :: "credential_call list" where
  "cred_calls = [StoreCredential (cred_ref ''me'') \<lparr>cm_value = ''new''\<rparr> False, DeleteCredential (cred_ref ''you'')]"

theorem no_silent_replacement_witness:
  "keyring_view dict_get (fold (credential_step (keyring_ops dict_backend)) cred_calls [((''velox'', ''me''), ''old'')])
     (cred_ref ''me'') = Some \<lparr>cm_value = ''old''\<rparr>"
proof -
  have "keyring_store dict_backend (cred_ref ''me'') \<lparr>cm_value = ''old''\<rparr> False [] = (Inr (), [((''velox'', ''me''), ''old'')])"
    "\<forall>call\<in>set cred_calls. \<not> overwrites (cred_ref ''me'') call"
    by (simp_all add: keyring_store_def keyring_get_password_def backend_failure_def dict_backend_def bnd_def try_except_def
        cred_ref_def cred_calls_def)
  from no_silent_replacement [OF dict_backend_ok this refl] show ?thesis by simp
qed

end
