(* ===== verification/Google_OAuth.thy ===== *)
theory Google_OAuth
  imports Credentials Google_Provider Py_Dates
begin

text \<open>
  \<open>integrations/google_oauth.py\<close>: connecting one account to Google, and the credentials provider that refreshes stored
  material. The packages \<open>google-auth\<close> and \<open>google-auth-oauthlib\<close> are not part of the repository: the installed-app flow,
  the verification of an identity token, the reconstruction of credentials and their refresh are parameters that may
  raise, and so are \<open>json.dumps\<close> and \<open>json.loads\<close>. The credential store is any record of operations \<open>credential_ops\<close>.
  The exceptions of the module carry no data; they are the datatype \<open>oauth_error\<close>.
\<close>

section \<open>Constants and data\<close>

definition GOOGLE_OAUTH_CREDENTIAL_NAMESPACE :: string where
  "GOOGLE_OAUTH_CREDENTIAL_NAMESPACE = ''velox.google.oauth''"

definition GOOGLE_OAUTH_SCOPES :: "string list" where
  "GOOGLE_OAUTH_SCOPES = [''openid'', ''email'', ''https://www.googleapis.com/auth/calendar.events.readonly'']"

definition STORED_GOOGLE_CREDENTIAL_FIELDS :: "string list" where
  "STORED_GOOGLE_CREDENTIAL_FIELDS = [''client_id'', ''client_secret'', ''refresh_token'', ''scopes'']"

definition RELAX_TOKEN_SCOPE_ENV :: string where
  "RELAX_TOKEN_SCOPE_ENV = ''OAUTHLIB_RELAX_TOKEN_SCOPE''"

definition GOOGLE_CANONICAL_SCOPE_ALIASES :: "(string \<times> string) list" where
  "GOOGLE_CANONICAL_SCOPE_ALIASES =
     [(''email'', ''https://www.googleapis.com/auth/userinfo.email''),
      (''profile'', ''https://www.googleapis.com/auth/userinfo.profile'')]"

datatype oauth_error =
    GoogleOAuthBootstrapError
  | GoogleOAuthScopeMismatchError
  | GoogleOAuthAccountMismatchError
  | CredentialStoreFailure exc \<comment> \<open>\<open>CredentialAlreadyExistsError\<close> or \<open>CredentialStoreBackendError\<close>, passed through\<close>

record oauth_connect_request =
  ocr_client_secrets_file :: string
  ocr_account_identifier :: string
  ocr_expected_google_email :: string
  ocr_replace :: bool

record oauth_connect_result =
  ocs_credential_reference :: credential_reference
  ocs_account_identifier :: string
  ocs_verified_google_email :: string
  ocs_scopes :: "string list"

text \<open>The credentials object of the flow: the attribute \<open>granted_scopes\<close>, \<open>PNone\<close> when it is missing, and the four
  attributes \<open>connect\<close> reads, whose access may raise.\<close>

record oauth_fields =
  of_refresh_token :: pyval
  of_id_token :: pyval
  of_client_id :: pyval
  of_client_secret :: pyval

record oauth_credentials =
  oc_granted_scopes :: pyval
  oc_fields :: "oauth_fields result"

section \<open>The installed-app flow\<close>

definition canonical_scope_set :: "string list \<Rightarrow> string set" where
  "canonical_scope_set scopes =
     set (map (\<lambda>s. case dict_get GOOGLE_CANONICAL_SCOPE_ALIASES s of None \<Rightarrow> s | Some c \<Rightarrow> c) scopes)"

text \<open>Iterating over a value that is neither text nor bytes, when it can be iterated.\<close>

definition iterated :: "pyval \<Rightarrow> pyval list option" where
  "iterated v =
     (case v of
        PList xs \<Rightarrow> Some xs
      | PTuple xs \<Rightarrow> Some xs
      | PDict d \<Rightarrow> Some (map (\<lambda>(k, _). PStr k) d)
      | _ \<Rightarrow> None)"

definition nonblank_texts :: "pyval list \<Rightarrow> string list" where
  "nonblank_texts xs = concat (map (\<lambda>x. case x of PStr s \<Rightarrow> if str_blank s then [] else [s] | _ \<Rightarrow> []) xs)"

definition require_approved_grant :: "oauth_credentials \<Rightarrow> string list \<Rightarrow> bool" where
  "require_approved_grant c requested_scopes \<longleftrightarrow>
     (case iterated (oc_granted_scopes c) of
        None \<Rightarrow> False
      | Some granted \<Rightarrow>
          nonblank_texts granted \<noteq> []
          \<and> canonical_scope_set (nonblank_texts granted) = canonical_scope_set requested_scopes)"

text \<open>The process environment and the rest of the world the flow acts on.\<close>

record 'w oauth_host =
  oh_environ :: "(string \<times> string) list"
  oh_world :: 'w

definition restore_variable :: "string option \<Rightarrow> (string \<times> string) list \<Rightarrow> (string \<times> string) list" where
  "restore_variable previous env =
     (case previous of None \<Rightarrow> dict_pop RELAX_TOKEN_SCOPE_ENV env | Some v \<Rightarrow> dict_set RELAX_TOKEN_SCOPE_ENV v env)"

definition relaxed_oauthlib_scope_check ::
  "(('w, 'z) oauth_host_scheme, 'a) prog \<Rightarrow> (('w, 'z) oauth_host_scheme, 'a) prog" where
  "relaxed_oauthlib_scope_check body s =
     (let previous = dict_get (oh_environ s) RELAX_TOKEN_SCOPE_ENV;
          (r, s') = body (oh_environ_update (dict_set RELAX_TOKEN_SCOPE_ENV ''1'') s)
      in (r, oh_environ_update (restore_variable previous) s'))"

text \<open>\<open>from_client_secrets_file\<close> and \<open>run_local_server\<close> with its choice of opening a browser and its prompt.\<close>

record ('s, 'f) installed_app_flow =
  iaf_from_client_secrets_file :: "string \<Rightarrow> string list \<Rightarrow> ('s, 'f) prog"
  iaf_run_local_server :: "'f \<Rightarrow> bool \<Rightarrow> string \<Rightarrow> ('s, oauth_credentials) prog"

definition run_installed_app_flow ::
  "(('w, 'z) oauth_host_scheme, 'f) installed_app_flow \<Rightarrow> string \<Rightarrow> string list \<Rightarrow> bool \<Rightarrow> string
     \<Rightarrow> (('w, 'z) oauth_host_scheme, oauth_error + oauth_credentials) prog" where
  "run_installed_app_flow iaf client_secrets_file scopes open_browser message =
     bnd (iaf_from_client_secrets_file iaf client_secrets_file scopes) (\<lambda>flow.
     bnd (relaxed_oauthlib_scope_check (iaf_run_local_server iaf flow open_browser message)) (\<lambda>credentials.
     ret (if require_approved_grant credentials scopes then Inr credentials else Inl GoogleOAuthScopeMismatchError)))"

type_synonym 's oauth_authorizer = "string \<Rightarrow> string list \<Rightarrow> ('s, oauth_error + oauth_credentials option) prog"

definition installed_app_authorize ::
  "(('w, 'z) oauth_host_scheme, 'f) installed_app_flow \<Rightarrow> ('w, 'z) oauth_host_scheme oauth_authorizer" where
  "installed_app_authorize iaf client_secrets_file scopes =
     bnd (run_installed_app_flow iaf client_secrets_file scopes True '''') (\<lambda>r.
     ret (map_sum id Some r))"

section \<open>Connecting an account\<close>

definition require_non_blank_text :: "pyval \<Rightarrow> string option" where
  "require_non_blank_text v = (case v of PStr s \<Rightarrow> if str_blank s then None else Some s | _ \<Rightarrow> None)"

definition verified_email :: "pydict \<Rightarrow> string option" where
  "verified_email identity =
     (if pd_get identity ''email_verified'' \<noteq> PBool True then None
      else map_option str_strip (require_non_blank_text (pd_get identity ''email'')))"

definition oauth_request_valid :: "oauth_connect_request \<Rightarrow> bool" where
  "oauth_request_valid r \<longleftrightarrow> \<not> str_blank (ocr_client_secrets_file r) \<and> \<not> str_blank (ocr_account_identifier r)
     \<and> \<not> str_blank (ocr_expected_google_email r)"

definition credential_info :: "string \<Rightarrow> string \<Rightarrow> string \<Rightarrow> pydict" where
  "credential_info client_id client_secret refresh_token =
     [(''client_id'', PStr client_id), (''client_secret'', PStr client_secret), (''refresh_token'', PStr refresh_token),
      (''scopes'', PList (map PStr GOOGLE_OAUTH_SCOPES))]"

text \<open>The four texts the flow must have given: refresh token, identity token, client id and secret.\<close>

definition usable_fields :: "oauth_credentials \<Rightarrow> (string \<times> string \<times> string \<times> string) option" where
  "usable_fields c =
     (case oc_fields c of
        Inl e \<Rightarrow> None
      | Inr f \<Rightarrow>
          (case (require_non_blank_text (of_refresh_token f), require_non_blank_text (of_id_token f),
                 require_non_blank_text (of_client_id f), require_non_blank_text (of_client_secret f)) of
             (Some r, Some i, Some c1, Some c2) \<Rightarrow> Some (r, i, c1, c2)
           | _ \<Rightarrow> None))"

text \<open>Running \<open>body\<close> where every exception means \<open>None\<close>.\<close>

definition attempted_value :: "('s, 'a) prog \<Rightarrow> ('s, 'a option) prog" where
  "attempted_value body = try_except (bnd body (\<lambda>x. ret (Some x))) (\<lambda>e. ret None)"

definition store_connection ::
  "'s credential_ops \<Rightarrow> (pydict \<Rightarrow> string) \<Rightarrow> oauth_connect_request \<Rightarrow> string \<Rightarrow> pydict
     \<Rightarrow> ('s, oauth_error + oauth_connect_result) prog" where
  "store_connection ops json_dumps r email info =
     bnd (liftr (mk_credential_reference GOOGLE_OAUTH_CREDENTIAL_NAMESPACE (ocr_account_identifier r))) (\<lambda>reference.
     try_except
       (bnd (liftr (mk_credential_material (json_dumps info))) (\<lambda>material.
        bnd (co_store ops reference material (ocr_replace r)) (\<lambda>_.
        ret (Inr \<lparr>ocs_credential_reference = reference, ocs_account_identifier = ocr_account_identifier r,
                  ocs_verified_google_email = email, ocs_scopes = GOOGLE_OAUTH_SCOPES\<rparr>))))
       (\<lambda>e. ret (Inl (case e of
          CredentialAlreadyExistsError _ \<Rightarrow> CredentialStoreFailure e
        | CredentialStoreBackendError \<Rightarrow> CredentialStoreFailure e
        | _ \<Rightarrow> GoogleOAuthBootstrapError))))"

definition oauth_connect ::
  "'s oauth_authorizer \<Rightarrow> (string \<Rightarrow> string \<Rightarrow> ('s, pydict option) prog) \<Rightarrow> 's credential_ops \<Rightarrow> (pydict \<Rightarrow> string)
     \<Rightarrow> oauth_connect_request \<Rightarrow> ('s, oauth_error + oauth_connect_result) prog" where
  "oauth_connect authorize verify ops json_dumps r =
     (if \<not> oauth_request_valid r then ret (Inl GoogleOAuthBootstrapError)
      else bnd (attempted_value (authorize (ocr_client_secrets_file r) GOOGLE_OAUTH_SCOPES)) (\<lambda>authorized.
      case authorized of
        Some (Inr (Some credentials)) \<Rightarrow>
          (case usable_fields credentials of
             None \<Rightarrow> ret (Inl GoogleOAuthBootstrapError)
           | Some (refresh_token, identity_token, client_id, client_secret) \<Rightarrow>
               bnd (attempted_value (verify identity_token client_id)) (\<lambda>verified.
               case verified of
                 Some (Some identity) \<Rightarrow>
                   (case verified_email identity of
                      None \<Rightarrow> ret (Inl GoogleOAuthBootstrapError)
                    | Some email \<Rightarrow>
                        if str_casefold email \<noteq> str_casefold (str_strip (ocr_expected_google_email r))
                        then ret (Inl GoogleOAuthAccountMismatchError)
                        else store_connection ops json_dumps r email
                               (credential_info client_id client_secret refresh_token))
               | _ \<Rightarrow> ret (Inl GoogleOAuthBootstrapError)))
      | _ \<Rightarrow> ret (Inl GoogleOAuthBootstrapError)))"

section \<open>Stored credentials\<close>

definition credentials_failure ::
  "WorkerExecutionFailureCategory \<Rightarrow> string \<Rightarrow> bool \<Rightarrow> int \<Rightarrow> string \<Rightarrow> pydict \<Rightarrow> google_provider_failure" where
  "credentials_failure category text retryable status_code reason md =
     \<lparr>gpf_category = category, gpf_message = text, gpf_retryable = retryable, gpf_provider_status_code = Some status_code,
      gpf_provider_reason = Some reason, gpf_metadata = md\<rparr>"

definition invalid_routing_identifier :: "string \<Rightarrow> google_provider_failure" where
  "invalid_routing_identifier field_name =
     credentials_failure PERMANENT (''Google credentials request has invalid '' @ field_name) False 400
       ''invalidAccountContext'' [(''field'', PStr field_name)]"

definition valid_routing_identifier :: "string option \<Rightarrow> bool" where
  "valid_routing_identifier v = (case v of None \<Rightarrow> False | Some s \<Rightarrow> \<not> str_blank s \<and> s = str_strip s)"

definition reconnect_required :: "string \<Rightarrow> google_provider_failure" where
  "reconnect_required text = credentials_failure PERMANENT text False 401 ''reconnectRequired'' []"

abbreviation malformed_credentials :: google_provider_failure where
  "malformed_credentials \<equiv> reconnect_required ''Stored Google credentials are invalid; reconnect is required''"

definition parse_credential_material :: "(string \<Rightarrow> pyval option) \<Rightarrow> string \<Rightarrow> pydict option" where
  "parse_credential_material json_loads serialized =
     (case json_loads serialized of
        Some (PDict d) \<Rightarrow>
          if set (map fst d) \<noteq> set STORED_GOOGLE_CREDENTIAL_FIELDS then None
          else (case (require_non_blank_text (pd_get d ''client_id''), require_non_blank_text (pd_get d ''client_secret''),
                      require_non_blank_text (pd_get d ''refresh_token'')) of
              (Some i, Some s, Some r) \<Rightarrow>
                if pd_get d ''scopes'' = PList (map PStr GOOGLE_OAUTH_SCOPES) then Some (credential_info i s r) else None
            | _ \<Rightarrow> None)
      | _ \<Rightarrow> None)"

text \<open>\<open>_safe_expiry\<close>: the expiry in UTC with the suffix \<open>Z\<close>, when it is a \<open>datetime\<close>.\<close>

definition safe_expiry :: "datetime option \<Rightarrow> string option result" where
  "safe_expiry expiry =
     (case expiry of
        None \<Rightarrow> Inr None
      | Some t \<Rightarrow> rbind (to_utc (if is_aware t then t else t\<lparr>dt_offset := Some 0\<rparr>)) (\<lambda>u.
          Inr (Some (isoformat (u\<lparr>dt_offset := None\<rparr>) @ ''Z''))))"

text \<open>The outcome of a refresh: the attributes \<open>token\<close> and \<open>expiry\<close> afterwards, or one of the exceptions of google-auth.
  Any other exception is raised.\<close>

datatype refresh_outcome = Refreshed pyval "datetime option" | TransportError | RefreshError bool

record ('s, 'c) google_auth =
  ga_from_authorized_user_info :: "pydict \<Rightarrow> ('s, 'c option) prog"
  ga_refresh :: "'c \<Rightarrow> ('s, refresh_outcome) prog"

definition refresh_unavailable :: google_provider_failure where
  "refresh_unavailable = credentials_failure TRANSIENT ''Google credential refresh is temporarily unavailable'' True 503
     ''credentialRefreshUnavailable'' []"

definition refreshed_credentials ::
  "string \<Rightarrow> string \<Rightarrow> refresh_outcome \<Rightarrow> (google_provider_failure + google_credentials) result" where
  "refreshed_credentials prin account outcome =
     (case outcome of
        TransportError \<Rightarrow> Inr (Inl refresh_unavailable)
      | RefreshError retryable \<Rightarrow>
          Inr (Inl (if retryable then refresh_unavailable
                    else reconnect_required ''Google credentials are invalid; reconnect is required''))
      | Refreshed token expiry \<Rightarrow>
          (case require_non_blank_text token of
             None \<Rightarrow> Inr (Inl (reconnect_required ''Google credentials are invalid; reconnect is required''))
           | Some access_token \<Rightarrow>
               rbind (safe_expiry expiry) (\<lambda>expires_at.
               Inr (Inr \<lparr>gc_access_token = access_token, gc_principal = prin, gc_account = account,
                         gc_token_type = ''Bearer'', gc_expires_at = expires_at\<rparr>))))"

definition refresh_stored ::
  "('s, 'c) google_auth \<Rightarrow> string \<Rightarrow> string \<Rightarrow> pydict \<Rightarrow> ('s, google_provider_failure + google_credentials) prog" where
  "refresh_stored ga prin account info =
     bnd (attempted_value (ga_from_authorized_user_info ga info)) (\<lambda>reconstructed.
     case reconstructed of
       Some (Some c) \<Rightarrow>
         bnd (attempted_value (ga_refresh ga c)) (\<lambda>outcome.
         case outcome of
           None \<Rightarrow> ret (Inl (credentials_failure INTERNAL ''Google credentials could not be refreshed'' False 500
                               ''internalCredentialsError'' []))
         | Some x \<Rightarrow> liftr (refreshed_credentials prin account x))
     | _ \<Rightarrow> ret (Inl malformed_credentials))"

text \<open>The material of an account, or the failure of the store.\<close>

definition stored_material ::
  "'s credential_ops \<Rightarrow> credential_reference \<Rightarrow> ('s, google_provider_failure + credential_material option) prog" where
  "stored_material ops reference =
     try_except (bnd (co_get ops reference) (\<lambda>m. ret (Inr m)))
       (\<lambda>e. ret (Inl (case e of
          CredentialStoreBackendError \<Rightarrow>
            credentials_failure TRANSIENT ''Google credential store is unavailable'' True 503 ''credentialStoreUnavailable'' []
        | _ \<Rightarrow> credentials_failure INTERNAL ''Google credentials could not be resolved'' False 500
                 ''internalCredentialsError'' [])))"

definition stored_get_credentials ::
  "'s credential_ops \<Rightarrow> (string \<Rightarrow> pyval option) \<Rightarrow> ('s, 'c) google_auth \<Rightarrow> 's credentials_provider" where
  "stored_get_credentials ops json_loads ga prin account =
     (case (prin, account) of
        (Some p, Some a) \<Rightarrow>
          if \<not> valid_routing_identifier prin then ret (Inl (invalid_routing_identifier ''principal''))
          else if \<not> valid_routing_identifier account then ret (Inl (invalid_routing_identifier ''account''))
          else bnd (liftr (mk_credential_reference GOOGLE_OAUTH_CREDENTIAL_NAMESPACE a)) (\<lambda>reference.
               bnd (stored_material ops reference) (\<lambda>found.
               case found of
                 Inl f \<Rightarrow> ret (Inl f)
               | Inr None \<Rightarrow>
                   ret (Inl (reconnect_required ''Google credentials are unavailable; reconnect is required''))
               | Inr (Some material) \<Rightarrow>
                   (case parse_credential_material json_loads (cm_value material) of
                      None \<Rightarrow> ret (Inl malformed_credentials)
                    | Some info \<Rightarrow> refresh_stored ga p a info)))
      | _ \<Rightarrow> ret (Inl (invalid_routing_identifier (if valid_routing_identifier prin then ''account'' else ''principal''))))"

end
