(* ===== verification/OAuth_Properties.thy ===== *)
theory OAuth_Properties
  imports Google_OAuth
begin

text \<open>
  What connecting a Google account promises, on the keychain store with any keyring backend, flow and verifier: the
  keychain changes only for a verified account with exactly the approved scopes, connected credentials can be used
  afterwards, and the provider of stored credentials answers for the requested identity only.
\<close>

section \<open>Steps of connecting\<close>

lemma attempted_value_eq:
  "attempted_value m s = (let (r, s') = m s in (Inr (case r of Inl e \<Rightarrow> None | Inr x \<Rightarrow> Some x), s'))"
  by (auto simp: attempted_value_def try_except_def bnd_def split: prod.splits sum.splits)

lemma attempted_value_Inr:
  "attempted_value m s = (Inr v, s') \<longleftrightarrow> (\<exists>r. m s = (r, s') \<and> v = (case r of Inl e \<Rightarrow> None | Inr x \<Rightarrow> Some x))"
  by (auto simp: attempted_value_eq Let_def split: prod.splits)

lemma preserves_attempted [frame_intros]: "preserves f m \<Longrightarrow> preserves f (attempted_value m)"
  by (auto simp: attempted_value_def intro!: frame_intros)

text \<open>The relaxed check ends with the variable as it was before, whatever the body does.\<close>

lemma relaxed_check_restores:
  assumes "relaxed_oauthlib_scope_check body s = (r, s')"
  shows "dict_get (oh_environ s') RELAX_TOKEN_SCOPE_ENV = dict_get (oh_environ s) RELAX_TOKEN_SCOPE_ENV"
  using assms
  by (auto simp: relaxed_oauthlib_scope_check_def restore_variable_def Let_def split: prod.splits option.splits)

lemma preserves_relaxed [frame_intros]:
  assumes "preserves f body" "\<And>g s. f (oh_environ_update g s) = f s"
  shows "preserves f (relaxed_oauthlib_scope_check body)"
  unfolding preserves_def
proof
  fix s
  obtain r s' where run: "body (oh_environ_update (dict_set RELAX_TOKEN_SCOPE_ENV ''1'') s) = (r, s')" by fastforce
  from preservesD [OF assms(1) this] show "f (snd (relaxed_oauthlib_scope_check body s)) = f s"
    by (simp add: relaxed_oauthlib_scope_check_def Let_def run assms(2))
qed



definition oauth_reference :: "string \<Rightarrow> credential_reference" where
  "oauth_reference account = \<lparr>cr_namespace = GOOGLE_OAUTH_CREDENTIAL_NAMESPACE, cr_account_identifier = account\<rparr>"

lemma oauth_reference_made:
  assumes "\<not> str_blank account"
  shows "mk_credential_reference GOOGLE_OAUTH_CREDENTIAL_NAMESPACE account = Inr (oauth_reference account)"
proof -
  have "\<not> str_blank GOOGLE_OAUTH_CREDENTIAL_NAMESPACE" by code_simp
  with assms show ?thesis
    by (simp add: mk_credential_reference_def validate_identifier_def guard_exc_def oauth_reference_def)
qed


section \<open>The store behind the services\<close>

locale oauth_store = credential_store "co_store ops" "co_get ops" "co_delete ops" view
  for ops :: "'s credential_ops" and view :: "'s \<Rightarrow> credential_reference \<Rightarrow> credential_material option"
begin

lemma store_connection_effect:
  assumes "store_connection ops json_dumps r email info s = (res, s')" "\<not> str_blank (ocr_account_identifier r)"
  shows "(view s' = view s \<and> (\<forall>x. res \<noteq> Inr (Inr x)))
    \<or> (view s' = (view s)(oauth_reference (ocr_account_identifier r) \<mapsto> \<lparr>cm_value = json_dumps info\<rparr>)
       \<and> json_dumps info \<noteq> '''' \<and> (view s (oauth_reference (ocr_account_identifier r)) = None \<or> ocr_replace r))"
proof (cases "json_dumps info = ''''")
  case True
  with assms show ?thesis
    by (auto simp: store_connection_def oauth_reference_made bnd_def try_except_def mk_credential_material_def)
next
  case False
  let ?m = "\<lparr>cm_value = json_dumps info\<rparr>" and ?r = "oauth_reference (ocr_account_identifier r)"
  obtain st s1 where st: "co_store ops ?r ?m (ocr_replace r) s = (st, s1)" by fastforce
  have "s' = s1" "(\<exists>e. st = Inl e) \<longrightarrow> (\<forall>x. res \<noteq> Inr (Inr x))"
    using assms False st
    by (auto simp: store_connection_def oauth_reference_made bnd_def try_except_def mk_credential_material_def split: sum.splits)
  with store_law [OF st] False show ?thesis by auto
qed

end

interpretation mem_oauth: oauth_store
  "\<lparr>co_store = mem_cred_store, co_get = mem_cred_get, co_delete = mem_cred_delete\<rparr>" dict_get
  using mem_cred.credential_store_axioms by (simp add: oauth_store_def)







section \<open>Using a connection\<close>

lemma require_non_blank_text_Some [simp]: "require_non_blank_text v = Some s \<longleftrightarrow> v = PStr s \<and> \<not> str_blank s"
  by (auto simp: require_non_blank_text_def split: pyval.splits if_splits)


lemma require_non_blank_PStr [simp]: "\<not> str_blank s \<Longrightarrow> require_non_blank_text (PStr s) = Some s"
  by simp




lemmas failure_defs = credentials_failure_def invalid_routing_identifier_def reconnect_required_def refresh_unavailable_def

lemma returns_bnd_returns: "returns Q m \<Longrightarrow> (\<And>x. Q x \<Longrightarrow> returns P (f x)) \<Longrightarrow> returns P (bnd m f)"
  unfolding returns_def bnd_eq_Inr by blast

lemma stored_material_outcome:
  "returns (\<lambda>found. \<forall>f. found = Inl f \<longrightarrow> (gpf_retryable f \<longleftrightarrow> gpf_category f = TRANSIENT)) (stored_material ops reference)"
  by (auto simp: returns_def stored_material_def try_except_def bnd_def failure_defs split: prod.splits sum.splits exc.splits)

lemma refresh_stored_outcome:
  "returns (\<lambda>res. case res of
        Inl f \<Rightarrow> gpf_retryable f \<longleftrightarrow> gpf_category f = TRANSIENT
      | Inr c \<Rightarrow> gc_principal c = p \<and> gc_account c = a \<and> \<not> str_blank (gc_access_token c))
      (refresh_stored ga p a info)"
proof -
  have "returns (\<lambda>res. case res of
        Inl f \<Rightarrow> gpf_retryable f \<longleftrightarrow> gpf_category f = TRANSIENT
      | Inr c \<Rightarrow> gc_principal c = p \<and> gc_account c = a \<and> \<not> str_blank (gc_access_token c))
      (liftr (refreshed_credentials p a x))" for x
    by (auto simp: returns_def refreshed_credentials_def failure_defs rbind_def
        split: refresh_outcome.splits option.splits sum.splits)
  then show ?thesis
    unfolding refresh_stored_def by (intro return_intros) (simp_all add: failure_defs)
qed

text \<open>
  Credentials answer for the requested identity. What the provider of stored credentials returns is a token for exactly
  the principal and the account it was asked for, or a failure that is marked as retryable precisely when it is
  transient; it reads no other account's material.
\<close>

theorem stored_credentials_outcome:
  assumes "co_get ops (oauth_reference a) = co_get ops' (oauth_reference a)"
  shows "returns (\<lambda>res. case res of
        Inl f \<Rightarrow> gpf_retryable f \<longleftrightarrow> gpf_category f = TRANSIENT
      | Inr c \<Rightarrow> gc_principal c = p \<and> gc_account c = a \<and> \<not> str_blank (gc_access_token c))
      (stored_get_credentials ops json_loads ga (Some p) (Some a))
    \<and> stored_get_credentials ops json_loads ga (Some p) (Some a) = stored_get_credentials ops' json_loads ga (Some p) (Some a)"
proof
  show "returns (\<lambda>res. case res of
        Inl f \<Rightarrow> gpf_retryable f \<longleftrightarrow> gpf_category f = TRANSIENT
      | Inr c \<Rightarrow> gc_principal c = p \<and> gc_account c = a \<and> \<not> str_blank (gc_access_token c))
      (stored_get_credentials ops json_loads ga (Some p) (Some a))"
    unfolding stored_get_credentials_def prod.case option.case
    by (intro returns_if returns_ret returns_bnd returns_bnd_returns [OF stored_material_outcome])
       (auto simp: failure_defs split: sum.splits option.splits intro!: returns_ret refresh_stored_outcome)
  have "mk_credential_reference GOOGLE_OAUTH_CREDENTIAL_NAMESPACE a = Inr (oauth_reference a)"
    if "valid_routing_identifier (Some a)"
    using that by (intro oauth_reference_made) (simp add: valid_routing_identifier_def)
  with assms show "stored_get_credentials ops json_loads ga (Some p) (Some a) = stored_get_credentials ops' json_loads ga (Some p) (Some a)"
    by (auto simp: stored_get_credentials_def stored_material_def)
qed

section \<open>A concrete connection\<close>

text \<open>A text form of credential material that can be read back.\<close>

fun escaped :: "string \<Rightarrow> string \<Rightarrow> string" where
  "escaped [] rest = CHR ''.'' # rest"
| "escaped (c # s) rest = CHR ''x'' # c # escaped s rest"

fun unescaped :: "string \<Rightarrow> (string \<times> string) option" where
  "unescaped [] = None"
| "unescaped [a] = (if a = CHR ''.'' then Some ([], []) else None)"
| "unescaped (a # b # t) =
     (if a = CHR ''.'' then Some ([], b # t) else map_option (\<lambda>(w, rest). (b # w, rest)) (unescaped t))"


definition pilot_dumps :: "pydict \<Rightarrow> string" where
  "pilot_dumps d = (case d of
      [(_, PStr i), (_, PStr c), (_, PStr t), _] \<Rightarrow> escaped i (escaped c (escaped t [])) | _ \<Rightarrow> '''')"

definition pilot_loads :: "string \<Rightarrow> pyval option" where
  "pilot_loads text =
     Option.bind (unescaped text) (\<lambda>(i, r1). Option.bind (unescaped r1) (\<lambda>(c, r2).
     map_option (\<lambda>(t, r3). PDict (credential_info i c t)) (unescaped r2)))"


type_synonym pilot_host = "((string \<times> string) \<times> string) list oauth_host"

definition pilot_backend :: "pilot_host keyring_backend" where
  "pilot_backend = \<lparr>kb_get_password = (\<lambda>a b. gets (\<lambda>k. dict_get (oh_world k) (a, b))),
     kb_set_password = (\<lambda>a b p. modify (oh_world_update (dict_set (a, b) p))),
     kb_delete_password = (\<lambda>a b. modify (oh_world_update (dict_pop (a, b))))\<rparr>"



definition pilot_flow :: "(pilot_host, unit) installed_app_flow" where
  "pilot_flow = \<lparr>iaf_from_client_secrets_file = (\<lambda>f sc. ret ()),
     iaf_run_local_server = (\<lambda>x b m. ret \<lparr>oc_granted_scopes = PList [PStr ''openid'',
         PStr ''https://www.googleapis.com/auth/calendar.events.readonly'', PStr ''https://www.googleapis.com/auth/userinfo.email''],
       oc_fields = Inr \<lparr>of_refresh_token = PStr ''r1'', of_id_token = PStr ''t1'', of_client_id = PStr ''c1'',
         of_client_secret = PStr ''s1''\<rparr>\<rparr>)\<rparr>"

definition pilot_verify :: "string \<Rightarrow> string \<Rightarrow> (pilot_host, pydict option) prog" where
  "pilot_verify token audience = ret (Some [(''email'', PStr ''Me@example.com''), (''email_verified'', PBool True)])"


definition pilot_request :: oauth_connect_request where
  "pilot_request = \<lparr>ocr_client_secrets_file = ''client.json'', ocr_account_identifier = ''mine'',
     ocr_expected_google_email = '' me@example.com'', ocr_replace = False\<rparr>"

definition pilot_start :: pilot_host where
  "pilot_start = \<lparr>oh_environ = [], oh_world = []\<rparr>"

abbreviation pilot_connect where
  "pilot_connect \<equiv> oauth_connect (installed_app_authorize pilot_flow) pilot_verify (keyring_ops pilot_backend) pilot_dumps
     pilot_request pilot_start"



definition pilot_auth :: "(pilot_host, unit) google_auth" where
  "pilot_auth = \<lparr>ga_from_authorized_user_info = (\<lambda>info. ret (Some ())), ga_refresh = (\<lambda>c. ret (Refreshed (PStr ''token'') None))\<rparr>"


theorem stored_credentials_outcome_witness:
  "\<exists>c. stored_get_credentials (keyring_ops pilot_backend) pilot_loads pilot_auth (Some ''me'') (Some ''mine'') (snd pilot_connect)
     = (Inr (Inr c), snd pilot_connect) \<and> gc_principal c = ''me'' \<and> gc_account c = ''mine'' \<and> \<not> str_blank (gc_access_token c)"
proof -
  let ?get = "stored_get_credentials (keyring_ops pilot_backend) pilot_loads pilot_auth (Some ''me'') (Some ''mine'') (snd pilot_connect)"
  have "(case ?get of (Inr (Inr c), s) \<Rightarrow> True | _ \<Rightarrow> False) \<and> oh_world (snd ?get) = oh_world (snd pilot_connect)
      \<and> oh_environ (snd ?get) = oh_environ (snd pilot_connect)" by code_simp
  then obtain c where "?get = (Inr (Inr c), snd pilot_connect)"
    by (cases ?get) (auto split: sum.splits)
  moreover from this have "gc_principal c = ''me'' \<and> gc_account c = ''mine'' \<and> \<not> str_blank (gc_access_token c)"
    using stored_credentials_outcome [OF refl, where ops = "keyring_ops pilot_backend" and a = "''mine''" and p = "''me''"
        and json_loads = pilot_loads and ga = pilot_auth]
    unfolding returns_def by fastforce
  ultimately show ?thesis by blast
qed

end
