(* ===== verification/Gmail.thy ===== *)
theory Gmail
  imports Google_Provider Py_Values
begin

text \<open>
  \<open>integrations/gmail.py\<close>: the Gmail executor with its deterministic capabilities behind the provider boundary. The
  world of the capabilities is any state that has the list of sent messages. \<open>str(value)\<close> of numbers with a fraction
  and of containers is the parameter \<open>py_repr\<close>.
\<close>

section \<open>Capabilities\<close>

definition GMAIL_EXECUTOR_ROLE :: ExecutorRole where
  "GMAIL_EXECUTOR_ROLE = CONTENT_SUMMARY"

definition gmail_capability :: "string \<Rightarrow> worker_capability" where
  "gmail_capability identifier =
     \<lparr>wc_identifier = identifier, wc_role = role_value GMAIL_EXECUTOR_ROLE, wc_provider = ''gmail''\<rparr>"

abbreviation GMAIL_READ :: string where "GMAIL_READ \<equiv> ''gmail.read''"

abbreviation GMAIL_SEND :: string where "GMAIL_SEND \<equiv> ''gmail.send''"

abbreviation GMAIL_ARCHIVE :: string where "GMAIL_ARCHIVE \<equiv> ''gmail.archive''"

definition GMAIL_WORKER_CAPABILITIES :: "worker_capability list" where
  "GMAIL_WORKER_CAPABILITIES = map gmail_capability [''summarize_email'', GMAIL_READ, GMAIL_SEND, GMAIL_ARCHIVE]"

definition GMAIL_ACCOUNT_CONTEXT :: worker_account_context where
  "GMAIL_ACCOUNT_CONTEXT = \<lparr>wac_principal = Some ''velox-local-principal'', wac_account_identifier = ''gmail-local-account''\<rparr>"

definition GMAIL_CAPABILITY_ALIASES :: "(string \<times> string) list" where
  "GMAIL_CAPABILITY_ALIASES = [(''read'', GMAIL_READ), (''send'', GMAIL_SEND), (''archive'', GMAIL_ARCHIVE)]"

record gmail_capability_result =
  gcr_status :: WorkerExecutionStatus
  gcr_reason :: "string option"
  gcr_metadata :: pydict

record gmail_read_message =
  grm_message_id :: string
  grm_subject :: string
  grm_sender :: string
  grm_body :: string
  grm_labels :: "string list"

record gmail_send_request =
  gsr_to :: "string list"
  gsr_subject :: string
  gsr_body :: string
  gsr_cc :: "string list"
  gsr_bcc :: "string list"
  gsr_thread_id :: "string option"

record gmail_sent_message = gmail_send_request +
  gsm_sent_message_id :: string

record 'w gmail_capabilities =
  gcap_read :: "string \<Rightarrow> ('w, gmail_capability_result) prog"
  gcap_send :: "gmail_send_request \<Rightarrow> ('w, gmail_capability_result) prog"
  gcap_archive :: "string \<Rightarrow> ('w, gmail_capability_result) prog"

section \<open>The deterministic capabilities\<close>

definition gmail_base_metadata :: "string \<Rightarrow> pydict" where
  "gmail_base_metadata capability =
     [(''external_execution_performed'', PBool False), (''integration'', PStr ''gmail''), (''capability'', PStr capability)]"

definition default_gmail_messages :: "(string \<times> gmail_read_message) list" where
  "default_gmail_messages =
     [(''gmail-message-1'', \<lparr>grm_message_id = ''gmail-message-1'', grm_subject = ''Sprint 1 status'',
        grm_sender = ''sender@example.com'', grm_body = ''Deterministic in-memory Gmail read result.'',
        grm_labels = [''INBOX'']\<rparr>)]"

definition texts :: "string list \<Rightarrow> pyval" where
  "texts xs = PTuple (map PStr xs)"

definition mem_gmail_read ::
  "(string \<times> gmail_read_message) list \<Rightarrow> string \<Rightarrow> ('w, gmail_capability_result) prog" where
  "mem_gmail_read messages message_id =
     (let found = dict_get (if messages = [] then default_gmail_messages else messages) message_id in
      ret \<lparr>gcr_status = WSUCCEEDED, gcr_reason = Some ''gmail read capability in-memory result'',
           gcr_metadata = gmail_base_metadata ''read''
             @ [(''adapter'', PStr ''in_memory''), (''message_id'', PStr message_id), (''found'', PBool (found \<noteq> None))]
             @ (case found of
                  None \<Rightarrow> []
                | Some m \<Rightarrow> [(''message'', PDict [(''message_id'', PStr (grm_message_id m)), (''subject'', PStr (grm_subject m)),
                    (''sender'', PStr (grm_sender m)), (''body'', PStr (grm_body m)), (''labels'', texts (grm_labels m))])])\<rparr>)"

record gmail_world =
  sent_messages :: "gmail_sent_message list"

definition sent_message_of :: "gmail_send_request \<Rightarrow> gmail_sent_message" where
  "sent_message_of r = gmail_send_request.extend r \<lparr>gsm_sent_message_id = ''gmail-fake-sent-message-1''\<rparr>"

definition sent_message_dict :: "gmail_sent_message \<Rightarrow> pyval" where
  "sent_message_dict m =
     PDict [(''sent_message_id'', PStr (gsm_sent_message_id m)), (''to'', texts (gsr_to m)), (''subject'', PStr (gsr_subject m)),
            (''body'', PStr (gsr_body m)), (''cc'', texts (gsr_cc m)), (''bcc'', texts (gsr_bcc m)),
            (''thread_id'', opt_str (gsr_thread_id m))]"

definition mem_gmail_send :: "gmail_send_request \<Rightarrow> ('z gmail_world_scheme, gmail_capability_result) prog" where
  "mem_gmail_send r =
     bnd (modify (sent_messages_update (\<lambda>ms. ms @ [sent_message_of r]))) (\<lambda>_.
     ret \<lparr>gcr_status = WSUCCEEDED, gcr_reason = Some ''gmail send capability in-memory result'',
          gcr_metadata = gmail_base_metadata ''send'' @ [(''adapter'', PStr ''in_memory''),
            (''sent_message'', sent_message_dict (sent_message_of r))]\<rparr>)"

definition mem_gmail_archive :: "string \<Rightarrow> ('w, gmail_capability_result) prog" where
  "mem_gmail_archive requested =
     (let message_id = str_strip requested; archived = (message_id = ''gmail-message-1'') in
      ret \<lparr>gcr_status = WSUCCEEDED, gcr_reason = Some ''gmail archive capability in-memory result'',
           gcr_metadata = gmail_base_metadata ''archive'' @ [(''adapter'', PStr ''in_memory''),
             (''message_id'', PStr message_id), (''archived'', PBool archived), (''found'', PBool archived)]\<rparr>)"

definition mem_gmail_capabilities :: "'z gmail_world_scheme gmail_capabilities" where
  "mem_gmail_capabilities = \<lparr>gcap_read = mem_gmail_read [], gcap_send = mem_gmail_send, gcap_archive = mem_gmail_archive\<rparr>"

definition fake_gmail_composition ::
  "(string \<times> google_provider_response) list \<Rightarrow> (string \<times> google_provider_failure) list
     \<Rightarrow> (string \<times> google_provider_failure) list \<Rightarrow> 'w provider_composition" where
  "fake_gmail_composition responses failures credential_failures =
     \<lparr>gp_service = ''gmail'', gp_credentials = fake_get_credentials ''gmail'' credential_failures,
      gp_transport = fake_transport_execute ''gmail'' responses failures
        (\<lambda>r c. Inr (google_default_response ''gmail'' r c))\<rparr>"

section \<open>The executor\<close>

text \<open>\<open>str(value or "").strip()\<close>.\<close>

definition stripped_text :: "(pyval \<Rightarrow> string) \<Rightarrow> pyval \<Rightarrow> string" where
  "stripped_text py_repr v = str_strip (if truthy v then py_str py_repr v else '''')"

definition normalize_recipients :: "(pyval \<Rightarrow> string) \<Rightarrow> pyval \<Rightarrow> string list" where
  "normalize_recipients py_repr v =
     (let several = (\<lambda>xs. filter (\<lambda>s. s \<noteq> '''') (map (\<lambda>x. str_strip (py_str py_repr x)) xs)) in
      case v of
        PStr s \<Rightarrow> if str_blank s then [] else [str_strip s]
      | PList xs \<Rightarrow> several xs
      | PTuple xs \<Rightarrow> several xs
      | _ \<Rightarrow> [])"

definition gmail_capability_for_action :: "action \<Rightarrow> string" where
  "gmail_capability_for_action a =
     (case pd_get (act_payload a) ''capability'' of
        PStr s \<Rightarrow> if str_blank s then act_type a else str_strip s
      | _ \<Rightarrow> act_type a)"

definition gmail_normalized_capability :: "string \<Rightarrow> string" where
  "gmail_normalized_capability capability =
     (let normalized = str_casefold (str_strip capability) in
      case dict_get GMAIL_CAPABILITY_ALIASES normalized of None \<Rightarrow> normalized | Some c \<Rightarrow> c)"

definition gmail_capability_failure_result :: "action \<Rightarrow> string \<Rightarrow> string \<Rightarrow> string \<Rightarrow> worker_execution_result" where
  "gmail_capability_failure_result a capability reason field_name =
     \<lparr>wer_action = a, wer_status = WFAILED, wer_reason = Some reason, wer_metadata = gmail_base_metadata capability,
      wer_failure = Some \<lparr>wef_category = PERMANENT, wef_message = Some reason,
        wef_metadata = [(''field'', PStr field_name)]\<rparr>\<rparr>"

definition gmail_capability_result_of :: "action \<Rightarrow> gmail_capability_result \<Rightarrow> worker_execution_result" where
  "gmail_capability_result_of a cr =
     \<lparr>wer_action = a, wer_status = gcr_status cr, wer_reason = gcr_reason cr, wer_metadata = gcr_metadata cr,
      wer_failure = None\<rparr>"

definition gmail_execute_read ::
  "(pyval \<Rightarrow> string) \<Rightarrow> 'w gmail_capabilities \<Rightarrow> action \<Rightarrow> ('w, worker_execution_result) prog" where
  "gmail_execute_read py_repr caps a =
     (let message_id = stripped_text py_repr (pd_get (act_payload a) ''message_id'') in
      if message_id = ''''
      then ret (gmail_capability_failure_result a ''read'' ''gmail read request missing message_id'' ''message_id'')
      else bnd (gcap_read caps message_id) (\<lambda>cr. ret (gmail_capability_result_of a cr)))"

definition gmail_execute_archive ::
  "(pyval \<Rightarrow> string) \<Rightarrow> 'w gmail_capabilities \<Rightarrow> action \<Rightarrow> ('w, worker_execution_result) prog" where
  "gmail_execute_archive py_repr caps a =
     (let message_id = stripped_text py_repr (pd_get (act_payload a) ''message_id'') in
      if message_id = ''''
      then ret (gmail_capability_failure_result a ''archive'' ''gmail archive request missing message_id'' ''message_id'')
      else bnd (gcap_archive caps message_id) (\<lambda>cr. ret (gmail_capability_result_of a cr)))"

definition gmail_send_request_of :: "(pyval \<Rightarrow> string) \<Rightarrow> pydict \<Rightarrow> gmail_send_request" where
  "gmail_send_request_of py_repr p =
     \<lparr>gsr_to = normalize_recipients py_repr (pd_get p ''to''), gsr_subject = stripped_text py_repr (pd_get p ''subject''),
      gsr_body = stripped_text py_repr (pd_get p ''body''), gsr_cc = normalize_recipients py_repr (pd_get p ''cc''),
      gsr_bcc = normalize_recipients py_repr (pd_get p ''bcc''),
      gsr_thread_id = (if pd_get p ''thread_id'' = PNone then None
                       else Some (str_strip (py_str py_repr (pd_get p ''thread_id''))))\<rparr>"

definition missing_fields :: "gmail_send_request \<Rightarrow> string list" where
  "missing_fields r =
     (if gsr_to r = [] then [''to''] else []) @ (if gsr_subject r = '''' then [''subject''] else [])
     @ (if gsr_body r = '''' then [''body''] else [])"

definition gmail_execute_send ::
  "(pyval \<Rightarrow> string) \<Rightarrow> 'w gmail_capabilities \<Rightarrow> action \<Rightarrow> ('w, worker_execution_result) prog" where
  "gmail_execute_send py_repr caps a =
     (let r = gmail_send_request_of py_repr (act_payload a) in
      if missing_fields r \<noteq> []
      then ret (gmail_capability_failure_result a ''send'' ''gmail send request missing required fields''
                  (str_join '','' (missing_fields r)))
      else bnd (gcap_send caps r) (\<lambda>cr. ret (gmail_capability_result_of a cr)))"

definition gmail_provider_request ::
  "(pyval \<Rightarrow> string) \<Rightarrow> action \<Rightarrow> string \<Rightarrow> worker_account_context \<Rightarrow> google_provider_request" where
  "gmail_provider_request py_repr a capability ctx =
     (let p = act_payload a;
          message_id = stripped_text py_repr (pd_get p ''message_id'');
          sent = gmail_send_request_of py_repr p;
          messages = ''/gmail/v1/users/me/messages/'' in
      if capability = GMAIL_READ
      then \<lparr>gpr_operation = ''read'', gpr_path = messages @ message_id, gpr_method = ''GET'', gpr_body = None,
            gpr_query = [], gpr_account_context = Some ctx\<rparr>
      else if capability = GMAIL_SEND
      then \<lparr>gpr_operation = ''send'', gpr_path = messages @ ''send'', gpr_method = ''POST'',
            gpr_body = Some [(''to'', texts (gsr_to sent)), (''subject'', PStr (gsr_subject sent)),
              (''body'', PStr (gsr_body sent)), (''cc'', texts (gsr_cc sent)), (''bcc'', texts (gsr_bcc sent)),
              (''thread_id'', pd_get p ''thread_id'')],
            gpr_query = [], gpr_account_context = Some ctx\<rparr>
      else \<lparr>gpr_operation = ''archive'', gpr_path = messages @ message_id @ ''/modify'', gpr_method = ''POST'',
            gpr_body = Some [(''remove_label_ids'', texts [''INBOX''])], gpr_query = [], gpr_account_context = Some ctx\<rparr>)"

definition gmail_provider_request_metadata :: "google_provider_request \<Rightarrow> pyval" where
  "gmail_provider_request_metadata r =
     PDict [(''operation'', PStr (gpr_operation r)), (''path'', PStr (gpr_path r)), (''method'', PStr (gpr_method r)),
            (''body'', case gpr_body r of None \<Rightarrow> PNone | Some d \<Rightarrow> PDict d), (''query'', PDict (gpr_query r)),
            (''account_context'', account_metadata (gpr_account_context r))]"

definition gmail_provider_failure_result ::
  "action \<Rightarrow> google_provider_request \<Rightarrow> google_provider_response \<Rightarrow> google_provider_failure \<Rightarrow> worker_execution_result" where
  "gmail_provider_failure_result a r response f =
     \<lparr>wer_action = a, wer_status = WFAILED, wer_reason = Some (gpf_message f),
      wer_metadata = gmail_base_metadata (gpr_operation r)
        @ [(''account_context_used'', account_metadata (gpr_account_context r)),
           (''provider_request'', gmail_provider_request_metadata r), (''provider_response'', PDict (gpp_body response))],
      wer_failure = Some \<lparr>wef_category = gpf_category f, wef_message = Some (gpf_message f),
        wef_metadata = dict_merge (gpf_metadata f)
          [(''provider_status_code'', PInt (gpp_status_code response)),
           (''provider_reason'', opt_str (gpf_provider_reason f)), (''retryable'', PBool (gpf_retryable f))]\<rparr>\<rparr>"

definition gmail_through_provider ::
  "(pyval \<Rightarrow> string) \<Rightarrow> 'w provider_composition \<Rightarrow> action \<Rightarrow> string \<Rightarrow> worker_account_context \<Rightarrow> worker_execution_result
     \<Rightarrow> ('w, worker_execution_result) prog" where
  "gmail_through_provider py_repr gp a capability ctx cr =
     (let r = gmail_provider_request py_repr a capability ctx in
      bnd (provider_execute gp r None None) (\<lambda>response.
      ret (case gpp_failure response of
          Some f \<Rightarrow> gmail_provider_failure_result a r response f
        | None \<Rightarrow>
            \<lparr>wer_action = a, wer_status = wer_status cr, wer_reason = wer_reason cr,
             wer_metadata = dict_merge (wer_metadata cr)
               [(''account_context_used'', as_metadata ctx), (''provider_request'', gmail_provider_request_metadata r),
                (''provider_response'', PDict (gpp_body response))],
             wer_failure = None\<rparr>)))"

definition gmail_skipped :: "action \<Rightarrow> worker_execution_result" where
  "gmail_skipped a =
     \<lparr>wer_action = a, wer_status = WSKIPPED, wer_reason = Some ''gmail executor has no capability for this action type'',
      wer_metadata = [(''external_execution_performed'', PBool False), (''integration'', PStr ''gmail''),
        (''placeholder'', PBool True), (''skipped'', PBool True)],
      wer_failure = None\<rparr>"

definition gmail_execute ::
  "(pyval \<Rightarrow> string) \<Rightarrow> 'w gmail_capabilities \<Rightarrow> 'w provider_composition \<Rightarrow> action \<Rightarrow> string option
     \<Rightarrow> worker_account_context option \<Rightarrow> ('w, worker_execution_result) prog" where
  "gmail_execute py_repr caps gp a capability ctx =
     (let resolved = gmail_normalized_capability
            (case capability of None \<Rightarrow> gmail_capability_for_action a
             | Some c \<Rightarrow> if c = '''' then gmail_capability_for_action a else c) in
      if resolved \<notin> {GMAIL_READ, GMAIL_SEND, GMAIL_ARCHIVE} then ret (gmail_skipped a)
      else bnd ((if resolved = GMAIL_READ then gmail_execute_read
                 else if resolved = GMAIL_SEND then gmail_execute_send else gmail_execute_archive) py_repr caps a) (\<lambda>cr.
        case ctx of
          None \<Rightarrow> ret cr
        | Some account_context \<Rightarrow>
            if wer_status cr \<noteq> WSUCCEEDED then ret cr
            else gmail_through_provider py_repr gp a resolved account_context cr))"

definition gmail_manifest :: "'x \<Rightarrow> 'x provider_manifest" where
  "gmail_manifest x = \<lparr>pm_capabilities = GMAIL_WORKER_CAPABILITIES, pm_executor = x, pm_account_context = Some GMAIL_ACCOUNT_CONTEXT\<rparr>"

end
