(* ===== verification/Gmail_Properties.thy ===== *)
theory Gmail_Properties
  imports Gmail Samples
begin

text \<open>
  The Gmail executor on its deterministic capabilities, behind any provider: which messages are sent, and that an
  incomplete request reaches neither a capability nor the provider.
\<close>

section \<open>One execution\<close>

definition gmail_resolved :: "action \<Rightarrow> string option \<Rightarrow> string" where
  "gmail_resolved a capability = gmail_normalized_capability
     (case capability of None \<Rightarrow> gmail_capability_for_action a
      | Some c \<Rightarrow> if c = '''' then gmail_capability_for_action a else c)"

text \<open>The fields a request of a capability must have.\<close>

definition gmail_complete :: "(pyval \<Rightarrow> string) \<Rightarrow> action \<Rightarrow> string \<Rightarrow> bool" where
  "gmail_complete py_repr a resolved \<longleftrightarrow>
     (if resolved = GMAIL_SEND then missing_fields (gmail_send_request_of py_repr (act_payload a)) = []
      else stripped_text py_repr (pd_get (act_payload a) ''message_id'') \<noteq> '''')"

lemma gmail_incomplete_refused:
  assumes "gmail_resolved a capability \<in> {GMAIL_READ, GMAIL_SEND, GMAIL_ARCHIVE}"
    and "\<not> gmail_complete py_repr a (gmail_resolved a capability)"
  shows "\<exists>r f. (\<forall>w. gmail_execute py_repr caps gp a capability ctx w = (Inr r, w)) \<and> wer_status r = WFAILED
    \<and> wer_failure r = Some f \<and> wef_category f = PERMANENT"
  using assms
  by (cases ctx)
     (auto simp: gmail_execute_def gmail_resolved_def [symmetric] gmail_complete_def gmail_execute_read_def gmail_execute_send_def
        gmail_execute_archive_def gmail_capability_failure_result_def bnd_def Let_def)

text \<open>The messages one execution sends: one when it is a complete send request, otherwise none.\<close>

definition sent_by :: "(pyval \<Rightarrow> string) \<Rightarrow> action \<Rightarrow> string option \<Rightarrow> gmail_sent_message list" where
  "sent_by py_repr a capability =
     (if gmail_resolved a capability = GMAIL_SEND \<and> gmail_complete py_repr a GMAIL_SEND
      then [sent_message_of (gmail_send_request_of py_repr (act_payload a))] else [])"

lemma sent_by_capability:
  assumes "(if resolved = GMAIL_READ then gmail_execute_read else if resolved = GMAIL_SEND then gmail_execute_send
      else gmail_execute_archive) py_repr mem_gmail_capabilities a w = (r, w')"
  shows "sent_messages w' = sent_messages w
    @ (if resolved = GMAIL_SEND \<and> gmail_complete py_repr a GMAIL_SEND
       then [sent_message_of (gmail_send_request_of py_repr (act_payload a))] else [])"
  using assms
  by (auto simp: gmail_execute_read_def gmail_execute_send_def gmail_execute_archive_def mem_gmail_capabilities_def
      mem_gmail_read_def mem_gmail_send_def mem_gmail_archive_def gmail_complete_def bnd_def Let_def split: if_splits)

lemma gmail_execute_sent:
  assumes "\<And>req p acc. preserves sent_messages (provider_execute gp req p acc)"
  shows "sent_messages (snd (gmail_execute py_repr mem_gmail_capabilities gp a capability ctx w)) = sent_messages w @ sent_by py_repr a capability"
proof -
  let ?c = "gmail_resolved a capability"
  obtain cr w1 where c: "(if ?c = GMAIL_READ then gmail_execute_read else if ?c = GMAIL_SEND then gmail_execute_send
      else gmail_execute_archive) py_repr mem_gmail_capabilities a w = (cr, w1)" by fastforce
  have through: "preserves sent_messages (gmail_through_provider py_repr gp a ?c ctx' x)" for ctx' x
    unfolding gmail_through_provider_def Let_def by (intro frame_intros assms)
  have rest: "sent_messages (snd (gmail_execute py_repr mem_gmail_capabilities gp a capability ctx w)) =
      (if ?c \<in> {GMAIL_READ, GMAIL_SEND, GMAIL_ARCHIVE} then sent_messages w1 else sent_messages w)"
    using c through
    by (auto simp: gmail_execute_def gmail_resolved_def [symmetric] Let_def bnd_def preserves_def split: sum.splits option.splits)
  show ?thesis
    using sent_by_capability [OF c] unfolding rest sent_by_def by auto
qed

section \<open>The outbox\<close>

type_synonym gmail_call = "action \<times> string option \<times> worker_account_context option"

fun gmail_step ::
  "(pyval \<Rightarrow> string) \<Rightarrow> 'z gmail_world_scheme provider_composition \<Rightarrow> gmail_call \<Rightarrow> 'z gmail_world_scheme \<Rightarrow> 'z gmail_world_scheme" where
  "gmail_step py_repr gp (a, capability, ctx) w =
     snd (gmail_execute py_repr mem_gmail_capabilities gp a capability ctx w)"

text \<open>
  The outbox. Over any sequence of executions, with any provider that leaves the outbox alone, the messages sent are
  exactly those of the send requests that name a recipient, a subject and a body, one each and in order, with the
  recipients, subject and body of the action; reads, archives, other capabilities and incomplete requests send
  nothing. What the provider answers plays no part: a message counts as sent before the provider is asked.
\<close>

theorem gmail_outbox:
  assumes "\<And>req p acc. preserves sent_messages (provider_execute gp req p acc)"
  shows "sent_messages (fold (gmail_step py_repr gp) calls w)
    = sent_messages w @ concat (map (\<lambda>(a, capability, ctx). sent_by py_repr a capability) calls)"
proof (induction calls arbitrary: w)
  case (Cons call calls)
  then show ?case by (cases call) (simp add: gmail_execute_sent [OF assms])
qed simp

definition mail_action :: "string \<Rightarrow> action" where
  "mail_action to = safe_action\<lparr>act_type := ''gmail.send'', act_payload :=
     [(''to'', PStr to), (''subject'', PStr ''Hello''), (''body'', PStr ''Text'')]\<rparr>"

theorem gmail_outbox_witness:
  "map gsr_to (sent_messages (fold (gmail_step (\<lambda>_. '''') (fake_gmail_composition [] [] []))
      [(mail_action ''you'', None, Some GMAIL_ACCOUNT_CONTEXT), (mail_action '' '', None, None)] \<lparr>sent_messages = []\<rparr>)) = [[''you'']]"
proof -
  have keeps: "preserves (sent_messages :: gmail_world \<Rightarrow> _) (provider_execute (fake_gmail_composition [] [] []) req p acc)" for req p acc
    by (auto simp: provider_execute_def fake_gmail_composition_def fake_get_credentials_def fake_transport_execute_def Let_def
        split: option.splits intro!: frame_intros)
  have strs: "\<not> str_blank ''you''" "str_blank '' ''" "str_strip ''you'' = ''you''" "str_strip ''Hello'' = ''Hello''"
    "str_strip ''Text'' = ''Text''" "str_strip '' '' = ''''" "gmail_normalized_capability ''gmail.send'' = ''gmail.send''"
    by code_simp+
  have resolved: "gmail_resolved (mail_action to) None = GMAIL_SEND" for to
    by (simp add: gmail_resolved_def gmail_capability_for_action_def mail_action_def pd_get_def strs)
  have request: "gmail_send_request_of (\<lambda>_. '''') (act_payload (mail_action to)) = \<lparr>gsr_to = normalize_recipients (\<lambda>_. '''') (PStr to),
      gsr_subject = ''Hello'', gsr_body = ''Text'', gsr_cc = [], gsr_bcc = [], gsr_thread_id = None\<rparr>" for to
    by (simp add: gmail_send_request_of_def mail_action_def pd_get_def stripped_text_def normalize_recipients_def strs)
  have "sent_by (\<lambda>_. '''') (mail_action ''you'') None = [sent_message_of (gmail_send_request_of (\<lambda>_. '''') (act_payload (mail_action ''you'')))]"
    "sent_by (\<lambda>_. '''') (mail_action '' '') None = []"
    "gsr_to (sent_message_of (gmail_send_request_of (\<lambda>_. '''') (act_payload (mail_action ''you'')))) = [''you'']"
    by (simp_all add: sent_by_def resolved gmail_complete_def request missing_fields_def normalize_recipients_def strs
        sent_message_of_def gmail_send_request.extend_def)
  then show ?thesis
    using gmail_outbox [OF keeps, of "\<lambda>_. ''''" "[(mail_action ''you'', None, Some GMAIL_ACCOUNT_CONTEXT), (mail_action '' '', None, None)]"
        "\<lparr>sent_messages = []\<rparr>"] by simp
qed

end
