(* ===== verification/Calendar_Sync.thy ===== *)
theory Calendar_Sync
  imports Calendar_Listing Events Google_OAuth
begin

text \<open>
  \<open>integrations/calendar_manual_sync.py\<close>: one event is read from the calendar provider, checked against an allow list
  and ingested as an event of the server. The provider acts on the execution world of the server state, the
  ingress on its stores. The command line writes one JSON object; its text is the parameter \<open>json_dumps\<close>.
\<close>

section \<open>Failures\<close>

datatype ManualCalendarSyncFailureCode =
    INVALID_INPUT | RECONNECT_REQUIRED | CREDENTIAL_REFRESH_FAILURE | TRANSPORT_FAILURE | EVENT_NOT_FOUND
  | PROVIDER_PERMANENT_FAILURE | PROVIDER_TRANSIENT_FAILURE | PROVIDER_INTERNAL_FAILURE | MALFORMED_PROVIDER_EVENT
  | DUPLICATE_EVENT | INGRESS_WORKFLOW_FAILURE

fun sync_code_value :: "ManualCalendarSyncFailureCode \<Rightarrow> string" where
  "sync_code_value INVALID_INPUT = ''invalid_input''"
| "sync_code_value RECONNECT_REQUIRED = ''reconnect_required''"
| "sync_code_value CREDENTIAL_REFRESH_FAILURE = ''credential_refresh_failure''"
| "sync_code_value TRANSPORT_FAILURE = ''transport_failure''"
| "sync_code_value EVENT_NOT_FOUND = ''event_not_found''"
| "sync_code_value PROVIDER_PERMANENT_FAILURE = ''provider_permanent_failure''"
| "sync_code_value PROVIDER_TRANSIENT_FAILURE = ''provider_transient_failure''"
| "sync_code_value PROVIDER_INTERNAL_FAILURE = ''provider_internal_failure''"
| "sync_code_value MALFORMED_PROVIDER_EVENT = ''malformed_provider_event''"
| "sync_code_value DUPLICATE_EVENT = ''duplicate_event''"
| "sync_code_value INGRESS_WORKFLOW_FAILURE = ''ingress_workflow_failure''"

fun sync_failure_message :: "ManualCalendarSyncFailureCode \<Rightarrow> string" where
  "sync_failure_message INVALID_INPUT = ''manual sync input is invalid''"
| "sync_failure_message RECONNECT_REQUIRED = ''Google credentials are unavailable or invalid; reconnect is required''"
| "sync_failure_message CREDENTIAL_REFRESH_FAILURE = ''Google credential refresh is temporarily unavailable''"
| "sync_failure_message TRANSPORT_FAILURE = ''Google Calendar transport is unavailable''"
| "sync_failure_message EVENT_NOT_FOUND = ''Google Calendar event was not found''"
| "sync_failure_message PROVIDER_PERMANENT_FAILURE = ''Google Calendar rejected the manual sync request''"
| "sync_failure_message PROVIDER_TRANSIENT_FAILURE = ''Google Calendar is temporarily unavailable''"
| "sync_failure_message PROVIDER_INTERNAL_FAILURE = ''Google Calendar provider execution failed safely''"
| "sync_failure_message MALFORMED_PROVIDER_EVENT = ''Google Calendar returned invalid event data''"
| "sync_failure_message DUPLICATE_EVENT = ''the Calendar event conflicts with an existing VELOX event''"
| "sync_failure_message INGRESS_WORKFLOW_FAILURE = ''Calendar ingress or workflow processing failed''"

record manual_sync_error =
  mse_code :: ManualCalendarSyncFailureCode
  mse_category :: "WorkerExecutionFailureCategory option"
  mse_field :: "string option"
  mse_external_execution_performed :: bool

definition sync_error :: "ManualCalendarSyncFailureCode \<Rightarrow> bool \<Rightarrow> manual_sync_error" where
  "sync_error code performed = \<lparr>mse_code = code, mse_category = None, mse_field = None, mse_external_execution_performed = performed\<rparr>"

definition manual_sync_error_dict :: "manual_sync_error \<Rightarrow> pydict" where
  "manual_sync_error_dict e =
     [(''status'', PStr ''failed''), (''failure_code'', PStr (sync_code_value (mse_code e))),
      (''message'', PStr (sync_failure_message (mse_code e))),
      (''external_execution_performed'', PBool (mse_external_execution_performed e))]
     @ (case mse_category e of None \<Rightarrow> [] | Some c \<Rightarrow> [(''failure_category'', PStr (failure_category_value c))])
     @ (case mse_field e of None \<Rightarrow> [] | Some f \<Rightarrow> [(''field'', PStr f)])"

section \<open>Requests and results\<close>

record manual_sync_request =
  msr_principal :: string
  msr_account_identifier :: string
  msr_event_id :: string

definition invalid_sync_input :: "string \<Rightarrow> manual_sync_error" where
  "invalid_sync_input field_name =
     \<lparr>mse_code = INVALID_INPUT, mse_category = None, mse_field = Some field_name, mse_external_execution_performed = False\<rparr>"

definition mk_manual_sync_request :: "string \<Rightarrow> string \<Rightarrow> string \<Rightarrow> manual_sync_error + manual_sync_request" where
  "mk_manual_sync_request prin account_identifier event_id =
     (case find_first (\<lambda>(field_name, v). str_blank v \<or> v \<noteq> str_strip v)
             [(''principal'', prin), (''account_identifier'', account_identifier), (''event_id'', event_id)] of
        Some (field_name, v) \<Rightarrow> Inl (invalid_sync_input field_name)
      | None \<Rightarrow> Inr \<lparr>msr_principal = prin, msr_account_identifier = account_identifier, msr_event_id = event_id\<rparr>)"

record manual_sync_result =
  msx_google_calendar_event_id :: string
  msx_universal_event_id :: string
  msx_acceptance_outcome :: string
  msx_processing_outcome :: string
  msx_provider :: string
  msx_principal :: string
  msx_account_identifier :: string
  msx_external_execution_performed :: bool

definition manual_sync_result_dict :: "manual_sync_result \<Rightarrow> pydict" where
  "manual_sync_result_dict r =
     [(''status'', PStr ''succeeded''), (''google_calendar_event_id'', PStr (msx_google_calendar_event_id r)),
      (''universal_event_id'', PStr (msx_universal_event_id r)), (''acceptance_outcome'', PStr (msx_acceptance_outcome r)),
      (''processing_outcome'', PStr (msx_processing_outcome r)), (''provider'', PStr (msx_provider r)),
      (''principal'', PStr (msx_principal r)), (''account_identifier'', PStr (msx_account_identifier r)),
      (''external_execution_performed'', PBool (msx_external_execution_performed r))]"

section \<open>The service\<close>

abbreviation CALENDAR_READ_CAPABILITY :: string where
  "CALENDAR_READ_CAPABILITY \<equiv> ''prepare_meeting''"

definition sync_provider_error ::
  "string option \<Rightarrow> WorkerExecutionFailureCategory option \<Rightarrow> pydict \<Rightarrow> bool \<Rightarrow> manual_sync_error" where
  "sync_provider_error reason category md performed =
     (let provider_reason = pd_get md ''provider_reason'';
          code = (if provider_reason = PStr ''reconnectRequired'' then RECONNECT_REQUIRED
            else if provider_reason = PStr ''credentialRefreshUnavailable'' then CREDENTIAL_REFRESH_FAILURE
            else if provider_reason = PStr ''transportUnavailable'' \<or> provider_reason = PStr ''internalTransportError''
            then TRANSPORT_FAILURE
            else if provider_reason = PStr ''invalidProviderResponse''
              \<or> reason = Some ''calendar provider returned invalid event data'' then MALFORMED_PROVIDER_EVENT
            else if category = Some TRANSIENT then PROVIDER_TRANSIENT_FAILURE
            else if category = Some PERMANENT then PROVIDER_PERMANENT_FAILURE
            else PROVIDER_INTERNAL_FAILURE)
      in \<lparr>mse_code = code, mse_category = category, mse_field = None, mse_external_execution_performed = performed\<rparr>)"

definition malformed_provider_event :: "bool \<Rightarrow> manual_sync_error" where
  "malformed_provider_event performed =
     \<lparr>mse_code = MALFORMED_PROVIDER_EVENT, mse_category = Some INTERNAL, mse_field = None,
      mse_external_execution_performed = performed\<rparr>"

definition nonblank_pyval :: "pyval \<Rightarrow> bool" where
  "nonblank_pyval v = (case v of PStr s \<Rightarrow> \<not> str_blank s | _ \<Rightarrow> False)"

definition allowlisted_raw_event :: "pyval \<Rightarrow> string \<Rightarrow> pydict option" where
  "allowlisted_raw_event event expected_event_id =
     (case event of
        PDict d \<Rightarrow>
          (case (pd_get d ''title'',
                 (case pd_get d ''attendees'' of PList xs \<Rightarrow> Some xs | PTuple xs \<Rightarrow> Some xs | _ \<Rightarrow> None)) of
             (PStr title, Some attendees) \<Rightarrow>
               if pd_get d ''event_id'' \<noteq> PStr expected_event_id \<or> \<not> nonblank_pyval (pd_get d ''start'')
                  \<or> \<not> nonblank_pyval (pd_get d ''end'') \<or> \<not> list_all nonblank_pyval attendees
               then None
               else Some [(''event_id'', PStr expected_event_id), (''title'', PStr title), (''start'', pd_get d ''start''),
                          (''end'', pd_get d ''end''), (''attendees'', PTuple attendees)]
           | _ \<Rightarrow> None)
      | _ \<Rightarrow> None)"

text \<open>What the provider's result means for the sync: an error, or the checked event.\<close>

definition sync_provider_event ::
  "manual_sync_request \<Rightarrow> worker_execution_result \<Rightarrow> manual_sync_error + pydict" where
  "sync_provider_event r result =
     (let performed = (pd_get (wer_metadata result) ''external_execution_performed'' = PBool True) in
      if wer_status result \<noteq> WSUCCEEDED
      then Inl (sync_provider_error (wer_reason result) (map_option wef_category (wer_failure result))
                  (case wer_failure result of None \<Rightarrow> [] | Some f \<Rightarrow> wef_metadata f) performed)
      else if pd_get (wer_metadata result) ''found'' \<noteq> PBool True then Inl (sync_error EVENT_NOT_FOUND performed)
      else (case allowlisted_raw_event (pd_get (wer_metadata result) ''event'') (msr_event_id r) of
          None \<Rightarrow> Inl (malformed_provider_event performed)
        | Some raw \<Rightarrow> Inr raw))"

definition manual_sync ::
  "(action \<Rightarrow> string option \<Rightarrow> worker_account_context option \<Rightarrow> ('w, worker_execution_result) prog)
     \<Rightarrow> (pyval \<Rightarrow> integration_route_context \<Rightarrow> (('r, 'w, 'z) server_state_scheme, calendar_ingress_result) prog)
     \<Rightarrow> uuid \<Rightarrow> datetime \<Rightarrow> manual_sync_request
     \<Rightarrow> (('r, 'w, 'z) server_state_scheme, manual_sync_error + manual_sync_result) prog" where
  "manual_sync provider ingest i created r =
     bnd (liftr (mk_action i CALENDAR_READ_CAPABILITY ''manual-calendar-sync''
            [(''calendar_event_id'', PStr (msr_event_id r))] (Some (RoleEnum CALENDAR_EXECUTOR_ROLE)) created [])) (\<lambda>a.
     bnd (on_world (provider a (Some CALENDAR_READ_CAPABILITY)
            (Some \<lparr>wac_principal = Some (msr_principal r), wac_account_identifier = msr_account_identifier r\<rparr>))) (\<lambda>result.
     let performed = (pd_get (wer_metadata result) ''external_execution_performed'' = PBool True) in
     case sync_provider_event r result of
       Inl e \<Rightarrow> ret (Inl e)
     | Inr raw \<Rightarrow>
         try_except
           (bnd (ingest (PDict raw) \<lparr>irc_provider = ''calendar'', irc_principal = Some (msr_principal r),
                  irc_account_identifier = msr_account_identifier r\<rparr>) (\<lambda>ingress.
            ret (Inr \<lparr>msx_google_calendar_event_id = msr_event_id r, msx_universal_event_id = uuid_str (ev_id (cir_event ingress)),
                      msx_acceptance_outcome = ''accepted'', msx_processing_outcome = ''processed'', msx_provider = ''calendar'',
                      msx_principal = msr_principal r, msx_account_identifier = msr_account_identifier r,
                      msx_external_execution_performed = performed\<rparr>)))
           (\<lambda>e. ret (Inl (sync_error
              (case e of DuplicateEventError _ \<Rightarrow> DUPLICATE_EVENT | _ \<Rightarrow> INGRESS_WORKFLOW_FAILURE) performed)))))"

section \<open>The command\<close>

definition parse_sync_request :: "string list \<Rightarrow> manual_sync_error + manual_sync_request" where
  "parse_sync_request argv =
     (case argv of
        [prin, account_identifier, event_id] \<Rightarrow> mk_manual_sync_request prin account_identifier event_id
      | _ \<Rightarrow> Inl (invalid_sync_input ''arguments''))"

definition SYNC_USAGE :: string where
  "SYNC_USAGE = ''usage: python -m apps.server.src.integrations.calendar_manual_sync PRINCIPAL ACCOUNT_IDENTIFIER EVENT_ID''"

record command_output =
  cmd_stdout :: "string list"
  cmd_stderr :: "string list"
  cmd_exit :: int

definition sync_command_error :: "(pydict \<Rightarrow> string) \<Rightarrow> manual_sync_error \<Rightarrow> command_output" where
  "sync_command_error json_dumps e =
     (if mse_code e = INVALID_INPUT
      then \<lparr>cmd_stdout = [], cmd_stderr = [json_dumps (manual_sync_error_dict e), SYNC_USAGE], cmd_exit = 2\<rparr>
      else \<lparr>cmd_stdout = [], cmd_stderr = [json_dumps (manual_sync_error_dict e)], cmd_exit = 1\<rparr>)"

definition sync_main ::
  "(pydict \<Rightarrow> string) \<Rightarrow> (manual_sync_request \<Rightarrow> ('s, manual_sync_error + manual_sync_result) prog) \<Rightarrow> string list
     \<Rightarrow> ('s, command_output) prog" where
  "sync_main json_dumps run_production_sync argv =
     (case parse_sync_request argv of
        Inl e \<Rightarrow> ret (sync_command_error json_dumps e)
      | Inr r \<Rightarrow>
          try_except
            (bnd (run_production_sync r) (\<lambda>outcome.
             ret (case outcome of
                 Inl e \<Rightarrow> sync_command_error json_dumps e
               | Inr result \<Rightarrow> \<lparr>cmd_stdout = [json_dumps (manual_sync_result_dict result)], cmd_stderr = [], cmd_exit = 0\<rparr>)))
            (\<lambda>_. ret (sync_command_error json_dumps (sync_error INGRESS_WORKFLOW_FAILURE False))))"

text \<open>\<open>build_production_manual_calendar_sync_service\<close>: the keychain, the stored credentials and the HTTP transport behind
  the calendar executor.\<close>

definition production_composition ::
  "'w keyring_backend \<Rightarrow> (string \<Rightarrow> pyval option) \<Rightarrow> ('w, 'c) google_auth \<Rightarrow> 'w httpx_transport \<Rightarrow> 'w provider_composition" where
  "production_composition kb json_loads ga hx =
     \<lparr>gp_service = ''calendar'', gp_credentials = stored_get_credentials (keyring_ops kb) json_loads ga,
      gp_transport = httpx_execute hx\<rparr>"

definition production_sync ::
  "'w keyring_backend \<Rightarrow> (string \<Rightarrow> pyval option) \<Rightarrow> ('w, 'c) google_auth \<Rightarrow> 'w httpx_transport
     \<Rightarrow> (pyval \<Rightarrow> integration_route_context \<Rightarrow> (('r, 'w, 'z) server_state_scheme, calendar_ingress_result) prog)
     \<Rightarrow> uuid \<Rightarrow> datetime \<Rightarrow> manual_sync_request
     \<Rightarrow> (('r, 'w, 'z) server_state_scheme, manual_sync_error + manual_sync_result) prog" where
  "production_sync kb json_loads ga hx = manual_sync (calendar_execute (production_composition kb json_loads ga hx))"

end
