(* ===== verification/Sync_Properties.thy ===== *)
theory Sync_Properties
  imports Calendar_Sync Service_Properties
begin

text \<open>
  The manual synchronisation of one calendar event, from the provider's answer to the planned action: a failure before
  the ingress changes no store of the server, and a checked event ends as one approved action for the account.
\<close>

section \<open>Ingress of a checked event\<close>

lemma allowlisted_event_id:
  assumes "allowlisted_raw_event v i = Some raw"
  shows "dict_get raw ''event_id'' = Some (PStr i)"
  using assms by (auto simp: allowlisted_raw_event_def split: pyval.splits option.splits if_splits)

lemma sync_provider_event_id:
  "sync_provider_event r result = Inr raw \<Longrightarrow> dict_get raw ''event_id'' = Some (PStr (msr_event_id r))"
  by (auto simp: sync_provider_event_def Let_def dest: allowlisted_event_id split: if_splits option.splits)

lemma calendar_normalized:
  assumes "dict_get raw ''event_id'' = Some v"
  obtains e where "calendar_normalize i (now_utc c j) (PDict raw) = Inr e" "ev_id e = i" "ev_source e = ''calendar''"
    "dict_get (ev_payload e) ''calendar_event_id'' = Some v"
proof -
  have "\<not> str_blank ''calendar''" "\<not> str_blank ''calendar.event''" "str_strip ''calendar'' = ''calendar''"
    "str_strip ''calendar.event'' = ''calendar.event''" by code_simp+
  with assms that show thesis
    by (simp add: calendar_normalize_def base_normalize_def mk_universal_event_def require_non_empty_text_def
        require_utc_timestamp_def is_utc_aware Let_def)
qed

lemma calendar_category:
  "ev_source e = ''calendar'' \<Longrightarrow> ecl_category (rule_based_classify e) = ''calendar''"
proof -
  have "str_contains ''calendar'' (str_lower ''calendar'')" "\<not> str_contains ''github'' (str_lower ''calendar'')"
    "\<not> str_contains ''github.com'' (str_lower ''calendar'')" "\<not> str_contains ''gmail'' (str_lower ''calendar'')"
    "\<not> str_contains ''google-mail'' (str_lower ''calendar'')" by code_simp+
  then show "ev_source e = ''calendar'' \<Longrightarrow> ?thesis" by (simp add: rule_based_classify_def Let_def)
qed

text \<open>The action that is planned for a calendar event of a route.\<close>

definition sync_action :: "manual_sync_request \<Rightarrow> uuid \<Rightarrow> action \<Rightarrow> bool" where
  "sync_action r aid a \<longleftrightarrow> act_id a = aid \<and> act_type a = ''prepare_meeting''
     \<and> act_executor_role a = Some (RoleEnum CONTEXT_PREPARATION)
     \<and> act_payload a = [(''calendar_event_id'', PStr (msr_event_id r)), (''capability_provider'', PStr ''calendar''),
         (''account_context'', as_metadata \<lparr>wac_principal = Some (msr_principal r),
            wac_account_identifier = msr_account_identifier r\<rparr>)]"

definition sync_route :: "manual_sync_request \<Rightarrow> integration_route_context" where
  "sync_route r = \<lparr>irc_provider = ''calendar'', irc_principal = Some (msr_principal r),
     irc_account_identifier = msr_account_identifier r\<rparr>"

lemma sync_planned:
  assumes "ev_source e = ''calendar''" "dict_get (ev_payload e) ''calendar_event_id'' = Some (PStr (msr_event_id r))"
    and "pev_event pe = e" "pev_classification pe = rule_based_classify e" "pev_integration_route pe = Some (sync_route r)"
  shows "\<exists>a. base_plan c aid pe = Inr [a] \<and> sync_action r aid a"
  using assms calendar_category [of e]
  by (simp add: base_plan_def Let_def action_types_by_category_def executor_roles_by_category_def mk_action_def
      require_utc_created_at_def is_utc_aware rbind_def build_action_payload_def sync_route_def sync_action_def
      as_metadata_def opt_str_def)

lemma safe_action_queued:
  assumes "sync_action r aid a"
  shows "\<exists>es s' a' st. permission_evaluate base_permission_engine dump pc [a] s = (Inr es, s')
    \<and> queueable_actions es = [a'] \<and> sync_action r aid a' \<and> action_queue s' = action_queue s
    \<and> lifecycle_of s' aid = Some st \<and> als_status st = APPROVED
    \<and> pending_approval_registry s' = pending_approval_registry s
    \<and> event_repository s' = event_repository s \<and> event_lifecycle_states s' = event_lifecycle_states s"
proof -
  obtain d st where d: "resolve_decision base_permission_engine (pc 0) a = Inr d" "als_status st = initial_status (pdec_status d)"
    and run: "evaluate_action base_permission_engine dump (pc 0) a s =
       (Inr \<lparr>pe_action = apply_permission_metadata dump a d, pe_decision = d\<rparr>,
        (if pdec_status d = REQUIRES_APPROVAL
         then pending_approval_registry_update (registry_add (apply_permission_metadata dump a d)) else id)
        (s\<lparr>action_lifecycle_repository := lifecycle_set (act_id a) st (action_lifecycle_repository s)\<rparr>))"
    by (rule evaluate_action_effect)
  have "pdec_status d = ALLOWED"
    using base_engine_decision [OF d(1)] assms by (simp add: sync_action_def safe_action_types_def)
  moreover have "sync_action r aid (apply_permission_metadata dump a d)"
    using assms by (simp add: sync_action_def apply_permission_metadata_def)
  ultimately show ?thesis
    using run d(2) assms
    by (simp add: permission_evaluate_def bnd_def queueable_actions_def is_allowed_def initial_status_def lifecycle.get_put
        sync_action_def)
qed

definition event_processed :: "uuid \<Rightarrow> ('r, 'w, 'z) server_state_scheme \<Rightarrow> bool" where
  "event_processed eid s \<longleftrightarrow> store_get_event (event_repository s) eid \<noteq> None
     \<and> (\<exists>st. dict_get (event_lifecycle_states s) eid = Some st \<and> els_status st = EV_PROCESSED)"

lemma calendar_ingest_planned:
  assumes raw: "dict_get raw ''event_id'' = Some (PStr (msr_event_id r))"
    and fresh: "store_get_event (event_repository s) eid = None"
  shows "\<exists>ingress s' a st. calendar_ingest calendar_normalize (base_workflow\<lparr>ew_dump := dump\<rparr>) c pc eid aid (PDict raw) (sync_route r) s
      = (Inr ingress, s') \<and> ev_id (cir_event ingress) = eid \<and> event_processed eid s'
    \<and> action_queue s' = action_queue s @ [a] \<and> sync_action r aid a \<and> lifecycle_of s' aid = Some st \<and> als_status st = APPROVED
    \<and> pending_approval_registry s' = pending_approval_registry s"
proof -
  let ?ew = "base_workflow\<lparr>ew_dump := dump\<rparr>"
  obtain e where e: "calendar_normalize eid (now_utc c 0) (PDict raw) = Inr e" "ev_id e = eid" "ev_source e = ''calendar''"
    "dict_get (ev_payload e) ''calendar_event_id'' = Some (PStr (msr_event_id r))"
    using calendar_normalized [OF raw] by blast
  obtain s1 st1 where acc: "accept_event (shift_clock 1 c) e s = (Inr e, s1)"
    "store_get_event (event_repository s1) eid = Some e" "stores s1 = stores s"
    "dict_get (event_lifecycle_states s1) eid = Some st1" "els_status st1 = EV_PENDING"
    using accept_event_once [where e = e and s = s and c = "shift_clock 1 c"] fresh e(2) by auto
  obtain pe where pe: "pipeline_process (ew_classify ?ew) (ew_resolve ?ew) e (Some (sync_route r)) = Inr pe"
    "pev_event pe = e" "pev_classification pe = rule_based_classify e" "pev_integration_route pe = Some (sync_route r)"
    by (simp add: pipeline_process_def base_workflow_def rbind_def)
  obtain s2 st2 where proc: "process_event ?ew (shift_clock 3 c) pc aid eid (Some (sync_route r)) s1
      = plan_and_queue ?ew (shift_clock 3 (shift_clock 3 c)) pc aid pe s2"
    "dict_get (event_lifecycle_states s2) eid = Some st2" "els_status st2 = EV_PROCESSED" "core s2 = core s1"
    "event_repository s2 = event_repository s1"
    using process_event_planned [OF acc(2,4) _ pe(1), of "shift_clock 3 c" pc aid] acc(5) by auto
  obtain a where a: "base_plan (shift_clock 3 (shift_clock 3 c)) aid pe = Inr [a]" "sync_action r aid a"
    using sync_planned [OF e(3,4) pe(2-4)] by blast
  obtain es s3 a' st where ev: "permission_evaluate base_permission_engine dump pc [a] s2 = (Inr es, s3)"
    "queueable_actions es = [a']" "sync_action r aid a'" "action_queue s3 = action_queue s2" "lifecycle_of s3 aid = Some st"
    "als_status st = APPROVED" "pending_approval_registry s3 = pending_approval_registry s2"
    "event_repository s3 = event_repository s2" "event_lifecycle_states s3 = event_lifecycle_states s2"
    using safe_action_queued [OF a(2), of dump pc s2] by blast
  have same: "action_queue s2 = action_queue s" "pending_approval_registry s2 = pending_approval_registry s"
    using proc(4) acc(3) by (simp_all add: core_def stores_def)
  have "calendar_ingest calendar_normalize ?ew c pc eid aid (PDict raw) (sync_route r) s
      = (Inr \<lparr>cir_event = e, cir_acceptance = e, cir_processing = \<lparr>epr_processed_event = pe, epr_permission_evaluations = es\<rparr>\<rparr>,
         action_queue_update (queue_enqueue_many [a']) s3)"
    using e acc(1) proc(1) a(1) ev by (simp add: calendar_ingest_def bnd_def plan_and_queue_def base_workflow_def)
  then show ?thesis
    using e(2) proc acc(2) ev same by (simp add: event_processed_def queue_enqueue_many_def queue_enqueue_def)
qed

section \<open>The synchronisation\<close>

definition sync_read_action :: "uuid \<Rightarrow> datetime \<Rightarrow> manual_sync_request \<Rightarrow> action" where
  "sync_read_action i created r =
     \<lparr>act_id = i, act_type = CALENDAR_READ_CAPABILITY, act_target = ''manual-calendar-sync'',
      act_payload = [(''calendar_event_id'', PStr (msr_event_id r))], act_executor_role = Some (RoleEnum CALENDAR_EXECUTOR_ROLE),
      act_created_at = created, act_metadata = []\<rparr>"

definition sync_context :: "manual_sync_request \<Rightarrow> worker_account_context" where
  "sync_context r = \<lparr>wac_principal = Some (msr_principal r), wac_account_identifier = msr_account_identifier r\<rparr>"

text \<open>
  C28. One synchronisation, end to end, with the rule-based classification, planning and permissions of the application. A failure
  of the provider, a missing event or data off the allow list is reported as its error and changes no store of the server. Otherwise
  the fresh identifier decides. When it is taken, a duplicate is reported and no store changes; when it is free, the event is
  stored and PROCESSED under it, and exactly one action is planned, for this calendar event and this account, APPROVED and last
  in the queue. Whether the calendar event was ingested before plays no part.
\<close>

theorem manual_sync_outcome:
  assumes "is_utc created"
    and "provider (sync_read_action i created r) (Some CALENDAR_READ_CAPABILITY) (Some (sync_context r)) (execution_world s)
      = (Inr result, w)"
  shows "let synced = manual_sync provider (calendar_ingest calendar_normalize (base_workflow\<lparr>ew_dump := dump\<rparr>) c pc eid aid)
           i created r s in
    case sync_provider_event r result of
      Inl e \<Rightarrow> synced = (Inr (Inl e), s\<lparr>execution_world := w\<rparr>)
    | Inr raw \<Rightarrow>
        if store_get_event (event_repository s) eid \<noteq> None
        then \<exists>e. synced = (Inr (Inl e), s\<lparr>execution_world := w\<rparr>) \<and> mse_code e = DUPLICATE_EVENT
        else \<exists>res s' a st. synced = (Inr (Inr res), s') \<and> msx_universal_event_id res = uuid_str eid
          \<and> event_processed eid s' \<and> action_queue s' = action_queue s @ [a] \<and> sync_action r aid a
          \<and> lifecycle_of s' aid = Some st \<and> als_status st = APPROVED
          \<and> pending_approval_registry s' = pending_approval_registry s"
proof -
  let ?ingest = "calendar_ingest calendar_normalize (base_workflow\<lparr>ew_dump := dump\<rparr>) c pc eid aid"
  let ?s1 = "s\<lparr>execution_world := w\<rparr>"
  have mk: "mk_action i CALENDAR_READ_CAPABILITY ''manual-calendar-sync'' [(''calendar_event_id'', PStr (msr_event_id r))]
      (Some (RoleEnum CALENDAR_EXECUTOR_ROLE)) created [] = Inr (sync_read_action i created r)"
    using assms(1) by (simp add: mk_action_def require_utc_created_at_def is_utc_aware sync_read_action_def)
  have read: "on_world (provider (sync_read_action i created r) (Some CALENDAR_READ_CAPABILITY) (Some (sync_context r))) s
      = (Inr result, ?s1)"
    using assms(2) by (simp add: on_world_def)
  note run = manual_sync_def mk bnd_liftr_Inr sync_context_def [symmetric] sync_route_def [symmetric] Let_def
  show ?thesis
  proof (cases "sync_provider_event r result")
    case (Inl e)
    then show ?thesis by (simp add: run bnd_def read)
  next
    case (Inr raw)
    note id = sync_provider_event_id [OF Inr]
    show ?thesis
    proof (cases "store_get_event (event_repository s) eid")
      case None
      then have "store_get_event (event_repository ?s1) eid = None" by simp
      from calendar_ingest_planned [OF id this, of dump c pc aid]
      obtain ingress s' where "?ingest (PDict raw) (sync_route r) ?s1 = (Inr ingress, s')" "ev_id (cir_event ingress) = eid"
        "event_processed eid s'" "\<exists>a st. action_queue s' = action_queue s @ [a] \<and> sync_action r aid a
           \<and> lifecycle_of s' aid = Some st \<and> als_status st = APPROVED"
        "pending_approval_registry s' = pending_approval_registry s" by auto
      with None show ?thesis by (simp add: run bnd_def read Inr try_except_def)
    next
      case (Some e0)
      obtain e where "calendar_normalize eid (now_utc c 0) (PDict raw) = Inr e" "ev_id e = eid"
        using calendar_normalized [OF id] by blast
      with Some accept_event_once [where e = e and s = ?s1 and c = "shift_clock 1 c"] show ?thesis
        by (auto simp: run bnd_def read Inr try_except_def calendar_ingest_def sync_error_def)
    qed
  qed
qed

section \<open>A concrete synchronisation\<close>

definition synced_request :: manual_sync_request where
  "synced_request = \<lparr>msr_principal = ''me'', msr_account_identifier = ''mine'', msr_event_id = ''e1''\<rparr>"

definition found_event :: "action \<Rightarrow> string option \<Rightarrow> worker_account_context option \<Rightarrow> (nat, worker_execution_result) prog" where
  "found_event a cap ctx =
     ret \<lparr>wer_action = a, wer_status = WSUCCEEDED, wer_reason = None,
          wer_metadata = [(''external_execution_performed'', PBool True), (''found'', PBool True),
            (''event'', PDict [(''event_id'', PStr ''e1''), (''title'', PStr ''Standup''), (''start'', PStr ''2024-02-29T09:00:00Z''),
              (''end'', PStr ''2024-02-29T09:15:00Z''), (''attendees'', PList [PStr ''you@example.com''])])],
          wer_failure = None\<rparr>"

theorem manual_sync_outcome_witness:
  "\<exists>res s' a. manual_sync found_event (calendar_ingest calendar_normalize (base_workflow\<lparr>ew_dump := \<lambda>_. PNone\<rparr>)
       sample_clock (\<lambda>_. sample_clock) 6 3) 8 sample_time synced_request (sample_events EV_PROCESSED) = (Inr (Inr res), s')
    \<and> event_processed 6 s' \<and> action_queue s' = action_queue (sample_events EV_PROCESSED) @ [a] \<and> sync_action synced_request 3 a"
proof -
  let ?s = "sample_events EV_PROCESSED"
  define result where "result = \<lparr>wer_action = sync_read_action 8 sample_time synced_request, wer_status = WSUCCEEDED,
     wer_reason = None, wer_metadata = [(''external_execution_performed'', PBool True), (''found'', PBool True),
            (''event'', PDict [(''event_id'', PStr ''e1''), (''title'', PStr ''Standup''), (''start'', PStr ''2024-02-29T09:00:00Z''),
              (''end'', PStr ''2024-02-29T09:15:00Z''), (''attendees'', PList [PStr ''you@example.com''])])],
     wer_failure = None\<rparr>"
  have read: "found_event (sync_read_action 8 sample_time synced_request) (Some CALENDAR_READ_CAPABILITY)
      (Some (sync_context synced_request)) (execution_world ?s) = (Inr result, execution_world ?s)"
    by (simp add: found_event_def result_def)
  have "\<not> str_blank ''2024-02-29T09:00:00Z''" "\<not> str_blank ''2024-02-29T09:15:00Z''" "\<not> str_blank ''you@example.com''"
    by code_simp+
  then obtain raw where raw: "sync_provider_event synced_request result = Inr raw"
    by (simp add: sync_provider_event_def result_def pd_get_def allowlisted_raw_event_def synced_request_def nonblank_pyval_def)
  have "store_get_event (event_repository ?s) 6 = None"
    by (simp add: store_get_event_def find_first_def sample_event_def)
  with manual_sync_outcome [where provider = found_event and s = ?s, OF sample_time_valid(3) read, where eid = 6 and aid = 3 and c = sample_clock
      and pc = "\<lambda>_. sample_clock" and dump = "\<lambda>_. PNone"] raw
  show ?thesis by (auto simp: Let_def)
qed

end
