(* ===== verification/Operator_Console.thy ===== *)
theory Operator_Console
  imports Calendar_Listing "HOL-Library.Sublist"
begin

text \<open>
  What the operator's commands share: a console, an HTTP client and the Python operators they use on JSON values. The
  console has the lines still to be typed and what was printed so far; the builtin \<open>input\<close> raises \<open>EOFError\<close> when no
  line is left. The HTTP client is an operation on the world that answers a request or raises an exception of httpx
  (\<open>HttpxError\<close> with its class name). The requests sent so far are recorded, for the theorems only.
\<close>

section \<open>The console\<close>

record console_request =
  cq_method :: string
  cq_path :: string
  cq_json :: "pydict option"
  cq_headers :: "(string \<times> string) list"

record 'w console =
  con_world :: 'w
  con_requests :: "console_request list"
  con_input :: "string list"
  con_out :: "string list"
  con_err :: "string list"

type_synonym 'w http_client = "console_request \<Rightarrow> ('w, http_response) prog"

definition on_con_world :: "('w, 'a) prog \<Rightarrow> (('w, 'z) console_scheme, 'a) prog" where
  "on_con_world m s = (let (r, w) = m (con_world s) in (r, s\<lparr>con_world := w\<rparr>))"

definition send_request :: "'w http_client \<Rightarrow> console_request \<Rightarrow> (('w, 'z) console_scheme, http_response) prog" where
  "send_request client q = bnd (modify (con_requests_update (\<lambda>qs. qs @ [q]))) (\<lambda>_. on_con_world (client q))"

definition read_line :: "(('w, 'z) console_scheme, string) prog" where
  "read_line = bnd (gets con_input) (\<lambda>ls. case ls of
      [] \<Rightarrow> raise_exc (OtherException ''EOFError'' ''EOF when reading a line'')
    | l # rest \<Rightarrow> bnd (modify (con_input_update (\<lambda>_. rest))) (\<lambda>_. ret l))"

definition print_out :: "string list \<Rightarrow> (('w, 'z) console_scheme, unit) prog" where
  "print_out ls = modify (con_out_update (\<lambda>out. out @ ls))"

definition print_err :: "string list \<Rightarrow> (('w, 'z) console_scheme, unit) prog" where
  "print_err ls = modify (con_err_update (\<lambda>err. err @ ls))"

section \<open>Options\<close>

datatype py_float = Finite rat | PosInf | NegInf | NaN

text \<open>\<open>urllib.parse.urlsplit\<close> is a parameter; these are the parts the commands read.\<close>

record url_parts =
  up_scheme :: string
  up_hostname :: "string option"
  up_username :: "string option"
  up_password :: "string option"
  up_path :: string
  up_query :: string
  up_fragment :: string

end
