(* ===== verification/Operator_Sessions.thy ===== *)
theory Operator_Sessions
  imports Operator_Console
begin

text \<open>
  Reasoning about the requests of a console session: rules that follow the program and compare what is sent with the
  script that the typed lines allow.
\<close>

section \<open>Silent programs and single requests\<close>

definition silent :: "(('w, 'z) console_scheme, 'a) prog \<Rightarrow> bool" where
  "silent m \<longleftrightarrow> (\<forall>s. con_requests (snd (m s)) = con_requests s \<and> con_input (snd (m s)) = con_input s)"

definition sends :: "console_request \<Rightarrow> (('w, 'z) console_scheme, 'a) prog \<Rightarrow> bool" where
  "sends q m \<longleftrightarrow> (\<forall>s. con_requests (snd (m s)) = con_requests s @ [q] \<and> con_input (snd (m s)) = con_input s)"

named_theorems session_intros \<open>what sessions send\<close>

lemma silent_basic [session_intros]:
  "silent (ret x)" "silent (raise_exc e)" "silent (liftr r)" "silent (gets f)" "silent (print_out ls)" "silent (print_err ls)"
  "silent (on_con_world k)"
  by (auto simp: silent_def print_out_def print_err_def on_con_world_def split: prod.splits)

lemma silent_bnd [session_intros]: "silent m \<Longrightarrow> (\<And>x. silent (f x)) \<Longrightarrow> silent (bnd m f)"
  by (auto simp: silent_def bnd_def split: prod.splits sum.splits) (metis snd_conv)+

lemma silent_cases [session_intros]:
  "silent a \<Longrightarrow> silent b \<Longrightarrow> silent (if c then a else b)"
  "silent a \<Longrightarrow> (\<And>x. silent (g x)) \<Longrightarrow> silent (case y of None \<Rightarrow> a | Some x \<Rightarrow> g x)"
  by (auto split: option.split)

lemma sends_request [session_intros]: "sends q (send_request client q)"
  by (auto simp: sends_def send_request_def bnd_def on_con_world_def split: prod.splits)

lemma sends_then [session_intros]: "sends q m \<Longrightarrow> (\<And>x. silent (f x)) \<Longrightarrow> sends q (bnd m f)"
  by (auto simp: sends_def silent_def bnd_def split: prod.splits sum.splits) (metis snd_conv)+

lemma sends_try [session_intros]: "sends q m \<Longrightarrow> (\<And>e. silent (h e)) \<Longrightarrow> sends q (try_except m h)"
  by (auto simp: sends_def silent_def try_except_def split: prod.splits sum.splits) (metis snd_conv)+

section \<open>Following a script\<close>

text \<open>With these lines still to be typed, the requests sent are a prefix of one of the scripts, and what the program
  returns is as stated for that script and the requests sent.\<close>

definition follows ::
  "('i \<Rightarrow> console_request list \<Rightarrow> 'a \<Rightarrow> bool) \<Rightarrow> ('i \<Rightarrow> console_request list) \<Rightarrow> string list
     \<Rightarrow> (('w, 'z) console_scheme, 'a) prog \<Rightarrow> bool" where
  "follows Q script ls m \<longleftrightarrow> (\<forall>s. con_input s = ls \<longrightarrow>
     (\<exists>i p. prefix p (script i) \<and> con_requests (snd (m s)) = con_requests s @ p \<and> (\<forall>x. fst (m s) = Inr x \<longrightarrow> Q i p x)))"

lemma followsI:
  assumes "\<And>s. con_input s = ls \<Longrightarrow>
    \<exists>i p. prefix p (script i) \<and> con_requests (snd (m s)) = con_requests s @ p \<and> (\<forall>x. fst (m s) = Inr x \<longrightarrow> Q i p x)"
  shows "follows Q script ls m"
  using assms by (simp add: follows_def)

lemma followsD:
  "follows Q script ls m \<Longrightarrow> con_input s = ls \<Longrightarrow>
     \<exists>i p. prefix p (script i) \<and> con_requests (snd (m s)) = con_requests s @ p \<and> (\<forall>x. fst (m s) = Inr x \<longrightarrow> Q i p x)"
  by (simp add: follows_def)

lemma follows_raise: "follows Q script ls (raise_exc e)"
  by (auto intro!: followsI exI [of _ "[]"])

lemma follows_ret: "Q i [] x \<Longrightarrow> follows Q script ls (ret x)"
  by (auto intro!: followsI exI [of _ i] exI [of _ "[]"])

lemma follows_bnd_silent:
  fixes m :: "(('w, 'z) console_scheme, 'a) prog"
  assumes "silent m" "\<And>x. follows Q script ls (f x)"
  shows "follows Q script ls (bnd m f)"
proof (rule followsI)
  fix s :: "('w, 'z) console_scheme" assume ls: "con_input s = ls"
  obtain r s1 where m: "m s = (r, s1)" by fastforce
  then have s1: "con_requests s1 = con_requests s" "con_input s1 = ls"
    using assms(1) ls unfolding silent_def by (metis snd_conv)+
  show "\<exists>i p. prefix p (script i) \<and> con_requests (snd (bnd m f s)) = con_requests s @ p
      \<and> (\<forall>x. fst (bnd m f s) = Inr x \<longrightarrow> Q i p x)"
  proof (cases r)
    case (Inl e)
    then show ?thesis using m s1 by (intro exI [of _ undefined] exI [of _ "[]"]) (simp add: bnd_def)
  next
    case (Inr x)
    then show ?thesis using m s1(1) followsD [OF assms(2) s1(2), of x] by (simp add: bnd_def)
  qed
qed

lemma follows_bnd_sends:
  fixes m :: "(('w, 'z) console_scheme, 'a) prog"
  assumes "sends q m" "\<And>x. follows (\<lambda>i p. Q i (q # p)) script ls (f x)"
  shows "follows Q (\<lambda>i. q # script i) ls (bnd m f)"
proof (rule followsI)
  fix s :: "('w, 'z) console_scheme" assume ls: "con_input s = ls"
  obtain r s1 where m: "m s = (r, s1)" by fastforce
  then have s1: "con_requests s1 = con_requests s @ [q]" "con_input s1 = ls"
    using assms(1) ls unfolding sends_def by (metis snd_conv)+
  show "\<exists>i p. prefix p (q # script i) \<and> con_requests (snd (bnd m f s)) = con_requests s @ p
      \<and> (\<forall>x. fst (bnd m f s) = Inr x \<longrightarrow> Q i p x)"
  proof (cases r)
    case (Inl e)
    then show ?thesis using m s1 by (intro exI [of _ undefined] exI [of _ "[q]"]) (simp add: bnd_def)
  next
    case (Inr x)
    with followsD [OF assms(2) s1(2), of x] s1(1) obtain i p where "prefix p (script i)"
      "con_requests (snd (f x s1)) = con_requests s @ q # p" "\<forall>y. fst (f x s1) = Inr y \<longrightarrow> Q i (q # p) y" by auto
    then show ?thesis using m Inr by (intro exI [of _ i] exI [of _ "q # p"]) (auto simp: bnd_def)
  qed
qed

text \<open>The script may depend on a value the session has received.\<close>

lemma follows_instance: "follows (\<lambda>_::unit. Q i) (\<lambda>_. script i) ls m \<Longrightarrow> follows Q script ls m"
  unfolding follows_def by blast

lemma follows_bnd_received:
  assumes "sends q m" "\<And>x. follows (\<lambda>_::unit. \<lambda>p. Q x (q # p)) (\<lambda>_. script x) ls (f x)"
  shows "follows Q (\<lambda>i. q # script i) ls (bnd m f)"
  by (rule follows_bnd_sends [OF assms(1)], rule follows_instance, rule assms(2))

lemma follows_bnd_obtained:
  assumes "silent m" "\<And>x. follows (\<lambda>_::unit. Q x) (\<lambda>_. script x) ls (f x)"
  shows "follows Q script ls (bnd m f)"
  by (rule follows_bnd_silent [OF assms(1)], rule follows_instance, rule assms(2))

lemma follows_read:
  fixes f :: "string \<Rightarrow> (('w, 'z) console_scheme, 'a) prog"
  assumes "\<And>l rest. ls = l # rest \<Longrightarrow> follows Q script rest (f l)"
  shows "follows Q script ls (bnd read_line f)"
proof (cases ls)
  case Nil
  then show ?thesis by (auto simp: read_line_def bnd_def intro!: followsI exI [of _ "[]"])
next
  case (Cons l rest)
  have read: "bnd read_line f s = f l (s\<lparr>con_input := rest\<rparr>)" if "con_input s = ls" for s
    using that Cons by (simp add: read_line_def bnd_def)
  show ?thesis
  proof (rule followsI)
    fix s :: "('w, 'z) console_scheme" assume "con_input s = ls"
    then show "\<exists>i p. prefix p (script i) \<and> con_requests (snd (bnd read_line f s)) = con_requests s @ p
        \<and> (\<forall>x. fst (bnd read_line f s) = Inr x \<longrightarrow> Q i p x)"
      using followsD [OF assms [OF Cons], of "s\<lparr>con_input := rest\<rparr>"] by (simp add: read)
  qed
qed

lemma follows_if:
  "(c \<Longrightarrow> follows Q script ls a) \<Longrightarrow> (\<not> c \<Longrightarrow> follows Q script ls b) \<Longrightarrow> follows Q script ls (if c then a else b)"
  by simp

end
