(* ===== verification/Task_CLI.thy ===== *)
theory Task_CLI
  imports Operator_Console Claude_Code
begin

text \<open>
  \<open>integrations/software_engineering_task_cli.py\<close>: one task over the public API, driven by typed confirmations. Parsing
  the options (argparse), splitting the URL and \<open>repr\<close> are parameters; \<open>client\<close> is \<open>httpx.Client\<close> for a base URL and a
  timeout.
\<close>

section \<open>Options\<close>

definition EXIT_OK :: int where "EXIT_OK = 0"

definition EXIT_OPERATOR_ERROR :: int where "EXIT_OPERATOR_ERROR = 1"

definition EXIT_INVALID_INPUT :: int where "EXIT_INVALID_INPUT = 2"

definition LOOPBACK_HOSTS :: "string list" where
  "LOOPBACK_HOSTS = [''127.0.0.1'', ''localhost'', ''::1'']"

definition DEFAULT_BASE_URL :: string where "DEFAULT_BASE_URL = ''http://127.0.0.1:8000''"

definition DEFAULT_TARGET :: string where "DEFAULT_TARGET = ''velox-server''"

definition DEFAULT_TIMEOUT_SECONDS :: py_float where "DEFAULT_TIMEOUT_SECONDS = Finite 1900"

record task_cli_args =
  tca_objective :: string
  tca_target :: string
  tca_base_url :: string
  tca_timeout_seconds :: py_float

text \<open>The options that the command line gives, the others by their defaults; without an objective argparse ends the program.\<close>

definition task_cli_options :: "string option \<Rightarrow> string option \<Rightarrow> string option \<Rightarrow> py_float option \<Rightarrow> task_cli_args option" where
  "task_cli_options objective target base_url timeout_seconds =
     map_option (\<lambda>obj. \<lparr>tca_objective = obj,
                         tca_target = (case target of None \<Rightarrow> DEFAULT_TARGET | Some t \<Rightarrow> t),
                         tca_base_url = (case base_url of None \<Rightarrow> DEFAULT_BASE_URL | Some u \<Rightarrow> u),
                         tca_timeout_seconds = (case timeout_seconds of None \<Rightarrow> DEFAULT_TIMEOUT_SECONDS | Some t \<Rightarrow> t)\<rparr>) objective"

definition cli_base_url :: "(string \<Rightarrow> url_parts result) \<Rightarrow> string \<Rightarrow> string result" where
  "cli_base_url urlsplit base_url =
     rbind (urlsplit base_url) (\<lambda>parts.
       if up_scheme parts \<notin> {''http'', ''https''} then Inl (OperatorError ''base URL must use http or https'')
       else if (case up_hostname parts of None \<Rightarrow> True | Some host \<Rightarrow> str_lower host \<notin> set LOOPBACK_HOSTS)
       then Inl (OperatorError ''base URL must target loopback (127.0.0.1, localhost, ::1)'')
       else if up_username parts \<noteq> None \<or> up_password parts \<noteq> None
       then Inl (OperatorError ''base URL must not embed credentials'')
       else if up_path parts \<notin> {'''', ''/''} then Inl (OperatorError ''base URL must not contain a path'')
       else if up_query parts \<noteq> '''' \<or> up_fragment parts \<noteq> ''''
       then Inl (OperatorError ''base URL must not contain a query or fragment'')
       else Inr (strip_trailing_slashes base_url))"

definition bearer_headers :: "string option \<Rightarrow> (string \<times> string) list" where
  "bearer_headers token =
     (case token of
        None \<Rightarrow> []
      | Some t \<Rightarrow> if str_blank t then [] else [(''Authorization'', ''Bearer '' @ t)])"

section \<open>Calls\<close>

definition expect_status :: "http_response \<Rightarrow> int \<Rightarrow> string \<Rightarrow> unit result" where
  "expect_status response expected step =
     (if hr_status_code response \<noteq> expected
      then Inl (OperatorError (step @ '' failed with HTTP '' @ int_str (hr_status_code response)))
      else Inr ())"

definition parse_json :: "http_response \<Rightarrow> string \<Rightarrow> pydict result" where
  "parse_json response step =
     (case hr_json response of
        None \<Rightarrow> Inl (OperatorError (step @ '' returned invalid JSON''))
      | Some (PDict d) \<Rightarrow> Inr d
      | Some _ \<Rightarrow> Inl (OperatorError (step @ '' returned an unexpected payload shape'')))"

definition task_path :: "string \<Rightarrow> string \<Rightarrow> string" where
  "task_path i tail = ''/tasks/software-engineering/'' @ i @ tail"

definition get_request :: "(string \<times> string) list \<Rightarrow> string \<Rightarrow> console_request" where
  "get_request headers url = \<lparr>cq_method = ''GET'', cq_path = url, cq_json = None, cq_headers = headers\<rparr>"

definition post_request :: "(string \<times> string) list \<Rightarrow> string \<Rightarrow> pydict option \<Rightarrow> console_request" where
  "post_request headers url body = \<lparr>cq_method = ''POST'', cq_path = url, cq_json = body, cq_headers = headers\<rparr>"

text \<open>Sending a request and reading the JSON object of a response with status 200.\<close>

definition call_json ::
  "'w http_client \<Rightarrow> console_request \<Rightarrow> string \<Rightarrow> (('w, 'z) console_scheme, pydict) prog" where
  "call_json client q step =
     bnd (send_request client q) (\<lambda>response.
     bnd (liftr (expect_status response 200 step)) (\<lambda>_.
     liftr (parse_json response step)))"

definition run_health :: "'w http_client \<Rightarrow> (string \<times> string) list \<Rightarrow> (('w, 'z) console_scheme, unit) prog" where
  "run_health client headers =
     bnd (call_json client (get_request headers ''/health'') ''VELOX health check'') (\<lambda>payload.
     if pd_get payload ''status'' \<noteq> PStr ''ok'' then raise_exc (OperatorError ''VELOX health status is not ok'')
     else ret ())"

definition cli_delegate ::
  "'w http_client \<Rightarrow> (pyval \<Rightarrow> string) \<Rightarrow> (string \<times> string) list \<Rightarrow> string \<Rightarrow> string \<Rightarrow> (('w, 'z) console_scheme, string) prog" where
  "cli_delegate client py_repr headers objective target =
     bnd (call_json client (post_request headers ''/tasks/software-engineering''
            (Some [(''objective'', PStr objective), (''target'', PStr target)])) ''task delegation'') (\<lambda>body.
     if pd_get body ''status'' \<noteq> PStr ''awaiting_approval''
     then raise_exc (OperatorError (''task delegation did not enter awaiting_approval (status=''
                       @ py_repr (pd_get body ''status'') @ '')''))
     else case pd_get body ''action_id'' of
         PStr i \<Rightarrow> if i = '''' then raise_exc (OperatorError ''task delegation did not return an action id'') else ret i
       | _ \<Rightarrow> raise_exc (OperatorError ''task delegation did not return an action id''))"

definition cli_approve ::
  "'w http_client \<Rightarrow> (string \<times> string) list \<Rightarrow> string \<Rightarrow> (('w, 'z) console_scheme, unit) prog" where
  "cli_approve client headers i =
     bnd (send_request client (post_request headers (''/actions/'' @ i @ ''/approve'') None)) (\<lambda>response.
     liftr (expect_status response 200 ''action approval''))"

definition execution_failure :: "(pyval \<Rightarrow> string) \<Rightarrow> pydict \<Rightarrow> string" where
  "execution_failure py_repr body =
     (let reason = pd_get body ''execution_reason'' in
      ''exact execution did not succeed (status='' @ py_repr (pd_get body ''execution_status'')
        @ (case reason of PStr s \<Rightarrow> if s = '''' then '''' else '', reason='' @ py_repr reason | _ \<Rightarrow> '''') @ '')''
        @ (if reason = PStr ''authentication_failed''
           then ''; re-authenticate the configured worker locally and create a new Action (the failed Action is not retried automatically)''
           else ''''))"

definition cli_execute ::
  "'w http_client \<Rightarrow> (pyval \<Rightarrow> string) \<Rightarrow> (string \<times> string) list \<Rightarrow> string \<Rightarrow> (('w, 'z) console_scheme, pydict) prog" where
  "cli_execute client py_repr headers i =
     bnd (call_json client (post_request headers (task_path i ''/execute'') None) ''exact execution'') (\<lambda>body.
     if pd_get body ''execution_status'' \<noteq> PStr ''succeeded''
     then raise_exc (OperatorError (execution_failure py_repr body))
     else ret body)"

definition apply_disposition ::
  "'w http_client \<Rightarrow> (string \<times> string) list \<Rightarrow> string \<Rightarrow> string \<Rightarrow> (('w, 'z) console_scheme, pydict) prog" where
  "apply_disposition client headers i disposition =
     bnd (call_json client (post_request headers (task_path i ''/work-product/disposition'')
            (Some [(''disposition'', PStr disposition)])) (disposition @ '' disposition'')) (\<lambda>body.
     if pd_get body ''disposition'' \<noteq> PStr disposition \<or> \<not> truthy (pd_get body ''succeeded'')
     then raise_exc (OperatorError (disposition @ '' disposition did not succeed''))
     else ret body)"

definition cli_promote ::
  "'w http_client \<Rightarrow> (string \<times> string) list \<Rightarrow> string \<Rightarrow> string \<Rightarrow> string \<Rightarrow> (('w, 'z) console_scheme, pydict) prog" where
  "cli_promote client headers i title body =
     call_json client (post_request headers (task_path i ''/promote'')
       (Some [(''title'', PStr title), (''body'', PStr body)])) ''promotion''"

definition identity_pairs :: "(string \<times> string) list" where
  "identity_pairs =
     [(''pull_request_number'', ''pull_request_number''), (''pull_request_url'', ''pull_request_url''),
      (''promotion_base_branch'', ''base_branch''), (''promotion_head_branch'', ''head_branch'')]"

definition verify_promoted ::
  "'w http_client \<Rightarrow> (string \<times> string) list \<Rightarrow> string \<Rightarrow> pydict \<Rightarrow> (('w, 'z) console_scheme, unit) prog" where
  "verify_promoted client headers i promotion =
     bnd (call_json client (get_request headers (task_path i ''/status'')) ''promotion verification'') (\<lambda>body.
     if \<not> truthy (pd_get body ''promoted'') then raise_exc (OperatorError ''durable status did not settle as promoted'')
     else if \<not> list_all (\<lambda>(status_key, promotion_key). py_eq (pd_get body status_key) (pd_get promotion promotion_key))
               identity_pairs
     then raise_exc (OperatorError ''durable promotion identity does not match the published pull request'')
     else ret ())"

section \<open>The session\<close>

definition rendered_review :: "(pyval \<Rightarrow> string) \<Rightarrow> pydict \<Rightarrow> string list result" where
  "rendered_review py_repr review =
     rbind (text_items (pd_get review ''changed_files'')) (\<lambda>changed.
     rbind (text_items (pd_get review ''untracked_files'')) (\<lambda>untracked.
     let stripped = (\<lambda>k. let v = pd_get review k in str_rstrip (if truthy v then py_str py_repr v else '''')) in
     Inr ([''''
       , ''=== VELOX work-product review ===''
       , ''Changed files: '' @ or_text (str_join '', '' changed) ''(none)''
       , ''Untracked files (content not shown): '' @ or_text (str_join '', '' untracked) ''(none)''
       , ''Canonical checkout clean: '' @ py_str py_repr (pd_get review ''canonical_clean'')
       , ''Canonical checkout unchanged: '' @ py_str py_repr (pd_get review ''canonical_unchanged'')
       , ''--- diff --stat ---''
       , or_text (stripped ''diff_stat'') ''(no tracked changes)''
       , ''--- diff ---''
       , or_text (stripped ''diff'') ''(no tracked changes)'']
       @ (if truthy (pd_get review ''diff_truncated'') then [''[diff truncated]''] else []))))"

definition prompt :: "string \<Rightarrow> (('w, 'z) console_scheme, string) prog" where
  "prompt question = bnd (print_out [question]) (\<lambda>_. bnd read_line (\<lambda>l. ret (str_strip l)))"

definition publish_session ::
  "'w http_client \<Rightarrow> (pyval \<Rightarrow> string) \<Rightarrow> (string \<times> string) list \<Rightarrow> string \<Rightarrow> (('w, 'z) console_scheme, int) prog" where
  "publish_session client py_repr headers i =
     bnd (prompt ''Pull request title:'') (\<lambda>title.
     bnd (prompt ''Pull request body (one line, empty for none):'') (\<lambda>body.
     bnd (cli_promote client headers i title body) (\<lambda>promotion.
     bnd (verify_promoted client headers i promotion) (\<lambda>_.
     bnd (print_out ([''Promoted.'']
       @ (case pd_get promotion ''pull_request_url'' of PStr u \<Rightarrow> [''pull_request_url: '' @ u] | _ \<Rightarrow> [])
       @ (case pd_get promotion ''pull_request_number'' of
            PInt n \<Rightarrow> [''pull_request_number: '' @ py_str py_repr (PInt n)]
          | PBool b \<Rightarrow> [''pull_request_number: '' @ py_str py_repr (PBool b)]
          | _ \<Rightarrow> []))) (\<lambda>_.
     ret EXIT_OK)))))"

definition promotion_session ::
  "'w http_client \<Rightarrow> (pyval \<Rightarrow> string) \<Rightarrow> (string \<times> string) list \<Rightarrow> string \<Rightarrow> (('w, 'z) console_scheme, int) prog" where
  "promotion_session client py_repr headers i =
     bnd (prompt ''Type promote to publish the work product, or anything else to finish in kept state:'') (\<lambda>wanted.
     if wanted \<noteq> ''promote''
     then bnd (print_out [''Finished in kept state without promotion.'']) (\<lambda>_. ret EXIT_OK)
     else publish_session client py_repr headers i)"

definition disposition_session ::
  "'w http_client \<Rightarrow> (pyval \<Rightarrow> string) \<Rightarrow> (string \<times> string) list \<Rightarrow> string \<Rightarrow> (('w, 'z) console_scheme, int) prog" where
  "disposition_session client py_repr headers i =
     bnd (prompt ''Type keep to preserve the work product, discard to remove it:'') (\<lambda>chosen.
     if chosen = ''discard''
     then bnd (apply_disposition client headers i ''discard'') (\<lambda>_.
          bnd (print_out [''Discarded. No promotion is possible.'']) (\<lambda>_. ret EXIT_OK))
     else if chosen \<noteq> ''keep''
     then bnd (print_err [''No disposition applied; nothing changed.'']) (\<lambda>_. ret EXIT_OPERATOR_ERROR)
     else
       bnd (apply_disposition client headers i ''keep'') (\<lambda>_.
       bnd (print_out [''Kept.'']) (\<lambda>_.
       promotion_session client py_repr headers i)))"

definition execution_session ::
  "'w http_client \<Rightarrow> (pyval \<Rightarrow> string) \<Rightarrow> (string \<times> string) list \<Rightarrow> string \<Rightarrow> (('w, 'z) console_scheme, int) prog" where
  "execution_session client py_repr headers i =
     bnd (cli_approve client headers i) (\<lambda>_.
     bnd (print_out [''Approved. Running the worker...'']) (\<lambda>_.
     bnd (cli_execute client py_repr headers i) (\<lambda>execution.
     case pd_get execution ''review'' of
       PDict review \<Rightarrow>
         bnd (liftr (rendered_review py_repr review)) (\<lambda>ls.
         bnd (print_out ls) (\<lambda>_.
         disposition_session client py_repr headers i))
     | _ \<Rightarrow> raise_exc (OperatorError ''execution response is missing a bounded review''))))"

definition run_session ::
  "'w http_client \<Rightarrow> (pyval \<Rightarrow> string) \<Rightarrow> (string \<times> string) list \<Rightarrow> string \<Rightarrow> string \<Rightarrow> (('w, 'z) console_scheme, int) prog" where
  "run_session client py_repr headers objective target =
     bnd (run_health client headers) (\<lambda>_.
     bnd (cli_delegate client py_repr headers objective target) (\<lambda>i.
     bnd (print_out [''Task delegated and awaiting approval.'', ''Action id: '' @ i,
            ''Type the action id to approve; anything else cancels:'']) (\<lambda>_.
     bnd read_line (\<lambda>typed.
     if str_strip typed \<noteq> i
     then bnd (print_err [''Approval declined; nothing was executed.'']) (\<lambda>_. ret EXIT_OPERATOR_ERROR)
     else execution_session client py_repr headers i))))"

text \<open>The messages of the two exceptions \<open>main\<close> catches.\<close>

fun operator_error :: "exc \<Rightarrow> string option" where
  "operator_error (OperatorError m) = Some m"
| "operator_error e = None"

fun httpx_error :: "exc \<Rightarrow> string option" where
  "httpx_error (HttpxError name) = Some name"
| "httpx_error e = None"

definition cli_settings :: "(string \<Rightarrow> url_parts result) \<Rightarrow> task_cli_args \<Rightarrow> string result" where
  "cli_settings urlsplit a =
     rbind (cli_base_url urlsplit (tca_base_url a)) (\<lambda>base_url.
     if (case tca_timeout_seconds a of Finite t \<Rightarrow> t \<le> 0 | _ \<Rightarrow> True)
     then Inl (OperatorError ''timeout-seconds must be positive and finite'')
     else Inr base_url)"

definition task_main ::
  "(string \<Rightarrow> py_float \<Rightarrow> 'w http_client) \<Rightarrow> (string \<Rightarrow> url_parts result) \<Rightarrow> (pyval \<Rightarrow> string) \<Rightarrow> string option
     \<Rightarrow> task_cli_args \<Rightarrow> (('w, 'z) console_scheme, int) prog" where
  "task_main client urlsplit py_repr token a =
     (case cli_settings urlsplit a of
        Inl e \<Rightarrow>
          (case operator_error e of
             None \<Rightarrow> raise_exc e
           | Some m \<Rightarrow> bnd (print_err [''error: '' @ m]) (\<lambda>_. ret EXIT_INVALID_INPUT))
      | Inr base_url \<Rightarrow>
          try_except
            (run_session (client base_url (tca_timeout_seconds a)) py_repr (bearer_headers token) (tca_objective a) (tca_target a))
            (\<lambda>e. case operator_error e of
                Some m \<Rightarrow> bnd (print_err [''error: '' @ m]) (\<lambda>_. ret EXIT_OPERATOR_ERROR)
              | None \<Rightarrow>
                  (case httpx_error e of
                     Some name \<Rightarrow> bnd (print_err [''HTTP transport failure: '' @ name]) (\<lambda>_. ret EXIT_OPERATOR_ERROR)
                   | None \<Rightarrow> raise_exc e)))"

end
