(* ===== verification/Acceptance.thy ===== *)
theory Acceptance
  imports Task_CLI Http_Api Py_Dates
begin

text \<open>
  \<open>integrations/software_engineering_acceptance.py\<close>: the operator-controlled acceptance run over the public API.
  Parsing the options, splitting the URL and \<open>repr\<close> are parameters, as in theory \<open>Task_CLI\<close>; the random suffix of the
  marker is an input.
\<close>

definition ACCEPTANCE_TARGET :: string where
  "ACCEPTANCE_TARGET = ''velox-server''"

definition ACCEPTANCE_LOG :: string where
  "ACCEPTANCE_LOG = ''docs/engineering/acceptance/SPRINT4_LIVE_ACCEPTANCE.md''"

record acceptance_result =
  acr_action_id :: uuid
  acr_marker_path :: string
  acr_pull_request_number :: int
  acr_pull_request_url :: string
  acr_commit_sha :: string

section \<open>The environment\<close>

definition environ_text :: "(string \<times> string) list \<Rightarrow> string \<Rightarrow> string" where
  "environ_text environ name = str_strip (case dict_get environ name of None \<Rightarrow> '''' | Some v \<Rightarrow> v)"

definition validate_live_environment :: "(string \<times> string) list \<Rightarrow> unit result" where
  "validate_live_environment environ =
     (if environ_text environ ''VELOX_SOFTWARE_ENGINEERING_PROVIDER'' \<noteq> ''claude_code''
      then Inl (AcceptanceError ''live acceptance requires VELOX_SOFTWARE_ENGINEERING_PROVIDER=claude_code'')
      else if environ_text environ ''VELOX_SOFTWARE_ENGINEERING_WORKSPACE'' = ''''
      then Inl (AcceptanceError ''live acceptance requires VELOX_SOFTWARE_ENGINEERING_WORKSPACE'')
      else if str_lower (environ_text environ ''VELOX_SOFTWARE_ENGINEERING_PROMOTION_ENABLED'')
                \<notin> {''1'', ''true'', ''yes'', ''on''}
      then Inl (AcceptanceError ''live acceptance requires VELOX_SOFTWARE_ENGINEERING_PROMOTION_ENABLED=true'')
      else Inr ())"

definition acceptance_base_url :: "(string \<Rightarrow> url_parts result) \<Rightarrow> string \<Rightarrow> string result" where
  "acceptance_base_url urlparse v =
     rbind (urlparse v) (\<lambda>parts.
       if up_scheme parts \<notin> {''http'', ''https''}
          \<or> (case up_hostname parts of None \<Rightarrow> True | Some host \<Rightarrow> host \<notin> set LOOPBACK_HOSTS)
          \<or> up_username parts \<noteq> None \<or> up_password parts \<noteq> None \<or> up_query parts \<noteq> '''' \<or> up_fragment parts \<noteq> ''''
       then Inl (AcceptanceError ''acceptance base URL must be an uncredentialed loopback HTTP(S) URL'')
       else if strip_trailing_slashes (up_path parts) \<noteq> ''''
       then Inl (AcceptanceError ''acceptance base URL must not contain a path'')
       else Inr (strip_trailing_slashes v))"

section \<open>Calls\<close>

definition acceptance_request :: "string \<Rightarrow> string \<Rightarrow> pydict option \<Rightarrow> console_request" where
  "acceptance_request http_method url body = \<lparr>cq_method = http_method, cq_path = url, cq_json = body, cq_headers = []\<rparr>"

definition request_json ::
  "'w http_client \<Rightarrow> console_request \<Rightarrow> (('w, 'z) console_scheme, pydict) prog" where
  "request_json client q =
     (let call = cq_method q @ '' '' @ cq_path q in
      bnd (try_except (send_request client q)
             (\<lambda>e. case httpx_error e of
                None \<Rightarrow> raise_exc e
              | Some _ \<Rightarrow> raise_exc (AcceptanceError (call @ '' could not reach the local VELOX Server'')))) (\<lambda>response.
      if hr_status_code response \<noteq> 200
      then raise_exc (AcceptanceError (call @ '' returned HTTP '' @ int_str (hr_status_code response)))
      else case hr_json response of
          None \<Rightarrow> raise_exc (AcceptanceError (call @ '' returned invalid JSON''))
        | Some (PDict d) \<Rightarrow> ret d
        | Some _ \<Rightarrow> raise_exc (AcceptanceError (call @ '' returned an unexpected response shape''))))"

definition acceptance_objective :: "string \<Rightarrow> string" where
  "acceptance_objective marker_line =
     ''Append exactly this one new line to '' @ ACCEPTANCE_LOG @ '':'' @ [CHR 0x0A] @ marker_line @ [CHR 0x0A]
     @ ''Do not modify, rename, delete, or create any other file. Do not alter any existing line in that file. ''
     @ ''Do not run git commit, git push, or gh commands. Stop immediately after the requested line has been appended.''"

definition field_missing :: "string \<Rightarrow> exc" where
  "field_missing key = AcceptanceError (''acceptance response field '' @ [CHR 0x27] @ key @ [CHR 0x27] @ '' is missing'')"

definition acceptance_require_text :: "pydict \<Rightarrow> string \<Rightarrow> string result" where
  "acceptance_require_text payload key =
     (case pd_get payload key of
        PStr s \<Rightarrow> if s = '''' then Inl (field_missing key) else Inr s
      | _ \<Rightarrow> Inl (field_missing key))"

definition require_int :: "pydict \<Rightarrow> string \<Rightarrow> int result" where
  "require_int payload key = (case pd_get payload key of PInt n \<Rightarrow> Inr n | _ \<Rightarrow> Inl (field_missing key))"

definition accepted_review :: "(pyval \<Rightarrow> string) \<Rightarrow> string \<Rightarrow> pydict \<Rightarrow> pydict result" where
  "accepted_review py_repr expected_line execution =
     (if pd_get execution ''review_status'' \<noteq> PStr ''available''
      then Inl (AcceptanceError ''live execution completed without an available work-product review'')
      else case pd_get execution ''review'' of
          PDict review \<Rightarrow>
            if pd_get review ''canonical_clean'' \<noteq> PBool True \<or> pd_get review ''canonical_unchanged'' \<noteq> PBool True
               \<or> pd_get review ''dirty'' \<noteq> PBool True
            then Inl (AcceptanceError ''live work-product review failed canonical checkout invariants'')
            else if pd_get review ''changed_files'' \<noteq> PList [PStr ACCEPTANCE_LOG] \<or> pd_get review ''untracked_files'' \<noteq> PList []
            then Inl (AcceptanceError ''live worker modified files outside the exact acceptance target'')
            else if \<not> str_contains expected_line (py_str py_repr (pd_get_or review ''diff'' (PStr '''')))
            then Inl (AcceptanceError ''live work-product diff does not contain the exact acceptance marker'')
            else Inr review
        | _ \<Rightarrow> Inl (AcceptanceError ''live execution returned no bounded work-product review''))"

definition show_review ::
  "(pyval \<Rightarrow> string) \<Rightarrow> pydict \<Rightarrow> string \<Rightarrow> (('w, 'z) console_scheme, unit) prog" where
  "show_review py_repr execution expected_line =
     bnd (liftr (accepted_review py_repr expected_line execution)) (\<lambda>review.
     let formatted = (\<lambda>k. py_str py_repr (pd_get review k));
         text_of = (\<lambda>k. or_text (str_rstrip (py_str py_repr (pd_get_or review k (PStr '''')))) ''(none)'') in
     print_out [''=== VELOX bounded work-product review ==='', ''changed_files: '' @ formatted ''changed_files'',
       ''untracked_files: '' @ formatted ''untracked_files'', ''canonical_clean: '' @ formatted ''canonical_clean'',
       ''canonical_unchanged: '' @ formatted ''canonical_unchanged'', ''--- diff --stat ---'', text_of ''diff_stat'',
       ''--- diff ---'', text_of ''diff''])"

section \<open>The run\<close>

text \<open>\<open>strftime("%Y%m%dT%H%M%SZ")\<close> of a time in UTC.\<close>

definition acceptance_stamp :: "datetime \<Rightarrow> string result" where
  "acceptance_stamp now =
     rbind (to_utc now) (\<lambda>t.
       Inr (padded 4 (dt_year t) @ padded 2 (dt_month t) @ padded 2 (dt_day t) @ ''T''
            @ padded 2 (dt_hour t) @ padded 2 (dt_minute t) @ padded 2 (dt_second t) @ ''Z''))"

definition marker_line_of :: "string \<Rightarrow> string \<Rightarrow> string" where
  "marker_line_of stamp marker_suffix = ''- Acceptance '' @ stamp @ ''-'' @ marker_suffix @ '': VELOX live Software Engineering control plane.''"

definition refuse_unless :: "bool \<Rightarrow> string \<Rightarrow> (('w, 'z) console_scheme, unit) prog" where
  "refuse_unless ok m = (if ok then ret () else raise_exc (AcceptanceError m))"

definition status_path :: "uuid \<Rightarrow> string" where
  "status_path i = task_path (uuid_str i) ''/status''"

text \<open>From the promotion to the end.\<close>

definition acceptance_promotion ::
  "'w http_client \<Rightarrow> string \<Rightarrow> uuid \<Rightarrow> (('w, 'z) console_scheme, acceptance_result) prog" where
  "acceptance_promotion client stamp i =
     bnd (request_json client (acceptance_request ''POST'' (task_path (uuid_str i) ''/promote'')
       (Some [(''title'', PStr (''VELOX Sprint 4 live acceptance '' @ stamp)),
         (''body'', PStr (''Live Sprint 4 acceptance produced through the canonical VELOX Software Engineering control plane.''
            @ [CHR 0x0A, CHR 0x0A] @ ''Action: '' @ uuid_str i))]))) (\<lambda>promotion.
     bnd (liftr (acceptance_require_text promotion ''commit_sha'')) (\<lambda>commit_sha.
     bnd (liftr (require_int promotion ''pull_request_number'')) (\<lambda>pr_number.
     bnd (liftr (acceptance_require_text promotion ''pull_request_url'')) (\<lambda>pr_url.
     bnd (request_json client (acceptance_request ''GET'' (status_path i) None)) (\<lambda>final_status.
     bnd (refuse_unless (pd_get final_status ''phase'' = PStr ''promoted'' \<and> pd_get final_status ''promoted'' = PBool True
            \<and> py_eq (pd_get final_status ''pull_request_number'') (PInt pr_number)
            \<and> pd_get final_status ''pull_request_url'' = PStr pr_url)
          ''final durable status did not match the promoted pull request'') (\<lambda>_.
     bnd (print_out [''Sprint 4 live acceptance PASSED.'', ''Action: '' @ uuid_str i, ''Commit: '' @ commit_sha,
            ''Pull request: #'' @ int_str pr_number @ '' '' @ pr_url]) (\<lambda>_.
     ret \<lparr>acr_action_id = i, acr_marker_path = ACCEPTANCE_LOG, acr_pull_request_number = pr_number,
          acr_pull_request_url = pr_url, acr_commit_sha = commit_sha\<rparr>)))))))"

text \<open>From the decision about the work product.\<close>

definition acceptance_disposition ::
  "'w http_client \<Rightarrow> string \<Rightarrow> uuid \<Rightarrow> (('w, 'z) console_scheme, acceptance_result) prog" where
  "acceptance_disposition client stamp i =
     bnd (print_out [''Type keep to preserve this reviewed work product:'']) (\<lambda>_.
     bnd read_line (\<lambda>kept.
     bnd (refuse_unless (str_strip kept = ''keep'') ''operator did not KEEP the acceptance work product'') (\<lambda>_.
     bnd (request_json client (acceptance_request ''POST'' (task_path (uuid_str i) ''/work-product/disposition'')
            (Some [(''disposition'', PStr ''keep'')]))) (\<lambda>disposition.
     bnd (refuse_unless (pd_get disposition ''disposition'' = PStr ''keep'' \<and> pd_get disposition ''succeeded'' = PBool True
            \<and> pd_get disposition ''canonical_unchanged'' = PBool True) ''acceptance KEEP disposition failed'') (\<lambda>_.
     bnd (request_json client (acceptance_request ''GET'' (status_path i) None)) (\<lambda>kept_status.
     bnd (refuse_unless (pd_get kept_status ''phase'' = PStr ''kept'') ''durable run status did not reach kept'') (\<lambda>_.
     bnd (print_out [''KEEP verified. Promotion will create a VELOX commit, push the Action-derived branch and create a real GitHub PR.'',
            ''Type promote to continue:'']) (\<lambda>_.
     bnd read_line (\<lambda>wanted.
     bnd (refuse_unless (str_strip wanted = ''promote'') ''operator did not approve guarded promotion'') (\<lambda>_.
     acceptance_promotion client stamp i))))))))))"

text \<open>From the operator's approval.\<close>

definition acceptance_execution ::
  "'w http_client \<Rightarrow> (pyval \<Rightarrow> string) \<Rightarrow> string \<Rightarrow> string \<Rightarrow> uuid \<Rightarrow> (('w, 'z) console_scheme, acceptance_result) prog" where
  "acceptance_execution client py_repr stamp marker_line i =
     bnd read_line (\<lambda>typed.
     bnd (refuse_unless (str_strip typed = uuid_str i) ''operator did not approve the live acceptance Action'') (\<lambda>_.
     bnd (request_json client (acceptance_request ''POST'' (''/actions/'' @ uuid_str i @ ''/approve'') None)) (\<lambda>approved.
     bnd (refuse_unless (case pd_get approved ''lifecycle'' of
              PDict lifecycle \<Rightarrow> pd_get lifecycle ''status'' = PStr ''approved'' | _ \<Rightarrow> False)
          ''live acceptance Action was not approved'') (\<lambda>_.
     bnd (print_out [''Approved. Executing exact Action through VELOX...'']) (\<lambda>_.
     bnd (request_json client (acceptance_request ''POST'' (task_path (uuid_str i) ''/execute'') None)) (\<lambda>execution.
     bnd (refuse_unless (pd_get execution ''processed'' = PBool True \<and> pd_get execution ''execution_status'' = PStr ''succeeded''
            \<and> pd_get execution ''lifecycle_status'' = PStr ''completed''
            \<and> pd_get execution ''external_execution_performed'' = PBool True)
          ''live Software Engineering execution did not complete successfully'') (\<lambda>_.
     bnd (show_review py_repr execution marker_line) (\<lambda>_.
     bnd (request_json client (acceptance_request ''GET'' (status_path i) None)) (\<lambda>executed_status.
     bnd (refuse_unless (pd_get executed_status ''phase'' = PStr ''succeeded'') ''durable run status did not reach succeeded'') (\<lambda>_.
     acceptance_disposition client stamp i))))))))))"

definition acceptance_session ::
  "'w http_client \<Rightarrow> (pyval \<Rightarrow> string) \<Rightarrow> string \<Rightarrow> string \<Rightarrow> (('w, 'z) console_scheme, acceptance_result) prog" where
  "acceptance_session client py_repr stamp marker_line =
     bnd (request_json client (acceptance_request ''GET'' ''/health'' None)) (\<lambda>health.
     bnd (refuse_unless (pd_get health ''status'' = PStr ''ok'') ''VELOX health check is not ok'') (\<lambda>_.
     bnd (request_json client (acceptance_request ''POST'' ''/tasks/software-engineering''
            (Some [(''objective'', PStr (acceptance_objective marker_line)), (''target'', PStr ACCEPTANCE_TARGET)]))) (\<lambda>delegation.
     bnd (refuse_unless (pd_get delegation ''status'' = PStr ''awaiting_approval'')
          ''acceptance task was not held for explicit approval'') (\<lambda>_.
     bnd (liftr (rbind (acceptance_require_text delegation ''action_id'') uuid_of_str)) (\<lambda>i.
     bnd (print_out [''Action: '' @ uuid_str i, ''Acceptance marker: '' @ ACCEPTANCE_LOG,
            ''Type the Action UUID exactly to approve the live Claude Code execution:'']) (\<lambda>_.
     acceptance_execution client py_repr stamp marker_line i))))))"

definition run_acceptance ::
  "'w http_client \<Rightarrow> (pyval \<Rightarrow> string) \<Rightarrow> datetime \<Rightarrow> string \<Rightarrow> (('w, 'z) console_scheme, acceptance_result) prog" where
  "run_acceptance client py_repr now marker_suffix =
     bnd (liftr (acceptance_stamp now)) (\<lambda>stamp.
     acceptance_session client py_repr stamp (marker_line_of stamp marker_suffix))"

fun acceptance_error :: "exc \<Rightarrow> string option" where
  "acceptance_error (AcceptanceError m) = Some m"
| "acceptance_error e = None"

definition acceptance_settings ::
  "(string \<Rightarrow> url_parts result) \<Rightarrow> (string \<times> string) list \<Rightarrow> string \<Rightarrow> py_float \<Rightarrow> string result" where
  "acceptance_settings urlparse environ base_url timeout_seconds =
     rbind (validate_live_environment environ) (\<lambda>_.
     rbind (acceptance_base_url urlparse base_url) (\<lambda>url.
     if (case timeout_seconds of Finite t \<Rightarrow> t \<le> 0 | NegInf \<Rightarrow> True | _ \<Rightarrow> False)
     then Inl (AcceptanceError ''acceptance timeout must be positive'')
     else Inr url))"

definition acceptance_main ::
  "(string \<Rightarrow> py_float \<Rightarrow> (string \<times> string) list \<Rightarrow> 'w http_client) \<Rightarrow> (string \<Rightarrow> url_parts result) \<Rightarrow> (pyval \<Rightarrow> string)
     \<Rightarrow> (string \<times> string) list \<Rightarrow> string \<Rightarrow> py_float \<Rightarrow> datetime \<Rightarrow> string \<Rightarrow> (('w, 'z) console_scheme, int) prog" where
  "acceptance_main client urlparse py_repr environ base_url timeout_seconds now marker_suffix =
     try_except
       (bnd (liftr (acceptance_settings urlparse environ base_url timeout_seconds)) (\<lambda>url.
        bnd (run_acceptance (client url timeout_seconds (bearer_headers (dict_get environ ''VELOX_API_TOKEN''))) py_repr now marker_suffix) (\<lambda>_.
        ret 0)))
       (\<lambda>e. if acceptance_error e \<noteq> None \<or> is_value_error e
             then bnd (print_err [''Acceptance failed: '' @ exc_message e]) (\<lambda>_. ret 1)
             else raise_exc e)"

end
