(* ===== verification/Operator_Properties.thy ===== *)
theory Operator_Properties
  imports Operator_Sessions Acceptance Samples
begin

text \<open>
  The operator's commands send what the operator confirmed: the requests of a session are a prefix of the script that
  the typed lines allow, and success means that the whole script was carried out.
\<close>

section \<open>The task command\<close>

text \<open>The requests a session may send for the action \<open>i\<close>, given the lines typed.\<close>

fun publish_script :: "(string \<times> string) list \<Rightarrow> string \<Rightarrow> string list \<Rightarrow> console_request list" where
  "publish_script headers i (wanted # title # body # rest) =
     (if str_strip wanted = ''promote''
      then [post_request headers (task_path i ''/promote'')
              (Some [(''title'', PStr (str_strip title)), (''body'', PStr (str_strip body))]),
            get_request headers (task_path i ''/status'')]
      else [])"
| "publish_script headers i ls = []"

definition disposition_request :: "(string \<times> string) list \<Rightarrow> string \<Rightarrow> string \<Rightarrow> console_request" where
  "disposition_request headers i d =
     post_request headers (task_path i ''/work-product/disposition'') (Some [(''disposition'', PStr d)])"

fun disposition_script :: "(string \<times> string) list \<Rightarrow> string \<Rightarrow> string list \<Rightarrow> console_request list" where
  "disposition_script headers i [] = []"
| "disposition_script headers i (chosen # rest) =
     (if str_strip chosen = ''discard'' then [disposition_request headers i ''discard'']
      else if str_strip chosen = ''keep'' then disposition_request headers i ''keep'' # publish_script headers i rest
      else [])"

fun approval_script :: "(string \<times> string) list \<Rightarrow> string \<Rightarrow> string list \<Rightarrow> console_request list" where
  "approval_script headers i [] = []"
| "approval_script headers i (typed # rest) =
     (if str_strip typed = i
      then post_request headers (''/actions/'' @ i @ ''/approve'') None # post_request headers (task_path i ''/execute'') None
             # disposition_script headers i rest
      else [])"

definition session_script ::
  "(string \<times> string) list \<Rightarrow> string \<Rightarrow> string \<Rightarrow> string list \<Rightarrow> string \<Rightarrow> console_request list" where
  "session_script headers objective target ls i =
     [get_request headers ''/health'',
      post_request headers ''/tasks/software-engineering'' (Some [(''objective'', PStr objective), (''target'', PStr target)])]
     @ approval_script headers i ls"

lemma sends_call_json [session_intros]: "sends q (call_json client q step)"
  unfolding call_json_def by (intro session_intros)

lemma cli_calls:
  "sends (get_request headers ''/health'') (run_health client headers)"
  "sends (post_request headers ''/tasks/software-engineering'' (Some [(''objective'', PStr objective), (''target'', PStr target)]))
     (cli_delegate client py_repr headers objective target)"
  "sends (post_request headers (''/actions/'' @ i @ ''/approve'') None) (cli_approve client headers i)"
  "sends (post_request headers (task_path i ''/execute'') None) (cli_execute client py_repr headers i)"
  "sends (disposition_request headers i d) (apply_disposition client headers i d)"
  "sends (post_request headers (task_path i ''/promote'') (Some [(''title'', PStr title), (''body'', PStr body)]))
     (cli_promote client headers i title body)"
  "sends (get_request headers (task_path i ''/status'')) (verify_promoted client headers i promotion)"
  unfolding run_health_def cli_delegate_def cli_approve_def cli_execute_def apply_disposition_def disposition_request_def
    cli_promote_def verify_promoted_def
  by (intro session_intros | auto intro: session_intros split: pyval.splits)+

lemma follows_prompt:
  assumes "\<And>l rest. ls = l # rest \<Longrightarrow> follows Q script rest (f (str_strip l))"
  shows "follows Q script ls (bnd (prompt question) f)"
proof -
  have "bnd (prompt question) f = bnd (print_out [question]) (\<lambda>_. bnd read_line (\<lambda>l. f (str_strip l)))"
    by (auto simp: prompt_def bnd_def fun_eq_iff split: prod.splits sum.splits)
  then show ?thesis by (simp add: follows_bnd_silent follows_read assms session_intros)
qed

abbreviation succeeds_with :: "console_request list \<Rightarrow> 'i \<Rightarrow> console_request list \<Rightarrow> int \<Rightarrow> bool" where
  "succeeds_with qs \<equiv> \<lambda>_ p x. x = EXIT_OK \<longrightarrow> p = qs"

lemma publish_follows:
  assumes "str_strip wanted = ''promote''"
  shows "follows (succeeds_with (publish_script headers i (wanted # ls))) (\<lambda>_::unit. publish_script headers i (wanted # ls)) ls
    (publish_session client py_repr headers i)"
  unfolding publish_session_def
  by (rule follows_prompt, rule follows_prompt, simp add: assms, rule follows_bnd_sends [OF cli_calls(6)],
      rule follows_bnd_sends [OF cli_calls(7)], rule follows_bnd_silent [OF silent_basic(5)], rule follows_ret, simp)

lemma publish_script_other: "str_strip wanted \<noteq> ''promote'' \<Longrightarrow> publish_script headers i (wanted # ls) = []"
  by (cases "(headers, i, wanted # ls)" rule: publish_script.cases) auto

lemma promotion_follows:
  "follows (succeeds_with (publish_script headers i ls)) (\<lambda>_::unit. publish_script headers i ls) ls
    (promotion_session client py_repr headers i)"
  unfolding promotion_session_def
  by (rule follows_prompt, rule follows_if)
     (auto simp: publish_script_other publish_follows intro: follows_bnd_silent follows_ret session_intros)

lemma disposition_follows:
  "follows (succeeds_with (disposition_script headers i ls)) (\<lambda>_::unit. disposition_script headers i ls) ls
    (disposition_session client py_repr headers i)"
  unfolding disposition_session_def
proof (rule follows_prompt, rule follows_if, goal_cases)
  case (1 chosen rest)
  then show ?case
    by simp (rule follows_bnd_sends [OF cli_calls(5)], rule follows_bnd_silent [OF silent_basic(5)], rule follows_ret, simp)
next
  case (2 chosen rest)
  show ?case
  proof (rule follows_if, goal_cases)
    case 1
    then show ?case
      using 2 by (auto simp: EXIT_OK_def EXIT_OPERATOR_ERROR_def intro!: follows_bnd_silent follows_ret session_intros)
  next
    case 2
    with \<open>ls = chosen # rest\<close> show ?case
      by simp (rule follows_bnd_sends [OF cli_calls(5)], rule follows_bnd_silent [OF silent_basic(5)], simp add: promotion_follows)
  qed
qed

lemma follows_dict:
  "(\<And>d. follows Q script ls (f d)) \<Longrightarrow> follows Q script ls (case v of PDict d \<Rightarrow> f d | _ \<Rightarrow> raise_exc e)"
  by (cases v) (auto intro: follows_raise)

lemma execution_follows:
  "follows (succeeds_with (approval_script headers i (i' # ls))) (\<lambda>_::unit. approval_script headers i (i' # ls)) ls
    (execution_session client py_repr headers i)" if "str_strip i' = i"
  unfolding execution_session_def
  by (simp only: approval_script.simps that simp_thms if_True, rule follows_bnd_sends [OF cli_calls(3)], rule follows_bnd_silent [OF silent_basic(5)],
      rule follows_bnd_sends [OF cli_calls(4)], rule follows_dict, rule follows_bnd_silent [OF silent_basic(3)],
      rule follows_bnd_silent [OF silent_basic(5)], simp add: disposition_follows)

lemma session_follows:
  "follows (\<lambda>i p x. x = EXIT_OK \<longrightarrow> p = session_script headers objective target ls i)
     (session_script headers objective target ls) ls (run_session client py_repr headers objective target)"
  unfolding run_session_def session_script_def append_Cons append_Nil
proof (rule follows_bnd_sends [OF cli_calls(1)], rule follows_bnd_received [OF cli_calls(2)],
    rule follows_bnd_silent [OF silent_basic(5)], rule follows_read, rule follows_if, goal_cases)
  case (1 _ i _ typed rest)
  then show ?case
    by (auto simp: EXIT_OK_def EXIT_OPERATOR_ERROR_def intro!: follows_bnd_silent follows_ret session_intros)
next
  case (2 _ i _ typed rest)
  then show ?case using execution_follows [of typed i headers rest] by simp
qed

text \<open>C36. Nothing without a typed confirmation. Whatever the server answers, the requests of a session are a prefix of
  the script that the lines typed allow: the health check and the delegation; approval and execution only after the
  identifier of the delegated action was typed; the disposition that was typed, keep or discard; the promotion only
  after keep and promote, with the title and body typed. All of them concern the same action, and the session succeeds
  only when it has sent the whole script.\<close>

theorem operator_session_confirmed:
  assumes "run_session client py_repr headers objective target s = (r, s')" "con_requests s = []"
  shows "\<exists>i. prefix (con_requests s') (session_script headers objective target (con_input s) i)
    \<and> (r = Inr EXIT_OK \<longrightarrow> con_requests s' = session_script headers objective target (con_input s) i)"
  using followsD [OF session_follows [where client = client and py_repr = py_repr and headers = headers
      and objective = objective and target = target] refl, of s] assms by auto

definition obliging_client :: "unit http_client" where
  "obliging_client q = ret \<lparr>hr_status_code = 200, hr_json = Some (PDict
     (if cq_path q = ''/health'' then [(''status'', PStr ''ok'')]
      else [(''status'', PStr ''awaiting_approval''), (''action_id'', PStr ''a''), (''execution_status'', PStr ''succeeded''),
            (''review'', PDict []), (''disposition'', PStr ''keep''), (''succeeded'', PBool True), (''promoted'', PBool True),
            (''pull_request_number'', PInt 1)]))\<rparr>"

definition typed_lines :: "string list \<Rightarrow> unit console" where
  "typed_lines ls = \<lparr>con_world = (), con_requests = [], con_input = ls, con_out = [], con_err = []\<rparr>"

lemma obliging_session:
  "fst (run_session obliging_client (\<lambda>_. '''') [] ''o'' ''t'' (typed_lines [''a'', '' keep'', ''promote'', ''T'', ''''])) = Inr EXIT_OK"
  by code_simp

theorem operator_session_confirmed_witness:
  "\<exists>i. con_requests (snd (run_session obliging_client (\<lambda>_. '''') [] ''o'' ''t'' (typed_lines [''a'', '' keep'', ''promote'', ''T'', ''''])))
     = session_script [] ''o'' ''t'' [''a'', '' keep'', ''promote'', ''T'', ''''] i"
proof -
  let ?run = "run_session obliging_client (\<lambda>_. '''') [] ''o'' ''t'' (typed_lines [''a'', '' keep'', ''promote'', ''T'', ''''])"
  have "?run = (fst ?run, snd ?run)" by simp
  from operator_session_confirmed [OF this] obliging_session show ?thesis by (auto simp: typed_lines_def)
qed

section \<open>The token\<close>

text \<open>The same state with other headers in the requests sent.\<close>

definition retokened :: "(string \<times> string) list \<Rightarrow> ('w, 'z) console_scheme \<Rightarrow> ('w, 'z) console_scheme" where
  "retokened headers s = con_requests_update (map (cq_headers_update (\<lambda>_. headers))) s"

definition commutes :: "('s \<Rightarrow> 't) \<Rightarrow> ('s, 'a) prog \<Rightarrow> ('t, 'a) prog \<Rightarrow> bool" where
  "commutes f m m' \<longleftrightarrow> (\<forall>s. m' (f s) = map_prod id f (m s))"

named_theorems commute_intros \<open>programs that commute with a change of the state\<close>

lemma commutes_pure [commute_intros]:
  "commutes f (ret x) (ret x)" "commutes f (raise_exc e) (raise_exc e)" "commutes f (liftr r) (liftr r)"
  by (simp_all add: commutes_def)

lemma commutes_bnd [commute_intros]: "commutes f m m' \<Longrightarrow> (\<And>x. commutes f (k x) (k' x)) \<Longrightarrow> commutes f (bnd m k) (bnd m' k')"
  by (auto simp: commutes_def bnd_def split: prod.splits sum.splits)

lemma commutes_try [commute_intros]:
  "commutes f m m' \<Longrightarrow> (\<And>e. commutes f (h e) (h' e)) \<Longrightarrow> commutes f (try_except m h) (try_except m' h')"
  by (auto simp: commutes_def try_except_def split: prod.splits sum.splits)

lemma commutes_cases [commute_intros]:
  "commutes f a a' \<Longrightarrow> commutes f b b' \<Longrightarrow> commutes f (if c then a else b) (if c then a' else b')"
  "commutes f a a' \<Longrightarrow> (\<And>x. commutes f (g x) (g' x)) \<Longrightarrow>
     commutes f (case y of None \<Rightarrow> a | Some x \<Rightarrow> g x) (case y of None \<Rightarrow> a' | Some x \<Rightarrow> g' x)"
  by (auto split: option.split)

lemma commutes_console [commute_intros]:
  "commutes (retokened headers) (print_out ls) (print_out ls)" "commutes (retokened headers) (print_err ls) (print_err ls)"
  "commutes (retokened headers) read_line read_line"
  by (auto simp: commutes_def retokened_def print_out_def print_err_def read_line_def bnd_def split: list.splits)

lemma commutes_send [commute_intros]:
  "client q = client (q\<lparr>cq_headers := headers\<rparr>) \<Longrightarrow>
     commutes (retokened headers) (send_request client q) (send_request client (q\<lparr>cq_headers := headers\<rparr>))"
  by (auto simp: commutes_def retokened_def send_request_def bnd_def on_con_world_def split: prod.splits)

text \<open>A client that treats requests with either headers alike.\<close>

definition alike :: "(string \<times> string) list \<Rightarrow> (string \<times> string) list \<Rightarrow> 'w http_client \<Rightarrow> bool" where
  "alike headers headers' client \<longleftrightarrow> (\<forall>q. client (q\<lparr>cq_headers := headers\<rparr>) = client (q\<lparr>cq_headers := headers'\<rparr>))"

lemma commutes_requests:
  assumes "alike headers headers' client"
  shows
    "commutes (retokened headers') (send_request client (get_request headers url)) (send_request client (get_request headers' url))"
    "commutes (retokened headers') (send_request client (post_request headers url body)) (send_request client (post_request headers' url body))"
  using commutes_send [of client "get_request headers url" headers'] commutes_send [of client "post_request headers url body" headers']
    assms [unfolded alike_def, rule_format, of "get_request headers url"]
    assms [unfolded alike_def, rule_format, of "post_request headers url body"]
  by (simp_all add: get_request_def post_request_def)

lemma commutes_calls:
  assumes "alike headers headers' client"
  shows
    "commutes (retokened headers') (run_health client headers) (run_health client headers')"
    "commutes (retokened headers') (cli_delegate client py_repr headers objective target) (cli_delegate client py_repr headers' objective target)"
    "commutes (retokened headers') (cli_approve client headers i) (cli_approve client headers' i)"
    "commutes (retokened headers') (cli_execute client py_repr headers i) (cli_execute client py_repr headers' i)"
    "commutes (retokened headers') (apply_disposition client headers i d) (apply_disposition client headers' i d)"
    "commutes (retokened headers') (cli_promote client headers i title body) (cli_promote client headers' i title body)"
    "commutes (retokened headers') (verify_promoted client headers i promotion) (verify_promoted client headers' i promotion)"
  unfolding run_health_def cli_delegate_def cli_approve_def cli_execute_def apply_disposition_def cli_promote_def
    verify_promoted_def call_json_def
  by (intro commute_intros commutes_requests [OF assms]
      | auto intro: commute_intros commutes_requests [OF assms] split: pyval.splits)+

lemma commutes_session:
  "alike headers headers' client \<Longrightarrow>
     commutes (retokened headers') (run_session client py_repr headers objective target) (run_session client py_repr headers' objective target)"
  unfolding run_session_def execution_session_def disposition_session_def promotion_session_def publish_session_def prompt_def
  by (intro commute_intros commutes_calls | assumption
      | auto intro!: commute_intros commutes_calls split: pyval.splits)+

lemma commutes_main:
  assumes "\<And>url t. alike (bearer_headers token) (bearer_headers token') (client url t)"
  shows "commutes (retokened (bearer_headers token')) (task_main client urlsplit py_repr token a) (task_main client urlsplit py_repr token' a)"
  unfolding task_main_def
  by (cases "cli_settings urlsplit a"; simp; intro commute_intros commutes_session assms)

text \<open>C39. The token stays in the header. For two tokens that the server treats alike, the command does the same: the same
  outcome, the same text on both outputs, the same requests to the same effect; the only difference is the header of
  the requests.\<close>

theorem token_only_in_header:
  assumes "\<And>url t. alike (bearer_headers token) (bearer_headers token') (client url t)" "con_requests s = []"
    and "task_main client urlsplit py_repr token a s = (r, s')"
  shows "task_main client urlsplit py_repr token' a s = (r, retokened (bearer_headers token') s')"
proof -
  have "retokened (bearer_headers token') s = s" using assms(2) by (simp add: retokened_def)
  moreover have "commutes (retokened (bearer_headers token')) (task_main client urlsplit py_repr token a)
      (task_main client urlsplit py_repr token' a)"
    by (rule commutes_main) (rule assms(1))
  ultimately show ?thesis using assms(3) by (auto simp: commutes_def dest: spec [of _ s])
qed

definition demo_task :: "string \<Rightarrow> (unit console, int) prog" where
  "demo_task t = task_main (\<lambda>_ _. obliging_client)
     (\<lambda>_. Inr \<lparr>up_scheme = ''http'', up_hostname = Some ''localhost'', up_username = None, up_password = None, up_path = '''',
        up_query = '''', up_fragment = ''''\<rparr>) (\<lambda>_. '''') (Some t)
     \<lparr>tca_objective = ''o'', tca_target = ''t'', tca_base_url = '''', tca_timeout_seconds = Finite 1\<rparr>"

theorem token_only_in_header_witness:
  "demo_task ''two'' (typed_lines [''a'', ''discard'']) = (fst (demo_task ''one'' (typed_lines [''a'', ''discard''])),
     retokened [(''Authorization'', ''Bearer two'')] (snd (demo_task ''one'' (typed_lines [''a'', ''discard'']))))"
proof -
  let ?s = "typed_lines [''a'', ''discard'']"
  have "alike headers headers' obliging_client" for headers headers' by (simp add: alike_def obliging_client_def)
  moreover have "bearer_headers (Some ''two'') = [(''Authorization'', ''Bearer two'')]" by code_simp
  moreover have "demo_task ''one'' ?s = (fst (demo_task ''one'' ?s), snd (demo_task ''one'' ?s))" by simp
  ultimately show ?thesis
    using token_only_in_header [of "Some ''one''" "Some ''two''" "\<lambda>_ _. obliging_client" ?s]
    by (simp add: typed_lines_def demo_task_def)
qed

section \<open>The acceptance run\<close>

definition acceptance_promotion_requests :: "string \<Rightarrow> uuid \<Rightarrow> console_request list" where
  "acceptance_promotion_requests stamp i =
     [acceptance_request ''POST'' (task_path (uuid_str i) ''/promote'')
        (Some [(''title'', PStr (''VELOX Sprint 4 live acceptance '' @ stamp)),
          (''body'', PStr (''Live Sprint 4 acceptance produced through the canonical VELOX Software Engineering control plane.''
             @ [CHR 0x0A, CHR 0x0A] @ ''Action: '' @ uuid_str i))]),
      acceptance_request ''GET'' (status_path i) None]"

definition acceptance_keep_requests :: "uuid \<Rightarrow> console_request list" where
  "acceptance_keep_requests i =
     [acceptance_request ''POST'' (task_path (uuid_str i) ''/work-product/disposition'') (Some [(''disposition'', PStr ''keep'')]),
      acceptance_request ''GET'' (status_path i) None]"

definition acceptance_execution_requests :: "uuid \<Rightarrow> console_request list" where
  "acceptance_execution_requests i =
     [acceptance_request ''POST'' (''/actions/'' @ uuid_str i @ ''/approve'') None,
      acceptance_request ''POST'' (task_path (uuid_str i) ''/execute'') None,
      acceptance_request ''GET'' (status_path i) None]"

definition acceptance_start_requests :: "string \<Rightarrow> console_request list" where
  "acceptance_start_requests marker_line =
     [acceptance_request ''GET'' ''/health'' None,
      acceptance_request ''POST'' ''/tasks/software-engineering''
        (Some [(''objective'', PStr (acceptance_objective marker_line)), (''target'', PStr ACCEPTANCE_TARGET)])]"

text \<open>What the typed lines allow: approval and execution, keeping, promotion.\<close>

fun confirmed_requests :: "string \<Rightarrow> uuid \<Rightarrow> nat \<Rightarrow> string list \<Rightarrow> console_request list" where
  "confirmed_requests stamp i stage [] = []"
| "confirmed_requests stamp i stage (l # ls) =
     (if stage = 0 then (if str_strip l = uuid_str i then acceptance_execution_requests i @ confirmed_requests stamp i 1 ls else [])
      else if stage = 1 then (if str_strip l = ''keep'' then acceptance_keep_requests i @ confirmed_requests stamp i 2 ls else [])
      else if str_strip l = ''promote'' then acceptance_promotion_requests stamp i else [])"

definition acceptance_script :: "datetime \<Rightarrow> string \<Rightarrow> string list \<Rightarrow> uuid \<Rightarrow> console_request list" where
  "acceptance_script now marker_suffix ls i =
     (case acceptance_stamp now of
        Inl e \<Rightarrow> []
      | Inr stamp \<Rightarrow> acceptance_start_requests (marker_line_of stamp marker_suffix) @ confirmed_requests stamp i 0 ls)"

lemma sends_request_json [session_intros]: "sends q (request_json client q)"
  unfolding request_json_def Let_def by (intro session_intros) (auto intro: session_intros split: pyval.splits)

lemma follows_refuse:
  "(ok \<Longrightarrow> follows Q script ls (f ())) \<Longrightarrow> follows Q script ls (bnd (refuse_unless ok m) f)"
  by (cases ok) (auto simp: refuse_unless_def bnd_def follows_def intro: exI [of _ "[]"])

lemmas acceptance_steps = follows_bnd_sends [OF sends_request_json] follows_refuse
  follows_bnd_silent [OF silent_basic(3)] follows_bnd_silent [OF silent_basic(5)]

lemma promotion_accepted:
  "follows (\<lambda>_::unit. \<lambda>p x. p = acceptance_promotion_requests stamp i \<and> acr_action_id x = i)
     (\<lambda>_. acceptance_promotion_requests stamp i) ls (acceptance_promotion client stamp i)"
  unfolding acceptance_promotion_def acceptance_promotion_requests_def
  by (intro acceptance_steps follows_ret) simp_all

lemma disposition_accepted:
  "follows (\<lambda>_::unit. \<lambda>p x. p = acceptance_keep_requests i @ acceptance_promotion_requests stamp i \<and> acr_action_id x = i)
     (\<lambda>_. confirmed_requests stamp i 1 ls) ls (acceptance_disposition client stamp i)"
  unfolding acceptance_disposition_def
proof (rule follows_bnd_silent [OF silent_basic(5)], rule follows_read, rule follows_refuse, goal_cases)
  case (1 _ kept rest)
  have "follows (\<lambda>_::unit. \<lambda>p x. p = acceptance_promotion_requests stamp i \<and> acr_action_id x = i)
      (\<lambda>_. confirmed_requests stamp i 2 rest) rest
      (bnd read_line (\<lambda>wanted.
       bnd (refuse_unless (str_strip wanted = ''promote'') ''operator did not approve guarded promotion'') (\<lambda>_.
       acceptance_promotion client stamp i)))"
    by (rule follows_read, rule follows_refuse) (use promotion_accepted in simp)
  with 1 show ?case
    by (simp add: acceptance_keep_requests_def) (intro acceptance_steps, simp)
qed

lemma execution_accepted:
  "follows (\<lambda>_::unit. \<lambda>p x. p = acceptance_execution_requests i @ acceptance_keep_requests i @ acceptance_promotion_requests stamp i
       \<and> acr_action_id x = i)
     (\<lambda>_. confirmed_requests stamp i 0 ls) ls (acceptance_execution client py_repr stamp marker_line i)"
  unfolding acceptance_execution_def
proof (rule follows_read, rule follows_refuse, goal_cases)
  case (1 typed rest)
  have silent: "silent (show_review py_repr execution marker_line)" for execution
    unfolding show_review_def Let_def by (intro session_intros)
  show ?case
    unfolding 1(1) confirmed_requests.simps using 1(2)
    by (simp add: acceptance_execution_requests_def del: append_Cons)
      (unfold append_Cons append_Nil, intro acceptance_steps follows_bnd_silent [OF silent],
       simp add: disposition_accepted [unfolded One_nat_def])
qed

lemma session_accepted:
  "follows (\<lambda>i p x. acr_action_id x = i
       \<and> p = acceptance_start_requests marker_line @ acceptance_execution_requests i @ acceptance_keep_requests i
               @ acceptance_promotion_requests stamp i)
     (\<lambda>i. acceptance_start_requests marker_line @ confirmed_requests stamp i 0 ls) ls
     (acceptance_session client py_repr stamp marker_line)"
  unfolding acceptance_session_def acceptance_start_requests_def append_Cons append_Nil
  by (intro acceptance_steps(1,2), rule follows_bnd_obtained [OF silent_basic(3)], rule acceptance_steps(4))
     (use execution_accepted in \<open>simp add: conj_commute\<close>)

lemma run_accepted:
  "follows (\<lambda>i p x. \<exists>stamp. acceptance_stamp now = Inr stamp \<and> acr_action_id x = i
       \<and> p = acceptance_start_requests (marker_line_of stamp marker_suffix) @ acceptance_execution_requests i
               @ acceptance_keep_requests i @ acceptance_promotion_requests stamp i)
     (acceptance_script now marker_suffix ls) ls (run_acceptance client py_repr now marker_suffix)"
proof (cases "acceptance_stamp now")
  case (Inl e)
  then show ?thesis
    by (auto simp: run_acceptance_def bnd_def intro!: followsI exI [of _ "[]"])
next
  case (Inr stamp)
  then show ?thesis
    using session_accepted [of "marker_line_of stamp marker_suffix" stamp ls client py_repr]
    by (simp add: run_acceptance_def bnd_def [of "liftr _"] acceptance_script_def [abs_def])
qed

lemma confirmed_lengths:
  "length (confirmed_requests stamp i 2 ls) \<le> 2" "length (confirmed_requests stamp i (Suc 0) ls) \<le> 4"
  "length (confirmed_requests stamp i 0 ls) \<le> 7"
proof -
  show two: "length (confirmed_requests stamp i 2 ls) \<le> 2" for ls
    by (cases ls) (simp_all add: acceptance_promotion_requests_def)
  show one: "length (confirmed_requests stamp i (Suc 0) ls) \<le> 4" for ls
    using two [of "tl ls"] by (cases ls) (simp_all add: acceptance_keep_requests_def)
  show "length (confirmed_requests stamp i 0 ls) \<le> 7"
    using one [of "tl ls"] by (cases ls) (simp_all add: acceptance_execution_requests_def)
qed

lemma acceptance_script_length: "length (acceptance_script now marker_suffix ls i) \<le> 9"
  using confirmed_lengths(3) [of _ i ls]
  by (auto simp: acceptance_script_def acceptance_start_requests_def split: sum.split)

text \<open>C37. What an acceptance run sends. Health is read and the task delegated without a confirmation. Whatever the server
  answers, the requests are a prefix of the script that the typed lines allow: the approval, execution and inspection of an
  action follow when its identifier was typed, the disposition and inspection when then keep was typed, the
  promotion and inspection when then promote was typed. A result for an action is returned only when all these nine requests
  were sent.\<close>

theorem acceptance_confirmed:
  assumes "run_acceptance client py_repr now marker_suffix s = (r, s')" "con_requests s = []"
  shows "\<exists>i. prefix (con_requests s') (acceptance_script now marker_suffix (con_input s) i)
    \<and> (\<forall>x. r = Inr x \<longrightarrow> acr_action_id x = i \<and> length (con_requests s') = 9
         \<and> con_requests s' = acceptance_script now marker_suffix (con_input s) i)"
proof -
  obtain i where p: "prefix (con_requests s') (acceptance_script now marker_suffix (con_input s) i)"
    and ret: "\<And>x. r = Inr x \<Longrightarrow> \<exists>stamp. acceptance_stamp now = Inr stamp \<and> acr_action_id x = i
       \<and> con_requests s' = acceptance_start_requests (marker_line_of stamp marker_suffix) @ acceptance_execution_requests i
               @ acceptance_keep_requests i @ acceptance_promotion_requests stamp i"
    using followsD [OF run_accepted [where client = client and py_repr = py_repr and now = now and marker_suffix = marker_suffix]
        refl, of s] assms by auto
  have "acr_action_id x = i \<and> length (con_requests s') = 9" if "r = Inr x" for x
    using ret [OF that] by (auto simp: acceptance_start_requests_def acceptance_execution_requests_def
        acceptance_keep_requests_def acceptance_promotion_requests_def)
  moreover have "con_requests s' = acceptance_script now marker_suffix (con_input s) i" if "length (con_requests s') = 9"
    using p that acceptance_script_length [of now marker_suffix "con_input s" i] by (auto simp: prefix_def)
  ultimately show ?thesis using p by blast
qed

definition scripted_client :: "pydict list http_client" where
  "scripted_client q w = (case w of
      [] \<Rightarrow> (Inl (HttpxError ''ReadError''), [])
    | d # rest \<Rightarrow> (Inr \<lparr>hr_status_code = 200, hr_json = Some (PDict d)\<rparr>, rest))"

definition accepting_responses :: "pydict list" where
  "accepting_responses =
     [[(''status'', PStr ''ok'')], [(''status'', PStr ''awaiting_approval''), (''action_id'', PStr (uuid_str 7))],
      [(''lifecycle'', PDict [(''status'', PStr ''approved'')])],
      [(''processed'', PBool True), (''execution_status'', PStr ''succeeded''), (''lifecycle_status'', PStr ''completed''),
       (''external_execution_performed'', PBool True), (''review_status'', PStr ''available''),
       (''review'', PDict [(''canonical_clean'', PBool True), (''canonical_unchanged'', PBool True), (''dirty'', PBool True),
          (''changed_files'', PList [PStr ACCEPTANCE_LOG]), (''untracked_files'', PList []),
          (''diff'', PStr (marker_line_of ''20240229T130509Z'' ''x''))])],
      [(''phase'', PStr ''succeeded'')],
      [(''disposition'', PStr ''keep''), (''succeeded'', PBool True), (''canonical_unchanged'', PBool True)],
      [(''phase'', PStr ''kept'')],
      [(''commit_sha'', PStr ''c''), (''pull_request_number'', PInt 1), (''pull_request_url'', PStr ''u'')],
      [(''phase'', PStr ''promoted''), (''promoted'', PBool True), (''pull_request_number'', PInt 1), (''pull_request_url'', PStr ''u'')]]"

definition acceptance_console :: "pydict list console" where
  "acceptance_console = \<lparr>con_world = accepting_responses, con_requests = [], con_input = [uuid_str 7, ''keep'', ''promote''],
     con_out = [], con_err = []\<rparr>"

lemma seven_text: "str_strip (uuid_str 7) = uuid_str 7" "uuid_str 7 \<noteq> ''''" "str_strip ''keep'' = ''keep''"
  "str_strip ''promote'' = ''promote''"
  by code_simp+

lemma str_contains_self: "str_contains s s"
  by (metis append_Nil append_Nil2 str_contains_iff)

lemma accepting_session:
  "\<exists>x. fst (acceptance_session scripted_client (\<lambda>_. '''') stamp (marker_line_of ''20240229T130509Z'' ''x'') acceptance_console) = Inr x"
  by (simp add: acceptance_session_def acceptance_execution_def acceptance_disposition_def acceptance_promotion_def
      acceptance_console_def accepting_responses_def scripted_client_def request_json_def send_request_def on_con_world_def
      bnd_def try_except_def refuse_unless_def read_line_def print_out_def show_review_def accepted_review_def
      acceptance_require_text_def require_int_def pd_get_def pd_get_or_def rbind_def seven_text uuid_of_str_uuid_str Let_def
      str_contains_self marker_line_of_def py_number_def)

lemma sample_stamp: "acceptance_stamp sample_time = Inr ''20240229T130509Z''"
proof -
  have "to_utc sample_time = Inr sample_time"
    by (simp add: to_utc_def dt_instant_def dt_local_def sample_time_def add_days_def rbind_def dt_date_def days_before_year_def
        days_before_month_def leap_year_def days_in_month_def Let_def)
  moreover have "padded 4 2024 = ''2024''" "padded 2 2 = ''02''" "padded 2 29 = ''29''" "padded 2 13 = ''13''"
    "padded 2 5 = ''05''" "padded 2 9 = ''09''"
    by code_simp+
  ultimately show ?thesis by (simp add: acceptance_stamp_def rbind_def sample_time_def)
qed

theorem acceptance_confirmed_witness:
  "length (con_requests (snd (run_acceptance scripted_client (\<lambda>_. '''') sample_time ''x'' acceptance_console))) = 9"
proof -
  let ?run = "run_acceptance scripted_client (\<lambda>_. '''') sample_time ''x'' acceptance_console"
  obtain x where "fst ?run = Inr x"
    using accepting_session by (auto simp: run_acceptance_def sample_stamp bnd_def [of "liftr _"])
  then have "?run = (Inr x, snd ?run)" by (metis prod.collapse)
  from acceptance_confirmed [OF this] show ?thesis by (auto simp: acceptance_console_def)
qed

end
