(* ===== verification/OAuth_CLI.thy ===== *)
theory OAuth_CLI
  imports Google_OAuth
begin

text \<open>
  \<open>integrations/google_oauth_cli.py\<close>: the local command that connects an account or reports on its stored credentials.
  Parsing the options (argparse) is a parameter; so is \<open>json.dumps\<close>, in the compact form of the stored
  material (\<open>json_dumps\<close>) and in the form of the printed lines (\<open>json_line\<close>). The flow itself prints the authorization URL; that
  text is part of the flow and is left out.
\<close>

section \<open>Errors\<close>

datatype GoogleOAuthCliFailureCode =
    INVALID_INPUT
  | CREDENTIAL_STORE_UNAVAILABLE
  | CREDENTIAL_ALREADY_EXISTS
  | ACCOUNT_MISMATCH
  | OAUTH_BOOTSTRAP_FAILED
  | CREDENTIAL_MISSING
  | CREDENTIAL_MALFORMED

fun oauth_cli_code_value :: "GoogleOAuthCliFailureCode \<Rightarrow> string" where
  "oauth_cli_code_value INVALID_INPUT = ''invalid_input''"
| "oauth_cli_code_value CREDENTIAL_STORE_UNAVAILABLE = ''credential_store_unavailable''"
| "oauth_cli_code_value CREDENTIAL_ALREADY_EXISTS = ''credential_already_exists''"
| "oauth_cli_code_value ACCOUNT_MISMATCH = ''account_mismatch''"
| "oauth_cli_code_value OAUTH_BOOTSTRAP_FAILED = ''oauth_bootstrap_failed''"
| "oauth_cli_code_value CREDENTIAL_MISSING = ''credential_missing''"
| "oauth_cli_code_value CREDENTIAL_MALFORMED = ''credential_malformed''"

fun oauth_cli_message :: "GoogleOAuthCliFailureCode \<Rightarrow> string" where
  "oauth_cli_message INVALID_INPUT = ''OAuth command input is invalid''"
| "oauth_cli_message CREDENTIAL_STORE_UNAVAILABLE = ''the macOS Keychain credential store is unavailable''"
| "oauth_cli_message CREDENTIAL_ALREADY_EXISTS =
     ''a credential already exists for this account; rerun with --replace to replace it''"
| "oauth_cli_message ACCOUNT_MISMATCH = ''the authenticated Google account does not match the expected email''"
| "oauth_cli_message OAUTH_BOOTSTRAP_FAILED = ''Google OAuth bootstrap did not complete''"
| "oauth_cli_message CREDENTIAL_MISSING = ''no stored Google credential exists for this account''"
| "oauth_cli_message CREDENTIAL_MALFORMED = ''the stored Google credential is not valid refresh-capable material''"

record oauth_cli_error =
  oce_code :: GoogleOAuthCliFailureCode
  oce_authorizer_error_type :: "string option"
  oce_authorizer_credential_fields :: "pydict option"

definition oauth_cli_error_of :: "GoogleOAuthCliFailureCode \<Rightarrow> oauth_cli_error" where
  "oauth_cli_error_of code = \<lparr>oce_code = code, oce_authorizer_error_type = None, oce_authorizer_credential_fields = None\<rparr>"

definition oauth_cli_error_dict :: "oauth_cli_error \<Rightarrow> pydict" where
  "oauth_cli_error_dict e =
     [(''status'', PStr ''failed''), (''failure_code'', PStr (oauth_cli_code_value (oce_code e))),
      (''message'', PStr (oauth_cli_message (oce_code e)))]
     @ (case oce_authorizer_error_type e of None \<Rightarrow> [] | Some t \<Rightarrow> [(''authorizer_error_type'', PStr t)])
     @ (case oce_authorizer_credential_fields e of None \<Rightarrow> [] | Some d \<Rightarrow> [(''authorizer_credential_fields'', PDict d)])"

section \<open>Authorizers\<close>

definition present_text :: "pyval \<Rightarrow> bool" where
  "present_text v = (require_non_blank_text v \<noteq> None)"

text \<open>What the diagnostic authorizer has recorded; the world is that of the wrapped authorizer.\<close>

record 'w oauth_cli_host = "'w oauth_host" +
  och_error_type :: "string option"
  och_credential_fields :: "pydict option"

fun oauth_error_name :: "oauth_error \<Rightarrow> string" where
  "oauth_error_name GoogleOAuthBootstrapError = ''GoogleOAuthBootstrapError''"
| "oauth_error_name GoogleOAuthScopeMismatchError = ''GoogleOAuthScopeMismatchError''"
| "oauth_error_name GoogleOAuthAccountMismatchError = ''GoogleOAuthAccountMismatchError''"
| "oauth_error_name (CredentialStoreFailure e) = exc_name e"

definition credential_field_presence :: "oauth_fields option \<Rightarrow> pydict" where
  "credential_field_presence found =
     (let entry = (\<lambda>name sel. (name @ ''_present'', PBool (case found of None \<Rightarrow> False | Some f \<Rightarrow> present_text (sel f)))) in
      [entry ''refresh_token'' of_refresh_token, entry ''id_token'' of_id_token, entry ''client_id'' of_client_id,
       entry ''client_secret'' of_client_secret])"

text \<open>The credentials of google-auth have the four attributes; an access that raises is an error of the authorizer.\<close>

definition diagnostic_authorize ::
  "('w, 'z) oauth_cli_host_scheme oauth_authorizer \<Rightarrow> ('w, 'z) oauth_cli_host_scheme oauth_authorizer" where
  "diagnostic_authorize inner client_secrets_file scopes =
     bnd (try_except (inner client_secrets_file scopes)
            (\<lambda>e. bnd (modify (och_error_type_update (\<lambda>_. Some (exc_name e)))) (\<lambda>_. raise_exc e))) (\<lambda>r.
     case r of
       Inl err \<Rightarrow> bnd (modify (och_error_type_update (\<lambda>_. Some (oauth_error_name err)))) (\<lambda>_. ret r)
     | Inr None \<Rightarrow> bnd (modify (och_credential_fields_update (\<lambda>_. Some (credential_field_presence None)))) (\<lambda>_. ret r)
     | Inr (Some credentials) \<Rightarrow>
         bnd (liftr (oc_fields credentials)) (\<lambda>f.
         bnd (modify (och_credential_fields_update (\<lambda>_. Some (credential_field_presence (Some f))))) (\<lambda>_. ret r)))"

definition AUTHORIZATION_URL_PREFIX :: string where
  "AUTHORIZATION_URL_PREFIX = ''VELOX authorization URL: ''"

definition manual_open_authorize ::
  "(('w, 'z) oauth_host_scheme, 'f) installed_app_flow \<Rightarrow> ('w, 'z) oauth_host_scheme oauth_authorizer" where
  "manual_open_authorize iaf client_secrets_file scopes =
     bnd (run_installed_app_flow iaf client_secrets_file scopes False (AUTHORIZATION_URL_PREFIX @ ''{url}'')) (\<lambda>r.
     ret (map_sum id Some r))"

section \<open>The commands\<close>

datatype oauth_command =
    ConnectCommand string string string bool bool
      \<comment> \<open>account identifier, expected e-mail address, client secrets, replace, no browser\<close>
  | VerifyCommand string

definition oauth_connect_failure :: "('w, 'z) oauth_cli_host_scheme \<Rightarrow> oauth_error \<Rightarrow> oauth_cli_error" where
  "oauth_connect_failure s e =
     (case e of
        CredentialStoreFailure (CredentialAlreadyExistsError _) \<Rightarrow> oauth_cli_error_of CREDENTIAL_ALREADY_EXISTS
      | CredentialStoreFailure _ \<Rightarrow> oauth_cli_error_of CREDENTIAL_STORE_UNAVAILABLE
      | GoogleOAuthAccountMismatchError \<Rightarrow> oauth_cli_error_of ACCOUNT_MISMATCH
      | _ \<Rightarrow> \<lparr>oce_code = OAUTH_BOOTSTRAP_FAILED, oce_authorizer_error_type = och_error_type s,
             oce_authorizer_credential_fields = och_credential_fields s\<rparr>)"

definition oauth_connect_report :: "oauth_connect_result \<Rightarrow> pydict" where
  "oauth_connect_report r =
     [(''status'', PStr ''succeeded''), (''command'', PStr ''connect''),
      (''credential_namespace'', PStr (cr_namespace (ocs_credential_reference r))),
      (''account_identifier'', PStr (ocs_account_identifier r)),
      (''verified_google_email'', PStr (ocs_verified_google_email r)), (''scopes'', PList (map PStr (ocs_scopes r)))]"

definition oauth_cli_connect ::
  "(('w, 'z) oauth_cli_host_scheme, 'f) installed_app_flow
     \<Rightarrow> (string \<Rightarrow> string \<Rightarrow> (('w, 'z) oauth_cli_host_scheme, pydict option) prog)
     \<Rightarrow> ('w, 'z) oauth_cli_host_scheme credential_ops \<Rightarrow> (pydict \<Rightarrow> string) \<Rightarrow> oauth_connect_request \<Rightarrow> bool
     \<Rightarrow> (('w, 'z) oauth_cli_host_scheme, oauth_cli_error + pydict) prog" where
  "oauth_cli_connect iaf verify ops json_dumps r no_browser =
     bnd (modify (och_error_type_update (\<lambda>_. None) \<circ> och_credential_fields_update (\<lambda>_. None))) (\<lambda>_.
     bnd (oauth_connect (diagnostic_authorize (if no_browser then manual_open_authorize iaf else installed_app_authorize iaf))
            verify ops json_dumps r) (\<lambda>outcome.
     bnd (gets id) (\<lambda>s.
     ret (map_sum (oauth_connect_failure s) oauth_connect_report outcome))))"

definition EXPECTED_CREDENTIAL_FIELDS :: "string list" where
  "EXPECTED_CREDENTIAL_FIELDS = [''client_id'', ''client_secret'', ''refresh_token'', ''scopes'']"

definition FORBIDDEN_PERSISTED_FIELDS :: "string list" where
  "FORBIDDEN_PERSISTED_FIELDS = [''access_token'', ''id_token'', ''token'']"

definition oauth_verify_report :: "string \<Rightarrow> pydict \<Rightarrow> pydict" where
  "oauth_verify_report account_identifier parsed =
     [(''status'', PStr ''succeeded''), (''command'', PStr ''verify''),
      (''credential_namespace'', PStr GOOGLE_OAUTH_CREDENTIAL_NAMESPACE), (''account_identifier'', PStr account_identifier),
      (''credential_present'', PBool True), (''material_parses'', PBool True), (''refresh_token_present'', PBool True),
      (''client_id_present'', PBool True), (''client_secret_present'', PBool True),
      (''scopes'', PList (map PStr GOOGLE_OAUTH_SCOPES)),
      (''persisted_forbidden_fields'', PList (map PStr (filter (dict_has parsed) FORBIDDEN_PERSISTED_FIELDS)))]"

text \<open>The checks on the stored text, up to the report.\<close>

definition verify_material :: "(string \<Rightarrow> pyval option) \<Rightarrow> string \<Rightarrow> string \<Rightarrow> oauth_cli_error + pydict" where
  "verify_material json_loads account_identifier serialized =
     (case json_loads serialized of
        Some (PDict parsed) \<Rightarrow>
          if set (map fst parsed) \<noteq> set EXPECTED_CREDENTIAL_FIELDS then Inl (oauth_cli_error_of CREDENTIAL_MALFORMED)
          else if \<not> list_all (\<lambda>k. present_text (pd_get parsed k)) [''client_id'', ''client_secret'', ''refresh_token'']
          then Inl (oauth_cli_error_of CREDENTIAL_MALFORMED)
          else (case pd_get parsed ''scopes'' of
              PList scopes \<Rightarrow>
                if scopes \<noteq> map PStr GOOGLE_OAUTH_SCOPES then Inl (oauth_cli_error_of CREDENTIAL_MALFORMED)
                else Inr (oauth_verify_report account_identifier parsed)
            | _ \<Rightarrow> Inl (oauth_cli_error_of CREDENTIAL_MALFORMED))
      | _ \<Rightarrow> Inl (oauth_cli_error_of CREDENTIAL_MALFORMED))"

text \<open>\<open>raise ... from None\<close> for a failure of the backend; any other exception goes on.\<close>

definition oauth_cli_verify ::
  "'s credential_ops \<Rightarrow> (string \<Rightarrow> pyval option) \<Rightarrow> string \<Rightarrow> ('s, oauth_cli_error + pydict) prog" where
  "oauth_cli_verify ops json_loads account_identifier =
     (if str_blank account_identifier \<or> account_identifier \<noteq> str_strip account_identifier
      then ret (Inl (oauth_cli_error_of INVALID_INPUT))
      else bnd (liftr (mk_credential_reference GOOGLE_OAUTH_CREDENTIAL_NAMESPACE account_identifier)) (\<lambda>reference.
        bnd (try_except (bnd (co_get ops reference) (\<lambda>m. ret (Inr m)))
               (\<lambda>e. if e = CredentialStoreBackendError then ret (Inl (oauth_cli_error_of CREDENTIAL_STORE_UNAVAILABLE))
                     else raise_exc e)) (\<lambda>found.
        ret (case found of
            Inl e \<Rightarrow> Inl e
          | Inr None \<Rightarrow> Inl (oauth_cli_error_of CREDENTIAL_MISSING)
          | Inr (Some material) \<Rightarrow> verify_material json_loads account_identifier (cm_value material)))))"

record oauth_cli_output =
  oco_stdout :: "string list"
  oco_stderr :: "string list"
  oco_exit :: int

definition oauth_cli_failed :: "(pydict \<Rightarrow> string) \<Rightarrow> oauth_cli_error \<Rightarrow> oauth_cli_output" where
  "oauth_cli_failed json_line e =
     \<lparr>oco_stdout = [], oco_stderr = [json_line (oauth_cli_error_dict e)], oco_exit = (if oce_code e = INVALID_INPUT then 2 else 1)\<rparr>"

definition oauth_cli_main ::
  "(('w, 'z) oauth_cli_host_scheme, 'f) installed_app_flow
     \<Rightarrow> (string \<Rightarrow> string \<Rightarrow> (('w, 'z) oauth_cli_host_scheme, pydict option) prog)
     \<Rightarrow> ('w, 'z) oauth_cli_host_scheme keyring_selection option \<Rightarrow> (pydict \<Rightarrow> string) \<Rightarrow> (pydict \<Rightarrow> string) \<Rightarrow> (string \<Rightarrow> pyval option)
     \<Rightarrow> (string list \<Rightarrow> oauth_command option) \<Rightarrow> string list
     \<Rightarrow> (('w, 'z) oauth_cli_host_scheme, oauth_cli_output) prog" where
  "oauth_cli_main iaf verify selected json_dumps json_line json_loads parse_args argv =
     (case parse_args argv of
        None \<Rightarrow> ret \<lparr>oco_stdout = [], oco_stderr = [], oco_exit = 2\<rparr>
      | Some command \<Rightarrow>
          (case mk_keychain_store None selected of
             Inl _ \<Rightarrow> ret (oauth_cli_failed json_line (oauth_cli_error_of CREDENTIAL_STORE_UNAVAILABLE))
           | Inr kb \<Rightarrow>
               try_except
                 (bnd (case command of
                         ConnectCommand account email secrets replace no_browser \<Rightarrow>
                           oauth_cli_connect iaf verify (keyring_ops kb) json_dumps
                             \<lparr>ocr_client_secrets_file = secrets, ocr_account_identifier = account,
                              ocr_expected_google_email = email, ocr_replace = replace\<rparr> no_browser
                       | VerifyCommand account \<Rightarrow> oauth_cli_verify (keyring_ops kb) json_loads account) (\<lambda>outcome.
                  ret (case outcome of
                      Inl e \<Rightarrow> oauth_cli_failed json_line e
                    | Inr report \<Rightarrow> \<lparr>oco_stdout = [json_line report], oco_stderr = [], oco_exit = 0\<rparr>)))
                 (\<lambda>_. ret (oauth_cli_failed json_line (oauth_cli_error_of OAUTH_BOOTSTRAP_FAILED)))))"

end
