(* ===== verification/OAuth_CLI_Properties.thy ===== *)
theory OAuth_CLI_Properties
  imports OAuth_CLI OAuth_Properties
begin

text \<open>
  The report of the command \<open>verify\<close> is exactly what the server will be able to use, and says nothing else of the
  material.
\<close>

lemma expected_fields: "set EXPECTED_CREDENTIAL_FIELDS = set STORED_GOOGLE_CREDENTIAL_FIELDS"
  by (auto simp: EXPECTED_CREDENTIAL_FIELDS_def STORED_GOOGLE_CREDENTIAL_FIELDS_def)

lemma no_forbidden_fields:
  "set (map fst d) = set STORED_GOOGLE_CREDENTIAL_FIELDS \<Longrightarrow> filter (dict_has d) FORBIDDEN_PERSISTED_FIELDS = []"
  by (auto simp: filter_empty_conv FORBIDDEN_PERSISTED_FIELDS_def STORED_GOOGLE_CREDENTIAL_FIELDS_def dict_has_def map_of_eq_None_iff)

lemma verify_material_eq:
  "verify_material json_loads account serialized =
     (if parse_credential_material json_loads serialized = None then Inl (oauth_cli_error_of CREDENTIAL_MALFORMED)
      else Inr (oauth_verify_report account []))"
  by (auto simp: verify_material_def parse_credential_material_def present_text_def expected_fields oauth_verify_report_def
      no_forbidden_fields dict_has_def split: option.split pyval.split)

text \<open>C40. The report agrees with the server. For an account the server accepts, the command \<open>verify\<close> reads the
  keychain once and changes nothing else: it reports success exactly when the provider of stored credentials would accept
  the material, and otherwise that the keychain failed, holds nothing, or holds malformed material. What it reports
  depends on nothing else in the material, so no stored value can appear in it.\<close>

theorem verify_agrees_with_provider:
  assumes "valid_routing_identifier (Some account)"
  shows "oauth_cli_verify ops json_loads account s =
    (case co_get ops (oauth_reference account) s of
       (Inl e, s') \<Rightarrow> (if e = CredentialStoreBackendError then Inr (Inl (oauth_cli_error_of CREDENTIAL_STORE_UNAVAILABLE)) else Inl e, s')
     | (Inr None, s') \<Rightarrow> (Inr (Inl (oauth_cli_error_of CREDENTIAL_MISSING)), s')
     | (Inr (Some m), s') \<Rightarrow>
         (Inr (if parse_credential_material json_loads (cm_value m) = None then Inl (oauth_cli_error_of CREDENTIAL_MALFORMED)
               else Inr (oauth_verify_report account [])), s'))"
proof -
  have "\<not> str_blank account" "account = str_strip account" using assms by (auto simp: valid_routing_identifier_def)
  then show ?thesis
    by (auto simp: oauth_cli_verify_def oauth_reference_made bnd_def try_except_def verify_material_eq split: prod.split sum.split option.split)
qed

theorem verify_agrees_with_provider_witness:
  "fst (oauth_cli_verify (keyring_ops pilot_backend) pilot_loads ''mine'' pilot_start) = Inr (Inl (oauth_cli_error_of CREDENTIAL_MISSING))"
proof -
  have "valid_routing_identifier (Some ''mine'')" by code_simp
  moreover have "fst (keyring_get pilot_backend (oauth_reference ''mine'') pilot_start) = Inr None" by code_simp
  ultimately show ?thesis
    using verify_agrees_with_provider [of "''mine''" "keyring_ops pilot_backend" pilot_loads pilot_start]
    by (cases "keyring_get pilot_backend (oauth_reference ''mine'') pilot_start") simp
qed

end
