(* ===== verification/Composition.thy ===== *)
theory Composition
  imports Server Claude_Code Gmail Calendar_Agenda Google_OAuth
begin

text \<open>
  The composition root: the settings of \<open>core/config.py\<close>, the composition of the coding worker in
  \<open>integrations/software_engineering_runtime.py\<close>, the container of \<open>core/container.py\<close> as a configuration of the server, and the
  lifespan of \<open>main.py\<close> with the live agenda of \<open>integrations/calendar_agenda_runtime.py\<close>. Reading the settings from the environment
  (pydantic) is left out: \<open>settings\<close> holds the values after their conversion. Expanding a home directory is the parameter \<open>expand\<close>.
\<close>

section \<open>Settings\<close>

record settings =
  set_api_token :: "string option"
  set_calendar_agenda_live :: bool
  set_calendar_agenda_resolver :: string
  set_ollama_base_url :: string
  set_ollama_model :: "string option"
  set_software_engineering_provider :: string
  set_software_engineering_workspace :: "string option"
  set_software_engineering_timeout_seconds :: int
  set_state_database_path :: "string option"
  set_claude_code_executable :: string
  set_promotion_enabled :: bool
  set_promotion_remote :: string
  set_promotion_base_branch :: string
  set_promotion_author_name :: string
  set_promotion_author_email :: string
  set_github_cli_executable :: string
  set_log_level :: string
  set_max_transient_retries :: int

definition default_settings :: settings where
  "default_settings =
     \<lparr>set_api_token = None, set_calendar_agenda_live = False, set_calendar_agenda_resolver = ''bounded'',
      set_ollama_base_url = ''http://127.0.0.1:11434'', set_ollama_model = None,
      set_software_engineering_provider = ''disabled'', set_software_engineering_workspace = None,
      set_software_engineering_timeout_seconds = 1800, set_state_database_path = None,
      set_claude_code_executable = ''claude'', set_promotion_enabled = False, set_promotion_remote = ''origin'',
      set_promotion_base_branch = ''main'', set_promotion_author_name = ''VELOX'',
      set_promotion_author_email = ''velox@localhost'', set_github_cli_executable = ''gh'', set_log_level = ''INFO'',
      set_max_transient_retries = 3\<rparr>"

text \<open>The validator of a field with a value given.\<close>

definition blank_api_token_disables_auth :: "string option \<Rightarrow> string option" where
  "blank_api_token_disables_auth v = (case v of None \<Rightarrow> None | Some t \<Rightarrow> if str_blank t then None else Some t)"

definition or_empty :: "string option \<Rightarrow> string" where
  "or_empty v = (case v of None \<Rightarrow> '''' | Some t \<Rightarrow> t)"

definition trusted_promotion_values :: "settings \<Rightarrow> (string \<times> string) list" where
  "trusted_promotion_values s =
     [(''VELOX_SOFTWARE_ENGINEERING_PROMOTION_REMOTE'', set_promotion_remote s),
      (''VELOX_SOFTWARE_ENGINEERING_PROMOTION_BASE_BRANCH'', set_promotion_base_branch s),
      (''VELOX_SOFTWARE_ENGINEERING_PROMOTION_AUTHOR_NAME'', set_promotion_author_name s),
      (''VELOX_SOFTWARE_ENGINEERING_PROMOTION_AUTHOR_EMAIL'', set_promotion_author_email s),
      (''VELOX_GITHUB_CLI_EXECUTABLE'', set_github_cli_executable s)]"

fun refuse_blank :: "(string \<times> string) list \<Rightarrow> unit result" where
  "refuse_blank [] = Inr ()"
| "refuse_blank ((name, v) # rest) =
     (if str_blank v then Inl (ValueError (name @ '' must not be blank'')) else refuse_blank rest)"

definition check_state_path :: "(path \<Rightarrow> path result) \<Rightarrow> string option \<Rightarrow> unit result" where
  "check_state_path expand v =
     (case v of
        None \<Rightarrow> Inr ()
      | Some p \<Rightarrow>
          rbind (expand (path_of_str p)) (\<lambda>state_path.
          if \<not> path_abs state_path
          then Inl (ValueError ''VELOX_SOFTWARE_ENGINEERING_STATE_DATABASE_PATH must be absolute'')
          else Inr ()))"

definition validate_opt_in_settings :: "(path \<Rightarrow> path result) \<Rightarrow> settings \<Rightarrow> settings result" where
  "validate_opt_in_settings expand s =
     (if set_calendar_agenda_resolver s \<notin> {''bounded'', ''ollama''}
      then Inl (ValueError ''VELOX_CALENDAR_AGENDA_RESOLVER must be bounded or ollama'')
      else if set_calendar_agenda_resolver s = ''ollama'' \<and> str_blank (or_empty (set_ollama_model s))
      then Inl (ValueError ''VELOX_OLLAMA_MODEL is required when resolver mode is ollama'')
      else if set_software_engineering_provider s \<notin> {''disabled'', ''claude_code''}
      then Inl (ValueError ''VELOX_SOFTWARE_ENGINEERING_PROVIDER must be disabled or claude_code'')
      else if set_software_engineering_provider s \<noteq> ''disabled'' \<and> str_blank (or_empty (set_software_engineering_workspace s))
      then Inl (ValueError ''VELOX_SOFTWARE_ENGINEERING_WORKSPACE is required when a provider is enabled'')
      else if set_software_engineering_timeout_seconds s < 1
      then Inl (ValueError ''VELOX_SOFTWARE_ENGINEERING_TIMEOUT_SECONDS must be positive'')
      else rbind (check_state_path expand (set_state_database_path s)) (\<lambda>_.
        if set_promotion_enabled s \<and> set_software_engineering_provider s = ''disabled''
        then Inl (ValueError ''VELOX_SOFTWARE_ENGINEERING_PROMOTION_ENABLED requires a worker provider'')
        else rbind (refuse_blank (trusted_promotion_values s)) (\<lambda>_.
          if str_startswith (set_promotion_remote s) ''-''
          then Inl (ValueError (''VELOX_SOFTWARE_ENGINEERING_PROMOTION_REMOTE must not start with '' @ quoted ''-''))
          else if str_startswith (set_promotion_base_branch s) ''-''
          then Inl (ValueError (''VELOX_SOFTWARE_ENGINEERING_PROMOTION_BASE_BRANCH must not start with '' @ quoted ''-''))
          else Inr s)))"

text \<open>\<open>Settings()\<close>: the token is normalized before the model validator runs.\<close>

definition mk_settings :: "(path \<Rightarrow> path result) \<Rightarrow> settings \<Rightarrow> settings result" where
  "mk_settings expand s = validate_opt_in_settings expand (s\<lparr>set_api_token := blank_api_token_disables_auth (set_api_token s)\<rparr>)"

section \<open>The coding worker\<close>

record 'w se_composition =
  sec_executor :: claude_code_executor
  sec_workspace :: trusted_git_workspace
  sec_review :: "'w reviewer"
  sec_apply :: "'w disposer"
  sec_publisher :: "'w publisher option"
  sec_state_path :: path

text \<open>The check of \<open>SqliteSoftwareEngineeringRunRepository.__init__\<close> on the path of the database.\<close>

definition check_database_path :: "path \<Rightarrow> unit result" where
  "check_database_path p =
     guard_exc (path_abs p) (run_error ''software engineering state database path must be absolute'')"

definition configured_software_engineering ::
  "'w host \<Rightarrow> (string \<Rightarrow> pyval option) \<Rightarrow> (path \<Rightarrow> path result) \<Rightarrow> settings \<Rightarrow> 'w se_composition option result" where
  "configured_software_engineering h json_loads expand s =
     (if set_software_engineering_provider s \<noteq> ''claude_code'' then Inr None
      else
        rbind (expand (path_of_str (or_empty (set_software_engineering_workspace s)))) (\<lambda>workspace_root.
        let workspace = \<lparr>tgw_root = workspace_root, tgw_worktrees_root = None, tgw_git = ''git''\<rparr> in
        rbind (case set_state_database_path s of
                 Some p \<Rightarrow> expand (path_of_str p)
               | None \<Rightarrow> rbind (expand workspace_root) default_software_engineering_state_path) (\<lambda>state_path.
        rbind (check_database_path state_path) (\<lambda>_.
        Inr (Some \<lparr>sec_executor = \<lparr>cce_workspace = workspace, cce_executable = set_claude_code_executable s,
                      cce_timeout_seconds = of_int (set_software_engineering_timeout_seconds s), cce_environment = None\<rparr>,
                   sec_workspace = workspace, sec_review = wp_review h workspace DEFAULT_DIFF_LIMIT,
                   sec_apply = wp_apply h workspace,
                   sec_publisher = (if set_promotion_enabled s
                                    then Some (gh_publish h (set_github_cli_executable s) json_loads) else None),
                   sec_state_path = state_path\<rparr>)))))"

section \<open>The container\<close>

datatype application_executor =
    NoOpWorkerExecutor
  | GmailWorkerExecutor
  | CalendarWorkerExecutor
  | ClaudeCodeSoftwareEngineeringExecutor claude_code_executor

text \<open>What the executors work with outside the process. \<open>aw_runner\<close> runs the coding worker's process, \<open>aw_json_loads\<close>
  decodes its report, \<open>aw_os_environ\<close> is the environment of the server, \<open>aw_repr\<close> is \<open>repr\<close>.\<close>

record 'w application_world =
  aw_host :: "'w host"
  aw_runner :: "'w process_runner"
  aw_json_loads :: "string \<Rightarrow> pyval option"
  aw_os_environ :: environment
  aw_repr :: "pyval \<Rightarrow> string"

definition default_calendar_events :: "(string \<times> calendar_event) list" where
  "default_calendar_events =
     [(''calendar-event-1'', \<lparr>ce_event_id = ''calendar-event-1'', ce_title = ''Sprint 1 planning'',
         ce_start = ''2026-07-27T09:00:00Z'', ce_end = ''2026-07-27T09:30:00Z'',
         ce_attendees = [''owner@example.com'', ''team@example.com'']\<rparr>)]"

fun application_run ::
  "'z gmail_world_scheme application_world \<Rightarrow> application_executor \<Rightarrow> action \<Rightarrow> string option \<Rightarrow> worker_account_context option
     \<Rightarrow> ('z gmail_world_scheme, worker_execution_result) prog" where
  "application_run aw NoOpWorkerExecutor a capability ctx = ret (noop_execute a)"
| "application_run aw GmailWorkerExecutor a capability ctx =
     gmail_execute (aw_repr aw) mem_gmail_capabilities (fake_gmail_composition [] [] []) a capability ctx"
| "application_run aw CalendarWorkerExecutor a capability ctx =
     calendar_execute (fake_calendar_composition [] [] default_calendar_events []) a capability ctx"
| "application_run aw (ClaudeCodeSoftwareEngineeringExecutor cc) a capability ctx =
     claude_execute (aw_host aw) (aw_runner aw) (aw_json_loads aw) (aw_os_environ aw) cc a capability ctx"

definition calendar_manifest :: "'x \<Rightarrow> 'x provider_manifest" where
  "calendar_manifest x =
     \<lparr>pm_capabilities = CALENDAR_WORKER_CAPABILITIES, pm_executor = x, pm_account_context = Some CALENDAR_ACCOUNT_CONTEXT\<rparr>"

definition application_registry :: "claude_code_executor option \<Rightarrow> application_executor executor_registry result" where
  "application_registry coding =
     (case (bnd (register_manifest (gmail_manifest GmailWorkerExecutor)) (\<lambda>_.
            bnd (register_manifest (calendar_manifest CalendarWorkerExecutor)) (\<lambda>_.
            case coding of
              None \<Rightarrow> ret ()
            | Some cc \<Rightarrow> register_manifest (claude_manifest (ClaudeCodeSoftwareEngineeringExecutor cc)))))
           (empty_registry NoOpWorkerExecutor) of
        (Inl e, _) \<Rightarrow> Inl e
      | (Inr _, registry) \<Rightarrow> Inr registry)"

definition application_promotion :: "settings \<Rightarrow> 'w se_composition option \<Rightarrow> 'w promotion_service" where
  "application_promotion s coding =
     \<lparr>ps_workspace = map_option sec_workspace coding, ps_review = map_option sec_review coding,
      ps_publisher = (case coding of None \<Rightarrow> None | Some c \<Rightarrow> sec_publisher c),
      ps_enabled = set_promotion_enabled s, ps_remote = set_promotion_remote s,
      ps_base_branch = set_promotion_base_branch s, ps_author_name = set_promotion_author_name s,
      ps_author_email = set_promotion_author_email s\<rparr>"

definition application_workflow :: "(permission_decision \<Rightarrow> pyval) \<Rightarrow> event_workflow" where
  "application_workflow dump =
     \<lparr>ew_classify = (\<lambda>e. Inr (rule_based_classify e)), ew_resolve = (\<lambda>e cl. Inr (base_resolve_context e cl)),
      ew_plan = base_plan, ew_engine = base_permission_engine, ew_dump = dump\<rparr>"

text \<open>The container over a run repository \<open>ops\<close>: the one of the composition, or the one in memory when the worker is
  disabled. \<open>dump\<close>, \<open>dump_lifecycle\<close> and \<open>digest\<close> are \<open>model_dump\<close> and SHA-256.\<close>

definition application_config ::
  "'r run_ops \<Rightarrow> 'z gmail_world_scheme application_world \<Rightarrow> (permission_decision \<Rightarrow> pyval) \<Rightarrow> (action_lifecycle_state \<Rightarrow> pyval)
     \<Rightarrow> (string \<Rightarrow> string) \<Rightarrow> settings \<Rightarrow> 'z gmail_world_scheme se_composition option
     \<Rightarrow> ('r, 'z gmail_world_scheme, application_executor) server_config result" where
  "application_config ops aw dump dump_lifecycle digest s coding =
     rbind (application_registry (map_option sec_executor coding)) (\<lambda>registry.
     Inr \<lparr>cf_ops = ops, cf_registry = registry, cf_run = application_run aw,
          cf_max_transient_retries = set_max_transient_retries s, cf_dump_lifecycle = dump_lifecycle,
          cf_workflow = application_workflow dump, cf_digest = digest, cf_reviewer = map_option sec_review coding,
          cf_disposer = map_option sec_apply coding, cf_host = aw_host aw,
          cf_promotion = application_promotion s coding\<rparr>)"

text \<open>The settings, the coding worker and the container in the order of \<open>get_container\<close>; \<open>ops\<close> is chosen from the
  composition.\<close>

definition compose_application ::
  "('z gmail_world_scheme se_composition option \<Rightarrow> 'r run_ops) \<Rightarrow> 'z gmail_world_scheme application_world
     \<Rightarrow> (permission_decision \<Rightarrow> pyval) \<Rightarrow> (action_lifecycle_state \<Rightarrow> pyval) \<Rightarrow> (string \<Rightarrow> string) \<Rightarrow> (path \<Rightarrow> path result)
     \<Rightarrow> settings \<Rightarrow> ('r, 'z gmail_world_scheme, application_executor) server_config result" where
  "compose_application ops aw dump dump_lifecycle digest expand env_settings =
     rbind (mk_settings expand env_settings) (\<lambda>s.
     rbind (configured_software_engineering (aw_host aw) (aw_json_loads aw) expand s) (\<lambda>coding.
     application_config (ops coding) aw dump dump_lifecycle digest s coding))"

text \<open>A new container: every local store is empty.\<close>

definition application_start :: "'r \<Rightarrow> 'w \<Rightarrow> ('r, 'w) server_state" where
  "application_start runs world =
     \<lparr>action_queue = [], action_lifecycle_repository = [], pending_approval_registry = [],
      run_repository = runs, execution_observations = [], execution_world = world,
      event_repository = [], event_inbox = [], event_lifecycle_states = []\<rparr>"

text \<open>The in-process agenda service and the semantic router; the service is looked up at each call.\<close>

definition local_agenda_service ::
  "zone_database \<Rightarrow> uuid \<Rightarrow> datetime \<Rightarrow> datetime \<Rightarrow> calendar_agenda_command \<Rightarrow> ('w, calendar_agenda_result) prog" where
  "local_agenda_service zones i created now =
     command_execute
       (agenda_execute zones (orchestrate (calendar_execute (fake_calendar_composition [] [] default_calendar_events []))) i created)
       now"

definition application_semantic_router ::
  "(calendar_agenda_command \<Rightarrow> ('w, calendar_agenda_result) prog) \<Rightarrow> 'w semantic_handler semantic_router result" where
  "application_semantic_router service =
     rbind (mk_semantic_route CALENDAR_AGENDA_TOMORROW_INTENT CALENDAR_EXECUTOR_ROLE CALENDAR_LIST_EVENTS) (\<lambda>route.
     mk_semantic_router [route] [((CALENDAR_EXECUTOR_ROLE, CALENDAR_LIST_EVENTS), agenda_semantic_handler service)])"

end
