(* ===== verification/Lifespan.thy ===== *)
theory Lifespan
  imports Composition Operator_Console
begin

text \<open>
  \<open>main.py\<close> (the lifespan of the application), \<open>integrations/calendar_agenda_runtime.py\<close> and the constructor of the
  resolver of \<open>integrations/calendar_agenda_ollama.py\<close>. A context manager is a program that takes the rest of the \<open>with\<close>
  block as its argument. What an HTTP client does is a parameter; the state counts the clients that are open.
\<close>

section \<open>Context managers\<close>

type_synonym 'w agenda_service =
  "uuid \<Rightarrow> datetime \<Rightarrow> datetime \<Rightarrow> calendar_agenda_command \<Rightarrow> ('w, calendar_agenda_result) prog"

record 'w application =
  app_world :: 'w
  app_agenda_service :: "'w agenda_service"
  app_semantic_resolver :: "'w semantic_resolver"
  app_open_clients :: nat

definition try_finally :: "('s, 'a) prog \<Rightarrow> ('s, unit) prog \<Rightarrow> ('s, 'a) prog" where
  "try_finally m cleanup s =
     (case m s of (r, s1) \<Rightarrow>
        (case cleanup s1 of
           (Inl e, s2) \<Rightarrow> (Inl e, s2)
         | (Inr _, s2) \<Rightarrow> (r, s2)))"

text \<open>What the composition takes from outside: opening an HTTP client, its \<open>get\<close> and \<open>post\<close>, the URL parser, the keychain,
  google-auth, the time zones, JSON and the schema of the classification.\<close>

record ('w, 'c) live_boundary =
  lb_open_client :: "('w, unit) prog"
  lb_get :: "'w http_get"
  lb_post :: "string \<Rightarrow> pydict \<Rightarrow> ('w, pyval) prog"
  lb_urlsplit :: "string \<Rightarrow> url_parts result"
  lb_keyring :: "'w keyring_selection option"
  lb_google_auth :: "('w, 'c) google_auth"
  lb_zones :: zone_database
  lb_json_loads :: "string \<Rightarrow> pyval option"
  lb_classification_schema :: pyval

definition on_app_world :: "('w, 'a) prog \<Rightarrow> ('w application, 'a) prog" where
  "on_app_world m s = (case m (app_world s) of (r, w) \<Rightarrow> (r, s\<lparr>app_world := w\<rparr>))"

definition with_client :: "('w, 'c) live_boundary \<Rightarrow> ('w application, 'a) prog \<Rightarrow> ('w application, 'a) prog" where
  "with_client lb body =
     bnd (on_app_world (lb_open_client lb)) (\<lambda>_.
     bnd (modify (app_open_clients_update Suc)) (\<lambda>_.
     try_finally body (modify (app_open_clients_update (\<lambda>n. n - 1)))))"

section \<open>The local model\<close>

definition ollama_chat_url :: "(string \<Rightarrow> url_parts result) \<Rightarrow> string \<Rightarrow> string result" where
  "ollama_chat_url urlsplit base_url =
     rbind (urlsplit base_url) (\<lambda>parsed.
     if up_scheme parsed \<notin> {''http'', ''https''}
        \<or> (case up_hostname parsed of None \<Rightarrow> True | Some host \<Rightarrow> host \<notin> {''127.0.0.1'', ''localhost'', ''::1''})
        \<or> up_username parsed \<noteq> None \<or> up_password parsed \<noteq> None
     then Inl (ValueError ''Ollama base URL must use a loopback host'')
     else Inr (strip_trailing_slashes base_url @ ''/api/chat''))"

definition ollama_model_name :: "string \<Rightarrow> string result" where
  "ollama_model_name model =
     (if str_blank model then Inl (ValueError ''Ollama model must be configured'') else Inr (str_strip model))"

definition OLLAMA_SYSTEM_PROMPT :: string where
  "OLLAMA_SYSTEM_PROMPT =
     ''You are an intent classifier for a Calendar assistant. ''
     @ ''Return intent=tomorrow when the user asks about their schedule, plans, ''
     @ ''meetings, availability, or calendar for tomorrow, in any language or natural ''
     @ ''paraphrase. Return intent=unsupported for any other request, including today, ''
     @ ''another date, creating or changing events, or non-calendar questions. ''
     @ ''Do not answer the user'' @ [CHR 0x27] @ ''s question. Do not perform actions. Do not infer account ''
     @ ''identity. Do not produce Calendar or provider data. Return only the structured ''
     @ ''classification.''"

definition ollama_request :: "pyval \<Rightarrow> string \<Rightarrow> string \<Rightarrow> pydict" where
  "ollama_request schema model question =
     [(''model'', PStr model),
      (''messages'', PList [PDict [(''role'', PStr ''system''), (''content'', PStr OLLAMA_SYSTEM_PROMPT)],
                            PDict [(''role'', PStr ''user''), (''content'', PStr question)]]),
      (''stream'', PBool False), (''format'', schema), (''options'', PDict [(''temperature'', PInt 0)])]"

definition mk_ollama_resolver :: "('w, 'c) live_boundary \<Rightarrow> string \<Rightarrow> string \<Rightarrow> 'w semantic_resolver result" where
  "mk_ollama_resolver lb base_url model =
     rbind (ollama_chat_url (lb_urlsplit lb) base_url) (\<lambda>url.
     rbind (ollama_model_name model) (\<lambda>name.
     Inr (\<lambda>query. bnd (ollama_resolve
            (\<lambda>question. lb_post lb url (ollama_request (lb_classification_schema lb) name question))
            (lb_json_loads lb) query) (\<lambda>resolution. ret (Some resolution)))))"

section \<open>The live agenda\<close>

definition GOOGLE_CALENDAR_API_BASE_URL :: string where
  "GOOGLE_CALENDAR_API_BASE_URL = ''https://www.googleapis.com''"

definition live_calendar_agenda_command_service ::
  "('w, 'c) live_boundary \<Rightarrow> ('w agenda_service \<Rightarrow> ('w application, 'a) prog) \<Rightarrow> ('w application, 'a) prog" where
  "live_calendar_agenda_command_service lb body =
     with_client lb
       (bnd (liftr (mk_keychain_store None (lb_keyring lb))) (\<lambda>kb.
        bnd (liftr (mk_httpx_transport (lb_get lb) (PFloat 10) (PStr GOOGLE_CALENDAR_API_BASE_URL))) (\<lambda>hx.
        let provider = \<lparr>gp_service = ''calendar'',
              gp_credentials = stored_get_credentials (keyring_ops kb) (lb_json_loads lb) (lb_google_auth lb),
              gp_transport = httpx_execute hx\<rparr> in
        body (\<lambda>i created now.
          command_execute (agenda_execute (lb_zones lb) (orchestrate (calendar_execute provider)) i created) now))))"

definition calendar_agenda_semantic_resolver ::
  "('w, 'c) live_boundary \<Rightarrow> settings \<Rightarrow> ('w semantic_resolver \<Rightarrow> ('w application, 'a) prog) \<Rightarrow> ('w application, 'a) prog" where
  "calendar_agenda_semantic_resolver lb s body =
     (if set_calendar_agenda_resolver s = ''bounded'' then body (\<lambda>query. liftr (rbind (bounded_resolve query) (\<lambda>resolution. Inr (Some resolution))))
      else with_client lb
        (bnd (liftr (mk_ollama_resolver lb (set_ollama_base_url s) (or_empty (set_ollama_model s)))) body))"

section \<open>The lifespan\<close>

text \<open>\<open>serve\<close> is what the application does while it is up.\<close>

definition lifespan :: "('w, 'c) live_boundary \<Rightarrow> settings \<Rightarrow> ('w application, 'a) prog \<Rightarrow> ('w application, 'a) prog" where
  "lifespan lb s serve =
     bnd (gets app_agenda_service) (\<lambda>previous_service.
     bnd (gets app_semantic_resolver) (\<lambda>previous_resolver.
     let resolved = calendar_agenda_semantic_resolver lb s (\<lambda>resolver.
           bnd (modify (app_semantic_resolver_update (\<lambda>_. resolver))) (\<lambda>_. serve)) in
     try_finally
       (if set_calendar_agenda_live s
        then live_calendar_agenda_command_service lb (\<lambda>service.
          bnd (modify (app_agenda_service_update (\<lambda>_. service))) (\<lambda>_. resolved))
        else resolved)
       (modify (app_agenda_service_update (\<lambda>_. previous_service) \<circ> app_semantic_resolver_update (\<lambda>_. previous_resolver)))))"

section \<open>The answers of the root routes\<close>

definition SERVICE_NAME :: string where "SERVICE_NAME = ''VELOX Server''"
definition SERVICE_VERSION :: string where "SERVICE_VERSION = ''0.0.1''"

definition read_root :: pydict where
  "read_root = [(''status'', PStr ''running''), (''service'', PStr SERVICE_NAME), (''version'', PStr SERVICE_VERSION)]"

definition read_health :: pydict where
  "read_health = [(''status'', PStr ''ok''), (''service'', PStr SERVICE_NAME), (''version'', PStr SERVICE_VERSION)]"

end
