(* ===== verification/Pilot.thy ===== *)
theory Pilot
  imports Composition Operator_Console
begin

text \<open>
  \<open>integrations/software_engineering_pilot.py\<close>: the operator's pilot of the coding worker in the process of the server. It
  delegates a task, asks for the approval, continues the action, and shows its work product for a decision. The state
  is a console whose world is the state of a server; the container is a configuration with its coding worker. Parsing the options
  (argparse) and \<open>repr\<close> are parameters.
\<close>

section \<open>Printed values\<close>

definition py_bool :: "bool \<Rightarrow> string" where
  "py_bool b = (if b then ''True'' else ''False'')"

definition py_optional :: "string option \<Rightarrow> string" where
  "py_optional v = (case v of None \<Rightarrow> ''None'' | Some t \<Rightarrow> t)"

definition REPORTED_FIELDS :: "string list" where
  "REPORTED_FIELDS =
     [''provider'', ''worktree_path'', ''worktree_branch'', ''duration_seconds'', ''session_id'', ''changed_files'',
      ''reported_files_changed'', ''summary'', ''validation'', ''blockers'']"

section \<open>The work product\<close>

definition pilot_review_lines :: "work_product_review \<Rightarrow> string list" where
  "pilot_review_lines review =
     ['''', ''=== VELOX work-product review ==='', ''Worktree: '' @ path_str (wrv_worktree_path review),
      ''Branch: '' @ wrv_branch review,
      ''Changed files: '' @ or_text (str_join '', '' (wrv_changed_files review)) ''(none)'',
      ''Untracked files (content not shown): '' @ or_text (str_join '', '' (wrv_untracked_files review)) ''(none)'',
      ''Canonical checkout clean: '' @ py_bool (wrv_canonical_clean review),
      ''--- diff --stat ---'', or_text (str_rstrip (wrv_diff_stat review)) ''(no tracked changes)'',
      ''--- diff ---'', or_text (str_rstrip (wrv_diff review)) ''(no tracked changes)'']
     @ (if wrv_diff_truncated review
        then [''[diff truncated to '' @ nat_str (length (wrv_diff review)) @ '' characters]''] else [])"

definition pilot_disposition_lines :: "WorkProductDisposition \<Rightarrow> work_product_disposition_result \<Rightarrow> string list" where
  "pilot_disposition_lines d result =
     (if d = KEEP
      then [''Kept. Worktree and branch remain for later review:'', ''  '' @ path_str (wpr_worktree_path result),
            ''  '' @ wpr_branch result]
      else if wpr_succeeded result
      then [''Discarded. Removed the isolated worktree and its local branch; the canonical checkout is unchanged.'']
      else [''Discard incomplete. Remaining: '' @ or_text (str_join '', '' (wpr_remaining result)) ''none''
              @ ''. Canonical checkout unchanged: '' @ py_bool (wpr_canonical_unchanged result) @ ''.'',
            ''  '' @ path_str (wpr_worktree_path result), ''  '' @ wpr_branch result])"

text \<open>The value of a call, or the message of a \<open>WorkProductIdentityError\<close>.\<close>

definition identity_checked :: "('s, 'a) prog \<Rightarrow> ('s, string + 'a) prog" where
  "identity_checked m =
     try_except (bnd m (\<lambda>x. ret (Inr x)))
       (\<lambda>e. case e of WorkProductIdentityError msg \<Rightarrow> ret (Inl msg) | _ \<Rightarrow> raise_exc e)"

definition chosen_disposition :: "string \<Rightarrow> WorkProductDisposition option" where
  "chosen_disposition answer =
     (if answer = ''keep'' then Some KEEP else if answer = ''discard'' then Some DISCARD else None)"

type_synonym ('r, 'w) pilot_state = "('r, 'w) server_state console"

definition on_products :: "('w, 'a) prog \<Rightarrow> (('r, 'w) pilot_state, 'a) prog" where
  "on_products m = on_con_world (on_world m)"

definition review_and_dispose :: "'w reviewer \<Rightarrow> 'w disposer \<Rightarrow> uuid \<Rightarrow> (('r, 'w) pilot_state, unit) prog" where
  "review_and_dispose review_product apply_disposition i =
     bnd (on_products (identity_checked (review_product i))) (\<lambda>reviewed.
     case reviewed of
       Inl msg \<Rightarrow> print_out [''No reviewable worktree for this action ('' @ msg @ '').'']
     | Inr review \<Rightarrow>
         bnd (print_out (pilot_review_lines review @ [''Type keep to preserve the worktree, discard to remove it:''])) (\<lambda>_.
         bnd read_line (\<lambda>line.
         case chosen_disposition (str_strip line) of
           None \<Rightarrow> print_out [''No disposition applied; the worktree and branch are preserved:'',
                     ''  '' @ path_str (wrv_worktree_path review), ''  '' @ wrv_branch review]
         | Some d \<Rightarrow>
             bnd (on_products (identity_checked (apply_disposition i d))) (\<lambda>applied.
             print_out (case applied of
                 Inl msg \<Rightarrow> [''Disposition refused ('' @ msg @ ''); nothing was changed.'']
               | Inr result \<Rightarrow> pilot_disposition_lines d result)))))"

section \<open>The run\<close>

record pilot_inputs =
  pi_clock :: clock
  pi_run_clock :: clock
  pi_action_id :: uuid
  pi_recovery_clock :: clock
  pi_recorder_clock :: clock
  pi_approval_clock :: clock
  pi_continuation_clock :: clock
  pi_claim_id :: uuid
  pi_worker :: worker_inputs

definition observed_run :: "uuid \<Rightarrow> ('r, 'w) server_state \<Rightarrow> observation option" where
  "observed_run i s = find_first (\<lambda>o1. obs_action_id o1 = i) (mem_observer_list s)"

definition pilot_report :: "(pyval \<Rightarrow> string) \<Rightarrow> observation \<Rightarrow> string list" where
  "pilot_report py_repr o1 =
     [''Provider: '' @ py_optional (obs_matched_provider o1), ''Status: '' @ obs_status o1,
      ''Reason: '' @ py_optional (obs_reason o1)]
     @ map (\<lambda>k. k @ '': '' @ py_str py_repr (pd_get (obs_metadata o1) k)) (filter (dict_has (obs_metadata o1)) REPORTED_FIELDS)"

definition pilot_delegate ::
  "('r, 'w, 'x) server_config \<Rightarrow> pilot_inputs \<Rightarrow> string \<Rightarrow> string \<Rightarrow> (('r, 'w) server_state, task_delegation_result) prog" where
  "pilot_delegate cf inp objective target =
     ingress_delegate (cf_ops cf) (cf_registry cf) (ew_engine (cf_workflow cf)) (ew_dump (cf_workflow cf))
       (pi_clock inp) (pi_run_clock inp) (pi_action_id inp) objective target"

definition pilot_approve ::
  "('r, 'w, 'x) server_config \<Rightarrow> pilot_inputs \<Rightarrow> uuid \<Rightarrow> (('r, 'w) server_state, action_lifecycle_state) prog" where
  "pilot_approve cf inp i =
     approve_pending_action (Some (se_recovery (cf_ops cf) (pi_recovery_clock inp)))
       (Some (se_recorder (cf_ops cf) (pi_recorder_clock inp))) (pi_approval_clock inp) i"

definition pilot_continue ::
  "('r, 'w, 'x) server_config \<Rightarrow> pilot_inputs \<Rightarrow> uuid \<Rightarrow> (('r, 'w) server_state, continuation_result) prog" where
  "pilot_continue cf inp i =
     continuation_execute (cf_ops cf) (cf_runtime cf) (cf_reviewer cf) (pi_continuation_clock inp) (pi_claim_id inp) (pi_worker inp) i"

text \<open>From the approval on.\<close>

definition pilot_execution ::
  "('r, 'w, 'x) server_config \<Rightarrow> (pyval \<Rightarrow> string) \<Rightarrow> pilot_inputs \<Rightarrow> uuid \<Rightarrow> (('r, 'w) pilot_state, int) prog" where
  "pilot_execution cf py_repr inp i =
     bnd (on_con_world (pilot_approve cf inp i)) (\<lambda>_.
     bnd (print_out [''Approved. Running the worker (this can take several minutes)...'']) (\<lambda>_.
     bnd (on_con_world (pilot_continue cf inp i)) (\<lambda>_.
     bnd (gets (\<lambda>s. observed_run i (con_world s))) (\<lambda>found.
     case found of
       None \<Rightarrow> bnd (print_out [''The worker did not run.'']) (\<lambda>_. ret 1)
     | Some o1 \<Rightarrow>
         bnd (print_out (pilot_report py_repr o1)) (\<lambda>_.
         bnd (case (cf_reviewer cf, cf_disposer cf) of
                (Some review_product, Some apply_disposition) \<Rightarrow> review_and_dispose review_product apply_disposition i
              | _ \<Rightarrow> ret ()) (\<lambda>_.
         ret (if obs_status o1 = ''succeeded'' then 0 else 1)))))))"

text \<open>\<open>main\<close>, with the root of the worktrees of the container's coding worker, if there is one.\<close>

definition pilot_main ::
  "('r, 'w, 'x) server_config \<Rightarrow> path option \<Rightarrow> (pyval \<Rightarrow> string) \<Rightarrow> pilot_inputs \<Rightarrow> string \<Rightarrow> string
     \<Rightarrow> (('r, 'w) pilot_state, int) prog" where
  "pilot_main cf worktrees py_repr inp objective target =
     (case worktrees of
        None \<Rightarrow> bnd (print_out [''Software Engineering provider is disabled. Set VELOX_SOFTWARE_ENGINEERING_PROVIDER=claude_code and ''
                  @ ''VELOX_SOFTWARE_ENGINEERING_WORKSPACE (for example in .env.live).'']) (\<lambda>_. ret 2)
      | Some wt_root \<Rightarrow>
          bnd (on_con_world (pilot_delegate cf inp objective target)) (\<lambda>delegation.
          let i = tdres_action_id delegation; action_id = uuid_str i in
          bnd (print_out [''Delegation: '' @ delegation_status_value (tdres_status delegation) @ '' (action '' @ action_id @ '')'']) (\<lambda>_.
          if tdres_status delegation \<noteq> TD_AWAITING_APPROVAL
          then bnd (print_out [''Expected the task to be held for approval; nothing was executed.'',
                      ''Routing: '' @ py_optional (tdres_routing_reason delegation)]) (\<lambda>_. ret 1)
          else
            bnd (print_out [''Approving runs the coding worker in a NEW isolated git worktree under '' @ path_str wt_root
                     @ ''. The canonical checkout is not modified; nothing is committed, pushed or merged.'',
                   ''Type the action id to approve ('' @ action_id @ ''), anything else to cancel:'']) (\<lambda>_.
            bnd read_line (\<lambda>typed.
            if str_strip typed \<noteq> action_id
            then bnd (print_out [''Not approved; the action stays pending and nothing was executed.'']) (\<lambda>_. ret 1)
            else pilot_execution cf py_repr inp i)))))"

end
