(* ===== verification/Composition_Properties.thy ===== *)
theory Composition_Properties
  imports Lifespan Pilot Service_Properties Samples
begin

text \<open>
  Properties of the composed application: its authority over coding tasks, the trusted workspace its parts share, the services of
  its lifespan, and the pilot.
\<close>

section \<open>The lifespan\<close>

lemma balanced_app [frame_intros]:
  "preserves app_open_clients (on_app_world k)"
  "preserves app_open_clients (modify (app_agenda_service_update g))"
  "preserves app_open_clients (modify (app_semantic_resolver_update h))"
  "preserves app_open_clients (modify (app_agenda_service_update g \<circ> app_semantic_resolver_update h))"
  by (auto simp: preserves_def on_app_world_def split: prod.splits)

lemma balanced_finally [frame_intros]:
  "preserves f m \<Longrightarrow> preserves f cleanup \<Longrightarrow> preserves f (try_finally m cleanup)"
  unfolding preserves_def try_finally_def by (auto split: prod.splits sum.splits) (metis snd_conv)+

lemma finally_modify:
  "try_finally m (modify g) s = (fst (m s), g (snd (m s)))"
  by (simp add: try_finally_def split: prod.split)

text \<open>The rest of the block runs with one more client open, and the client is closed however it ends.\<close>

lemma balanced_with_client [frame_intros]:
  fixes body :: "('w application, 'a) prog"
  assumes "preserves app_open_clients body"
  shows "preserves app_open_clients (with_client lb body)"
  unfolding preserves_def
proof
  fix s :: "'w application"
  obtain r w where opened: "lb_open_client lb (app_world s) = (r, w)" by fastforce
  let ?s1 = "app_open_clients_update Suc (s\<lparr>app_world := w\<rparr>)"
  have "app_open_clients (snd (body ?s1)) = Suc (app_open_clients s)" using assms by (simp add: preserves_def)
  then show "app_open_clients (snd (with_client lb body s)) = app_open_clients s"
    using opened by (cases r) (simp_all add: with_client_def on_app_world_def bnd_def finally_modify)
qed

lemma resolver_balanced [frame_intros]:
  "(\<And>r. preserves app_open_clients (body r)) \<Longrightarrow> preserves app_open_clients (calendar_agenda_semantic_resolver lb st body)"
  unfolding calendar_agenda_semantic_resolver_def by (intro frame_intros)

lemma agenda_balanced [frame_intros]:
  "(\<And>v. preserves app_open_clients (body v)) \<Longrightarrow> preserves app_open_clients (live_calendar_agenda_command_service lb body)"
  unfolding live_calendar_agenda_command_service_def Let_def by (intro frame_intros)

lemma lifespan_balanced:
  "preserves app_open_clients serve \<Longrightarrow> preserves app_open_clients (lifespan lb st serve)"
  unfolding lifespan_def Let_def by (intro frame_intros) auto

lemma lifespan_services:
  "app_agenda_service (snd (lifespan lb st serve s)) = app_agenda_service s"
  "app_semantic_resolver (snd (lifespan lb st serve s)) = app_semantic_resolver s"
  by (simp_all add: lifespan_def bnd_def finally_modify Let_def)

text \<open>Start-up either fails whatever would have been served, or everything is served from one state.\<close>

definition starts ::
  "(('w application, 'a) prog \<Rightarrow> ('w application, 'a) prog) \<Rightarrow> bool \<Rightarrow> ('w application \<Rightarrow> bool) \<Rightarrow> 'w application \<Rightarrow> bool" where
  "starts K fails P s \<longleftrightarrow> fails \<and> (\<exists>e. \<forall>serve. fst (K serve s) = Inl e) \<or> (\<exists>t. P t \<and> (\<forall>serve. fst (K serve s) = fst (serve t)))"

lemma starts_serve: "P s \<Longrightarrow> starts (\<lambda>serve. serve) b P s"
  by (auto simp: starts_def)

lemma starts_modify: "starts K b P (g s) \<Longrightarrow> starts (\<lambda>serve. bnd (modify g) (\<lambda>_. K serve)) b P s"
  by (simp add: starts_def bnd_def)

lemma starts_liftr: "(\<And>x. r = Inr x \<Longrightarrow> starts (K x) b P s) \<Longrightarrow> b \<Longrightarrow> starts (\<lambda>serve. bnd (liftr r) (\<lambda>x. K x serve)) b P s"
  by (cases r) (auto simp: starts_def bnd_def)

lemma starts_client:
  assumes "\<And>w. starts K True P (app_open_clients_update Suc (s\<lparr>app_world := w\<rparr>))"
  shows "starts (\<lambda>serve. with_client lb (K serve)) True P s"
proof -
  obtain r w where opened: "lb_open_client lb (app_world s) = (r, w)" by fastforce
  with assms [of w] show ?thesis
    by (cases r) (simp_all add: starts_def with_client_def on_app_world_def bnd_def finally_modify)
qed

lemma starts_finally: "starts K b P s \<Longrightarrow> starts (\<lambda>serve. try_finally (K serve) (modify g)) b P s"
  by (simp add: starts_def finally_modify)

lemma starts_weaken: "starts K b P s \<Longrightarrow> (b \<Longrightarrow> c) \<Longrightarrow> (\<And>t. P t \<Longrightarrow> Q t) \<Longrightarrow> starts K c Q s"
  by (auto simp: starts_def)

definition uses_model :: "settings \<Rightarrow> bool" where
  "uses_model st \<longleftrightarrow> set_calendar_agenda_resolver st \<noteq> ''bounded''"

definition bounded_semantic_resolver :: "'w semantic_resolver" where
  "bounded_semantic_resolver query = liftr (rbind (bounded_resolve query) (\<lambda>resolution. Inr (Some resolution)))"

text \<open>The command service over Google Calendar with the stored credentials of the keychain.\<close>

definition live_agenda_service :: "('w, 'c) live_boundary \<Rightarrow> 'w agenda_service \<Rightarrow> bool" where
  "live_agenda_service lb v \<longleftrightarrow>
     (\<exists>kb hx. mk_keychain_store None (lb_keyring lb) = Inr kb
        \<and> mk_httpx_transport (lb_get lb) (PFloat 10) (PStr GOOGLE_CALENDAR_API_BASE_URL) = Inr hx
        \<and> v = (\<lambda>i created now. command_execute (agenda_execute (lb_zones lb) (orchestrate (calendar_execute
             \<lparr>gp_service = ''calendar'',
              gp_credentials = stored_get_credentials (keyring_ops kb) (lb_json_loads lb) (lb_google_auth lb),
              gp_transport = httpx_execute hx\<rparr>)) i created) now))"

text \<open>The resolver that the settings select.\<close>

definition selected_resolver :: "('w, 'c) live_boundary \<Rightarrow> settings \<Rightarrow> 'w semantic_resolver \<Rightarrow> bool" where
  "selected_resolver lb st v \<longleftrightarrow>
     (if uses_model st then mk_ollama_resolver lb (set_ollama_base_url st) (or_empty (set_ollama_model st)) = Inr v
      else v = bounded_semantic_resolver)"

lemma starts_resolver:
  assumes "app_open_clients s = n" "app_agenda_service s = v"
  shows "starts (\<lambda>serve. calendar_agenda_semantic_resolver lb st (\<lambda>r. bnd (modify (app_semantic_resolver_update (\<lambda>_. r))) (\<lambda>_. serve)))
    (uses_model st)
    (\<lambda>t. app_open_clients t = n + of_bool (uses_model st) \<and> app_agenda_service t = v
       \<and> selected_resolver lb st (app_semantic_resolver t)) s"
proof (cases "uses_model st")
  case True
  then show ?thesis
    unfolding calendar_agenda_semantic_resolver_def uses_model_def selected_resolver_def using assms
    by (auto intro!: starts_client starts_liftr starts_modify starts_serve)
next
  case False
  then show ?thesis
    unfolding calendar_agenda_semantic_resolver_def uses_model_def selected_resolver_def using assms
    by (auto intro!: starts_modify starts_serve simp: bounded_semantic_resolver_def fun_eq_iff)
qed

lemma starts_agenda:
  assumes "app_open_clients s = n"
  shows "starts (\<lambda>serve. live_calendar_agenda_command_service lb (\<lambda>v. bnd (modify (app_agenda_service_update (\<lambda>_. v))) (\<lambda>_.
           calendar_agenda_semantic_resolver lb st (\<lambda>r. bnd (modify (app_semantic_resolver_update (\<lambda>_. r))) (\<lambda>_. serve)))))
    True
    (\<lambda>t. app_open_clients t = Suc n + of_bool (uses_model st) \<and> live_agenda_service lb (app_agenda_service t)
       \<and> selected_resolver lb st (app_semantic_resolver t)) s"
  unfolding live_calendar_agenda_command_service_def Let_def
proof (intro starts_client starts_liftr starts_modify)
  fix w kb hx
  assume parts: "mk_keychain_store None (lb_keyring lb) = Inr kb"
    "mk_httpx_transport (lb_get lb) (PFloat 10) (PStr GOOGLE_CALENDAR_API_BASE_URL) = Inr hx"
  let ?v = "\<lambda>i created now. command_execute (agenda_execute (lb_zones lb) (orchestrate (calendar_execute
             \<lparr>gp_service = ''calendar'',
              gp_credentials = stored_get_credentials (keyring_ops kb) (lb_json_loads lb) (lb_google_auth lb),
              gp_transport = httpx_execute hx\<rparr>)) i created) now"
  have "live_agenda_service lb ?v" using parts by (auto simp: live_agenda_service_def)
  then show "starts (\<lambda>serve. calendar_agenda_semantic_resolver lb st (\<lambda>r. bnd (modify (app_semantic_resolver_update (\<lambda>_. r))) (\<lambda>_. serve)))
    True
    (\<lambda>t. app_open_clients t = Suc n + of_bool (uses_model st) \<and> live_agenda_service lb (app_agenda_service t)
       \<and> selected_resolver lb st (app_semantic_resolver t))
    (app_agenda_service_update (\<lambda>_. ?v) (app_open_clients_update Suc (s\<lparr>app_world := w\<rparr>)))"
    by (intro starts_weaken [OF starts_resolver [OF _ refl, of _ "Suc n"]]) (simp_all add: assms)
qed simp_all

text \<open>C33. The lifespan of the application. Whatever it serves, the agenda service and the resolver of the container are
  afterwards those from before; when what is served keeps the number of open clients, so does the whole. Either start-up
  fails before anything is served, which needs the live agenda or the local model, or everything is served from one
  state. In that state one client is open for the live agenda and one for the local model; when the agenda is live, its service
  is the one over Google Calendar with the credentials of the keychain, otherwise that of the container; the resolver is the one made
  for the configured local model, otherwise that of fixed phrases.\<close>

theorem lifespan_restores:
  "starts (lifespan lb st) (set_calendar_agenda_live st \<or> uses_model st)
     (\<lambda>t. app_open_clients t = app_open_clients s + of_bool (set_calendar_agenda_live st) + of_bool (uses_model st)
        \<and> (if set_calendar_agenda_live st then live_agenda_service lb (app_agenda_service t)
           else app_agenda_service t = app_agenda_service s)
        \<and> selected_resolver lb st (app_semantic_resolver t)) s
   \<and> app_agenda_service (snd (lifespan lb st serve s)) = app_agenda_service s
   \<and> app_semantic_resolver (snd (lifespan lb st serve s)) = app_semantic_resolver s
   \<and> (preserves app_open_clients serve \<longrightarrow> app_open_clients (snd (lifespan lb st serve s)) = app_open_clients s)"
proof (intro conjI impI lifespan_services)
  assume "preserves app_open_clients serve"
  then show "app_open_clients (snd (lifespan lb st serve s)) = app_open_clients s"
    using lifespan_balanced [of serve lb st] by (simp add: preserves_def)
next
  let ?P = "\<lambda>t. app_open_clients t = app_open_clients s + of_bool (set_calendar_agenda_live st) + of_bool (uses_model st)
        \<and> (if set_calendar_agenda_live st then live_agenda_service lb (app_agenda_service t)
           else app_agenda_service t = app_agenda_service s)
        \<and> selected_resolver lb st (app_semantic_resolver t)"
  let ?K = "\<lambda>serve. calendar_agenda_semantic_resolver lb st (\<lambda>r. bnd (modify (app_semantic_resolver_update (\<lambda>_. r))) (\<lambda>_. serve))"
  have "starts (\<lambda>serve. if set_calendar_agenda_live st
      then live_calendar_agenda_command_service lb (\<lambda>v. bnd (modify (app_agenda_service_update (\<lambda>_. v))) (\<lambda>_. ?K serve))
      else ?K serve) (set_calendar_agenda_live st \<or> uses_model st) ?P s"
    by (cases "set_calendar_agenda_live st")
       (simp_all add: starts_weaken [OF starts_resolver [OF refl refl]] starts_weaken [OF starts_agenda [OF refl]])
  then show "starts (lifespan lb st) (set_calendar_agenda_live st \<or> uses_model st) ?P s"
    by (simp add: starts_def lifespan_def bnd_def finally_modify Let_def)
qed

definition idle_application :: "unit application" where
  "idle_application = \<lparr>app_world = (), app_agenda_service = (\<lambda>i created now cmd. raise_exc (KeyError ''none'')),
     app_semantic_resolver = bounded_semantic_resolver, app_open_clients = 0\<rparr>"

definition closed_boundary :: "(unit, unit) live_boundary" where
  "closed_boundary = \<lparr>lb_open_client = ret (), lb_get = (\<lambda>u q hs t w. (HttpOtherError, w)), lb_post = (\<lambda>u d. ret PNone),
     lb_urlsplit = (\<lambda>u. Inl (ValueError u)), lb_keyring = None,
     lb_google_auth = \<lparr>ga_from_authorized_user_info = (\<lambda>d. ret None), ga_refresh = (\<lambda>c. ret TransportError)\<rparr>,
     lb_zones = (\<lambda>z. Inl (KeyError z)), lb_json_loads = (\<lambda>t. None), lb_classification_schema = PNone\<rparr>"

theorem lifespan_restores_witness:
  "app_open_clients (snd (lifespan closed_boundary (default_settings\<lparr>set_calendar_agenda_live := True\<rparr>) (ret (7::int)) idle_application)) = 0"
proof -
  have "preserves app_open_clients (ret 7 :: (unit application, int) prog)" by (intro frame_intros)
  then have "app_open_clients (snd (lifespan closed_boundary (default_settings\<lparr>set_calendar_agenda_live := True\<rparr>)
      (ret (7::int)) idle_application)) = app_open_clients idle_application"
    using lifespan_restores [where lb = closed_boundary and st = "default_settings\<lparr>set_calendar_agenda_live := True\<rparr>"
        and serve = "ret (7::int)" and s = idle_application] by blast
  then show ?thesis by (simp add: idle_application_def)
qed

section \<open>The registry and the delegation of coding tasks\<close>

text \<open>The routes of the container: those of Gmail and of the calendar, and the coding route when its worker is composed.\<close>

definition application_entries :: "claude_code_executor option \<Rightarrow> (route_key \<times> application_executor worker_registration) list" where
  "application_entries coding =
     new_entries (Some GMAIL_ACCOUNT_CONTEXT) GmailWorkerExecutor GMAIL_WORKER_CAPABILITIES
     @ new_entries (Some CALENDAR_ACCOUNT_CONTEXT) CalendarWorkerExecutor CALENDAR_WORKER_CAPABILITIES
     @ (case coding of None \<Rightarrow> []
        | Some cc \<Rightarrow> new_entries None (ClaudeCodeSoftwareEngineeringExecutor cc) CLAUDE_CODE_WORKER_CAPABILITIES)"

lemma registered_if_free:
  assumes "manifest_validate m = Inr ()" "normalize_account_context (pm_account_context m) = pm_account_context m"
    and "find_first (dict_has (provider_registrations reg)) (map (route_key_of (pm_account_context m)) (pm_capabilities m)) = None"
  shows "register_manifest m reg = (Inr (), reg\<lparr>provider_registrations := provider_registrations reg
        @ new_entries (pm_account_context m) (pm_executor m) (pm_capabilities m)\<rparr>)"
proof -
  have "register_manifest m reg = register_capabilities (pm_capabilities m) (pm_executor m) (pm_account_context m) reg"
    using assms by (auto simp: register_manifest_def bnd_def Let_def)
  moreover have "\<forall>cap\<in>set (pm_capabilities m). \<not> dict_has (provider_registrations reg) (route_key_of (pm_account_context m) cap)"
    using assms(3) by (simp add: find_first_None)
  ultimately show ?thesis
    using register_capabilities_fresh [OF assms(2) manifest_validate_keys [OF assms(1)]] by simp
qed

lemma provider_manifests_valid:
  "manifest_validate (gmail_manifest GmailWorkerExecutor) = Inr ()"
  "manifest_validate (calendar_manifest CalendarWorkerExecutor) = Inr ()"
  "manifest_validate (claude_manifest (ClaudeCodeSoftwareEngineeringExecutor cc)) = Inr ()"
  by code_simp+

lemma account_contexts_normal:
  "normalize_account_context (Some GMAIL_ACCOUNT_CONTEXT) = Some GMAIL_ACCOUNT_CONTEXT"
  "normalize_account_context (Some CALENDAR_ACCOUNT_CONTEXT) = Some CALENDAR_ACCOUNT_CONTEXT"
  "normalize_account_context None = None"
  by code_simp+

lemma distinct_routes:
  "find_first (dict_has (new_entries (Some GMAIL_ACCOUNT_CONTEXT) x GMAIL_WORKER_CAPABILITIES))
     (map (route_key_of (Some CALENDAR_ACCOUNT_CONTEXT)) CALENDAR_WORKER_CAPABILITIES) = None"
  "find_first (dict_has (new_entries (Some GMAIL_ACCOUNT_CONTEXT) x GMAIL_WORKER_CAPABILITIES
        @ new_entries (Some CALENDAR_ACCOUNT_CONTEXT) y CALENDAR_WORKER_CAPABILITIES))
     (map (route_key_of None) CLAUDE_CODE_WORKER_CAPABILITIES) = None"
  by code_simp+

lemma application_registry_eq:
  "application_registry coding =
     Inr \<lparr>provider_registrations = application_entries coding, fallback_executor = NoOpWorkerExecutor\<rparr>"
proof -
  let ?mails = "new_entries (Some GMAIL_ACCOUNT_CONTEXT) GmailWorkerExecutor GMAIL_WORKER_CAPABILITIES"
  let ?dates = "new_entries (Some CALENDAR_ACCOUNT_CONTEXT) CalendarWorkerExecutor CALENDAR_WORKER_CAPABILITIES"
  let ?reg = "\<lambda>entries. \<lparr>provider_registrations = entries, fallback_executor = NoOpWorkerExecutor\<rparr>"
  have gmail: "register_manifest (gmail_manifest GmailWorkerExecutor) (?reg []) = (Inr (), ?reg ?mails)"
    by (subst registered_if_free [OF provider_manifests_valid(1)])
       (simp_all add: gmail_manifest_def account_contexts_normal find_first_None dict_has_def)
  have calendar: "register_manifest (calendar_manifest CalendarWorkerExecutor) (?reg ?mails) = (Inr (), ?reg (?mails @ ?dates))"
    by (subst registered_if_free [OF provider_manifests_valid(2)])
       (simp_all add: calendar_manifest_def account_contexts_normal distinct_routes(1))
  have claude: "register_manifest (claude_manifest (ClaudeCodeSoftwareEngineeringExecutor cc)) (?reg (?mails @ ?dates)) =
      (Inr (), ?reg (?mails @ ?dates @ new_entries None (ClaudeCodeSoftwareEngineeringExecutor cc) CLAUDE_CODE_WORKER_CAPABILITIES))"
    for cc
    by (subst registered_if_free [OF provider_manifests_valid(3)])
       (simp_all add: claude_manifest_def account_contexts_normal distinct_routes(2))
  show ?thesis
    by (cases coding)
       (simp_all add: application_registry_def bnd_def gmail calendar claude application_entries_def empty_registry_def)
qed

abbreviation application_routes :: "claude_code_executor option \<Rightarrow> application_executor executor_registry" where
  "application_routes coding \<equiv> \<lparr>provider_registrations = application_entries coding, fallback_executor = NoOpWorkerExecutor\<rparr>"

lemma coding_routes:
  "matching_capability_routes (application_routes None) ''software_engineering'' ''code.implement'' None None = []"
  "matching_capability_routes (application_routes (Some cc)) ''software_engineering'' ''code.implement'' None None =
     [(CLAUDE_CODE_PROVIDER, None, ClaudeCodeSoftwareEngineeringExecutor cc)]"
  "has_account_specific_routes (application_routes None) ''software_engineering'' ''code.implement'' None = False"
  by code_simp+

lemma coding_task_registered:
  assumes "action_for i now (se_request objective target) = Inr a"
  shows "res_registered (resolve_with_registration (application_routes coding) a) \<longleftrightarrow> coding \<noteq> None"
proof -
  have "identifier_request True (PStr ''code.implement'') = \<lparr>rr_value = Some ''code.implement'', rr_present = True, rr_valid = True\<rparr>"
    by code_simp
  moreover have "act_executor_role a = Some (RoleEnum SOFTWARE_ENGINEERING)"
    "act_payload a = [(''capability'', PStr ''code.implement''), (''objective'', PStr objective)]"
    "dict_has (act_metadata a) ''account_context'' = False" "dict_has (act_metadata a) ''capability_provider'' = False"
    using assms by (auto simp: action_for_def se_request_def mk_action_def SOFTWARE_ENGINEERING_IMPLEMENT_CAPABILITY_def dict_has_def
        split: if_splits)
  ultimately show ?thesis
    by (cases coding)
       (simp_all add: resolve_with_registration_def normalize_role_def capability_for_action_def provider_for_action_def
          account_context_for_action_def dict_has_def pd_get_def resolve_capability_route_def coding_routes unrouted_def routed_def)
qed

text \<open>The engine of the container never allows a coding task by itself.\<close>

lemma coding_task_action:
  obtains a where "action_for i (now_utc c n) (se_request objective target) = Inr a" "act_id a = i" "act_type a = ''code.implement''"
  by (simp add: action_for_def mk_action_def se_request_def require_utc_created_at_def is_utc_aware
      SOFTWARE_ENGINEERING_IMPLEMENT_CAPABILITY_def)

lemma coding_task_decision:
  "act_type a = ''code.implement'' \<Longrightarrow> resolve_decision base_permission_engine c a = Inr d \<Longrightarrow> pdec_status d = REQUIRES_APPROVAL"
  by (auto simp: resolve_decision_def base_permission_engine_def mk_permission_decision_def safe_action_types_def rbind_def
      is_utc_aware require_utc_created_at_def)

lemma coding_task_delegated:
  "\<exists>x s1. delegate (application_routes coding) base_permission_engine dump c i (se_request objective target) s = (Inr x, s1)
     \<and> tdres_action_id x = i
     \<and> (if coding = None then tdres_status x = TD_ROUTE_REJECTED \<and> s1 = s
        else tdres_status x = TD_AWAITING_APPROVAL
          \<and> (\<exists>st a. act_id a = i \<and> awaits_approval st
               \<and> s1 = pending_approval_registry_update (registry_add a)
                        (s\<lparr>action_lifecycle_repository := lifecycle_set i st (action_lifecycle_repository s)\<rparr>)))"
proof -
  obtain a where a: "action_for i (now_utc c 0) (se_request objective target) = Inr a" "act_id a = i" "act_type a = ''code.implement''"
    by (rule coding_task_action)
  obtain d st where d: "resolve_decision base_permission_engine (\<lambda>n. c (Suc n)) a = Inr d"
    and st: "als_status st = initial_status (pdec_status d)"
      "als_metadata st = (case pdec_status d of ALLOWED \<Rightarrow> [] | REQUIRES_APPROVAL \<Rightarrow> [(''approval_required'', PBool True)]
        | DENIED \<Rightarrow> [(''permission_status'', PStr ''denied'')])"
    and run: "evaluate_action base_permission_engine dump (\<lambda>n. c (Suc n)) a s =
       (Inr \<lparr>pe_action = apply_permission_metadata dump a d, pe_decision = d\<rparr>,
        (if pdec_status d = REQUIRES_APPROVAL
         then pending_approval_registry_update (registry_add (apply_permission_metadata dump a d)) else id)
        (s\<lparr>action_lifecycle_repository := lifecycle_set (act_id a) st (action_lifecycle_repository s)\<rparr>))"
    by (rule evaluate_action_effect [of base_permission_engine "\<lambda>n. c (Suc n)" a dump s])
  have status: "pdec_status d = REQUIRES_APPROVAL" by (rule coding_task_decision [OF a(3) d])
  have "awaits_approval st" using st status by (simp add: awaits_approval_def initial_status_def pd_get_def)
  moreover have "act_id (apply_permission_metadata dump a d) = i" using a(2) by simp
  ultimately show ?thesis
    using a run status coding_task_registered [OF a(1), of coding]
    by (auto simp: delegate_def bnd_def Let_def permission_evaluate_def
        intro!: exI [of _ st] exI [of _ "apply_permission_metadata dump a d"])
qed

lemma composed_parts:
  assumes "compose_application ops aw dump dump_lifecycle digest expand env_settings = Inr cf"
  obtains st coding where "mk_settings expand env_settings = Inr st"
    "configured_software_engineering (aw_host aw) (aw_json_loads aw) expand st = Inr coding"
    "cf_registry cf = application_routes (map_option sec_executor coding)" "cf_workflow cf = application_workflow dump"
    "cf_ops cf = ops coding" "cf_host cf = aw_host aw" "cf_promotion cf = application_promotion st coding"
    "cf_reviewer cf = map_option sec_review coding" "cf_disposer cf = map_option sec_apply coding"
  using assms
  by (auto simp: compose_application_def application_config_def application_registry_eq rbind_def split: sum.splits)

lemma validated_settings:
  assumes "mk_settings expand env_settings = Inr st"
  shows "st = env_settings\<lparr>set_api_token := blank_api_token_disables_auth (set_api_token env_settings)\<rparr>"
    and "set_software_engineering_provider st \<in> {''disabled'', ''claude_code''}"
    and "set_promotion_enabled st \<Longrightarrow> set_software_engineering_provider st = ''claude_code''"
    and "1 \<le> set_software_engineering_timeout_seconds st"
    and "(k, v) \<in> set (trusted_promotion_values st) \<Longrightarrow> \<not> str_blank v"
    and "\<not> str_startswith (set_promotion_remote st) ''-''" "\<not> str_startswith (set_promotion_base_branch st) ''-''"
proof -
  have blank: "refuse_blank vs = Inr () \<Longrightarrow> (k, v) \<in> set vs \<Longrightarrow> \<not> str_blank v" for vs
    by (induction vs rule: refuse_blank.induct) (auto split: if_splits)
  note facts = assms [unfolded mk_settings_def validate_opt_in_settings_def rbind_def]
  show "st = env_settings\<lparr>set_api_token := blank_api_token_disables_auth (set_api_token env_settings)\<rparr>"
    using facts by (auto split: if_splits sum.splits)
  show "set_software_engineering_provider st \<in> {''disabled'', ''claude_code''}"
    using facts by (auto split: if_splits sum.splits)
  show "set_promotion_enabled st \<Longrightarrow> set_software_engineering_provider st = ''claude_code''"
    using facts by (auto split: if_splits sum.splits)
  show "1 \<le> set_software_engineering_timeout_seconds st"
    using facts by (auto split: if_splits sum.splits)
  show "(k, v) \<in> set (trusted_promotion_values st) \<Longrightarrow> \<not> str_blank v"
    using facts blank [of "trusted_promotion_values st"] by (auto split: if_splits sum.splits)
  show "\<not> str_startswith (set_promotion_remote st) ''-''" "\<not> str_startswith (set_promotion_base_branch st) ''-''"
    using facts by (auto split: if_splits sum.splits)
qed

lemma configured_iff:
  "configured_software_engineering h json_loads expand st = Inr coding \<Longrightarrow>
     coding = None \<longleftrightarrow> set_software_engineering_provider st \<noteq> ''claude_code''"
  by (auto simp: configured_software_engineering_def rbind_def Let_def split: if_splits sum.splits)

text \<open>C3. A coding task in the composed application. For settings that are accepted, a task with an objective and a target
  is never allowed by the engine, nor queued, nor executed: without a worker it is rejected and nothing but the run repository is
  touched; with the worker it is pending, in a state that awaits approval, whatever the run repository does.\<close>

theorem composed_coding_task:
  assumes "compose_application ops aw dump dump_lifecycle digest expand env_settings = Inr cf"
    and "\<not> str_blank objective" "\<not> str_blank target"
    and "ingress_delegate (cf_ops cf) (cf_registry cf) (ew_engine (cf_workflow cf)) (ew_dump (cf_workflow cf)) c rc i objective target s = (r, s')"
  shows "action_queue s' = action_queue s \<and> execution_observations s' = execution_observations s
    \<and> execution_world s' = execution_world s
    \<and> delegation_authorizes (ew_engine (cf_workflow cf)) c i (se_request objective target) = {}
    \<and> (if set_software_engineering_provider env_settings = ''claude_code''
       then registry_get (pending_approval_registry s') i \<noteq> None
         \<and> (\<exists>st. lifecycle_of s' i = Some st \<and> awaits_approval st)
         \<and> (\<forall>x. r = Inr x \<longrightarrow> tdres_action_id x = i \<and> tdres_status x = TD_AWAITING_APPROVAL)
       else s' = s\<lparr>run_repository := run_repository s'\<rparr>
         \<and> (\<forall>x. r = Inr x \<longrightarrow> tdres_action_id x = i \<and> tdres_status x = TD_ROUTE_REJECTED))"
proof -
  from assms(1) obtain st coding where settings: "mk_settings expand env_settings = Inr st"
    and coding: "configured_software_engineering (aw_host aw) (aw_json_loads aw) expand st = Inr coding"
    and reg: "cf_registry cf = application_routes (map_option sec_executor coding)"
    and flow: "cf_workflow cf = application_workflow dump"
    by (rule composed_parts)
  have none: "coding = None \<longleftrightarrow> set_software_engineering_provider env_settings \<noteq> ''claude_code''"
    using configured_iff [OF coding] validated_settings(1) [OF settings] by simp
  have request: "check_request (se_request objective target) = Inr (se_request objective target)"
  proof -
    have "\<not> str_blank ''code.implement'' \<and> str_casefold (str_strip ''code.implement'') = ''code.implement''" by code_simp
    then show ?thesis
      using assms(2,3) by (auto simp: check_request_def se_request_def require_text_def rbind_def guard_exc_def
          SOFTWARE_ENGINEERING_IMPLEMENT_CAPABILITY_def)
  qed
  obtain x s1 where x: "delegate (cf_registry cf) base_permission_engine dump c i (se_request objective target) s = (Inr x, s1)"
      "tdres_action_id x = i"
    and s1: "if coding = None then tdres_status x = TD_ROUTE_REJECTED \<and> s1 = s
        else tdres_status x = TD_AWAITING_APPROVAL
          \<and> (\<exists>st a. act_id a = i \<and> awaits_approval st
               \<and> s1 = pending_approval_registry_update (registry_add a)
                        (s\<lparr>action_lifecycle_repository := lifecycle_set i st (action_lifecycle_repository s)\<rparr>))"
    using coding_task_delegated [of "map_option sec_executor coding" dump c i objective target s] reg by auto
  have "\<exists>q R. r = q \<and> (q = Inr x \<or> (\<exists>e. q = Inl e)) \<and> s' = s1\<lparr>run_repository := R\<rparr>"
    using assms(4) request x(1)
    by (auto simp: ingress_delegate_def se_request_def [symmetric] flow application_workflow_def bnd_def on_runs_def
        split: prod.splits sum.splits)
  then obtain R where s': "s' = s1\<lparr>run_repository := R\<rparr>" and r: "\<And>y. r = Inr y \<Longrightarrow> y = x" by auto
  have "delegation_authorizes (ew_engine (cf_workflow cf)) c i (se_request objective target) = {}"
    by (rule coding_task_action [of i c 0 objective target])
       (auto simp: flow application_workflow_def delegation_authorizes_def dest: coding_task_decision split: sum.split)
  then show ?thesis
    using none s1 s' r x(2) by (auto simp: lifecycle.get_put registry_get_add)
qed

text \<open>A composition with the coding worker in a checkout at \<open>/srv/velox\<close>, on a host that runs nothing.\<close>

definition idle_world :: "unit gmail_world_scheme application_world" where
  "idle_world = \<lparr>aw_host = \<lparr>host_run = (\<lambda>argv p w. (None, w)), host_is_dir = (\<lambda>w p. False), host_exists = (\<lambda>w p. False),
        host_resolve = (\<lambda>w p. p), host_mkdir = (\<lambda>p w. w)\<rparr>,
     aw_runner = (\<lambda>argv p t inp env. ret None), aw_json_loads = (\<lambda>t. None), aw_os_environ = [], aw_repr = (\<lambda>v. ''?'')\<rparr>"

definition coding_settings :: settings where
  "coding_settings = default_settings\<lparr>set_software_engineering_provider := ''claude_code'',
     set_software_engineering_workspace := Some ''/srv/velox'', set_promotion_enabled := True\<rparr>"

abbreviation compose_demo :: "settings \<Rightarrow> (mem_runs, unit gmail_world_scheme, application_executor) server_config result" where
  "compose_demo \<equiv> compose_application (\<lambda>_. mem_ops) idle_world (\<lambda>_. PNone) (\<lambda>_. PNone) id Inr"

lemma coding_settings_accepted: "mk_settings Inr coding_settings = Inr coding_settings"
proof -
  have "mk_settings Inr (default_settings\<lparr>set_software_engineering_provider := ''claude_code'',
     set_software_engineering_workspace := Some ''/srv/velox'', set_promotion_enabled := True\<rparr>) =
    Inr (default_settings\<lparr>set_software_engineering_provider := ''claude_code'',
     set_software_engineering_workspace := Some ''/srv/velox'', set_promotion_enabled := True\<rparr>)" by code_simp
  then show ?thesis by (simp add: coding_settings_def)
qed

lemma coding_settings_sel:
  "set_software_engineering_provider coding_settings = ''claude_code''"
  "set_software_engineering_workspace coding_settings = Some ''/srv/velox''" "set_state_database_path coding_settings = None"
  "set_promotion_enabled coding_settings"
  by (simp_all add: coding_settings_def default_settings_def)

lemma velox_path: "path_of_str ''/srv/velox'' = \<lparr>path_abs = True, path_parts = [''srv'', ''velox'']\<rparr>"
  by code_simp

lemma demo_configured:
  "\<exists>c. configured_software_engineering (aw_host idle_world) (aw_json_loads idle_world) Inr coding_settings = Inr (Some c)"
  by (simp add: configured_software_engineering_def coding_settings_sel or_empty_def velox_path rbind_def check_database_path_def
      guard_exc_def default_software_engineering_state_path_def path_child_def path_parent_def Let_def)

lemma demo_composed: "\<exists>cf. compose_demo coding_settings = Inr cf"
  using demo_configured
  by (auto simp: compose_application_def rbind_def coding_settings_accepted application_config_def application_registry_eq)

theorem composed_coding_task_witness:
  "\<exists>cf. compose_demo coding_settings = Inr cf
     \<and> registry_get (pending_approval_registry (snd (ingress_delegate (cf_ops cf) (cf_registry cf) (ew_engine (cf_workflow cf))
         (ew_dump (cf_workflow cf)) sample_clock sample_clock 7 ''fix it'' ''velox''
         (application_start [] \<lparr>sent_messages = [], \<dots> = ()\<rparr>)))) 7 \<noteq> None"
proof -
  obtain cf where cf: "compose_demo coding_settings = Inr cf" using demo_composed by blast
  have "\<not> str_blank ''fix it''" "\<not> str_blank ''velox''" by code_simp+
  note pending = composed_coding_task [OF cf this surjective_pairing, of sample_clock sample_clock 7
      "application_start [] \<lparr>sent_messages = [], \<dots> = ()\<rparr>", unfolded coding_settings_sel, simplified]
  show ?thesis by (intro exI [of _ cf] conjI cf) (use pending in blast)
qed

section \<open>The trusted workspace\<close>

lemma worktree_outside:
  assumes "path_parts (tgw_root ws) \<noteq> []" "tgw_worktrees_root ws = None"
  shows "iw_path (expected_worktree ws i) \<noteq> tgw_root ws \<and> \<not> path_in_parents (tgw_root ws) (iw_path (expected_worktree ws i))"
proof -
  obtain ps n where parts: "path_parts (tgw_root ws) = ps @ [n]" using assms(1) by (metis append_butlast_last_id)
  have "length (''.'' @ n @ ''-velox-worktrees'') > length n" by simp
  then have "''.'' @ n @ ''-velox-worktrees'' \<noteq> n" by auto
  then show ?thesis
    using parts assms(2)
    by (cases "tgw_root ws") (auto simp: expected_worktree_def worktrees_root_def path_child_def path_parent_def path_name_def path_in_parents_def Let_def)
qed

text \<open>C21. One trusted workspace. In an application composed from accepted settings, promotion is enabled only together with
  everything it needs: the workspace, the reviewer and the publisher, a remote and a base branch that are not blank and that git cannot take for
  options. The executor, the reviewer, the disposer and the promotion share one checkout, that of the settings; the
  worktrees of all actions lie outside it; the database has an absolute path, outside the checkout too unless it was
  configured or the checkout is a directory named \<open>.velox\<close>.\<close>

theorem trusted_composition:
  assumes "mk_settings expand env_settings = Inr st"
    and "configured_software_engineering h json_loads expand st = Inr coding"
  shows "case coding of
      None \<Rightarrow> set_software_engineering_provider st = ''disabled'' \<and> \<not> ps_enabled (application_promotion st None)
    | Some c \<Rightarrow>
        let ws = sec_workspace c; ps = application_promotion st coding in
        set_software_engineering_provider st = ''claude_code''
        \<and> expand (path_of_str (or_empty (set_software_engineering_workspace st))) = Inr (tgw_root ws)
        \<and> cce_workspace (sec_executor c) = ws \<and> sec_review c = wp_review h ws DEFAULT_DIFF_LIMIT \<and> sec_apply c = wp_apply h ws
        \<and> 1 \<le> cce_timeout_seconds (sec_executor c)
        \<and> ps_workspace ps = Some ws \<and> ps_review ps = Some (sec_review c) \<and> (ps_publisher ps \<noteq> None \<longleftrightarrow> ps_enabled ps)
        \<and> (\<forall>v\<in>{ps_remote ps, ps_base_branch ps}. \<not> str_blank v \<and> \<not> str_startswith v ''-'')
        \<and> path_abs (sec_state_path c)
        \<and> (path_parts (tgw_root ws) \<noteq> [] \<longrightarrow>
             (\<forall>i. iw_path (expected_worktree ws i) \<noteq> tgw_root ws
                \<and> \<not> path_in_parents (tgw_root ws) (iw_path (expected_worktree ws i)))
             \<and> (set_state_database_path st = None \<longrightarrow> expand (tgw_root ws) = Inr (tgw_root ws) \<longrightarrow>
                  path_in_parents (tgw_root ws) (sec_state_path c) = (path_name (tgw_root ws) = ''.velox'')))"
proof (cases coding)
  case None
  with validated_settings(2,3) [OF assms(1)] configured_iff [OF assms(2)] show ?thesis
    by (auto simp: application_promotion_def)
next
  case (Some c)
  note valid = validated_settings [OF assms(1)]
  have provider: "set_software_engineering_provider st = ''claude_code''" using configured_iff [OF assms(2)] Some by simp
  obtain root where root: "expand (path_of_str (or_empty (set_software_engineering_workspace st))) = Inr root"
    and ws: "sec_workspace c = \<lparr>tgw_root = root, tgw_worktrees_root = None, tgw_git = ''git''\<rparr>"
    and parts: "cce_workspace (sec_executor c) = sec_workspace c" "sec_review c = wp_review h (sec_workspace c) DEFAULT_DIFF_LIMIT"
      "sec_apply c = wp_apply h (sec_workspace c)"
      "cce_timeout_seconds (sec_executor c) = of_int (set_software_engineering_timeout_seconds st)"
      "sec_publisher c \<noteq> None \<longleftrightarrow> set_promotion_enabled st" "path_abs (sec_state_path c)"
    and state: "set_state_database_path st = None \<Longrightarrow> rbind (expand root) default_software_engineering_state_path = Inr (sec_state_path c)"
    using assms(2) provider Some
    by (auto simp: configured_software_engineering_def rbind_def Let_def check_database_path_def split: sum.splits if_splits option.splits)
  have inside: "path_in_parents root (sec_state_path c) = (path_name root = ''.velox'')"
    if db: "set_state_database_path st = None" "expand root = Inr root" "path_parts root \<noteq> []"
  proof -
    obtain ps n where "path_parts root = ps @ [n]" using db(3) by (metis append_butlast_last_id)
    moreover from state [OF db(1)] db(2)
    have "sec_state_path c = path_child (path_child (path_parent root) ''.velox'') (path_name root @ ''-software-engineering.sqlite3'')"
      by (auto simp: rbind_def default_software_engineering_state_path_def split: if_splits)
    ultimately show ?thesis by (auto simp: path_in_parents_def path_child_def path_parent_def path_name_def)
  qed
  have "\<forall>v\<in>{set_promotion_remote st, set_promotion_base_branch st}. \<not> str_blank v \<and> \<not> str_startswith v ''-''"
    using valid(5-7) by (auto simp: trusted_promotion_values_def)
  moreover have "(1::rat) \<le> of_int (set_software_engineering_timeout_seconds st)" using valid(4) by simp
  ultimately show ?thesis
    using Some provider root ws parts inside worktree_outside [of "sec_workspace c"]
    by (simp add: Let_def application_promotion_def)
qed

theorem trusted_composition_witness:
  "\<exists>c. configured_software_engineering (aw_host idle_world) (aw_json_loads idle_world) Inr coding_settings = Inr (Some c)
     \<and> ps_publisher (application_promotion coding_settings (Some c)) \<noteq> None"
proof -
  obtain c where c: "configured_software_engineering (aw_host idle_world) (aw_json_loads idle_world) Inr coding_settings = Inr (Some c)"
    using demo_configured by blast
  have "ps_enabled (application_promotion coding_settings (Some c))"
    by (simp add: application_promotion_def coding_settings_sel)
  then show ?thesis
    using trusted_composition [OF coding_settings_accepted c] c by (intro exI [of _ c]) (simp add: Let_def)
qed

end
