(* ===== verification/Pilot_Properties.thy ===== *)
theory Pilot_Properties
  imports Composition_Properties Demo_Run
begin

text \<open>
  The pilot of the coding worker: what it can do to the server before the operator has typed anything, and that it does
  nothing to the stores of the server that the server could not do itself.
\<close>

section \<open>Pilot steps and server steps\<close>

definition leads :: "('s \<Rightarrow> bool) \<Rightarrow> ('s \<Rightarrow> bool) \<Rightarrow> ('s, 'a) prog \<Rightarrow> bool" where
  "leads P Q m \<longleftrightarrow> (\<forall>s. P s \<longrightarrow> Q (snd (m s)))"

named_theorems lead_intros \<open>where the steps of the pilot lead\<close>

lemma leads_bnd:
  assumes "leads P R m" "\<And>x. leads R Q (f x)" "\<And>s. R s \<Longrightarrow> Q s"
  shows "leads P Q (bnd m f)"
  using assms by (fastforce simp: leads_def bnd_def split: prod.splits sum.splits)

lemma leads_same_bnd [lead_intros]: "leads Q Q m \<Longrightarrow> (\<And>x. leads Q Q (f x)) \<Longrightarrow> leads Q Q (bnd m f)"
  by (rule leads_bnd)

lemma leads_pure [lead_intros]: "leads Q Q (ret x)" "leads Q Q (raise_exc e)" "leads Q Q (gets g)"
  by (simp_all add: leads_def)

text \<open>The world of the console is a reachable server, with at most \<open>H\<close> authorized; or is one but for the world outside, on
  which a work product is reviewed and disposed of.\<close>

definition served :: "('r, 'w, 'x) server_config \<Rightarrow> ('r, 'w) server_state \<Rightarrow> uuid set \<Rightarrow> ('r, 'w) pilot_state \<Rightarrow> bool" where
  "served cf s0 H s \<longleftrightarrow> (\<exists>G\<subseteq>H. server_reachable cf s0 (con_world s, G))"

definition served_beside :: "('r, 'w, 'x) server_config \<Rightarrow> ('r, 'w) server_state \<Rightarrow> uuid set \<Rightarrow> ('r, 'w) pilot_state \<Rightarrow> bool" where
  "served_beside cf s0 H s \<longleftrightarrow>
     (\<exists>t w. (\<exists>G\<subseteq>H. server_reachable cf s0 (t, G)) \<and> con_world s = t\<lparr>execution_world := w\<rparr>)"

lemma served_beside: "served cf s0 H s \<Longrightarrow> served_beside cf s0 H s"
  by (auto simp: served_def served_beside_def intro!: exI [of _ "con_world s"] exI [of _ "execution_world (con_world s)"])

lemma console_leads [lead_intros]:
  "leads (served cf s0 H) (served cf s0 H) (print_out ls)" "leads (served_beside cf s0 H) (served_beside cf s0 H) (print_out ls)"
  "leads (served_beside cf s0 H) (served_beside cf s0 H) read_line"
  by (auto simp: leads_def served_def served_beside_def print_out_def read_line_def bnd_def split: list.split)

lemma served_step:
  assumes "\<And>t G r t'. m t = (r, t') \<Longrightarrow> server_step cf (t, G) (t', G \<union> D)" "D \<subseteq> H"
  shows "leads (served cf s0 H) (served cf s0 H) (on_con_world m)"
  unfolding leads_def
proof (intro allI impI)
  fix s assume "served cf s0 H s"
  then obtain G where G: "G \<subseteq> H" "server_reachable cf s0 (con_world s, G)" by (auto simp: served_def)
  obtain r t where m: "m (con_world s) = (r, t)" by fastforce
  from server_reachable.step [OF G(2) assms(1) [OF m]] show "served cf s0 H (snd (on_con_world m s))"
    using G(1) assms(2) m by (auto simp: served_def on_con_world_def intro: exI [of _ "G \<union> D"])
qed

lemma products_lead [lead_intros]: "leads (served_beside cf s0 H) (served_beside cf s0 H) (on_products m)"
  unfolding leads_def
proof (intro allI impI)
  fix s assume "served_beside cf s0 H s"
  then obtain t w G where t: "G \<subseteq> H" "server_reachable cf s0 (t, G)" "con_world s = t\<lparr>execution_world := w\<rparr>"
    by (auto simp: served_beside_def)
  obtain r w' where "m w = (r, w')" by fastforce
  then have "con_world (snd (on_products m s)) = t\<lparr>execution_world := w'\<rparr>"
    using t(3) by (simp add: on_products_def on_con_world_def on_world_def)
  with t(1,2) show "served_beside cf s0 H (snd (on_products m s))" by (auto simp: served_beside_def)
qed

lemma review_leads: "leads (served_beside cf s0 H) (served_beside cf s0 H) (review_and_dispose rv dp i)"
  unfolding review_and_dispose_def
  by (intro lead_intros | simp only: split: sum.split option.split | intro conjI allI impI lead_intros)+

section \<open>The run\<close>

definition valid_pilot :: "pilot_inputs \<Rightarrow> bool" where
  "valid_pilot inp \<longleftrightarrow> valid_clock (pi_run_clock inp) \<and> valid_clock (pi_recovery_clock inp) \<and> valid_clock (pi_recorder_clock inp)
     \<and> valid_clock (pi_continuation_clock inp) \<and> valid_inputs (pi_worker inp)"

lemma delegate_leads:
  assumes "valid_pilot inp"
    and "delegation_authorizes (ew_engine (cf_workflow cf)) (pi_clock inp) (pi_action_id inp) (se_request objective target) \<subseteq> H"
  shows "leads (served cf s0 H) (served cf s0 H) (on_con_world (pilot_delegate cf inp objective target))"
  using assms unfolding pilot_delegate_def
  by (intro served_step) (auto simp: valid_pilot_def intro: server_step.delegate)

lemma approve_leads:
  assumes "valid_pilot inp" "i \<in> H"
  shows "leads (served cf s0 H) (served cf s0 H) (on_con_world (pilot_approve cf inp i))"
proof (rule served_step)
  show "{i} \<subseteq> H" using assms(2) by simp
  show "server_step cf (t, G) (t', G \<union> {i})" if "pilot_approve cf inp i t = (r, t')" for t G r t'
    using server_step.approve [OF _ _ that [unfolded pilot_approve_def]] assms(1) by (simp add: valid_pilot_def)
qed

lemma continue_leads:
  assumes "valid_pilot inp"
  shows "leads (served cf s0 H) (served cf s0 H) (on_con_world (pilot_continue cf inp i))"
proof (rule served_step)
  show "server_step cf (t, G) (t', G \<union> {})" if "pilot_continue cf inp i t = (r, t')" for t G r t'
    using server_step.continue_run [OF _ _ that [unfolded pilot_continue_def]] assms(1) by (simp add: valid_pilot_def)
qed simp

lemma execution_leads:
  assumes "valid_pilot inp" "i \<in> H"
  shows "leads (served cf s0 H) (served_beside cf s0 H) (pilot_execution cf py_repr inp i)"
  unfolding pilot_execution_def
proof (intro leads_bnd [OF approve_leads [OF assms] _ served_beside] leads_bnd [OF console_leads(1) _ served_beside]
    leads_bnd [OF continue_leads [OF assms(1)] _ served_beside] leads_bnd [OF leads_pure(3) _ served_beside])
  fix found
  have "leads (served_beside cf s0 H) (served_beside cf s0 H) (case found of
       None \<Rightarrow> bnd (print_out [''The worker did not run.'']) (\<lambda>_. ret 1)
     | Some o1 \<Rightarrow>
         bnd (print_out (pilot_report py_repr o1)) (\<lambda>_.
         bnd (case (cf_reviewer cf, cf_disposer cf) of
                (Some review_product, Some apply_disposition) \<Rightarrow> review_and_dispose review_product apply_disposition i
              | _ \<Rightarrow> ret ()) (\<lambda>_.
         ret (if obs_status o1 = ''succeeded'' then 0 else 1))))"
    by (auto split: option.split intro!: lead_intros review_leads)
  then show "leads (served cf s0 H) (served_beside cf s0 H) (case found of
       None \<Rightarrow> bnd (print_out [''The worker did not run.'']) (\<lambda>_. ret 1)
     | Some o1 \<Rightarrow>
         bnd (print_out (pilot_report py_repr o1)) (\<lambda>_.
         bnd (case (cf_reviewer cf, cf_disposer cf) of
                (Some review_product, Some apply_disposition) \<Rightarrow> review_and_dispose review_product apply_disposition i
              | _ \<Rightarrow> ret ()) (\<lambda>_.
         ret (if obs_status o1 = ''succeeded'' then 0 else 1))))"
    by (auto simp: leads_def dest: served_beside)
qed

lemma pilot_delegate_id:
  assumes "pilot_delegate cf inp objective target t = (Inr x, t')"
  shows "tdres_action_id x = pi_action_id inp"
proof -
  have "tdres_action_id x = i" if "delegate reg engine dump c i rq t = (Inr x, t')" for reg engine dump c i rq and t t' :: "('r, 'w) server_state"
    using that by (auto simp: delegate_def bnd_def Let_def action_for_def dest!: mk_action_id split: sum.splits prod.splits if_splits)
  with assms show ?thesis
    by (auto simp: pilot_delegate_def ingress_delegate_def bnd_def split: sum.splits prod.splits)
qed

definition approval_typed :: "pilot_inputs \<Rightarrow> ('r, 'w) pilot_state \<Rightarrow> bool" where
  "approval_typed inp s \<longleftrightarrow> con_input s \<noteq> [] \<and> str_strip (hd (con_input s)) = uuid_str (pi_action_id inp)"

lemma pilot_cases:
  assumes "pilot_main cf (Some wt) py_repr inp objective target s = (r, s')"
  shows "con_world s' = snd (pilot_delegate cf inp objective target (con_world s))
    \<or> approval_typed inp s \<and> (\<exists>s1. con_world s1 = snd (pilot_delegate cf inp objective target (con_world s))
         \<and> pilot_execution cf py_repr inp (pi_action_id inp) s1 = (r, s'))"
proof -
  obtain q t where q: "pilot_delegate cf inp objective target (con_world s) = (q, t)" by fastforce
  show ?thesis
  proof (cases q)
    case (Inl e)
    with q assms show ?thesis by (auto simp: pilot_main_def bnd_def on_con_world_def)
  next
    case (Inr x)
    have i: "tdres_action_id x = pi_action_id inp" using pilot_delegate_id q Inr by blast
    show ?thesis
      using assms q Inr i
      by (auto simp: pilot_main_def bnd_def on_con_world_def print_out_def read_line_def Let_def approval_typed_def
          split: if_splits list.splits)
  qed
qed

text \<open>C38. The pilot needs the operator. Whatever the worker does: unless the first line typed is the identifier of the new
  action, the pilot has done nothing but delegate the task. In any case the stores it leaves are those of a reachable server,
  and beyond what was authorized before, and what the engine allows of the task, only the action whose identifier was typed is
  authorized; the review and the decision about the work product change nothing but the world outside the server.\<close>

theorem pilot_confirmed:
  fixes s :: "('r, 'w) pilot_state"
  assumes "pilot_main cf (Some wt) py_repr inp objective target s = (r, s')" "valid_pilot inp"
    and "server_reachable cf s0 (con_world s, G)"
  shows "(\<not> approval_typed inp s \<longrightarrow> con_world s' = snd (pilot_delegate cf inp objective target (con_world s)))
    \<and> (\<exists>t w G'. server_reachable cf s0 (t, G') \<and> con_world s' = t\<lparr>execution_world := w\<rparr>
         \<and> G' \<subseteq> G \<union> delegation_authorizes (ew_engine (cf_workflow cf)) (pi_clock inp) (pi_action_id inp) (se_request objective target)
               \<union> (if approval_typed inp s then {pi_action_id inp} else {}))"
proof -
  let ?H = "G \<union> delegation_authorizes (ew_engine (cf_workflow cf)) (pi_clock inp) (pi_action_id inp) (se_request objective target)
               \<union> (if approval_typed inp s then {pi_action_id inp} else {})"
  let ?t = "snd (pilot_delegate cf inp objective target (con_world s))"
  have start: "served cf s0 ?H s" using assms(3) by (auto simp: served_def)
  have "leads (served cf s0 ?H) (served cf s0 ?H) (on_con_world (pilot_delegate cf inp objective target))"
    by (rule delegate_leads [OF assms(2)]) auto
  then have "served cf s0 ?H (snd (on_con_world (pilot_delegate cf inp objective target) s))"
    using start unfolding leads_def by blast
  moreover have "con_world (snd (on_con_world m s)) = snd (m (con_world s))" for m :: "(('r, 'w) server_state, 'd) prog"
    by (simp add: on_con_world_def split: prod.split)
  ultimately have delegated: "served cf s0 ?H s1" if "con_world s1 = ?t" for s1
    unfolding served_def that by metis
  consider "con_world s' = ?t" | s1 where "approval_typed inp s" "con_world s1 = ?t"
      "pilot_execution cf py_repr inp (pi_action_id inp) s1 = (r, s')"
    using pilot_cases [OF assms(1)] by blast
  then have "served_beside cf s0 ?H s' \<and> (\<not> approval_typed inp s \<longrightarrow> con_world s' = ?t)"
  proof cases
    case 1
    then show ?thesis using delegated served_beside by blast
  next
    case 2
    have "leads (served cf s0 ?H) (served_beside cf s0 ?H) (pilot_execution cf py_repr inp (pi_action_id inp))"
      by (rule execution_leads [OF assms(2)]) (simp add: 2(1))
    with delegated [OF 2(2)] have "served_beside cf s0 ?H (snd (pilot_execution cf py_repr inp (pi_action_id inp) s1))"
      unfolding leads_def by blast
    then show ?thesis using 2(1,3) by simp
  qed
  then obtain t w G' where "G' \<subseteq> ?H" "server_reachable cf s0 (t, G')" "con_world s' = t\<lparr>execution_world := w\<rparr>"
      "\<not> approval_typed inp s \<longrightarrow> con_world s' = ?t"
    unfolding served_beside_def by blast
  then show ?thesis by blast
qed

definition demo_pilot :: pilot_inputs where
  "demo_pilot = \<lparr>pi_clock = sample_clock, pi_run_clock = sample_clock, pi_action_id = 7, pi_recovery_clock = sample_clock,
     pi_recorder_clock = sample_clock, pi_approval_clock = sample_clock, pi_continuation_clock = sample_clock, pi_claim_id = 8,
     pi_worker = sample_inputs\<rparr>"

definition declining_operator :: "(sqlite_db, nat) pilot_state" where
  "declining_operator = \<lparr>con_world = demo_start, con_requests = [], con_input = [''no'', ''keep''], con_out = [], con_err = []\<rparr>"

theorem pilot_confirmed_witness:
  "con_world (snd (pilot_main demo_config (Some (path_of_str ''/srv'')) (\<lambda>v. ''?'') demo_pilot ''fix it'' ''velox'' declining_operator)) =
     snd (pilot_delegate demo_config demo_pilot ''fix it'' ''velox'' demo_start)"
proof -
  have "str_strip ''no'' = ''no''" by code_simp
  moreover have "uuid_str 7 \<noteq> ''no''" by code_simp
  ultimately have "\<not> approval_typed demo_pilot declining_operator"
    by (simp add: approval_typed_def demo_pilot_def declining_operator_def)
  moreover have "valid_pilot demo_pilot" by (simp add: valid_pilot_def demo_pilot_def valid_inputs_def sample_inputs_def)
  moreover have "server_reachable demo_config demo_start (con_world declining_operator, {})"
    by (simp add: declining_operator_def server_reachable.start)
  ultimately show ?thesis
    using pilot_confirmed [OF surjective_pairing, of demo_pilot demo_config demo_start declining_operator "{}"
        "path_of_str ''/srv''" "\<lambda>v. ''?''" "''fix it''" "''velox''"]
    by (simp add: declining_operator_def)
qed

end
