(* ===== verification/SE_Schema.thy ===== *)
theory SE_Schema
  imports SE_Sqlite
begin

text \<open>
  Opening the SQLite repository (\<open>SqliteSoftwareEngineeringRunRepository.__init__\<close>): the schema, its version and the
  migrations. The database is the table of schema versions and the table of runs with its columns; each row maps the
  columns it was given to their values, and a column it was not given reads as NULL, as SQLite has it for a column added later.
  Under the transaction control of the module \<open>sqlite3\<close> a DDL statement takes effect at once; the statement that writes
  the version opens a transaction, which is committed at the end of the block. \<open>sd_faults\<close> says of each statement, in the order they
  happen, whether the database fails in it. Creating the directory of the file is left out.
\<close>

section \<open>The database\<close>

record run_table =
  rt_columns :: "(string \<times> string) list"
  rt_rows :: "(string \<rightharpoonup> pyval) list"

record schema_db =
  sd_versions :: "int option option" \<comment> \<open>the table \<open>velox_schema\<close>, and the version recorded in it\<close>
  sd_runs :: "run_table option"
  sd_faults :: "bool list"

abbreviation sqlite_error :: exc where
  "sqlite_error \<equiv> OtherException ''OperationalError'' ''database error''"

definition read_cell :: "run_table \<Rightarrow> (string \<rightharpoonup> pyval) \<Rightarrow> string \<Rightarrow> pyval option" where
  "read_cell t row name =
     (if name \<in> set (map fst (rt_columns t)) then Some (case row name of None \<Rightarrow> PNone | Some v \<Rightarrow> v) else None)"

text \<open>One statement: it fails when the database fails in it or when it does not apply.\<close>

definition sql_statement :: "(schema_db \<Rightarrow> (schema_db \<times> 'a) option) \<Rightarrow> (schema_db, 'a) prog" where
  "sql_statement f s =
     (let s' = s\<lparr>sd_faults := tl (sd_faults s)\<rparr> in
      if sd_faults s \<noteq> [] \<and> hd (sd_faults s) then (Inl sqlite_error, s')
      else (case f s' of None \<Rightarrow> (Inl sqlite_error, s') | Some (t, x) \<Rightarrow> (Inr x, t)))"

text \<open>\<open>with connection:\<close> commits what the block wrote, or rolls it back.\<close>

definition sql_block :: "(schema_db, 'a) prog \<Rightarrow> (schema_db, 'a) prog" where
  "sql_block body s =
     (let rolled_back = (\<lambda>t. t\<lparr>sd_versions := map_option (\<lambda>_. case sd_versions s of None \<Rightarrow> None | Some v \<Rightarrow> v) (sd_versions t)\<rparr>) in
      case body s of
        (Inl e, s1) \<Rightarrow> (Inl e, rolled_back s1)
      | (Inr x, s1) \<Rightarrow>
          (case sql_statement (\<lambda>t. Some (t, ())) s1 of
             (Inl e, s2) \<Rightarrow> (Inl e, rolled_back s2)
           | (Inr _, s2) \<Rightarrow> (Inr x, s2)))"

section \<open>Statements\<close>

definition SCHEMA_VERSION :: int where "SCHEMA_VERSION = 3"

definition v3_columns :: "(string \<times> string) list" where
  "v3_columns =
     [(''action_id'', ''TEXT PRIMARY KEY''), (''executor_role'', ''TEXT NOT NULL''), (''capability'', ''TEXT NOT NULL''),
      (''target'', ''TEXT NOT NULL''), (''delegation_status'', ''TEXT''), (''pending_objective'', ''TEXT''),
      (''approval_status'', ''TEXT''), (''approved_at'', ''TEXT''), (''rejected_at'', ''TEXT''), (''claim_id'', ''TEXT''),
      (''claimed_at'', ''TEXT''), (''execution_started_at'', ''TEXT''), (''claim_resolution'', ''TEXT''),
      (''claim_reconciled_at'', ''TEXT''), (''execution_status'', ''TEXT''), (''execution_finished_at'', ''TEXT''),
      (''external_execution_performed'', ''INTEGER''), (''disposition'', ''TEXT''), (''disposition_succeeded'', ''INTEGER''),
      (''worktree_present'', ''INTEGER''), (''branch_present'', ''INTEGER''), (''canonical_unchanged'', ''INTEGER''),
      (''promotion_commit_sha'', ''TEXT''), (''pull_request_number'', ''INTEGER''), (''pull_request_url'', ''TEXT''),
      (''promotion_base_branch'', ''TEXT''), (''promotion_head_branch'', ''TEXT''), (''promotion_finished_at'', ''TEXT''),
      (''created_at'', ''TEXT NOT NULL''), (''updated_at'', ''TEXT NOT NULL'')]"

definition v2_additions :: "(string \<times> string) list" where
  "v2_additions =
     [(''pending_objective'', ''TEXT''), (''approval_status'', ''TEXT''), (''approved_at'', ''TEXT''), (''rejected_at'', ''TEXT''),
      (''claim_id'', ''TEXT''), (''claimed_at'', ''TEXT''), (''execution_started_at'', ''TEXT'')]"

definition v3_additions :: "(string \<times> string) list" where
  "v3_additions = [(''claim_resolution'', ''TEXT''), (''claim_reconciled_at'', ''TEXT'')]"

definition create_schema_table :: "(schema_db, unit) prog" where
  "create_schema_table = sql_statement (\<lambda>s.
     Some (case sd_versions s of None \<Rightarrow> s\<lparr>sd_versions := Some None\<rparr> | Some _ \<Rightarrow> s, ()))"

definition select_version :: "(schema_db, int option) prog" where
  "select_version = sql_statement (\<lambda>s. case sd_versions s of None \<Rightarrow> None | Some v \<Rightarrow> Some (s, v))"

definition write_version :: "int \<Rightarrow> (schema_db, unit) prog" where
  "write_version v = sql_statement (\<lambda>s. case sd_versions s of None \<Rightarrow> None | Some _ \<Rightarrow> Some (s\<lparr>sd_versions := Some (Some v)\<rparr>, ()))"

definition create_v3_table :: "(schema_db, unit) prog" where
  "create_v3_table = sql_statement (\<lambda>s.
     Some (case sd_runs s of None \<Rightarrow> s\<lparr>sd_runs := Some \<lparr>rt_columns = v3_columns, rt_rows = []\<rparr>\<rparr> | Some _ \<Rightarrow> s, ()))"

definition table_info :: "(schema_db, string list) prog" where
  "table_info = sql_statement (\<lambda>s.
     Some (s, case sd_runs s of None \<Rightarrow> [] | Some t \<Rightarrow> map fst (rt_columns t)))"

definition add_column :: "string \<times> string \<Rightarrow> (schema_db, unit) prog" where
  "add_column c = sql_statement (\<lambda>s.
     case sd_runs s of
       None \<Rightarrow> None
     | Some t \<Rightarrow>
         if fst c \<in> set (map fst (rt_columns t)) then None
         else Some (s\<lparr>sd_runs := Some (t\<lparr>rt_columns := rt_columns t @ [c]\<rparr>)\<rparr>, ()))"

fun add_columns :: "(string \<times> string) list \<Rightarrow> (schema_db, unit) prog" where
  "add_columns [] = ret ()"
| "add_columns (c # cs) = bnd (add_column c) (\<lambda>_. add_columns cs)"

definition migrate :: "(string \<times> string) list \<Rightarrow> (schema_db, unit) prog" where
  "migrate additions =
     bnd table_info (\<lambda>columns. add_columns (filter (\<lambda>c. fst c \<notin> set columns) additions))"

definition open_schema :: "(schema_db, unit) prog" where
  "open_schema =
     bnd create_schema_table (\<lambda>_.
     bnd select_version (\<lambda>found.
     case found of
       None \<Rightarrow> bnd create_v3_table (\<lambda>_. write_version SCHEMA_VERSION)
     | Some version \<Rightarrow>
         if version = 1
         then bnd (migrate v2_additions) (\<lambda>_. bnd (migrate v3_additions) (\<lambda>_. write_version SCHEMA_VERSION))
         else if version = 2 then bnd (migrate v3_additions) (\<lambda>_. write_version SCHEMA_VERSION)
         else if version = SCHEMA_VERSION then create_v3_table
         else raise_exc (run_error ''unsupported software engineering state schema version'')))"

text \<open>\<open>__init__\<close>: connecting is a statement of its own.\<close>

definition sqlite_open :: "path \<Rightarrow> (schema_db, unit) prog" where
  "sqlite_open p =
     (if \<not> path_abs p then raise_exc (run_error ''software engineering state database path must be absolute'')
      else try_except
        (bnd (sql_statement (\<lambda>s. Some (s, ()))) (\<lambda>_. sql_block open_schema))
        (\<lambda>e. raise_exc (if e = sqlite_error then run_error ''software engineering state database is unavailable'' else e)))"

end
