(* ===== verification/Schema_Properties.thy ===== *)
theory Schema_Properties
  imports SE_Schema Server
begin

text \<open>
  Opening the SQLite repository: the migrations keep every value, can be interrupted anywhere and are completed by the
  next opening.
\<close>

section \<open>Triples with an exceptional postcondition\<close>

definition runs_to :: "('s \<Rightarrow> bool) \<Rightarrow> ('s, 'a) prog \<Rightarrow> ('a \<Rightarrow> 's \<Rightarrow> bool) \<Rightarrow> (exc \<Rightarrow> 's \<Rightarrow> bool) \<Rightarrow> bool" where
  "runs_to P m Q E \<longleftrightarrow> (\<forall>s. P s \<longrightarrow> (case m s of (Inl e, s') \<Rightarrow> E e s' | (Inr x, s') \<Rightarrow> Q x s'))"

lemma runs_to_bnd:
  assumes "runs_to P m R E" "\<And>x. runs_to (R x) (f x) Q E"
  shows "runs_to P (bnd m f) Q E"
  unfolding runs_to_def
proof (intro allI impI)
  fix s assume "P s"
  obtain r s1 where m: "m s = (r, s1)" by fastforce
  show "case bnd m f s of (Inl e, s') \<Rightarrow> E e s' | (Inr x, s') \<Rightarrow> Q x s'"
  proof (cases r)
    case (Inl e)
    with assms(1) \<open>P s\<close> m show ?thesis by (fastforce simp: runs_to_def bnd_def)
  next
    case (Inr x)
    then have "R x s1" using assms(1) \<open>P s\<close> m by (fastforce simp: runs_to_def)
    with assms(2) Inr m show ?thesis by (simp add: runs_to_def bnd_def)
  qed
qed

lemma runs_to_ret: "(\<And>s. P s \<Longrightarrow> Q x s) \<Longrightarrow> runs_to P (ret x) Q E"
  by (simp add: runs_to_def)

lemma runs_to_weaken:
  "runs_to P m Q E \<Longrightarrow> (\<And>s. P' s \<Longrightarrow> P s) \<Longrightarrow> (\<And>x s. Q x s \<Longrightarrow> Q' x s) \<Longrightarrow> (\<And>e s. E e s \<Longrightarrow> E' e s) \<Longrightarrow> runs_to P' m Q' E'"
  unfolding runs_to_def by (fastforce split: prod.splits sum.splits)

lemma runs_to_statement:
  assumes "\<And>s. P s \<Longrightarrow> E sqlite_error (s\<lparr>sd_faults := tl (sd_faults s)\<rparr>) \<or> sd_faults s = []"
    and "\<And>s. P s \<Longrightarrow> \<exists>t x. f (s\<lparr>sd_faults := tl (sd_faults s)\<rparr>) = Some (t, x) \<and> Q x t"
  shows "runs_to P (sql_statement f) Q E"
  unfolding runs_to_def
proof (intro allI impI)
  fix s assume P: "P s"
  then obtain t x where "f (s\<lparr>sd_faults := tl (sd_faults s)\<rparr>) = Some (t, x)" "Q x t" using assms(2) by blast
  then show "case sql_statement f s of (Inl e, s') \<Rightarrow> E e s' | (Inr x, s') \<Rightarrow> Q x s'"
    using assms(1) [OF P] by (auto simp: sql_statement_def Let_def)
qed

section \<open>What a migration keeps\<close>

definition column_names :: "schema_db \<Rightarrow> string set" where
  "column_names s = (case sd_runs s of None \<Rightarrow> {} | Some t \<Rightarrow> set (map fst (rt_columns t)))"

text \<open>Every row is still there, and every column with its values; at most new columns were added.\<close>

definition extends_table :: "schema_db \<Rightarrow> schema_db \<Rightarrow> bool" where
  "extends_table s s' \<longleftrightarrow> (\<forall>t. sd_runs s = Some t \<longrightarrow>
     (\<exists>t'. sd_runs s' = Some t' \<and> rt_rows t' = rt_rows t \<and> (\<exists>cs. rt_columns t' = rt_columns t @ cs)))"

lemma extends_refl: "extends_table s s"
  by (simp add: extends_table_def)

lemma extends_trans: "extends_table s t \<Longrightarrow> extends_table t u \<Longrightarrow> extends_table s u"
  unfolding extends_table_def by (metis append.assoc)

text \<open>A state on the way from \<open>s0\<close>, with these versions and at least these columns.\<close>

definition under_way :: "schema_db \<Rightarrow> int option option \<Rightarrow> string set \<Rightarrow> schema_db \<Rightarrow> bool" where
  "under_way s0 v C s \<longleftrightarrow> extends_table s0 s \<and> sd_versions s = v \<and> C \<subseteq> column_names s
     \<and> (sd_faults s0 = [] \<longrightarrow> sd_faults s = []) \<and> (C \<noteq> {} \<longrightarrow> sd_runs s \<noteq> None)"

definition interrupted :: "schema_db \<Rightarrow> int option option \<Rightarrow> string set \<Rightarrow> exc \<Rightarrow> schema_db \<Rightarrow> bool" where
  "interrupted s0 v C e s \<longleftrightarrow> e = sqlite_error \<and> under_way s0 v C s \<and> sd_faults s0 \<noteq> []"

lemma under_way_tl: "under_way s0 v C s \<Longrightarrow> under_way s0 v C (s\<lparr>sd_faults := tl (sd_faults s)\<rparr>)"
  by (auto simp: under_way_def extends_table_def column_names_def)

lemma interrupted_tl:
  "under_way s0 v C s \<Longrightarrow> interrupted s0 v C sqlite_error (s\<lparr>sd_faults := tl (sd_faults s)\<rparr>) \<or> sd_faults s = []"
  using under_way_tl [of s0 v C s] by (auto simp: interrupted_def under_way_def)

section \<open>The steps\<close>

lemma add_column_step:
  "runs_to (\<lambda>s. under_way s0 v C s \<and> C \<noteq> {} \<and> fst c \<notin> column_names s \<and> column_names s \<inter> D = {} \<and> fst c \<notin> D)
     (add_column c)
     (\<lambda>_ s. under_way s0 v (insert (fst c) C) s \<and> column_names s \<inter> D = {}) (interrupted s0 v C)"
  unfolding add_column_def
proof (rule runs_to_statement)
  fix s assume P: "under_way s0 v C s \<and> C \<noteq> {} \<and> fst c \<notin> column_names s \<and> column_names s \<inter> D = {} \<and> fst c \<notin> D"
  then show "interrupted s0 v C sqlite_error (s\<lparr>sd_faults := tl (sd_faults s)\<rparr>) \<or> sd_faults s = []"
    using interrupted_tl by blast
  from P obtain t where t: "sd_runs s = Some t" by (auto simp: under_way_def)
  let ?s = "s\<lparr>sd_faults := tl (sd_faults s), sd_runs := Some (t\<lparr>rt_columns := rt_columns t @ [c]\<rparr>)\<rparr>"
  have "extends_table s ?s" using t by (simp add: extends_table_def)
  then have "under_way s0 v (insert (fst c) C) ?s"
    using P t by (auto simp: under_way_def column_names_def dest: extends_trans)
  moreover have "column_names ?s \<inter> D = {}" using P t by (auto simp: column_names_def)
  ultimately show "\<exists>u x. (case sd_runs (s\<lparr>sd_faults := tl (sd_faults s)\<rparr>) of None \<Rightarrow> None
      | Some t \<Rightarrow> if fst c \<in> set (map fst (rt_columns t)) then None
                  else Some (s\<lparr>sd_faults := tl (sd_faults s)\<rparr>\<lparr>sd_runs := Some (t\<lparr>rt_columns := rt_columns t @ [c]\<rparr>)\<rparr>, ())) = Some (u, x)
      \<and> under_way s0 v (insert (fst c) C) u \<and> column_names u \<inter> D = {}"
    using P t by (auto simp: column_names_def)
qed

lemma interrupted_mono: "interrupted s0 v C e s \<Longrightarrow> C' \<subseteq> C \<Longrightarrow> (C' \<noteq> {} \<longrightarrow> C \<noteq> {}) \<Longrightarrow> interrupted s0 v C' e s"
  by (auto simp: interrupted_def under_way_def)

lemma add_columns_step:
  "distinct (map fst cs) \<Longrightarrow> C \<noteq> {} \<Longrightarrow>
   runs_to (\<lambda>s. under_way s0 v C s \<and> column_names s \<inter> set (map fst cs) = {}) (add_columns cs)
     (\<lambda>_ s. under_way s0 v (C \<union> set (map fst cs)) s) (interrupted s0 v C)"
proof (induction cs arbitrary: C)
  case Nil
  then show ?case by (simp add: runs_to_def)
next
  case (Cons c cs)
  show ?case
    unfolding add_columns.simps
  proof (rule runs_to_bnd [where R = "\<lambda>_ s. under_way s0 v (insert (fst c) C) s \<and> column_names s \<inter> set (map fst cs) = {}"])
    show "runs_to (\<lambda>s. under_way s0 v C s \<and> column_names s \<inter> set (map fst (c # cs)) = {}) (add_column c)
        (\<lambda>_ s. under_way s0 v (insert (fst c) C) s \<and> column_names s \<inter> set (map fst cs) = {}) (interrupted s0 v C)"
      by (rule runs_to_weaken [OF add_column_step [where D = "set (map fst cs)"]]) (use Cons.prems in auto)
    have ih: "runs_to (\<lambda>s. under_way s0 v (insert (fst c) C) s \<and> column_names s \<inter> set (map fst cs) = {}) (add_columns cs)
        (\<lambda>_ s. under_way s0 v (insert (fst c) C \<union> set (map fst cs)) s) (interrupted s0 v (insert (fst c) C))"
      using Cons.prems by (intro Cons.IH) auto
    show "runs_to (\<lambda>s. under_way s0 v (insert (fst c) C) s \<and> column_names s \<inter> set (map fst cs) = {}) (add_columns cs)
        (\<lambda>_ s. under_way s0 v (C \<union> set (map fst (c # cs))) s) (interrupted s0 v C)" for x :: unit
      by (rule runs_to_weaken [OF ih]) (auto elim: interrupted_mono)
  qed
qed

lemma migrate_step:
  assumes "distinct (map fst additions)" "C \<noteq> {}"
  shows "runs_to (under_way s0 v C) (migrate additions) (\<lambda>_. under_way s0 v (C \<union> set (map fst additions))) (interrupted s0 v C)"
  unfolding migrate_def
proof (rule runs_to_bnd [where R = "\<lambda>columns s. under_way s0 v (set columns) s \<and> C \<subseteq> set columns \<and> column_names s = set columns"])
  show "runs_to (under_way s0 v C) table_info
     (\<lambda>columns s. under_way s0 v (set columns) s \<and> C \<subseteq> set columns \<and> column_names s = set columns) (interrupted s0 v C)"
    unfolding table_info_def
  proof (rule runs_to_statement)
    fix s assume P: "under_way s0 v C s"
    show "interrupted s0 v C sqlite_error (s\<lparr>sd_faults := tl (sd_faults s)\<rparr>) \<or> sd_faults s = []"
      by (rule interrupted_tl [OF P])
    obtain t where t: "sd_runs s = Some t" using P assms(2) by (auto simp: under_way_def)
    then show "\<exists>u x. Some (s\<lparr>sd_faults := tl (sd_faults s)\<rparr>, case sd_runs (s\<lparr>sd_faults := tl (sd_faults s)\<rparr>) of None \<Rightarrow> []
            | Some t \<Rightarrow> map fst (rt_columns t)) = Some (u, x)
        \<and> under_way s0 v (set x) u \<and> C \<subseteq> set x \<and> column_names u = set x"
      using under_way_tl [OF P] by (auto simp: under_way_def column_names_def)
  qed
  fix columns
  let ?missing = "filter (\<lambda>c. fst c \<notin> set columns) additions"
  show "runs_to (\<lambda>s. under_way s0 v (set columns) s \<and> C \<subseteq> set columns \<and> column_names s = set columns) (add_columns ?missing)
     (\<lambda>_. under_way s0 v (C \<union> set (map fst additions))) (interrupted s0 v C)"
  proof (cases "C \<subseteq> set columns")
    case True
    have "distinct (map fst ?missing)" using assms(1) by (simp add: distinct_map_filter)
    moreover have "set columns \<noteq> {}" using True assms(2) by auto
    ultimately have step: "runs_to (\<lambda>s. under_way s0 v (set columns) s \<and> column_names s \<inter> set (map fst ?missing) = {}) (add_columns ?missing)
       (\<lambda>_. under_way s0 v (set columns \<union> set (map fst ?missing))) (interrupted s0 v (set columns))"
      by (rule add_columns_step)
    show ?thesis
      by (rule runs_to_weaken [OF step]) (use True assms(2) in \<open>auto simp: under_way_def elim!: interrupted_mono\<close>)
  qed (simp add: runs_to_def)
qed

section \<open>The whole opening\<close>

definition base_columns :: "string set" where
  "base_columns = set (map fst v3_columns) - set (map fst v2_additions) - set (map fst v3_additions)"

definition all_columns :: "string set" where
  "all_columns = set (map fst v3_columns)"

text \<open>The columns that a database of a version has; an empty file, and one whose first opening was interrupted, have no version
  and either no table or the whole one.\<close>

definition schema_ok :: "schema_db \<Rightarrow> bool" where
  "schema_ok s \<longleftrightarrow>
     (case Option.bind (sd_versions s) id of
        None \<Rightarrow> sd_runs s = None \<or> all_columns \<subseteq> column_names s
      | Some version \<Rightarrow>
          (version = 1 \<longrightarrow> base_columns \<subseteq> column_names s)
          \<and> (version = 2 \<longrightarrow> base_columns \<union> set (map fst v2_additions) \<subseteq> column_names s)
          \<and> (version = 3 \<longrightarrow> sd_runs s = None \<or> all_columns \<subseteq> column_names s))"

definition supported :: "schema_db \<Rightarrow> bool" where
  "supported s \<longleftrightarrow> Option.bind (sd_versions s) id \<in> {None, Some 1, Some 2, Some 3}"

lemma columns_facts:
  "all_columns = base_columns \<union> set (map fst v2_additions) \<union> set (map fst v3_additions)" "base_columns \<noteq> {}"
  "distinct (map fst v2_additions)" "distinct (map fst v3_additions)"
  by code_simp+

definition after_from :: "schema_db \<Rightarrow> schema_db \<Rightarrow> bool" where
  "after_from s0 s \<longleftrightarrow> extends_table s0 s \<and> (sd_runs s0 = None \<longrightarrow> sd_runs s = None \<or> all_columns \<subseteq> column_names s)
     \<and> (sd_faults s0 = [] \<longrightarrow> sd_faults s = [])"

definition migrated :: "schema_db \<Rightarrow> schema_db \<Rightarrow> bool" where
  "migrated s0 s \<longleftrightarrow> after_from s0 s \<and> sd_runs s \<noteq> None \<and> all_columns \<subseteq> column_names s"

definition open_failed :: "schema_db \<Rightarrow> exc \<Rightarrow> schema_db \<Rightarrow> bool" where
  "open_failed s0 e s \<longleftrightarrow> after_from s0 s \<and>
     (e = sqlite_error \<and> sd_faults s0 \<noteq> []
      \<or> e = run_error ''unsupported software engineering state schema version'' \<and> \<not> supported s0)"

lemma after_from_tl: "after_from s0 s \<Longrightarrow> after_from s0 (s\<lparr>sd_faults := tl (sd_faults s)\<rparr>)"
  by (auto simp: after_from_def extends_table_def column_names_def)

lemma after_from_versions [simp]: "after_from s0 (s\<lparr>sd_versions := v\<rparr>) = after_from s0 s"
  by (simp add: after_from_def extends_table_def column_names_def)

lemma open_failed_tl:
  "after_from s0 s \<Longrightarrow> open_failed s0 sqlite_error (s\<lparr>sd_faults := tl (sd_faults s)\<rparr>) \<or> sd_faults s = []"
  using after_from_tl [of s0 s] by (auto simp: open_failed_def after_from_def)

lemma interrupted_failed: "interrupted s0 v C e s \<Longrightarrow> sd_runs s0 \<noteq> None \<Longrightarrow> open_failed s0 e s"
  by (auto simp: interrupted_def open_failed_def under_way_def after_from_def)

lemma under_way_migrated:
  "under_way s0 v all_columns s \<Longrightarrow> sd_runs s0 \<noteq> None \<Longrightarrow> migrated s0 s \<and> sd_versions s = v"
  using columns_facts(1,2) by (auto simp: migrated_def after_from_def under_way_def)

lemma write_version_step:
  "runs_to (\<lambda>s. migrated s0 s \<and> sd_versions s \<noteq> None) (write_version v)
     (\<lambda>_ s. migrated s0 s \<and> sd_versions s = Some (Some v)) (open_failed s0)"
  unfolding write_version_def
  by (rule runs_to_statement)
     (auto simp: migrated_def column_names_def dest: open_failed_tl after_from_tl)

lemma create_v3_step:
  "runs_to (\<lambda>s. after_from s0 s \<and> sd_runs s = sd_runs s0 \<and> sd_versions s = v \<and> (sd_runs s0 = None \<or> all_columns \<subseteq> column_names s0))
     create_v3_table (\<lambda>_ s. migrated s0 s \<and> sd_versions s = v) (open_failed s0)"
  unfolding create_v3_table_def
proof (rule runs_to_statement)
  fix s assume P: "after_from s0 s \<and> sd_runs s = sd_runs s0 \<and> sd_versions s = v \<and> (sd_runs s0 = None \<or> all_columns \<subseteq> column_names s0)"
  then show "open_failed s0 sqlite_error (s\<lparr>sd_faults := tl (sd_faults s)\<rparr>) \<or> sd_faults s = []"
    using open_failed_tl by blast
  show "\<exists>t x. Some (case sd_runs (s\<lparr>sd_faults := tl (sd_faults s)\<rparr>) of
        None \<Rightarrow> s\<lparr>sd_faults := tl (sd_faults s)\<rparr>\<lparr>sd_runs := Some \<lparr>rt_columns = v3_columns, rt_rows = []\<rparr>\<rparr>
      | Some _ \<Rightarrow> s\<lparr>sd_faults := tl (sd_faults s)\<rparr>, ()) = Some (t, x) \<and> migrated s0 t \<and> sd_versions t = v"
    using P by (auto simp: migrated_def after_from_def extends_table_def column_names_def all_columns_def split: option.split)
qed

lemma migrations_step:
  assumes "base_columns \<subseteq> column_names s0"
  shows "runs_to (\<lambda>s. under_way s0 (Some v) (base_columns \<union> set (map fst v2_additions)) s)
      (bnd (migrate v3_additions) (\<lambda>_. write_version SCHEMA_VERSION))
      (\<lambda>_ s. migrated s0 s \<and> sd_versions s = Some (Some 3)) (open_failed s0)"
    and "runs_to (\<lambda>s. under_way s0 (Some v) base_columns s)
      (bnd (migrate v2_additions) (\<lambda>_. bnd (migrate v3_additions) (\<lambda>_. write_version SCHEMA_VERSION)))
      (\<lambda>_ s. migrated s0 s \<and> sd_versions s = Some (Some 3)) (open_failed s0)"
proof -
  have runs: "sd_runs s0 \<noteq> None" using assms columns_facts(2) by (auto simp: column_names_def split: option.splits)
  show v3: "runs_to (\<lambda>s. under_way s0 (Some v) (base_columns \<union> set (map fst v2_additions)) s)
      (bnd (migrate v3_additions) (\<lambda>_. write_version SCHEMA_VERSION))
      (\<lambda>_ s. migrated s0 s \<and> sd_versions s = Some (Some 3)) (open_failed s0)"
  proof (rule runs_to_bnd [where R = "\<lambda>_ s. migrated s0 s \<and> sd_versions s \<noteq> None"])
    have "base_columns \<union> set (map fst v2_additions) \<noteq> {}" using columns_facts(2) by auto
    from migrate_step [OF columns_facts(4) this, of s0 "Some v", folded columns_facts(1)]
    show "runs_to (\<lambda>s. under_way s0 (Some v) (base_columns \<union> set (map fst v2_additions)) s) (migrate v3_additions)
       (\<lambda>_ s. migrated s0 s \<and> sd_versions s \<noteq> None) (open_failed s0)"
    proof (rule runs_to_weaken)
      show "migrated s0 s \<and> sd_versions s \<noteq> None" if "under_way s0 (Some v) all_columns s" for s
        using under_way_migrated [OF that runs] by simp
      show "open_failed s0 e s" if "interrupted s0 (Some v) (base_columns \<union> set (map fst v2_additions)) e s" for e s
        by (rule interrupted_failed [OF that runs])
    qed
    show "runs_to (\<lambda>s. migrated s0 s \<and> sd_versions s \<noteq> None) (write_version SCHEMA_VERSION)
       (\<lambda>_ s. migrated s0 s \<and> sd_versions s = Some (Some 3)) (open_failed s0)" for x :: unit
      using write_version_step by (simp add: SCHEMA_VERSION_def)
  qed
  show "runs_to (\<lambda>s. under_way s0 (Some v) base_columns s)
      (bnd (migrate v2_additions) (\<lambda>_. bnd (migrate v3_additions) (\<lambda>_. write_version SCHEMA_VERSION)))
      (\<lambda>_ s. migrated s0 s \<and> sd_versions s = Some (Some 3)) (open_failed s0)"
    by (rule runs_to_bnd [OF runs_to_weaken [OF migrate_step [OF columns_facts(3,2), of s0 "Some v"]] v3])
       (blast intro: interrupted_failed [OF _ runs])+
qed

lemma create_schema_step:
  "runs_to (\<lambda>s. s = s0) create_schema_table
     (\<lambda>_ s. after_from s0 s \<and> sd_runs s = sd_runs s0 \<and> sd_versions s = Some (Option.bind (sd_versions s0) id)) (open_failed s0)"
proof -
  have "after_from s0 s0" by (simp add: after_from_def extends_refl)
  then show ?thesis
    unfolding create_schema_table_def
    by (intro runs_to_statement)
       (use open_failed_tl after_from_tl in \<open>fastforce split: option.split\<close>)+
qed

lemma select_version_step:
  "runs_to (\<lambda>s. after_from s0 s \<and> sd_runs s = sd_runs s0 \<and> sd_versions s = Some v) select_version
     (\<lambda>found s. found = v \<and> after_from s0 s \<and> sd_runs s = sd_runs s0 \<and> sd_versions s = Some v) (open_failed s0)"
  unfolding select_version_def
  by (intro runs_to_statement) (use open_failed_tl after_from_tl in fastforce)+

lemma open_schema_step:
  assumes "schema_ok s0"
  shows "runs_to (\<lambda>s. s = s0) open_schema (\<lambda>_ s. migrated s0 s \<and> sd_versions s = Some (Some 3)) (open_failed s0)"
  unfolding open_schema_def
proof (rule runs_to_bnd [OF create_schema_step runs_to_bnd [OF select_version_step]])
  define v where "v = Option.bind (sd_versions s0) id"
  let ?P = "\<lambda>s. after_from s0 s \<and> sd_runs s = sd_runs s0 \<and> sd_versions s = Some v"
  let ?Q = "\<lambda>(_::unit) s. migrated s0 s \<and> sd_versions s = Some (Some 3)"
  have on_way: "under_way s0 (Some v) C s" if "?P s" "C \<subseteq> column_names s0" "C \<noteq> {}" for C s
    using that by (auto simp: under_way_def after_from_def column_names_def split: option.splits)
  have new: "runs_to ?P create_v3_table (\<lambda>_ s. migrated s0 s \<and> sd_versions s = Some v) (open_failed s0)"
    if "sd_runs s0 = None \<or> all_columns \<subseteq> column_names s0"
    by (rule runs_to_weaken [OF create_v3_step [of s0 "Some v"]]) (use that in auto)
  fix found :: "int option"
  show "runs_to (\<lambda>s. found = Option.bind (sd_versions s0) id \<and> after_from s0 s \<and> sd_runs s = sd_runs s0
        \<and> sd_versions s = Some (Option.bind (sd_versions s0) id))
     (case found of None \<Rightarrow> bnd create_v3_table (\<lambda>_. write_version SCHEMA_VERSION)
      | Some version \<Rightarrow>
         if version = 1
         then bnd (migrate v2_additions) (\<lambda>_. bnd (migrate v3_additions) (\<lambda>_. write_version SCHEMA_VERSION))
         else if version = 2 then bnd (migrate v3_additions) (\<lambda>_. write_version SCHEMA_VERSION)
         else if version = SCHEMA_VERSION then create_v3_table
         else raise_exc (run_error ''unsupported software engineering state schema version'')) ?Q (open_failed s0)"
  proof (cases "found = v")
    case True
    show ?thesis
    proof (cases v)
      case None
      then have "sd_runs s0 = None \<or> all_columns \<subseteq> column_names s0" using assms by (simp add: schema_ok_def v_def)
      then have step: "runs_to ?P create_v3_table (\<lambda>_ s. migrated s0 s \<and> sd_versions s \<noteq> None) (open_failed s0)"
        by (intro runs_to_weaken [OF new]) auto
      have "runs_to ?P (bnd create_v3_table (\<lambda>_. write_version SCHEMA_VERSION)) ?Q (open_failed s0)"
        by (rule runs_to_bnd [OF step]) (use write_version_step in \<open>simp add: SCHEMA_VERSION_def\<close>)
      then show ?thesis using True None by (simp add: v_def runs_to_def)
    next
      case (Some n)
      note ok = assms [unfolded schema_ok_def, folded v_def, unfolded Some, simplified]
      have one: "runs_to ?P (bnd (migrate v2_additions) (\<lambda>_. bnd (migrate v3_additions) (\<lambda>_. write_version SCHEMA_VERSION))) ?Q (open_failed s0)"
        if "n = 1"
        by (rule runs_to_weaken [OF migrations_step(2) [of s0 v]]) (use ok that on_way columns_facts(2) in auto)
      have two: "runs_to ?P (bnd (migrate v3_additions) (\<lambda>_. write_version SCHEMA_VERSION)) ?Q (open_failed s0)"
        if "n = 2"
        by (rule runs_to_weaken [OF migrations_step(1) [of s0 v]]) (use ok that on_way columns_facts(2) in auto)
      have three: "runs_to ?P create_v3_table ?Q (open_failed s0)" if "n = 3"
        by (rule runs_to_weaken [OF new]) (use ok that Some in auto)
      have other: "runs_to ?P (raise_exc (run_error ''unsupported software engineering state schema version'')) ?Q (open_failed s0)"
        if "n \<notin> {1, 2, 3}"
        using that Some by (auto simp: runs_to_def open_failed_def supported_def v_def)
      show ?thesis
        using True Some one two three other by (auto simp: v_def [symmetric] SCHEMA_VERSION_def)
    qed
  qed (simp add: runs_to_def v_def)
qed

lemma schema_ok_after:
  assumes "schema_ok s0" "after_from s0 s" "Option.bind (sd_versions s) id = Option.bind (sd_versions s0) id"
  shows "schema_ok s"
proof -
  have grown: "column_names s0 \<subseteq> column_names s" "sd_runs s0 \<noteq> None \<Longrightarrow> sd_runs s \<noteq> None"
    using assms(2) by (force simp: after_from_def extends_table_def column_names_def image_Un split: option.splits)+
  then show ?thesis
    using assms(1,2) unfolding schema_ok_def assms(3) after_from_def
    by (cases "Option.bind (sd_versions s0) id") auto
qed

lemma statement_versions:
  "(\<And>s t x. sd_versions s \<noteq> None \<Longrightarrow> f s = Some (t, x) \<Longrightarrow> sd_versions t \<noteq> None) \<Longrightarrow>
     keeps (\<lambda>s. sd_versions s \<noteq> None) (sql_statement f)"
  unfolding keeps_def sql_statement_def Let_def
proof (intro allI impI)
  fix s :: schema_db
  assume f: "\<And>s t x. sd_versions s \<noteq> None \<Longrightarrow> f s = Some (t, x) \<Longrightarrow> sd_versions t \<noteq> None" and "sd_versions s \<noteq> None"
  then show "sd_versions (snd (if sd_faults s \<noteq> [] \<and> hd (sd_faults s) then (Inl sqlite_error, s\<lparr>sd_faults := tl (sd_faults s)\<rparr>)
      else case f (s\<lparr>sd_faults := tl (sd_faults s)\<rparr>) of None \<Rightarrow> (Inl sqlite_error, s\<lparr>sd_faults := tl (sd_faults s)\<rparr>)
        | Some (t, x) \<Rightarrow> (Inr x, t))) \<noteq> None"
    using f [of "s\<lparr>sd_faults := tl (sd_faults s)\<rparr>"] by (cases "f (s\<lparr>sd_faults := tl (sd_faults s)\<rparr>)") auto
qed

lemma statements_versions [keep_intros]:
  "keeps (\<lambda>s. sd_versions s \<noteq> None) create_schema_table" "keeps (\<lambda>s. sd_versions s \<noteq> None) select_version"
  "keeps (\<lambda>s. sd_versions s \<noteq> None) (write_version v)" "keeps (\<lambda>s. sd_versions s \<noteq> None) create_v3_table"
  "keeps (\<lambda>s. sd_versions s \<noteq> None) table_info" "keeps (\<lambda>s. sd_versions s \<noteq> None) (add_column c)"
  unfolding create_schema_table_def select_version_def write_version_def create_v3_table_def table_info_def add_column_def
  by (rule statement_versions; auto split: option.splits if_splits)+

lemma open_schema_versions: "keeps (\<lambda>s. sd_versions s \<noteq> None) open_schema"
proof -
  have "keeps (\<lambda>s. sd_versions s \<noteq> None) (add_columns cs)" for cs
    by (induction cs) (simp_all only: add_columns.simps, (intro keep_intros | assumption)+)
  then have "keeps (\<lambda>s. sd_versions s \<noteq> None) (migrate cs)" for cs
    unfolding migrate_def by (intro keep_intros)
  then show ?thesis
    unfolding open_schema_def by (intro keep_intros)
qed

lemma block_step:
  assumes "schema_ok s0"
  shows "runs_to (\<lambda>s. s = s0) (sql_block open_schema)
     (\<lambda>_ s. migrated s0 s \<and> sd_versions s = Some (Some 3))
     (\<lambda>e s. open_failed s0 e s \<and> Option.bind (sd_versions s) id = Option.bind (sd_versions s0) id)"
proof -
  obtain r s1 where run: "open_schema s0 = (r, s1)" by fastforce
  let ?undone = "\<lambda>t. t\<lparr>sd_versions := map_option (\<lambda>_. case sd_versions s0 of None \<Rightarrow> None | Some v \<Rightarrow> v) (sd_versions t)\<rparr>"
  have created: "sd_versions s0 \<noteq> None \<longrightarrow> sd_versions t \<noteq> None \<Longrightarrow>
      Option.bind (sd_versions (?undone t)) id = Option.bind (sd_versions s0) id" for t
    by (cases "sd_versions s0"; cases "sd_versions t") auto
  have kept: "sd_versions s0 \<noteq> None \<longrightarrow> sd_versions s1 \<noteq> None"
  proof -
    have "sd_versions s0 \<noteq> None \<Longrightarrow> sd_versions (snd (open_schema s0)) \<noteq> None"
      using open_schema_versions by (simp add: keeps_def)
    then show ?thesis using run by simp
  qed
  show ?thesis
    unfolding runs_to_def
  proof (intro allI impI)
    fix s assume "s = s0"
    show "case sql_block open_schema s of (Inl e, s') \<Rightarrow> open_failed s0 e s' \<and> Option.bind (sd_versions s') id = Option.bind (sd_versions s0) id
        | (Inr x, s') \<Rightarrow> migrated s0 s' \<and> sd_versions s' = Some (Some 3)"
    proof (cases r)
      case (Inl e)
      then have "open_failed s0 e s1" using open_schema_step [OF assms] run by (auto simp: runs_to_def)
      then show ?thesis
        using run Inl \<open>s = s0\<close> created [OF kept] by (simp add: sql_block_def Let_def open_failed_def)
    next
      case (Inr x)
      then have m: "migrated s0 s1 \<and> sd_versions s1 = Some (Some 3)"
        using open_schema_step [OF assms] run by (auto simp: runs_to_def)
      let ?s2 = "s1\<lparr>sd_faults := tl (sd_faults s1)\<rparr>"
      have "migrated s0 ?s2" using m by (auto simp: migrated_def column_names_def dest: after_from_tl)
      moreover have "sd_faults s1 \<noteq> [] \<Longrightarrow> open_failed s0 sqlite_error (?undone ?s2)"
        using m open_failed_tl [of s0 s1] by (auto simp: migrated_def open_failed_def)
      ultimately show ?thesis
        using run Inr \<open>s = s0\<close> m created [of ?s2]
        by (auto simp: sql_block_def Let_def sql_statement_def)
    qed
  qed
qed

section \<open>Opening the database again and again\<close>

lemma schema_ok_faults [simp]: "schema_ok (s\<lparr>sd_faults := fs\<rparr>) = schema_ok s" "supported (s\<lparr>sd_faults := fs\<rparr>) = supported s"
  by (simp_all add: schema_ok_def supported_def column_names_def cong: option.case_cong)

definition opened_from :: "schema_db \<Rightarrow> exc + unit \<Rightarrow> schema_db \<Rightarrow> bool" where
  "opened_from s r s' \<longleftrightarrow> schema_ok s' \<and> extends_table s s' \<and> (supported s \<longrightarrow> supported s') \<and>
     (case r of
        Inr _ \<Rightarrow> sd_versions s' = Some (Some 3) \<and> sd_runs s' \<noteq> None \<and> all_columns \<subseteq> column_names s'
      | Inl e \<Rightarrow>
          (e = run_error ''software engineering state database is unavailable'' \<and> sd_faults s \<noteq> []
           \<or> e = run_error ''unsupported software engineering state schema version'' \<and> \<not> supported s))"

lemma supported_version: "Option.bind (sd_versions s) id = Option.bind (sd_versions t) id \<Longrightarrow> supported s = supported t"
  by (simp add: supported_def)

lemma opened:
  assumes "schema_ok s" "path_abs p" "sqlite_open p s = (r, s')"
  shows "opened_from s r s'"
proof -
  let ?s = "s\<lparr>sd_faults := tl (sd_faults s)\<rparr>"
  have same: "extends_table s x = extends_table ?s x" for x by (simp add: extends_table_def)
  show ?thesis
  proof (cases "sd_faults s \<noteq> [] \<and> hd (sd_faults s)")
    case True
    then show ?thesis
      using assms by (auto simp: sqlite_open_def sql_statement_def bnd_def try_except_def raise_exc_def opened_from_def extends_table_def)
  next
    case False
    obtain r1 s1 where run: "sql_block open_schema ?s = (r1, s1)" by fastforce
    have ok: "schema_ok ?s" using assms(1) by simp
    have out: "case (r1, s1) of (Inl e, s') \<Rightarrow> open_failed ?s e s' \<and> Option.bind (sd_versions s') id = Option.bind (sd_versions ?s) id
        | (Inr x, s') \<Rightarrow> migrated ?s s' \<and> sd_versions s' = Some (Some 3)"
      using block_step [OF ok] run unfolding runs_to_def by (metis (no_types, lifting))
    show ?thesis
    proof (cases r1)
      case (Inl e)
      then have e: "open_failed ?s e s1" "Option.bind (sd_versions s1) id = Option.bind (sd_versions ?s) id" using out by simp_all
      then have "schema_ok s1" "supported s1 = supported s"
        using schema_ok_after [OF ok _ e(2)] supported_version [OF e(2)] by (simp_all add: open_failed_def)
      moreover have "r = Inl (if e = sqlite_error then run_error ''software engineering state database is unavailable'' else e)" "s' = s1"
        using assms(2,3) False run Inl
        by (auto simp: sqlite_open_def sql_statement_def bnd_def try_except_def raise_exc_def Let_def split: if_splits)
      ultimately show ?thesis
        using e(1) by (auto simp: opened_from_def open_failed_def after_from_def same)
    next
      case (Inr x)
      then have m: "migrated ?s s1" "sd_versions s1 = Some (Some 3)" using out by simp_all
      moreover have "r = Inr ()" "s' = s1"
        using assms(2,3) False run Inr by (auto simp: sqlite_open_def sql_statement_def bnd_def try_except_def Let_def)
      ultimately show ?thesis
        by (auto simp: opened_from_def migrated_def after_from_def same schema_ok_def supported_def)
    qed
  qed
qed

lemma opened_often:
  assumes "schema_ok s" "path_abs p"
  shows "schema_ok (((\<lambda>s. snd (sqlite_open p s)) ^^ n) s) \<and> extends_table s (((\<lambda>s. snd (sqlite_open p s)) ^^ n) s)
     \<and> (supported s \<longrightarrow> supported (((\<lambda>s. snd (sqlite_open p s)) ^^ n) s))"
proof (induction n)
  case (Suc n)
  let ?t = "((\<lambda>s. snd (sqlite_open p s)) ^^ n) s"
  obtain r t' where "sqlite_open p ?t = (r, t')" by fastforce
  with opened [OF _ assms(2) this] Suc show ?case by (auto simp: opened_from_def intro: extends_trans)
qed (simp add: assms(1) extends_refl)

lemma extends_cells:
  assumes "extends_table s s'" "sd_runs s = Some t"
  shows "\<exists>t'. sd_runs s' = Some t' \<and> rt_rows t' = rt_rows t
    \<and> (\<forall>row name v. read_cell t row name = Some v \<longrightarrow> read_cell t' row name = Some v)"
  using assms by (auto simp: extends_table_def read_cell_def image_Un)

text \<open>
  C19. The migrations of the run database are safe to interrupt. Take a database whose columns are those of its version, or an
  empty one, and open it any number of times while the database fails in any statements: every row recorded before is still
  there with the value of each of its columns, and the columns are still those of the version. A further opening that returns
  leaves the current version with all its columns; one that raises does so because the database failed or because the version is
  unknown, with the fixed messages of the repository. So an opening in which nothing fails completes whatever was interrupted.
\<close>

theorem migration_resumable:
  assumes "schema_ok s" "path_abs p"
    and before: "((\<lambda>s. snd (sqlite_open p s)) ^^ n) s = t" and again: "sqlite_open p t = (r, t')"
  shows "schema_ok t' \<and>
    (\<forall>old. sd_runs s = Some old \<longrightarrow> (\<exists>new. sd_runs t' = Some new \<and> rt_rows new = rt_rows old
        \<and> (\<forall>row name v. read_cell old row name = Some v \<longrightarrow> read_cell new row name = Some v))) \<and>
    (r = Inr () \<longrightarrow> sd_versions t' = Some (Some 3) \<and> sd_runs t' \<noteq> None \<and> all_columns \<subseteq> column_names t') \<and>
    (\<forall>e. r = Inl e \<longrightarrow>
        e = run_error ''software engineering state database is unavailable'' \<and> sd_faults t \<noteq> []
        \<or> e = run_error ''unsupported software engineering state schema version'' \<and> \<not> supported s)"
proof -
  have t: "schema_ok t" "extends_table s t" "supported s \<longrightarrow> supported t" using opened_often [OF assms(1,2), of n] before by auto
  have o: "opened_from t r t'" by (rule opened [OF t(1) assms(2) again])
  then have "extends_table s t'" using t(2) by (auto simp: opened_from_def elim: extends_trans)
  then show ?thesis using o t(3) extends_cells by (auto simp: opened_from_def)
qed

text \<open>A database of version 1 with one run; the database fails when the fifth of the new columns is added. The next opening completes it.\<close>

definition v1_database :: schema_db where
  "v1_database = \<lparr>sd_versions = Some (Some 1),
     sd_runs = Some \<lparr>rt_columns = filter (\<lambda>c. fst c \<in> base_columns) v3_columns, rt_rows = [[''action_id'' \<mapsto> PStr ''a1'']]\<rparr>,
     sd_faults = replicate 8 False @ [True]\<rparr>"

lemma v1_database_ok: "schema_ok v1_database" "supported v1_database"
  by code_simp+

definition state_path :: path where
  "state_path = \<lparr>path_abs = True, path_parts = [''state.sqlite3'']\<rparr>"

definition interrupted_database :: schema_db where
  "interrupted_database = snd (sqlite_open state_path v1_database)"

lemma interrupted_facts:
  "fst (sqlite_open state_path v1_database) = Inl (run_error ''software engineering state database is unavailable'')"
  "sd_versions interrupted_database = Some (Some 1)"
  "''approved_at'' \<in> column_names interrupted_database" "''claim_id'' \<notin> column_names interrupted_database"
  "fst (sqlite_open state_path interrupted_database) = Inr ()"
  by code_simp+

theorem migration_resumable_witness:
  "''claim_id'' \<notin> column_names interrupted_database \<and>
   sd_versions (snd (sqlite_open state_path interrupted_database)) = Some (Some 3) \<and>
   ''claim_id'' \<in> column_names (snd (sqlite_open state_path interrupted_database)) \<and>
   map (\<lambda>row. row ''action_id'') (rt_rows (the (sd_runs (snd (sqlite_open state_path interrupted_database))))) = [Some (PStr ''a1'')]"
proof -
  let ?final = "sqlite_open state_path interrupted_database"
  have "path_abs state_path" by (simp add: state_path_def)
  moreover have "((\<lambda>s. snd (sqlite_open state_path s)) ^^ 1) v1_database = interrupted_database"
    by (simp add: interrupted_database_def)
  moreover have "?final = (Inr (), snd ?final)" using interrupted_facts(5) by (metis prod.collapse)
  ultimately have "(\<forall>old. sd_runs v1_database = Some old \<longrightarrow> (\<exists>new. sd_runs (snd ?final) = Some new \<and> rt_rows new = rt_rows old))
      \<and> sd_versions (snd ?final) = Some (Some 3) \<and> all_columns \<subseteq> column_names (snd ?final)"
    using migration_resumable [OF v1_database_ok(1), of state_path 1 interrupted_database "Inr ()" "snd ?final"] by blast
  moreover have "''claim_id'' \<in> all_columns" by code_simp
  ultimately show ?thesis using interrupted_facts(4) by (auto simp: v1_database_def)
qed

end
