(* ===== verification/Process_Runner.thy ===== *)
theory Process_Runner
  imports Claude_Code "HOL-Library.Sublist"
begin

text \<open>
  \<open>SubprocessRunner\<close> and \<open>_terminate_process_group\<close> of \<open>integrations/software_engineering.py\<close>: one child process in a
  process group of its own, ended as a group when its time is over. The operating system is the record \<open>child_processes\<close>;
  its operations may raise anything, and what the callers handle is in their results.
\<close>

section \<open>The processes of the operating system\<close>

datatype signal = SIGTERM | SIGKILL

datatype spawned = Executable_missing | Child int

text \<open>\<open>Popen\<close> (with a new session) finds the executable or not; \<open>communicate\<close> with a timeout gives \<open>None\<close> when the time is over;
  \<open>killpg\<close> is false when the group is gone, \<open>wait\<close> is false when the process has not ended in time.\<close>

record 'w child_processes =
  os_popen :: "string list \<Rightarrow> path \<Rightarrow> bool \<Rightarrow> environment option \<Rightarrow> ('w, spawned) prog"
  os_communicate :: "int \<Rightarrow> string option \<Rightarrow> rat \<Rightarrow> ('w, (string \<times> string) option) prog"
  os_collect :: "int \<Rightarrow> ('w, string \<times> string) prog"
  os_returncode :: "int \<Rightarrow> ('w, int option) prog"
  os_killpg :: "int \<Rightarrow> signal \<Rightarrow> ('w, bool) prog"
  os_wait :: "int \<Rightarrow> rat \<Rightarrow> ('w, bool) prog"
  os_perf_counter :: "('w, rat) prog"

section \<open>The runner\<close>

definition TERMINATE_GRACE_SECONDS :: rat where "TERMINATE_GRACE_SECONDS = 5"

fun end_group :: "'w child_processes \<Rightarrow> int \<Rightarrow> signal list \<Rightarrow> ('w, unit) prog" where
  "end_group os pid [] = ret ()"
| "end_group os pid (sig # sigs) =
     bnd (os_killpg os pid sig) (\<lambda>found.
     if \<not> found then ret ()
     else bnd (os_wait os pid TERMINATE_GRACE_SECONDS) (\<lambda>ended.
       if ended then ret () else end_group os pid sigs))"

definition terminate_process_group :: "'w child_processes \<Rightarrow> int \<Rightarrow> ('w, unit) prog" where
  "terminate_process_group os pid = end_group os pid [SIGTERM, SIGKILL]"

definition subprocess_run ::
  "'w child_processes \<Rightarrow> string list \<Rightarrow> path \<Rightarrow> rat \<Rightarrow> string option \<Rightarrow> environment option \<Rightarrow> ('w, (process_result \<times> rat) option) prog" where
  "subprocess_run os argv cwd timeout_seconds stdin env =
     bnd (os_perf_counter os) (\<lambda>started.
     bnd (os_popen os argv cwd (stdin \<noteq> None) env) (\<lambda>process.
     case process of
       Executable_missing \<Rightarrow> ret None
     | Child pid \<Rightarrow>
         bnd (os_communicate os pid stdin timeout_seconds) (\<lambda>finished.
         case finished of
           None \<Rightarrow>
             bnd (terminate_process_group os pid) (\<lambda>_.
             bnd (os_collect os pid) (\<lambda>texts.
             bnd (os_perf_counter os) (\<lambda>now.
             ret (Some (\<lparr>pr_returncode = None, pr_stdout = fst texts, pr_stderr = snd texts, pr_timed_out = True\<rparr>, now - started)))))
         | Some texts \<Rightarrow>
             bnd (os_returncode os pid) (\<lambda>code.
             bnd (os_perf_counter os) (\<lambda>now.
             ret (Some (\<lparr>pr_returncode = code, pr_stdout = fst texts, pr_stderr = snd texts, pr_timed_out = False\<rparr>, now - started)))))))"

text \<open>The runner as the executor of Claude Code uses it, with an environment of its own.\<close>

definition subprocess_runner :: "'w child_processes \<Rightarrow> 'w process_runner" where
  "subprocess_runner os argv cwd timeout_seconds stdin env = subprocess_run os argv cwd timeout_seconds stdin (Some env)"

section \<open>What the runner does to the process\<close>

text \<open>The operations of a system, recorded in the order they happened.\<close>

datatype child_event =
  Spawned "string list" path "environment option" int | Finished int | Overdue int | Signalled int signal bool | Waited int bool

definition recorded :: "('a \<Rightarrow> child_event list) \<Rightarrow> ('w, 'a) prog \<Rightarrow> ('w \<times> child_event list, 'a) prog" where
  "recorded event m s =
     (case m (fst s) of
        (Inl e, w) \<Rightarrow> (Inl e, (w, snd s))
      | (Inr x, w) \<Rightarrow> (Inr x, (w, snd s @ event x)))"

definition recording :: "'w child_processes \<Rightarrow> ('w \<times> child_event list) child_processes" where
  "recording os =
     \<lparr>os_popen = (\<lambda>argv cwd pipe env. recorded
        (\<lambda>r. case r of Executable_missing \<Rightarrow> [] | Child pid \<Rightarrow> [Spawned argv cwd env pid]) (os_popen os argv cwd pipe env)),
      os_communicate = (\<lambda>pid stdin t. recorded
        (\<lambda>r. case r of None \<Rightarrow> [Overdue pid] | Some _ \<Rightarrow> [Finished pid]) (os_communicate os pid stdin t)),
      os_collect = (\<lambda>pid. recorded (\<lambda>_. []) (os_collect os pid)),
      os_returncode = (\<lambda>pid. recorded (\<lambda>_. []) (os_returncode os pid)),
      os_killpg = (\<lambda>pid sig. recorded (\<lambda>found. [Signalled pid sig found]) (os_killpg os pid sig)),
      os_wait = (\<lambda>pid t. recorded (\<lambda>ended. [Waited pid ended]) (os_wait os pid t)),
      os_perf_counter = recorded (\<lambda>_. []) (os_perf_counter os)\<rparr>"

text \<open>How ending the group of an overdue process can go.\<close>

definition endings :: "int \<Rightarrow> child_event list set" where
  "endings pid =
     {[Signalled pid SIGTERM False],
      [Signalled pid SIGTERM True, Waited pid True],
      [Signalled pid SIGTERM True, Waited pid False, Signalled pid SIGKILL False],
      [Signalled pid SIGTERM True, Waited pid False, Signalled pid SIGKILL True, Waited pid True],
      [Signalled pid SIGTERM True, Waited pid False, Signalled pid SIGKILL True, Waited pid False]}"

definition begun_ending :: "int \<Rightarrow> child_event list \<Rightarrow> bool" where
  "begun_ending pid l \<longleftrightarrow> (\<exists>e\<in>endings pid. prefix l e)"

section \<open>Triples over what was recorded\<close>

definition records :: "(child_event list \<Rightarrow> bool) \<Rightarrow> ('w \<times> child_event list, 'a) prog \<Rightarrow> ('a \<Rightarrow> child_event list \<Rightarrow> bool)
    \<Rightarrow> (child_event list \<Rightarrow> bool) \<Rightarrow> bool" where
  "records P m Q E \<longleftrightarrow> (\<forall>s. P (snd s) \<longrightarrow> (case m s of (Inl e, s') \<Rightarrow> E (snd s') | (Inr x, s') \<Rightarrow> Q x (snd s')))"

lemma records_bnd:
  "records P m R E \<Longrightarrow> (\<And>x. records (R x) (f x) Q E) \<Longrightarrow> records P (bnd m f) Q E"
  unfolding records_def bnd_def
  by (intro allI impI) (fastforce split: prod.splits sum.splits)

lemma records_ret: "(\<And>l. P l \<Longrightarrow> Q x l) \<Longrightarrow> records P (ret x) Q E"
  by (simp add: records_def)

lemma records_recorded:
  "(\<And>l. P l \<Longrightarrow> E l) \<Longrightarrow> (\<And>l x. P l \<Longrightarrow> Q x (l @ event x)) \<Longrightarrow> records P (recorded event m) Q E"
  by (auto simp: records_def recorded_def split: prod.splits sum.splits)

lemma records_weaken: "records P m Q E \<Longrightarrow> (\<And>l. P' l \<Longrightarrow> P l) \<Longrightarrow> records P' m Q E"
  by (simp add: records_def)

lemma recording_sel [simp]:
  "os_popen (recording os) argv cwd pipe env = recorded
      (\<lambda>r. case r of Executable_missing \<Rightarrow> [] | Child pid \<Rightarrow> [Spawned argv cwd env pid]) (os_popen os argv cwd pipe env)"
  "os_communicate (recording os) pid stdin t = recorded
      (\<lambda>r. case r of None \<Rightarrow> [Overdue pid] | Some _ \<Rightarrow> [Finished pid]) (os_communicate os pid stdin t)"
  "os_collect (recording os) pid = recorded (\<lambda>_. []) (os_collect os pid)"
  "os_returncode (recording os) pid = recorded (\<lambda>_. []) (os_returncode os pid)"
  "os_killpg (recording os) pid sig = recorded (\<lambda>found. [Signalled pid sig found]) (os_killpg os pid sig)"
  "os_wait (recording os) pid t2 = recorded (\<lambda>ended. [Waited pid ended]) (os_wait os pid t2)"
  "os_perf_counter (recording os) = recorded (\<lambda>_. []) (os_perf_counter os)"
  by (simp_all add: recording_def)

lemma begun: "begun_ending pid []"
  "begun_ending pid [Signalled pid SIGTERM found]" "begun_ending pid [Signalled pid SIGTERM True, Waited pid ended]"
  "begun_ending pid [Signalled pid SIGTERM True, Waited pid False, Signalled pid SIGKILL found]"
  "begun_ending pid [Signalled pid SIGTERM True, Waited pid False, Signalled pid SIGKILL True, Waited pid ended]"
  unfolding begun_ending_def endings_def
      apply auto
  done

lemma begun_if_ending: "e \<in> endings pid \<Longrightarrow> begun_ending pid e"
  by (auto simp: begun_ending_def)

abbreviation term_sent :: "child_event list \<Rightarrow> int \<Rightarrow> child_event list" where
  "term_sent pre pid \<equiv> pre @ [Signalled pid SIGTERM True, Waited pid False]"

lemma kill_step:
  "records (\<lambda>l. l = term_sent pre pid) (end_group (recording os) pid [SIGKILL])
     (\<lambda>_ l. \<exists>e\<in>endings pid. l = pre @ e) (\<lambda>l. \<exists>e. l = pre @ e \<and> begun_ending pid e)"
  unfolding end_group.simps recording_sel
proof (rule records_bnd [where R = "\<lambda>found l. l = term_sent pre pid @ [Signalled pid SIGKILL found]"])
  show "records (\<lambda>l. l = term_sent pre pid) (recorded (\<lambda>found. [Signalled pid SIGKILL found]) (os_killpg os pid SIGKILL))
      (\<lambda>found l. l = term_sent pre pid @ [Signalled pid SIGKILL found]) (\<lambda>l. \<exists>e. l = pre @ e \<and> begun_ending pid e)"
    by (rule records_recorded) (simp_all add: begun(3))
  show "records (\<lambda>l. l = term_sent pre pid @ [Signalled pid SIGKILL found])
     (if \<not> found then ret ()
      else bnd (recorded (\<lambda>ended. [Waited pid ended]) (os_wait os pid TERMINATE_GRACE_SECONDS)) (\<lambda>ended. if ended then ret () else ret ()))
     (\<lambda>_ l. \<exists>e\<in>endings pid. l = pre @ e) (\<lambda>l. \<exists>e. l = pre @ e \<and> begun_ending pid e)" for found
  proof (cases found)
    case True
    have "records (\<lambda>l. l = term_sent pre pid @ [Signalled pid SIGKILL True])
       (recorded (\<lambda>ended. [Waited pid ended]) (os_wait os pid TERMINATE_GRACE_SECONDS))
       (\<lambda>ended l. \<exists>e\<in>endings pid. l = pre @ e) (\<lambda>l. \<exists>e. l = pre @ e \<and> begun_ending pid e)"
      by (rule records_recorded) (simp_all add: begun(4), auto simp: endings_def)
    then show ?thesis using True by (auto intro!: records_bnd records_ret)
  qed (simp add: records_def endings_def)
qed

lemma end_group_step:
  "records (\<lambda>l. l = pre) (terminate_process_group (recording os) pid)
     (\<lambda>_ l. \<exists>e\<in>endings pid. l = pre @ e) (\<lambda>l. \<exists>e. l = pre @ e \<and> begun_ending pid e)"
  unfolding terminate_process_group_def end_group.simps(2) [of _ _ SIGTERM] recording_sel
proof (rule records_bnd [where R = "\<lambda>found l. l = pre @ [Signalled pid SIGTERM found]"])
  let ?Q = "\<lambda>_ l. \<exists>e\<in>endings pid. l = pre @ e" and ?E = "\<lambda>l. \<exists>e. l = pre @ e \<and> begun_ending pid e"
  show "records (\<lambda>l. l = pre) (recorded (\<lambda>found. [Signalled pid SIGTERM found]) (os_killpg os pid SIGTERM))
      (\<lambda>found l. l = pre @ [Signalled pid SIGTERM found]) ?E"
    by (rule records_recorded) (simp_all add: begun(1))
  show "records (\<lambda>l. l = pre @ [Signalled pid SIGTERM found])
     (if \<not> found then ret ()
      else bnd (recorded (\<lambda>ended. [Waited pid ended]) (os_wait os pid TERMINATE_GRACE_SECONDS))
        (\<lambda>ended. if ended then ret () else end_group (recording os) pid [SIGKILL])) ?Q ?E" for found
  proof (cases found)
    case True
    have wait: "records (\<lambda>l. l = pre @ [Signalled pid SIGTERM True])
       (recorded (\<lambda>ended. [Waited pid ended]) (os_wait os pid TERMINATE_GRACE_SECONDS))
       (\<lambda>ended l. l = pre @ [Signalled pid SIGTERM True, Waited pid ended]) ?E"
      by (rule records_recorded) (simp_all add: begun(2))
    have "records (\<lambda>l. l = pre @ [Signalled pid SIGTERM True, Waited pid ended])
       (if ended then ret () else end_group (recording os) pid [SIGKILL]) ?Q ?E" for ended
    proof (cases ended)
      case False
      then show ?thesis using kill_step [of pre pid os] by simp
    qed (simp add: records_def endings_def)
    then show ?thesis using True by (auto intro: records_bnd [OF wait])
  qed (simp add: records_def endings_def)
qed

section \<open>The whole run\<close>

text \<open>What a run leaves behind: nothing, a process that ended by itself, or one whose group was ended.\<close>

definition run_record :: "string list \<Rightarrow> path \<Rightarrow> environment option \<Rightarrow> child_event list \<Rightarrow> bool" where
  "run_record argv cwd env l \<longleftrightarrow>
     l = [] \<or> (\<exists>pid rest. l = Spawned argv cwd env pid # rest
       \<and> (rest = [] \<or> rest = [Finished pid] \<or> (\<exists>e. rest = Overdue pid # e \<and> begun_ending pid e)))"

lemma run_records:
  "records (\<lambda>l. l = []) (subprocess_run (recording os) argv cwd t stdin env)
     (\<lambda>r l. case r of
        None \<Rightarrow> l = []
      | Some (p, d) \<Rightarrow> (\<exists>pid. if pr_timed_out p
          then pr_returncode p = None \<and> (\<exists>e\<in>endings pid. l = [Spawned argv cwd env pid, Overdue pid] @ e)
          else l = [Spawned argv cwd env pid, Finished pid]))
     (run_record argv cwd env)" (is "records _ _ ?Q ?E")
  unfolding subprocess_run_def recording_sel
proof (rule records_bnd [where R = "\<lambda>_ l. l = []"])
  show "records (\<lambda>l. l = []) (recorded (\<lambda>_. []) (os_perf_counter os)) (\<lambda>_ l. l = []) ?E"
    by (rule records_recorded) (simp_all add: run_record_def)
  fix started
  let ?R = "\<lambda>r l. l = (case r of Executable_missing \<Rightarrow> [] | Child pid \<Rightarrow> [Spawned argv cwd env pid])"
  let ?C = "\<lambda>pid r l. l = [Spawned argv cwd env pid, case r of None \<Rightarrow> Overdue pid | Some _ \<Rightarrow> Finished pid]"
  have overdue: "records (\<lambda>l. \<exists>e\<in>endings pid. l = [Spawned argv cwd env pid, Overdue pid] @ e) (recorded (\<lambda>_. []) m)
      (\<lambda>_ l. \<exists>e\<in>endings pid. l = [Spawned argv cwd env pid, Overdue pid] @ e) ?E" for pid and m :: "('a, 'b) prog"
    by (rule records_recorded) (auto simp: run_record_def dest: begun_if_ending)
  have finished: "records (\<lambda>l. l = [Spawned argv cwd env pid, Finished pid]) (recorded (\<lambda>_. []) m)
      (\<lambda>_ l. l = [Spawned argv cwd env pid, Finished pid]) ?E" for pid and m :: "('a, 'b) prog"
    by (rule records_recorded) (auto simp: run_record_def)
  have ended: "records (\<lambda>l. l = [Spawned argv cwd env pid, Overdue pid]) (terminate_process_group (recording os) pid)
      (\<lambda>_ l. \<exists>e\<in>endings pid. l = [Spawned argv cwd env pid, Overdue pid] @ e) ?E" for pid
    using end_group_step [of "[Spawned argv cwd env pid, Overdue pid]" os pid]
    by (fastforce simp: records_def run_record_def split: prod.splits sum.splits)
  let ?late = "\<lambda>pid. bnd (terminate_process_group (recording os) pid) (\<lambda>_.
     bnd (recorded (\<lambda>_. []) (os_collect os pid)) (\<lambda>texts.
     bnd (recorded (\<lambda>_. []) (os_perf_counter os)) (\<lambda>now.
     ret (Some (\<lparr>pr_returncode = None, pr_stdout = fst texts, pr_stderr = snd texts, pr_timed_out = True\<rparr>, now - started)))))"
  let ?done = "\<lambda>pid texts. bnd (recorded (\<lambda>_. []) (os_returncode os pid)) (\<lambda>code.
     bnd (recorded (\<lambda>_. []) (os_perf_counter os)) (\<lambda>now.
     ret (Some (\<lparr>pr_returncode = code, pr_stdout = fst texts, pr_stderr = snd texts, pr_timed_out = False\<rparr>, now - started))))"
  have late: "records (?C pid None) (?late pid) ?Q ?E" for pid
    by (simp, rule records_bnd [OF ended], rule records_bnd [OF overdue], rule records_bnd [OF overdue], rule records_ret) auto
  have in_time: "records (?C pid (Some y)) (?done pid texts) ?Q ?E" for pid texts y
    by (simp, rule records_bnd [OF finished], rule records_bnd [OF finished], rule records_ret) auto
  have child: "records (?R (Child pid))
     (bnd (recorded (\<lambda>r. case r of None \<Rightarrow> [Overdue pid] | Some _ \<Rightarrow> [Finished pid]) (os_communicate os pid stdin t))
        (\<lambda>finished. case finished of None \<Rightarrow> ?late pid | Some texts \<Rightarrow> ?done pid texts)) ?Q ?E" for pid
  proof (rule records_bnd [where R = "?C pid"])
    show "records (?R (Child pid)) (recorded (\<lambda>r. case r of None \<Rightarrow> [Overdue pid] | Some _ \<Rightarrow> [Finished pid]) (os_communicate os pid stdin t))
        (?C pid) ?E"
      by (rule records_recorded) (auto simp: run_record_def split: option.splits)
    show "records (?C pid r) (case r of None \<Rightarrow> ?late pid | Some texts \<Rightarrow> ?done pid texts) ?Q ?E" for r
      using late in_time by (cases r) simp_all
  qed
  show "records (\<lambda>l. l = [])
     (bnd (recorded (\<lambda>r. case r of Executable_missing \<Rightarrow> [] | Child pid \<Rightarrow> [Spawned argv cwd env pid]) (os_popen os argv cwd (stdin \<noteq> None) env))
       (\<lambda>process. case process of Executable_missing \<Rightarrow> ret None
          | Child pid \<Rightarrow> bnd (recorded (\<lambda>r. case r of None \<Rightarrow> [Overdue pid] | Some _ \<Rightarrow> [Finished pid]) (os_communicate os pid stdin t))
              (\<lambda>finished. case finished of None \<Rightarrow> ?late pid | Some texts \<Rightarrow> ?done pid texts))) ?Q ?E"
  proof (rule records_bnd [where R = ?R])
    show "records (\<lambda>l. l = []) (recorded (\<lambda>r. case r of Executable_missing \<Rightarrow> [] | Child pid \<Rightarrow> [Spawned argv cwd env pid])
        (os_popen os argv cwd (stdin \<noteq> None) env)) ?R ?E"
      by (rule records_recorded) (simp_all add: run_record_def)
    show "records (?R r) (case r of Executable_missing \<Rightarrow> ret None
          | Child pid \<Rightarrow> bnd (recorded (\<lambda>r. case r of None \<Rightarrow> [Overdue pid] | Some _ \<Rightarrow> [Finished pid]) (os_communicate os pid stdin t))
              (\<lambda>finished. case finished of None \<Rightarrow> ?late pid | Some texts \<Rightarrow> ?done pid texts)) ?Q ?E" for r
      by (cases r) (use child in \<open>simp_all add: records_ret\<close>)
  qed
qed

text \<open>C15. A child process never outlives its time unnoticed. Whatever the operating system does: a run starts at most one process,
  with the given command, directory and environment. When it returns, either the executable is missing and nothing was started, or
  the process ended in time, got no signal and its own exit code is reported, or it was overdue and the result says so, without an exit
  code: then its whole group got SIGTERM and, exactly if it was still there and running after the grace period, SIGKILL.
  Also when the run raises, no other process was signalled and SIGKILL was only sent after SIGTERM.\<close>

theorem overdue_group_ended:
  assumes "subprocess_run (recording os) argv cwd t stdin env (w, []) = (r, (w', l))"
  shows "run_record argv cwd env l \<and>
    (r = Inr None \<longrightarrow> l = []) \<and>
    (\<forall>p d. r = Inr (Some (p, d)) \<longrightarrow> (\<exists>pid. if pr_timed_out p
        then pr_returncode p = None \<and> (\<exists>e\<in>endings pid. l = [Spawned argv cwd env pid, Overdue pid] @ e)
        else l = [Spawned argv cwd env pid, Finished pid]))"
proof -
  have run: "case (r, (w', l)) of (Inl e, s') \<Rightarrow> run_record argv cwd env (snd s') | (Inr x, s') \<Rightarrow>
      (case x of None \<Rightarrow> snd s' = []
       | Some (p, d) \<Rightarrow> (\<exists>pid. if pr_timed_out p
          then pr_returncode p = None \<and> (\<exists>e\<in>endings pid. snd s' = [Spawned argv cwd env pid, Overdue pid] @ e)
          else snd s' = [Spawned argv cwd env pid, Finished pid]))"
    using run_records [of os argv cwd t stdin env] assms unfolding records_def by (metis (no_types, lifting) snd_conv)
  then show ?thesis
    by (auto simp: run_record_def split: sum.splits option.splits if_splits dest: begun_if_ending)
qed

text \<open>A process that ignores SIGTERM.\<close>

definition stubborn :: "unit child_processes" where
  "stubborn = \<lparr>os_popen = (\<lambda>argv cwd pipe env. ret (Child 42)), os_communicate = (\<lambda>pid stdin t. ret None),
     os_collect = (\<lambda>pid. ret ('''', '''')), os_returncode = (\<lambda>pid. ret (Some 0)), os_killpg = (\<lambda>pid sig. ret True),
     os_wait = (\<lambda>pid t. ret False), os_perf_counter = ret 0\<rparr>"

theorem overdue_group_ended_witness:
  "\<exists>pid e. subprocess_run (recording stubborn) [''claude''] \<lparr>path_abs = True, path_parts = []\<rparr> 1 None None ((), []) =
     (Inr (Some (\<lparr>pr_returncode = None, pr_stdout = '''', pr_stderr = '''', pr_timed_out = True\<rparr>, 0)),
      ((), [Spawned [''claude''] \<lparr>path_abs = True, path_parts = []\<rparr> None pid, Overdue pid] @ e)) \<and> e \<in> endings pid"
proof -
  obtain l where run: "subprocess_run (recording stubborn) [''claude''] \<lparr>path_abs = True, path_parts = []\<rparr> 1 None None ((), []) =
     (Inr (Some (\<lparr>pr_returncode = None, pr_stdout = '''', pr_stderr = '''', pr_timed_out = True\<rparr>, 0)), ((), l))"
    by (simp add: subprocess_run_def bnd_def ret_def recorded_def stubborn_def terminate_process_group_def)
  then show ?thesis using overdue_group_ended [OF run] by auto
qed

end
