(* ===== verification/Spec2Isabelle.thy ===== *)
theory Spec2Isabelle
  imports Action_Properties Typed_States Agenda_Properties Claude_Properties OAuth_Properties Gmail_Properties
    Sync_Properties Operator_Properties OAuth_CLI_Properties Pilot_Properties Schema_Properties Process_Runner
begin

text \<open>
  Verification of the velox server (\<open>src/apps/server/src\<close>).

  \<^bold>\<open>The program.\<close> Events and delegated tasks become actions. The permission runtime decides of each action whether it
  may run, must be approved by an operator or is denied. Allowed and approved actions wait in a queue; the worker
  runtime takes them out, routes each to the executor registered for its role, capability and account, observes the
  execution and retries transient failures. Actions on the canonical software engineering route are also recorded in a
  durable run repository (SQLite, or in memory), which gives out exclusive execution claims, and their work products
  are reviewed, kept or discarded and promoted to pull requests; the executor behind that route runs Claude Code in a
  worktree of its own. Beside this core there are the calendar provider with its bounded listings and the agenda of
  tomorrow, the manual synchronisation of single calendar events, the Gmail executor, the OAuth connection of Google
  accounts, the semantic query path and the credential stores, and the command lines with which an operator drives coding
  tasks, runs the live acceptance and the pilot and connects accounts. The container builds all this from the settings, and the
  lifespan of the application installs the live agenda and the local model while it is up.

  \<^bold>\<open>The theories and the code they model\<close> (paths relative to \<open>src/apps/server/src\<close>).
  \<^item> \<open>Velox_Prelude\<close>, \<open>Py_Time\<close>, \<open>Py_Dates\<close>, \<open>Py_Values\<close>: the fragment of Python in use. Text, \<open>Any\<close> values, dictionaries that keep insertion
    order, exceptions as the datatype \<open>exc\<close>, programs \<open>('s, 'a) prog\<close> that return a result or an exception with the
    state at that point, \<open>datetime\<close> and \<open>UUID\<close> with their text forms.
  \<^item> \<open>Store_Interfaces\<close>: the storage contracts, as locales.
  \<^item> \<open>Actions\<close>: \<open>core/actions.py\<close>, \<open>action_lifecycle*.py\<close>, \<open>action_queue.py\<close>, \<open>approvals.py\<close>.
    \<open>Permission\<close>: \<open>core/permission.py\<close>. \<open>Approval\<close>: \<open>core/approval_decisions.py\<close>. \<open>Delegation\<close>: \<open>core/delegation.py\<close>.
  \<^item> \<open>Executor_Registry\<close>: \<open>workers/executor.py\<close>. \<open>Worker_Runtime\<close>: \<open>workers/runtime.py\<close> and the durable observer.
  \<^item> \<open>SE_Work_Product\<close>: \<open>integrations/software_engineering.py\<close> and \<open>software_engineering_work_product.py\<close>.
    \<open>Process_Runner\<close>: the runner of child processes of \<open>software_engineering.py\<close>.
    \<open>SE_State\<close> and \<open>SE_Sqlite\<close>: the in-memory and the SQLite repository of \<open>software_engineering_state.py\<close>;
    \<open>SE_Schema\<close>: how the latter opens its database, with the migrations.
    \<open>SE_Services\<close>: recovery, ingress, disposition, run control and continuation.
    \<open>SE_Promotion\<close>: \<open>software_engineering_promotion.py\<close>, \<open>pull_request.py\<close>, \<open>github_pull_request.py\<close>.
    \<open>Claude_Code\<close>: \<open>integrations/claude_code.py\<close>.
  \<^item> \<open>Events\<close>: \<open>core/events/\<close>, \<open>core/planner.py\<close>, \<open>integrations/calendar_ingress.py\<close>.
  \<^item> \<open>Google_Provider\<close>: \<open>integrations/google_provider.py\<close>. \<open>Calendar_Listing\<close>: \<open>integrations/calendar.py\<close>.
    \<open>Calendar_Agenda\<close>: \<open>integrations/calendar_agenda*.py\<close>, \<open>api/calendar.py\<close>. \<open>Calendar_Sync\<close>:
    \<open>integrations/calendar_manual_sync.py\<close>. \<open>Gmail\<close>: \<open>integrations/gmail.py\<close>.
  \<^item> \<open>Semantic\<close>: \<open>core/semantic.py\<close>, \<open>core/semantic_query.py\<close>, \<open>api/semantic.py\<close>.
    \<open>Credentials\<close>: \<open>core/credentials.py\<close>, \<open>integrations/keyring_credentials.py\<close>. \<open>Google_OAuth\<close>:
    \<open>integrations/google_oauth.py\<close>. \<open>OAuth_CLI\<close>: \<open>integrations/google_oauth_cli.py\<close>.
  \<^item> \<open>Operator_Console\<close>, \<open>Operator_Sessions\<close>: a console (lines typed, lines printed, requests sent) and the rules for what a
    program does with it. \<open>Task_CLI\<close>: \<open>integrations/software_engineering_task_cli.py\<close>. \<open>Acceptance\<close>:
    \<open>integrations/software_engineering_acceptance.py\<close>.
  \<^item> \<open>Server\<close>: the operations of the server as steps on one state, in any order, with restarts.
  \<^item> \<open>Http_Api\<close>: \<open>api/dependencies.py\<close>, \<open>api/tasks.py\<close>, \<open>api/events.py\<close>.
  \<^item> \<open>Composition\<close>: \<open>core/config.py\<close>, \<open>integrations/software_engineering_runtime.py\<close>, \<open>core/container.py\<close>.
    \<open>Lifespan\<close>: \<open>main.py\<close>, \<open>integrations/calendar_agenda_runtime.py\<close>, the constructor of the resolver of
    \<open>integrations/calendar_agenda_ollama.py\<close>. \<open>Pilot\<close>: \<open>integrations/software_engineering_pilot.py\<close>.
  \<^item> \<open>Samples\<close>, \<open>Demo_Run\<close>: concrete values and a concrete run, for the witnesses.

  \<^bold>\<open>State.\<close> The mutable objects of a process are one record that grows with the components: \<open>action_state\<close> (queue,
  lifecycle repository, approval registry), \<open>process_state\<close> (run repository, observations, the world executors act
  on), \<open>server_state\<close> (event store, inbox, event lifecycle). An operation that raises leaves the state as far as it had
  changed it, so partial effects of failing operations are visible to the theorems.

  \<^bold>\<open>Contracts.\<close> \<open>run_repository\<close> (theory \<open>SE_Runs\<close>) specifies the repository by its calls on a mapping from actions to
  run states: a call that returns has the specified effect, one that raises has that effect or none. It is interpreted
  on both repositories; for SQLite this is the refinement proof of \<open>SE_Refinement\<close>. \<open>observed_runtime\<close> says
  what an execution observer may do, \<open>credential_store\<close> what a store of credentials promises, \<open>oauth_store\<close> what connecting an account does to it; the
  queue and store contracts are interpreted on the queue, the inbox, the registry and the lifecycle repository.

  \<^bold>\<open>What is shown.\<close>
  \<^item> Authorization (this theory, over \<open>Authorization\<close> and \<open>Runtime_Safety\<close>): whatever happens, only actions that the
    engine allowed or an operator asked to approve are executed.
  \<^item> The composed application (\<open>Composition_Properties\<close>): with the settings it accepts, a coding task is never run
    unasked; the worker, the review and the promotion share one trusted checkout; the lifespan restores what it replaced.
  \<^item> The run repository (\<open>Run_Properties\<close>): exclusive claims, no second execution, refinement, the row codec. Opening it
    (\<open>Schema_Properties\<close>): the migrations lose nothing and can be interrupted anywhere.
  \<^item> Actions and workers (\<open>Action_Properties\<close>): the lifecycle and permission gates, routing and account isolation,
    conclusion of every attempt and bounded retries, unless the run repository refuses a record.
  \<^item> Services (\<open>Service_Properties\<close>, \<open>Continuation_Properties\<close>, \<open>Promotion_Properties\<close>): decisions are all or nothing,
    delegation outcomes, a continuation needs a free durable claim, events are processed once and failed ones can be
    replayed, promotions are guarded and happen at most once.
  \<^item> The coding worker (\<open>Claude_Properties\<close>): a run is never repeated automatically, success is verified, the process
    is only called within the executor's authority; a process whose time is over is ended with its group (\<open>Process_Runner\<close>).
  \<^item> HTTP (\<open>Api_Properties\<close>): a request without the token or with an invalid body does nothing, any other has the effect of
    the operation of its route, at most one step of the server; the errors of the task routes are a fixed list.
  \<^item> Stores (\<open>Typed_States\<close>): every lifecycle state a reachable server holds is valid.
  \<^item> Providers (\<open>Calendar_Properties\<close>, \<open>Agenda_Properties\<close>, \<open>Google_Provider\<close>, \<open>Semantic\<close>): listings are complete and
    bounded, the agenda covers the next local day, tokens and accounts stay apart, only declared and allowed intents
    are dispatched.
  \<^item> Credentials (\<open>Credentials\<close>, \<open>OAuth_Properties\<close>): stored credentials are never replaced silently; connecting stores
    a grant only for the verified account, and what it stored is what later requests use (if the account has no white space around
    it, which connecting does not check); the verify command reports
    success exactly for what the server would accept (\<open>OAuth_CLI_Properties\<close>).
  \<^item> Command lines (\<open>Operator_Properties\<close>): whatever the server answers, nothing is approved, kept, discarded or promoted
    before the operator has typed it, and the API token leaves only in the header. The pilot, which works in the process of
    the server, needs the operator in the same way (\<open>Pilot_Properties\<close>).
  \<^item> \<open>Sync_Properties\<close>, \<open>Gmail_Properties\<close>: a manual synchronisation from the answer of the provider to the planned
    action; the messages sent are those of the complete send requests.

  \<^bold>\<open>Parameters.\<close> What is not the repository's code is an argument: executors, planners, classifiers and engines (any
  function, which may raise), the host with git and the GitHub CLI, the process
  runner of the coding worker, the processes of the operating system, the expansion of home directories, the reading of
  settings from the environment, the time-zone database, the HTTP clients, argparse and the URL parser, the keyring backend, google-auth with
  its consent flow and the verifier of identity tokens, SHA-256, JSON decoding and encoding, \<open>model_dump\<close> of the
  validation library, \<open>str\<close> of containers and floats, the clocks. Each transaction of the database may be served, be
  refused a connection or fail; an operation of several transactions can fail after the first one was committed.

  \<^bold>\<open>Termination.\<close> The loops of the program are total functions: the walk over pages and the invocation loop by the
  bound the code gives them, the retry loop by the retry counter of the action. No fuel is used.

  \<^bold>\<open>Not modelled.\<close> Threads: an operation runs to its end before the next one starts (the SQLite theorems
  consider arbitrary interleavings of whole calls). Log output and its configuration. Creating the directory of the database and
  its file permissions. The process-wide instances of settings and container, and the parsing and dispatch of HTTP requests,
  which are FastAPI.
\<close>

section \<open>Authorization\<close>

text \<open>C1. No execution without authorization, on the SQLite repository: from a server with empty stores, after any
  sequence of accepted and processed events, delegations, approvals, rejections, worker attempts, continuations,
  reconciliations, dispositions, promotions and restarts, with any executors, engines and outcomes, database failures
  included, every action whose execution was started had been allowed by the permission engine or had been asked
  to be approved; and so had every action the database holds as approved.\<close>

theorem executions_authorized:
  assumes "server_reachable cf s0 (s, G)" "cf_ops cf = sqlite_ops" "local_stores_empty s0"
    and "db_inv (run_repository s0)" "\<forall>i. sq_view (run_repository s0) i = None"
  shows "set (execution_log s) \<subseteq> G \<and> (\<forall>i. durably_approved (sq_view (run_repository s) i) \<longrightarrow> i \<in> G)"
  using sq.authorized_executions [OF assms(1-4)] assms(5) by blast

theorem executions_authorized_witness:
  "\<exists>s G. server_reachable demo_config demo_start (s, G) \<and> execution_log s = [7] \<and> set (execution_log s) \<subseteq> G"
  using executions_authorized [OF demo_reachable demo_initial(1,2)] demo_worked demo_reachable demo_initial(3)
  by (intro exI conjI) auto

end
